(* ===== verification/XB_Prelude.thy ===== *)
theory XB_Prelude
  imports Main "HOL-Library.AList"
begin

text \<open>
  The shared vocabulary of the development.

  \<^item> Python dictionaries: insertion-ordered association lists with the operations the
    sources use (\<open>d.get(k)\<close>, \<open>d[k] = v\<close>, \<open>d.update(e)\<close> and \<open>d | e\<close>),
    the well-formedness predicate \<open>dict_ok\<close> (no key twice), and the locale
    \<open>dict_ops\<close> of the laws the configuration code relies on.
  \<^item> Python strings: \<open>split\<close>, \<open>join\<close>, \<open>startswith\<close>, \<open>replace\<close>,
    \<open>strip\<close>, \<open>splitlines\<close>, decimal printing and reading.
  \<^item> Effects: \<open>('w, 'e, 'a) io\<close> is a computation over a world \<open>'w\<close> that returns
    or raises, with sequencing, \<open>try/except\<close>, iteration, and the rules that carry an
    invariant of the world through every one of them.
\<close>

named_theorems io_inv_intros \<open>an invariant of the world is kept by a computation\<close>
named_theorems io_defs \<open>unfolding of the effect combinators\<close>
named_theorems py_str \<open>evaluation of the string operations\<close>

section \<open>Dictionaries\<close>

type_synonym ('k, 'v) dict = "('k \<times> 'v) list"

definition dict_ok :: "('k, 'v) dict \<Rightarrow> bool" where
  "dict_ok d \<longleftrightarrow> distinct (map fst d)"

abbreviation dget :: "('k, 'v) dict \<Rightarrow> 'k \<Rightarrow> 'v option" where
  "dget d k \<equiv> map_of d k"

definition dget_default :: "('k, 'v) dict \<Rightarrow> 'k \<Rightarrow> 'v \<Rightarrow> 'v" where
  "dget_default d k v = (case dget d k of None \<Rightarrow> v | Some x \<Rightarrow> x)"

abbreviation dset :: "('k, 'v) dict \<Rightarrow> 'k \<Rightarrow> 'v \<Rightarrow> ('k, 'v) dict" where
  "dset d k v \<equiv> AList.update k v d"

text \<open>\<open>a.update(b)\<close>, and also the value of \<open>a | b\<close>: the entries of \<open>b\<close> one by one.\<close>

fun dict_update :: "('k, 'v) dict \<Rightarrow> ('k, 'v) dict \<Rightarrow> ('k, 'v) dict" where
  "dict_update a [] = a"
| "dict_update a ((k, v) # b) = dict_update (dset a k v) b"

definition dkeys :: "('k, 'v) dict \<Rightarrow> 'k list" where
  "dkeys d = map fst d"

definition dvalues :: "('k, 'v) dict \<Rightarrow> 'v list" where
  "dvalues d = map snd d"

lemma dict_ok_Nil [simp, intro]: "dict_ok []"
  by (simp add: dict_ok_def)

lemma dict_ok_Cons [simp]: "dict_ok ((k, v) # d) \<longleftrightarrow> k \<notin> fst ` set d \<and> dict_ok d"
  by (simp add: dict_ok_def)

lemma dict_ok_dset [simp, intro]: "dict_ok d \<Longrightarrow> dict_ok (dset d k v)"
  unfolding dict_ok_def by (rule distinct_update)

lemma dict_ok_update [simp, intro]: "dict_ok a \<Longrightarrow> dict_ok (dict_update a b)"
  by (induction a b rule: dict_update.induct) auto

lemma dget_dset [simp]: "dget (dset d k v) k' = (if k' = k then Some v else dget d k')"
  by (simp add: update_conv')

lemma dget_in_keys: "dget d k = Some v \<Longrightarrow> k \<in> fst ` set d"
  by (force dest: map_of_SomeD)

lemma dget_None_iff: "dget d k = None \<longleftrightarrow> k \<notin> fst ` set d"
  by (simp add: map_of_eq_None_iff)

lemma keys_dset [simp]: "fst ` set (dset d k v) = insert k (fst ` set d)"
  by (simp add: dom_update)

lemma keys_dict_update [simp]: "fst ` set (dict_update a b) = fst ` set a \<union> fst ` set b"
  by (induction a b rule: dict_update.induct) auto

lemma dget_dict_update [simp]:
  "dict_ok b \<Longrightarrow> dget (dict_update a b) k = (case dget b k of None \<Rightarrow> dget a k | Some v \<Rightarrow> Some v)"
proof (induction a b rule: dict_update.induct)
  case (2 a k' v b)
  then have "dget b k' = None" by (simp add: dget_None_iff)
  with 2 show ?case by (cases "k = k'") (simp_all split: option.splits)
qed simp

lemma dget_ok_mem: "dict_ok d \<Longrightarrow> (k, v) \<in> set d \<longleftrightarrow> dget d k = Some v"
  by (simp add: dict_ok_def)

lemma dset_same_keys: "k \<in> fst ` set d \<Longrightarrow> map fst (dset d k v) = map fst d"
  by (induction d) auto

lemma dset_new: "k \<notin> fst ` set d \<Longrightarrow> dset d k v = d @ [(k, v)]"
  by (induction d) auto

lemma dict_update_Nil_left: "dict_ok b \<Longrightarrow> dict_update [] b = b"
proof -
  have "dict_ok (a @ b) \<Longrightarrow> dict_update a b = a @ b" for a
  proof (induction a b rule: dict_update.induct)
    case (2 a k v b)
    then have "k \<notin> fst ` set a" and "dict_ok ((a @ [(k, v)]) @ b)"
      by (auto simp: dict_ok_def)
    with 2 show ?case by (simp add: dset_new)
  qed simp
  from this [of "[]"] show "dict_ok b \<Longrightarrow> dict_update [] b = b" by simp
qed

text \<open>
  The contract of a dictionary as the configuration code uses it: what a lookup gives after
  a store and after a merge, and that both keep the invariant.
\<close>

locale dict_ops =
  fixes get :: "'d \<Rightarrow> 'k \<Rightarrow> 'v option"
    and put :: "'d \<Rightarrow> 'k \<Rightarrow> 'v \<Rightarrow> 'd"
    and merge :: "'d \<Rightarrow> 'd \<Rightarrow> 'd"
    and ok :: "'d \<Rightarrow> bool"
  assumes get_put: "get (put d k v) k' = (if k' = k then Some v else get d k')"
    and get_merge: "ok b \<Longrightarrow>
      get (merge a b) k = (case get b k of None \<Rightarrow> get a k | Some v \<Rightarrow> Some v)"
    and ok_put: "ok d \<Longrightarrow> ok (put d k v)"
    and ok_merge: "ok a \<Longrightarrow> ok (merge a b)"
begin

lemma merge_right_wins: "ok b \<Longrightarrow> get b k = Some v \<Longrightarrow> get (merge a b) k = Some v"
  by (simp add: get_merge)

lemma merge_left_kept: "ok b \<Longrightarrow> get b k = None \<Longrightarrow> get (merge a b) k = get a k"
  by (simp add: get_merge)

lemma merge_assoc:
  "ok b \<Longrightarrow> ok c \<Longrightarrow> get (merge a (merge b c)) k = get (merge (merge a b) c) k"
  by (simp add: get_merge ok_merge split: option.splits)

lemma merge_idem: "ok a \<Longrightarrow> get (merge a a) k = get a k"
  by (simp add: get_merge split: option.splits)

lemma merge_put:
  "ok b \<Longrightarrow> get (merge a (put b k v)) k' = get (put (merge a b) k v) k'"
  by (simp add: get_merge get_put ok_put)

end

interpretation py_dict: dict_ops "\<lambda>d k. dget d k" "\<lambda>d k v. dset d k v" dict_update dict_ok
  by unfold_locales auto

section \<open>Strings\<close>

definition join :: "string \<Rightarrow> string list \<Rightarrow> string" where
  "join sep xs = (case xs of [] \<Rightarrow> [] | y # ys \<Rightarrow> y @ concat (map (\<lambda>s. sep @ s) ys))"

text \<open>\<open>s.split(c)\<close> for a one-character separator: always at least one piece.\<close>

fun split_on :: "char \<Rightarrow> string \<Rightarrow> string list" where
  "split_on c [] = [[]]"
| "split_on c (x # xs) =
     (if x = c then [] # split_on c xs
      else (case split_on c xs of [] \<Rightarrow> [[x]] | p # ps \<Rightarrow> (x # p) # ps))"

text \<open>\<open>s.split(c, 1)\<close> where \<open>c\<close> occurs: the part before the first \<open>c\<close> and the rest.\<close>

fun split_first :: "char \<Rightarrow> string \<Rightarrow> (string \<times> string) option" where
  "split_first c [] = None"
| "split_first c (x # xs) =
     (if x = c then Some ([], xs)
      else map_option (\<lambda>(a, b). (x # a, b)) (split_first c xs))"

definition startswith :: "string \<Rightarrow> string \<Rightarrow> bool" where
  "startswith s p \<longleftrightarrow> take (length p) s = p"

text \<open>\<open>s.replace(old, new)\<close> for a non-empty \<open>old\<close>: leftmost, non-overlapping.\<close>

function replace_all :: "string \<Rightarrow> string \<Rightarrow> string \<Rightarrow> string" where
  "replace_all old new s =
     (if old = [] then s
      else (case s of [] \<Rightarrow> []
            | x # xs \<Rightarrow>
                if startswith s old then new @ replace_all old new (drop (length old) s)
                else x # replace_all old new xs))"
  by pat_completeness auto
termination
  by (relation "measure (\<lambda>(old, new, s). length s)") auto

declare replace_all.simps [simp del]

fun contains_str :: "string \<Rightarrow> string \<Rightarrow> bool" where
  "contains_str [] p = (p = [])"
| "contains_str (x # xs) p = (startswith (x # xs) p \<or> contains_str xs p)"

definition is_digit :: "char \<Rightarrow> bool" where
  "is_digit c \<longleftrightarrow> c \<in> set ''0123456789''"

definition is_lower :: "char \<Rightarrow> bool" where
  "is_lower c \<longleftrightarrow> c \<in> set ''abcdefghijklmnopqrstuvwxyz''"

text \<open>
  A \<open>char\<close> stands for a code point below 256. \<open>str.strip\<close> removes the characters
  Python counts as white space, and \<open>str.splitlines\<close> breaks lines at more than the newline.
\<close>

definition is_space :: "char \<Rightarrow> bool" where
  "is_space c \<longleftrightarrow> c \<in> {CHR 0x09, CHR 0x0A, CHR 0x0B, CHR 0x0C, CHR 0x0D, CHR 0x1C, CHR 0x1D,
     CHR 0x1E, CHR 0x1F, CHR 0x20, CHR 0x85, CHR 0xA0}"

abbreviation newline :: char where "newline \<equiv> CHR 0x0A"

definition is_linebreak :: "char \<Rightarrow> bool" where
  "is_linebreak c \<longleftrightarrow> c \<in> {CHR 0x0A, CHR 0x0B, CHR 0x0C, CHR 0x0D, CHR 0x1C, CHR 0x1D, CHR 0x1E, CHR 0x85}"

definition lstrip :: "string \<Rightarrow> string" where
  "lstrip s = dropWhile is_space s"

definition strip :: "string \<Rightarrow> string" where
  "strip s = rev (lstrip (rev (lstrip s)))"

text \<open>\<open>s.splitlines()\<close>: a carriage return and the newline after it are one break.\<close>

fun splitlines :: "string \<Rightarrow> string list" where
  "splitlines [] = []"
| "splitlines (x # xs) =
     (if is_linebreak x then
        [] # splitlines (if x = CHR 0x0D \<and> xs \<noteq> [] \<and> hd xs = newline then tl xs else xs)
      else (case splitlines xs of [] \<Rightarrow> [[x]] | p # ps \<Rightarrow> (x # p) # ps))"

text \<open>\<open>os.path.join(a, b)\<close> and the head of \<open>os.path.split(p)\<close>.\<close>

definition path_join :: "string \<Rightarrow> string \<Rightarrow> string" where
  "path_join a b =
     (if startswith b ''/'' then b
      else if a = [] \<or> last a = CHR ''/'' then a @ b
      else a @ ''/'' @ b)"

definition path_head :: "string \<Rightarrow> string" where
  "path_head p =
     (let head = rev (dropWhile (\<lambda>c. c \<noteq> CHR ''/'') (rev p)) in
      if list_all (\<lambda>c. c = CHR ''/'') head then head
      else rev (dropWhile (\<lambda>c. c = CHR ''/'') (rev head)))"

subsection \<open>Decimal numbers\<close>

definition digit_chars :: string where
  "digit_chars = ''0123456789''"

fun str_nat :: "nat \<Rightarrow> string" where
  "str_nat n = (if n < 10 then [digit_chars ! n] else str_nat (n div 10) @ [digit_chars ! (n mod 10)])"

declare str_nat.simps [simp del]

definition str_int :: "int \<Rightarrow> string" where
  "str_int i = (if i < 0 then CHR ''-'' # str_nat (nat (- i)) else str_nat (nat i))"

fun index_of :: "'a \<Rightarrow> 'a list \<Rightarrow> nat" where
  "index_of c [] = 0"
| "index_of c (x # xs) = (if x = c then 0 else Suc (index_of c xs))"

definition digit_val :: "char \<Rightarrow> nat" where
  "digit_val c = index_of c digit_chars"

definition nat_of_digits :: "string \<Rightarrow> nat" where
  "nat_of_digits s = foldl (\<lambda>n c. 10 * n + digit_val c) 0 s"

lemma index_of_nth: "distinct xs \<Longrightarrow> i < length xs \<Longrightarrow> index_of (xs ! i) xs = i"
  by (induction xs arbitrary: i) (auto simp: nth_Cons split: nat.splits)

lemma digit_val_nth: "n < 10 \<Longrightarrow> digit_val (digit_chars ! n) = n"
  unfolding digit_val_def
  by (rule index_of_nth) (auto simp: digit_chars_def)

lemma is_digit_nth: "n < 10 \<Longrightarrow> is_digit (digit_chars ! n)"
proof -
  assume "n < 10"
  then have "digit_chars ! n \<in> set digit_chars"
    by (intro nth_mem) (simp add: digit_chars_def)
  then show ?thesis by (simp add: is_digit_def digit_chars_def)
qed

lemma nat_of_digits_snoc: "nat_of_digits (s @ [c]) = 10 * nat_of_digits s + digit_val c"
  by (simp add: nat_of_digits_def)

lemma nat_of_digits_str_nat [simp]: "nat_of_digits (str_nat n) = n"
proof (induction n rule: str_nat.induct)
  case (1 n)
  show ?case
  proof (cases "n < 10")
    case True
    then show ?thesis
      by (simp add: str_nat.simps [of n] nat_of_digits_def digit_val_nth)
  next
    case False
    with 1 show ?thesis
      by (simp add: str_nat.simps [of n] nat_of_digits_snoc digit_val_nth)
  qed
qed

lemma str_nat_inject [simp]: "str_nat m = str_nat n \<longleftrightarrow> m = n"
  by (metis nat_of_digits_str_nat)

lemma str_nat_digits: "c \<in> set (str_nat n) \<Longrightarrow> is_digit c"
proof (induction n rule: str_nat.induct)
  case (1 n)
  then show ?case
    by (cases "n < 10") (auto simp: str_nat.simps [of n] is_digit_nth)
qed

lemma str_nat_not_Nil [simp]: "str_nat n \<noteq> []"
  by (subst str_nat.simps) simp

subsection \<open>Splitting and joining\<close>

lemma join_Nil [simp]: "join sep [] = []"
  by (simp add: join_def)

lemma join_single [simp]: "join sep [x] = x"
  by (simp add: join_def)

lemma join_Cons: "xs \<noteq> [] \<Longrightarrow> join sep (x # xs) = x @ sep @ join sep xs"
  by (cases xs) (simp_all add: join_def)

lemma split_on_not_Nil [simp]: "split_on c s \<noteq> []"
  by (induction s) (auto split: list.splits)

lemma split_on_no_sep: "c \<notin> set s \<Longrightarrow> split_on c s = [s]"
  by (induction s) auto

lemma split_on_append:
  "c \<notin> set a \<Longrightarrow> split_on c (a @ c # b) = a # split_on c b"
  by (induction a) auto

text \<open>\<open>c.join(xs).split(c) == xs\<close> for a non-empty list of pieces without the separator.\<close>

lemma split_on_join:
  "xs \<noteq> [] \<Longrightarrow> \<forall>x \<in> set xs. c \<notin> set x \<Longrightarrow> split_on c (join [c] xs) = xs"
proof (induction xs)
  case (Cons x xs)
  then show ?case
    by (cases "xs = []") (auto simp: join_Cons split_on_no_sep split_on_append)
qed simp

lemma split_on_pieces: "p \<in> set (split_on c s) \<Longrightarrow> c \<notin> set p"
  by (induction s arbitrary: p) (auto split: list.splits if_splits)

lemma join_split_on: "join [c] (split_on c s) = s"
proof (induction s)
  case (Cons x xs)
  obtain p ps where ps: "split_on c xs = p # ps"
    by (cases "split_on c xs") auto
  with Cons show ?case
    by (cases ps) (auto simp: join_Cons join_def)
qed simp

lemma split_first_None: "split_first c s = None \<longleftrightarrow> c \<notin> set s"
  by (induction s) auto

lemma split_first_Some:
  "split_first c s = Some (a, b) \<longleftrightarrow> s = a @ c # b \<and> c \<notin> set a"
proof (induction s arbitrary: a)
  case (Cons x xs)
  show ?case
    by (cases a) (auto simp: Cons.IH)
qed simp

lemma split_first_length: "split_first c s = Some (a, b) \<Longrightarrow> length b < length s"
  by (auto simp: split_first_Some)

subsection \<open>Lines\<close>

lemma splitlines_pieces: "p \<in> set (splitlines s) \<Longrightarrow> c \<in> set p \<Longrightarrow> \<not> is_linebreak c"
proof (induction s arbitrary: p rule: splitlines.induct)
  case (2 x xs)
  show ?case
  proof (cases "is_linebreak x")
    case True
    with 2 show ?thesis by (auto split: if_splits)
  next
    case False
    show ?thesis
    proof (cases "splitlines xs")
      case Nil
      with False 2 show ?thesis by auto
    next
      case (Cons q qs)
      with False 2(2) [OF False] "2.prems" show ?thesis by auto metis+
    qed
  qed
qed simp

lemma splitlines_single:
  "s \<noteq> [] \<Longrightarrow> \<forall>c \<in> set s. \<not> is_linebreak c \<Longrightarrow> splitlines s = [s]"
proof (induction s)
  case (Cons x xs)
  then show ?case by (cases "xs = []") auto
qed simp

lemma splitlines_newline:
  "\<forall>c \<in> set a. \<not> is_linebreak c \<Longrightarrow> splitlines (a @ newline # b) = a # splitlines b"
  by (induction a) (auto simp: is_linebreak_def)

lemma splitlines_join:
  "\<forall>l \<in> set ls. l \<noteq> [] \<and> (\<forall>c \<in> set l. \<not> is_linebreak c) \<Longrightarrow>
     splitlines (join [newline] ls) = ls"
proof (induction ls)
  case (Cons l ls)
  then show ?case
    by (cases "ls = []") (auto simp: join_Cons splitlines_single splitlines_newline)
qed simp

lemma lstrip_Nil [simp]: "lstrip [] = []"
  by (simp add: lstrip_def)

lemma set_lstrip: "set (lstrip s) \<subseteq> set s"
  by (auto simp: lstrip_def dest: set_dropWhileD)

lemma set_strip: "set (strip s) \<subseteq> set s"
  unfolding strip_def set_rev using set_lstrip [of "rev (lstrip s)"] set_lstrip [of s] by simp

lemma lstrip_hd: "lstrip s \<noteq> [] \<Longrightarrow> \<not> is_space (hd (lstrip s))"
  by (simp add: lstrip_def hd_dropWhile)

lemma lstrip_id: "s = [] \<or> \<not> is_space (hd s) \<Longrightarrow> lstrip s = s"
  by (cases s) (auto simp: lstrip_def)

lemma lstrip_snoc: "\<not> is_space c \<Longrightarrow> lstrip (s @ [c]) = lstrip s @ [c]"
  by (induction s) (auto simp: lstrip_def)

text \<open>What \<open>strip\<close> leaves begins and ends with a character that is no white space.\<close>

lemma strip_ends:
  assumes "strip s \<noteq> []"
  shows "\<not> is_space (hd (strip s))" and "\<not> is_space (last (strip s))"
proof -
  let ?t = "lstrip s"
  show "\<not> is_space (last (strip s))"
    using assms lstrip_hd [of "rev ?t"] by (simp add: strip_def last_rev)
  have "?t \<noteq> []"
  proof
    assume "?t = []"
    then have "strip s = []" by (simp add: strip_def)
    with assms show False ..
  qed
  then obtain c t' where t: "?t = c # t'" and c: "\<not> is_space c"
    using lstrip_hd [of s] by (cases ?t) auto
  have "strip s = rev (lstrip (rev t' @ [c]))" by (simp add: strip_def t)
  then show "\<not> is_space (hd (strip s))" using c by (simp add: lstrip_snoc)
qed

lemma strip_id: "s = [] \<or> (\<not> is_space (hd s) \<and> \<not> is_space (last s)) \<Longrightarrow> strip s = s"
  by (cases "s = []") (simp_all add: strip_def lstrip_id hd_rev)

lemma strip_strip [simp]: "strip (strip s) = strip s"
  using strip_ends [of s] by (intro strip_id) auto

text \<open>Prefix tests character by character, for evaluating them on literals.\<close>

lemma startswith_simps:
  "startswith s []" "\<not> startswith [] (p # ps)"
  "startswith (x # xs) (p # ps) \<longleftrightarrow> x = p \<and> startswith xs ps"
  by (simp_all add: startswith_def)

text \<open>A text contains what it is put together from.\<close>

lemma startswith_append [simp]: "startswith (a @ b) a"
  by (simp add: startswith_def)

lemma contains_str_prefix: "startswith s sub \<Longrightarrow> contains_str s sub"
  by (cases s) (auto simp: startswith_def)

lemma contains_str_infix: "contains_str (a @ b @ c) b"
proof (induction a)
  case Nil
  show ?case by (simp add: contains_str_prefix startswith_append)
qed simp

section \<open>Computations with effects and exceptions\<close>

type_synonym ('w, 'e, 'a) io = "'w \<Rightarrow> ('e + 'a) \<times> 'w"

definition io_return :: "'a \<Rightarrow> ('w, 'e, 'a) io" where
  "io_return x w = (Inr x, w)"

definition io_raise :: "'e \<Rightarrow> ('w, 'e, 'a) io" where
  "io_raise e w = (Inl e, w)"

definition io_bind :: "('w, 'e, 'a) io \<Rightarrow> ('a \<Rightarrow> ('w, 'e, 'b) io) \<Rightarrow> ('w, 'e, 'b) io" where
  "io_bind m f w = (case m w of (Inl e, w') \<Rightarrow> (Inl e, w') | (Inr x, w') \<Rightarrow> f x w')"

definition io_seq :: "('w, 'e, 'a) io \<Rightarrow> ('w, 'e, 'b) io \<Rightarrow> ('w, 'e, 'b) io" where
  "io_seq m n = io_bind m (\<lambda>_. n)"

text \<open>\<open>try: m; except sel as e: h(e)\<close>.\<close>

definition io_try ::
  "('w, 'e, 'a) io \<Rightarrow> ('e \<Rightarrow> bool) \<Rightarrow> ('e \<Rightarrow> ('w, 'e, 'a) io) \<Rightarrow> ('w, 'e, 'a) io" where
  "io_try m sel h w =
     (case m w of (Inl e, w') \<Rightarrow> (if sel e then h e w' else (Inl e, w')) | (Inr x, w') \<Rightarrow> (Inr x, w'))"

definition io_modify :: "('w \<Rightarrow> 'w) \<Rightarrow> ('w, 'e, unit) io" where
  "io_modify f w = (Inr (), f w)"

definition io_gets :: "('w \<Rightarrow> 'a) \<Rightarrow> ('w, 'e, 'a) io" where
  "io_gets f w = (Inr (f w), w)"

definition io_lift :: "'e + 'a \<Rightarrow> ('w, 'e, 'a) io" where
  "io_lift r w = (r, w)"

definition io_when :: "bool \<Rightarrow> ('w, 'e, unit) io \<Rightarrow> ('w, 'e, unit) io" where
  "io_when b m = (if b then m else io_return ())"

text \<open>\<open>for x in xs: f(x)\<close>.\<close>

fun io_for :: "'a list \<Rightarrow> ('a \<Rightarrow> ('w, 'e, unit) io) \<Rightarrow> ('w, 'e, unit) io" where
  "io_for [] f = io_return ()"
| "io_for (x # xs) f = io_seq (f x) (io_for xs f)"

text \<open>\<open>[f(x) for x in xs]\<close>.\<close>

fun io_map :: "'a list \<Rightarrow> ('a \<Rightarrow> ('w, 'e, 'b) io) \<Rightarrow> ('w, 'e, 'b list) io" where
  "io_map [] f = io_return []"
| "io_map (x # xs) f = io_bind (f x) (\<lambda>y. io_bind (io_map xs f) (\<lambda>ys. io_return (y # ys)))"

text \<open>
  An object whose attributes change goes along with the world, so that what was changed stays changed when an
  exception is raised: \<open>on_world\<close> leaves the object alone, \<open>upd\<close> changes it.
\<close>

definition on_world :: "('w, 'e, 'a) io \<Rightarrow> ('w \<times> 's, 'e, 'a) io" where
  "on_world m ws = (case m (fst ws) of (x, w') \<Rightarrow> (x, (w', snd ws)))"

definition upd :: "('s \<Rightarrow> 's) \<Rightarrow> ('w \<times> 's, 'e, unit) io" where
  "upd f = io_modify (\<lambda>ws. (fst ws, f (snd ws)))"

declare on_world_def [io_defs] upd_def [io_defs] io_return_def [io_defs] io_raise_def [io_defs] io_bind_def [io_defs]
  io_seq_def [io_defs] io_try_def [io_defs] io_modify_def [io_defs] io_gets_def [io_defs]
  io_lift_def [io_defs] io_when_def [io_defs]

lemma io_bind_return [simp]: "io_bind (io_return x) f = f x"
  by (rule ext) (simp add: io_defs)

lemma io_bind_raise [simp]: "io_bind (io_raise e) f = io_raise e"
  by (rule ext) (simp add: io_defs)

lemma io_bind_assoc: "io_bind (io_bind m f) g = io_bind m (\<lambda>x. io_bind (f x) g)"
  by (rule ext) (simp add: io_defs split: sum.splits prod.splits)

text \<open>\<open>io_keeps I m\<close>: whatever \<open>m\<close> does, raising included, the invariant survives it.\<close>

definition io_keeps :: "('w \<Rightarrow> bool) \<Rightarrow> ('w, 'e, 'a) io \<Rightarrow> bool" where
  "io_keeps I m \<longleftrightarrow> (\<forall>w. I w \<longrightarrow> I (snd (m w)))"

lemma io_keepsI: "(\<And>w. I w \<Longrightarrow> I (snd (m w))) \<Longrightarrow> io_keeps I m"
  by (simp add: io_keeps_def)

lemma io_keepsD: "io_keeps I m \<Longrightarrow> I w \<Longrightarrow> I (snd (m w))"
  by (simp add: io_keeps_def)

lemma io_keeps_return [io_inv_intros]: "io_keeps I (io_return x)"
  by (simp add: io_keeps_def io_defs)

lemma io_keeps_raise [io_inv_intros]: "io_keeps I (io_raise e)"
  by (simp add: io_keeps_def io_defs)

lemma io_keeps_gets [io_inv_intros]: "io_keeps I (io_gets f)"
  by (simp add: io_keeps_def io_defs)

lemma io_keeps_lift [io_inv_intros]: "io_keeps I (io_lift r)"
  by (simp add: io_keeps_def io_defs)

lemma io_keeps_modify: "(\<And>w. I w \<Longrightarrow> I (f w)) \<Longrightarrow> io_keeps I (io_modify f)"
  by (simp add: io_keeps_def io_defs)

lemma io_keeps_bind [io_inv_intros]:
  assumes "io_keeps I m" and "\<And>x. io_keeps I (f x)"
  shows "io_keeps I (io_bind m f)"
proof (rule io_keepsI)
  fix w assume "I w"
  with assms(1) have "I (snd (m w))" by (rule io_keepsD)
  then show "I (snd (io_bind m f w))"
    using assms(2) by (auto simp: io_defs io_keeps_def split: prod.splits sum.splits)
qed

lemma io_keeps_seq [io_inv_intros]:
  "io_keeps I m \<Longrightarrow> io_keeps I n \<Longrightarrow> io_keeps I (io_seq m n)"
  unfolding io_seq_def by (rule io_keeps_bind)

lemma io_keeps_try [io_inv_intros]:
  assumes "io_keeps I m" and "\<And>e. io_keeps I (h e)"
  shows "io_keeps I (io_try m sel h)"
proof (rule io_keepsI)
  fix w assume "I w"
  with assms(1) have "I (snd (m w))" by (rule io_keepsD)
  then show "I (snd (io_try m sel h w))"
    using assms(2) by (auto simp: io_defs io_keeps_def split: prod.splits sum.splits)
qed

lemma io_keeps_when [io_inv_intros]: "io_keeps I m \<Longrightarrow> io_keeps I (io_when b m)"
  by (simp add: io_when_def io_keeps_return)

lemma io_keeps_if [io_inv_intros]:
  "io_keeps I m \<Longrightarrow> io_keeps I n \<Longrightarrow> io_keeps I (if b then m else n)"
  by simp

lemma io_keeps_for [io_inv_intros]:
  "(\<And>x. x \<in> set xs \<Longrightarrow> io_keeps I (f x)) \<Longrightarrow> io_keeps I (io_for xs f)"
  by (induction xs) (auto intro: io_inv_intros)

lemma io_keeps_map [io_inv_intros]:
  "(\<And>x. x \<in> set xs \<Longrightarrow> io_keeps I (f x)) \<Longrightarrow> io_keeps I (io_map xs f)"
  by (induction xs) (auto intro!: io_inv_intros)

lemma io_try_no_raise: "fst (m w) = Inr x \<Longrightarrow> io_try m sel h w = m w"
  by (cases "m w") (simp add: io_defs)

end
