(* ===== verification/XB_Exceptions.thy ===== *)
theory XB_Exceptions
  imports XB_Prelude
begin

text \<open>
  The exceptions of the program. An exception is represented by its class: the messages are
  only logged. \<open>exn_bases\<close> is the class statement of each exception
  (\<^verbatim>\<open>class MultiNodeException(NodeException)\<close>), and \<open>isinstance_exn e c\<close> is
  what \<^verbatim>\<open>except c\<close> tests: \<open>e\<close> is \<open>c\<close> or derives from it.
  The third-party classes the sources catch (asyncssh, asyncio, requests, pymysql, psycopg2, pid) are here
  under their names, with the bases their documentation gives. Classes of the same name in different
  modules have a prefix or suffix (\<open>SkySQLAPIException2\<close> is the one of \<^verbatim>\<open>exceptions2.py\<close>).
  \<open>SkySQLAPINotFound\<close> is a \<open>SkySQLAPIClientException\<close> whose \<open>status_code\<close> is 404, the one
  attribute of an exception that the program looks at.
\<close>

datatype (plugins only: size) exn =
    PyException \<comment> \<open>Python's root of the program-visible errors\<close>
  | PyKeyboardInterrupt | PySystemExit \<comment> \<open>not derived from Exception\<close>
  | PyKeyError | PyIndexError | PyLookupError | PyValueError | PyTypeError | PyAttributeError
  | PyNameError | PySyntaxError | PyRuntimeError | PyNotImplementedError | PyZeroDivisionError
  | PyOSError | PyFileNotFoundError | PyConnectionError | PyConnectionRefusedError
  | PyUnboundLocalError
  | AsyncioTimeoutError | AsyncsshError | AsyncsshTimeoutError
  | SubprocessTimeoutExpired
  | SigTermException | RetryException
  | VaultException | YamlConfigException | XbenchConfigException | FileTemplateException
  | XbenchException
  | SshClientException | SshClientTimeoutException | PsshClientException
  | ShellSSHClientException | ProcessExecutionException | CommandException | TimeoutException
  | NodeException | MultiNodeException | ClusterException
  | CloudException | CloudCliException | CloudComputeException | CloudStorageException
  | ArgumentTypeError
  | DriverException | BackendException | ProxyException
  | BenchmarkException | SysbenchException | SysbenchFatalException
  | SysbenchOutputParseException
  | RequestsConnectionError | RequestsReadTimeout | JSONDecodeError
  | PyMySqlError | PyMySqlProgrammingError | Psycopg2Error | Psycopg2ProgrammingError
  | MySqlClientException | MySqlConnectionException | MySqlInvalidQueryException
  | PgSqlClientException | PgSqlInvalidQueryException
  | BaseMySqlBackendException | BasePgSqlBackendException
  | SkySQLAPIException | SkySQLAPIClientException | SkySQLAPINotFound | SkySQLAPIServerException
  | SkySQLCLoudException
  | SkySQLAPIException2 | SkySQLAPIClientException2 | SkySQLAPIServerException2
  | SkySQLServicePending | SkySQLServiceFailed
  | XpandException | CheckQuorumException
  | AwsCloudException | AwsCliException | AwsAuroraCliException | AwsAuroraCliWaitException | AwsRdsCliException | AwsRdsCliWaitException
  | AwsRdsComputeException | AwsEc2Exception | AwsAuroraComputeException | AwsStorageException | GcpCloudException | GcpCliException
  | GcpStorageException | GcpAlloyDBCloudException | ColoCloudEx | ColoCloudProvisioningEx | PidFileError | PidFileAlreadyLockedError
  | PyRecursionError | ColumnstoreException | MariaDBException | MySqlDBException | RdsMySqlException | AuroraMySqlException
  | AuroraPostgreSqlException | AlloyDBException | ExternalDBException | MaxscaleException | XgresException | SkySQLBackendException
  | SkySQLBackendDBException | MetricsServerException | JinjaUndefinedError

text \<open>The base classes of each class; none for the classes directly below \<open>BaseException\<close>.\<close>

primrec exn_bases :: "exn \<Rightarrow> exn list" where
  "exn_bases PyException = []"
| "exn_bases PyKeyboardInterrupt = []"
| "exn_bases PySystemExit = []"
| "exn_bases PyKeyError = [PyLookupError]"
| "exn_bases PyIndexError = [PyLookupError]"
| "exn_bases PyLookupError = [PyException]"
| "exn_bases PyValueError = [PyException]"
| "exn_bases PyTypeError = [PyException]"
| "exn_bases PyAttributeError = [PyException]"
| "exn_bases PyNameError = [PyException]"
| "exn_bases PySyntaxError = [PyException]"
| "exn_bases PyRuntimeError = [PyException]"
| "exn_bases PyNotImplementedError = [PyRuntimeError]"
| "exn_bases PyZeroDivisionError = [PyException]"
| "exn_bases PyOSError = [PyException]"
| "exn_bases PyFileNotFoundError = [PyOSError]"
| "exn_bases PyConnectionError = [PyOSError]"
| "exn_bases PyConnectionRefusedError = [PyConnectionError]"
| "exn_bases PyUnboundLocalError = [PyNameError]"
| "exn_bases AsyncioTimeoutError = [PyException]"
| "exn_bases AsyncsshError = [PyException]"
| "exn_bases AsyncsshTimeoutError = [AsyncsshError, AsyncioTimeoutError]"
| "exn_bases SubprocessTimeoutExpired = [PyException]"
| "exn_bases SigTermException = [PyException]"
| "exn_bases RetryException = [PyException]"
| "exn_bases VaultException = [PyException]"
| "exn_bases YamlConfigException = [PyException]"
| "exn_bases XbenchConfigException = [PyException]"
| "exn_bases FileTemplateException = [PyException]"
| "exn_bases XbenchException = [PyException]"
| "exn_bases SshClientException = [PyException]"
| "exn_bases SshClientTimeoutException = [SshClientException]"
| "exn_bases PsshClientException = [PyException]"
| "exn_bases ShellSSHClientException = [PyException]"
| "exn_bases ProcessExecutionException = [PyException]"
| "exn_bases CommandException = [ProcessExecutionException]"
| "exn_bases TimeoutException = [ProcessExecutionException]"
| "exn_bases NodeException = [PyException]"
| "exn_bases MultiNodeException = [NodeException]"
| "exn_bases ClusterException = [PyException]"
| "exn_bases CloudException = [PyException]"
| "exn_bases CloudCliException = [CloudException]"
| "exn_bases CloudComputeException = [CloudException]"
| "exn_bases CloudStorageException = [CloudException]"
| "exn_bases ArgumentTypeError = [PyException]"
| "exn_bases DriverException = [PyException]"
| "exn_bases BackendException = [PyException]"
| "exn_bases ProxyException = [PyException]"
| "exn_bases BenchmarkException = [PyException]"
| "exn_bases SysbenchException = [BenchmarkException]"
| "exn_bases SysbenchFatalException = [BenchmarkException]"
| "exn_bases SysbenchOutputParseException = [SysbenchException]"
| "exn_bases RequestsConnectionError = [PyOSError]"
| "exn_bases RequestsReadTimeout = [PyOSError]"
| "exn_bases JSONDecodeError = [PyValueError]"
| "exn_bases PyMySqlError = [PyException]"
| "exn_bases PyMySqlProgrammingError = [PyMySqlError]"
| "exn_bases Psycopg2Error = [PyException]"
| "exn_bases Psycopg2ProgrammingError = [Psycopg2Error]"
| "exn_bases MySqlClientException = [PyException]"
| "exn_bases MySqlConnectionException = [MySqlClientException]"
| "exn_bases MySqlInvalidQueryException = [MySqlClientException]"
| "exn_bases PgSqlClientException = [PyException]"
| "exn_bases PgSqlInvalidQueryException = [PgSqlClientException]"
| "exn_bases BaseMySqlBackendException = [BackendException]"
| "exn_bases BasePgSqlBackendException = [BackendException]"
| "exn_bases SkySQLAPIException = [CloudException]"
| "exn_bases SkySQLAPIClientException = [SkySQLAPIException]"
| "exn_bases SkySQLAPINotFound = [SkySQLAPIClientException]"
| "exn_bases SkySQLAPIServerException = [SkySQLAPIException]"
| "exn_bases SkySQLCLoudException = [PyException]"
| "exn_bases SkySQLAPIException2 = [CloudException]"
| "exn_bases SkySQLAPIClientException2 = [SkySQLAPIException2]"
| "exn_bases SkySQLAPIServerException2 = [SkySQLAPIException2]"
| "exn_bases SkySQLServicePending = [SkySQLAPIException2]"
| "exn_bases SkySQLServiceFailed = [SkySQLAPIException2]"
| "exn_bases XpandException = [BackendException]"
| "exn_bases CheckQuorumException = [XpandException]"
| "exn_bases AwsCloudException = [CloudException]"
| "exn_bases AwsCliException = [CloudCliException]"
| "exn_bases AwsAuroraCliException = [CloudCliException]"
| "exn_bases AwsAuroraCliWaitException = [PyException]"
| "exn_bases AwsRdsCliException = [CloudCliException]"
| "exn_bases AwsRdsCliWaitException = [PyException]"
| "exn_bases AwsRdsComputeException = [CloudComputeException]"
| "exn_bases AwsEc2Exception = [CloudComputeException]"
| "exn_bases AwsAuroraComputeException = [CloudComputeException]"
| "exn_bases AwsStorageException = [CloudStorageException]"
| "exn_bases GcpCloudException = [CloudException]"
| "exn_bases GcpCliException = [CloudCliException]"
| "exn_bases GcpStorageException = [CloudStorageException]"
| "exn_bases GcpAlloyDBCloudException = [GcpCloudException]"
| "exn_bases ColoCloudEx = [CloudException]"
| "exn_bases ColoCloudProvisioningEx = [ColoCloudEx]"
| "exn_bases PidFileError = [PyException]"
| "exn_bases PidFileAlreadyLockedError = [PidFileError]"
| "exn_bases PyRecursionError = [PyRuntimeError]"
| "exn_bases ColumnstoreException = [BackendException]"
| "exn_bases MariaDBException = [BackendException]"
| "exn_bases MySqlDBException = [BackendException]"
| "exn_bases RdsMySqlException = [BackendException]"
| "exn_bases AuroraMySqlException = [BackendException]"
| "exn_bases AuroraPostgreSqlException = [BackendException]"
| "exn_bases AlloyDBException = [BackendException]"
| "exn_bases ExternalDBException = [BackendException]"
| "exn_bases MaxscaleException = [ProxyException]"
| "exn_bases XgresException = [PyException]"
| "exn_bases SkySQLBackendException = [PyException]"
| "exn_bases SkySQLBackendDBException = [SkySQLBackendException]"
| "exn_bases MetricsServerException = [PyException]"
| "exn_bases JinjaUndefinedError = [PyException]"

text \<open>
  A class with its bases, their bases and so on, down to the given depth. The longest chain of
  the hierarchy has four steps (a \<open>SkySQLAPIClientException\<close> with status 404, the class itself,
  \<open>SkySQLAPIException\<close>, \<open>CloudException\<close>, \<open>Exception\<close>), so depth four is all of them.
\<close>

fun exn_ancestors :: "nat \<Rightarrow> exn \<Rightarrow> exn list" where
  "exn_ancestors 0 e = [e]"
| "exn_ancestors (Suc n) e = e # concat (map (exn_ancestors n) (exn_bases e))"

definition isinstance_exn :: "exn \<Rightarrow> exn \<Rightarrow> bool" where
  "isinstance_exn e c \<longleftrightarrow> c \<in> set (exn_ancestors (Suc (Suc (Suc (Suc 0)))) e)"

text \<open>\<^verbatim>\<open>except (c1, c2, ...)\<close>.\<close>

definition isinstance_any :: "exn \<Rightarrow> exn list \<Rightarrow> bool" where
  "isinstance_any e cs \<longleftrightarrow> (\<exists>c \<in> set cs. isinstance_exn e c)"

lemma isinstance_refl [simp]: "isinstance_exn e e"
  by (simp add: isinstance_exn_def)

text \<open>Depth four is enough: one more level adds no class.\<close>

lemma exn_ancestors_closed:
  "set (exn_ancestors (Suc (Suc (Suc (Suc (Suc 0))))) e) = set (exn_ancestors (Suc (Suc (Suc (Suc 0)))) e)"
  by (cases e) simp_all

lemma isinstance_base: "p \<in> set (exn_bases e) \<Longrightarrow> isinstance_exn p c \<Longrightarrow> isinstance_exn e c"
proof -
  assume "p \<in> set (exn_bases e)" and "isinstance_exn p c"
  then have "c \<in> set (exn_ancestors (Suc (Suc (Suc (Suc (Suc 0))))) e)"
    unfolding isinstance_exn_def exn_ancestors.simps(2) [of "Suc (Suc (Suc (Suc 0)))"]
    by (auto simp del: exn_ancestors.simps)
  then show ?thesis
    by (simp only: exn_ancestors_closed isinstance_exn_def)
qed

lemma isinstance_any_simps [simp]:
  "\<not> isinstance_any e []"
  "isinstance_any e (c # cs) \<longleftrightarrow> isinstance_exn e c \<or> isinstance_any e cs"
  by (auto simp: isinstance_any_def)

lemma isinstance_any_mono: "set cs \<subseteq> set ds \<Longrightarrow> isinstance_any e cs \<Longrightarrow> isinstance_any e ds"
  by (auto simp: isinstance_any_def)

lemmas isinstance_eval = isinstance_exn_def exn_ancestors.simps

text \<open>Everything the program raises itself is an \<open>Exception\<close>; the two interrupts are not.\<close>

lemma isinstance_Exception:
  "isinstance_exn e PyException \<longleftrightarrow> e \<noteq> PyKeyboardInterrupt \<and> e \<noteq> PySystemExit"
  by (cases e) (simp_all add: isinstance_eval)

lemma isinstance_SigTerm: "isinstance_exn e SigTermException \<longleftrightarrow> e = SigTermException"
  by (cases e) (simp_all add: isinstance_eval)

lemma isinstance_interrupt: "\<not> isinstance_exn e PyException \<Longrightarrow> isinstance_exn e c \<longleftrightarrow> c = e"
proof -
  assume "\<not> isinstance_exn e PyException"
  then have "e = PyKeyboardInterrupt \<or> e = PySystemExit" by (simp add: isinstance_Exception)
  then show ?thesis by (elim disjE) (auto simp: isinstance_eval)
qed

text \<open>\<^verbatim>\<open>except cs as e: raise target(e)\<close>, around a value and around a computation.\<close>

definition catch :: "exn list \<Rightarrow> exn \<Rightarrow> exn + 'a \<Rightarrow> exn + 'a" where
  "catch cs target r = (case r of Inl e \<Rightarrow> Inl (if isinstance_any e cs then target else e) | Inr x \<Rightarrow> Inr x)"

definition io_catch :: "exn list \<Rightarrow> exn \<Rightarrow> ('w, exn, 'a) io \<Rightarrow> ('w, exn, 'a) io" where
  "io_catch cs target m = io_try m (\<lambda>e. isinstance_any e cs) (\<lambda>e. io_raise target)"

end
