(* ===== verification/XB_Common.thy ===== *)
theory XB_Common
  imports Complex_Main XB_Exceptions "HOL-Library.Multiset"
begin

text \<open>
  Python values as the configuration files hold them (\<open>pyval\<close>), and the helpers of
  \<^verbatim>\<open>common/common.py\<close>: flattening and merging of dictionaries, cleaning of shell
  commands, validation of names, rounding, shuffling.

  \<open>VObj\<close> stands for any other object (a float, a date): not a string, not a dictionary,
  true in a condition.
\<close>

section \<open>Values\<close>

datatype pyval =
    VNone
  | VBool bool
  | VInt int
  | VStr string
  | VList "pyval list"
  | VDict "(string \<times> pyval) list"
  | VObj string

type_synonym pydict = "(string, pyval) dict"

fun truthy :: "pyval \<Rightarrow> bool" where
  "truthy VNone = False"
| "truthy (VBool b) = b"
| "truthy (VInt i) = (i \<noteq> 0)"
| "truthy (VStr s) = (s \<noteq> [])"
| "truthy (VList xs) = (xs \<noteq> [])"
| "truthy (VDict d) = (d \<noteq> [])"
| "truthy (VObj _) = True"

fun is_VDict :: "pyval \<Rightarrow> bool" where
  "is_VDict (VDict d) = True"
| "is_VDict _ = False"

text \<open>Every dictionary inside a value has each key once.\<close>

function wf_val :: "pyval \<Rightarrow> bool" where
  "wf_val VNone = True"
| "wf_val (VBool b) = True"
| "wf_val (VInt i) = True"
| "wf_val (VStr s) = True"
| "wf_val (VList xs) = (\<forall>x \<in> set xs. wf_val x)"
| "wf_val (VDict d) = (dict_ok d \<and> (\<forall>(k, v) \<in> set d. wf_val v))"
| "wf_val (VObj s) = True"
  by pat_completeness auto
termination
  by (relation "measure size")
     (auto simp: less_Suc_eq_le dest: size_list_estimation' [where f = "size_prod (\<lambda>_. 0) size", OF _ order_refl]
       intro: size_list_estimation' order_trans)

section \<open>Case\<close>

text \<open>\<open>s.lower()\<close> and \<open>s.capitalize()\<close> of ASCII texts.\<close>

definition lower_char :: "char \<Rightarrow> char" where
  "lower_char c = (if c \<in> set ''ABCDEFGHIJKLMNOPQRSTUVWXYZ'' then char_of (of_char c + 32 :: nat) else c)"

definition upper_char :: "char \<Rightarrow> char" where
  "upper_char c = (if is_lower c then char_of (of_char c - 32 :: nat) else c)"

definition capitalize :: "string \<Rightarrow> string" where
  "capitalize s = (case s of [] \<Rightarrow> [] | c # cs \<Rightarrow> upper_char c # map lower_char cs)"

section \<open>Dictionaries\<close>

definition simple_dict_items :: "pydict \<Rightarrow> pydict" where
  "simple_dict_items d = filter (\<lambda>(k, v). \<not> is_VDict v) d"

definition save_dict_merge :: "pydict \<Rightarrow> pydict option \<Rightarrow> pydict" where
  "save_dict_merge dict1 dict2 = dict_update dict1 (case dict2 of None \<Rightarrow> [] | Some d \<Rightarrow> d)"

text \<open>All keys and values of a nested dictionary, in the order the generator yields them.\<close>

function recursive_items :: "pydict \<Rightarrow> pydict" where
  "recursive_items [] = []"
| "recursive_items ((k, v) # r) =
     (case v of VDict d \<Rightarrow> recursive_items d @ recursive_items r | _ \<Rightarrow> (k, v) # recursive_items r)"
  by pat_completeness auto
termination
  by (relation "measure (size_list (size_prod (\<lambda>_. 0) size))") auto

section \<open>Commands\<close>

text \<open>A command is one (possibly multi-line) string or a list of strings.\<close>

datatype cmd = CmdStr string | CmdList "string list"

definition clean_cmd :: "cmd \<Rightarrow> string" where
  "clean_cmd c =
     (let ls = (case c of
                  CmdStr s \<Rightarrow> filter (\<lambda>y. y \<noteq> []) (map strip (splitlines s))
                | CmdList xs \<Rightarrow> xs)
      in join [newline] ls)"

section \<open>Names and numbers\<close>

text \<open>
  The pattern \<^verbatim>\<open>^[a-z](?:[-a-z0-9]{0,61}[a-z0-9])?$\<close> under \<open>re.match\<close>. The text before
  the end is a letter, alone or followed by at most 61 characters of the middle class and one of
  the last class; \<open>$\<close> matches at the end and also before a newline that ends the string.
\<close>

definition name_char :: "char \<Rightarrow> bool" where
  "name_char c \<longleftrightarrow> c = CHR ''-'' \<or> is_lower c \<or> is_digit c"

definition rfc1035_pattern :: "string \<Rightarrow> bool" where
  "rfc1035_pattern s =
     (case s of [] \<Rightarrow> False
      | c # cs \<Rightarrow> is_lower c \<and>
          (cs = [] \<or> (length cs \<le> 62 \<and> list_all name_char (butlast cs)
                      \<and> (is_lower (last cs) \<or> is_digit (last cs)))))"

definition validate_name_rfc1035 :: "string \<Rightarrow> bool" where
  "validate_name_rfc1035 s \<longleftrightarrow>
     rfc1035_pattern s \<or> (s \<noteq> [] \<and> last s = newline \<and> rfc1035_pattern (butlast s))"

text \<open>
  \<open>int(x)\<close> of a number with a fraction (towards zero), \<open>round(x)\<close> (a half goes to the even neighbour) and
  \<open>round(x, n)\<close>; floats are rationals here.
\<close>

definition py_trunc :: "rat \<Rightarrow> int" where
  "py_trunc x = (if x < 0 then - floor (- x) else floor x)"

definition py_round :: "rat \<Rightarrow> int" where
  "py_round x = (let f = floor x; d = x - of_int f in
     if d < 1 / 2 then f else if d > 1 / 2 then f + 1 else if even f then f else f + 1)"

definition py_round_to :: "nat \<Rightarrow> rat \<Rightarrow> rat" where
  "py_round_to n x = of_int (py_round (x * 10 ^ n)) / 10 ^ n"

text \<open>\<open>int(math.floor(f))\<close>, then down to an even number; the float is a rational.\<close>

definition round_down_to_even :: "rat \<Rightarrow> int" where
  "round_down_to_even f = (let i = floor f in if i mod 2 = 1 then i - 1 else i)"

text \<open>
  Element \<open>i\<close> is swapped with the element at \<open>randint(0, n - 1)\<close>, for every \<open>i\<close> in turn;
  the draws are a parameter.
\<close>

definition swap_at :: "nat \<Rightarrow> nat \<Rightarrow> 'a list \<Rightarrow> 'a list" where
  "swap_at i j xs = xs[i := xs ! j, j := xs ! i]"

fun shuffle_loop :: "(nat \<Rightarrow> nat) \<Rightarrow> nat list \<Rightarrow> 'a list \<Rightarrow> 'a list" where
  "shuffle_loop draw [] l = l"
| "shuffle_loop draw (i # is) l = shuffle_loop draw is (swap_at i (draw i mod length l) l)"

definition shuffle_list_inplace :: "(nat \<Rightarrow> nat) \<Rightarrow> 'a list \<Rightarrow> 'a list" where
  "shuffle_list_inplace draw l =
     (let list_length = length l in
      if list_length > 0 then shuffle_loop draw [0..<list_length] l else l)"

text \<open>
  \<open>get_class_from_klass\<close> splits at the last dot and imports the module; the classes that can
  be imported are a parameter. \<open>rsplit(".", 1)\<close> of a string without a dot gives one piece, and
  the unpacking raises \<open>ValueError\<close>.
\<close>

definition rsplit1 :: "char \<Rightarrow> string \<Rightarrow> (string \<times> string) option" where
  "rsplit1 c s = map_option (\<lambda>(a, b). (rev b, rev a)) (split_first c (rev s))"

definition get_class_from_klass :: "(string \<Rightarrow> string \<Rightarrow> exn + 'c) \<Rightarrow> string \<Rightarrow> exn + 'c" where
  "get_class_from_klass import_class klass =
     (case rsplit1 (CHR ''.'') klass of
        None \<Rightarrow> Inl PyValueError
      | Some (module_name, klass_name) \<Rightarrow> import_class module_name klass_name)"

section \<open>Lemmas\<close>

lemma dict_ok_filter: "dict_ok d \<Longrightarrow> dict_ok (filter P d)"
  by (auto simp: dict_ok_def intro: distinct_map_filter)

lemma dget_simple_dict_items:
  "dict_ok d \<Longrightarrow> dget (simple_dict_items d) k =
     (case dget d k of Some v \<Rightarrow> (if is_VDict v then None else Some v) | None \<Rightarrow> None)"
proof (induction d)
  case (Cons a d)
  then show ?case
    by (cases a) (auto simp: simple_dict_items_def dget_None_iff split: option.splits)
qed (simp add: simple_dict_items_def)

lemma recursive_items_leaf: "(k, v) \<in> set (recursive_items d) \<Longrightarrow> \<not> is_VDict v"
  by (induction d rule: recursive_items.induct) (auto split: pyval.splits)

lemma recursive_items_flat: "\<forall>(k, v) \<in> set d. \<not> is_VDict v \<Longrightarrow> recursive_items d = d"
  by (induction d rule: recursive_items.induct) (auto split: pyval.splits)

lemma recursive_items_append: "recursive_items (a @ b) = recursive_items a @ recursive_items b"
  by (induction a rule: recursive_items.induct) (auto split: pyval.splits)

lemma clean_cmd_lines:
  assumes "l \<in> set (filter (\<lambda>y. y \<noteq> []) (map strip (splitlines s)))"
  shows "l \<noteq> []" and "strip l = l" and "\<forall>c \<in> set l. \<not> is_linebreak c"
proof -
  from assms obtain p where p: "p \<in> set (splitlines s)" and l: "l = strip p" "l \<noteq> []" by auto
  show "l \<noteq> []" "strip l = l" using l by simp_all
  show "\<forall>c \<in> set l. \<not> is_linebreak c"
    using p l(1) set_strip [of p] splitlines_pieces by blast
qed

lemma splitlines_clean_cmd:
  "splitlines (clean_cmd (CmdStr s)) = filter (\<lambda>y. y \<noteq> []) (map strip (splitlines s))"
  unfolding clean_cmd_def Let_def cmd.case
  by (rule splitlines_join) (use clean_cmd_lines in blast)

lemma mset_swap_at: "i < length xs \<Longrightarrow> j < length xs \<Longrightarrow> mset (swap_at i j xs) = mset xs"
  by (simp add: swap_at_def mset_swap)

lemma length_swap_at [simp]: "length (swap_at i j xs) = length xs"
  by (simp add: swap_at_def)

lemma mset_shuffle_loop:
  "\<forall>i \<in> set is. i < length l \<Longrightarrow> mset (shuffle_loop draw is l) = mset l"
proof (induction draw "is" l rule: shuffle_loop.induct)
  case (2 draw i "is" l)
  then have "i < length l" and "draw i mod length l < length l" by (auto intro: mod_less_divisor)
  with 2 show ?case by (simp add: mset_swap_at)
qed simp

lemma rfc1035_no_newline: "rfc1035_pattern s \<Longrightarrow> newline \<notin> set s"
proof -
  assume s: "rfc1035_pattern s"
  have n: "\<not> name_char newline" "\<not> is_lower newline" "\<not> is_digit newline"
    by (simp_all add: name_char_def is_lower_def is_digit_def)
  obtain c cs where cs: "s = c # cs" and c: "is_lower c"
    using s by (auto simp: rfc1035_pattern_def split: list.splits)
  have "newline \<notin> set cs"
  proof (cases cs rule: rev_cases)
    case (snoc xs x)
    with s cs n show ?thesis by (auto simp: rfc1035_pattern_def list_all_iff)
  qed simp
  with c cs n show ?thesis by auto
qed

section \<open>Properties\<close>

text \<open>
  Cleaning a multi-line command leaves no blank line and no line with white space at its
  ends, so the command the remote shell gets is stable: cleaning it again changes nothing.
\<close>

theorem clean_cmd_normal:
  "clean_cmd (CmdStr (clean_cmd (CmdStr s))) = clean_cmd (CmdStr s)
   \<and> (\<forall>l \<in> set (splitlines (clean_cmd (CmdStr s))). l \<noteq> [] \<and> strip l = l)"
proof
  show lines: "\<forall>l \<in> set (splitlines (clean_cmd (CmdStr s))). l \<noteq> [] \<and> strip l = l"
    using clean_cmd_lines unfolding splitlines_clean_cmd by blast
  let ?ls = "splitlines (clean_cmd (CmdStr s))"
  have "filter (\<lambda>y. y \<noteq> []) (map strip ?ls) = ?ls"
    using lines by (simp add: map_idI filter_id_conv)
  then show "clean_cmd (CmdStr (clean_cmd (CmdStr s))) = clean_cmd (CmdStr s)"
    unfolding clean_cmd_def [of "CmdStr (clean_cmd (CmdStr s))"] Let_def cmd.case
    by (simp only: splitlines_clean_cmd) (simp add: clean_cmd_def)
qed

theorem clean_cmd_normal_witness:
  "clean_cmd (CmdStr (clean_cmd (CmdStr ''  a b  ''))) = ''a b'' \<and> strip ''a b'' = ''a b''"
proof -
  have "clean_cmd (CmdStr ''  a b  '') = ''a b''"
    by (simp add: clean_cmd_def is_linebreak_def strip_def lstrip_def is_space_def)
  then show ?thesis using clean_cmd_normal [of "''  a b  ''"] by (simp add: is_linebreak_def)
qed

text \<open>
  C40. A name that passes has 1 to 63 characters, starts with a lower-case letter, ends with a
  letter or digit and has only letters, digits and dashes; every such name passes. The only other
  strings that pass are such a name followed by one newline.
\<close>

theorem validate_name_rfc1035_spec:
  "validate_name_rfc1035 s \<longleftrightarrow>
     (\<exists>n. (s = n \<or> s = n @ [newline]) \<and> 1 \<le> length n \<and> length n \<le> 63
        \<and> is_lower (n ! 0) \<and> (is_lower (last n) \<or> is_digit (last n)) \<and> list_all name_char n)"
proof -
  have spec: "rfc1035_pattern n \<longleftrightarrow> 1 \<le> length n \<and> length n \<le> 63
      \<and> is_lower (n ! 0) \<and> (is_lower (last n) \<or> is_digit (last n)) \<and> list_all name_char n" for n
  proof (cases n)
    case (Cons c cs)
    show ?thesis
    proof (cases cs rule: rev_cases)
      case (snoc xs x)
      then show ?thesis
        unfolding Cons rfc1035_pattern_def by (auto simp: name_char_def)
    qed (auto simp: Cons rfc1035_pattern_def name_char_def)
  qed (simp add: rfc1035_pattern_def)
  show ?thesis
    unfolding validate_name_rfc1035_def spec [symmetric]
    by (metis append_butlast_last_id butlast_snoc last_snoc snoc_eq_iff_butlast)
qed

text \<open>
  Shuffling keeps the elements: whatever the random draws, the list after
  \<open>shuffle_list_inplace\<close> is a permutation of the list before it.
\<close>

theorem shuffle_permutes: "mset (shuffle_list_inplace draw l) = mset l"
  by (simp add: shuffle_list_inplace_def mset_shuffle_loop)

text \<open>
  \<open>round_down_to_even\<close> gives the greatest even number that is not above its argument.
\<close>

theorem round_down_to_even_spec:
  "even (round_down_to_even f) \<and> of_int (round_down_to_even f) \<le> f
    \<and> f < of_int (round_down_to_even f) + 2"
proof (cases "floor f mod 2 = 1")
  case True
  then have "odd (floor f)" by (simp add: odd_iff_mod_2_eq_one)
  with True show ?thesis
    by (simp add: round_down_to_even_def Let_def) linarith
next
  case False
  then have "even (floor f)" by (simp add: even_iff_mod_2_eq_zero)
  with False show ?thesis
    by (simp add: round_down_to_even_def Let_def) linarith
qed

end
