(* ===== verification/XB_Retry.thy ===== *)
theory XB_Retry
  imports XB_Exceptions
begin

text \<open>
  \<^verbatim>\<open>common/retry_decorator.py\<close>: the delay generators (\<open>constant_delay\<close>,
  \<open>backoff\<close>, \<open>backoff_with_jitter\<close>), \<open>iter_islast\<close> and the \<open>retry\<close>
  decorator every remote operation of the program runs under.

  The decorated function is a computation over a world; the clock (\<open>datetime.now()\<close>, in
  microseconds) and \<open>time.sleep\<close> are parameters, since they are the operating system's. The
  log calls of the loop have no effect on its result and are left out.
\<close>

section \<open>The generators of delays\<close>

definition constant_delay :: "int \<Rightarrow> nat \<Rightarrow> int list" where
  "constant_delay delay attempts = replicate attempts delay"

definition backoff :: "int \<Rightarrow> nat \<Rightarrow> int list" where
  "backoff delay attempts = map (\<lambda>i. delay * 2 ^ i) [0..<attempts]"

text \<open>
  \<open>random.randrange(0, n)\<close> gives one of \<open>0, ..., n-1\<close> and raises \<open>ValueError\<close> when
  there is none. The draw is a parameter: the i-th call of the loop takes its value from
  \<open>draw i\<close>, reduced into the range.
\<close>

definition randrange0 :: "int \<Rightarrow> nat \<Rightarrow> exn + int" where
  "randrange0 n r = (if n \<le> 0 then Inl PyValueError else Inr (int r mod n))"

fun jitter_loop :: "(nat \<Rightarrow> nat) \<Rightarrow> int \<Rightarrow> int \<Rightarrow> nat list \<Rightarrow> exn + int list" where
  "jitter_loop draw delay cap [] = Inr []"
| "jitter_loop draw delay cap (i # is) =
     (case randrange0 (min cap (delay * 2 ^ i)) (draw i) of
        Inl e \<Rightarrow> Inl e
      | Inr x \<Rightarrow> (case jitter_loop draw delay cap is of Inl e \<Rightarrow> Inl e | Inr xs \<Rightarrow> Inr (x # xs)))"

definition backoff_with_jitter ::
  "(nat \<Rightarrow> nat) \<Rightarrow> int \<Rightarrow> nat \<Rightarrow> int \<Rightarrow> exn + int list" where
  "backoff_with_jitter draw delay attempts cap = jitter_loop draw delay cap [0..<attempts]"

section \<open>The decorator\<close>

text \<open>
  The pairs the generator yields. On an empty iterable its first \<open>next\<close> raises
  \<open>StopIteration\<close> inside a generator, which Python turns into \<open>RuntimeError\<close>.
\<close>

fun islast_pairs :: "'a \<Rightarrow> 'a list \<Rightarrow> ('a \<times> bool) list" where
  "islast_pairs prev [] = [(prev, True)]"
| "islast_pairs prev (item # it) = (prev, False) # islast_pairs item it"

definition iter_islast :: "'a list \<Rightarrow> exn + ('a \<times> bool) list" where
  "iter_islast xs = (case xs of [] \<Rightarrow> Inl PyRuntimeError | prev # it \<Rightarrow> Inr (islast_pairs prev it))"

text \<open>\<open>int(td.total_seconds())\<close> of a difference in microseconds: truncation towards zero.\<close>

definition whole_seconds :: "int \<Rightarrow> int" where
  "whole_seconds us = (if us < 0 then - ((- us) div 1000000) else us div 1000000)"

record 'w os_clock =
  now :: "'w \<Rightarrow> int"
  sleep :: "int \<Rightarrow> 'w \<Rightarrow> 'w"

record retry_policy =
  exceptions_to_check :: "exn list"
  exception_to_raise :: exn
  max_delay :: int

fun retry_loop :: "'w os_clock \<Rightarrow> retry_policy \<Rightarrow> int \<Rightarrow> ('w, exn, 'a) io \<Rightarrow>
    (int \<times> bool) list \<Rightarrow> ('w, exn, 'a) io" where
  "retry_loop c p time_started f [] w = (Inl (exception_to_raise p), w)"
| "retry_loop c p time_started f ((delay, is_last) # rest) w =
     (case f w of
        (Inr x, w') \<Rightarrow> (Inr x, w')
      | (Inl e, w') \<Rightarrow>
          (if isinstance_any e (exceptions_to_check p) then
             (if whole_seconds (now c w' - time_started) > max_delay p
              then (Inl (exception_to_raise p), w')
              else retry_loop c p time_started f rest
                     (if \<not> is_last then sleep c delay w' else w'))
           else if isinstance_exn e SigTermException then (Inl e, w')
           else if isinstance_exn e PyException then (Inl (exception_to_raise p), w')
           else (Inl e, w')))"

definition retry :: "'w os_clock \<Rightarrow> retry_policy \<Rightarrow> int list \<Rightarrow>
    ('w, exn, 'a) io \<Rightarrow> ('w, exn, 'a) io" where
  "retry c p delays f w =
     (let time_started = now c w in
      case iter_islast delays of
        Inl e \<Rightarrow> (Inl e, w)
      | Inr pairs \<Rightarrow> retry_loop c p time_started f pairs w)"

section \<open>Lemmas\<close>

lemma islast_pairs_map: "map fst (islast_pairs x xs) = x # xs"
  by (induction xs arbitrary: x) auto

lemma islast_pairs_last: "islast_pairs x xs = map (\<lambda>y. (y, False)) (butlast (x # xs)) @ [(last (x # xs), True)]"
  by (induction xs arbitrary: x) auto

lemma iter_islast_snoc: "iter_islast (xs @ [x]) = Inr (map (\<lambda>y. (y, False)) xs @ [(x, True)])"
  by (cases xs) (simp_all add: iter_islast_def islast_pairs_last)

lemma length_backoff [simp]: "length (backoff d n) = n"
  by (simp add: backoff_def)

lemma backoff_Suc: "backoff d (Suc n) = backoff d n @ [d * 2 ^ n]"
  by (simp add: backoff_def)

lemma sum_backoff: "sum_list (backoff d n) = d * (2 ^ n - 1)"
  by (induction n) (simp_all add: backoff_Suc backoff_def algebra_simps)

lemma randrange0_ok: "randrange0 n r = Inr x \<Longrightarrow> 0 \<le> x \<and> x < n"
  by (auto simp: randrange0_def pos_mod_bound split: if_splits)

lemma jitter_loop_ok:
  "jitter_loop draw delay cap is = Inr xs \<Longrightarrow>
     length xs = length is \<and> (\<forall>x \<in> set xs. 0 \<le> x \<and> x < cap)"
proof (induction "is" arbitrary: xs)
  case (Cons i "is")
  then obtain x ys where xs: "xs = x # ys" "jitter_loop draw delay cap is = Inr ys"
    and "randrange0 (min cap (delay * 2 ^ i)) (draw i) = Inr x"
    by (auto split: sum.splits)
  then have "0 \<le> x \<and> x < cap" by (auto dest: randrange0_ok)
  with Cons.IH [OF xs(2)] xs(1) show ?case by simp
qed simp

lemma jitter_loop_total:
  "0 < delay \<Longrightarrow> 0 < cap \<Longrightarrow> \<exists>xs. jitter_loop draw delay cap is = Inr xs"
proof (induction "is")
  case (Cons i "is")
  have "\<not> min cap (delay * 2 ^ i) \<le> 0" using Cons.prems by (simp add: not_le)
  with Cons show ?case by (auto simp: randrange0_def simp del: min.bounded_iff min_le_iff_disj)
qed simp

text \<open>What a run of the loop can raise.\<close>

lemma retry_loop_raises:
  "retry_loop c p t f ps w = (Inl e, w') \<Longrightarrow>
     e = exception_to_raise p \<or> e = SigTermException \<or> \<not> isinstance_exn e PyException"
proof (induction c p t f ps w rule: retry_loop.induct)
  case (2 c p t f d l rest w)
  then show ?case
    by (auto simp: isinstance_SigTerm split: prod.splits sum.splits if_splits)
qed simp

text \<open>A counter that only the decorated function increments counts the attempts.\<close>

lemma retry_loop_attempts:
  fixes calls :: "'w \<Rightarrow> nat"
  assumes f: "\<And>w. calls (snd (f w)) = Suc (calls w)"
    and s: "\<And>d w. calls (sleep c d w) = calls w"
  shows "calls (snd (retry_loop c p t f ps w)) \<le> calls w + length ps"
proof (induction ps arbitrary: w)
  case (Cons a ps)
  obtain d l where a: "a = (d, l)" by (cases a)
  obtain r w' where fw: "f w = (r, w')" by (cases "f w")
  with f [of w] have w': "calls w' = Suc (calls w)" by simp
  have "calls (snd (retry_loop c p t f ps (sleep c d w'))) \<le> calls w + length (a # ps)"
    and "calls (snd (retry_loop c p t f ps w')) \<le> calls w + length (a # ps)"
    using Cons.IH [of "sleep c d w'"] Cons.IH [of w'] by (simp_all add: s w')
  then show ?case
    using w' by (simp add: a fw split: sum.splits)
qed simp

lemma retry_loop_first_attempt:
  fixes calls :: "'w \<Rightarrow> nat"
  assumes f: "\<And>w. calls (snd (f w)) = Suc (calls w)"
    and s: "\<And>d w. calls (sleep c d w) = calls w"
  shows "calls w \<le> calls (snd (retry_loop c p t f ps w))"
    and "ps \<noteq> [] \<Longrightarrow> Suc (calls w) \<le> calls (snd (retry_loop c p t f ps w))"
proof -
  show *: "calls w \<le> calls (snd (retry_loop c p t f ps w))" for ps w
  proof (induction ps arbitrary: w)
    case (Cons a ps)
    obtain d l where a: "a = (d, l)" by (cases a)
    obtain r w' where fw: "f w = (r, w')" by (cases "f w")
    with f [of w] have w': "calls w' = Suc (calls w)" by simp
    show ?case
      using Cons.IH [of "sleep c d w'"] Cons.IH [of w'] w'
      by (simp add: a fw s split: sum.splits)
  qed simp
  assume "ps \<noteq> []"
  then obtain d l ps' where ps: "ps = (d, l) # ps'" by (metis list.exhaust surj_pair)
  obtain r w' where fw: "f w = (r, w')" by (cases "f w")
  with f [of w] have w': "calls w' = Suc (calls w)" by simp
  show "Suc (calls w) \<le> calls (snd (retry_loop c p t f ps w))"
    using * [of "sleep c d w'" ps'] * [of w' ps'] w'
    by (simp add: ps fw s split: sum.splits)
qed

text \<open>
  The run of attempts as the code makes them: \<open>retries_to c p t f ds w w'\<close> says that from
  \<open>w\<close> one failed attempt per delay of \<open>ds\<close>, each with a checked exception and in time, each
  followed by its sleep, leads to \<open>w'\<close>.
\<close>

inductive retries_to :: "'w os_clock \<Rightarrow> retry_policy \<Rightarrow> int \<Rightarrow> ('w, exn, 'a) io \<Rightarrow>
    int list \<Rightarrow> 'w \<Rightarrow> 'w \<Rightarrow> bool" for c p t f where
  none: "retries_to c p t f [] w w"
| again: "f w = (Inl e, w1) \<Longrightarrow> isinstance_any e (exceptions_to_check p) \<Longrightarrow>
    whole_seconds (now c w1 - t) \<le> max_delay p \<Longrightarrow>
    retries_to c p t f ds (sleep c d w1) w2 \<Longrightarrow> retries_to c p t f (d # ds) w w2"

inductive_simps retries_to_simps [simp]:
  "retries_to c p t f [] w w'"
  "retries_to c p t f (d # ds) w w'"

lemma retry_loop_retries:
  "retries_to c p t f ds w w' \<Longrightarrow>
     retry_loop c p t f (map (\<lambda>d. (d, False)) ds @ rest) w = retry_loop c p t f rest w'"
  by (induction rule: retries_to.induct) auto

lemma iter_islast_split:
  "delays = ds @ d # rest \<Longrightarrow> \<exists>l rest'. iter_islast delays = Inr (map (\<lambda>d. (d, False)) ds @ (d, l) # rest')"
proof (cases rest rule: rev_cases)
  case Nil
  then show "delays = ds @ d # rest \<Longrightarrow> ?thesis" by (auto simp: iter_islast_snoc)
next
  case (snoc ys y)
  assume "delays = ds @ d # rest"
  with snoc have "delays = (ds @ d # ys) @ [y]" by simp
  then show ?thesis by (simp only: iter_islast_snoc) auto
qed

lemma retry_not_checked:
  assumes "f w = (Inl e, w')" and "\<not> isinstance_any e (exceptions_to_check p)"
    and "delays \<noteq> []"
  shows "retry c p delays f w =
    (Inl (if e = SigTermException \<or> \<not> isinstance_exn e PyException then e
          else exception_to_raise p), w')"
proof -
  obtain d ds where "delays = [] @ d # ds" using assms(3) by (cases delays) auto
  then obtain l rest' where "iter_islast delays = Inr ((d, l) # rest')"
    using iter_islast_split [of delays "[]" d ds] by auto
  with assms(1,2) show ?thesis
    by (simp add: retry_def isinstance_SigTerm)
qed

text \<open>The total time a run sleeps: never the delay of the last attempt.\<close>

lemma retry_loop_slept:
  fixes slept :: "'w \<Rightarrow> int"
  assumes f: "\<And>w. slept (snd (f w)) = slept w"
    and s: "\<And>d w. slept (sleep c d w) = slept w + d"
    and nonneg: "\<And>d l. (d, l) \<in> set ps \<Longrightarrow> 0 \<le> d"
  shows "slept w \<le> slept (snd (retry_loop c p t f ps w)) \<and>
    slept (snd (retry_loop c p t f ps w)) \<le> slept w + (\<Sum>(d, l)\<leftarrow>ps. if l then 0 else d)"
  using nonneg
proof (induction ps arbitrary: w)
  case (Cons a ps)
  obtain d l where a: "a = (d, l)" by (cases a)
  obtain r w' where fw: "f w = (r, w')" by (cases "f w")
  with f [of w] have w': "slept w' = slept w" by simp
  have d: "0 \<le> d" using Cons.prems a by auto
  have rest: "0 \<le> (\<Sum>(d, l)\<leftarrow>ps. if l then 0 else d)"
    using Cons.prems by (intro sum_list_nonneg) (force split: if_splits)
  have IH: "slept v \<le> slept (snd (retry_loop c p t f ps v)) \<and>
      slept (snd (retry_loop c p t f ps v)) \<le> slept v + (\<Sum>(d, l)\<leftarrow>ps. if l then 0 else d)" for v
    using Cons.prems by (intro Cons.IH) auto
  show ?case
    using IH [of "sleep c d w'"] IH [of w'] d rest w'
    by (simp add: a fw s split: sum.splits)
qed simp

lemma islast_sum:
  "(\<Sum>(d, l)\<leftarrow>islast_pairs x xs. if l then 0 else d) = sum_list (butlast (x # xs))"
  by (simp add: islast_pairs_last o_def)

text \<open>The decorator keeps what the function and the sleeps keep, and costs at most one call per delay.\<close>

lemma retry_loop_keeps:
  assumes "io_keeps I f" and "\<And>d w. I w \<Longrightarrow> I (sleep c d w)"
  shows "io_keeps I (retry_loop c p t f ps)"
proof (rule io_keepsI)
  fix w assume "I w"
  then show "I (snd (retry_loop c p t f ps w))"
  proof (induction ps arbitrary: w)
    case (Cons a ps)
    obtain d l where a: "a = (d, l)" by (cases a)
    obtain r v where v: "f w = (r, v)" by (cases "f w")
    from io_keepsD [OF assms(1) Cons.prems] v have "I v" by simp
    with Cons.IH [of v] Cons.IH [of "sleep c d v"] assms(2) show ?case
      by (simp add: a v split: sum.splits)
  qed simp
qed

lemma io_keeps_retry [io_inv_intros]:
  assumes "io_keeps I f" and "\<And>d w. I w \<Longrightarrow> I (sleep c d w)"
  shows "io_keeps I (retry c p ds f)"
proof (rule io_keepsI)
  fix w assume "I w"
  then show "I (snd (retry c p ds f w))"
    using io_keepsD [OF retry_loop_keeps [OF assms]] by (auto simp: retry_def split: sum.splits)
qed

text \<open>
  With a constant delay the time limit bounds the attempts too: when a call takes no time back and a sleep takes its
  time, attempts follow each other only while the limit lasts.
\<close>

lemma retry_loop_constant:
  fixes calls :: "'w \<Rightarrow> nat" and d :: int
  assumes calls: "\<And>w. calls (snd (f w)) = Suc (calls w)" "\<And>d w. calls (sleep c d w) = calls w"
    and time: "\<And>w. now c w \<le> now c (snd (f w))" "\<And>d w. now c (sleep c d w) = now c w + d * 1000000"
    and d: "0 < d" "0 \<le> max_delay p"
    and j: "int j * d * 1000000 \<le> now c w - t" "j \<le> Suc (nat (max_delay p div d))"
  shows "calls (snd (retry_loop c p t f (islast_pairs d (replicate n d)) w)) \<le> calls w + (nat (max_delay p div d) + 2 - j)"
  using j
proof (induction n arbitrary: w j)
  case 0
  with calls(1) [of w] show ?case by (auto split: prod.splits sum.splits)
next
  case (Suc n)
  obtain r v where v: "f w = (r, v)" by (cases "f w")
  with calls(1) [of w] time(1) [of w] have cv: "calls v = Suc (calls w)" "now c w \<le> now c v" by simp_all
  show ?case
  proof (cases "\<exists>e. r = Inl e \<and> isinstance_any e (exceptions_to_check p) \<and> \<not> whole_seconds (now c v - t) > max_delay p")
    case False
    with Suc.prems(2) v cv show ?thesis by (auto split: sum.splits)
  next
    case True
    then obtain e where e: "r = Inl e" "isinstance_any e (exceptions_to_check p)" "whole_seconds (now c v - t) \<le> max_delay p" by auto
    have "int j * d * 1000000 \<le> now c v - t" using Suc.prems(1) cv(2) by simp
    moreover from this have "int j * d \<le> (now c v - t) div 1000000"
      using zdiv_mono1 [of "int j * d * 1000000" "now c v - t" 1000000] by simp
    moreover have "0 \<le> int j * d" using d(1) by simp
    ultimately have "int j * d \<le> max_delay p" using e(3) by (auto simp: whole_seconds_def split: if_splits)
    then have "int j \<le> max_delay p div d" using zdiv_mono1 [of "int j * d" "max_delay p" d] d(1) by simp
    then have j: "j \<le> nat (max_delay p div d)" by simp
    have "int (Suc j) * d * 1000000 \<le> now c (sleep c d v) - t"
      using Suc.prems(1) cv(2) by (simp add: time(2) algebra_simps)
    from Suc.IH [OF this] j have "calls (snd (retry_loop c p t f (islast_pairs d (replicate n d)) (sleep c d v)))
        \<le> calls v + (nat (max_delay p div d) + 2 - Suc j)" by (simp add: calls(2))
    then show ?thesis using v e cv(1) j by simp
  qed
qed

lemma retry_constant_calls:
  fixes calls :: "'w \<Rightarrow> nat" and d :: int
  assumes calls: "\<And>w. calls (snd (f w)) = Suc (calls w)" "\<And>d w. calls (sleep c d w) = calls w"
    and time: "\<And>w. now c w \<le> now c (snd (f w))" "\<And>d w. now c (sleep c d w) = now c w + d * 1000000"
    and d: "0 < d" "0 \<le> max_delay p"
  shows "calls (snd (retry c p (constant_delay d n) f w)) \<le> calls w + nat (max_delay p div d) + 2"
proof (cases n)
  case (Suc m)
  have "calls (snd (retry_loop c p (now c w) f (islast_pairs d (replicate m d)) w)) \<le> calls w + (nat (max_delay p div d) + 2 - 0)"
    by (rule retry_loop_constant [OF calls time d]) simp_all
  with Suc show ?thesis by (simp add: retry_def constant_delay_def iter_islast_def)
qed (simp add: retry_def constant_delay_def iter_islast_def)

lemma retry_loop_cost:
  fixes cost :: "'w \<Rightarrow> nat"
  assumes f: "\<And>w. cost (snd (f w)) \<le> cost w + k" and s: "\<And>d w. cost (sleep c d w) = cost w"
  shows "cost (snd (retry_loop c p t f ps w)) \<le> cost w + k * length ps"
proof (induction ps arbitrary: w)
  case (Cons a ps)
  obtain d l where a: "a = (d, l)" by (cases a)
  obtain r v where v: "f w = (r, v)" by (cases "f w")
  with f [of w] have "cost v \<le> cost w + k" by simp
  with Cons.IH [of "sleep c d v"] Cons.IH [of v] show ?case
    by (simp add: a v s split: sum.splits)
qed simp

lemma retry_cost:
  fixes cost :: "'w \<Rightarrow> nat"
  assumes f: "\<And>w. cost (snd (f w)) \<le> cost w + k" and s: "\<And>d w. cost (sleep c d w) = cost w"
  shows "cost (snd (retry c p ds f w)) \<le> cost w + k * length ds"
proof (cases ds)
  case (Cons d ds')
  then have "length (islast_pairs d ds') = length ds"
    by (metis islast_pairs_map length_map)
  with retry_loop_cost [of cost f k c p "now c w" "islast_pairs d ds'" w, OF f s] Cons show ?thesis
    by (simp add: retry_def iter_islast_def)
qed (simp add: retry_def iter_islast_def)

section \<open>The contract of the decorator\<close>

text \<open>
  A client that runs an operation under \<open>retry\<close> gives delays that are not empty (or no attempt
  is made at all) and not negative (or \<open>time.sleep\<close> refuses them).
\<close>

locale retry_delays =
  fixes delays :: "int list"
  assumes delays_not_empty: "delays \<noteq> []"
    and delays_nonneg: "\<And>d. d \<in> set delays \<Longrightarrow> 0 \<le> d"
begin

lemma retry_unfold:
  "\<exists>d ds. delays = d # ds \<and> retry c p delays f w = retry_loop c p (now c w) f (islast_pairs d ds) w"
  using delays_not_empty by (cases delays) (auto simp: retry_def iter_islast_def)

text \<open>A call that succeeds at once is made once.\<close>

lemma retry_success:
  assumes "f w = (Inr x, w')"
  shows "retry c p delays f w = (Inr x, w')"
proof -
  obtain d ds where "delays = d # ds" using delays_not_empty by (cases delays) auto
  with assms show ?thesis by (cases ds) (simp_all add: retry_def iter_islast_def)
qed

text \<open>A function that always fails with a checked exception fails under the decorator.\<close>

lemma retry_always_fails:
  assumes "\<And>w. \<exists>w'. f w = (Inl e, w')" and "isinstance_any e (exceptions_to_check p)"
  shows "fst (retry c p delays f w) = Inl (exception_to_raise p)"
proof -
  have "fst (retry_loop c p t f ps w) = Inl (exception_to_raise p)" for t ps w
  proof (induction ps arbitrary: w)
    case (Cons a ps)
    obtain w' where "f w = (Inl e, w')" using assms(1) by blast
    with Cons assms(2) show ?case by (cases a) simp
  qed simp
  then show ?thesis using retry_unfold [of c p f w] by auto
qed

lemma raises_only:
  assumes "retry c p delays f w = (Inl e, w')"
  shows "e = exception_to_raise p \<or> e = SigTermException \<or> \<not> isinstance_exn e PyException"
proof -
  obtain d ds where "retry c p delays f w = retry_loop c p (now c w) f (islast_pairs d ds) w"
    using retry_unfold [of c p f w] by blast
  with assms show ?thesis by (auto dest: retry_loop_raises)
qed

lemma attempts_bounded:
  fixes calls :: "'w \<Rightarrow> nat"
  assumes f: "\<And>w. calls (snd (f w)) = Suc (calls w)" and s: "\<And>d w. calls (sleep c d w) = calls w"
  shows "Suc (calls w) \<le> calls (snd (retry c p delays f w)) \<and>
    calls (snd (retry c p delays f w)) \<le> calls w + length delays"
proof -
  obtain d ds where ds: "delays = d # ds"
    and r: "retry c p delays f w = retry_loop c p (now c w) f (islast_pairs d ds) w"
    using retry_unfold [of c p f w] by blast
  have len: "length (islast_pairs d ds) = length delays"
    unfolding ds using islast_pairs_map [of d ds] by (metis length_map)
  then have "islast_pairs d ds \<noteq> []" by (auto simp: ds)
  then show ?thesis
    unfolding r len [symmetric]
    using retry_loop_attempts [of calls f c p "now c w" "islast_pairs d ds" w, OF f s]
      retry_loop_first_attempt(2) [of calls f c "islast_pairs d ds" w p "now c w", OF f s]
    by simp
qed

lemma slept_bounded:
  fixes slept :: "'w \<Rightarrow> int"
  assumes f: "\<And>w. slept (snd (f w)) = slept w" and s: "\<And>d w. slept (sleep c d w) = slept w + d"
  shows "slept w \<le> slept (snd (retry c p delays f w)) \<and>
    slept (snd (retry c p delays f w)) \<le> slept w + sum_list (butlast delays)"
proof -
  obtain d ds where ds: "delays = d # ds"
    and r: "retry c p delays f w = retry_loop c p (now c w) f (islast_pairs d ds) w"
    using retry_unfold [of c p f w] by blast
  have "0 \<le> x" if "(x, l) \<in> set (islast_pairs d ds)" for x l
  proof -
    from that have "x \<in> set (map fst (islast_pairs d ds))" by force
    then show ?thesis using delays_nonneg by (simp add: islast_pairs_map ds)
  qed
  then have "slept w \<le> slept (snd (retry_loop c p (now c w) f (islast_pairs d ds) w)) \<and>
      slept (snd (retry_loop c p (now c w) f (islast_pairs d ds) w))
        \<le> slept w + (\<Sum>(d, l)\<leftarrow>islast_pairs d ds. if l then 0 else d)"
    by (intro retry_loop_slept f s)
  then show ?thesis
    unfolding r islast_sum by (simp add: ds)
qed

end

text \<open>
  The policies of the program: \<open>backoff(delay=10, attempts=3)\<close> of \<open>Node.run\<close> and
  \<open>MultiNode.run_on_all_nodes\<close>, and any \<open>backoff\<close> with an attempt to make.
\<close>

interpretation backoff_10_3: retry_delays "backoff 10 3"
  by unfold_locales (auto simp: backoff_def)

lemma retry_delays_backoff: "0 \<le> d \<Longrightarrow> 0 < n \<Longrightarrow> retry_delays (backoff d n)"
  by unfold_locales (auto simp: backoff_def)

lemma retry_delays_jitter:
  assumes "backoff_with_jitter draw d n cap = Inr xs" and "0 < n"
  shows "retry_delays xs"
  using assms jitter_loop_ok [of draw d cap "[0..<n]" xs]
  by unfold_locales (auto simp: backoff_with_jitter_def)

lemma retry_after_failures:
  assumes "delays = ds @ d # rest" and "retries_to c p (now c w) f ds w u"
    and "f u = (Inr x, v)"
  shows "retry c p delays f w = (Inr x, v)"
proof -
  obtain l rest' where "iter_islast delays = Inr (map (\<lambda>d. (d, False)) ds @ (d, l) # rest')"
    using iter_islast_split [OF assms(1)] by blast
  then show ?thesis
    using assms(2,3) by (simp add: retry_def retry_loop_retries)
qed

lemma retry_second_success:
  assumes "f w = (Inl e, w1)" and "isinstance_any e (exceptions_to_check p)"
    and "whole_seconds (now c w1 - now c w) \<le> max_delay p" and "f (sleep c d w1) = (Inr x, v)"
  shows "retry c p (d # d' # rest) f w = (Inr x, v)"
  by (rule retry_after_failures [of _ "[d]" d' rest])
     (use assms in \<open>auto intro!: retries_to.intros\<close>)

section \<open>Properties\<close>

text \<open>
  C2. The decorator returns the first success: when the attempts before it failed with a checked
  exception and within the time limit, and a delay is left for the attempt, the value and the
  world of the successful call are the result.
\<close>

theorem retry_returns_first_success:
  assumes "delays = ds @ d # rest" and "retries_to c p (now c w) f ds w u"
    and "f u = (Inr x, v)"
  shows "retry c p delays f w = (Inr x, v)"
  using assms by (rule retry_after_failures)

text \<open>A world for the witnesses: a clock in seconds, a call counter, failures still to come.\<close>

type_synonym demo_world = "int \<times> nat \<times> exn list"

definition demo_clock :: "demo_world os_clock" where
  "demo_clock = \<lparr>now = (\<lambda>(t, n, es). t * 1000000), sleep = (\<lambda>d (t, n, es). (t + d, n, es))\<rparr>"

definition demo_call :: "(demo_world, exn, nat) io" where
  "demo_call w = (case w of (t, n, []) \<Rightarrow> (Inr n, (t, Suc n, [])) | (t, n, e # es) \<Rightarrow> (Inl e, (t, Suc n, es)))"

definition node_policy :: retry_policy where
  "node_policy = \<lparr>exceptions_to_check = [SshClientException, SshClientTimeoutException],
     exception_to_raise = NodeException, max_delay = 600\<rparr>"

theorem retry_returns_first_success_witness:
  "retry demo_clock node_policy (backoff 10 3) demo_call
     (0, 0, [SshClientException, SshClientTimeoutException]) = (Inr 2, (30, 3, []))"
proof (rule retry_returns_first_success [where ds = "[10, 20]" and d = 40 and rest = "[]"
    and u = "(30, 2, [])"])
  show "backoff 10 3 = [10, 20] @ 40 # []" by (simp add: backoff_def upt_rec)
  show "retries_to demo_clock node_policy (now demo_clock (0, 0, [SshClientException, SshClientTimeoutException]))
      demo_call [10, 20] (0, 0, [SshClientException, SshClientTimeoutException]) (30, 2, [])"
    by (simp add: demo_clock_def demo_call_def node_policy_def whole_seconds_def isinstance_eval)
qed (simp add: demo_call_def)

text \<open>
  C16. The decorator stops: with delays \<open>backoff(d, n)\<close> it calls the function at least once and at
  most \<open>n\<close> times, and sleeps at most \<open>d * (2 ^ (n - 1) - 1)\<close> seconds in all (no sleep after
  the last attempt). Calls and sleeps are counted in the world.
\<close>

theorem retry_backoff_bounds:
  fixes calls :: "'w \<Rightarrow> nat" and slept :: "'w \<Rightarrow> int"
  assumes "0 \<le> d" and "0 < n"
    and "\<And>w. calls (snd (f w)) = Suc (calls w)" and "\<And>d w. calls (sleep c d w) = calls w"
    and "\<And>w. slept (snd (f w)) = slept w" and "\<And>d w. slept (sleep c d w) = slept w + d"
  shows "calls w < calls (snd (retry c p (backoff d n) f w))
    \<and> calls (snd (retry c p (backoff d n) f w)) \<le> calls w + n
    \<and> slept (snd (retry c p (backoff d n) f w)) \<le> slept w + d * (2 ^ (n - 1) - 1)"
proof -
  have r: "retry_delays (backoff d n)" using assms(1,2) by (rule retry_delays_backoff)
  have "butlast (backoff d n) = backoff d (n - 1)"
    using assms(2) by (cases n) (simp_all add: backoff_Suc)
  then have "sum_list (butlast (backoff d n)) = d * (2 ^ (n - 1) - 1)"
    by (simp add: sum_backoff)
  then show ?thesis
    using retry_delays.attempts_bounded [OF r, of calls f c w p, OF assms(3,4)]
      retry_delays.slept_bounded [OF r, of slept f c w p, OF assms(5,6)]
    by simp
qed

theorem retry_backoff_bounds_witness:
  "let w = (0, 0, replicate 5 SshClientException);
       w' = snd (retry demo_clock node_policy (backoff 10 3) demo_call w)
   in 0 < fst (snd w') \<and> fst (snd w') \<le> 3 \<and> fst w' \<le> 30"
proof -
  have "\<And>w. (fst \<circ> snd) (snd (demo_call w)) = Suc ((fst \<circ> snd) w)"
    and "\<And>w. fst (snd (demo_call w)) = fst w"
    by (auto simp: demo_call_def split: prod.splits list.splits)
  then show ?thesis
    using retry_backoff_bounds [of 10 3 "fst \<circ> snd" demo_call demo_clock fst
        "(0, 0, replicate 5 SshClientException)" node_policy]
    by (simp add: Let_def demo_clock_def split_beta)
qed

text \<open>
  What the decorator raises: when at least one delay is given, a failure is the exception the
  policy names, or \<open>SigTermException\<close>, or an interrupt that is not an \<open>Exception\<close>. No
  other class escapes, whatever the function raised.
\<close>

theorem retry_raises_only:
  assumes "delays \<noteq> []" and "\<forall>d \<in> set delays. 0 \<le> d"
    and "retry c p delays f w = (Inl e, w')"
  shows "e = exception_to_raise p \<or> e = SigTermException \<or> e = PyKeyboardInterrupt \<or> e = PySystemExit"
proof -
  have "retry_delays delays" using assms(1,2) by unfold_locales auto
  from retry_delays.raises_only [OF this assms(3)] show ?thesis
    by (simp add: isinstance_Exception)
qed

theorem retry_raises_only_witness:
  "fst (retry demo_clock node_policy [0] demo_call (0, 0, [PyKeyError])) = Inl NodeException"
proof -
  let ?r = "retry demo_clock node_policy [0] demo_call (0, 0, [PyKeyError])"
  have eq: "?r = (Inl NodeException, (0, 1, []))"
    by (simp add: retry_def iter_islast_def demo_clock_def demo_call_def node_policy_def isinstance_eval)
  have "NodeException = exception_to_raise node_policy \<or> NodeException = SigTermException
      \<or> NodeException = PyKeyboardInterrupt \<or> NodeException = PySystemExit"
    by (rule retry_raises_only [OF _ _ eq]) simp_all
  with eq show ?thesis by (simp add: node_policy_def)
qed

text \<open>
  The jittered delays: for a positive delay and cap there is one delay per attempt, each at
  least 0 and below the cap, whatever the random draws; a non-positive delay makes the generator
  raise \<open>ValueError\<close> on its first draw.
\<close>

theorem backoff_with_jitter_bounds:
  "(0 < delay \<longrightarrow> 0 < cap \<longrightarrow> (\<exists>xs. backoff_with_jitter draw delay attempts cap = Inr xs
      \<and> length xs = attempts \<and> (\<forall>x \<in> set xs. 0 \<le> x \<and> x < cap)))
   \<and> (delay \<le> 0 \<longrightarrow> 0 < attempts \<longrightarrow> backoff_with_jitter draw delay attempts cap = Inl PyValueError)"
proof (intro conjI impI)
  assume "0 < delay" and "0 < cap"
  then obtain xs where "jitter_loop draw delay cap [0..<attempts] = Inr xs"
    using jitter_loop_total by blast
  then show "\<exists>xs. backoff_with_jitter draw delay attempts cap = Inr xs
      \<and> length xs = attempts \<and> (\<forall>x \<in> set xs. 0 \<le> x \<and> x < cap)"
    using jitter_loop_ok [of draw delay cap "[0..<attempts]" xs]
    by (auto simp: backoff_with_jitter_def)
next
  assume "delay \<le> 0" and "0 < attempts"
  then show "backoff_with_jitter draw delay attempts cap = Inl PyValueError"
    by (cases attempts)
       (auto simp: backoff_with_jitter_def upt_conv_Cons randrange0_def min_le_iff_disj simp del: upt_Suc)
qed

theorem backoff_with_jitter_bounds_witness:
  "(\<exists>xs. backoff_with_jitter (\<lambda>i. 7 * i) 10 30 45 = Inr xs \<and> length xs = 30
      \<and> (\<forall>x \<in> set xs. 0 \<le> x \<and> x < 45))
   \<and> backoff_with_jitter (\<lambda>i. 7 * i) 0 3 45 = Inl PyValueError"
  using backoff_with_jitter_bounds [of 10 45 "\<lambda>i. 7 * i" 30]
    backoff_with_jitter_bounds [of 0 45 "\<lambda>i. 7 * i" 3] by simp

end
