(* ===== verification/XB_Params.thy ===== *)
theory XB_Params
  imports XB_Common
begin

text \<open>
  \<^verbatim>\<open>xbench/common.py\<close>: the extra parameters of the command line
  (\<^verbatim>\<open>--backend.network.public_ip=127.0.0.1\<close>) become a nested dictionary
  (\<open>parse_unknown\<close>, \<open>helper_splitter\<close>, \<open>internal_eval\<close>), and nested dictionaries are
  merged into the parameters of a component (\<open>extender\<close>).

  Python's \<open>eval\<close> of a command-line value is a parameter. \<open>extender\<close> changes its first
  argument in place: \<open>extender\<close> is the change on a dictionary nobody else refers to, and
  \<open>extender_heap\<close> the change on dictionaries that are objects of a heap and may be shared.
\<close>

section \<open>Merging\<close>

function extender :: "pydict \<Rightarrow> pydict \<Rightarrow> pydict" where
  "extender base [] = base"
| "extender base ((key, v) # extra) =
     extender
       (case v of
          VDict e \<Rightarrow> (case dget base key of
                        Some (VDict b) \<Rightarrow> dset base key (VDict (extender b e))
                      | _ \<Rightarrow> dset base key v)
        | _ \<Rightarrow> dset base key v)
       extra"
  by pat_completeness auto
termination
  by (relation "measure (\<lambda>(base, extra). size_list (size_prod (\<lambda>_. 0) size) extra)") auto

section \<open>Parsing\<close>

definition internal_eval :: "(string \<Rightarrow> exn + pyval) \<Rightarrow> string \<Rightarrow> exn + pyval" where
  "internal_eval py_eval s =
     (case py_eval s of
        Inr value \<Rightarrow> Inr value
      | Inl e \<Rightarrow> if isinstance_any e [PyValueError, PyNameError, PySyntaxError]
                 then Inr (VStr s) else Inl e)"

function helper_splitter :: "(string \<Rightarrow> exn + pyval) \<Rightarrow> string \<Rightarrow> string \<Rightarrow> exn + pydict" where
  "helper_splitter py_eval str val =
     (case split_first (CHR ''.'') str of
        None \<Rightarrow> (case internal_eval py_eval val of Inl e \<Rightarrow> Inl e | Inr x \<Rightarrow> Inr [(str, x)])
      | Some (k, v) \<Rightarrow>
          (case helper_splitter py_eval v val of Inl e \<Rightarrow> Inl e | Inr d \<Rightarrow> Inr [(k, VDict d)]))"
  by pat_completeness auto
termination
  by (relation "measure (\<lambda>(py_eval, str, val). length str)") (auto dest: split_first_length)

declare helper_splitter.simps [simp del]

text \<open>One argument: \<open>k, v = arg.split("=")\<close> raises \<open>ValueError\<close> unless there are two pieces.\<close>

definition parse_arg :: "(string \<Rightarrow> exn + pyval) \<Rightarrow> string \<Rightarrow> exn + pydict" where
  "parse_arg py_eval arg =
     (if startswith arg ''-'' \<or> startswith arg ''--'' then
        (case split_on (CHR ''='') arg of
           [k, v] \<Rightarrow> helper_splitter py_eval (filter (\<lambda>c. c \<noteq> CHR ''-'') k) v
         | _ \<Rightarrow> Inl PyValueError)
      else Inl PyValueError)"

fun parse_loop :: "(string \<Rightarrow> exn + pyval) \<Rightarrow> pydict \<Rightarrow> string list \<Rightarrow> exn + pydict" where
  "parse_loop py_eval params [] = Inr params"
| "parse_loop py_eval params (arg # unknown) =
     (case parse_arg py_eval arg of
        Inl e \<Rightarrow> Inl e
      | Inr d \<Rightarrow> parse_loop py_eval (extender params d) unknown)"

definition parse_unknown :: "(string \<Rightarrow> exn + pyval) \<Rightarrow> string list \<Rightarrow> exn + pydict" where
  "parse_unknown py_eval unknown =
     (case parse_loop py_eval [] unknown of
        Inr d \<Rightarrow> Inr d
      | Inl e \<Rightarrow> if isinstance_exn e PyValueError then Inl XbenchException else Inl e)"

section \<open>Shared dictionaries\<close>

text \<open>
  A dictionary object at an address; an entry is a value of its own or a reference to another
  object. PyYAML builds one object for an anchor and refers to it from every alias
  (\<^verbatim>\<open>network: *public_cloud\<close> of two components).
\<close>

datatype hval = HVal pyval | HRef nat

type_synonym heap = "nat \<Rightarrow> (string, hval) dict"

function extender_heap :: "heap \<Rightarrow> nat \<Rightarrow> pydict \<Rightarrow> heap" where
  "extender_heap h base [] = h"
| "extender_heap h base ((key, v) # extra) =
     extender_heap
       (case v of
          VDict e \<Rightarrow> (case dget (h base) key of
                        Some (HRef a) \<Rightarrow> extender_heap h a e
                      | Some (HVal (VDict b)) \<Rightarrow>
                          h(base := dset (h base) key (HVal (VDict (extender b e))))
                      | _ \<Rightarrow> h(base := dset (h base) key (HVal v)))
        | _ \<Rightarrow> h(base := dset (h base) key (HVal v)))
       base extra"
  by pat_completeness auto
termination
  by (relation "measure (\<lambda>(h, base, extra). size_list (size_prod (\<lambda>_. 0) size) extra)") auto

text \<open>The plain value of an entry whose object holds no further references.\<close>

definition read_hval :: "heap \<Rightarrow> hval \<Rightarrow> pyval" where
  "read_hval h x = (case x of HVal v \<Rightarrow> v
     | HRef a \<Rightarrow> VDict (map (\<lambda>(k, y). (k, case y of HVal v \<Rightarrow> v | HRef _ \<Rightarrow> VObj ''object'')) (h a)))"

definition read_entries :: "heap \<Rightarrow> (string, hval) dict \<Rightarrow> pydict" where
  "read_entries h d = map (\<lambda>(k, x). (k, read_hval h x)) d"

definition read_obj :: "heap \<Rightarrow> nat \<Rightarrow> pydict" where
  "read_obj h a = read_entries h (h a)"

section \<open>Paths\<close>

fun lookup_path :: "pydict \<Rightarrow> string list \<Rightarrow> pyval option" where
  "lookup_path d [] = Some (VDict d)"
| "lookup_path d [k] = dget d k"
| "lookup_path d (k # ks) = (case dget d k of Some (VDict e) \<Rightarrow> lookup_path e ks | _ \<Rightarrow> None)"

fun nest :: "string list \<Rightarrow> pyval \<Rightarrow> pydict" where
  "nest [] v = []"
| "nest [k] v = [(k, v)]"
| "nest (k # ks) v = [(k, VDict (nest ks v))]"

lemma lookup_path_Cons:
  "ks \<noteq> [] \<Longrightarrow> lookup_path d (k # ks) =
     (case dget d k of Some (VDict e) \<Rightarrow> lookup_path e ks | _ \<Rightarrow> None)"
  by (cases ks) auto

text \<open>What a key holds after the merge, in one equation.\<close>

lemma dget_extender:
  "dict_ok extra \<Longrightarrow> dget (extender base extra) k =
     (case dget extra k of
        None \<Rightarrow> dget base k
      | Some (VDict e) \<Rightarrow> (case dget base k of Some (VDict b) \<Rightarrow> Some (VDict (extender b e)) | _ \<Rightarrow> Some (VDict e))
      | Some v \<Rightarrow> Some v)"
proof (induction extra arbitrary: base k)
  case (Cons a extra)
  obtain key v where a: "a = (key, v)" by (cases a)
  with Cons.prems have new: "dget extra key = None" and ok: "dict_ok extra"
    by (simp_all add: dget_None_iff)
  show ?case
    by (cases "k = key"; cases v) (simp_all add: a Cons.IH [OF ok] new split: option.splits pyval.splits)
qed simp

text \<open>Well-formedness is kept.\<close>

lemma wf_val_dget: "wf_val (VDict d) \<Longrightarrow> dget d k = Some v \<Longrightarrow> wf_val v"
  by (auto dest: map_of_SomeD)

lemma wf_val_dset:
  "wf_val (VDict d) \<Longrightarrow> wf_val v \<Longrightarrow> wf_val (VDict (dset d k v))"
proof -
  assume d: "wf_val (VDict d)" and v: "wf_val v"
  have "set (dset d k v) \<subseteq> insert (k, v) (set d)"
    by (induction d) auto
  with d v show ?thesis by auto
qed

lemma wf_extender:
  "wf_val (VDict base) \<Longrightarrow> wf_val (VDict extra) \<Longrightarrow> wf_val (VDict (extender base extra))"
proof (induction base extra rule: extender.induct)
  case (2 base key v extra)
  have v: "wf_val v" and extra: "wf_val (VDict extra)" using "2.prems"(2) by auto
  have plain: "wf_val (VDict (dset base key v))" using "2.prems"(1) v by (rule wf_val_dset)
  have nested: "wf_val (VDict (dset base key (VDict (extender b e))))"
    if "v = VDict e" and "dget base key = Some (VDict b)" for e b
    using that v "2.prems"(1) wf_val_dget [OF "2.prems"(1) that(2)]
    by (intro wf_val_dset "2.IH"(1)) simp_all
  have "wf_val (VDict
      (case v of
         VDict e \<Rightarrow> (case dget base key of
                       Some (VDict b) \<Rightarrow> dset base key (VDict (extender b e))
                     | _ \<Rightarrow> dset base key v)
       | _ \<Rightarrow> dset base key v))"
    using plain nested by (auto simp del: wf_val.simps split: pyval.splits option.splits)
  then show ?case
    unfolding extender.simps using extra by (rule "2.IH"(2))
qed simp

lemma extender_path_wins:
  "wf_val (VDict extra) \<Longrightarrow> ks \<noteq> [] \<Longrightarrow> lookup_path extra ks = Some v \<Longrightarrow> \<not> is_VDict v \<Longrightarrow>
     lookup_path (extender base extra) ks = Some v"
proof (induction ks arbitrary: base extra)
  case (Cons k ks)
  have ok: "dict_ok extra" using Cons.prems(1) by simp
  show ?case
  proof (cases "ks = []")
    case True
    with Cons.prems ok show ?thesis
      by (auto simp: dget_extender split: pyval.splits)
  next
    case False
    with Cons.prems(3) obtain e where e: "dget extra k = Some (VDict e)" "lookup_path e ks = Some v"
      by (auto simp: lookup_path_Cons split: option.splits pyval.splits)
    have we: "wf_val (VDict e)" using Cons.prems(1) e(1) by (rule wf_val_dget)
    show ?thesis
      using Cons.IH [OF we False e(2) Cons.prems(4)] e False ok
      by (auto simp: lookup_path_Cons dget_extender split: option.splits pyval.splits)
  qed
qed simp

text \<open>The path leaves the extra dictionary at a key that it does not have.\<close>

fun leaves :: "pydict \<Rightarrow> string list \<Rightarrow> bool" where
  "leaves d [] = False"
| "leaves d (k # ks) = (case dget d k of None \<Rightarrow> True | Some (VDict e) \<Rightarrow> leaves e ks | Some _ \<Rightarrow> False)"

lemma extender_path_kept:
  "wf_val (VDict extra) \<Longrightarrow> leaves extra ks \<Longrightarrow> lookup_path base ks = Some v \<Longrightarrow>
     lookup_path (extender base extra) ks = Some v"
proof (induction ks arbitrary: base extra)
  case (Cons k ks)
  have ok: "dict_ok extra" using Cons.prems(1) by simp
  show ?case
  proof (cases "dget extra k")
    case None
    then show ?thesis
      using Cons.prems ok by (cases ks) (auto simp: dget_extender lookup_path_Cons)
  next
    case (Some x)
    with Cons.prems(2) obtain e where e: "x = VDict e" "leaves e ks"
      by (auto split: pyval.splits)
    then have ne: "ks \<noteq> []" by auto
    with Cons.prems(3) obtain b where b: "dget base k = Some (VDict b)" "lookup_path b ks = Some v"
      by (auto simp: lookup_path_Cons split: option.splits pyval.splits)
    have "wf_val (VDict e)" using Cons.prems(1) Some unfolding e(1) by (rule wf_val_dget)
    then have "lookup_path (extender b e) ks = Some v" using e(2) b(2) by (rule Cons.IH)
    then show ?thesis
      using Some e(1) b ne ok by (simp add: lookup_path_Cons dget_extender)
  qed
qed simp

section \<open>Reading an argument\<close>

lemma helper_splitter_path:
  "ks \<noteq> [] \<Longrightarrow> \<forall>k \<in> set ks. CHR ''.'' \<notin> set k \<Longrightarrow> internal_eval py_eval val = Inr x \<Longrightarrow>
     helper_splitter py_eval (join ''.'' ks) val = Inr (nest ks x)"
proof (induction ks)
  case (Cons k ks)
  show ?case
  proof (cases "ks = []")
    case True
    with Cons.prems have "split_first (CHR ''.'') k = None" by (simp add: split_first_None)
    with True Cons.prems show ?thesis by (simp add: helper_splitter.simps [of py_eval k])
  next
    case False
    then have "split_first (CHR ''.'') (join ''.'' (k # ks)) = Some (k, join ''.'' ks)"
      using Cons.prems by (simp add: join_Cons split_first_Some)
    moreover have "helper_splitter py_eval (join ''.'' ks) val = Inr (nest ks x)"
      using False Cons.prems by (intro Cons.IH) auto
    moreover have "nest (k # ks) x = [(k, VDict (nest ks x))]" using False by (cases ks) auto
    ultimately show ?thesis by (simp add: helper_splitter.simps [of py_eval "join ''.'' (k # ks)"])
  qed
qed simp

lemma lookup_nest: "ks \<noteq> [] \<Longrightarrow> lookup_path (nest ks v) ks = Some v"
proof (induction ks)
  case (Cons k ks)
  then show ?case by (cases ks) auto
qed simp

lemma wf_nest: "wf_val v \<Longrightarrow> wf_val (VDict (nest ks v))"
  by (induction ks v rule: nest.induct) auto

lemma helper_splitter_typed:
  assumes "\<forall>s v. py_eval s = Inr v \<longrightarrow> wf_val v"
  shows "case helper_splitter py_eval str val of Inr d \<Rightarrow> wf_val (VDict d) | Inl e \<Rightarrow> \<exists>s. py_eval s = Inl e"
  using assms
proof (induction py_eval str val rule: helper_splitter.induct)
  case (1 py_eval str val)
  show ?case
  proof (cases "split_first (CHR ''.'') str")
    case None
    with "1.prems" show ?thesis
      by (subst helper_splitter.simps) (auto simp: internal_eval_def split: sum.split)
  next
    case (Some kv)
    obtain k v where kv: "kv = (k, v)" by (cases kv)
    from "1.IH" [OF Some] "1.prems" have "case helper_splitter py_eval v val of Inr d \<Rightarrow> wf_val (VDict d) | Inl e \<Rightarrow> \<exists>s. py_eval s = Inl e"
      by (simp only: kv)
    then show ?thesis by (subst helper_splitter.simps) (auto simp: Some kv simp del: wf_val.simps split: sum.splits intro: wf_nest [of _ "[_]", simplified nest.simps])
  qed
qed

lemma parse_loop_typed:
  assumes "\<forall>s v. py_eval s = Inr v \<longrightarrow> wf_val v" and "wf_val (VDict params)"
  shows "case parse_loop py_eval params args of Inr d \<Rightarrow> wf_val (VDict d)
    | Inl e \<Rightarrow> e = PyValueError \<or> (\<exists>s. py_eval s = Inl e)"
  using assms(2)
proof (induction args arbitrary: params)
  case (Cons arg args)
  have arg: "case parse_arg py_eval arg of Inr d \<Rightarrow> wf_val (VDict d) | Inl e \<Rightarrow> e = PyValueError \<or> (\<exists>s. py_eval s = Inl e)"
    using helper_splitter_typed [OF assms(1)] by (fastforce simp: parse_arg_def split: list.splits sum.splits)
  show ?case
  proof (cases "parse_arg py_eval arg")
    case (Inr d)
    with arg Cons.prems have "wf_val (VDict (extender params d))" by (intro wf_extender) auto
    from Cons.IH [OF this] Inr show ?thesis by simp
  qed (use arg in simp)
qed simp

text \<open>A printed argument: \<^verbatim>\<open>--k1.k2...=raw\<close>.\<close>

definition plain_key :: "string \<Rightarrow> bool" where
  "plain_key k \<longleftrightarrow> list_all (\<lambda>c. c \<notin> {CHR ''.'', CHR ''='', CHR ''-''}) k"

definition print_arg :: "string list \<Rightarrow> string \<Rightarrow> string" where
  "print_arg ks raw = ''--'' @ join ''.'' ks @ ''='' @ raw"

lemma set_join: "c \<in> set (join sep xs) \<Longrightarrow> c \<in> set sep \<or> (\<exists>x \<in> set xs. c \<in> set x)"
  by (auto simp: join_def split: list.splits if_splits)

lemma parse_print_arg:
  assumes "ks \<noteq> []" and "\<forall>k \<in> set ks. plain_key k" and "CHR ''='' \<notin> set raw"
    and "internal_eval py_eval raw = Inr x"
  shows "parse_arg py_eval (print_arg ks raw) = Inr (nest ks x)"
proof -
  let ?j = "join ''.'' ks"
  have "c \<noteq> CHR ''='' \<and> c \<noteq> CHR ''-''" if "c \<in> set ?j" for c
    using set_join [OF that] assms(2) by (auto simp: plain_key_def list_all_iff)
  then have j: "CHR ''='' \<notin> set ?j" and f: "filter (\<lambda>c. c \<noteq> CHR ''-'') ?j = ?j"
    by (auto simp: filter_id_conv)
  have "split_on (CHR ''='') (print_arg ks raw) = [''--'' @ ?j, raw]"
    using split_on_append [of "CHR ''=''" "''--'' @ ?j" raw] j assms(3)
    by (simp add: print_arg_def split_on_no_sep)
  moreover have "helper_splitter py_eval ?j raw = Inr (nest ks x)"
    using assms by (intro helper_splitter_path) (auto simp: plain_key_def list_all_iff)
  ultimately show ?thesis
    using f by (simp add: parse_arg_def startswith_def print_arg_def)
qed

lemma parse_loop_snoc:
  "parse_loop py_eval d (args @ [a]) =
     (case parse_loop py_eval d args of Inl e \<Rightarrow> Inl e
      | Inr d' \<Rightarrow> (case parse_arg py_eval a of Inl e \<Rightarrow> Inl e | Inr x \<Rightarrow> Inr (extender d' x)))"
  by (induction args arbitrary: d) (auto split: sum.splits)

section \<open>The heap version refines the pure one\<close>

abbreviation own :: "pydict \<Rightarrow> (string, hval) dict" where
  "own d \<equiv> map (\<lambda>(k, v). (k, HVal v)) d"

definition refs :: "(string, hval) dict \<Rightarrow> nat list" where
  "refs d = concat (map (\<lambda>(k, x). case x of HRef a \<Rightarrow> [a] | HVal _ \<Rightarrow> []) d)"

lemma dget_own: "dget (own d) k = map_option HVal (dget d k)"
  by (induction d) auto

lemma dset_own: "dset (own d) k (HVal v) = own (dset d k v)"
  by (induction d) auto

lemma refs_simps [simp]:
  "refs [] = []" "refs ((k, HRef a) # d) = a # refs d" "refs ((k, HVal v) # d) = refs d"
  by (simp_all add: refs_def)

lemma dget_refs: "dget d k = Some (HRef a) \<Longrightarrow> a \<in> set (refs d)"
  by (auto simp: refs_def dest!: map_of_SomeD)

lemma refs_dset_HVal: "set (refs (dset d k (HVal v))) \<subseteq> set (refs d)"
proof (induction d)
  case (Cons p d)
  then show ?case by (cases p; cases "snd p") auto
qed simp

lemma distinct_refs_dset_HVal: "distinct (refs d) \<Longrightarrow> distinct (refs (dset d k (HVal v)))"
proof (induction d)
  case (Cons p d)
  then show ?case using refs_dset_HVal [where d = d and k = k and v = v] by (cases p; cases "snd p") auto
qed simp

text \<open>On an object without references the two versions agree.\<close>

lemma extender_heap_own:
  "extender_heap (h(a := own d)) a e = h(a := own (extender d e))"
proof (induction e arbitrary: h d)
  case (Cons p e)
  obtain key v where p: "p = (key, v)" by (cases p)
  have "extender_heap (h(a := own d)) a (p # e) =
      extender_heap (h(a := own (case v of
          VDict e' \<Rightarrow> (case dget d key of
                        Some (VDict b) \<Rightarrow> dset d key (VDict (extender b e'))
                      | _ \<Rightarrow> dset d key v)
        | _ \<Rightarrow> dset d key v))) a e"
    by (cases v; cases "dget d key") (auto simp: p dget_own dset_own split: pyval.splits)
  also have "\<dots> = h(a := own (extender d (p # e)))"
    by (simp only: Cons.IH p extender.simps)
  finally show ?case .
qed simp

definition flat_at :: "heap \<Rightarrow> nat \<Rightarrow> bool" where
  "flat_at h a \<longleftrightarrow> (\<exists>d. h a = own d)"

definition tree_like :: "heap \<Rightarrow> nat \<Rightarrow> bool" where
  "tree_like h base \<longleftrightarrow> dict_ok (h base) \<and> distinct (refs (h base)) \<and> base \<notin> set (refs (h base))
     \<and> (\<forall>a \<in> set (refs (h base)). flat_at h a)"

lemma read_hval_own: "h a = own d \<Longrightarrow> read_hval h (HRef a) = VDict d"
  by (simp add: read_hval_def o_def split_beta)

lemma read_entries_simps [simp]:
  "read_entries h [] = []"
  "read_entries h ((k, x) # d) = (k, read_hval h x) # read_entries h d"
  by (simp_all add: read_entries_def)

lemma read_hval_HVal [simp]: "read_hval h (HVal v) = v"
  by (simp add: read_hval_def)

lemma dget_read_entries: "dget (read_entries h d) k = map_option (read_hval h) (dget d k)"
  by (induction d) auto

lemma read_entries_dset: "read_entries h (dset d k (HVal v)) = dset (read_entries h d) k v"
  by (induction d) auto

lemma read_entries_cong:
  "\<forall>a \<in> set (refs d). h' a = h a \<Longrightarrow> read_entries h' d = read_entries h d"
proof (induction d)
  case (Cons p d)
  then show ?case by (cases p; cases "snd p") (auto simp: read_hval_def)
qed simp

text \<open>Reading the object after one key of it, or one of its sub-objects, has changed.\<close>

lemma read_obj_set_own:
  assumes "base \<notin> set (refs (h base))"
  shows "read_obj (h(base := dset (h base) k (HVal v))) base = dset (read_obj h base) k v"
proof -
  let ?h = "h(base := dset (h base) k (HVal v))"
  have "read_obj ?h base = dset (read_entries ?h (h base)) k v"
    by (simp add: read_obj_def read_entries_dset)
  moreover have "read_entries ?h (h base) = read_entries h (h base)"
    using assms by (intro read_entries_cong) auto
  ultimately show ?thesis by (simp only: read_obj_def)
qed

lemma read_entries_set_ref:
  assumes "h' a = own d" and "\<And>x. x \<noteq> a \<Longrightarrow> h' x = h x"
  shows "dict_ok e \<Longrightarrow> distinct (refs e) \<Longrightarrow> dget e k = Some (HRef a) \<Longrightarrow>
    read_entries h' e = dset (read_entries h e) k (VDict d)"
proof (induction e)
  case (Cons p e)
  obtain k' y where p: "p = (k', y)" by (cases p)
  show ?case
  proof (cases "k' = k")
    case True
    with Cons.prems p have y: "y = HRef a" and "a \<notin> set (refs e)" by auto
    then have "read_entries h' e = read_entries h e"
      by (intro read_entries_cong ballI assms(2)) auto
    then show ?thesis using True y by (simp add: p read_hval_own [of h', OF assms(1)])
  next
    case False
    with Cons.prems p have e: "dget e k = Some (HRef a)" by auto
    then have "y \<noteq> HRef a" using Cons.prems(2) dget_refs by (auto simp: p)
    then have "read_hval h' y = read_hval h y"
      using assms(2) by (cases y) (simp_all add: read_hval_def)
    moreover have "distinct (refs e)" using Cons.prems(2) by (cases y) (auto simp: p)
    ultimately show ?thesis using False Cons e by (simp add: p)
  qed
qed simp

lemma read_obj_set_ref:
  assumes "tree_like h base" and "dget (h base) k = Some (HRef a)"
  shows "read_obj (h(a := own d)) base = dset (read_obj h base) k (VDict d)"
proof -
  have "a \<noteq> base" using assms dget_refs by (auto simp: tree_like_def)
  then show ?thesis
    using assms read_entries_set_ref [of "h(a := own d)" a d h "h base" k]
    by (simp add: read_obj_def tree_like_def)
qed

text \<open>One entry of the extra dictionary: what the loop body does to the heap.\<close>

definition heap_step :: "heap \<Rightarrow> nat \<Rightarrow> string \<Rightarrow> pyval \<Rightarrow> heap" where
  "heap_step h base key v = extender_heap h base [(key, v)]"

lemma extender_heap_Cons:
  "extender_heap h base ((key, v) # extra) = extender_heap (heap_step h base key v) base extra"
  by (simp add: heap_step_def)

lemma extender_Cons: "extender d ((key, v) # extra) = extender (extender d [(key, v)]) extra"
  by simp

lemma heap_step_refines:
  assumes t: "tree_like h base"
  shows "tree_like (heap_step h base key v) base
    \<and> read_obj (heap_step h base key v) base = extender (read_obj h base) [(key, v)]
    \<and> set (refs (heap_step h base key v base)) \<subseteq> set (refs (h base))
    \<and> (\<forall>x. x \<noteq> base \<longrightarrow> x \<notin> set (refs (h base)) \<longrightarrow> heap_step h base key v x = h x)"
proof (cases "\<exists>e a. v = VDict e \<and> dget (h base) key = Some (HRef a)")
  case True
  then obtain e a where v: "v = VDict e" and a: "dget (h base) key = Some (HRef a)" by auto
  have ar: "a \<in> set (refs (h base))" using a by (rule dget_refs)
  then obtain d where d: "h a = own d" and ab: "a \<noteq> base" using t by (auto simp: tree_like_def flat_at_def)
  have step: "heap_step h base key v = h(a := own (extender d e))"
    using extender_heap_own [of h a d e] a d by (simp add: heap_step_def v fun_upd_idem)
  have "dget (read_obj h base) key = Some (VDict d)"
    by (simp add: read_obj_def dget_read_entries a read_hval_own [of h a d] d)
  then have "extender (read_obj h base) [(key, v)] = dset (read_obj h base) key (VDict (extender d e))"
    by (simp add: v)
  moreover have "tree_like (h(a := own (extender d e))) base"
    using t ab by (auto simp: tree_like_def flat_at_def)
  moreover have "read_obj (h(a := own (extender d e))) base = dset (read_obj h base) key (VDict (extender d e))"
    using t a by (rule read_obj_set_ref)
  ultimately show ?thesis
    unfolding step using ar ab by simp
next
  case False
  define x where "x = (case v of
      VDict e \<Rightarrow> (case dget (h base) key of
          Some (HVal (VDict b)) \<Rightarrow> VDict (extender b e) | _ \<Rightarrow> v)
    | _ \<Rightarrow> v)"
  have step: "heap_step h base key v = h(base := dset (h base) key (HVal x))"
    using False by (auto simp: heap_step_def x_def split: pyval.splits option.splits hval.splits)
  have "extender (read_obj h base) [(key, v)] = dset (read_obj h base) key x"
    using False by (auto simp: x_def read_obj_def dget_read_entries split: pyval.splits option.splits hval.splits)
  moreover have "tree_like (h(base := dset (h base) key (HVal x))) base"
    using t refs_dset_HVal [where d = "h base" and k = key and v = x]
    by (auto simp: tree_like_def flat_at_def distinct_refs_dset_HVal)
  moreover have "read_obj (h(base := dset (h base) key (HVal x))) base = dset (read_obj h base) key x"
    using t by (intro read_obj_set_own) (simp add: tree_like_def)
  ultimately show ?thesis
    unfolding step using refs_dset_HVal [where d = "h base" and k = key and v = x] by simp
qed

lemma extender_heap_refines:
  assumes "tree_like h base"
  shows "read_obj (extender_heap h base extra) base = extender (read_obj h base) extra"
    and "x \<noteq> base \<Longrightarrow> x \<notin> set (refs (h base)) \<Longrightarrow> extender_heap h base extra x = h x"
proof -
  have "read_obj (extender_heap h base extra) base = extender (read_obj h base) extra
      \<and> (x \<noteq> base \<longrightarrow> x \<notin> set (refs (h base)) \<longrightarrow> extender_heap h base extra x = h x)"
    using assms
  proof (induction extra arbitrary: h)
    case (Cons p extra)
    obtain key v where p: "p = (key, v)" by (cases p)
    note step = heap_step_refines [OF Cons.prems, of key v]
    with Cons.IH [of "heap_step h base key v"] show ?case
      unfolding p extender_heap_Cons extender_Cons [of _ key v extra] by auto
  qed simp
  then show "read_obj (extender_heap h base extra) base = extender (read_obj h base) extra"
    and "x \<noteq> base \<Longrightarrow> x \<notin> set (refs (h base)) \<Longrightarrow> extender_heap h base extra x = h x"
    by auto
qed

section \<open>Properties\<close>

text \<open>
  C14. Merging extra parameters into a component: every value that the extra dictionary holds at a
  path (and that is not itself a dictionary) is at that path afterwards, and every value of the
  base at a path that leaves the extra dictionary stays.
\<close>

theorem extender_merges:
  assumes "wf_val (VDict extra)"
  shows "(ks \<noteq> [] \<longrightarrow> lookup_path extra ks = Some v \<longrightarrow> \<not> is_VDict v \<longrightarrow>
            lookup_path (extender base extra) ks = Some v)
       \<and> (leaves extra ks \<longrightarrow> lookup_path base ks = Some v \<longrightarrow>
            lookup_path (extender base extra) ks = Some v)
       \<and> (wf_val (VDict base) \<longrightarrow> wf_val (VDict (extender base extra)))"
  using assms extender_path_wins extender_path_kept wf_extender by blast

theorem extender_merges_witness:
  "lookup_path (extender [(''network'', VDict [(''ip'', VInt 1), (''type'', VInt 2)])]
      [(''network'', VDict [(''ip'', VInt 7)])]) [''network'', ''ip''] = Some (VInt 7)
   \<and> lookup_path (extender [(''network'', VDict [(''ip'', VInt 1), (''type'', VInt 2)])]
      [(''network'', VDict [(''ip'', VInt 7)])]) [''network'', ''type''] = Some (VInt 2)"
  using extender_merges [of "[(''network'', VDict [(''ip'', VInt 7)])]" "[''network'', ''ip'']" "VInt 7"
      "[(''network'', VDict [(''ip'', VInt 1), (''type'', VInt 2)])]"]
    extender_merges [of "[(''network'', VDict [(''ip'', VInt 7)])]" "[''network'', ''type'']" "VInt 2"
      "[(''network'', VDict [(''ip'', VInt 1), (''type'', VInt 2)])]"]
  by simp


text \<open>An \<open>eval\<close> for the witness: no text is a Python expression.\<close>

definition eval_none :: "string \<Rightarrow> exn + pyval" where
  "eval_none s = Inl PySyntaxError"




text \<open>
  Malformed arguments are refused: an argument that does not start with a dash, or has not
  exactly one equals sign, makes \<open>parse_unknown\<close> raise \<open>XbenchException\<close> once the arguments
  before it are accepted.
\<close>

theorem parse_unknown_refuses:
  assumes "parse_loop py_eval [] args = Inr d"
    and "\<not> startswith arg ''-'' \<or> length (split_on (CHR ''='') arg) \<noteq> 2"
  shows "parse_unknown py_eval (args @ arg # rest) = Inl XbenchException"
proof -
  have "\<not> startswith arg ''--''" if "\<not> startswith arg ''-''"
    using that by (cases arg) (auto simp: startswith_def)
  with assms(2) have arg: "parse_arg py_eval arg = Inl PyValueError"
    by (auto simp: parse_arg_def split: list.splits)
  have "parse_loop py_eval e (args @ arg # rest) = Inl PyValueError"
    if "parse_loop py_eval e args = Inr d" for e
    using that by (induction args arbitrary: e) (auto simp: arg split: sum.splits)
  from this [OF assms(1)] show ?thesis by (simp add: parse_unknown_def)
qed

theorem parse_unknown_refuses_witness:
  "parse_unknown eval_none ([] @ ''--a=b=c'' # []) = Inl XbenchException
   \<and> parse_unknown eval_none ([] @ ''backend'' # []) = Inl XbenchException"
  using parse_unknown_refuses [of eval_none "[]" "[]" "''--a=b=c''" "[]"]
    parse_unknown_refuses [of eval_none "[]" "[]" "''backend''" "[]"]
  by (simp add: startswith_def)

text \<open>
  C24. In-place merging refines the pure one where nothing is shared: if the references of the
  component's dictionary are to distinct flat objects, reading the component after
  \<open>extender_heap\<close> gives \<open>extender\<close> of what was read before, and no object outside the component
  has changed.
\<close>

theorem extender_heap_refines_extender:
  assumes "tree_like h base"
  shows "read_obj (extender_heap h base extra) base = extender (read_obj h base) extra
    \<and> (\<forall>x. x \<noteq> base \<longrightarrow> x \<notin> set (refs (h base)) \<longrightarrow> extender_heap h base extra x = h x)"
  using extender_heap_refines [OF assms] by blast

text \<open>Two components (objects 0 and 1) whose \<open>network\<close> is an alias of one anchor (object 2).\<close>

definition anchor_heap :: heap where
  "anchor_heap = (\<lambda>_. [])(0 := [(''network'', HRef 2)], 1 := [(''network'', HRef 2)],
     2 := [(''public_ip'', HVal (VStr ''0.0.0.0''))])"

theorem extender_heap_refines_extender_witness:
  "read_obj (extender_heap anchor_heap 1 [(''network'', VDict [(''public_ip'', VInt 7)])]) 1
     = extender (read_obj anchor_heap 1) [(''network'', VDict [(''public_ip'', VInt 7)])]"
proof -
  have "tree_like anchor_heap 1"
    by (auto simp: tree_like_def flat_at_def anchor_heap_def intro: exI [of _ "[(''public_ip'', VStr ''0.0.0.0'')]"])
  from extender_heap_refines_extender [OF this] show ?thesis by blast
qed

text \<open>
  A parameter given for one component reaches another: when the \<open>network\<close> of the driver and of
  the backend is an alias of one YAML anchor, \<^verbatim>\<open>--backend.network.public_ip=10.0.0.1\<close> changes
  the driver's \<open>network\<close> too.
\<close>

theorem extender_leaks_through_anchor:
  "lookup_path (read_obj anchor_heap 0) [''network'', ''public_ip''] = Some (VStr ''0.0.0.0'')
   \<and> lookup_path (read_obj (extender_heap anchor_heap 1
        [(''network'', VDict [(''public_ip'', VStr ''10.0.0.1'')])]) 0)
        [''network'', ''public_ip''] = Some (VStr ''10.0.0.1'')"
  by (simp add: anchor_heap_def read_obj_def read_hval_def)

end
