(* ===== verification/XB_Config.thy ===== *)
theory XB_Config
  imports XB_Common
begin

text \<open>
  The configuration files: \<^verbatim>\<open>lib/vault/vault.py\<close>, \<^verbatim>\<open>lib/yaml_config/yaml_config.py\<close>
  and \<^verbatim>\<open>lib/xbench_config.py\<close>.

  Parsing of YAML text is PyYAML's and a parameter; what the program adds is modelled: references
  to the environment and the vault inside scalars, \<^verbatim>\<open>!include\<close> lines, merging of several
  documents, lookup of a key with defaults and the check for empty values, and the search for the
  main configuration file. A file system is a partial map from paths to texts.
\<close>

type_synonym file_system = "string \<rightharpoonup> string"

section \<open>The vault\<close>

text \<open>The content of the vault file is a dictionary, or \<open>get\<close> is not an attribute of it.\<close>

definition get_secret :: "pyval \<Rightarrow> string \<Rightarrow> exn + pyval" where
  "get_secret vault secret =
     (case vault of
        VDict d \<Rightarrow>
          (let secret_value = dget_default d secret VNone in
           if \<not> truthy secret_value then Inl VaultException else Inr secret_value)
      | _ \<Rightarrow> Inl PyAttributeError)"

section \<open>References inside scalars\<close>

text \<open>
  A node reader: its name and what \<open>read_value\<close> gives for a key. \<open>Inr None\<close> is Python's
  \<open>None\<close>, which \<open>re.sub\<close> inserts as the empty string; a value that is no string makes it
  raise \<open>TypeError\<close>.
\<close>

record node_reader =
  reader_name :: string
  read_value :: "string \<Rightarrow> exn + string option"

definition EnvYamlDictNodeReader :: "(string \<rightharpoonup> string) \<Rightarrow> node_reader" where
  "EnvYamlDictNodeReader env = \<lparr>reader_name = ''ENV'', read_value = (\<lambda>key. Inr (env key))\<rparr>"

definition VaultYamlDictNodeReader :: "pyval \<Rightarrow> node_reader" where
  "VaultYamlDictNodeReader vault = \<lparr>reader_name = ''VAULT'',
     read_value = (\<lambda>key. case get_secret vault key of
        Inr (VStr s) \<Rightarrow> Inr (Some s)
      | Inr _ \<Rightarrow> Inl PyTypeError
      | Inl e \<Rightarrow> if isinstance_exn e VaultException then Inr None else Inl e)\<rparr>"

text \<open>The lazy group and the closing quote and bracket: the first one, on the same line.\<close>

fun find_close :: "string \<Rightarrow> (string \<times> string) option" where
  "find_close [] = None"
| "find_close (c # cs) =
     (if startswith (c # cs) [CHR 0x27, CHR '']''] then Some ([], drop 2 (c # cs))
      else if c = newline then None
      else map_option (\<lambda>(g, r). (c # g, r)) (find_close cs))"

definition open_ref :: "string \<Rightarrow> string" where
  "open_ref name = name @ [CHR ''['', CHR 0x27]"

lemma find_close_length: "find_close s = Some (g, r) \<Longrightarrow> length r < length s"
  by (induction s arbitrary: g) (auto split: if_splits)

function pathex_sub :: "node_reader \<Rightarrow> string \<Rightarrow> exn + string" where
  "pathex_sub nr [] = Inr []"
| "pathex_sub nr (c # cs) =
     (let p = open_ref (reader_name nr) in
      case (if startswith (c # cs) p then find_close (drop (length p) (c # cs)) else None) of
        Some (key, rest) \<Rightarrow>
          (case read_value nr key of
             Inl e \<Rightarrow> Inl e
           | Inr v \<Rightarrow> map_sum id (\<lambda>t. (case v of None \<Rightarrow> [] | Some x \<Rightarrow> x) @ t) (pathex_sub nr rest))
      | None \<Rightarrow> map_sum id (\<lambda>t. c # t) (pathex_sub nr cs))"
  by pat_completeness auto
termination
  by (relation "measure (\<lambda>(nr, s). length s)") (auto dest: find_close_length split: if_splits)

definition pathex_constructor :: "node_reader \<Rightarrow> string \<Rightarrow> exn + string" where
  "pathex_constructor nr value =
     (case pathex_sub nr value of
        Inl e \<Rightarrow> if isinstance_exn e PyKeyError then Inr value else Inl e
      | Inr t \<Rightarrow> Inr t)"

section \<open>The configuration object\<close>

text \<open>
  \<open>YamlConfig._nodeReadersList\<close> is an attribute of the class: every constructor call appends its
  readers to the one list, and loading registers all of them, a later reader of a name replacing
  an earlier one in PyYAML's table of constructors.
\<close>

definition register_readers ::
  "node_reader list \<Rightarrow> (string \<rightharpoonup> string) \<Rightarrow> pyval option \<Rightarrow> node_reader list" where
  "register_readers readers env vault =
     readers @ [EnvYamlDictNodeReader env]
       @ (case vault of None \<Rightarrow> [] | Some v \<Rightarrow> [VaultYamlDictNodeReader v])"

fun constructor_for :: "node_reader list \<Rightarrow> string \<Rightarrow> node_reader option" where
  "constructor_for [] name = None"
| "constructor_for (nr # readers) name =
     (case constructor_for readers name of
        Some r \<Rightarrow> Some r
      | None \<Rightarrow> if reader_name nr = name then Some nr else None)"

text \<open>
  The documents of a file, merged in order. A document is a dictionary or \<open>None\<close> (an empty one).
\<close>

fun merge_docs :: "pyval \<Rightarrow> pyval list \<Rightarrow> exn + pyval" where
  "merge_docs res [] = Inr res"
| "merge_docs res (y # ys) =
     (if truthy res then
        (case (res, y) of
           (VDict a, VDict b) \<Rightarrow> merge_docs (VDict (dict_update a b)) ys
         | (VDict a, _) \<Rightarrow> Inl PyTypeError
         | _ \<Rightarrow> Inl PyAttributeError)
      else merge_docs y ys)"

definition load_documents :: "pyval list \<Rightarrow> exn + pyval" where
  "load_documents docs = merge_docs VNone docs"

record yaml_config =
  yaml_config_dict :: pydict
  defaults :: pyval

definition make_yaml_config :: "pyval \<Rightarrow> exn + yaml_config" where
  "make_yaml_config y =
     (case y of
        VDict d \<Rightarrow> Inr \<lparr>yaml_config_dict = d, defaults = dget_default d ''defaults'' VNone\<rparr>
      | _ \<Rightarrow> Inl PyAttributeError)"

definition is_empty_simple_key :: "pyval \<Rightarrow> bool" where
  "is_empty_simple_key val = (case val of VStr s \<Rightarrow> s = [] | VNone \<Rightarrow> True | _ \<Rightarrow> False)"

text \<open>The loop over \<open>recursive_items\<close> returns in its first iteration.\<close>

definition is_empty :: "pyval \<Rightarrow> bool" where
  "is_empty ret =
     (case ret of
        VDict d \<Rightarrow> (case recursive_items d of [] \<Rightarrow> False | (k, v) # _ \<Rightarrow> is_empty_simple_key v)
      | _ \<Rightarrow> is_empty_simple_key ret)"

text \<open>The value \<open>ret\<close> before defaults are applied; an absent name is \<open>None\<close> or the empty string.\<close>

definition select_key :: "pydict \<Rightarrow> string \<Rightarrow> string \<Rightarrow> exn + pyval" where
  "select_key config rootk leaf =
     (if rootk \<noteq> [] \<and> leaf \<noteq> [] then
        (case dget config rootk of
           None \<Rightarrow> Inl PyKeyError
         | Some (VDict d) \<Rightarrow> Inr (dget_default d leaf VNone)
         | Some _ \<Rightarrow> Inl PyAttributeError)
      else if rootk \<noteq> [] then Inr (dget_default config rootk VNone)
      else if leaf \<noteq> [] then Inr (dget_default config leaf VNone)
      else Inr (VDict config))"

text \<open>
  The two branches of the conditional: \<open>self.defaults | ret.copy()\<close> when some value of \<open>ret\<close> is a
  dictionary, \<open>save_dict_merge(self.defaults.copy(), ret.copy())\<close> otherwise.
\<close>

definition apply_defaults :: "pyval \<Rightarrow> bool \<Rightarrow> pyval \<Rightarrow> exn + pyval" where
  "apply_defaults dflt use_defaults ret =
     (case ret of
        VDict r \<Rightarrow>
          (if use_defaults \<and> truthy dflt then
             (if list_ex (\<lambda>(k, v). is_VDict v) r then
                (case dflt of VDict d \<Rightarrow> Inr (VDict (dict_update d r)) | _ \<Rightarrow> Inl PyTypeError)
              else
                (case dflt of VDict d \<Rightarrow> Inr (VDict (save_dict_merge d (Some r)))
                 | _ \<Rightarrow> Inl PyAttributeError))
           else Inr ret)
      | _ \<Rightarrow> Inr ret)"

definition get_key :: "yaml_config \<Rightarrow> string \<Rightarrow> string \<Rightarrow> bool \<Rightarrow> exn + pyval" where
  "get_key cfg rootk leaf use_defaults =
     (case select_key (yaml_config_dict cfg) rootk leaf of
        Inl e \<Rightarrow> Inl e
      | Inr ret \<Rightarrow>
          (if ret \<noteq> VNone then
             (case apply_defaults (defaults cfg) use_defaults ret of
                Inl e \<Rightarrow> Inl e
              | Inr r \<Rightarrow> if is_empty r then Inl YamlConfigException else Inr r)
           else Inl YamlConfigException))"

section \<open>Includes\<close>

text \<open>
  The pattern \<^verbatim>\<open>!include\s+(.+)\<close> at the start of a text. The white space is taken greedily
  and given back until a character that is no newline follows; the group runs to the end of the line.
\<close>

definition INCLUDE_MARKER :: string where
  "INCLUDE_MARKER = ''!include''"

definition include_at :: "string \<Rightarrow> (string \<times> string \<times> string) option" where
  "include_at s =
     (if startswith s INCLUDE_MARKER then
        (let after = drop (length INCLUDE_MARKER) s;
             n = length (takeWhile is_space after);
             ok = (\<lambda>i. drop i after \<noteq> [] \<and> hd (drop i after) \<noteq> newline)
         in case find ok (rev [1..<Suc n]) of
              None \<Rightarrow> None
            | Some i \<Rightarrow>
                (let fn = takeWhile (\<lambda>c. c \<noteq> newline) (drop i after) in
                 Some (INCLUDE_MARKER @ take i after @ fn, fn, drop (length fn) (drop i after))))
      else None)"

lemma include_at_length: "include_at s = Some (e, fn, rest) \<Longrightarrow> length rest < length s"
proof -
  assume "include_at s = Some (e, fn, rest)"
  then obtain i where s: "startswith s INCLUDE_MARKER"
    and r: "rest = drop (length fn) (drop i (drop (length INCLUDE_MARKER) s))"
    by (auto simp: include_at_def Let_def split: if_splits option.splits)
  have "length INCLUDE_MARKER \<le> length s"
    using s by (metis length_take min.absorb_iff2 startswith_def)
  then show ?thesis by (simp add: r INCLUDE_MARKER_def)
qed

function find_includes :: "string \<Rightarrow> (string \<times> string) list" where
  "find_includes [] = []"
| "find_includes (c # cs) =
     (case include_at (c # cs) of
        Some (expr, fn, rest) \<Rightarrow> (expr, fn) # find_includes rest
      | None \<Rightarrow> find_includes cs)"
  by pat_completeness auto
termination
  by (relation "measure length") (auto dest: include_at_length)

fun replace_includes :: "file_system \<Rightarrow> string \<Rightarrow> (string, string) dict \<Rightarrow> string \<Rightarrow> string" where
  "replace_includes fs base_path [] content = content"
| "replace_includes fs base_path ((expr, fn) # rest) content =
     (let file_content = (case fs (base_path @ ''/'' @ fn) of None \<Rightarrow> [] | Some t \<Rightarrow> t)
      in replace_includes fs base_path rest (replace_all expr file_content content))"

text \<open>The text that is parsed: the file itself, or the temporary file with the includes put in.\<close>

definition analyze_includes :: "file_system \<Rightarrow> string \<Rightarrow> string \<Rightarrow> string" where
  "analyze_includes fs base_path content =
     (let ext_files_dict = dict_update [] (find_includes content) in
      if ext_files_dict = [] then content
      else replace_includes fs base_path ext_files_dict (replace_all ''---'' [] content))"

section \<open>The main configuration\<close>

definition xbench_home :: "(string \<rightharpoonup> string) \<Rightarrow> exn + string" where
  "xbench_home env =
     (case env ''XBENCH_HOME'' of
        None \<Rightarrow> Inl XbenchConfigException
      | Some h \<Rightarrow> if h = [] then Inl XbenchConfigException else Inr h)"

definition get_config_file :: "(string \<rightharpoonup> string) \<Rightarrow> file_system \<Rightarrow> exn + string" where
  "get_config_file env fs =
     (case env ''XBENCH_CONFIG'' of
        Some (c # cs) \<Rightarrow> Inr (c # cs)
      | _ \<Rightarrow>
          (case xbench_home env of
             Inl e \<Rightarrow> Inl e
           | Inr home \<Rightarrow>
               (if fs (home @ ''/.xbench/xbench_config.yaml'') \<noteq> None
                then Inr (home @ ''/.xbench/xbench_config.yaml'')
                else if fs (home @ ''/xbench_config.yaml'') \<noteq> None
                then Inr (home @ ''/xbench_config.yaml'')
                else Inl XbenchConfigException)))"

definition config_get_key :: "pydict \<Rightarrow> string \<Rightarrow> exn + pyval" where
  "config_get_key config key =
     (case dget config key of
        None \<Rightarrow> Inl XbenchConfigException
      | Some value \<Rightarrow> if \<not> truthy value then Inl XbenchConfigException else Inr value)"

text \<open>
  Loading a file. \<open>parse\<close> is PyYAML with the given readers registered: the documents of a text, or
  \<open>None\<close> where it raises a \<open>YAMLError\<close>.
\<close>

type_synonym yaml_parser = "node_reader list \<Rightarrow> string \<Rightarrow> pyval list option"

definition load_yaml_config_file ::
  "yaml_parser \<Rightarrow> file_system \<Rightarrow> node_reader list \<Rightarrow> string \<Rightarrow> exn + pyval" where
  "load_yaml_config_file parse fs readers yaml_config_file =
     (case fs yaml_config_file of
        None \<Rightarrow> Inl YamlConfigException
      | Some content \<Rightarrow>
          (case parse readers (analyze_includes fs (path_head yaml_config_file) content) of
             None \<Rightarrow> Inl YamlConfigException
           | Some docs \<Rightarrow> load_documents docs))"

text \<open>The vault file is one document (\<open>yaml.load\<close>): none is \<open>None\<close>, several are an error.\<close>

definition vault_load :: "yaml_parser \<Rightarrow> file_system \<Rightarrow> node_reader list \<Rightarrow> string \<Rightarrow> exn + pyval" where
  "vault_load parse fs readers vault_file =
     (case fs vault_file of
        None \<Rightarrow> Inl VaultException
      | Some content \<Rightarrow>
          (case parse readers content of
             Some [] \<Rightarrow> Inr VNone
           | Some [v] \<Rightarrow> Inr v
           | _ \<Rightarrow> Inl VaultException))"

text \<open>
  The constructor: the vault first, then the readers, then the file; the list of readers after it.
\<close>

definition YamlConfig :: "yaml_parser \<Rightarrow> (string \<rightharpoonup> string) \<Rightarrow> file_system \<Rightarrow> node_reader list \<Rightarrow>
    string \<Rightarrow> string option \<Rightarrow> (exn + yaml_config) \<times> node_reader list" where
  "YamlConfig parse env fs readers yaml_config_file vault_file =
     (case (case vault_file of None \<Rightarrow> Inr None
            | Some f \<Rightarrow> if f = [] then Inr None
                        else map_sum id Some (vault_load parse fs readers f)) of
        Inl e \<Rightarrow> (Inl e, readers)
      | Inr vault \<Rightarrow>
          (let readers' = register_readers readers env vault in
           ((case load_yaml_config_file parse fs readers' yaml_config_file of
               Inl e \<Rightarrow> Inl e
             | Inr y \<Rightarrow> make_yaml_config y), readers')))"

definition get_key_from_yaml :: "exn + yaml_config \<Rightarrow> string \<Rightarrow> bool \<Rightarrow> exn + pyval" where
  "get_key_from_yaml load key_name use_defaults =
     (case (case load of Inl e \<Rightarrow> Inl e | Inr yaml \<Rightarrow> get_key yaml key_name [] use_defaults) of
        Inl e \<Rightarrow> if isinstance_exn e YamlConfigException then Inl XbenchConfigException else Inl e
      | Inr v \<Rightarrow> Inr v)"

section \<open>Lemmas\<close>

lemma find_close_key:
  "newline \<notin> set key \<Longrightarrow> CHR 0x27 \<notin> set key \<Longrightarrow>
     find_close (key @ [CHR 0x27, CHR '']''] @ rest) = Some (key, rest)"
  by (induction key) (auto simp: startswith_def)

lemma open_ref_not_Nil [simp]: "open_ref name \<noteq> []"
  by (simp add: open_ref_def)

text \<open>A text in which the opening bracket of a reference does not occur has no reference.\<close>

lemma pathex_sub_plain: "\<not> contains_str s (open_ref (reader_name nr)) \<Longrightarrow> pathex_sub nr s = Inr s"
  by (induction s) (auto simp: Let_def)

lemma pathex_sub_skip:
  "\<not> startswith (c # cs) (open_ref (reader_name nr)) \<Longrightarrow>
     pathex_sub nr (c # cs) = map_sum id (\<lambda>t. c # t) (pathex_sub nr cs)"
  by simp

lemma pathex_sub_ref:
  assumes "newline \<notin> set key" and "CHR 0x27 \<notin> set key" and "read_value nr key = Inr v"
  shows "pathex_sub nr (open_ref (reader_name nr) @ key @ [CHR 0x27, CHR '']''] @ rest) =
    map_sum id (\<lambda>t. (case v of None \<Rightarrow> [] | Some x \<Rightarrow> x) @ t) (pathex_sub nr rest)"
proof -
  let ?p = "open_ref (reader_name nr)"
  let ?s = "?p @ key @ [CHR 0x27, CHR '']''] @ rest"
  obtain c cs where s: "?s = c # cs" by (cases ?s) (auto simp: open_ref_def)
  have "startswith (c # cs) ?p" using s by (metis startswith_append)
  moreover have "drop (length ?p) (c # cs) = key @ [CHR 0x27, CHR '']''] @ rest"
    using s by (metis append_eq_conv_conj)
  ultimately show ?thesis
    unfolding s pathex_sub.simps using find_close_key [OF assms(1,2), of rest] assms(3)
    by (simp add: Let_def)
qed

text \<open>A prefix without the first character of the reader's name is copied.\<close>

lemma pathex_sub_prefix:
  "reader_name nr = n # ns \<Longrightarrow> n \<notin> set pre \<Longrightarrow>
     pathex_sub nr (pre @ s) = map_sum id (\<lambda>t. pre @ t) (pathex_sub nr s)"
proof (induction pre)
  case Nil
  then show ?case by (simp add: sum.map_id0 [unfolded id_def] map_sum.id id_def)
next
  case (Cons c pre)
  then have "\<not> startswith (c # pre @ s) (open_ref (reader_name nr))"
    by (auto simp: startswith_def open_ref_def)
  then have "pathex_sub nr ((c # pre) @ s) = map_sum id (\<lambda>t. c # t) (pathex_sub nr (pre @ s))"
    using pathex_sub_skip by simp
  with Cons show ?case by (cases "pathex_sub nr s") auto
qed

lemma constructor_for_append:
  "constructor_for (xs @ ys) name =
     (case constructor_for ys name of Some r \<Rightarrow> Some r | None \<Rightarrow> constructor_for xs name)"
  by (induction xs) (auto split: option.splits)

lemma recursive_items_hd_empty:
  "is_empty (VDict d) \<longleftrightarrow> (\<exists>k v r. recursive_items d = (k, v) # r \<and> is_empty_simple_key v)"
  by (auto simp: is_empty_def split: list.splits)

lemma apply_defaults_dict:
  "truthy (VDict d) \<Longrightarrow> apply_defaults (VDict d) True (VDict r) = Inr (VDict (dict_update d r))"
  by (simp add: apply_defaults_def save_dict_merge_def)

section \<open>Properties\<close>

text \<open>
  C7. A key with defaults: \<open>get_key(..., use_defaults=True)\<close> on a dictionary returns, for every
  name, the key's own value where it has one and the default otherwise. This holds for a flat and
  for a nested dictionary alike: the two branches of the code give the same result.
\<close>

theorem get_key_with_defaults:
  assumes "select_key (yaml_config_dict cfg) rootk leaf = Inr (VDict r)"
    and "defaults cfg = VDict d" and "d \<noteq> []" and "dict_ok r"
    and "\<not> is_empty (VDict (dict_update d r))"
  shows "\<exists>m. get_key cfg rootk leaf True = Inr (VDict m)
    \<and> (\<forall>k. dget m k = (case dget r k of Some v \<Rightarrow> Some v | None \<Rightarrow> dget d k))"
proof -
  have "apply_defaults (defaults cfg) True (VDict r) = Inr (VDict (dict_update d r))"
    unfolding assms(2) using assms(3) by (intro apply_defaults_dict) simp
  then have "get_key cfg rootk leaf True = Inr (VDict (dict_update d r))"
    using assms(1,5) by (simp add: get_key_def)
  moreover have "dget (dict_update d r) k = (case dget r k of Some v \<Rightarrow> Some v | None \<Rightarrow> dget d k)" for k
    using assms(4) by (simp split: option.splits)
  ultimately show ?thesis by blast
qed

definition demo_config :: yaml_config where
  "demo_config = \<lparr>yaml_config_dict =
      [(''defaults'', VDict [(''os_type'', VStr ''CentOS7''), (''zone'', VStr ''a'')]),
       (''itest'', VDict [(''cloud'', VStr ''aws''), (''zone'', VStr ''b''),
          (''driver'', VDict [(''count'', VInt 1)])]),
       (''half'', VDict [(''cloud'', VStr ''aws''), (''region'', VNone)])],
     defaults = VDict [(''os_type'', VStr ''CentOS7''), (''zone'', VStr ''a'')]\<rparr>"

theorem get_key_with_defaults_witness:
  "\<exists>m. get_key demo_config ''itest'' [] True = Inr (VDict m)
     \<and> dget m ''zone'' = Some (VStr ''b'') \<and> dget m ''os_type'' = Some (VStr ''CentOS7'')"
proof -
  let ?r = "[(''cloud'', VStr ''aws''), (''zone'', VStr ''b''), (''driver'', VDict [(''count'', VInt 1)])]"
  let ?d = "[(''os_type'', VStr ''CentOS7''), (''zone'', VStr ''a'')]"
  have "\<exists>m. get_key demo_config ''itest'' [] True = Inr (VDict m)
      \<and> (\<forall>k. dget m k = (case dget ?r k of Some v \<Rightarrow> Some v | None \<Rightarrow> dget ?d k))"
    by (rule get_key_with_defaults)
       (simp_all add: demo_config_def select_key_def dget_default_def is_empty_def is_empty_simple_key_def)
  then show ?thesis by auto
qed

text \<open>
  What \<open>get_key\<close> raises for a missing key: \<open>YamlConfigException\<close> when a top-level key, or a
  leaf of an existing section, is missing or null; but \<open>KeyError\<close>, which no caller handles as a
  configuration error, when the section itself is missing.
\<close>

theorem get_key_missing:
  assumes "rootk \<noteq> []" and "leaf \<noteq> []"
  shows "(dget_default (yaml_config_dict cfg) rootk VNone = VNone \<longrightarrow>
            get_key cfg rootk [] use_defaults = Inl YamlConfigException)
       \<and> (dget (yaml_config_dict cfg) rootk = Some (VDict s) \<longrightarrow> dget_default s leaf VNone = VNone \<longrightarrow>
            get_key cfg rootk leaf use_defaults = Inl YamlConfigException)
       \<and> (dget (yaml_config_dict cfg) rootk = None \<longrightarrow>
            get_key cfg rootk leaf use_defaults = Inl PyKeyError)"
  using assms by (auto simp: get_key_def select_key_def)

theorem get_key_missing_witness:
  "get_key demo_config ''nope'' [] True = Inl YamlConfigException
   \<and> get_key demo_config ''itest'' ''nope'' True = Inl YamlConfigException
   \<and> get_key demo_config ''nope'' ''aws'' True = Inl PyKeyError"
  using get_key_missing [of "''nope''" "''aws''" demo_config True "[]"]
    get_key_missing [of "''itest''" "''nope''" demo_config True
      "[(''cloud'', VStr ''aws''), (''zone'', VStr ''b''), (''driver'', VDict [(''count'', VInt 1)])]"]
  by (simp add: demo_config_def dget_default_def)

text \<open>
  The check for empty values looks at the first leaf only: a dictionary whose first value is a
  non-empty scalar passes, whatever the values after it are, and is returned as it is.
\<close>

theorem is_empty_first_leaf_only:
  assumes "\<not> is_VDict v" and "\<not> is_empty_simple_key v"
    and "select_key (yaml_config_dict cfg) rootk leaf = Inr (VDict ((k, v) # rest))"
  shows "get_key cfg rootk leaf False = Inr (VDict ((k, v) # rest))"
proof -
  have "recursive_items ((k, v) # rest) = (k, v) # recursive_items rest"
    using assms(1) by (cases v) auto
  then have "\<not> is_empty (VDict ((k, v) # rest))"
    using assms(2) by (simp add: is_empty_def)
  then show ?thesis
    using assms(3) by (simp add: get_key_def apply_defaults_def)
qed

theorem is_empty_first_leaf_only_witness:
  "get_key demo_config ''half'' [] False = Inr (VDict [(''cloud'', VStr ''aws''), (''region'', VNone)])"
  by (rule is_empty_first_leaf_only)
     (simp_all add: demo_config_def select_key_def dget_default_def is_empty_simple_key_def)

text \<open>
  A reference inside a scalar is replaced by its value: for a text before it that has not the
  first letter of the reader's name, a key on one line without quotes, and a text after it without
  further references.
\<close>

theorem pathex_constructor_replaces:
  assumes "reader_name nr = n # ns" and "n \<notin> set pre"
    and "newline \<notin> set key" and "CHR 0x27 \<notin> set key"
    and "read_value nr key = Inr v" and "\<not> contains_str suf (open_ref (reader_name nr))"
  shows "pathex_constructor nr (pre @ open_ref (reader_name nr) @ key @ [CHR 0x27, CHR '']''] @ suf) =
    Inr (pre @ (case v of None \<Rightarrow> [] | Some x \<Rightarrow> x) @ suf)"
  using pathex_sub_prefix [OF assms(1,2)] pathex_sub_ref [OF assms(3-5), of suf]
    pathex_sub_plain [OF assms(6)]
  by (simp add: pathex_constructor_def)

theorem pathex_constructor_replaces_witness:
  "pathex_constructor (EnvYamlDictNodeReader [''HOME'' \<mapsto> ''/root''])
     (''dir: '' @ open_ref ''ENV'' @ ''HOME'' @ [CHR 0x27, CHR '']''] @ ''/conf'') = Inr ''dir: /root/conf''"
proof -
  have "pathex_constructor (EnvYamlDictNodeReader [''HOME'' \<mapsto> ''/root''])
     (''dir: '' @ open_ref (reader_name (EnvYamlDictNodeReader [''HOME'' \<mapsto> ''/root''])) @ ''HOME''
        @ [CHR 0x27, CHR '']''] @ ''/conf'')
     = Inr (''dir: '' @ (case Some ''/root'' of None \<Rightarrow> [] | Some x \<Rightarrow> x) @ ''/conf'')"
    by (rule pathex_constructor_replaces [where n = "CHR ''E''" and ns = "''NV''"])
       (simp_all add: EnvYamlDictNodeReader_def open_ref_def startswith_def)
  then show ?thesis by (simp add: EnvYamlDictNodeReader_def)
qed

text \<open>
  The readers of one configuration serve the next: because the list of readers belongs to the
  class, a file loaded with no vault still has its references resolved from the vault of the last
  file that had one.
\<close>

theorem vault_reader_persists:
  "constructor_for (register_readers (register_readers readers env (Some v)) env' None) ''VAULT''
     = Some (VaultYamlDictNodeReader v)"
  by (simp add: register_readers_def constructor_for_append EnvYamlDictNodeReader_def
      VaultYamlDictNodeReader_def)

text \<open>
  Includes whose names start alike are not all included: with \<^verbatim>\<open>!include a\<close> before
  \<^verbatim>\<open>!include ab\<close>, replacing the first marker also rewrites the beginning of the second, and
  the file \<^verbatim>\<open>ab\<close> is never put in.
\<close>

theorem include_prefix_clash:
  "analyze_includes [''d/a'' \<mapsto> ''x: 1'', ''d/ab'' \<mapsto> ''y: 2''] ''d''
     (''!include a'' @ [newline] @ ''!include ab'') = ''x: 1'' @ [newline] @ ''x: 1b''"
  by (simp add: analyze_includes_def include_at_def INCLUDE_MARKER_def startswith_def Let_def
      is_space_def replace_all.simps upt_rec)

text \<open>
  Where the main configuration comes from: \<open>XBENCH_CONFIG\<close> if it is set and not empty; otherwise
  the file under \<^verbatim>\<open>.xbench\<close> in \<open>XBENCH_HOME\<close> if it exists, then the one in
  \<open>XBENCH_HOME\<close>; with neither file, or without \<open>XBENCH_HOME\<close>, \<open>XbenchConfigException\<close>.
\<close>

theorem get_config_file_order:
  "(env ''XBENCH_CONFIG'' = Some f \<longrightarrow> f \<noteq> [] \<longrightarrow> get_config_file env fs = Inr f)
   \<and> (env ''XBENCH_CONFIG'' \<in> {None, Some []} \<longrightarrow>
       get_config_file env fs =
         (case env ''XBENCH_HOME'' of
            Some (c # h) \<Rightarrow>
              (if fs (c # h @ ''/.xbench/xbench_config.yaml'') \<noteq> None then Inr (c # h @ ''/.xbench/xbench_config.yaml'')
               else if fs (c # h @ ''/xbench_config.yaml'') \<noteq> None then Inr (c # h @ ''/xbench_config.yaml'')
               else Inl XbenchConfigException)
          | _ \<Rightarrow> Inl XbenchConfigException))"
  by (auto simp: get_config_file_def xbench_home_def split: option.splits list.splits)

theorem get_config_file_order_witness:
  "get_config_file [''XBENCH_CONFIG'' \<mapsto> ''/c.yaml''] Map.empty = Inr ''/c.yaml''
   \<and> get_config_file [''XBENCH_HOME'' \<mapsto> ''/x''] [''/x/xbench_config.yaml'' \<mapsto> []]
       = Inr ''/x/xbench_config.yaml''"
  using get_config_file_order [of "[''XBENCH_CONFIG'' \<mapsto> ''/c.yaml'']" "''/c.yaml''" Map.empty]
    get_config_file_order [of "[''XBENCH_HOME'' \<mapsto> ''/x'']" "[]" "[''/x/xbench_config.yaml'' \<mapsto> []]"]
  by simp

end
