(* ===== verification/XB_Machine.thy ===== *)
theory XB_Machine
  imports XB_Common
begin

text \<open>
  The data the program passes around about machines: \<^verbatim>\<open>cloud/virtual_network.py\<close>,
  \<^verbatim>\<open>virtual_storage.py\<close>, \<^verbatim>\<open>virtual_machine.py\<close>, the \<open>SecurityRecord\<close> of
  \<^verbatim>\<open>cloud/abstract_cli.py\<close>, the package manager of \<^verbatim>\<open>compute/yum.py\<close> with
  \<^verbatim>\<open>compute/os_types.py\<close>, the backend target of \<^verbatim>\<open>compute/backend_target.py\<close>, and the
  registration of metric targets of \<^verbatim>\<open>metrics/server.py\<close>.
\<close>

section \<open>Network, storage, machine\<close>

record virtual_network =
  cloud_type :: string
  private_ip :: string
  public_ip :: string
  disable_network_security :: bool

definition get_client_iface :: "virtual_network \<Rightarrow> string" where
  "get_client_iface n = (if cloud_type n = ''private_cloud'' then public_ip n else private_ip n)"

definition get_public_iface :: "virtual_network \<Rightarrow> string" where
  "get_public_iface n = public_ip n"

definition get_private_iface :: "virtual_network \<Rightarrow> string" where
  "get_private_iface n = private_ip n"

record virtual_storage =
  vs_size :: int
  iops :: int
  vs_type :: "string option"
  device :: string
  vs_zone :: string
  vs_name :: string
  vs_id :: string
  num_ephemeral :: int

definition is_shared :: "virtual_storage \<Rightarrow> bool" where
  "is_shared vs = False"

record virtual_machine =
  env :: string
  cloud :: string
  vm_cluster_name :: string
  vm_name :: string
  role :: string
  klass :: string
  klass_config_label :: string
  instance_type :: string
  zone :: string
  os_type :: string
  managed :: bool
  provisioned :: bool
  arch :: string
  key_file :: string
  pub_file :: string
  storage :: "virtual_storage option"
  storage_list :: "virtual_storage list"
  network :: "virtual_network option"
  placement_group :: "string option"
  vm_id :: "string option"
  ssh_user :: string

definition labels :: "virtual_machine \<Rightarrow> (string, string) dict" where
  "labels vm =
     [(''cloud'', cloud vm), (''cluster_name'', vm_cluster_name vm), (''zone'', zone vm),
      (''machine_type'', instance_type vm), (''role'', role vm), (''name'', vm_name vm)]"

definition get_all_storage :: "virtual_machine \<Rightarrow> virtual_storage list" where
  "get_all_storage vm = storage_list vm @ (case storage vm of None \<Rightarrow> [] | Some s \<Rightarrow> [s])"

section \<open>Security records\<close>

text \<open>The ports are numbers, or texts where they come from a command-line tool.\<close>

record security_record =
  port_from :: pyval
  port_to :: pyval
  cidr :: string
  sec_name :: pyval
  sec_desc :: pyval

text \<open>A single address becomes a network of one; anything but a text fails the test for the slash.\<close>

definition SecurityRecord :: "pyval \<Rightarrow> pyval \<Rightarrow> pyval \<Rightarrow> pyval \<Rightarrow> pyval \<Rightarrow> exn + security_record" where
  "SecurityRecord p q c nm ds =
     (case c of
        VStr s \<Rightarrow> Inr \<lparr>port_from = p, port_to = q, cidr = (if CHR ''/'' \<notin> set s then s @ ''/32'' else s), sec_name = nm, sec_desc = ds\<rparr>
      | _ \<Rightarrow> Inl PyTypeError)"

definition default_desc :: pyval where "default_desc = VStr ''xbench self service''"

section \<open>The package manager\<close>

definition AMAZONLINUX2 :: string where "AMAZONLINUX2 = ''AmazonLinux2''"
definition CENTOS7 :: string where "CENTOS7 = ''CentOS7''"
definition CENTOS8 :: string where "CENTOS8 = ''CentOS8''"
definition ROCKY8 :: string where "ROCKY8 = ''Rocky8''"
definition RHEL7 :: string where "RHEL7 = ''RHEL7''"

lemmas os_names = AMAZONLINUX2_def CENTOS7_def CENTOS8_def ROCKY8_def RHEL7_def

definition ALL_OS_TYPES :: "string list" where
  "ALL_OS_TYPES = [AMAZONLINUX2, CENTOS7, CENTOS8, ROCKY8, RHEL7]"

definition EPEL_URL :: "string \<Rightarrow> string" where
  "EPEL_URL v = ''https://dl.fedoraproject.org/pub/epel/epel-release-latest-'' @ v @ ''.noarch.rpm''"

definition EPEL_URLS :: "(string, string) dict" where
  "EPEL_URLS = [(CENTOS7, EPEL_URL ''7''), (RHEL7, EPEL_URL ''7''), (CENTOS8, EPEL_URL ''8''),
     (ROCKY8, EPEL_URL ''8''), (AMAZONLINUX2, EPEL_URL ''7'')]"

definition PACKAGE_MANAGERS_INSTALL :: "(string, string) dict" where
  "PACKAGE_MANAGERS_INSTALL = [(CENTOS7, ''yum install -y''), (RHEL7, ''yum install -y''),
     (CENTOS8, ''dnf install -y''), (ROCKY8, ''dnf install -y''), (AMAZONLINUX2, ''yum install -y'')]"

definition PACKAGE_MANAGERS_GROUP_INSTALL :: "(string, string) dict" where
  "PACKAGE_MANAGERS_GROUP_INSTALL = [(CENTOS8, ''dnf group install -y''), (ROCKY8, ''dnf group install -y''),
     (CENTOS7, ''yum group install -y''), (RHEL7, ''yum group install -y''),
     (AMAZONLINUX2, ''yum group install -y'')]"

definition PACKAGE_MANAGERS_LOCAL_INSTALL :: "(string, string) dict" where
  "PACKAGE_MANAGERS_LOCAL_INSTALL = [(CENTOS7, ''yum localinstall -y''), (RHEL7, ''yum localinstall -y''),
     (CENTOS8, ''dnf localinstall -y''), (ROCKY8, ''dnf localinstall -y''),
     (AMAZONLINUX2, ''yum localinstall -y'')]"

definition PACKAGE_MANAGERS_REMOVE :: "(string, string) dict" where
  "PACKAGE_MANAGERS_REMOVE = [(CENTOS7, ''yum erase -y''), (RHEL7, ''yum erase -y''),
     (CENTOS8, ''dnf erase -y''), (ROCKY8, ''dnf erase -y''), (AMAZONLINUX2, ''yum erase -y'')]"

definition PACKAGE_MANAGERS_GROUP_REMOVE :: "(string, string) dict" where
  "PACKAGE_MANAGERS_GROUP_REMOVE = [(CENTOS8, ''dnf group erase -y''), (ROCKY8, ''dnf group erase -y''),
     (CENTOS7, ''yum group erase -y''), (RHEL7, ''yum group erase -y''),
     (AMAZONLINUX2, ''yum group erase -y'')]"

definition PACKAGE_MANAGERS_ENABLE_REPO :: "(string, string) dict" where
  "PACKAGE_MANAGERS_ENABLE_REPO = [(CENTOS7, ''yum --enablerepo''), (RHEL7, ''yum --enablerepo''),
     (CENTOS8, ''dnf --enablerepo''), (ROCKY8, ''dnf --enablerepo''), (AMAZONLINUX2, ''yum --enablerepo'')]"

definition PACKAGE_MANAGERS_DISABLE_REPO :: "(string, string) dict" where
  "PACKAGE_MANAGERS_DISABLE_REPO = [(CENTOS7, ''yum --disablerepo''), (RHEL7, ''yum --disablerepo''),
     (CENTOS8, ''dnf --disablerepo''), (ROCKY8, ''dnf --disablerepo''), (AMAZONLINUX2, ''yum --disablerepo'')]"

definition PACKAGE_MANAGERS_DISABLE_MODULE :: "(string, string) dict" where
  "PACKAGE_MANAGERS_DISABLE_MODULE = [(ROCKY8, ''dnf -qy module disable'')]"

definition PACKAGE_MANAGERS_FILE_EXTENSION :: "(string, string) dict" where
  "PACKAGE_MANAGERS_FILE_EXTENSION = [(CENTOS7, ''rpm''), (RHEL7, ''rpm''), (CENTOS8, ''rpm''),
     (ROCKY8, ''rpm''), (AMAZONLINUX2, ''rpm'')]"

text \<open>\<open>d[k]\<close>: \<open>KeyError\<close> for a missing key.\<close>

definition dict_index :: "('k, 'v) dict \<Rightarrow> 'k \<Rightarrow> exn + 'v" where
  "dict_index d k = (case dget d k of None \<Rightarrow> Inl PyKeyError | Some v \<Rightarrow> Inr v)"

text \<open>The same on a value that may be no dictionary.\<close>

definition subscript :: "pyval \<Rightarrow> string \<Rightarrow> exn + pyval" where
  "subscript v k = (case v of
     VDict d \<Rightarrow> (case dget d k of Some x \<Rightarrow> Inr x | None \<Rightarrow> Inl PyKeyError)
   | _ \<Rightarrow> Inl PyTypeError)"

definition epel_cmd :: "string \<Rightarrow> string" where
  "epel_cmd os = dget_default PACKAGE_MANAGERS_INSTALL os [] @ '' '' @ dget_default EPEL_URLS os []"

definition EPEL_CMDS :: "(string, string) dict" where
  "EPEL_CMDS = [(CENTOS7, epel_cmd CENTOS7), (RHEL7, epel_cmd RHEL7), (CENTOS8, epel_cmd CENTOS8),
     (ROCKY8, epel_cmd ROCKY8), (AMAZONLINUX2, ''amazon-linux-extras install -y epel'')]"

record yum = yum_os_type :: string

definition PackageManager :: "string \<Rightarrow> exn + yum" where
  "PackageManager os = (if os \<notin> set ALL_OS_TYPES then Inl PyNotImplementedError
     else Inr \<lparr>yum_os_type = os\<rparr>)"

definition install_epel_command :: "yum \<Rightarrow> exn + string" where
  "install_epel_command y = dict_index EPEL_CMDS (yum_os_type y)"

definition install_pkg_cmd :: "yum \<Rightarrow> exn + string" where
  "install_pkg_cmd y = dict_index PACKAGE_MANAGERS_INSTALL (yum_os_type y)"

definition install_local_pkg_cmd :: "yum \<Rightarrow> exn + string" where
  "install_local_pkg_cmd y = dict_index PACKAGE_MANAGERS_LOCAL_INSTALL (yum_os_type y)"

definition remove_pkg_cmd :: "yum \<Rightarrow> exn + string" where
  "remove_pkg_cmd y = dict_index PACKAGE_MANAGERS_REMOVE (yum_os_type y)"

definition enable_repo_cmd :: "yum \<Rightarrow> exn + string" where
  "enable_repo_cmd y = dict_index PACKAGE_MANAGERS_ENABLE_REPO (yum_os_type y)"

definition disable_repo_cmd :: "yum \<Rightarrow> exn + string" where
  "disable_repo_cmd y = dict_index PACKAGE_MANAGERS_DISABLE_REPO (yum_os_type y)"

definition disable_module_cmd :: "yum \<Rightarrow> exn + string" where
  "disable_module_cmd y = dict_index PACKAGE_MANAGERS_DISABLE_MODULE (yum_os_type y)"

definition package_file_extension :: "yum \<Rightarrow> exn + string" where
  "package_file_extension y = dict_index PACKAGE_MANAGERS_FILE_EXTENSION (yum_os_type y)"

definition install_group :: "yum \<Rightarrow> exn + string" where
  "install_group y = dict_index PACKAGE_MANAGERS_GROUP_INSTALL (yum_os_type y)"

definition remove_group :: "yum \<Rightarrow> exn + string" where
  "remove_group y = dict_index PACKAGE_MANAGERS_GROUP_REMOVE (yum_os_type y)"

definition version_number :: "yum \<Rightarrow> string" where
  "version_number y = (if CHR ''7'' \<in> set (yum_os_type y) then ''7'' else ''8'')"

lemmas yum_tables = EPEL_CMDS_def EPEL_URLS_def epel_cmd_def PACKAGE_MANAGERS_INSTALL_def
  PACKAGE_MANAGERS_GROUP_INSTALL_def PACKAGE_MANAGERS_LOCAL_INSTALL_def PACKAGE_MANAGERS_REMOVE_def
  PACKAGE_MANAGERS_GROUP_REMOVE_def PACKAGE_MANAGERS_ENABLE_REPO_def PACKAGE_MANAGERS_DISABLE_REPO_def
  PACKAGE_MANAGERS_DISABLE_MODULE_def PACKAGE_MANAGERS_FILE_EXTENSION_def

lemmas yum_ops = install_epel_command_def install_pkg_cmd_def install_local_pkg_cmd_def
  remove_pkg_cmd_def enable_repo_cmd_def disable_repo_cmd_def disable_module_cmd_def
  package_file_extension_def install_group_def remove_group_def

section \<open>The backend target\<close>

datatype backend_dialect = Dialect_pgsql | Dialect_mysql

fun dialect_value :: "backend_dialect \<Rightarrow> string" where
  "dialect_value Dialect_pgsql = ''pgsql''"
| "dialect_value Dialect_mysql = ''mysql''"

text \<open>
  \<open>postgres\<close> has the value of \<open>alloydb\<close> and is defined after it: in an \<open>Enum\<close> it is another
  name of the same member.
\<close>

datatype backend_product =
    Product_mariadb | Product_mysql | Product_aurora_mysql | Product_aurora_postgres
  | Product_alloydb | Product_xpand | Product_tidb | Product_xgres

fun product_value :: "backend_product \<Rightarrow> string" where
  "product_value Product_mariadb = ''mariadb''"
| "product_value Product_mysql = ''mysql''"
| "product_value Product_aurora_mysql = ''aurora-mysql''"
| "product_value Product_aurora_postgres = ''aurora-postgres''"
| "product_value Product_alloydb = ''postgres''"
| "product_value Product_xpand = ''xpand''"
| "product_value Product_tidb = ''tidb''"
| "product_value Product_xgres = ''xgres''"

text \<open>
  The attributes of the object, in the order of the fields (\<open>vars(self)\<close>): \<open>update\<close> may store any
  value in them. A member of a \<open>str\<close> enumeration is its string value.
\<close>

type_synonym backend_target = pydict

definition BackendTarget :: "string \<Rightarrow> string \<Rightarrow> string \<Rightarrow> string \<Rightarrow> int \<Rightarrow> backend_target" where
  "BackendTarget host user password database port =
     [(''host'', VStr host), (''user'', VStr user), (''password'', VStr password),
      (''database'', VStr database), (''port'', VInt port), (''ssl'', VDict []),
      (''dialect'', VStr (dialect_value Dialect_mysql)),
      (''product'', VStr (product_value Product_mariadb)),
      (''connect_timeout'', VInt 5), (''read_timeout'', VInt 5)]"

text \<open>\<open>str(value)\<close> of a value that is neither an integer nor a dictionary is a parameter.\<close>

definition bt_as_dict :: "(pyval \<Rightarrow> string) \<Rightarrow> backend_target \<Rightarrow> pydict" where
  "bt_as_dict py_str bt = map (\<lambda>(name, value).
     (name, case value of VInt i \<Rightarrow> value | VBool b \<Rightarrow> value | VDict d \<Rightarrow> value
            | _ \<Rightarrow> VStr (py_str value))) bt"

definition backup_map :: "(string, string) dict" where
  "backup_map = [(''xpand'', ''xpand''), (''mariadb'', ''mariabackup''), (''aurora-mysql'', ''mysqldump''),
     (''aurora-postgres'', ''pg_dump''), (''postgres'', ''pg_dump'')]"

definition get_backup_type :: "backend_target \<Rightarrow> string option" where
  "get_backup_type bt = (case dget bt ''product'' of Some (VStr p) \<Rightarrow> dget backup_map p | _ \<Rightarrow> None)"

text \<open>
  \<open>hasattr\<close> is true of the fields and of the methods of the class. (The double-underscore
  attributes every object has are left out.)
\<close>

definition bt_methods :: "string list" where
  "bt_methods = [''as_dict'', ''get_backup_type'', ''update'']"

fun bt_update :: "backend_target \<Rightarrow> pydict \<Rightarrow> backend_target" where
  "bt_update bt [] = bt"
| "bt_update bt ((key, value) # new) =
     bt_update (if dget bt key \<noteq> None \<or> key \<in> set bt_methods then dset bt key value else bt) new"

section \<open>Metric targets\<close>

record metrics_target =
  service_name :: string
  mt_labels :: "(string, string) dict"
  mt_hostname :: string
  mt_port :: int

definition target_name :: "metrics_target \<Rightarrow> string" where
  "target_name t =
     dget_default (mt_labels t) ''cluster_name'' ''None'' @ ''-'' @ dget_default (mt_labels t) ''name'' ''None''
       @ ''-'' @ service_name t @ ''-exporter.json''"

text \<open>
  The Prometheus host: whether the server has an ssh client, and the files of the target directory.
  The content of a file is the pair of labels and address that \<open>target()\<close> prints as JSON.
  The ssh commands (\<open>scp\<close> and \<open>mv\<close>, \<open>rm\<close>) are modelled by what they do to that directory when
  they succeed; the failures of an ssh command are the subject of the theory of the ssh clients.
\<close>

record metrics_server =
  has_ssh_client :: bool
  targets :: "(string, (string, string) dict \<times> string) dict"

definition metrics_initialize :: "string option \<Rightarrow> metrics_server \<Rightarrow> metrics_server" where
  "metrics_initialize hostname ms =
     ms\<lparr>has_ssh_client := (case hostname of None \<Rightarrow> False | Some h \<Rightarrow> h \<noteq> [])\<rparr>"

definition basename :: "string \<Rightarrow> string" where
  "basename p = (case rsplit1 (CHR ''/'') p of None \<Rightarrow> p | Some (_, b) \<Rightarrow> b)"

definition register_metric_target :: "metrics_target \<Rightarrow> metrics_server \<Rightarrow> metrics_server" where
  "register_metric_target t ms =
     (if \<not> has_ssh_client ms then ms
      else ms\<lparr>targets := dset (targets ms) (basename (target_name t))
                (mt_labels t, mt_hostname t @ '':'' @ str_int (mt_port t))\<rparr>)"

definition deregister_metric_target :: "metrics_target \<Rightarrow> metrics_server \<Rightarrow> metrics_server" where
  "deregister_metric_target t ms =
     (if \<not> has_ssh_client ms then ms
      else ms\<lparr>targets := filter (\<lambda>(f, _). f \<noteq> target_name t) (targets ms)\<rparr>)"

text \<open>The shell pattern \<^verbatim>\<open><cluster_name>*.json\<close>.\<close>

definition glob_cluster :: "string \<Rightarrow> string \<Rightarrow> bool" where
  "glob_cluster cluster_name f \<longleftrightarrow>
     startswith f cluster_name \<and> startswith (rev (drop (length cluster_name) f)) (rev ''.json'')"

definition deregister_cluster :: "string \<Rightarrow> metrics_server \<Rightarrow> metrics_server" where
  "deregister_cluster cluster_name ms =
     (if has_ssh_client ms
      then ms\<lparr>targets := filter (\<lambda>(f, _). \<not> glob_cluster cluster_name f) (targets ms)\<rparr> else ms)"

section \<open>Lemmas\<close>

lemma get_all_storage_set: "set (get_all_storage vm) = set (storage_list vm) \<union> set_option (storage vm)"
  by (auto simp: get_all_storage_def split: option.splits)

lemma product_value_inject: "product_value p = product_value q \<longleftrightarrow> p = q"
  by (cases p; cases q) simp_all

lemma dialect_value_inject: "dialect_value p = dialect_value q \<longleftrightarrow> p = q"
  by (cases p; cases q) simp_all

lemma bt_update_keys: "fst ` set (bt_update bt new) \<subseteq> fst ` set bt \<union> set bt_methods"
  by (induction bt new rule: bt_update.induct) (auto simp: dget_None_iff split: if_splits)

lemma dget_bt_update:
  "dict_ok new \<Longrightarrow> dget (bt_update bt new) k =
     (case dget new k of
        Some v \<Rightarrow> if dget bt k \<noteq> None \<or> k \<in> set bt_methods then Some v else None
      | None \<Rightarrow> dget bt k)"
proof (induction bt new rule: bt_update.induct)
  case (2 bt key v new)
  then have "dget new key = None" by (simp add: dget_None_iff)
  with 2 show ?case by (cases "k = key") (auto split: option.splits)
qed simp

lemma glob_cluster_own: "glob_cluster c (c @ ''-'' @ n @ ''-'' @ s @ ''-exporter.json'')"
  by (simp add: glob_cluster_def startswith_def)

lemma basename_id: "CHR ''/'' \<notin> set p \<Longrightarrow> basename p = p"
  using split_first_None [of "CHR ''/''" "rev p"] by (simp add: basename_def rsplit1_def)

lemma startswith_prefix: "startswith (p @ s) p"
  by (simp add: startswith_def)

section \<open>Properties\<close>

text \<open>
  For every operating system the constructor accepts, each package-manager command is defined
  (no \<open>KeyError\<close>), except \<open>disable_module_cmd\<close>, which is defined for Rocky 8 only; other
  systems are refused with \<open>NotImplementedError\<close>.
\<close>

theorem yum_commands_total:
  "(os \<notin> set ALL_OS_TYPES \<longrightarrow> PackageManager os = Inl PyNotImplementedError)
   \<and> (\<forall>y. PackageManager os = Inr y \<longrightarrow>
        list_all (\<lambda>c. \<exists>s. c y = Inr s)
          [install_epel_command, install_pkg_cmd, install_local_pkg_cmd, remove_pkg_cmd,
           enable_repo_cmd, disable_repo_cmd, package_file_extension, install_group, remove_group]
        \<and> (\<exists>s. disable_module_cmd y = Inr s) = (os = ROCKY8))"
proof (intro conjI impI allI)
  assume "os \<notin> set ALL_OS_TYPES"
  then show "PackageManager os = Inl PyNotImplementedError" by (simp add: PackageManager_def)
next
  fix y assume "PackageManager os = Inr y"
  then have y: "y = \<lparr>yum_os_type = os\<rparr>" and os: "os \<in> set ALL_OS_TYPES"
    by (auto simp: PackageManager_def split: if_splits)
  from os consider "os = AMAZONLINUX2" | "os = CENTOS7" | "os = CENTOS8" | "os = ROCKY8" | "os = RHEL7"
    by (auto simp: ALL_OS_TYPES_def)
  then show "list_all (\<lambda>c. \<exists>s. c y = Inr s)
          [install_epel_command, install_pkg_cmd, install_local_pkg_cmd, remove_pkg_cmd,
           enable_repo_cmd, disable_repo_cmd, package_file_extension, install_group, remove_group]"
    and "(\<exists>s. disable_module_cmd y = Inr s) = (os = ROCKY8)"
    by (cases; simp add: y yum_ops dict_index_def yum_tables os_names)+
qed

theorem yum_commands_total_witness:
  "PackageManager ''Debian11'' = Inl PyNotImplementedError
   \<and> (\<exists>s. install_pkg_cmd \<lparr>yum_os_type = CENTOS8\<rparr> = Inr s)
   \<and> \<not> (\<exists>s. disable_module_cmd \<lparr>yum_os_type = CENTOS8\<rparr> = Inr s)"
proof -
  have "PackageManager CENTOS8 = Inr \<lparr>yum_os_type = CENTOS8\<rparr>"
    by (simp add: PackageManager_def ALL_OS_TYPES_def)
  then show ?thesis
    using yum_commands_total [of "''Debian11''"] yum_commands_total [of CENTOS8]
    by (simp add: ALL_OS_TYPES_def os_names)
qed

text \<open>
  Overriding a target from the command line: \<open>update\<close> sets exactly the given attributes the
  target has (fields and methods), ignores every other name, and leaves the rest alone.
\<close>

theorem bt_update_spec:
  assumes "dict_ok new"
  shows "dget (bt_update bt new) k =
      (case dget new k of
         Some v \<Rightarrow> if dget bt k \<noteq> None \<or> k \<in> set bt_methods then Some v else None
       | None \<Rightarrow> dget bt k)
    \<and> fst ` set (bt_update bt new) \<subseteq> fst ` set bt \<union> set bt_methods"
  using dget_bt_update [OF assms] bt_update_keys by blast

theorem bt_update_spec_witness:
  "dget (bt_update (BackendTarget ''h'' ''u'' ''p'' ''d'' 1) [(''port'', VInt 5001), (''bogus'', VInt 0)]) ''port''
     = Some (VInt 5001)
   \<and> dget (bt_update (BackendTarget ''h'' ''u'' ''p'' ''d'' 1) [(''port'', VInt 5001), (''bogus'', VInt 0)]) ''bogus''
     = None"
  using bt_update_spec [of "[(''port'', VInt 5001), (''bogus'', VInt 0)]" "BackendTarget ''h'' ''u'' ''p'' ''d'' 1" "''port''"]
    bt_update_spec [of "[(''port'', VInt 5001), (''bogus'', VInt 0)]" "BackendTarget ''h'' ''u'' ''p'' ''d'' 1" "''bogus''"]
  by (simp add: BackendTarget_def bt_methods_def)

text \<open>
  De-registering a cluster removes every target of the cluster, and also the targets of any
  other cluster whose name merely starts with its name.
\<close>

theorem deregister_cluster_prefix:
  assumes "has_ssh_client ms" and "dget (mt_labels t) ''cluster_name'' = Some (c @ sfx)"
    and "CHR ''/'' \<notin> set (target_name t)"
  shows "target_name t \<notin> fst ` set (targets (deregister_cluster c (register_metric_target t ms)))"
proof -
  have "glob_cluster c (target_name t)"
    using assms(2) by (simp add: glob_cluster_def target_name_def dget_default_def startswith_def)
  then show ?thesis
    using assms(1,3) by (auto simp: deregister_cluster_def register_metric_target_def basename_id)
qed

definition demo_target :: metrics_target where
  "demo_target = \<lparr>service_name = ''node'', mt_labels = [(''cluster_name'', ''perf2''), (''name'', ''driver-0'')],
     mt_hostname = ''10.0.0.1'', mt_port = 9100\<rparr>"

theorem deregister_cluster_prefix_witness:
  "target_name demo_target \<notin> fst ` set (targets (deregister_cluster ''perf''
     (register_metric_target demo_target \<lparr>has_ssh_client = True, targets = []\<rparr>)))"
  by (rule deregister_cluster_prefix [where sfx = "''2''"])
    (simp_all add: demo_target_def target_name_def dget_default_def)

text \<open>
  Registration and de-registration of one target are inverse: registering a target stores its
  file, and de-registering it afterwards leaves every other file as it was and removes this one.
\<close>

theorem register_deregister:
  assumes "has_ssh_client ms" and "CHR ''/'' \<notin> set (target_name t)"
  shows "dget (targets (register_metric_target t ms)) (target_name t) \<noteq> None
    \<and> targets (deregister_metric_target t (register_metric_target t ms))
        = filter (\<lambda>(f, _). f \<noteq> target_name t) (targets ms)"
proof -
  have "filter (\<lambda>(f, _). f \<noteq> k) (dset d k v) = filter (\<lambda>(f, _). f \<noteq> k) d"
    for k v and d :: "(string, (string, string) dict \<times> string) dict"
    by (induction d) auto
  then show ?thesis
    using assms by (simp add: register_metric_target_def deregister_metric_target_def basename_id)
qed

theorem register_deregister_witness:
  "targets (deregister_metric_target demo_target (register_metric_target demo_target
      \<lparr>has_ssh_client = True, targets = [(''x.json'', ([], ''''))]\<rparr>))
     = filter (\<lambda>(f, _). f \<noteq> target_name demo_target) [(''x.json'', ([], ''''))]"
  using register_deregister [of "\<lparr>has_ssh_client = True, targets = [(''x.json'', ([], ''''))]\<rparr>" demo_target]
  by (simp add: demo_target_def target_name_def dget_default_def)

end
