(* ===== verification/XB_Ssh.thy ===== *)
theory XB_Ssh
  imports XB_Retry XB_Common
begin

text \<open>
  \<^verbatim>\<open>compute/ssh_client.py\<close> and \<^verbatim>\<open>compute/pssh_client.py\<close>: commands and file copies on
  one host and on many.

  asyncssh is a parameter: \<open>conn_run\<close> is \<open>asyncssh.connect\<close> followed by \<open>conn.run(check=False)\<close>,
  \<open>scp_to\<close>, \<open>scp_from\<close> and \<open>sftp_put\<close> the copies; any of them may raise. The operations act on a
  world of any type, which only these parameters, the clock and \<open>sleep\<close> touch. The random draws of
  \<open>backoff_with_jitter\<close>, made once when the module is loaded, are a parameter too.
\<close>

section \<open>The ssh client\<close>

text \<open>
  The completed process: \<open>exit_status\<close> is \<open>None\<close> when the remote end sent none, and
  \<open>None > 0\<close> raises \<open>TypeError\<close>.
\<close>

record run_result =
  exit_status :: "int option"
  rr_stdout :: string
  rr_stderr :: string

record 'w ssh_env =
  conn_run :: "string \<Rightarrow> string \<Rightarrow> int \<Rightarrow> ('w, exn, run_result) io"
  scp_to :: "string \<Rightarrow> string \<Rightarrow> string \<Rightarrow> bool \<Rightarrow> ('w, exn, unit) io"
  scp_from :: "string \<Rightarrow> string \<Rightarrow> string \<Rightarrow> bool \<Rightarrow> ('w, exn, unit) io"
  sftp_put :: "string \<Rightarrow> string \<Rightarrow> string \<Rightarrow> ('w, exn, unit) io"
  clock :: "'w os_clock"
  jitter_draw :: "nat \<Rightarrow> nat"

record ssh_client =
  hostname :: string
  port :: int
  username :: string
  password :: "string option"
  sc_key_file :: "string option"

text \<open>\<open>DEFAULT_EXECUTION_TIMEOUT\<close>.\<close>

definition DEFAULT_EXECUTION_TIMEOUT :: int where
  "DEFAULT_EXECUTION_TIMEOUT = 300"

text \<open>The command line that \<open>_run_client\<close> sends.\<close>

definition remote_command :: "string \<Rightarrow> bool \<Rightarrow> bool \<Rightarrow> string option \<Rightarrow> string" where
  "remote_command cmd sudo ignore_errors user =
     (let is_multiline_cmd = length (splitlines cmd) > 1;
          cmd = (if \<not> ignore_errors \<and> is_multiline_cmd then ''set -e'' @ [newline] @ cmd else cmd)
      in case user of
           Some (u # us) \<Rightarrow> ''sudo -i -u '' @ (u # us) @ '' -S $SHELL -c '' @ [CHR 0x27] @ cmd @ [CHR 0x27]
         | _ \<Rightarrow> if sudo then ''sudo -S $SHELL -c '' @ [CHR 0x27] @ cmd @ [CHR 0x27] else cmd)"

text \<open>
  The reply is the dictionary with the host name and the output. (The test whether the result is a
  \<open>TimeoutError\<close> comes after its \<open>exit_status\<close> was read, which an exception does not have.)
\<close>

definition run_client :: "'w ssh_env \<Rightarrow> ssh_client \<Rightarrow> string \<Rightarrow> int \<Rightarrow> bool \<Rightarrow> bool \<Rightarrow> string option \<Rightarrow>
    ('w, exn, (string, string) dict) io" where
  "run_client E cl cmd timeout sudo ignore_errors user =
     io_bind (conn_run E (hostname cl) (remote_command cmd sudo ignore_errors user) timeout) (\<lambda>result.
       case exit_status result of
         None \<Rightarrow> io_raise PyTypeError
       | Some st \<Rightarrow>
           (if st > 0 \<and> \<not> ignore_errors then io_raise SshClientException
            else io_return [(''hostname'', hostname cl),
                            (''stdout'', join [newline] (splitlines (rr_stdout result)))]))"

definition unsafe_run :: "'w ssh_env \<Rightarrow> ssh_client \<Rightarrow> cmd \<Rightarrow> int \<Rightarrow> bool \<Rightarrow> bool \<Rightarrow> string option \<Rightarrow>
    ('w, exn, string) io" where
  "unsafe_run E cl cmd timeout sudo ignore_errors user =
     io_try
       (io_bind (run_client E cl (clean_cmd cmd) timeout sudo ignore_errors user)
         (\<lambda>ret. io_return (dget_default ret ''stdout'' [])))
       (\<lambda>e. isinstance_exn e PyException)
       (\<lambda>e. if isinstance_exn e PyConnectionError then io_raise e
            else if isinstance_exn e PyOSError then
              (if ignore_errors then io_return [] else io_raise SshClientException)
            else if isinstance_exn e AsyncsshTimeoutError then io_raise SshClientTimeoutException
            else if isinstance_exn e AsyncioTimeoutError then io_raise PyConnectionError
            else io_raise e)"

text \<open>
  The policies of the decorated methods. \<open>ConnectionRefusedError\<close> and \<open>socket.timeout\<close> of the
  source's list are subclasses of \<open>ConnectionError\<close> and \<open>OSError\<close>.
\<close>

definition ssh_run_policy :: retry_policy where
  "ssh_run_policy = \<lparr>exceptions_to_check = [AsyncsshError, AsyncioTimeoutError, PyConnectionError,
       PyConnectionRefusedError],
     exception_to_raise = SshClientException, max_delay = 300\<rparr>"

definition ssh_copy_policy :: retry_policy where
  "ssh_copy_policy = \<lparr>exceptions_to_check = [PyOSError, AsyncsshError, AsyncioTimeoutError],
     exception_to_raise = SshClientException, max_delay = 300\<rparr>"

text \<open>The list of delays; the draws succeed for these constants (below).\<close>

definition jitter_delays :: "(nat \<Rightarrow> nat) \<Rightarrow> int \<Rightarrow> nat \<Rightarrow> int \<Rightarrow> int list" where
  "jitter_delays draw delay attempts cap =
     (case backoff_with_jitter draw delay attempts cap of Inl e \<Rightarrow> [] | Inr xs \<Rightarrow> xs)"

definition ssh_run :: "'w ssh_env \<Rightarrow> ssh_client \<Rightarrow> cmd \<Rightarrow> int \<Rightarrow> bool \<Rightarrow> bool \<Rightarrow> string option \<Rightarrow>
    ('w, exn, string) io" where
  "ssh_run E cl cmd timeout sudo ignore_errors user =
     retry (clock E) ssh_run_policy (jitter_delays (jitter_draw E) 10 30 45)
       (unsafe_run E cl cmd timeout sudo ignore_errors user)"

text \<open>
  \<open>_scp_send\<close> is an \<open>async def\<close> under the (synchronous) decorator: what is retried is making the
  coroutine, and the coroutine is run by whoever awaits it.
\<close>

definition scp_send :: "'w ssh_env \<Rightarrow> ssh_client \<Rightarrow> string \<Rightarrow> string \<Rightarrow> bool \<Rightarrow>
    ('w, exn, ('w, exn, unit) io) io" where
  "scp_send E cl local remote recursive =
     retry (clock E) ssh_copy_policy (jitter_delays (jitter_draw E) 10 3 45)
       (io_return (scp_to E (hostname cl) local remote recursive))"

definition scp_receive :: "'w ssh_env \<Rightarrow> ssh_client \<Rightarrow> string \<Rightarrow> string \<Rightarrow> bool \<Rightarrow> ('w, exn, unit) io" where
  "scp_receive E cl remote local recursive = scp_from E (hostname cl) remote local recursive"

definition sftp_send :: "'w ssh_env \<Rightarrow> ssh_client \<Rightarrow> string \<Rightarrow> string \<Rightarrow> ('w, exn, unit) io" where
  "sftp_send E cl local remote = sftp_put E (hostname cl) local remote"

definition send_files :: "'w ssh_env \<Rightarrow> ssh_client \<Rightarrow> string \<Rightarrow> string \<Rightarrow> bool \<Rightarrow> ('w, exn, unit) io" where
  "send_files E cl local remote recursive =
     retry (clock E) ssh_copy_policy (jitter_delays (jitter_draw E) 10 30 45)
       (io_bind (scp_send E cl local remote recursive) (\<lambda>coroutine. coroutine))"

definition receive_files :: "'w ssh_env \<Rightarrow> ssh_client \<Rightarrow> string \<Rightarrow> string \<Rightarrow> bool \<Rightarrow> ('w, exn, unit) io" where
  "receive_files E cl remote local recursive =
     retry (clock E) ssh_copy_policy (jitter_delays (jitter_draw E) 10 30 45)
       (io_bind (scp_send E cl remote local False) (\<lambda>coroutine. coroutine))"

section \<open>The parallel client\<close>

text \<open>
  \<open>asyncio.gather(*tasks, return_exceptions=True)\<close>: the tasks run in an order the event loop
  chooses (\<open>order\<close>, a list of task numbers); the results come in the order of the tasks, an
  exception being the result of its task. Only an interrupt that is not an \<open>Exception\<close> ends the
  whole. A task has one remote effect, so running it in one piece loses no interleaving.
\<close>

fun gather_in_order :: "nat list \<Rightarrow> ('w, exn, 'a) io list \<Rightarrow> (nat \<Rightarrow> exn + 'a) \<Rightarrow>
    ('w, exn, nat \<Rightarrow> exn + 'a) io" where
  "gather_in_order [] tasks results w = (Inr results, w)"
| "gather_in_order (i # order) tasks results w =
     (case (tasks ! i) w of
        (Inr x, w') \<Rightarrow> gather_in_order order tasks (results(i := Inr x)) w'
      | (Inl e, w') \<Rightarrow>
          (if isinstance_exn e PyException
           then gather_in_order order tasks (results(i := Inl e)) w'
           else (Inl e, w')))"

definition gather :: "(nat \<Rightarrow> nat list) \<Rightarrow> ('w, exn, 'a) io list \<Rightarrow> ('w, exn, (exn + 'a) list) io" where
  "gather order tasks =
     io_bind (gather_in_order (order (length tasks)) tasks (\<lambda>i. Inl PyException))
       (\<lambda>results. io_return (map results [0..<length tasks]))"

definition PsshClient :: "string list \<Rightarrow> int \<Rightarrow> string \<Rightarrow> string option \<Rightarrow> string option \<Rightarrow> ssh_client list" where
  "PsshClient hostnames p user pw key =
     map (\<lambda>h. \<lparr>hostname = h, port = p, username = user, password = pw, sc_key_file = key\<rparr>) hostnames"

text \<open>
  \<open>cmd % host_args[i]\<close>: the formatting is a parameter; a list that is too short raises
  \<open>IndexError\<close> before any task runs.
\<close>

fun host_commands :: "(string \<Rightarrow> 'h \<Rightarrow> exn + string) \<Rightarrow> string \<Rightarrow> ssh_client list \<Rightarrow> 'h list \<Rightarrow>
    exn + (ssh_client \<times> string) list" where
  "host_commands percent cmd [] host_args = Inr []"
| "host_commands percent cmd (cl # cls) [] = Inl PyIndexError"
| "host_commands percent cmd (cl # cls) (a # host_args) =
     (case percent cmd a of
        Inl e \<Rightarrow> Inl e
      | Inr c \<Rightarrow> (case host_commands percent cmd cls host_args of
                   Inl e \<Rightarrow> Inl e | Inr r \<Rightarrow> Inr ((cl, c) # r)))"

definition run_clients :: "'w ssh_env \<Rightarrow> (nat \<Rightarrow> nat list) \<Rightarrow> (string \<Rightarrow> 'h \<Rightarrow> exn + string) \<Rightarrow>
    ssh_client list \<Rightarrow> string \<Rightarrow> int \<Rightarrow> bool \<Rightarrow> 'h list option \<Rightarrow> bool \<Rightarrow>
    ('w, exn, (exn + (string, string) dict) list) io" where
  "run_clients E order percent clients cmd timeout sudo host_args ignore_errors =
     io_try
       (io_bind
         (io_lift (case host_args of
            Some (a # as) \<Rightarrow> host_commands percent cmd clients (a # as)
          | _ \<Rightarrow> Inr (map (\<lambda>cl. (cl, cmd)) clients)))
         (\<lambda>tasks. gather order (map (\<lambda>(cl, c). run_client E cl c timeout sudo ignore_errors None) tasks)))
       (\<lambda>e. isinstance_exn e SshClientException) (\<lambda>e. io_raise PsshClientException)"

text \<open>The check of the results: the first exception becomes a \<open>PsshClientException\<close>.\<close>

fun all_results :: "(exn + 'a) list \<Rightarrow> exn + 'a list" where
  "all_results [] = Inr []"
| "all_results (Inl e # rs) = Inl PsshClientException"
| "all_results (Inr x # rs) = (case all_results rs of Inl e \<Rightarrow> Inl e | Inr xs \<Rightarrow> Inr (x # xs))"

definition pssh_run :: "'w ssh_env \<Rightarrow> (nat \<Rightarrow> nat list) \<Rightarrow> (string \<Rightarrow> 'h \<Rightarrow> exn + string) \<Rightarrow>
    ssh_client list \<Rightarrow> cmd \<Rightarrow> int \<Rightarrow> bool \<Rightarrow> 'h list option \<Rightarrow> bool \<Rightarrow>
    ('w, exn, (string, string) dict list) io" where
  "pssh_run E order percent clients cmd timeout sudo host_args ignore_errors =
     io_bind (run_clients E order percent clients (clean_cmd cmd) timeout sudo host_args ignore_errors)
       (\<lambda>results. io_lift (all_results results))"

text \<open>The parallel copies: the results that \<open>gather\<close> collects are not looked at.\<close>

definition pssh_send_files :: "'w ssh_env \<Rightarrow> (nat \<Rightarrow> nat list) \<Rightarrow> ssh_client list \<Rightarrow> string \<Rightarrow> string \<Rightarrow>
    bool \<Rightarrow> ('w, exn, unit) io" where
  "pssh_send_files E order clients local remote recursive =
     io_try
       (io_bind (io_map clients (\<lambda>cl. scp_send E cl local remote recursive)) (\<lambda>tasks.
        io_bind (gather order tasks) (\<lambda>results. io_return ())))
       (\<lambda>e. isinstance_any e [PyOSError, AsyncsshError]) (\<lambda>e. io_raise PsshClientException)"

definition pssh_receive_files :: "'w ssh_env \<Rightarrow> (nat \<Rightarrow> nat list) \<Rightarrow> ssh_client list \<Rightarrow> string \<Rightarrow> string \<Rightarrow>
    bool \<Rightarrow> ('w, exn, unit) io" where
  "pssh_receive_files E order clients remote local recursive =
     io_try
       (io_bind (gather order (map (\<lambda>cl. scp_receive E cl remote local recursive) clients))
         (\<lambda>results. io_return ()))
       (\<lambda>e. isinstance_any e [PyOSError, AsyncsshError]) (\<lambda>e. io_raise PsshClientException)"

text \<open>
  \<open>_send_file_sftp\<close> gives \<open>gather\<close> the list of coroutines as one awaitable, which raises
  \<open>TypeError\<close>.
\<close>

definition send_file_sftp :: "('w, exn, unit) io" where
  "send_file_sftp =
     io_try (io_raise PyTypeError)
       (\<lambda>e. isinstance_any e [PyOSError, AsyncsshError]) (\<lambda>e. io_raise PsshClientException)"

section \<open>Lemmas\<close>

lemma jitter_delays_ok:
  assumes "0 < d" and "0 < cap" and "0 < n"
  shows "retry_delays (jitter_delays draw d n cap)"
proof -
  obtain xs where "backoff_with_jitter draw d n cap = Inr xs"
    using jitter_loop_total [OF assms(1,2), of draw "[0..<n]"] by (auto simp: backoff_with_jitter_def)
  then show ?thesis
    using retry_delays_jitter [OF _ assms(3)] by (auto simp: jitter_delays_def)
qed

lemma length_jitter_delays: "0 < d \<Longrightarrow> 0 < cap \<Longrightarrow> length (jitter_delays draw d n cap) = n"
  using jitter_loop_total [of d cap draw "[0..<n]"] jitter_loop_ok [of draw d cap "[0..<n]"]
  by (auto simp: jitter_delays_def backoff_with_jitter_def)

interpretation ssh_delays: retry_delays "jitter_delays draw 10 30 45" for draw
  by (rule jitter_delays_ok) simp_all

interpretation scp_delays: retry_delays "jitter_delays draw 10 3 45" for draw
  by (rule jitter_delays_ok) simp_all

lemma retry_single_failure:
  assumes "f w = (Inl e, w')" and "\<not> isinstance_any e (exceptions_to_check p)"
    and "isinstance_exn e PyException" and "e \<noteq> SigTermException" and "retry_delays ds"
  shows "retry c p ds f w = (Inl (exception_to_raise p), w')"
  using retry_not_checked [of f w e, OF assms(1,2), of ds c] assms(3,4) retry_delays.delays_not_empty [OF assms(5)]
  by simp

text \<open>What \<open>_unsafe_run\<close> makes of the replies of the connection.\<close>

lemma unsafe_run_reply:
  assumes "conn_run E (hostname cl) (remote_command (clean_cmd cmd) sudo ignore_errors user) timeout w
      = (Inr r, w')" and "exit_status r = Some st"
  shows "unsafe_run E cl cmd timeout sudo ignore_errors user w =
    (if st > 0 \<and> \<not> ignore_errors then Inl SshClientException
     else Inr (join [newline] (splitlines (rr_stdout r))), w')"
  using assms by (auto simp: unsafe_run_def run_client_def io_defs isinstance_eval dget_default_def)

text \<open>The class of the exception that leaves \<open>_unsafe_run\<close> when the connection raises.\<close>

definition mapped_exn :: "exn \<Rightarrow> exn" where
  "mapped_exn e =
     (if isinstance_exn e PyConnectionError then e
      else if isinstance_exn e PyOSError then SshClientException
      else if isinstance_exn e AsyncsshTimeoutError then SshClientTimeoutException
      else if isinstance_exn e AsyncioTimeoutError then PyConnectionError
      else e)"

lemma unsafe_run_raise:
  assumes "conn_run E (hostname cl) (remote_command (clean_cmd cmd) sudo False user) timeout w
      = (Inl e, w')"
  shows "unsafe_run E cl cmd timeout sudo False user w = (Inl (mapped_exn e), w')"
proof (cases "isinstance_exn e PyException")
  case True
  with assms show ?thesis by (simp add: unsafe_run_def run_client_def io_defs mapped_exn_def)
next
  case False
  then have "mapped_exn e = e"
    by (auto simp: mapped_exn_def isinstance_interrupt) (simp_all add: isinstance_Exception)
  with False assms show ?thesis by (simp add: unsafe_run_def run_client_def io_defs)
qed

lemma mapped_exn_retried:
  "isinstance_any (mapped_exn e) (exceptions_to_check ssh_run_policy) \<longleftrightarrow>
     e \<in> {PyConnectionError, PyConnectionRefusedError, AsyncioTimeoutError, AsyncsshError}"
  by (cases e) (simp_all add: mapped_exn_def ssh_run_policy_def isinstance_eval)

section \<open>The contract of a runner\<close>

text \<open>
  The clients of a decorated operation rely on one class of failures: the operation raises the
  class its decorator names, or lets an interrupt through.
\<close>

locale raises_class =
  fixes run :: "'q \<Rightarrow> ('w, exn, 'a) io" and cls :: exn
  assumes raises: "run q w = (Inl e, w') \<Longrightarrow>
    e = cls \<or> e = SigTermException \<or> \<not> isinstance_exn e PyException"
begin

text \<open>Translating the class in an \<open>except\<close> clause gives a runner of the new class.\<close>

lemma translated:
  assumes "isinstance_exn cls base"
  shows "raises_class (\<lambda>q. io_try (run q) (\<lambda>e. isinstance_exn e base) (\<lambda>e. io_raise cls')) cls'"
proof (unfold_locales)
  fix q w e w'
  assume *: "io_try (run q) (\<lambda>e. isinstance_exn e base) (\<lambda>e. io_raise cls') w = (Inl e, w')"
  obtain r v where r: "run q w = (r, v)" by (cases "run q w")
  show "e = cls' \<or> e = SigTermException \<or> \<not> isinstance_exn e PyException"
  proof (cases r)
    case (Inl e')
    with raises r have "e' = cls \<or> e' = SigTermException \<or> \<not> isinstance_exn e' PyException" by blast
    with * r Inl assms show ?thesis by (auto simp: io_defs split: if_splits)
  next
    case (Inr x)
    with * r show ?thesis by (simp add: io_defs)
  qed
qed

lemma retried_by:
  assumes "run q w = (Inl e, w')" and "isinstance_exn e PyException" and "e \<noteq> SigTermException"
    and "cls \<in> set (exceptions_to_check p)"
  shows "isinstance_any e (exceptions_to_check p)"
  using raises [OF assms(1)] assms(2-4) by (auto simp: isinstance_any_def intro: bexI [of _ cls])

end

lemma retry_raises_class:
  assumes "retry_delays ds"
  shows "raises_class (\<lambda>q. retry (c q) p ds (f q)) (exception_to_raise p)"
  by unfold_locales (rule retry_delays.raises_only [OF assms])

interpretation ssh_runner: raises_class
  "\<lambda>(E, cl, cmd, timeout, sudo, ignore_errors, user). ssh_run E cl cmd timeout sudo ignore_errors user"
  SshClientException
proof unfold_locales
  fix q :: "'a ssh_env \<times> ssh_client \<times> cmd \<times> int \<times> bool \<times> bool \<times> string option" and w e w'
  assume "(case q of (E, cl, cmd, timeout, sudo, ignore_errors, user) \<Rightarrow>
      ssh_run E cl cmd timeout sudo ignore_errors user) w = (Inl e, w')"
  then show "e = SshClientException \<or> e = SigTermException \<or> \<not> isinstance_exn e PyException"
    by (cases q) (auto simp: ssh_run_def ssh_run_policy_def dest: ssh_delays.raises_only)
qed

section \<open>Properties of the ssh client\<close>

text \<open>
  A command that ran on the remote host is not repeated by the ssh client: with exit status 0
  (or any status when errors are ignored) its output is returned line by line joined, with a
  positive status \<open>SshClientException\<close> is raised, in both cases after that one command and in the
  world it left.
\<close>

theorem ssh_run_one_command:
  assumes "conn_run E (hostname cl) (remote_command (clean_cmd cmd) sudo ignore_errors user) timeout w
      = (Inr r, w')" and "exit_status r = Some st"
  shows "ssh_run E cl cmd timeout sudo ignore_errors user w =
    (if st > 0 \<and> \<not> ignore_errors then Inl SshClientException
     else Inr (join [newline] (splitlines (rr_stdout r))), w')"
proof (cases "st > 0 \<and> \<not> ignore_errors")
  case True
  with unsafe_run_reply [OF assms] have
    "unsafe_run E cl cmd timeout sudo ignore_errors user w = (Inl SshClientException, w')" by simp
  from retry_single_failure [of "unsafe_run E cl cmd timeout sudo ignore_errors user" w,
      OF this _ _ _ ssh_delays.retry_delays_axioms, where p = ssh_run_policy]
  show ?thesis using True by (simp add: ssh_run_def ssh_run_policy_def isinstance_eval)
next
  case False
  with unsafe_run_reply [OF assms] have "unsafe_run E cl cmd timeout sudo ignore_errors user w =
    (Inr (join [newline] (splitlines (rr_stdout r))), w')" by auto
  with False show ?thesis by (simp add: ssh_run_def ssh_delays.retry_success)
qed

definition demo_env :: "string list ssh_env" where
  "demo_env = \<lparr>
     conn_run = (\<lambda>h c t w. if t = 0 then (Inl AsyncsshTimeoutError, (h @ '': '' @ c) # w)
       else (Inr \<lparr>exit_status = Some (if c = ''false'' then 1 else 0), rr_stdout = c, rr_stderr = []\<rparr>,
             (h @ '': '' @ c) # w)),
     scp_to = (\<lambda>h l r b w. if l = [] then (Inl PyFileNotFoundError, w) else (Inr (), (h @ ''> '' @ r) # w)),
     scp_from = (\<lambda>h r l b w. (Inr (), (h @ ''< '' @ l) # w)),
     sftp_put = (\<lambda>h l r w. (Inr (), w)),
     clock = \<lparr>now = (\<lambda>w. 0), sleep = (\<lambda>d w. ''sleep'' # w)\<rparr>, jitter_draw = (\<lambda>i. i)\<rparr>"

definition demo_client :: "string \<Rightarrow> ssh_client" where
  "demo_client h = \<lparr>hostname = h, port = 22, username = ''root'', password = None, sc_key_file = None\<rparr>"

theorem ssh_run_one_command_witness:
  "ssh_run demo_env (demo_client ''n1'') (CmdStr ''false'') 300 False False None []
     = (Inl SshClientException, [''n1: false''])
   \<and> ssh_run demo_env (demo_client ''n1'') (CmdStr ''false'') 300 False True None []
     = (Inr ''false'', [''n1: false''])"
proof -
  have c: "clean_cmd (CmdStr ''false'') = ''false''" by code_simp
  have "conn_run demo_env (hostname (demo_client ''n1''))
      (remote_command (clean_cmd (CmdStr ''false'')) False ignore_errors None) 300 [] =
      (Inr \<lparr>exit_status = Some 1, rr_stdout = ''false'', rr_stderr = []\<rparr>, [''n1: false''])" for ignore_errors
    unfolding c by (simp add: demo_env_def demo_client_def remote_command_def Let_def is_linebreak_def)
  from this [of False] this [of True] show ?thesis
    using ssh_run_one_command [of demo_env "demo_client ''n1''" "CmdStr ''false''" False False None 300]
      ssh_run_one_command [of demo_env "demo_client ''n1''" "CmdStr ''false''" False True None 300]
    by (simp add: is_linebreak_def)
qed


section \<open>Properties of the parallel client\<close>

lemma gather_in_order_results:
  assumes "gather_in_order is tasks res w = (r, w')"
  shows "case r of
      Inr out \<Rightarrow> \<forall>i. if i \<in> set is then \<exists>u u'. (tasks ! i) u = (out i, u')
          \<and> (\<forall>e. out i = Inl e \<longrightarrow> isinstance_exn e PyException)
        else out i = res i
    | Inl e \<Rightarrow> \<not> isinstance_exn e PyException"
  using assms
proof (induction "is" tasks res w rule: gather_in_order.induct)
  case (2 i order tasks res w)
  obtain x v where x: "(tasks ! i) w = (x, v)" by (cases "(tasks ! i) w")
  show ?case
  proof (cases x)
    case (Inl e)
    show ?thesis
    proof (cases "isinstance_exn e PyException")
      case True
      with 2 x Inl have "gather_in_order order tasks (res(i := Inl e)) v = (r, w')" by simp
      from 2(1) [OF x [unfolded Inl, symmetric] refl True this] x Inl True show ?thesis
        by (auto split: sum.splits if_splits) metis
    next
      case False
      with 2(3) x Inl show ?thesis by auto
    qed
  next
    case (Inr y)
    with 2 x have "gather_in_order order tasks (res(i := Inr y)) v = (r, w')" by simp
    from 2(2) [OF x [unfolded Inr, symmetric] refl this] x Inr show ?thesis
      by (auto split: sum.splits if_splits) metis
  qed
qed auto

lemma gather_results:
  assumes "gather order tasks w = (r, w')" and "set (order (length tasks)) = {0..<length tasks}"
  shows "case r of
      Inr rs \<Rightarrow> length rs = length tasks \<and>
        (\<forall>i < length tasks. (\<exists>u u'. (tasks ! i) u = (rs ! i, u'))
          \<and> (\<forall>e. rs ! i = Inl e \<longrightarrow> isinstance_exn e PyException))
    | Inl e \<Rightarrow> \<not> isinstance_exn e PyException"
proof -
  obtain s v where s: "gather_in_order (order (length tasks)) tasks (\<lambda>i. Inl PyException) w = (s, v)"
    by (cases "gather_in_order (order (length tasks)) tasks (\<lambda>i. Inl PyException) w")
  from gather_in_order_results [OF s] assms s show ?thesis
    by (auto simp: gather_def io_defs split: sum.splits if_splits)
qed

lemma all_results_map [simp]: "all_results (map Inr xs) = Inr xs"
  by (induction xs) auto

lemma all_results_Inr: "all_results rs = Inr xs \<longleftrightarrow> rs = map Inr xs"
  by (induction rs arbitrary: xs rule: all_results.induct) (auto split: sum.splits)

lemma all_results_Inl: "all_results rs = Inl e \<longleftrightarrow> e = PsshClientException \<and> (\<exists>e'. Inl e' \<in> set rs)"
  by (induction rs rule: all_results.induct) (auto split: sum.splits)

lemma pssh_run_unfold:
  "pssh_run E order percent clients cmd timeout sudo None ig w =
     (case gather order (map (\<lambda>cl. run_client E cl (clean_cmd cmd) timeout sudo ig None) clients) w of
        (Inr rs, w') \<Rightarrow> (all_results rs, w')
      | (Inl e, w') \<Rightarrow> (Inl (if isinstance_exn e SshClientException then PsshClientException else e), w'))"
  by (auto simp: pssh_run_def run_clients_def io_defs o_def split: sum.splits prod.splits)

text \<open>
  C11. A command on many hosts is all or nothing, in whatever order the event loop runs the hosts:
  a normal return has one reply per host, in the order of the hosts, each the reply of a run on that
  host that succeeded; a failure is a \<open>PsshClientException\<close> and then some host's run raised, or an
  interrupt.
\<close>

theorem pssh_run_all_or_nothing:
  assumes "\<forall>n. set (order n) = {0..<n}"
    and "pssh_run E order percent clients cmd timeout sudo None ig w = (r, w')"
  shows "case r of
      Inr rs \<Rightarrow> length rs = length clients \<and> (\<forall>i < length clients. \<exists>u u'.
        run_client E (clients ! i) (clean_cmd cmd) timeout sudo ig None u = (Inr (rs ! i), u'))
    | Inl e \<Rightarrow> (e = PsshClientException \<and> (\<exists>cl \<in> set clients. \<exists>u e' u'.
          run_client E cl (clean_cmd cmd) timeout sudo ig None u = (Inl e', u') \<and> isinstance_exn e' PyException))
        \<or> \<not> isinstance_exn e PyException"
proof -
  let ?tasks = "map (\<lambda>cl. run_client E cl (clean_cmd cmd) timeout sudo ig None) clients"
  obtain s v where s: "gather order ?tasks w = (s, v)" by (cases "gather order ?tasks w")
  note g = gather_results [OF s] assms(1)
  show ?thesis
  proof (cases s)
    case (Inl e)
    with g have "\<not> isinstance_exn e PyException" by simp
    moreover from this have "\<not> isinstance_exn e SshClientException"
      by (auto simp: isinstance_interrupt isinstance_Exception)
    ultimately show ?thesis using assms(2) s Inl by (auto simp: pssh_run_unfold)
  next
    case (Inr rs)
    with assms(2) s have r: "r = all_results rs" by (simp add: pssh_run_unfold)
    have l: "length rs = length clients" and
      t: "\<And>i. i < length clients \<Longrightarrow> (\<exists>u u'. run_client E (clients ! i) (clean_cmd cmd) timeout sudo ig None u
        = (rs ! i, u')) \<and> (\<forall>e. rs ! i = Inl e \<longrightarrow> isinstance_exn e PyException)"
      using g Inr by auto
    show ?thesis
    proof (cases r)
      case (Inr xs)
      with r have "rs = map Inr xs" using all_results_Inr [of rs xs] by simp
      then show ?thesis using Inr l t by auto
    next
      case (Inl e)
      with r obtain e' where "e = PsshClientException" "Inl e' \<in> set rs" using all_results_Inl [of rs e] by auto
      moreover from this l obtain i where "i < length clients" "rs ! i = Inl e'" by (auto simp: in_set_conv_nth)
      ultimately show ?thesis using t [of i] Inl by (auto intro!: bexI [of _ "clients ! i"])
    qed
  qed
qed

theorem pssh_run_all_or_nothing_witness:
  "pssh_run demo_env (\<lambda>n. rev [0..<n]) (\<lambda>c a. Inr c) [demo_client ''n1'', demo_client ''n2''] (CmdStr ''false'')
     300 False None False [] = (Inl PsshClientException, [''n1: false'', ''n2: false''])
   \<and> (\<exists>cl \<in> {demo_client ''n1'', demo_client ''n2''}. \<exists>u e u'.
        run_client demo_env cl (clean_cmd (CmdStr ''false'')) 300 False False None u = (Inl e, u')
        \<and> isinstance_exn e PyException)"
proof -
  have o: "\<forall>n. set (rev [0..<n]) = {0..<n}" by simp
  have c: "clean_cmd (CmdStr ''false'') = ''false''" by code_simp
  have run: "pssh_run demo_env (\<lambda>n. rev [0..<n]) (\<lambda>c a. Inr c) [demo_client ''n1'', demo_client ''n2'']
      (CmdStr ''false'') 300 False None False [] = (Inl PsshClientException, [''n1: false'', ''n2: false''])"
    unfolding pssh_run_unfold c
    by (simp add: gather_def io_defs run_client_def demo_env_def demo_client_def remote_command_def Let_def
        is_linebreak_def upt_rec isinstance_eval numeral_2_eq_2)
  from pssh_run_all_or_nothing [OF o run] run show ?thesis
    by (simp add: isinstance_eval)
qed

text \<open>Making the coroutine always succeeds: the decorator around \<open>_scp_send\<close> retries nothing.\<close>

lemma scp_send_coroutine:
  "scp_send E cl local remote recursive w = (Inr (scp_to E (hostname cl) local remote recursive), w)"
  by (simp add: scp_send_def scp_delays.retry_success io_return_def)

lemma scp_send_all:
  "io_map clients (\<lambda>cl. scp_send E cl local remote recursive) w =
     (Inr (map (\<lambda>cl. scp_to E (hostname cl) local remote recursive) clients), w)"
  by (induction clients) (simp_all add: io_defs scp_send_coroutine)

lemma gather_in_order_no_interrupt:
  assumes "\<forall>i \<in> set is. \<forall>w e w'. (tasks ! i) w = (Inl e, w') \<longrightarrow> isinstance_exn e PyException"
  shows "\<exists>r v. gather_in_order is tasks res w = (Inr r, v)"
  using assms
proof (induction "is" arbitrary: res w)
  case (Cons i "is")
  obtain x v where "(tasks ! i) w = (x, v)" by (cases "(tasks ! i) w")
  moreover from this Cons.prems have "isinstance_exn e PyException" if "x = Inl e" for e
    using that by force
  ultimately show ?case using Cons by (cases x) auto
qed simp

text \<open>
  A copy to many hosts reports no failure: as long as no interrupt comes, \<open>send_files\<close> of the
  parallel client returns normally, even when the copy raised on every host.
\<close>

theorem pssh_send_files_silent:
  assumes "\<forall>h l r b w e w'. scp_to E h l r b w = (Inl e, w') \<longrightarrow> isinstance_exn e PyException"
    and "\<forall>n. set (order n) = {0..<n}"
  shows "fst (pssh_send_files E order clients local remote recursive w) = Inr ()"
proof -
  let ?tasks = "map (\<lambda>cl. scp_to E (hostname cl) local remote recursive) clients"
  obtain r v where "gather_in_order (order (length ?tasks)) ?tasks (\<lambda>i. Inl PyException) w = (Inr r, v)"
    using gather_in_order_no_interrupt [of "order (length ?tasks)" ?tasks "\<lambda>i. Inl PyException" w] assms
    by auto
  then show ?thesis
    by (simp add: pssh_send_files_def io_bind_def [where m = "io_map clients _"] scp_send_all gather_def io_defs)
qed

theorem pssh_send_files_silent_witness:
  "fst (pssh_send_files demo_env (\<lambda>n. [0..<n]) [demo_client ''n1''] [] ''/tmp/x'' False []) = Inr ()"
  by (rule pssh_send_files_silent) (auto simp: demo_env_def isinstance_Exception split: if_splits)

text \<open>
  \<open>receive_files\<close> sends: it copies the file named by its first argument, on the local side, to
  the path named by the second on the remote host, and never recursively.
\<close>

theorem receive_files_sends:
  "receive_files E cl remote local recursive = send_files E cl remote local False"
  by (simp add: receive_files_def send_files_def)

end
