(* ===== verification/XB_Node.thy ===== *)
theory XB_Node
  imports XB_Ssh XB_Machine
begin

text \<open>
  \<^verbatim>\<open>compute/node.py\<close> and \<^verbatim>\<open>compute/multi_node.py\<close>: one machine with its package manager and
  ssh client, and a group of machines.

  The environment adds to the ssh one: the metrics server inside the world (\<open>get_metrics\<close>,
  \<open>put_metrics\<close>), the reading of a local file, the entry \<open>pem_dir\<close> of the xbench configuration
  (\<open>None\<close> when it is missing) and the home directory of xbench. Shell commands of several lines are
  written without the indentation of the source, which \<open>clean_cmd\<close> removes.
\<close>

section \<open>The node\<close>

record 'w node_env =
  ssh :: "'w ssh_env"
  get_metrics :: "'w \<Rightarrow> metrics_server"
  put_metrics :: "metrics_server \<Rightarrow> 'w \<Rightarrow> 'w"
  read_file :: "string \<Rightarrow> ('w, exn, string) io"
  pem_dir :: "string option"
  home_dir :: string
  task_order :: "nat \<Rightarrow> nat list"

text \<open>\<open>yum\<close> and \<open>ssh_client\<close> are attributes of a managed node only.\<close>

record node =
  vm :: virtual_machine
  node_yum :: "yum option"
  node_ssh :: "ssh_client option"

definition attribute :: "'a option \<Rightarrow> ('w, exn, 'a) io" where
  "attribute x = io_lift (case x of None \<Rightarrow> Inl PyAttributeError | Some v \<Rightarrow> Inr v)"

definition Node :: "virtual_machine \<Rightarrow> exn + node" where
  "Node v =
     (if \<not> managed v then Inr \<lparr>vm = v, node_yum = None, node_ssh = None\<rparr>
      else case PackageManager (os_type v) of
        Inl e \<Rightarrow> Inl (if isinstance_exn e PyNotImplementedError then NodeException else e)
      | Inr y \<Rightarrow>
          (case network v of
             None \<Rightarrow> Inl PyAttributeError
           | Some n \<Rightarrow> Inr \<lparr>vm = v, node_yum = Some y,
               node_ssh = Some \<lparr>hostname = get_public_iface n, port = 22, username = ssh_user v,
                 password = None, sc_key_file = Some (key_file v)\<rparr>\<rparr>))"

definition base_packages :: "string list" where
  "base_packages = [''irqbalance'', ''mdadm'', ''wget'', ''screen'', ''bzip2'', ''vim'', ''lbzip2'',
     ''chrony'', ''htop'', ''git'', ''sysstat'', ''sshpass'', ''lsof'']"

definition disable_selinux :: string where
  "disable_selinux = ''setenforce 0''"

definition disable_network_security_cmd :: "bool \<Rightarrow> string" where
  "disable_network_security_cmd really =
     (if really then
        join [newline] [[], ''chkconfig iptables off || true'', ''systemctl iptables stop || true'',
          ''systemctl disable firewalld || true'', ''systemctl stop firewalld || true'', []]
      else [])"

text \<open>\<open>Node.run\<close> is \<open>Node._unsafe_run\<close> under the decorator.\<close>

definition DEFAULT_LONG_COMMAND_TIMEOUT :: int where
  "DEFAULT_LONG_COMMAND_TIMEOUT = 60 * 60 * 24"

definition node_unsafe_run :: "'w node_env \<Rightarrow> node \<Rightarrow> cmd \<Rightarrow> int \<Rightarrow> bool \<Rightarrow> bool \<Rightarrow> string option \<Rightarrow>
    ('w, exn, string) io" where
  "node_unsafe_run N nd cmd timeout sudo ignore_errors user =
     io_bind (attribute (node_ssh nd)) (\<lambda>cl. ssh_run (ssh N) cl cmd timeout sudo ignore_errors user)"

definition node_run :: "'w node_env \<Rightarrow> node \<Rightarrow> cmd \<Rightarrow> int \<Rightarrow> bool \<Rightarrow> bool \<Rightarrow> string option \<Rightarrow>
    ('w, exn, string) io" where
  "node_run N nd cmd timeout sudo ignore_errors user =
     retry (clock (ssh N)) node_policy (backoff 10 3)
       (node_unsafe_run N nd cmd timeout sudo ignore_errors user)"

text \<open>The calls whose output is dropped, with the default timeout of 300 seconds.\<close>

definition node_exec :: "'w node_env \<Rightarrow> node \<Rightarrow> string \<Rightarrow> bool \<Rightarrow> bool \<Rightarrow> ('w, exn, unit) io" where
  "node_exec N nd c sudo ignore_errors =
     io_bind (node_run N nd (CmdStr c) 300 sudo ignore_errors None) (\<lambda>_. io_return ())"

definition install_base_packages :: "node \<Rightarrow> ('w, exn, string) io" where
  "install_base_packages nd =
     io_bind (attribute (node_yum nd)) (\<lambda>y.
     io_bind (io_lift (install_pkg_cmd y)) (\<lambda>c. io_return (join '' '' (c # base_packages))))"

definition git_v2_repo :: string where
  "git_v2_repo = ''https://packages.endpointdev.com/rhel/7/os/x86_64/endpoint-repo.x86_64.rpm''"

definition install_gitv2_for_centos7 :: "'w node_env \<Rightarrow> node \<Rightarrow> ('w, exn, unit) io" where
  "install_gitv2_for_centos7 N nd =
     io_bind (attribute (node_yum nd)) (\<lambda>y.
     io_bind (io_lift (remove_pkg_cmd y)) (\<lambda>remove.
     io_seq (node_exec N nd (remove @ '' git'') True False)
    (io_bind (io_lift (install_pkg_cmd y)) (\<lambda>install.
     io_seq (node_exec N nd (install @ '' '' @ git_v2_repo) True True)
            (node_exec N nd (install @ '' git'') True False)))))"

definition prepare_ssh_passwordless_access :: "'w node_env \<Rightarrow> node \<Rightarrow> ('w, exn, unit) io" where
  "prepare_ssh_passwordless_access N nd =
     node_exec N nd (join [newline] [[], ''mkdir -p ${HOME}/.ssh'', ''chmod 700 .ssh'',
       ''cat << EOF >>${HOME}/.ssh/config'', ''Host *'', ''AddKeysToAgent yes'',
       ''StrictHostKeyChecking no'', ''IdentityFile ~/.ssh/xbench.pem'', ''EOF'',
       ''chmod 600 ${HOME}/.ssh/config'', []]) False False"

definition send_pem_files :: "'w node_env \<Rightarrow> node \<Rightarrow> string option \<Rightarrow> ('w, exn, unit) io" where
  "send_pem_files N nd local_dir =
     io_for [''xbench.pem'', ''xbench.pem.pub''] (\<lambda>f.
       io_bind (attribute (node_ssh nd)) (\<lambda>cl.
         case local_dir of
           None \<Rightarrow> io_raise PyTypeError
         | Some d \<Rightarrow> send_files (ssh N) cl (path_join d f) (''.ssh/'' @ f) False))"

definition add_pem_file :: "'w node_env \<Rightarrow> node \<Rightarrow> ('w, exn, unit) io" where
  "add_pem_file N nd =
     node_exec N nd (join [newline] [[], ''cd ~/.ssh/'', ''cat xbench.pem.pub >>authorized_keys'', []])
       False False"

definition set_ssh_passwordless_access :: "'w node_env \<Rightarrow> node \<Rightarrow> string option \<Rightarrow> ('w, exn, unit) io" where
  "set_ssh_passwordless_access N nd local_dir =
     io_seq (prepare_ssh_passwordless_access N nd)
    (io_seq (send_pem_files N nd local_dir) (add_pem_file N nd))"

definition ne_package_name :: string where
  "ne_package_name = ''golang-github-prometheus-node-exporter''"

definition ne_package_rpm :: string where
  "ne_package_rpm = ''golang-github-prometheus-node-exporter-1.2.2-1.el7.x86_64.rpm''"

definition ne_port :: int where
  "ne_port = 9100"

definition configure_metrics_exporter_repo :: "'w node_env \<Rightarrow> node \<Rightarrow> ('w, exn, unit) io" where
  "configure_metrics_exporter_repo N nd =
     io_bind (attribute (node_yum nd)) (\<lambda>y.
       if version_number y = ''7'' then
         io_bind (attribute (node_ssh nd)) (\<lambda>cl.
         io_seq (send_files (ssh N) cl (home_dir N @ ''/metrics/exporters/'' @ ne_package_rpm) ''./'' False)
        (io_bind (io_lift (install_local_pkg_cmd y)) (\<lambda>c.
           node_exec N nd (c @ '' '' @ ne_package_rpm) True False)))
       else
         io_bind (io_lift (install_pkg_cmd y)) (\<lambda>c.
           node_exec N nd (c @ '' '' @ ne_package_name) True False))"

definition run_metrics_exporter :: "'w node_env \<Rightarrow> node \<Rightarrow> ('w, exn, unit) io" where
  "run_metrics_exporter N nd =
     node_exec N nd (join [newline] [[], ''systemctl enable node_exporter'',
       ''systemctl start node_exporter'', []]) True False"

text \<open>\<open>self.vm.klass.split(".")\<close> must give two parts; the import is a parameter.\<close>

definition get_klass :: "(string \<Rightarrow> string \<Rightarrow> exn + 'c) \<Rightarrow> node \<Rightarrow> exn + 'c" where
  "get_klass import_class nd =
     (case split_on (CHR ''.'') (klass (vm nd)) of
        [module_name, klass_name] \<Rightarrow> import_class module_name klass_name
      | _ \<Rightarrow> Inl PyValueError)"

definition get_metrics_interface :: "node \<Rightarrow> exn + string" where
  "get_metrics_interface nd =
     (case network (vm nd) of None \<Rightarrow> Inl PyAttributeError | Some n \<Rightarrow> Inr (get_client_iface n))"

definition node_target :: "node \<Rightarrow> string \<Rightarrow> int \<Rightarrow> exn + metrics_target" where
  "node_target nd service p =
     (case get_metrics_interface nd of
        Inl e \<Rightarrow> Inl e
      | Inr h \<Rightarrow> Inr \<lparr>service_name = service, mt_labels = labels (vm nd), mt_hostname = h, mt_port = p\<rparr>)"

definition node_register_metric_target :: "'w node_env \<Rightarrow> node \<Rightarrow> string \<Rightarrow> int \<Rightarrow> ('w, exn, unit) io" where
  "node_register_metric_target N nd service p =
     io_bind (io_lift (node_target nd service p)) (\<lambda>mt.
       io_modify (\<lambda>w. put_metrics N (register_metric_target mt (get_metrics N w)) w))"

definition node_deregister_metric_target :: "'w node_env \<Rightarrow> node \<Rightarrow> string \<Rightarrow> int \<Rightarrow> ('w, exn, unit) io" where
  "node_deregister_metric_target N nd service p =
     io_bind (io_lift (node_target nd service p)) (\<lambda>mt.
       io_modify (\<lambda>w. put_metrics N (deregister_metric_target mt (get_metrics N w)) w))"

definition configure_metrics_exporter :: "'w node_env \<Rightarrow> node \<Rightarrow> ('w, exn, unit) io" where
  "configure_metrics_exporter N nd =
     io_seq (configure_metrics_exporter_repo N nd)
    (io_seq (run_metrics_exporter N nd) (node_register_metric_target N nd ''node'' ne_port))"

definition node_configure :: "'w node_env \<Rightarrow> node \<Rightarrow> ('w, exn, unit) io" where
  "node_configure N nd =
     io_bind (attribute (node_yum nd)) (\<lambda>y.
     io_bind (io_lift (install_epel_command y)) (\<lambda>install_epel.
     io_bind (install_base_packages nd) (\<lambda>packages.
     io_bind (attribute (network (vm nd))) (\<lambda>n.
     io_seq (node_exec N nd (join [newline] [[], install_epel, packages, disable_selinux,
         disable_network_security_cmd (disable_network_security n), ''service chronyd start'',
         ''rpm -qa | grep -i epel'', []]) True False)
    (io_seq (io_when (role (vm nd) = ''driver'' \<and> os_type (vm nd) = CENTOS7)
         (install_gitv2_for_centos7 N nd))
    (io_seq (set_ssh_passwordless_access N nd (pem_dir N))
            (configure_metrics_exporter N nd)))))))"

text \<open>The value after \<open>=\<close> in a line of \<^verbatim>\<open>/etc/os-release\<close>.\<close>

definition release_value :: "string \<Rightarrow> exn + string" where
  "release_value output =
     (case split_on (CHR ''='') output of
        _ # v # _ \<Rightarrow> Inr (filter (\<lambda>c. c \<noteq> CHR 0x22) v)
      | _ \<Rightarrow> Inl PyIndexError)"

definition os_name :: "'w node_env \<Rightarrow> node \<Rightarrow> ('w, exn, string) io" where
  "os_name N nd = io_bind (node_run N nd (CmdStr ''grep ^NAME /etc/os-release'') 300 True False None)
     (\<lambda>output. io_lift (release_value output))"

definition os_version :: "'w node_env \<Rightarrow> node \<Rightarrow> ('w, exn, string) io" where
  "os_version N nd = io_bind (node_run N nd (CmdStr ''grep VERSION_ID /etc/os-release'') 300 True False None)
     (\<lambda>output. io_lift (release_value output))"

text \<open>
  \<open>int(s)\<close>: white space around, a sign, and groups of digits separated by single underscores.
\<close>

definition py_digits :: "string \<Rightarrow> exn + nat" where
  "py_digits s =
     (if list_all (\<lambda>p. p \<noteq> [] \<and> list_all is_digit p) (split_on (CHR ''_'') s)
      then Inr (nat_of_digits (concat (split_on (CHR ''_'') s))) else Inl PyValueError)"

definition py_int :: "string \<Rightarrow> exn + int" where
  "py_int s = (case strip s of
       [] \<Rightarrow> Inl PyValueError
     | c # cs \<Rightarrow>
         (if c = CHR ''-'' then map_sum id (\<lambda>n. - int n) (py_digits cs)
          else if c = CHR ''+'' then map_sum id int (py_digits cs)
          else map_sum id int (py_digits (c # cs))))"

text \<open>\<open>int(v)\<close>; an object that is neither of these (a float) is not accepted here.\<close>

definition py_int_val :: "pyval \<Rightarrow> exn + int" where
  "py_int_val v = (case v of VInt i \<Rightarrow> Inr i | VBool b \<Rightarrow> Inr (if b then 1 else 0) | VStr s \<Rightarrow> py_int s
     | _ \<Rightarrow> Inl PyTypeError)"

definition memory_mb :: "'w node_env \<Rightarrow> node \<Rightarrow> ('w, exn, int) io" where
  "memory_mb N nd =
     io_bind (node_run N nd (CmdStr (join [newline]
         [[], ''cat /proc/meminfo | grep MemTotal | awk {'' @ [CHR 0x22] @ ''print '' @ [CHR 0x5C] @ ''$2''
           @ [CHR 0x22] @ ''}'', []])) 300 False False None) (\<lambda>output.
     io_bind (io_lift (py_int output)) (\<lambda>kb. io_return (round_down_to_even (of_int kb / 1024))))"

definition nproc :: "'w node_env \<Rightarrow> node \<Rightarrow> ('w, exn, int) io" where
  "nproc N nd = io_bind (node_run N nd (CmdStr ''nproc'') 300 False False None) (\<lambda>output. io_lift (py_int output))"

definition send_file :: "'w node_env \<Rightarrow> node \<Rightarrow> string \<Rightarrow> string \<Rightarrow> bool \<Rightarrow> ('w, exn, unit) io" where
  "send_file N nd local_file_name remote_file_name sudo =
     io_try
       (io_bind (read_file N local_file_name) (\<lambda>content.
          node_exec N nd (''echo '' @ [CHR 0x22] @ content @ [CHR 0x22] @ '' > '' @ remote_file_name) sudo False))
       (\<lambda>e. isinstance_any e [PyFileNotFoundError, PyOSError]) (\<lambda>e. io_raise NodeException)"

definition scp_file :: "'w node_env \<Rightarrow> node \<Rightarrow> string \<Rightarrow> string \<Rightarrow> ('w, exn, unit) io" where
  "scp_file N nd local_file_name remote_file_name =
     io_bind (attribute (node_ssh nd)) (\<lambda>cl. send_files (ssh N) cl local_file_name remote_file_name False)"

section \<open>Many nodes\<close>

record multi_node =
  nodes :: "node list"
  pssh :: "ssh_client list"

fun all_ips :: "(virtual_network \<Rightarrow> string) \<Rightarrow> node list \<Rightarrow> exn + string list" where
  "all_ips iface [] = Inr []"
| "all_ips iface (n # ns) =
     (case network (vm n) of
        None \<Rightarrow> Inl PyAttributeError
      | Some net \<Rightarrow> (case all_ips iface ns of Inl e \<Rightarrow> Inl e | Inr ips \<Rightarrow> Inr (iface net # ips)))"

definition all_public_ips :: "node list \<Rightarrow> exn + string list" where
  "all_public_ips ns = all_ips get_public_iface ns"

definition all_client_ips :: "node list \<Rightarrow> exn + string list" where
  "all_client_ips ns = all_ips get_client_iface ns"

definition all_private_ips :: "node list \<Rightarrow> exn + string list" where
  "all_private_ips ns = all_ips get_private_iface ns"

definition head_node :: "node list \<Rightarrow> exn + node" where
  "head_node ns = (case ns of [] \<Rightarrow> Inl PyIndexError | n # _ \<Rightarrow> Inr n)"

definition MultiNode :: "string option \<Rightarrow> node list \<Rightarrow> exn + multi_node" where
  "MultiNode pem ns =
     (case all_public_ips ns of
        Inl e \<Rightarrow> Inl e
      | Inr ips \<Rightarrow>
          (case head_node ns of
             Inl e \<Rightarrow> Inl e
           | Inr h \<Rightarrow>
               (case pem of
                  None \<Rightarrow> Inl PyTypeError
                | Some d \<Rightarrow> Inr \<lparr>nodes = ns,
                    pssh = PsshClient ips 22 (ssh_user (vm h)) None (Some (path_join d ''xbench.pem''))\<rparr>)))"

definition num_nodes :: "multi_node \<Rightarrow> nat" where
  "num_nodes m = length (nodes m)"

definition run_on_one_node :: "'w node_env \<Rightarrow> multi_node \<Rightarrow> cmd \<Rightarrow> int \<Rightarrow> bool \<Rightarrow> ('w, exn, string) io" where
  "run_on_one_node N m cmd timeout sudo =
     io_try
       (io_bind (io_lift (head_node (nodes m))) (\<lambda>h. node_run N h cmd timeout sudo False None))
       (\<lambda>e. isinstance_exn e NodeException) (\<lambda>e. io_raise MultiNodeException)"

definition multi_node_policy :: retry_policy where
  "multi_node_policy = \<lparr>exceptions_to_check = [SshClientException, SshClientTimeoutException, PsshClientException],
     exception_to_raise = MultiNodeException, max_delay = 600\<rparr>"

definition run_on_all_nodes :: "'w node_env \<Rightarrow> (string \<Rightarrow> 'h \<Rightarrow> exn + string) \<Rightarrow> multi_node \<Rightarrow> cmd \<Rightarrow> int \<Rightarrow>
    bool \<Rightarrow> 'h list option \<Rightarrow> bool \<Rightarrow> ('w, exn, (string, string) dict list) io" where
  "run_on_all_nodes N percent m cmd timeout sudo host_args ignore_errors =
     retry (clock (ssh N)) multi_node_policy (backoff 10 3)
       (pssh_run (ssh N) (task_order N) percent (pssh m) cmd timeout sudo host_args ignore_errors)"

definition scp_to_all_nodes :: "'w node_env \<Rightarrow> multi_node \<Rightarrow> string \<Rightarrow> string \<Rightarrow> bool \<Rightarrow> ('w, exn, unit) io" where
  "scp_to_all_nodes N m local_file remote_file recursive =
     io_try (pssh_send_files (ssh N) (task_order N) (pssh m) local_file remote_file recursive)
       (\<lambda>e. isinstance_exn e PsshClientException) (\<lambda>e. io_raise MultiNodeException)"

section \<open>Lemmas\<close>

lemma attribute_keeps [io_inv_intros]: "io_keeps I (attribute x)"
  unfolding attribute_def by (rule io_keeps_lift)

text \<open>The conditions under which an ssh command leaves an invariant of the world alone.\<close>

definition remote_keeps :: "('w \<Rightarrow> bool) \<Rightarrow> 'w ssh_env \<Rightarrow> bool" where
  "remote_keeps I E \<longleftrightarrow> (\<forall>h c t. io_keeps I (conn_run E h c t))
     \<and> (\<forall>h l r b. io_keeps I (scp_to E h l r b)) \<and> (\<forall>d w. I w \<longrightarrow> I (sleep (clock E) d w))"

lemma run_client_keeps: "remote_keeps I E \<Longrightarrow> io_keeps I (run_client E cl c t s ig u)"
  unfolding run_client_def
  by (intro io_keeps_bind) (auto simp: remote_keeps_def intro!: io_inv_intros split: option.split)

lemma unsafe_run_world:
  "snd (unsafe_run E cl cmd timeout sudo ig user w) =
     snd (conn_run E (hostname cl) (remote_command (clean_cmd cmd) sudo ig user) timeout w)"
proof -
  obtain r v where "conn_run E (hostname cl) (remote_command (clean_cmd cmd) sudo ig user) timeout w = (r, v)"
    by (cases "conn_run E (hostname cl) (remote_command (clean_cmd cmd) sudo ig user) timeout w")
  then show ?thesis
    by (cases r) (simp_all add: unsafe_run_def run_client_def io_defs split: option.split)
qed

lemma ssh_run_keeps: "remote_keeps I E \<Longrightarrow> io_keeps I (ssh_run E cl c t s ig u)"
  unfolding ssh_run_def unsafe_run_def
  by (intro io_inv_intros run_client_keeps) (auto simp: remote_keeps_def)

lemma send_files_keeps: "remote_keeps I E \<Longrightarrow> io_keeps I (send_files E cl l r b)"
proof -
  assume r: "remote_keeps I E"
  then have "io_keeps I (io_bind (scp_send E cl l r b) (\<lambda>x. x))"
    by (auto simp: io_keeps_def io_bind_def scp_send_coroutine remote_keeps_def)
  with r show ?thesis
    unfolding send_files_def by (intro io_keeps_retry) (auto simp: remote_keeps_def)
qed

lemma node_exec_keeps: "remote_keeps I (ssh N) \<Longrightarrow> io_keeps I (node_exec N nd c s ig)"
  unfolding node_exec_def node_run_def node_unsafe_run_def
  by (intro io_inv_intros ssh_run_keeps) (auto simp: remote_keeps_def)

lemma node_setup_keeps:
  assumes "remote_keeps I (ssh N)"
  shows "io_keeps I (install_base_packages nd)" "io_keeps I (install_gitv2_for_centos7 N nd)"
    "io_keeps I (set_ssh_passwordless_access N nd d)" "io_keeps I (configure_metrics_exporter_repo N nd)"
    "io_keeps I (run_metrics_exporter N nd)"
  unfolding install_base_packages_def install_gitv2_for_centos7_def set_ssh_passwordless_access_def
    prepare_ssh_passwordless_access_def send_pem_files_def add_pem_file_def
    configure_metrics_exporter_repo_def run_metrics_exporter_def
  using assms
  by (auto intro!: io_inv_intros node_exec_keeps send_files_keeps split: option.split)

interpretation node_runner: raises_class
  "\<lambda>(N, nd, cmd, timeout, sudo, ig, user). node_run N nd cmd timeout sudo ig user" NodeException
proof unfold_locales
  fix q :: "'a node_env \<times> node \<times> cmd \<times> int \<times> bool \<times> bool \<times> string option" and w e w'
  assume "(case q of (N, nd, cmd, timeout, sudo, ig, user) \<Rightarrow> node_run N nd cmd timeout sudo ig user) w
    = (Inl e, w')"
  then show "e = NodeException \<or> e = SigTermException \<or> \<not> isinstance_exn e PyException"
    by (cases q) (auto simp: node_run_def node_policy_def dest: backoff_10_3.raises_only)
qed

interpretation all_nodes_runner: raises_class
  "\<lambda>(N, percent, m, cmd, timeout, sudo, args, ig). run_on_all_nodes N percent m cmd timeout sudo args ig"
  MultiNodeException
proof unfold_locales
  fix q :: "'a node_env \<times> (string \<Rightarrow> 'b \<Rightarrow> exn + string) \<times> multi_node \<times> cmd \<times> int \<times> bool
      \<times> 'b list option \<times> bool" and w e w'
  assume "(case q of (N, percent, m, cmd, timeout, sudo, args, ig) \<Rightarrow>
      run_on_all_nodes N percent m cmd timeout sudo args ig) w = (Inl e, w')"
  then show "e = MultiNodeException \<or> e = SigTermException \<or> \<not> isinstance_exn e PyException"
    by (cases q) (auto simp: run_on_all_nodes_def multi_node_policy_def dest: backoff_10_3.raises_only)
qed

lemma seq_modify_fails:
  "io_seq m (io_modify f) w = (Inl e, w') \<Longrightarrow> m w = (Inl e, w')"
  by (auto simp: io_defs split: prod.splits sum.splits)

section \<open>Properties\<close>

text \<open>
  A command that keeps failing on a reachable host is run three times, with sleeps of 10 and 20
  seconds in between, and then \<open>NodeException\<close> is raised; this is the whole effect on the world.
\<close>

theorem node_run_three_attempts:
  assumes "node_ssh nd = Some cl"
    and "\<forall>w. conn_run (ssh N) (hostname cl) (remote_command (clean_cmd cmd) sudo False user) timeout w
           = (Inr r, f w)" and "exit_status r = Some st" and "st > 0"
    and "\<forall>u v. whole_seconds (now (clock (ssh N)) u - now (clock (ssh N)) v) \<le> 600"
  shows "node_run N nd cmd timeout sudo False user w =
    (Inl NodeException, f (sleep (clock (ssh N)) 20 (f (sleep (clock (ssh N)) 10 (f w)))))"
proof -
  have run: "node_unsafe_run N nd cmd timeout sudo False user u = (Inl SshClientException, f u)" for u
    using ssh_run_one_command [of "ssh N" cl cmd sudo False user timeout u r "f u" st] assms(1-4)
    by (simp add: node_unsafe_run_def attribute_def io_defs)
  have "\<not> 600 < whole_seconds (now (clock (ssh N)) u - now (clock (ssh N)) v)" for u v
    using assms(5) by (simp add: not_less)
  then show ?thesis
    by (simp add: node_run_def retry_def iter_islast_def backoff_def upt_rec run node_policy_def isinstance_eval)
qed

definition demo_vm :: virtual_machine where
  "demo_vm = \<lparr>env = ''e'', cloud = ''aws'', vm_cluster_name = ''perf'', vm_name = ''driver-0'', role = ''driver'',
     klass = ''driver.Driver'', klass_config_label = ''l'', instance_type = ''c5'', zone = ''z'',
     os_type = ROCKY8, managed = True, provisioned = True, arch = ''x86'', key_file = ''k'', pub_file = ''p'',
     storage = None, storage_list = [],
     network = Some \<lparr>cloud_type = ''aws'', private_ip = ''10.0.0.1'', public_ip = ''1.2.3.4'', disable_network_security = False\<rparr>,
     placement_group = None, vm_id = None, ssh_user = ''root''\<rparr>"

definition demo_node :: node where
  "demo_node = \<lparr>vm = demo_vm, node_yum = Some \<lparr>yum_os_type = ROCKY8\<rparr>, node_ssh = Some (demo_client ''1.2.3.4'')\<rparr>"

definition demo_node_env :: "string list node_env" where
  "demo_node_env = \<lparr>ssh = demo_env, get_metrics = (\<lambda>w. \<lparr>has_ssh_client = True, targets = map (\<lambda>l. (l, [], [])) w\<rparr>),
     put_metrics = (\<lambda>m w. map fst (targets m)), read_file = (\<lambda>f w. (Inr [], w)),
     pem_dir = Some ''/pem'', home_dir = ''/xb'', task_order = (\<lambda>n. [0..<n])\<rparr>"

theorem node_run_three_attempts_witness:
  "node_run demo_node_env demo_node (CmdStr ''false'') 300 False False None [] = (Inl NodeException,
     [''1.2.3.4: false'', ''sleep'', ''1.2.3.4: false'', ''sleep'', ''1.2.3.4: false''])"
proof -
  have c: "clean_cmd (CmdStr ''false'') = ''false''" by code_simp
  have "\<forall>w. conn_run (ssh demo_node_env) (hostname (demo_client ''1.2.3.4''))
      (remote_command (clean_cmd (CmdStr ''false'')) False False None) 300 w =
      (Inr \<lparr>exit_status = Some 1, rr_stdout = ''false'', rr_stderr = []\<rparr>, ''1.2.3.4: false'' # w)"
    unfolding c
    by (simp add: demo_node_env_def demo_env_def demo_client_def remote_command_def Let_def is_linebreak_def)
  from node_run_three_attempts [OF _ this, of demo_node 1 "[]"] show ?thesis
    by (simp add: demo_node_def demo_node_env_def demo_env_def whole_seconds_def)
qed

text \<open>
  However the connection behaves, one \<open>Node.run\<close> makes at most 90 connection attempts (three
  rounds of the ssh client's thirty).
\<close>

theorem node_run_connection_bound:
  fixes tries :: "'w \<Rightarrow> nat"
  assumes "\<forall>h c t w. tries (snd (conn_run (ssh N) h c t w)) \<le> Suc (tries w)"
    and "\<forall>d w. tries (sleep (clock (ssh N)) d w) = tries w"
  shows "tries (snd (node_run N nd cmd timeout sudo ig user w)) \<le> tries w + 90"
proof -
  have client: "tries (snd (unsafe_run (ssh N) cl cmd timeout sudo ig user u)) \<le> tries u + 1" for cl u
    using assms(1) by (simp add: unsafe_run_world)
  have "tries (snd (ssh_run (ssh N) cl cmd timeout sudo ig user u)) \<le> tries u + 30" for cl u
    using retry_cost [of tries "unsafe_run (ssh N) cl cmd timeout sudo ig user" 1 "clock (ssh N)" ssh_run_policy
        "jitter_delays (jitter_draw (ssh N)) 10 30 45" u] client assms(2)
    by (simp add: ssh_run_def length_jitter_delays)
  then have "tries (snd (node_unsafe_run N nd cmd timeout sudo ig user u)) \<le> tries u + 30" for u
    by (cases "node_ssh nd") (simp_all add: node_unsafe_run_def attribute_def io_defs)
  then show ?thesis
    using retry_cost [of tries "node_unsafe_run N nd cmd timeout sudo ig user" 30 "clock (ssh N)" node_policy
        "backoff 10 3" w] assms(2)
    by (simp add: node_run_def)
qed

theorem node_run_connection_bound_witness:
  "length (filter (\<lambda>l. l \<noteq> ''sleep'') (snd (node_run demo_node_env demo_node (CmdStr ''x'') 300 True False None []))) \<le> 90"
proof -
  have "\<forall>h c t w. length (filter (\<lambda>l. l \<noteq> ''sleep'') (snd (conn_run (ssh demo_node_env) h c t w)))
      \<le> Suc (length (filter (\<lambda>l. l \<noteq> ''sleep'') w))"
    by (simp add: demo_node_env_def demo_env_def)
  from node_run_connection_bound [OF this, of demo_node "CmdStr ''x''" 300 True False None "[]"] show ?thesis
    by (simp add: demo_node_env_def demo_env_def)
qed

text \<open>Everything \<open>configure\<close> does before the registration leaves the metrics server alone.\<close>

lemma node_configure_split:
  fixes N :: "'w node_env"
  shows "\<exists>m :: ('w, exn, unit) io. node_configure N nd = io_seq m (node_register_metric_target N nd ''node'' ne_port)
     \<and> (\<forall>I. remote_keeps I (ssh N) \<longrightarrow> io_keeps I m)"
proof -
  let ?m = "io_bind (attribute (node_yum nd)) (\<lambda>y.
     io_bind (io_lift (install_epel_command y)) (\<lambda>install_epel.
     io_bind (install_base_packages nd) (\<lambda>packages.
     io_bind (attribute (network (vm nd))) (\<lambda>n.
     io_seq (node_exec N nd (join [newline] [[], install_epel, packages, disable_selinux,
         disable_network_security_cmd (disable_network_security n), ''service chronyd start'',
         ''rpm -qa | grep -i epel'', []]) True False)
    (io_seq (io_when (role (vm nd) = ''driver'' \<and> os_type (vm nd) = CENTOS7)
         (install_gitv2_for_centos7 N nd))
    (io_seq (set_ssh_passwordless_access N nd (pem_dir N))
    (io_seq (configure_metrics_exporter_repo N nd) (run_metrics_exporter N nd))))))))"
  have "node_configure N nd = io_seq ?m (node_register_metric_target N nd ''node'' ne_port)"
    by (simp add: node_configure_def configure_metrics_exporter_def io_seq_def io_bind_assoc)
  moreover have "io_keeps I ?m" if "remote_keeps I (ssh N)" for I
    using that by (intro io_inv_intros node_exec_keeps node_setup_keeps)
  ultimately show ?thesis by blast
qed

text \<open>
  Configuring a node registers its node exporter last: when \<open>configure\<close> returns, the metrics
  server has gained exactly the target of this node on port 9100; when it raises at any step, no
  target was registered.
\<close>

theorem node_configure_registers:
  assumes "\<forall>m w. get_metrics N (put_metrics N m w) = m"
    and "\<forall>m. remote_keeps (\<lambda>w. get_metrics N w = m) (ssh N)"
    and "node_configure N nd w = (r, w')"
  shows "case r of
      Inr _ \<Rightarrow> \<exists>mt. node_target nd ''node'' ne_port = Inr mt
        \<and> get_metrics N w' = register_metric_target mt (get_metrics N w)
    | Inl e \<Rightarrow> get_metrics N w' = get_metrics N w"
proof -
  obtain m :: "('a, exn, unit) io" where m: "node_configure N nd = io_seq m (node_register_metric_target N nd ''node'' ne_port)"
    and k: "\<And>I. remote_keeps I (ssh N) \<Longrightarrow> io_keeps I m"
    using node_configure_split [of N nd] by blast
  obtain x v where v: "m w = (x, v)" by (cases "m w")
  have "get_metrics N v = get_metrics N w"
    using io_keepsD [OF k [OF assms(2) [rule_format]], of w "get_metrics N w"] v by simp
  then show ?thesis
    using assms(1,3) v
    by (cases x; cases "node_target nd ''node'' ne_port")
       (auto simp: m io_defs node_register_metric_target_def)
qed

definition demo_metrics_env :: "metrics_server node_env" where
  "demo_metrics_env = \<lparr>ssh = \<lparr>
       conn_run = (\<lambda>h c t w. (Inr \<lparr>exit_status = Some 0, rr_stdout = [], rr_stderr = []\<rparr>, w)),
       scp_to = (\<lambda>h l r b w. (Inr (), w)), scp_from = (\<lambda>h r l b w. (Inr (), w)), sftp_put = (\<lambda>h l r w. (Inr (), w)),
       clock = \<lparr>now = (\<lambda>w. 0), sleep = (\<lambda>d w. w)\<rparr>, jitter_draw = (\<lambda>i. i)\<rparr>,
     get_metrics = (\<lambda>w. w), put_metrics = (\<lambda>m w. m), read_file = (\<lambda>f w. (Inr [], w)),
     pem_dir = Some ''/pem'', home_dir = ''/xb'', task_order = (\<lambda>n. [0..<n])\<rparr>"

theorem node_configure_registers_witness:
  "\<exists>r w'. node_configure demo_metrics_env demo_node \<lparr>has_ssh_client = True, targets = []\<rparr> = (r, w')
     \<and> (case r of
          Inr _ \<Rightarrow> \<exists>mt. node_target demo_node ''node'' ne_port = Inr mt
            \<and> get_metrics demo_metrics_env w' = register_metric_target mt
                 (get_metrics demo_metrics_env \<lparr>has_ssh_client = True, targets = []\<rparr>)
        | Inl e \<Rightarrow> get_metrics demo_metrics_env w' =
            get_metrics demo_metrics_env \<lparr>has_ssh_client = True, targets = []\<rparr>)"
proof -
  obtain r w' where rw: "node_configure demo_metrics_env demo_node \<lparr>has_ssh_client = True, targets = []\<rparr> = (r, w')"
    by (cases "node_configure demo_metrics_env demo_node \<lparr>has_ssh_client = True, targets = []\<rparr>")
  have "\<forall>m w. get_metrics demo_metrics_env (put_metrics demo_metrics_env m w) = m"
    and "\<forall>m. remote_keeps (\<lambda>w. get_metrics demo_metrics_env w = m) (ssh demo_metrics_env)"
    by (simp_all add: demo_metrics_env_def remote_keeps_def io_keeps_def)
  from node_configure_registers [OF this rw] rw show ?thesis by blast
qed

text \<open>
  What a group of nodes raises: a command on all nodes fails with \<open>MultiNodeException\<close> only
  (interrupts apart), and so does a command on the first node of a group that is not empty.
\<close>

theorem multi_node_errors:
  "(run_on_all_nodes N percent m cmd timeout sudo args ig w = (Inl e, w') \<longrightarrow>
      e = MultiNodeException \<or> e = SigTermException \<or> \<not> isinstance_exn e PyException)
   \<and> (nodes m \<noteq> [] \<longrightarrow> run_on_one_node N m cmd timeout sudo w = (Inl e, w') \<longrightarrow>
      e = MultiNodeException \<or> e = SigTermException \<or> \<not> isinstance_exn e PyException)"
proof (intro conjI impI)
  assume "run_on_all_nodes N percent m cmd timeout sudo args ig w = (Inl e, w')"
  then show "e = MultiNodeException \<or> e = SigTermException \<or> \<not> isinstance_exn e PyException"
    using all_nodes_runner.raises [of "(N, percent, m, cmd, timeout, sudo, args, ig)" w e w'] by simp
next
  assume "nodes m \<noteq> []" and run: "run_on_one_node N m cmd timeout sudo w = (Inl e, w')"
  then obtain h ns where "nodes m = h # ns" by (cases "nodes m") auto
  with run have "io_try (node_run N h cmd timeout sudo False None) (\<lambda>e. isinstance_exn e NodeException)
      (\<lambda>e. io_raise MultiNodeException) w = (Inl e, w')"
    by (simp add: run_on_one_node_def head_node_def io_lift_def io_bind_def io_try_def)
  then show "e = MultiNodeException \<or> e = SigTermException \<or> \<not> isinstance_exn e PyException"
    using raises_class.raises [OF node_runner.translated [OF isinstance_refl, of MultiNodeException],
        of "(N, h, cmd, timeout, sudo, False, None)" w e w'] by simp
qed

definition demo_unmanaged :: multi_node where
  "demo_unmanaged = \<lparr>nodes = [demo_node\<lparr>node_ssh := None\<rparr>], pssh = []\<rparr>"

theorem multi_node_errors_witness:
  "fst (run_on_one_node demo_node_env demo_unmanaged (CmdStr ''true'') 300 False []) = Inl MultiNodeException"
proof -
  let ?r = "run_on_one_node demo_node_env demo_unmanaged (CmdStr ''true'') 300 False []"
  have "fst ?r \<noteq> Inr x \<and> fst ?r \<noteq> Inl SigTermException \<and> fst ?r \<noteq> Inl PyKeyboardInterrupt
      \<and> fst ?r \<noteq> Inl PySystemExit" for x
    by (simp add: run_on_one_node_def head_node_def demo_unmanaged_def io_defs node_run_def retry_def
        iter_islast_def backoff_def upt_rec node_unsafe_run_def attribute_def node_policy_def isinstance_eval)
  then show ?thesis
    using multi_node_errors [of demo_node_env "\<lambda>c (a :: nat). Inr c" demo_unmanaged "CmdStr ''true''" 300 False
        None False "[]" _ "snd ?r"]
    by (cases "fst ?r"; cases ?r) (auto simp: demo_unmanaged_def isinstance_Exception)
qed

end
