(* ===== verification/XB_Cluster.thy ===== *)
theory XB_Cluster
  imports XB_Node
begin

text \<open>
  \<^verbatim>\<open>compute/cluster.py\<close>: the cluster object with its tree of components, its members and its
  YAML file.

  The tree library anytree is a parameter (the record \<open>anytree\<close>); what the program relies on, that
  \<open>LevelOrderIter\<close>, \<open>LevelOrderGroupIter\<close> and \<open>findall\<close> visit the tree level by level and in
  pre-order, is the locale \<open>anytree_laws\<close>, interpreted on a breadth-first traversal written here. The
  reading of objects from dictionaries (dacite) is a parameter as well.
\<close>

section \<open>Trees\<close>

datatype tree = TNode (tname: string) (children: "tree list")

text \<open>\<open>findall\<close> gives nodes with their parents, since the program follows \<open>parent\<close>.\<close>

record anytree =
  level_iter :: "tree \<Rightarrow> tree list"
  level_groups :: "tree \<Rightarrow> tree list list"
  findall :: "tree \<Rightarrow> (string \<Rightarrow> bool) \<Rightarrow> (tree option \<times> tree) list"

section \<open>Environments and states\<close>

record environment =
  env_name :: string
  env_cloud :: string
  env_cloud_klass :: string
  env_region :: string

definition env_to_dict :: "environment \<Rightarrow> (string, string) dict" where
  "env_to_dict e = [(''name'', env_name e), (''cloud'', env_cloud e), (''cloud_klass'', env_cloud_klass e),
     (''region'', env_region e)]"

text \<open>\<open>Environment(**e)\<close>: every parameter once and no other; a missing or extra one is a \<open>TypeError\<close>.\<close>

definition env_from_kwargs :: "(string, string) dict \<Rightarrow> exn + environment" where
  "env_from_kwargs d =
     (if set (dkeys d) = {''name'', ''cloud'', ''cloud_klass'', ''region''} then
        Inr \<lparr>env_name = dget_default d ''name'' [], env_cloud = dget_default d ''cloud'' [],
             env_cloud_klass = dget_default d ''cloud_klass'' [], env_region = dget_default d ''region'' []\<rparr>
      else Inl PyTypeError)"

datatype cluster_state = Ready | Down | Failed | Allocated | Not_ready

fun state_value :: "cluster_state \<Rightarrow> string" where
  "state_value Ready = ''ready''"
| "state_value Down = ''down''"
| "state_value Failed = ''failed''"
| "state_value Allocated = ''allocated''"
| "state_value Not_ready = ''not_ready''"

text \<open>
  The cluster object. The state is a \<open>str\<close> enumeration, which compares equal to its value: it is
  its string here (\<open>load_from_config\<close> stores a plain string).
\<close>

record cluster =
  cluster_name :: string
  state :: string
  topo :: string
  envs :: "environment list"
  members :: "(string, node) dict"
  cluster_tree :: tree
  topo_map :: "(string, string) dict"
  bt :: backend_target
  incarnation :: "string option"
  shared_storage :: "virtual_storage list"

text \<open>\<open>random.choice\<close> over the lower-case letters, three times.\<close>

definition ascii_lowercase :: string where
  "ascii_lowercase = ''abcdefghijklmnopqrstuvwxyz''"

definition generate_incarnation :: "(nat \<Rightarrow> nat) \<Rightarrow> nat \<Rightarrow> string" where
  "generate_incarnation draw string_len = map (\<lambda>i. ascii_lowercase ! (draw i mod 26)) [0..<string_len]"

definition Cluster :: "(nat \<Rightarrow> nat) \<Rightarrow> string \<Rightarrow> string \<Rightarrow> cluster" where
  "Cluster draw name tp = \<lparr>cluster_name = name, state = state_value Not_ready, topo = tp, envs = [],
     members = [], cluster_tree = TNode ''cluster'' [], topo_map = [],
     bt = BackendTarget [] [] [] [] 0, incarnation = Some (generate_incarnation draw 3), shared_storage = []\<rparr>"

definition add_member :: "string \<Rightarrow> node \<Rightarrow> cluster \<Rightarrow> cluster" where
  "add_member instance_name n c = c\<lparr>members := dset (members c) instance_name n\<rparr>"

section \<open>The cluster file\<close>

text \<open>\<open>dataclasses.asdict\<close> of a virtual machine.\<close>

definition opt_str :: "string option \<Rightarrow> pyval" where
  "opt_str x = (case x of None \<Rightarrow> VNone | Some s \<Rightarrow> VStr s)"

definition storage_asdict :: "virtual_storage \<Rightarrow> pyval" where
  "storage_asdict s = VDict [(''size'', VInt (vs_size s)), (''iops'', VInt (iops s)), (''type'', opt_str (vs_type s)),
     (''device'', VStr (device s)), (''zone'', VStr (vs_zone s)), (''name'', VStr (vs_name s)),
     (''id'', VStr (vs_id s)), (''num_ephemeral'', VInt (num_ephemeral s))]"

definition network_asdict :: "virtual_network \<Rightarrow> pyval" where
  "network_asdict n = VDict [(''cloud_type'', VStr (cloud_type n)), (''private_ip'', VStr (private_ip n)),
     (''public_ip'', VStr (public_ip n)), (''disable_network_security'', VBool (disable_network_security n))]"

definition vm_asdict :: "virtual_machine \<Rightarrow> pydict" where
  "vm_asdict v = [(''env'', VStr (env v)), (''cloud'', VStr (cloud v)), (''cluster_name'', VStr (vm_cluster_name v)),
     (''name'', VStr (vm_name v)), (''role'', VStr (role v)), (''klass'', VStr (klass v)),
     (''klass_config_label'', VStr (klass_config_label v)), (''instance_type'', VStr (instance_type v)),
     (''zone'', VStr (zone v)), (''os_type'', VStr (os_type v)), (''managed'', VBool (managed v)),
     (''provisioned'', VBool (provisioned v)), (''arch'', VStr (arch v)), (''key_file'', VStr (key_file v)),
     (''pub_file'', VStr (pub_file v)),
     (''storage'', case storage v of None \<Rightarrow> VNone | Some s \<Rightarrow> storage_asdict s),
     (''storage_list'', VList (map storage_asdict (storage_list v))),
     (''network'', case network v of None \<Rightarrow> VNone | Some n \<Rightarrow> network_asdict n),
     (''placement_group'', opt_str (placement_group v)), (''id'', opt_str (vm_id v)),
     (''ssh_user'', VStr (ssh_user v))]"

text \<open>
  The document that \<open>as_dict\<close> builds and the YAML file holds: one field per key. The file has no
  key \<open>incarnation\<close>, and \<open>get\<close> of it gives \<open>None\<close>. The exported tree is the nested dictionary
  of names and children, which is the tree.
\<close>

record cluster_doc =
  doc_cluster_name :: string
  doc_state :: string
  doc_topo_name :: string
  doc_topo_map :: "(string, string) dict"
  doc_envs :: "(string, string) dict list"
  doc_cluster_tree :: tree
  doc_bt :: pydict
  doc_shared_storage :: "virtual_storage list"
  doc_incarnation :: "string option"
  doc_members :: "(string, pydict) dict"

definition as_dict :: "(pyval \<Rightarrow> string) \<Rightarrow> cluster \<Rightarrow> cluster_doc" where
  "as_dict py_str c = \<lparr>doc_cluster_name = cluster_name c, doc_state = state c, doc_topo_name = topo c,
     doc_topo_map = topo_map c, doc_envs = map env_to_dict (envs c), doc_cluster_tree = cluster_tree c,
     doc_bt = bt_as_dict py_str (bt c), doc_shared_storage = shared_storage c, doc_incarnation = None,
     doc_members = map (\<lambda>(name, member). (name, vm_asdict (vm member))) (members c)\<rparr>"

text \<open>The parameters: \<open>str\<close> of a value, and dacite's \<open>from_dict\<close> for the two data classes.\<close>

record cluster_libs =
  py_str :: "pyval \<Rightarrow> string"
  vm_from_dict :: "pydict \<Rightarrow> exn + virtual_machine"
  bt_from_dict :: "pydict \<Rightarrow> exn + backend_target"

fun load_envs :: "(string, string) dict list \<Rightarrow> exn + environment list" where
  "load_envs [] = Inr []"
| "load_envs (e # es) =
     (case env_from_kwargs e of
        Inl x \<Rightarrow> Inl x
      | Inr v \<Rightarrow> (case load_envs es of Inl x \<Rightarrow> Inl x | Inr vs \<Rightarrow> Inr (v # vs)))"

definition node_from_dict :: "cluster_libs \<Rightarrow> pydict \<Rightarrow> exn + node" where
  "node_from_dict L params =
     (case vm_from_dict L params of Inl x \<Rightarrow> Inl x | Inr v \<Rightarrow> Node v)"

fun load_members :: "cluster_libs \<Rightarrow> (string, pydict) dict \<Rightarrow> cluster \<Rightarrow> exn + cluster" where
  "load_members L [] c = Inr c"
| "load_members L ((n, m) # ms) c =
     (case node_from_dict L m of Inl x \<Rightarrow> Inl x | Inr nd \<Rightarrow> load_members L ms (add_member n nd c))"

text \<open>A missing file is a \<open>ClusterException\<close>.\<close>

definition load_from_config :: "cluster_libs \<Rightarrow> cluster_doc option \<Rightarrow> cluster \<Rightarrow> exn + cluster" where
  "load_from_config L f c =
     (case f of
        None \<Rightarrow> Inl ClusterException
      | Some d \<Rightarrow>
          (case load_envs (doc_envs d) of
             Inl x \<Rightarrow> Inl x
           | Inr es \<Rightarrow>
               (case bt_from_dict L (doc_bt d) of
                  Inl x \<Rightarrow> Inl x
                | Inr b \<Rightarrow>
                    map_sum id (\<lambda>c. c\<lparr>cluster_tree := doc_cluster_tree d\<rparr>)
                      (load_members L (doc_members d)
                        (c\<lparr>cluster_name := doc_cluster_name d, state := doc_state d, topo := doc_topo_name d,
                           topo_map := doc_topo_map d, envs := es, incarnation := doc_incarnation d,
                           bt := b, shared_storage := doc_shared_storage d\<rparr>)))))"

section \<open>Building the tree\<close>

text \<open>A topology as the YAML file gives it: nested dictionaries, with lists of names at the end.\<close>

datatype topology = TopoDict "(string \<times> topology) list" | TopoList "string list" | TopoOther

fun add_children :: "topology \<Rightarrow> tree list" where
  "add_children (TopoDict d) = map (\<lambda>(k, v). TNode k (add_children v)) d"
| "add_children (TopoList cs) = map (\<lambda>c. TNode c []) cs"
| "add_children TopoOther = []"

definition build_tree_from_dict :: "topology \<Rightarrow> cluster \<Rightarrow> cluster" where
  "build_tree_from_dict d c =
     c\<lparr>cluster_tree := TNode (tname (cluster_tree c)) (children (cluster_tree c) @ add_children d)\<rparr>"

section \<open>Members of the tree\<close>

definition level_order_cluster_members :: "anytree \<Rightarrow> cluster \<Rightarrow> tree list" where
  "level_order_cluster_members A c = filter (\<lambda>n. tname n \<noteq> ''cluster'') (level_iter A (cluster_tree c))"

fun unique_loop :: "string list \<Rightarrow> tree list \<Rightarrow> tree list" where
  "unique_loop used [] = []"
| "unique_loop used (x # xs) =
     (if tname x \<notin> set used then x # unique_loop (tname x # used) xs else unique_loop used xs)"

definition unique_nodes :: "tree list \<Rightarrow> tree list" where
  "unique_nodes ns = unique_loop [] ns"

definition level_order_group_cluster_members :: "anytree \<Rightarrow> cluster \<Rightarrow> tree list list" where
  "level_order_group_cluster_members A c = tl (map unique_nodes (level_groups A (cluster_tree c)))"

text \<open>The members are looked up with \<open>get\<close>: \<open>None\<close> for a name without a node.\<close>

definition get_all_driver_nodes :: "anytree \<Rightarrow> cluster \<Rightarrow> exn + node option list" where
  "get_all_driver_nodes A c =
     (case level_order_group_cluster_members A c of
        [] \<Rightarrow> Inl PyIndexError
      | drivers # _ \<Rightarrow>
          Inr (concat (map (\<lambda>driver. map (dget (members c)) (split_on (CHR '','') (tname driver))) drivers)))"

definition get_backend_nodes :: "anytree \<Rightarrow> cluster \<Rightarrow> exn + node option list" where
  "get_backend_nodes A c =
     (case level_order_group_cluster_members A c of
        [] \<Rightarrow> Inl PyIndexError
      | g # gs \<Rightarrow>
          (case last (g # gs) of
             [] \<Rightarrow> Inl PyIndexError
           | backends # _ \<Rightarrow> Inr (map (dget (members c)) (split_on (CHR '','') (tname backends)))))"

definition remove_numbers :: "string \<Rightarrow> string" where
  "remove_numbers s = filter (\<lambda>i. \<not> is_digit i \<and> i \<noteq> CHR ''_'') s"

definition group_name :: "string \<Rightarrow> string" where
  "group_name s = hd (split_on (CHR ''_'') s)"

definition find_node_by_name :: "anytree \<Rightarrow> string \<Rightarrow> cluster \<Rightarrow> exn + tree option \<times> tree" where
  "find_node_by_name A node_name c =
     (case findall A (cluster_tree c) (\<lambda>n. n = node_name) of [] \<Rightarrow> Inl ClusterException | n # _ \<Rightarrow> Inr n)"

text \<open>
  The groups: the class (a parameter gives it and its \<open>clustered\<close> attribute), one node or a list
  of nodes, the name of the tree node and the environment.
\<close>

record component_klass =
  klass_name :: string
  clustered :: bool

datatype group_nodes = One node | Many "node list"

record node_group =
  g_klass :: component_klass
  g_nodes :: group_nodes
  g_name :: string
  g_env :: string

type_synonym importer = "string \<Rightarrow> string \<Rightarrow> exn + component_klass"

text \<open>
  One member of a group. \<open>members.get(m)\<close> of an unknown name is \<open>None\<close>, whose attribute \<open>vm\<close>
  raises; so does \<open>append\<close> on the single node that a component of the same label left.
\<close>

definition group_one :: "importer \<Rightarrow> cluster \<Rightarrow> string \<Rightarrow> string \<Rightarrow> (string, node_group) dict \<Rightarrow>
    exn + (string, node_group) dict" where
  "group_one imp c g m acc =
     (case dget (members c) m of
        None \<Rightarrow> Inl PyAttributeError
      | Some n \<Rightarrow>
          (case get_class_from_klass imp (klass (vm n)) of
             Inl x \<Rightarrow> Inl x
           | Inr k \<Rightarrow>
               (if clustered k then
                  (case dget acc (role (vm n)) of
                     None \<Rightarrow> Inr (dset acc (role (vm n))
                       \<lparr>g_klass = k, g_nodes = Many [n], g_name = g, g_env = env (vm n)\<rparr>)
                   | Some grp \<Rightarrow>
                       (case g_nodes grp of
                          One _ \<Rightarrow> Inl PyAttributeError
                        | Many ns \<Rightarrow> Inr (dset acc (role (vm n)) (grp\<lparr>g_nodes := Many (ns @ [n])\<rparr>))))
                else Inr (dset acc m \<lparr>g_klass = k, g_nodes = One n, g_name = g, g_env = env (vm n)\<rparr>))))"

fun group_all :: "importer \<Rightarrow> cluster \<Rightarrow> (string \<times> string) list \<Rightarrow> (string, node_group) dict \<Rightarrow>
    exn + (string, node_group) dict" where
  "group_all imp c [] acc = Inr acc"
| "group_all imp c ((g, m) # rest) acc =
     (case group_one imp c g m acc of Inl x \<Rightarrow> Inl x | Inr acc' \<Rightarrow> group_all imp c rest acc')"

text \<open>The three nested loops, as the list of their iterations: (name of the tree node, member).\<close>

definition group_iterations :: "anytree \<Rightarrow> cluster \<Rightarrow> (string \<times> string) list" where
  "group_iterations A c =
     concat (map (\<lambda>grp. concat (map (\<lambda>g. map (\<lambda>m. (tname g, m)) (split_on (CHR '','') (tname g))) grp))
       (level_order_group_cluster_members A c))"

definition group_nodes_by_name :: "anytree \<Rightarrow> importer \<Rightarrow> cluster \<Rightarrow> exn + (string, node_group) dict" where
  "group_nodes_by_name A imp c = group_all imp c (group_iterations A c) []"

text \<open>The older grouping over the members, with the label made from the member's name.\<close>

definition role_one :: "importer \<Rightarrow> (string \<times> node) \<Rightarrow> (string, component_klass \<times> group_nodes) dict \<Rightarrow>
    exn + (string, component_klass \<times> group_nodes) dict" where
  "role_one imp x acc =
     (case x of (i, n) \<Rightarrow>
        (case get_class_from_klass imp (klass (vm n)) of
           Inl e \<Rightarrow> Inl e
         | Inr k \<Rightarrow>
             (if clustered k then
                (case dget acc (remove_numbers i) of
                   None \<Rightarrow> Inr (dset acc (remove_numbers i) (k, Many [n]))
                 | Some (k', One _) \<Rightarrow> Inl PyAttributeError
                 | Some (k', Many ns) \<Rightarrow> Inr (dset acc (remove_numbers i) (k', Many (ns @ [n]))))
              else Inr (dset acc i (k, One n)))))"

fun role_all :: "importer \<Rightarrow> (string \<times> node) list \<Rightarrow> (string, component_klass \<times> group_nodes) dict \<Rightarrow>
    exn + (string, component_klass \<times> group_nodes) dict" where
  "role_all imp [] acc = Inr acc"
| "role_all imp (x # xs) acc = (case role_one imp x acc of Inl e \<Rightarrow> Inl e | Inr acc' \<Rightarrow> role_all imp xs acc')"

definition group_by_nodes_by_role :: "importer \<Rightarrow> cluster \<Rightarrow> exn + (string, component_klass \<times> group_nodes) dict" where
  "group_by_nodes_by_role imp c = role_all imp (members c) []"

definition get_member_nodes_klasses :: "importer \<Rightarrow> cluster \<Rightarrow> exn + (component_klass \<times> group_nodes) list" where
  "get_member_nodes_klasses imp c = map_sum id (map snd) (group_by_nodes_by_role imp c)"

section \<open>The laws of the tree library\<close>

fun at_depth :: "nat \<Rightarrow> tree \<Rightarrow> tree list" where
  "at_depth 0 t = [t]"
| "at_depth (Suc k) (TNode n cs) = concat (map (at_depth k) cs)"

fun height :: "tree \<Rightarrow> nat" where
  "height (TNode n cs) = Suc (foldr max (map height cs) 0)"

definition levels :: "tree \<Rightarrow> tree list list" where
  "levels t = map (\<lambda>k. at_depth k t) [0..<height t]"

fun preorder :: "tree option \<Rightarrow> tree \<Rightarrow> (tree option \<times> tree) list" where
  "preorder p (TNode n cs) = (p, TNode n cs) # concat (map (preorder (Some (TNode n cs))) cs)"

text \<open>Each element once, in the order of the first occurrences.\<close>

fun nub :: "'a list \<Rightarrow> 'a list" where
  "nub [] = []"
| "nub (x # xs) = x # filter (\<lambda>y. y \<noteq> x) (nub xs)"

lemma set_nub [simp]: "set (nub xs) = set xs"
  by (induction xs) auto

lemma distinct_nub [simp]: "distinct (nub xs)"
  by (induction xs) auto

lemma nub_Nil_iff [simp]: "nub xs = [] \<longleftrightarrow> xs = []"
  by (cases xs) auto

lemma unique_loop_names:
  "map tname (unique_loop used ts) = filter (\<lambda>n. n \<notin> set used) (nub (map tname ts))"
  by (induction ts arbitrary: used) (auto simp: filter_filter intro!: filter_cong)

lemma unique_nodes_names: "map tname (unique_nodes ts) = nub (map tname ts)"
  by (simp add: unique_nodes_def unique_loop_names)

lemma unique_nodes_Nil [simp]: "unique_nodes [] = []"
  by (simp add: unique_nodes_def)

lemma filter_eq_Cons_head: "filter P xs = y # ys \<Longrightarrow> P y \<and> y \<in> set xs"
  by (drule arg_cong [where f = set]) auto

lemma concat_depth_0: "concat (map (at_depth 0) ts) = ts"
  by (induction ts) auto

locale anytree_laws =
  fixes A :: anytree
  assumes groups: "level_groups A t = levels t"
    and iter: "level_iter A t = concat (levels t)"
    and find: "findall A t p = filter (\<lambda>(_, n). p (tname n)) (preorder None t)"
begin

lemma levels_split: "levels (TNode n cs) = [TNode n cs] # tl (levels (TNode n cs))"
  by (simp add: levels_def upt_conv_Cons del: upt_Suc)

lemma first_level:
  assumes "cs \<noteq> []"
  shows "\<exists>r. tl (levels (TNode n cs)) = cs # r"
proof -
  obtain c cs' where "cs = c # cs'" using assms by (cases cs) auto
  moreover obtain m ds where "c = TNode m ds" by (cases c)
  ultimately have "0 < foldr max (map height cs) 0" by simp
  then show ?thesis
    by (simp add: levels_def upt_conv_Cons concat_depth_0 del: upt_Suc)
qed

lemma no_level: "tl (levels (TNode n [])) = []"
  by (simp add: levels_def upt_conv_Cons del: upt_Suc)

lemma group_members:
  "level_order_group_cluster_members A c = map unique_nodes (tl (levels (cluster_tree c)))"
  by (simp add: level_order_group_cluster_members_def groups map_tl)

lemma driver_nodes:
  "get_all_driver_nodes A c =
     (if children (cluster_tree c) = [] then Inl PyIndexError
      else Inr (map (dget (members c))
        (concat (map (split_on (CHR '','')) (nub (map tname (children (cluster_tree c))))))))"
proof (cases "cluster_tree c")
  case (TNode n cs)
  show ?thesis
  proof (cases "cs = []")
    case True
    then show ?thesis by (simp add: get_all_driver_nodes_def group_members TNode no_level)
  next
    case False
    then obtain r where "tl (levels (TNode n cs)) = cs # r" using first_level by blast
    with False show ?thesis
      by (simp add: get_all_driver_nodes_def group_members TNode map_concat o_def
          flip: unique_nodes_names)
  qed
qed

lemma find_node:
  "find_node_by_name A nm c = Inr (p, n) \<Longrightarrow> tname n = nm \<and> (p, n) \<in> set (preorder None (cluster_tree c))"
  "find_node_by_name A nm c = Inl e \<Longrightarrow>
     e = ClusterException \<and> nm \<notin> tname ` snd ` set (preorder None (cluster_tree c))"
proof -
  show "find_node_by_name A nm c = Inr (p, n) \<Longrightarrow> tname n = nm \<and> (p, n) \<in> set (preorder None (cluster_tree c))"
    by (auto simp: find_node_by_name_def find split: list.splits dest: filter_eq_Cons_head)
  show "find_node_by_name A nm c = Inl e \<Longrightarrow>
     e = ClusterException \<and> nm \<notin> tname ` snd ` set (preorder None (cluster_tree c))"
    by (force simp: find_node_by_name_def find filter_empty_conv split: list.splits)
qed

end

text \<open>The traversals by a queue: a level is the list of the children of the level above.\<close>

definition forest_height :: "tree list \<Rightarrow> nat" where
  "forest_height ts = foldr max (map height ts) 0"

lemma forest_height_simps [simp]:
  "forest_height [] = 0"
  "forest_height (t # ts) = max (height t) (forest_height ts)"
  "forest_height (ts @ us) = max (forest_height ts) (forest_height us)"
  by (induction ts) (auto simp: forest_height_def)

lemma height_children: "height t = Suc (forest_height (children t))"
  by (cases t) (simp add: forest_height_def)

lemma forest_height_children:
  "ts \<noteq> [] \<Longrightarrow> Suc (forest_height (concat (map children ts))) = forest_height ts"
proof (induction ts)
  case (Cons t ts)
  then show ?case by (cases "ts = []") (simp_all add: height_children)
qed simp

function bfs :: "tree list \<Rightarrow> tree list list" where
  "bfs ts = (if ts = [] then [] else ts # bfs (concat (map children ts)))"
  by auto
termination
  by (relation "measure forest_height") (auto simp: forest_height_children [symmetric] simp del: forest_height_simps)

declare bfs.simps [simp del]

lemma at_depth_children: "at_depth (Suc k) t = concat (map (at_depth k) (children t))"
  by (cases t) simp

lemma bfs_levels: "bfs ts = map (\<lambda>k. concat (map (at_depth k) ts)) [0..<forest_height ts]"
proof (induction ts rule: bfs.induct)
  case (1 ts)
  show ?case
  proof (cases "ts = []")
    case False
    have "concat (map (at_depth k) (concat (map children ts))) = concat (map (at_depth (Suc k)) ts)" for k
      by (induction ts) (simp_all add: at_depth_children)
    with 1 [OF False] False show ?thesis
      by (subst bfs.simps)
         (simp add: forest_height_children [OF False, symmetric] upt_conv_Cons concat_depth_0
            map_Suc_upt [symmetric] o_def del: upt_Suc)
  qed (simp add: bfs.simps)
qed

definition queue_tree :: anytree where
  "queue_tree = \<lparr>level_iter = (\<lambda>t. concat (bfs [t])), level_groups = (\<lambda>t. bfs [t]),
     findall = (\<lambda>t p. filter (\<lambda>(_, n). p (tname n)) (preorder None t))\<rparr>"

interpretation queue_tree: anytree_laws queue_tree
  by unfold_locales (simp_all add: queue_tree_def bfs_levels levels_def)

section \<open>Lemmas on the groups\<close>

definition member_klass :: "importer \<Rightarrow> cluster \<Rightarrow> string \<Rightarrow> (node \<times> component_klass) option" where
  "member_klass imp c m =
     (case dget (members c) m of
        None \<Rightarrow> None
      | Some n \<Rightarrow> (case get_class_from_klass imp (klass (vm n)) of Inl _ \<Rightarrow> None | Inr k \<Rightarrow> Some (n, k)))"

definition role_node :: "importer \<Rightarrow> cluster \<Rightarrow> string \<Rightarrow> string \<Rightarrow> node list" where
  "role_node imp c r m =
     (case member_klass imp c m of
        None \<Rightarrow> []
      | Some (n, k) \<Rightarrow> if clustered k \<and> role (vm n) = r then [n] else [])"

text \<open>The nodes of clustered components with a role, in the order the tree gives their names.\<close>

definition role_nodes :: "importer \<Rightarrow> cluster \<Rightarrow> string \<Rightarrow> (string \<times> string) list \<Rightarrow> node list" where
  "role_nodes imp c r its = concat (map (\<lambda>(_, m). role_node imp c r m) its)"

definition single_node :: "importer \<Rightarrow> cluster \<Rightarrow> string \<Rightarrow> (string \<times> string) list \<Rightarrow> node option" where
  "single_node imp c l its =
     (case member_klass imp c l of
        None \<Rightarrow> None
      | Some (n, k) \<Rightarrow> if \<not> clustered k \<and> l \<in> snd ` set its then Some n else None)"

text \<open>What the group with a label holds.\<close>

definition expected_nodes :: "importer \<Rightarrow> cluster \<Rightarrow> (string \<times> string) list \<Rightarrow> string \<Rightarrow> group_nodes option" where
  "expected_nodes imp c its l =
     (if role_nodes imp c l its \<noteq> [] then Some (Many (role_nodes imp c l its))
      else map_option One (single_node imp c l its))"

text \<open>Every name of the tree is a member with a class, and no single member is named like a role.\<close>

definition groups_well_named :: "importer \<Rightarrow> cluster \<Rightarrow> (string \<times> string) list \<Rightarrow> bool" where
  "groups_well_named imp c its \<longleftrightarrow>
     (\<forall>(g, m) \<in> set its. member_klass imp c m \<noteq> None)
     \<and> (\<forall>(g, m) \<in> set its. single_node imp c m its = None \<or> role_nodes imp c m its = [])"

lemma group_all_append:
  "group_all imp c (xs @ ys) acc =
     (case group_all imp c xs acc of Inl x \<Rightarrow> Inl x | Inr acc' \<Rightarrow> group_all imp c ys acc')"
  by (induction imp c xs acc rule: group_all.induct) (auto split: sum.splits)

lemma role_nodes_snoc:
  "role_nodes imp c r (its @ [(g, m)]) = role_nodes imp c r its @ role_node imp c r m"
  by (simp add: role_nodes_def)

lemma groups_well_named_butlast: "groups_well_named imp c (its @ [x]) \<Longrightarrow> groups_well_named imp c its"
proof -
  assume wn: "groups_well_named imp c (its @ [x])"
  obtain g m where x: "x = (g, m)" by (cases x)
  have "single_node imp c l its = None \<or> role_nodes imp c l its = []" if "(g', l) \<in> set its" for g' l
  proof -
    have "single_node imp c l (its @ [x]) = None \<or> role_nodes imp c l (its @ [x]) = []"
      using wn that by (auto simp: groups_well_named_def)
    then show ?thesis
      unfolding x role_nodes_snoc using image_eqI [of l snd "(g', l)" "set its"] that
      by (auto simp: single_node_def split: option.splits if_splits)
  qed
  with wn show ?thesis by (auto simp: groups_well_named_def)
qed

lemma expected_nodes_snoc:
  assumes "groups_well_named imp c (its @ [(g, m)])" and "member_klass imp c m = Some (n, k)"
  shows "expected_nodes imp c (its @ [(g, m)]) =
    (if clustered k
     then (expected_nodes imp c its)(role (vm n) \<mapsto> Many (role_nodes imp c (role (vm n)) its @ [n]))
     else (expected_nodes imp c its)(m \<mapsto> One n))"
proof (rule ext)
  fix l
  have *: "role_nodes imp c m (its @ [(g, m)]) = []" if "\<not> clustered k"
    using assms that by (auto simp: groups_well_named_def single_node_def)
  show "expected_nodes imp c (its @ [(g, m)]) l = (if clustered k
     then (expected_nodes imp c its)(role (vm n) \<mapsto> Many (role_nodes imp c (role (vm n)) its @ [n]))
     else (expected_nodes imp c its)(m \<mapsto> One n)) l"
  proof (cases "clustered k")
    case True
    then show ?thesis
      using assms(2)
      by (auto simp: expected_nodes_def role_nodes_snoc role_node_def single_node_def split: option.splits)
  next
    case False
    then show ?thesis
      using assms(2) * by (auto simp: expected_nodes_def role_nodes_snoc role_node_def single_node_def split: option.splits)
  qed
qed

lemma group_one_expected:
  assumes "groups_well_named imp c (its @ [(g, m)])"
    and "\<And>l. map_option g_nodes (dget acc l) = expected_nodes imp c its l"
  shows "\<exists>acc'. group_one imp c g m acc = Inr acc' \<and> (dict_ok acc \<longrightarrow> dict_ok acc')
    \<and> (\<forall>l. map_option g_nodes (dget acc' l) = expected_nodes imp c (its @ [(g, m)]) l)"
proof -
  obtain n k where nk: "member_klass imp c m = Some (n, k)"
    using assms(1) by (auto simp: groups_well_named_def)
  then have n: "dget (members c) m = Some n" and k: "get_class_from_klass imp (klass (vm n)) = Inr k"
    by (auto simp: member_klass_def split: option.splits sum.splits)
  note e = expected_nodes_snoc [OF assms(1) nk]
  show ?thesis
  proof (cases "clustered k")
    case False
    then show ?thesis using assms(2) by (simp add: group_one_def n k e)
  next
    case True
    let ?r = "role (vm n)"
    have rn: "role_nodes imp c ?r (its @ [(g, m)]) \<noteq> []"
      using nk True by (simp add: role_nodes_snoc role_node_def)
    show ?thesis
    proof (cases "dget acc ?r")
      case None
      with assms(2) [of ?r] have "role_nodes imp c ?r its = []"
        by (auto simp: expected_nodes_def split: if_splits)
      with True None assms(2) show ?thesis by (auto simp: group_one_def n k e)
    next
      case (Some grp)
      with assms(2) [of ?r] have ex: "expected_nodes imp c its ?r = Some (g_nodes grp)" by simp
      have "single_node imp c ?r its = None"
      proof (rule ccontr)
        assume "single_node imp c ?r its \<noteq> None"
        then have "?r \<in> snd ` set its" and "single_node imp c ?r (its @ [(g, m)]) \<noteq> None"
          by (auto simp: single_node_def split: option.splits if_splits)
        with assms(1) rn show False by (force simp: groups_well_named_def)
      qed
      with ex have "g_nodes grp = Many (role_nodes imp c ?r its)"
        by (auto simp: expected_nodes_def split: if_splits)
      with True Some assms(2) show ?thesis by (auto simp: group_one_def n k e)
    qed
  qed
qed

lemma group_all_expected:
  "groups_well_named imp c its \<Longrightarrow>
     \<exists>res. group_all imp c its [] = Inr res \<and> dict_ok res
       \<and> (\<forall>l. map_option g_nodes (dget res l) = expected_nodes imp c its l)"
proof (induction its rule: rev_induct)
  case Nil
  show ?case by (simp add: expected_nodes_def role_nodes_def single_node_def split: option.split)
next
  case (snoc x its)
  obtain g m where x: "x = (g, m)" by (cases x)
  from snoc.IH [OF groups_well_named_butlast [OF snoc.prems]] obtain acc where
    acc: "group_all imp c its [] = Inr acc" "dict_ok acc"
    "\<And>l. map_option g_nodes (dget acc l) = expected_nodes imp c its l" by blast
  from group_one_expected [OF snoc.prems [unfolded x] acc(3)] acc(2) show ?case
    by (auto simp: group_all_append acc(1) x)
qed

section \<open>Lemmas on the cluster file\<close>

lemma load_envs_to_dict: "load_envs (map env_to_dict es) = Inr es"
proof (induction es)
  case (Cons e es)
  have "env_from_kwargs (env_to_dict e) = Inr e"
    by (simp add: env_from_kwargs_def env_to_dict_def dkeys_def dget_default_def)
  with Cons show ?case by simp
qed simp

lemma load_members_append:
  assumes "\<forall>(n, nd) \<in> set ms. vm_from_dict L (vm_asdict (vm nd)) = Inr (vm nd) \<and> Node (vm nd) = Inr nd"
    and "dict_ok (members c @ ms)"
  shows "load_members L (map (\<lambda>(n, nd). (n, vm_asdict (vm nd))) ms) c = Inr (c\<lparr>members := members c @ ms\<rparr>)"
  using assms
proof (induction ms arbitrary: c)
  case (Cons x ms)
  obtain n nd where x: "x = (n, nd)" by (cases x)
  from Cons.prems(2) have n: "n \<notin> fst ` set (members c)" by (auto simp: dict_ok_def x)
  then have "load_members L (map (\<lambda>(n, nd). (n, vm_asdict (vm nd))) ms) (add_member n nd c) =
      Inr ((add_member n nd c)\<lparr>members := members (add_member n nd c) @ ms\<rparr>)"
    using Cons.prems by (intro Cons.IH) (auto simp: add_member_def dset_new dict_ok_def x)
  with Cons.prems(1) n show ?case
    by (simp add: x node_from_dict_def add_member_def dset_new)
qed simp

section \<open>Properties\<close>

text \<open>
  C9. \<open>group_nodes_by_name\<close> puts every component of the tree into its group: when every name of the
  tree is a member with a class, and no single component is named like a role, the label of a role
  holds exactly the nodes of clustered components with that role, in the level order of the tree;
  the name of any other component holds its node; and there are no further groups.
\<close>

theorem group_nodes_by_name_spec:
  assumes "groups_well_named imp c (group_iterations A c)"
  shows "\<exists>res. group_nodes_by_name A imp c = Inr res \<and> dict_ok res
    \<and> (\<forall>l. map_option g_nodes (dget res l) = expected_nodes imp c (group_iterations A c) l)"
  unfolding group_nodes_by_name_def by (rule group_all_expected [OF assms])

definition demo_member :: "string \<Rightarrow> string \<Rightarrow> string \<Rightarrow> node" where
  "demo_member nm rl kl = demo_node\<lparr>vm := demo_vm\<lparr>vm_name := nm, role := rl, klass := kl\<rparr>\<rparr>"

definition demo_cluster :: cluster where
  "demo_cluster = (Cluster (\<lambda>i. i) ''perf'' ''itest'')\<lparr>
     cluster_tree := TNode ''cluster'' [TNode ''driver-0'' [TNode ''backend-0,backend-1'' []]],
     members := [(''driver-0'', demo_member ''driver-0'' ''driver'' ''driver.Sysbench''),
       (''backend-0'', demo_member ''backend-0'' ''backend'' ''backend.Xpand''),
       (''backend-1'', demo_member ''backend-1'' ''backend'' ''backend.Xpand'')]\<rparr>"

definition demo_importer :: importer where
  "demo_importer m k = Inr \<lparr>klass_name = k, clustered = (m = ''backend'')\<rparr>"

lemma demo_iterations:
  "group_iterations queue_tree demo_cluster =
     [(''driver-0'', ''driver-0''), (''backend-0,backend-1'', ''backend-0''), (''backend-0,backend-1'', ''backend-1'')]"
  by (simp add: group_iterations_def level_order_group_cluster_members_def queue_tree_def demo_cluster_def
      bfs.simps unique_nodes_def)

lemma demo_member_klass:
  "member_klass demo_importer demo_cluster ''driver-0'' =
     Some (demo_member ''driver-0'' ''driver'' ''driver.Sysbench'', \<lparr>klass_name = ''Sysbench'', clustered = False\<rparr>)"
  "member_klass demo_importer demo_cluster ''backend-0'' =
     Some (demo_member ''backend-0'' ''backend'' ''backend.Xpand'', \<lparr>klass_name = ''Xpand'', clustered = True\<rparr>)"
  "member_klass demo_importer demo_cluster ''backend-1'' =
     Some (demo_member ''backend-1'' ''backend'' ''backend.Xpand'', \<lparr>klass_name = ''Xpand'', clustered = True\<rparr>)"
  by (simp_all add: member_klass_def demo_cluster_def demo_member_def get_class_from_klass_def rsplit1_def
      demo_importer_def)

theorem group_nodes_by_name_spec_witness:
  "\<exists>res. group_nodes_by_name queue_tree demo_importer demo_cluster = Inr res
    \<and> map_option g_nodes (dget res ''backend'') =
        Some (Many [demo_member ''backend-0'' ''backend'' ''backend.Xpand'', demo_member ''backend-1'' ''backend'' ''backend.Xpand''])"
proof -
  have "role (vm (demo_member n r k)) = r" for n r k by (simp add: demo_member_def)
  note s = this demo_member_klass role_nodes_def role_node_def single_node_def
  have "groups_well_named demo_importer demo_cluster (group_iterations queue_tree demo_cluster)"
    by (simp add: groups_well_named_def demo_iterations s)
  from group_nodes_by_name_spec [OF this] obtain res where
    res: "group_nodes_by_name queue_tree demo_importer demo_cluster = Inr res"
    and l: "\<And>l. map_option g_nodes (dget res l) =
      expected_nodes demo_importer demo_cluster (group_iterations queue_tree demo_cluster) l" by blast
  have "expected_nodes demo_importer demo_cluster (group_iterations queue_tree demo_cluster) ''backend'' =
      Some (Many [demo_member ''backend-0'' ''backend'' ''backend.Xpand'', demo_member ''backend-1'' ''backend'' ''backend.Xpand''])"
    by (simp add: expected_nodes_def demo_iterations s)
  with res l [of "''backend''"] show ?thesis by (intro exI [of _ res]) simp
qed

text \<open>
  The drivers are the members named in the first level of the tree: \<open>get_all_driver_nodes\<close>
  looks up every name of the comma-separated lists of that level, each list once, in order; without
  any level it raises \<open>IndexError\<close>.
\<close>

theorem get_all_driver_nodes_spec:
  assumes "anytree_laws A"
  shows "get_all_driver_nodes A c =
    (if children (cluster_tree c) = [] then Inl PyIndexError
     else Inr (map (dget (members c))
       (concat (map (split_on (CHR '','')) (nub (map tname (children (cluster_tree c))))))))"
  by (rule anytree_laws.driver_nodes [OF assms])

theorem get_all_driver_nodes_spec_witness:
  "get_all_driver_nodes queue_tree demo_cluster = Inr [Some (demo_member ''driver-0'' ''driver'' ''driver.Sysbench'')]"
  using get_all_driver_nodes_spec [OF queue_tree.anytree_laws_axioms, of demo_cluster]
  by (simp add: demo_cluster_def)

text \<open>
  C8. A cluster survives its file: loading what \<open>as_dict\<close> saved into a fresh cluster gives the same
  cluster, its members in the same order, except that the incarnation is lost and the backend target
  is what dacite reads from its printed attributes. Asked of dacite: that it rebuilds each machine
  from its dictionary.
\<close>

theorem cluster_save_load:
  assumes "dict_ok (members c)"
    and "\<forall>(n, nd) \<in> set (members c). vm_from_dict L (vm_asdict (vm nd)) = Inr (vm nd) \<and> Node (vm nd) = Inr nd"
    and "bt_from_dict L (bt_as_dict (py_str L) (bt c)) = Inr b"
  shows "load_from_config L (Some (as_dict (py_str L) c)) (Cluster draw nm tp) = Inr (c\<lparr>incarnation := None, bt := b\<rparr>)"
  using load_members_append [of "members c" L] assms
  by (simp add: load_from_config_def as_dict_def load_envs_to_dict Cluster_def)

definition demo_external :: node where
  "demo_external = \<lparr>vm = demo_vm\<lparr>managed := False\<rparr>, node_yum = None, node_ssh = None\<rparr>"

definition demo_saved :: cluster where
  "demo_saved = (Cluster (\<lambda>i. i) ''perf'' ''itest'')\<lparr>members := [(''backend-0'', demo_external)]\<rparr>"

definition demo_libs :: cluster_libs where
  "demo_libs = \<lparr>py_str = (\<lambda>v. []), vm_from_dict = (\<lambda>d. Inr (vm demo_external)), bt_from_dict = (\<lambda>d. Inr d)\<rparr>"

theorem cluster_save_load_witness:
  "load_from_config demo_libs (Some (as_dict (py_str demo_libs) demo_saved)) (Cluster (\<lambda>i. 0) ''perf'' ''xpand'')
    = Inr (demo_saved\<lparr>incarnation := None, bt := bt_as_dict (py_str demo_libs) (bt demo_saved)\<rparr>)"
  by (rule cluster_save_load)
     (simp_all add: demo_saved_def demo_libs_def demo_external_def Node_def Cluster_def)

text \<open>
  \<open>find_node_by_name\<close> is complete: it returns a node of the tree with the name (and its parent),
  and raises \<open>ClusterException\<close> only when no node of the tree has the name.
\<close>

theorem find_node_by_name_spec:
  assumes "anytree_laws A"
  shows "case find_node_by_name A nm c of
      Inr (p, n) \<Rightarrow> tname n = nm \<and> (p, n) \<in> set (preorder None (cluster_tree c))
    | Inl e \<Rightarrow> e = ClusterException \<and> nm \<notin> tname ` snd ` set (preorder None (cluster_tree c))"
  using anytree_laws.find_node [OF assms]
  by (cases "find_node_by_name A nm c") (auto split: prod.split)

theorem find_node_by_name_spec_witness:
  "case find_node_by_name queue_tree ''backend-0,backend-1'' demo_cluster of
      Inr (p, n) \<Rightarrow> tname n = ''backend-0,backend-1'' \<and> map_option tname p = Some ''driver-0''
    | Inl e \<Rightarrow> False"
  using find_node_by_name_spec [OF queue_tree.anytree_laws_axioms, of "''backend-0,backend-1''" demo_cluster]
  by (auto simp: demo_cluster_def split: sum.splits prod.splits)

end
