(* ===== verification/XB_Cloud.thy ===== *)
theory XB_Cloud
  imports XB_Cluster "HOL-Library.Multiset"
begin

text \<open>
  \<^verbatim>\<open>cloud/\<close>: the kinds of clouds (\<^verbatim>\<open>cloud_types.py\<close>), the factories that choose the classes
  (\<^verbatim>\<open>cloud_factory.py\<close>, \<^verbatim>\<open>cli_factory.py\<close>, \<^verbatim>\<open>compute_factory.py\<close>,
  \<^verbatim>\<open>storage_factory.py\<close>), the thread pool of \<^verbatim>\<open>compute/run_parallel.py\<close>, the operations
  every cloud inherits (\<^verbatim>\<open>abstract_cloud.py\<close>) and the cloud of external machines
  (\<^verbatim>\<open>ephemeral/ephemeral_cloud.py\<close>).

  The command-line tools of the providers are the abstract interfaces \<open>AbstractCli\<close>,
  \<open>AbstractCompute\<close> and \<open>AbstractStorage\<close>: the record \<open>provider\<close> holds their operations.
\<close>

section \<open>Kinds and factories\<close>

datatype cloud_type_enum =
  AWS | GCP | Ephemeral | Aurora | SkySql | Colo | SkySql2 | Rds | AlloyDB

definition cloud_names :: "(string, cloud_type_enum) dict" where
  "cloud_names = [(''aws'', AWS), (''gcp'', GCP), (''aws_aurora'', Aurora), (''aws_rds'', Rds),
     (''skysql'', SkySql), (''skysql2'', SkySql2), (''colo'', Colo), (''gcp_alloydb'', AlloyDB)]"

definition from_string :: "string \<Rightarrow> exn + cloud_type_enum" where
  "from_string cloud_str =
     (case dget cloud_names cloud_str of None \<Rightarrow> Inl CloudException | Some t \<Rightarrow> Inr t)"

datatype cloud_class =
  AwsCloud | GcpCloud | GcpAlloyDBCloud | AwsAuroraCloud | AwsRdsCloud | SkySQLCloud | SkySQLCloud2
  | EphemeralCloud | Sproutsys

fun create_cloud :: "cloud_type_enum \<Rightarrow> cloud_class" where
  "create_cloud AWS = AwsCloud"
| "create_cloud GCP = GcpCloud"
| "create_cloud AlloyDB = GcpAlloyDBCloud"
| "create_cloud Aurora = AwsAuroraCloud"
| "create_cloud Rds = AwsRdsCloud"
| "create_cloud SkySql = SkySQLCloud"
| "create_cloud SkySql2 = SkySQLCloud2"
| "create_cloud Ephemeral = EphemeralCloud"
| "create_cloud Colo = Sproutsys"

definition create_cloud_from_str :: "string \<Rightarrow> exn + cloud_class" where
  "create_cloud_from_str s = map_sum id create_cloud (from_string s)"

text \<open>The classes of command-line tools; \<open>GcpAlloyDBCli\<close> derives from \<open>GcpCli\<close>.\<close>

datatype cli_class = AwsCli | GcpCli | AwsAuroraCli | SproutsysCLI | GcpAlloyDBCli

fun create_cli :: "cloud_type_enum \<Rightarrow> exn + cli_class option" where
  "create_cli AWS = Inr (Some AwsCli)"
| "create_cli GCP = Inr (Some GcpCli)"
| "create_cli Ephemeral = Inr None"
| "create_cli Aurora = Inr (Some AwsAuroraCli)"
| "create_cli SkySql = Inr None"
| "create_cli SkySql2 = Inr None"
| "create_cli Colo = Inr (Some SproutsysCLI)"
| "create_cli AlloyDB = Inr (Some GcpAlloyDBCli)"
| "create_cli Rds = Inl CloudCliException"

definition create_cli_from_str :: "string \<Rightarrow> exn + cli_class option" where
  "create_cli_from_str s = (case from_string s of Inl e \<Rightarrow> Inl e | Inr t \<Rightarrow> create_cli t)"

definition isinstance_gcp_cli :: "cli_class option \<Rightarrow> bool" where
  "isinstance_gcp_cli cli \<longleftrightarrow> cli = Some GcpCli \<or> cli = Some GcpAlloyDBCli"

datatype compute_class = GcpAlloyDBCompute | GcpCompute | AwsEc2

definition create_compute :: "cli_class option \<Rightarrow> exn + compute_class" where
  "create_compute cli =
     (if cli = Some GcpAlloyDBCli then Inr GcpAlloyDBCompute
      else if isinstance_gcp_cli cli then Inr GcpCompute
      else if cli = Some AwsCli then Inr AwsEc2
      else Inl CloudException)"

datatype storage_class = GcpNasStorage | GcpStorage | AwsNvme | AwsEbs | AwsS3 | ColoNvme

definition ebs_types :: "string list" where
  "ebs_types = [''io1'', ''io2'', ''gp2'', ''gp3'', ''st1'', ''sc1'', ''standard'']"

definition create_storage :: "cli_class option \<Rightarrow> virtual_storage \<Rightarrow> exn + storage_class" where
  "create_storage cli vs =
     (if isinstance_gcp_cli cli then
        (if vs_type vs = Some ''filestore'' then Inr GcpNasStorage else Inr GcpStorage)
      else if cli = Some AwsCli then
        (if vs_type vs = Some ''ephemeral'' then Inr AwsNvme
         else if vs_type vs \<in> Some ` set ebs_types then Inr AwsEbs
         else if vs_type vs = Some ''s3'' then Inr AwsS3
         else Inl CloudException)
      else if cli = Some SproutsysCLI then
        (if vs_type vs = Some ''ephemeral'' then Inr ColoNvme else Inl CloudException)
      else Inl CloudException)"

section \<open>The thread pool\<close>

text \<open>
  The threads run the tasks in some order (\<open>exec_order\<close>); leaving the \<open>with\<close> block waits for all of
  them, failed or not. Then \<open>as_completed\<close> visits the finished futures in an order of its own
  (\<open>done_order\<close>), and the first one that holds an exception raises it. A task runs in one piece here:
  the tasks of one call work on different machines.
\<close>

record schedule =
  exec_order :: "nat \<Rightarrow> nat list"
  done_order :: "nat \<Rightarrow> nat list"

fun exec_all :: "nat list \<Rightarrow> ('w, exn, 'a) io list \<Rightarrow> (nat \<Rightarrow> exn + 'a) \<Rightarrow> 'w \<Rightarrow> (nat \<Rightarrow> exn + 'a) \<times> 'w" where
  "exec_all [] tasks results w = (results, w)"
| "exec_all (i # order) tasks results w =
     (case (tasks ! i) w of (r, w') \<Rightarrow> exec_all order tasks (results(i := r)) w')"

fun collect_results :: "nat list \<Rightarrow> (nat \<Rightarrow> exn + 'a) \<Rightarrow> exn + 'a list" where
  "collect_results [] results = Inr []"
| "collect_results (i # order) results =
     (case results i of
        Inl e \<Rightarrow> Inl e
      | Inr x \<Rightarrow> (case collect_results order results of Inl e \<Rightarrow> Inl e | Inr xs \<Rightarrow> Inr (x # xs)))"

definition run_parallel_returning :: "schedule \<Rightarrow> ('w, exn, 'a) io list \<Rightarrow> ('w, exn, 'a list) io" where
  "run_parallel_returning S tasks w =
     (case exec_all (exec_order S (length tasks)) tasks (\<lambda>i. Inl PyException) w of
        (results, w') \<Rightarrow> (collect_results (done_order S (length tasks)) results, w'))"

definition run_parallel :: "schedule \<Rightarrow> ('w, exn, 'a) io list \<Rightarrow> ('w, exn, unit) io" where
  "run_parallel S tasks = io_bind (run_parallel_returning S tasks) (\<lambda>results. io_return ())"

text \<open>
  How \<open>run_parallel\<close> calls the function: a dictionary becomes its keyword arguments (with
  \<open>kwargs\<close>), a \<open>Node\<close> is passed alone, and only any other instance is passed with the extra
  positional arguments.
\<close>

datatype 'x pool_instance = DictInstance pydict | NodeInstance node | OtherInstance 'x

datatype ('x, 'arg) pool_call = Kwargs pydict | CallNode node "'arg list" | CallOther 'x "'arg list"

fun submit :: "'arg list \<Rightarrow> 'x pool_instance \<Rightarrow> ('x, 'arg) pool_call" where
  "submit args (DictInstance d) = Kwargs d"
| "submit args (NodeInstance n) = CallNode n []"
| "submit args (OtherInstance x) = CallOther x args"

section \<open>The operations of a cloud\<close>

text \<open>
  One cloud object: its command-line tool and the operations of the compute and storage classes the
  factories chose. A storage object holds its own copy of the storage and what its constructor found out
  (\<open>stor_init\<close>: the data of the instance type, the name of the machine). \<open>describe_by_tag\<close> is the number of instances that \<open>describe_instances_by_tag\<close>
  lists; \<open>comp_start\<close> gives the machine as the provider describes it after the start.
\<close>

record storage_object =
  so_vs :: virtual_storage
  so_info :: pydict
  so_vm_name :: "string option"

record 'w provider =
  cloud_kind :: cloud_class
  cli :: "cli_class option"
  describe_by_tag :: "('w, exn, nat) io"
  describe_instance_type :: "pyval \<Rightarrow> ('w, exn, pydict) io"
  comp_create :: "compute_class \<Rightarrow> pydict \<Rightarrow> ('w, exn, virtual_machine) io"
  comp_destroy :: "compute_class \<Rightarrow> virtual_machine \<Rightarrow> ('w, exn, unit) io"
  comp_stop :: "compute_class \<Rightarrow> virtual_machine \<Rightarrow> ('w, exn, unit) io"
  comp_start :: "compute_class \<Rightarrow> virtual_machine \<Rightarrow> ('w, exn, virtual_machine) io"
  stor_init :: "storage_class \<Rightarrow> virtual_machine option \<Rightarrow> virtual_storage \<Rightarrow> ('w, exn, storage_object) io"
  stor_create :: "storage_class \<Rightarrow> storage_object \<Rightarrow> ('w, exn, virtual_storage) io"
  stor_attach :: "storage_class \<Rightarrow> storage_object \<Rightarrow> virtual_machine \<Rightarrow> ('w, exn, virtual_storage) io"
  stor_destroy :: "storage_class \<Rightarrow> storage_object \<Rightarrow> ('w, exn, virtual_storage) io"

definition cloud_is_running :: "'w provider \<Rightarrow> ('w, exn, bool) io" where
  "cloud_is_running P =
     (if cli P = None then io_return False
      else io_bind (describe_by_tag P) (\<lambda>instances. io_return (instances > 0)))"

definition base_launch_storage :: "'w provider \<Rightarrow> virtual_machine option \<Rightarrow> virtual_storage \<Rightarrow>
    ('w, exn, virtual_storage option) io" where
  "base_launch_storage P attach_to_vm storage_params =
     io_try
       (io_bind (io_lift (create_storage (cli P) storage_params)) (\<lambda>gs.
        io_bind (stor_init P gs attach_to_vm storage_params) (\<lambda>so.
        io_bind (stor_create P gs so) (\<lambda>virtual_storage.
        io_bind (case attach_to_vm of None \<Rightarrow> io_return virtual_storage
                   | Some v \<Rightarrow> stor_attach P gs (so\<lparr>so_vs := virtual_storage\<rparr>) v) (\<lambda>attached.
          io_return (Some attached))))))
       (\<lambda>e. isinstance_exn e CloudException) (\<lambda>e. io_return None)"

text \<open>In AWS a volume is made in the zone of the machine it is attached to.\<close>

definition launch_storage :: "'w provider \<Rightarrow> virtual_machine option \<Rightarrow> virtual_storage \<Rightarrow>
    ('w, exn, virtual_storage option) io" where
  "launch_storage P attach_to_vm storage_params =
     (if cloud_kind P = AwsCloud then
        (case attach_to_vm of
           None \<Rightarrow> base_launch_storage P None storage_params
         | Some v \<Rightarrow> base_launch_storage P (Some v) (storage_params\<lparr>vs_zone := zone v\<rparr>))
      else base_launch_storage P attach_to_vm storage_params)"

definition detach_storage :: "'w provider \<Rightarrow> bool \<Rightarrow> virtual_machine option \<Rightarrow> virtual_storage \<Rightarrow>
    ('w, exn, virtual_storage option) io" where
  "detach_storage P terminate_storage v s =
     io_bind (io_lift (create_storage (cli P) s)) (\<lambda>gs.
     io_bind (stor_init P gs v s) (\<lambda>so.
     io_bind (if terminate_storage \<and> \<not> is_shared s then stor_destroy P gs so else io_return (so_vs so)) (\<lambda>s'.
       io_return (Some s'))))"

definition terminate_storage :: "'w provider \<Rightarrow> virtual_machine option \<Rightarrow> virtual_storage \<Rightarrow>
    ('w, exn, virtual_storage option) io" where
  "terminate_storage P v s =
     io_bind (io_lift (create_storage (cli P) s)) (\<lambda>gs.
     io_bind (stor_init P gs None s) (\<lambda>so. io_bind (stor_destroy P gs so) (\<lambda>s'. io_return (Some s'))))"

text \<open>A storage that could not be processed (\<open>None\<close>) is kept as it was.\<close>

definition process_storage_instances :: "(virtual_machine option \<Rightarrow> virtual_storage \<Rightarrow>
      ('w, exn, virtual_storage option) io) \<Rightarrow> virtual_machine option \<Rightarrow> virtual_storage list \<Rightarrow>
    ('w, exn, virtual_storage list) io" where
  "process_storage_instances fn v ss =
     io_map ss (\<lambda>s. io_bind (fn v s) (\<lambda>ps. io_return (case ps of Some p \<Rightarrow> p | None \<Rightarrow> s)))"

definition process_storage :: "(virtual_machine option \<Rightarrow> virtual_storage \<Rightarrow>
      ('w, exn, virtual_storage option) io) \<Rightarrow> virtual_machine \<Rightarrow> ('w, exn, virtual_machine) io" where
  "process_storage fn v =
     io_bind (case storage v of None \<Rightarrow> io_return v
                | Some s \<Rightarrow> io_bind (fn (Some v) s) (\<lambda>ps. io_return (v\<lparr>storage := ps\<rparr>))) (\<lambda>v.
     io_bind (process_storage_instances fn (Some v) (storage_list v)) (\<lambda>ss.
     io_return (v\<lparr>storage_list := ss\<rparr>)))"

definition launch_storage_instances :: "'w provider \<Rightarrow> virtual_storage list \<Rightarrow> ('w, exn, virtual_storage list) io" where
  "launch_storage_instances P ss = process_storage_instances (launch_storage P) None ss"

definition terminate_storage_instances :: "'w provider \<Rightarrow> virtual_storage list \<Rightarrow> ('w, exn, virtual_storage list) io" where
  "terminate_storage_instances P ss = process_storage_instances (terminate_storage P) None ss"

definition base_launch_instance :: "'w provider \<Rightarrow> pydict \<Rightarrow> ('w, exn, node option) io" where
  "base_launch_instance P instance_params =
     io_try
       (io_bind (io_lift (create_compute (cli P))) (\<lambda>gc.
        io_bind (comp_create P gc instance_params) (\<lambda>v.
        io_bind (process_storage (launch_storage P) v) (\<lambda>v.
        io_bind (io_lift (Node v)) (\<lambda>n. io_return (Some n))))))
       (\<lambda>e. isinstance_exn e CloudException) (\<lambda>e. io_return None)"

text \<open>
  AWS asks for the instance type first; of what that call raises only \<open>AwsCloudException\<close> would be
  caught, which no operation of the tool raises (its own class is \<open>AwsCliException\<close>).
\<close>

definition launch_instance :: "'w provider \<Rightarrow> pydict \<Rightarrow> ('w, exn, node option) io" where
  "launch_instance P instance_params =
     (if cloud_kind P = AwsCloud then
        io_bind (describe_instance_type P (dget_default instance_params ''instance_type'' VNone)) (\<lambda>info.
          base_launch_instance P instance_params)
      else base_launch_instance P instance_params)"

definition launch_instances :: "schedule \<Rightarrow> 'w provider \<Rightarrow> pydict list \<Rightarrow> ('w, exn, node option list) io" where
  "launch_instances S P instances = run_parallel_returning S (map (launch_instance P) instances)"

definition terminate_instance :: "'w provider \<Rightarrow> bool \<Rightarrow> node \<Rightarrow> ('w, exn, unit) io" where
  "terminate_instance P ts n =
     io_bind (io_lift (create_compute (cli P))) (\<lambda>gc.
     io_seq (comp_destroy P gc (vm n))
    (io_bind (process_storage (detach_storage P ts) (vm n)) (\<lambda>_. io_return ())))"

text \<open>
  The call the pool makes: \<open>terminate_storage\<close> is the second positional argument, with the default
  \<open>False\<close>.
\<close>

definition terminate_call :: "'w provider \<Rightarrow> (unit, bool) pool_call \<Rightarrow> ('w, exn, unit) io" where
  "terminate_call P c =
     (case c of
        CallNode n args \<Rightarrow> terminate_instance P (case args of [] \<Rightarrow> False | ts # _ \<Rightarrow> ts) n
      | _ \<Rightarrow> io_raise PyTypeError)"

definition terminate_instances :: "schedule \<Rightarrow> 'w provider \<Rightarrow> node list \<Rightarrow> bool \<Rightarrow> ('w, exn, unit) io" where
  "terminate_instances S P instances ts =
     run_parallel S (map (\<lambda>n. terminate_call P (submit [ts] (NodeInstance n))) instances)"

definition stop_instance :: "'w provider \<Rightarrow> node \<Rightarrow> ('w, exn, unit) io" where
  "stop_instance P n = io_bind (io_lift (create_compute (cli P))) (\<lambda>gc. comp_stop P gc (vm n))"

definition stop_instances :: "schedule \<Rightarrow> 'w provider \<Rightarrow> node list \<Rightarrow> ('w, exn, unit) io" where
  "stop_instances S P instances = run_parallel S (map (stop_instance P) instances)"

definition start_instance :: "'w provider \<Rightarrow> node \<Rightarrow> ('w, exn, node) io" where
  "start_instance P n =
     io_bind (io_lift (create_compute (cli P))) (\<lambda>gc.
     io_bind (comp_start P gc (vm n)) (\<lambda>v. io_lift (Node v)))"

definition start_instances :: "schedule \<Rightarrow> 'w provider \<Rightarrow> node list \<Rightarrow> ('w, exn, node list) io" where
  "start_instances S P instances = run_parallel_returning S (map (start_instance P) instances)"

section \<open>External machines\<close>

definition ephemeral_default_config :: "string \<Rightarrow> string \<Rightarrow> pyval \<Rightarrow> pydict" where
  "ephemeral_default_config home cn pub_ip =
     [(''cloud'', VStr ''Ephemeral''), (''cluster_name'', VStr cn), (''id'', VStr ''e-12345678''),
      (''ssh_user'', VStr ''nobody''), (''key_file'', VStr (home @ ''/.xbench/pem/xbench.pem'')),
      (''instance_type'', VStr ''ec2''), (''zone'', VStr ''wild_west_2''), (''os_type'', VStr ''CentOS7''),
      (''managed'', VBool False),
      (''network'', VDict [(''cloud_type'', VStr ''public_cloud''), (''private_ip'', VStr ''0.0.0.0''),
         (''public_ip'', pub_ip)])]"

fun ephemeral_launch :: "cluster_libs \<Rightarrow> pydict \<Rightarrow> pydict list \<Rightarrow> exn + node list" where
  "ephemeral_launch L dflt [] = Inr []"
| "ephemeral_launch L dflt (param # rest) =
     (case node_from_dict L (dict_update dflt param) of
        Inl e \<Rightarrow> Inl e
      | Inr n \<Rightarrow> (case ephemeral_launch L dflt rest of Inl e \<Rightarrow> Inl e | Inr ns \<Rightarrow> Inr (n # ns)))"

definition ephemeral_launch_instances :: "cluster_libs \<Rightarrow> string \<Rightarrow> string \<Rightarrow> pyval \<Rightarrow> pydict list \<Rightarrow>
    exn + node list" where
  "ephemeral_launch_instances L home cn pub_ip instances =
     ephemeral_launch L (ephemeral_default_config home cn pub_ip) instances"

text \<open>The other operations are refused: \<open>is_running\<close>, \<open>launch_instance\<close>, \<open>terminate_instance(s)\<close>.\<close>

definition ephemeral_refuse :: "exn + 'a" where
  "ephemeral_refuse = Inl CloudException"

section \<open>Lemmas\<close>

text \<open>The pool runs every task once and visits every future once.\<close>

definition valid_schedule :: "schedule \<Rightarrow> bool" where
  "valid_schedule S \<longleftrightarrow> (\<forall>n. distinct (exec_order S n) \<and> set (exec_order S n) = {0..<n}
     \<and> distinct (done_order S n) \<and> set (done_order S n) = {0..<n})"

lemma exec_all_other: "i \<notin> set order \<Longrightarrow> fst (exec_all order tasks res w) i = res i"
  by (induction order tasks res w rule: exec_all.induct) (auto split: prod.splits)

lemma exec_all_ran:
  "distinct order \<Longrightarrow> i \<in> set order \<Longrightarrow>
     \<exists>u u'. (tasks ! i) u = (fst (exec_all order tasks res w) i, u')"
proof (induction order arbitrary: res w)
  case (Cons j order)
  obtain r v where r: "(tasks ! j) w = (r, v)" by (cases "(tasks ! j) w")
  show ?case
  proof (cases "i = j")
    case True
    with Cons.prems have "fst (exec_all order tasks (res(j := r)) v) i = r"
      by (simp add: exec_all_other)
    with True r show ?thesis by auto
  next
    case False
    with Cons.IH [of "res(j := r)" v] Cons.prems r show ?thesis by (auto simp: fun_upd_def)
  qed
qed simp

lemma exec_all_count:
  fixes count :: "'w \<Rightarrow> nat"
  assumes "\<And>i w. i \<in> set order \<Longrightarrow> count (snd ((tasks ! i) w)) = Suc (count w)"
  shows "count (snd (exec_all order tasks res w)) = count w + length order"
  using assms
proof (induction order arbitrary: res w)
  case (Cons j order)
  obtain r v where r: "(tasks ! j) w = (r, v)" by (cases "(tasks ! j) w")
  with Cons.prems [of j w] have "count v = Suc (count w)" by simp
  with Cons.IH [of "res(j := r)" v] Cons.prems r show ?case by (simp add: fun_upd_def)
qed simp

lemma exec_all_keeps:
  assumes "\<And>i. i \<in> set order \<Longrightarrow> io_keeps I (tasks ! i)" and "I w"
  shows "I (snd (exec_all order tasks res w))"
  using assms
proof (induction order arbitrary: res w)
  case (Cons j order)
  obtain r v where r: "(tasks ! j) w = (r, v)" by (cases "(tasks ! j) w")
  from io_keepsD [OF Cons.prems(1) [of j] Cons.prems(2)] r have "I v" by simp
  with Cons.IH [of v "res(j := r)"] Cons.prems r show ?case by (simp add: fun_upd_def)
qed simp

lemma collect_results_ok: "collect_results order res = Inr xs \<Longrightarrow> map res order = map Inr xs"
  by (induction order arbitrary: xs) (auto split: sum.splits)

lemma collect_results_error: "collect_results order res = Inl e \<Longrightarrow> \<exists>i \<in> set order. res i = Inl e"
  by (induction order) (auto split: sum.splits)

lemma run_parallel_keeps [io_inv_intros]:
  assumes "valid_schedule S" and "\<And>t. t \<in> set tasks \<Longrightarrow> io_keeps I t"
  shows "io_keeps I (run_parallel_returning S tasks)" "io_keeps I (run_parallel S tasks)"
proof -
  show *: "io_keeps I (run_parallel_returning S tasks)"
  proof (rule io_keepsI)
    fix w assume "I w"
    moreover have "io_keeps I (tasks ! i)" if "i \<in> set (exec_order S (length tasks))" for i
      using that assms by (auto simp: valid_schedule_def)
    ultimately have "I (snd (exec_all (exec_order S (length tasks)) tasks (\<lambda>i. Inl PyException) w))"
      by (rule exec_all_keeps [where I = I, rotated])
    then show "I (snd (run_parallel_returning S tasks w))"
      by (auto simp: run_parallel_returning_def split: prod.splits)
  qed
  show "io_keeps I (run_parallel S tasks)"
    unfolding run_parallel_def by (intro io_inv_intros *)
qed

lemma process_storage_keeps:
  assumes "\<And>v s. io_keeps I (fn v s)"
  shows "io_keeps I (process_storage fn v)"
  unfolding process_storage_def process_storage_instances_def
  by (cases "storage v") (auto intro!: io_keeps_bind io_keeps_return io_keeps_map assms)

lemma terminate_instances_keeps:
  assumes "valid_schedule S" and "\<forall>gc v. io_keeps I (comp_destroy P gc v)" and "\<forall>gs v s. io_keeps I (stor_init P gs v s)"
  shows "io_keeps I (terminate_instances S P instances ts)"
proof -
  have "io_keeps I (detach_storage P False v s)" for v s
    unfolding detach_storage_def using assms(3) by (auto intro!: io_keeps_bind io_keeps_lift io_keeps_return)
  then have "io_keeps I (terminate_instance P False n)" for n
    unfolding terminate_instance_def using assms(2)
    by (auto intro!: io_keeps_bind io_keeps_seq io_keeps_lift io_keeps_return process_storage_keeps)
  then show ?thesis
    unfolding terminate_instances_def
    by (intro run_parallel_keeps assms) (auto simp: terminate_call_def)
qed

section \<open>Properties\<close>

text \<open>
  C22. The thread pool, whatever the order of execution and of completion: a normal return has the
  result of every task exactly once, in some order; an exception is one that a task raised; and all
  tasks were run, also when some of them raise (counted by any counter that a task increments).
\<close>

theorem run_parallel_returning_spec:
  fixes count :: "'w \<Rightarrow> nat"
  assumes "valid_schedule S" and "\<forall>t \<in> set tasks. \<forall>w. count (snd (t w)) = Suc (count w)"
    and "run_parallel_returning S tasks w = (r, w')"
  shows "count w' = count w + length tasks \<and> (case r of
      Inr rs \<Rightarrow> \<exists>out. (\<forall>i < length tasks. \<exists>u u'. (tasks ! i) u = (Inr (out i), u'))
        \<and> mset rs = mset (map out [0..<length tasks])
    | Inl e \<Rightarrow> \<exists>t \<in> set tasks. \<exists>u u'. t u = (Inl e, u'))"
proof -
  let ?n = "length tasks"
  obtain res v where res: "exec_all (exec_order S ?n) tasks (\<lambda>i. Inl PyException) w = (res, v)"
    by (cases "exec_all (exec_order S ?n) tasks (\<lambda>i. Inl PyException) w")
  have ord: "distinct (exec_order S ?n)" "set (exec_order S ?n) = {0..<?n}"
      "distinct (done_order S ?n)" "set (done_order S ?n) = {0..<?n}"
    using assms(1) by (simp_all add: valid_schedule_def)
  have ran: "\<exists>u u'. (tasks ! i) u = (res i, u')" if "i < ?n" for i
    using exec_all_ran [OF ord(1), of i tasks "\<lambda>i. Inl PyException" w] that ord(2) res by simp
  have r: "r = collect_results (done_order S ?n) res" and w': "w' = v"
    using assms(3) res by (simp_all add: run_parallel_returning_def)
  have len: "length (exec_order S ?n) = ?n"
    using distinct_card [OF ord(1)] ord(2) by simp
  have count: "count w' = count w + ?n"
    using exec_all_count [of "exec_order S ?n" count tasks "\<lambda>i. Inl PyException" w] assms(2) ord(2) res len w'
    by simp
  show ?thesis
  proof (cases r)
    case (Inl e)
    with r obtain i where "i < ?n" "res i = Inl e"
      using collect_results_error [of "done_order S ?n" res e] ord(4) by auto
    with ran [of i] have "\<exists>t \<in> set tasks. \<exists>u u'. t u = (Inl e, u')"
      by (metis nth_mem)
    with count Inl show ?thesis by simp
  next
    case (Inr rs)
    with r have m: "map res (done_order S ?n) = map Inr rs"
      using collect_results_ok [of "done_order S ?n" res rs] by simp
    let ?out = "\<lambda>i. projr (res i)"
    have all: "res i = Inr (?out i)" if "i < ?n" for i
    proof -
      from that ord(4) have "res i \<in> set (map res (done_order S ?n))" by auto
      then show ?thesis unfolding m by auto
    qed
    have "rs = map projr (map res (done_order S ?n))" unfolding m by (simp add: o_def)
    also have "mset \<dots> = image_mset ?out (mset (done_order S ?n))" by (simp add: multiset.map_comp o_def)
    also have "mset (done_order S ?n) = mset [0..<?n]"
      using ord(3,4) by (intro set_eq_iff_mset_eq_distinct [THEN iffD1]) simp_all
    finally have "mset rs = mset (map ?out [0..<?n])" by simp
    moreover have "\<forall>i < ?n. \<exists>u u'. (tasks ! i) u = (Inr (?out i), u')"
      using ran all by metis
    ultimately show ?thesis using count Inr by (auto intro!: exI [of _ ?out] simp del: mset_map)
  qed
qed

text \<open>A world that counts: tasks \<open>tick n\<close> return \<open>n\<close>, and fail for 0.\<close>

definition tick :: "nat \<Rightarrow> (nat, exn, nat) io" where
  "tick n w = (if n = 0 then Inl CloudException else Inr n, Suc w)"

definition demo_schedule :: schedule where
  "demo_schedule = \<lparr>exec_order = (\<lambda>n. rev [0..<n]), done_order = (\<lambda>n. [0..<n])\<rparr>"

lemma demo_schedule_valid: "valid_schedule demo_schedule"
  by (simp add: valid_schedule_def demo_schedule_def)

theorem run_parallel_returning_spec_witness:
  "run_parallel_returning demo_schedule (map tick [3, 0, 5]) 7 = (Inl CloudException, 10)
   \<and> (\<exists>t \<in> set (map tick [3, 0, 5]). \<exists>u u'. t u = (Inl CloudException, u'))"
proof -
  have run: "run_parallel_returning demo_schedule (map tick [3, 0, 5]) 7 = (Inl CloudException, 10)"
    by (simp add: run_parallel_returning_def demo_schedule_def tick_def upt_rec numeral_3_eq_3)
  have "\<forall>t \<in> set (map tick [3, 0, 5]). \<forall>w. id (snd (t w)) = Suc (id w)" by (auto simp: tick_def)
  from run_parallel_returning_spec [OF demo_schedule_valid this run] run show ?thesis by simp
qed

text \<open>
  C23. \<open>terminate_instances\<close> destroys no storage, although it is asked to by default: whatever
  \<open>terminate_storage\<close> says, anything that destroying machines and making storage objects leaves alone (the
  set of volumes, say) is unchanged by it. The argument is lost because the pool calls the function on a node without its
  extra arguments.
\<close>

theorem terminate_instances_keeps_storage:
  assumes "valid_schedule S" and "\<forall>gc v. io_keeps I (comp_destroy P gc v)" and "\<forall>gs v s. io_keeps I (stor_init P gs v s)"
  shows "io_keeps I (terminate_instances S P instances ts)"
  using assms by (rule terminate_instances_keeps)

text \<open>A provider whose world is the lists of machine and volume names.\<close>

definition demo_provider :: "(string list \<times> string list) provider" where
  "demo_provider = \<lparr>cloud_kind = GcpCloud, cli = Some GcpCli,
     describe_by_tag = (\<lambda>w. (Inr (length (fst w)), w)), describe_instance_type = (\<lambda>t w. (Inr [], w)),
     comp_create = (\<lambda>gc ps (ms, vs). if ps = [] then (Inl CloudComputeException, (ms, vs))
        else (Inr (demo_vm\<lparr>managed := False\<rparr>), (vm_name demo_vm # ms, vs))),
     comp_destroy = (\<lambda>gc v (ms, vs). (Inr (), (removeAll (vm_name v) ms, vs))),
     comp_stop = (\<lambda>gc v w. (Inr (), w)), comp_start = (\<lambda>gc v w. (Inr v, w)),
     stor_init = (\<lambda>gs v s w. (Inr \<lparr>so_vs = s, so_info = [], so_vm_name = None\<rparr>, w)),
     stor_create = (\<lambda>gs s (ms, vs). (Inr (so_vs s), (ms, vs_name (so_vs s) # vs))),
     stor_attach = (\<lambda>gs s v w. (Inr (so_vs s), w)),
     stor_destroy = (\<lambda>gs s (ms, vs). (Inr (so_vs s), (ms, removeAll (vs_name (so_vs s)) vs)))\<rparr>"

theorem terminate_instances_keeps_storage_witness:
  "snd (snd (terminate_instances demo_schedule demo_provider [demo_node] True ([''driver-0''], [''vol-1'']))) = [''vol-1'']"
proof -
  have "\<forall>gc v. io_keeps (\<lambda>w. snd w = [''vol-1'']) (comp_destroy demo_provider gc v)"
    by (auto simp: io_keeps_def demo_provider_def split: prod.splits)
  moreover have "\<forall>gs v s. io_keeps (\<lambda>w. snd w = [''vol-1'']) (stor_init demo_provider gs v s)"
    by (auto simp: io_keeps_def demo_provider_def)
  ultimately show ?thesis
    using io_keepsD [OF terminate_instances_keeps_storage [OF demo_schedule_valid],
      where w = "([''driver-0''], [''vol-1''])"] by fastforce
qed

text \<open>
  A machine that cannot be made does not stop the others: outside AWS, launching one raises no
  cloud error (it gives \<open>None\<close>), so when nothing else goes wrong \<open>launch_instances\<close> returns one
  entry per requested machine.
\<close>

theorem launch_instances_isolated:
  assumes "valid_schedule S" and "cloud_kind P \<noteq> AwsCloud"
    and "launch_instances S P params w = (r, w')"
  shows "case r of Inr ns \<Rightarrow> length ns = length params | Inl e \<Rightarrow> \<not> isinstance_exn e CloudException"
proof -
  have iso: "\<not> isinstance_exn e CloudException" if "launch_instance P ps u = (Inl e, u')" for ps u e u'
    using that assms(2)
    by (auto simp: launch_instance_def base_launch_instance_def io_try_def io_return_def
        split: prod.splits sum.splits if_splits)
  let ?tasks = "map (launch_instance P) params"
  let ?n = "length ?tasks"
  obtain res v where res: "exec_all (exec_order S ?n) ?tasks (\<lambda>i. Inl PyException) w = (res, v)"
    by (cases "exec_all (exec_order S ?n) ?tasks (\<lambda>i. Inl PyException) w")
  then have r: "r = collect_results (done_order S ?n) res"
    using assms(3) by (simp add: launch_instances_def run_parallel_returning_def)
  show ?thesis
  proof (cases r)
    case (Inr ns)
    with r have "map res (done_order S ?n) = map Inr ns" using collect_results_ok by metis
    then have "length ns = length (done_order S ?n)" by (metis length_map)
    also have "\<dots> = ?n"
      using assms(1) distinct_card [of "done_order S ?n"] by (simp add: valid_schedule_def)
    finally show ?thesis using Inr by simp
  next
    case (Inl e)
    with r assms(1) obtain i where i: "i < ?n" "res i = Inl e"
      using collect_results_error [of "done_order S ?n" res e] by (auto simp: valid_schedule_def)
    then obtain u u' where "(?tasks ! i) u = (Inl e, u')"
      using exec_all_ran [of "exec_order S ?n" i ?tasks "\<lambda>i. Inl PyException" w] assms(1) res
      by (auto simp: valid_schedule_def)
    with i iso Inl show ?thesis by simp
  qed
qed

theorem launch_instances_isolated_witness:
  "\<exists>w'. launch_instances demo_schedule demo_provider [[(''name'', VStr ''driver-0'')], []] ([], []) =
      (Inr [Some demo_external, None], w') \<and> length [Some demo_external, None] = (2 :: nat)"
proof -
  let ?ps = "[[(''name'', VStr ''driver-0'')], []]"
  let ?r = "launch_instances demo_schedule demo_provider ?ps ([], [])"
  have run: "?r = (Inr [Some demo_external, None], ([''driver-0''], []))"
    by (simp add: launch_instances_def run_parallel_returning_def demo_schedule_def upt_rec numeral_2_eq_2
        launch_instance_def base_launch_instance_def demo_provider_def create_compute_def isinstance_gcp_cli_def
        io_defs process_storage_def process_storage_instances_def demo_vm_def Node_def demo_external_def isinstance_eval)
  have "cloud_kind demo_provider \<noteq> AwsCloud" by (simp add: demo_provider_def)
  from launch_instances_isolated [OF demo_schedule_valid this run] run show ?thesis by simp
qed

end
