(* ===== verification/XB_Provisioning.thy ===== *)
theory XB_Provisioning
  imports XB_Cloud XB_Config XB_Params
begin

text \<open>
  \<^verbatim>\<open>xbench/xbench.py\<close> and \<^verbatim>\<open>xbench/provisioning.py\<close>: loading of the configuration, the
  cluster file, and the phases of provisioning (\<open>configure\<close>, \<open>allocate\<close>, \<open>make\<close>, \<open>self_test\<close>,
  \<open>install\<close>, \<open>clean\<close>).

  The world has the cluster files (by cluster name) and their archive, the metrics server, and
  a rest of any type that stands for the machines. Parameters are the clouds (the interface
  \<open>cloud_ops\<close> of \<open>AbstractCloud\<close>; \<open>base_cloud\<close> is the one of the theory of clouds), the component
  classes (drivers, backends, proxies: \<open>klass_ops\<close>), dacite and anytree. The artifact directory, which
  is only written, and the rendering of the tree on the terminal are left out.
\<close>

section \<open>The world\<close>

record 'r xworld =
  cluster_files :: "string \<rightharpoonup> cluster_doc"
  archive_files :: "string \<rightharpoonup> cluster_doc"
  metrics :: metrics_server
  machines :: 'r

text \<open>A cloud object. Some clouds return \<open>None\<close> instead of a list of nodes.\<close>

record 'w cloud_ops =
  co_is_running :: "('w, exn, bool) io"
  co_launch_storage :: "virtual_storage list \<Rightarrow> ('w, exn, virtual_storage list) io"
  co_launch_instances :: "pydict list \<Rightarrow> ('w, exn, node option list option) io"
  co_terminate_instances :: "node list \<Rightarrow> ('w, exn, unit) io"
  co_terminate_storage :: "virtual_storage list \<Rightarrow> ('w, exn, unit) io"
  co_start_instances :: "node list \<Rightarrow> ('w, exn, node option list) io"
  co_stop_instances :: "node list \<Rightarrow> ('w, exn, unit) io"
  co_is_persistent :: bool

definition base_cloud :: "schedule \<Rightarrow> 'w provider \<Rightarrow> 'w cloud_ops" where
  "base_cloud S P = \<lparr>
     co_is_running = cloud_is_running P,
     co_launch_storage = launch_storage_instances P,
     co_launch_instances = (\<lambda>ps. io_bind (launch_instances S P ps) (\<lambda>ns. io_return (Some ns))),
     co_terminate_instances = (\<lambda>ns. terminate_instances S P ns True),
     co_terminate_storage = (\<lambda>ss. io_bind (terminate_storage_instances P ss) (\<lambda>_. io_return ())),
     co_start_instances = (\<lambda>ns. io_bind (start_instances S P ns) (\<lambda>ns. io_return (map Some ns))),
     co_stop_instances = stop_instances S P,
     co_is_persistent = False\<rparr>"

text \<open>
  The component classes: an instance is made from the nodes of a group and asked to configure,
  install, clean, start or stop.
\<close>

record 'w klass_ops =
  ko_configure :: "component_klass \<Rightarrow> group_nodes \<Rightarrow> ('w, exn, unit) io"
  ko_install :: "component_klass \<Rightarrow> group_nodes \<Rightarrow> ('w, exn, backend_target option) io"
  ko_post_install :: "component_klass \<Rightarrow> group_nodes \<Rightarrow> backend_target \<Rightarrow> ('w, exn, backend_target) io"
  ko_clean :: "component_klass \<Rightarrow> group_nodes \<Rightarrow> ('w, exn, unit) io"
  ko_start :: "component_klass \<Rightarrow> group_nodes \<Rightarrow> ('w, exn, unit) io"
  ko_stop :: "component_klass \<Rightarrow> group_nodes \<Rightarrow> ('w, exn, unit) io"
  ko_is_proxy :: "component_klass \<Rightarrow> bool"
  ko_is_backend :: "component_klass \<Rightarrow> bool"

text \<open>The \<open>Xbench\<close> object: its cluster name, the three configuration files, and the parameters.\<close>

record 'r xbench =
  xb_cluster_name :: string
  impl_yaml :: "exn + yaml_config"
  cloud_yaml :: "exn + yaml_config"
  topo_yaml :: "exn + yaml_config"
  dry_run :: bool
  libs :: cluster_libs
  storage_from_dict :: "pyval \<Rightarrow> exn + virtual_storage"
  tree_lib :: anytree
  import_klass :: importer
  make_cloud :: "cloud_class \<Rightarrow> string \<Rightarrow> pydict \<Rightarrow> exn + 'r xworld cloud_ops"
  klasses :: "'r xworld klass_ops"
  node_envt :: "'r xworld node_env"
  pool :: schedule
  rand :: "nat \<Rightarrow> nat"
  home_path :: string

section \<open>The base class\<close>

definition load_impl :: "'r xbench \<Rightarrow> string \<Rightarrow> exn + pyval" where
  "load_impl X impl = catch [YamlConfigException] XbenchException
     (case impl_yaml X of Inl e \<Rightarrow> Inl e | Inr y \<Rightarrow> get_key y impl [] True)"

definition load_cloud :: "'r xbench \<Rightarrow> string \<Rightarrow> exn + pyval" where
  "load_cloud X cl = catch [YamlConfigException] XbenchException
     (case cloud_yaml X of Inl e \<Rightarrow> Inl e | Inr y \<Rightarrow> get_key y ''providers'' cl False)"

definition load_topo :: "'r xbench \<Rightarrow> string \<Rightarrow> exn + pyval" where
  "load_topo X tp = catch [YamlConfigException] XbenchException
     (case topo_yaml X of Inl e \<Rightarrow> Inl e | Inr y \<Rightarrow> get_key y tp [] False)"

definition cluster_yaml_exists :: "'r xbench \<Rightarrow> 'r xworld \<Rightarrow> bool" where
  "cluster_yaml_exists X w \<longleftrightarrow> cluster_files w (xb_cluster_name X) \<noteq> None"

definition remove_cluster_yaml :: "'r xbench \<Rightarrow> ('r xworld, exn, unit) io" where
  "remove_cluster_yaml X =
     io_modify (\<lambda>w. w\<lparr>cluster_files := (cluster_files w)(xb_cluster_name X := None)\<rparr>)"

definition load_cluster :: "'r xbench \<Rightarrow> ('r xworld, exn, cluster) io" where
  "load_cluster X w =
     (catch [YamlConfigException, XbenchConfigException, ClusterException] XbenchException
        (load_from_config (libs X) (cluster_files w (xb_cluster_name X))
          (Cluster (rand X) (xb_cluster_name X) ''xpand'')), w)"

definition save_cluster :: "'r xbench \<Rightarrow> cluster \<Rightarrow> bool \<Rightarrow> ('r xworld, exn, unit) io" where
  "save_cluster X c archive =
     io_modify (\<lambda>w.
       (if archive then (\<lambda>w. w\<lparr>archive_files := (archive_files w)(cluster_name c \<mapsto> as_dict (py_str (libs X)) c)\<rparr>)
        else id)
       (w\<lparr>cluster_files := (cluster_files w)(cluster_name c \<mapsto> as_dict (py_str (libs X)) c)\<rparr>))"

section \<open>Environments\<close>

record env_components =
  ec_env :: environment
  region_config :: pyval
  components :: "(string, pydict) dict"
  ec_shared_storage :: "virtual_storage list"

text \<open>
  A value as a dictionary key (the keys of a YAML mapping here are strings): a list cannot be one,
  another value that is no string is not there.
\<close>

definition get_by_value :: "pydict \<Rightarrow> pyval \<Rightarrow> exn + pyval option" where
  "get_by_value d k = (case k of VStr s \<Rightarrow> Inr (dget d s) | VList _ \<Rightarrow> Inl PyTypeError
     | VDict _ \<Rightarrow> Inl PyTypeError | _ \<Rightarrow> Inr None)"

text \<open>\<open>self.load_cloud(cloud)\<close>: a value that is false counts as no name.\<close>

definition load_cloud_value :: "'r xbench \<Rightarrow> pyval \<Rightarrow> exn + pyval" where
  "load_cloud_value X v =
     (if \<not> truthy v then load_cloud X []
      else case v of VStr s \<Rightarrow> load_cloud X s | VList _ \<Rightarrow> Inl PyTypeError | _ \<Rightarrow> Inl XbenchException)"

definition as_pydict :: "pyval \<Rightarrow> exn + pydict" where
  "as_pydict v = (case v of VDict d \<Rightarrow> Inr d | _ \<Rightarrow> Inl PyAttributeError)"

text \<open>A name in a record of environments; a value that is no string is printed.\<close>

definition name_of :: "'r xbench \<Rightarrow> pyval \<Rightarrow> string" where
  "name_of X v = (case v of VStr s \<Rightarrow> s | _ \<Rightarrow> py_str (libs X) v)"

fun load_storages :: "(pyval \<Rightarrow> exn + virtual_storage) \<Rightarrow> pyval list \<Rightarrow> exn + virtual_storage list" where
  "load_storages f [] = Inr []"
| "load_storages f (s # ss) =
     (case f s of Inl e \<Rightarrow> Inl e
      | Inr v \<Rightarrow> (case load_storages f ss of Inl e \<Rightarrow> Inl e | Inr vs \<Rightarrow> Inr (v # vs)))"

definition component_params :: "'r xbench \<Rightarrow> string \<Rightarrow> pydict \<Rightarrow> pydict \<Rightarrow> string \<Rightarrow> exn + pydict" where
  "component_params X impl common extra k =
     (case impl_yaml X of
        Inl e \<Rightarrow> Inl e
      | Inr y \<Rightarrow>
          (case get_key y impl k True of
             Inl e \<Rightarrow> Inl e
           | Inr (VDict p) \<Rightarrow>
               (let this = dict_update (dict_update common p) [(''cluster_name'', VStr (xb_cluster_name X))] in
                case dget_default extra k (VDict []) of
                  VDict x \<Rightarrow> Inr (extender this x)
                | _ \<Rightarrow> Inl PyAttributeError)
           | Inr _ \<Rightarrow> Inl PyTypeError))"

fun add_components :: "'r xbench \<Rightarrow> string \<Rightarrow> pydict \<Rightarrow> pydict \<Rightarrow> pydict \<Rightarrow> (string, pydict) dict \<Rightarrow>
    exn + (string, pydict) dict" where
  "add_components X impl common extra [] acc = Inr acc"
| "add_components X impl common extra ((k, v) # items) acc =
     (case v of
        VDict _ \<Rightarrow>
          (case component_params X impl common extra k of
             Inl e \<Rightarrow> Inl e
           | Inr p \<Rightarrow> add_components X impl common extra items (dset acc k p))
      | _ \<Rightarrow> add_components X impl common extra items acc)"

definition build_env :: "'r xbench \<Rightarrow> pydict \<Rightarrow> nat \<Rightarrow> string \<Rightarrow> exn + env_components" where
  "build_env X extra i impl =
     (case load_impl X impl of Inl e \<Rightarrow> Inl e | Inr ip \<Rightarrow>
     (case as_pydict ip of Inl e \<Rightarrow> Inl e | Inr impl_params \<Rightarrow>
     (let common = simple_dict_items impl_params;
          cl = dget_default common ''cloud'' (VStr []);
          region = dget_default common ''region'' (VStr []) in
     (case load_cloud_value X cl of Inl e \<Rightarrow> Inl e | Inr cc \<Rightarrow>
     (case as_pydict cc of Inl e \<Rightarrow> Inl e | Inr cloud_config \<Rightarrow>
     (case get_by_value cloud_config region of
        Inl e \<Rightarrow> Inl e
      | Inr None \<Rightarrow> Inl XbenchException
      | Inr (Some VNone) \<Rightarrow> Inl XbenchException
      | Inr (Some rc) \<Rightarrow>
          (case (case dget impl_params ''shared_storage'' of
                   Some (VList ss) \<Rightarrow> load_storages (storage_from_dict X) ss | _ \<Rightarrow> Inr []) of
             Inl e \<Rightarrow> Inl e
           | Inr ss \<Rightarrow>
               (case add_components X impl common extra impl_params [] of
                  Inl e \<Rightarrow> Inl e
                | Inr comps \<Rightarrow>
                    Inr \<lparr>ec_env = \<lparr>env_name = ''env_'' @ str_nat i, env_cloud = name_of X cl,
                             env_cloud_klass = name_of X (dget_default cloud_config ''klass'' (VStr [])),
                             env_region = name_of X region\<rparr>,
                         region_config = rc, components = comps, ec_shared_storage = ss\<rparr>))))))))"

fun build_env_list :: "'r xbench \<Rightarrow> pydict \<Rightarrow> nat \<Rightarrow> string list \<Rightarrow> exn + env_components list" where
  "build_env_list X extra i [] = Inr []"
| "build_env_list X extra i (impl # impls) =
     (case build_env X extra i impl of
        Inl e \<Rightarrow> Inl e
      | Inr ec \<Rightarrow> (case build_env_list X extra (Suc i) impls of Inl e \<Rightarrow> Inl e | Inr ecs \<Rightarrow> Inr (ec # ecs)))"

definition build_envs :: "'r xbench \<Rightarrow> pydict \<Rightarrow> string \<Rightarrow> exn + env_components list" where
  "build_envs X extra impl = build_env_list X extra 0 (split_on (CHR '','') impl)"

text \<open>The first environment that has the component with parameters.\<close>

fun get_component_params :: "env_components list \<Rightarrow> string \<Rightarrow> exn + pydict" where
  "get_component_params [] name = Inl XbenchException"
| "get_component_params (ec # ecs) name =
     (case dget (components ec) name of
        Some (p # ps) \<Rightarrow> Inr (p # ps)
      | _ \<Rightarrow> get_component_params ecs name)"

section \<open>Configuration of the tree\<close>

definition instance_names :: "string \<Rightarrow> int \<Rightarrow> string" where
  "instance_names component cnt =
     join '','' (map (\<lambda>i. component @ ''-'' @ str_nat i) [0..<nat cnt])"

text \<open>The loop over the tree nodes: the table from components to their instances.\<close>

fun component_table :: "env_components list \<Rightarrow> string list \<Rightarrow> (string, string) dict \<Rightarrow>
    exn + (string, string) dict" where
  "component_table ecs [] tab = Inr tab"
| "component_table ecs (c # cs) tab =
     (if dget tab c \<noteq> None then component_table ecs cs tab
      else case get_component_params ecs c of
        Inl e \<Rightarrow> Inl e
      | Inr p \<Rightarrow>
          (case py_int_val (dget_default p ''count'' VNone) of
             Inl e \<Rightarrow> Inl e
           | Inr n \<Rightarrow> component_table ecs cs (dset tab c (instance_names c n))))"

text \<open>Every visited node gets the name in the table; the nodes named \<open>cluster\<close> are not visited.\<close>

fun rename_tree :: "(string, string) dict \<Rightarrow> tree \<Rightarrow> tree" where
  "rename_tree tab (TNode n cs) =
     TNode (if n = ''cluster'' then n else dget_default tab n n) (map (rename_tree tab) cs)"

text \<open>The topology read from YAML: a list holds names.\<close>

fun topology_of :: "pyval \<Rightarrow> topology" where
  "topology_of (VDict d) = TopoDict (map (\<lambda>(k, v). (k, topology_of v)) d)"
| "topology_of (VList xs) = TopoList (map (\<lambda>x. case x of VStr s \<Rightarrow> s | _ \<Rightarrow> []) xs)"
| "topology_of _ = TopoOther"

definition open_cloud :: "'r xbench \<Rightarrow> env_components \<Rightarrow> exn + 'r xworld cloud_ops" where
  "open_cloud X ec =
     (case region_config ec of
        VDict rc \<Rightarrow>
          (case create_cloud_from_str (env_cloud (ec_env ec)) of
             Inl e \<Rightarrow> Inl e
           | Inr cl \<Rightarrow> make_cloud X cl (xb_cluster_name X) rc)
      | _ \<Rightarrow> Inl PyTypeError)"

definition configure :: "'r xbench \<Rightarrow> env_components list \<Rightarrow> string \<Rightarrow> ('r xworld, exn, unit) io" where
  "configure X ecs tp =
     io_seq (io_for ecs (\<lambda>ec.
       io_bind (io_lift (open_cloud X ec)) (\<lambda>cl.
       io_bind (co_is_running cl) (\<lambda>running.
         if running then io_raise XbenchException else io_return ()))))
    (io_bind (io_lift (load_topo X tp)) (\<lambda>topo_config.
     let c = build_tree_from_dict (topology_of topo_config) (Cluster (rand X) (xb_cluster_name X) tp) in
     io_bind (io_lift (component_table ecs (map tname (level_order_cluster_members (tree_lib X) c)) [])) (\<lambda>tab.
       save_cluster X (c\<lparr>cluster_tree := rename_tree tab (cluster_tree c), topo_map := tab\<rparr>) False)))"

section \<open>Allocation\<close>

text \<open>
  The parameters of one instance. The program writes them into the dictionary of the component and
  takes a copy; the keys it writes are written again for the next instance.
\<close>

definition instance_params :: "env_components \<Rightarrow> string \<Rightarrow> string \<Rightarrow> pydict \<Rightarrow> pydict" where
  "instance_params ec component impl_name p =
     (let p1 = dset (dset (dset p ''env'' (VStr (env_name (ec_env ec)))) ''role'' (VStr (remove_numbers component)))
                 ''name'' (VStr impl_name);
          rc = (case region_config ec of VDict d \<Rightarrow> d | _ \<Rightarrow> [])
      in if dget_default p1 ''key_file'' VNone = VNone
         then dset p1 ''key_file'' (dget_default rc ''key_file'' (VStr [])) else p1)"

definition requested :: "env_components \<Rightarrow> (string, string) dict \<Rightarrow> pydict list" where
  "requested ec tmap =
     concat (map (\<lambda>(component, impl_names).
       concat (map (\<lambda>impl_name.
         case dget (components ec) component of
           Some (p # ps) \<Rightarrow> [instance_params ec component impl_name (p # ps)]
         | _ \<Rightarrow> []) (split_on (CHR '','') impl_names))) tmap)"

definition to_launch :: "env_components \<Rightarrow> (string, string) dict \<Rightarrow> pydict list" where
  "to_launch ec tmap = filter (\<lambda>p. truthy (dget_default p ''provisioned'' VNone)) (requested ec tmap)"

definition to_fake :: "env_components \<Rightarrow> (string, string) dict \<Rightarrow> pydict list" where
  "to_fake ec tmap = filter (\<lambda>p. \<not> truthy (dget_default p ''provisioned'' VNone)) (requested ec tmap)"

fun add_nodes :: "node option list \<Rightarrow> bool \<times> cluster \<Rightarrow> bool \<times> cluster" where
  "add_nodes [] s = s"
| "add_nodes (None # ns) (failed, c) = add_nodes ns (True, c)"
| "add_nodes (Some n # ns) (failed, c) =
     add_nodes ns (failed, (add_member (vm_name (vm n)) n c)\<lparr>state := state_value Allocated\<rparr>)"

text \<open>
  The machines of one environment: the shared storage and the nodes. A cloud that returns
  \<open>None\<close> makes the concatenation \<open>nodes + ephemeral_nodes\<close> raise \<open>TypeError\<close>.
\<close>

definition launch_env :: "'r xbench \<Rightarrow> env_components \<Rightarrow> string list \<Rightarrow> (string, string) dict \<Rightarrow>
    ('r xworld, exn, virtual_storage list \<times> node option list) io" where
  "launch_env X ec provisioned_clouds tmap =
     io_bind (io_lift (open_cloud X ec)) (\<lambda>cl.
     io_seq (if env_cloud (ec_env ec) \<notin> set provisioned_clouds then
               io_bind (co_is_running cl) (\<lambda>r. if r then io_raise XbenchException else io_return ())
             else io_return ())
    (io_bind (co_launch_storage cl (ec_shared_storage ec)) (\<lambda>ss.
     io_bind (if to_launch ec tmap \<noteq> [] then co_launch_instances cl (to_launch ec tmap)
              else io_return (Some [])) (\<lambda>nodes.
     io_bind (if to_fake ec tmap \<noteq> [] then
                io_lift (map_sum id (map Some) (ephemeral_launch_instances (libs X) (home_path X) (xb_cluster_name X)
                  (case region_config ec of VDict rc \<Rightarrow> dget_default rc ''public_ip'' VNone | _ \<Rightarrow> VNone)
                  (to_fake ec tmap)))
              else io_return []) (\<lambda>ephemeral_nodes.
       case nodes of None \<Rightarrow> io_raise PyTypeError | Some ns \<Rightarrow> io_return (ss, ns @ ephemeral_nodes))))))"

text \<open>One environment: \<open>allocate_failed\<close> and the cluster are carried from one to the next.\<close>

definition allocate_env :: "'r xbench \<Rightarrow> env_components \<Rightarrow> string list \<Rightarrow> bool \<times> cluster \<Rightarrow>
    ('r xworld, exn, bool \<times> cluster) io" where
  "allocate_env X ec provisioned_clouds s =
     (case s of (failed, c) \<Rightarrow>
      io_bind (launch_env X ec provisioned_clouds (topo_map c)) (\<lambda>(ss, ns).
        case add_nodes ns (failed, c\<lparr>envs := envs c @ [ec_env ec], shared_storage := ss\<rparr>) of (failed, c) \<Rightarrow>
          if failed then
            io_seq (save_cluster X (c\<lparr>state := state_value Failed\<rparr>) False) (io_raise XbenchException)
          else io_seq (save_cluster X c False) (io_return (failed, c))))"

fun allocate_envs :: "'r xbench \<Rightarrow> env_components list \<Rightarrow> string list \<Rightarrow> bool \<times> cluster \<Rightarrow>
    ('r xworld, exn, unit) io" where
  "allocate_envs X [] provisioned_clouds s = io_return ()"
| "allocate_envs X (ec # ecs) provisioned_clouds s =
     io_bind (allocate_env X ec provisioned_clouds s) (\<lambda>s'.
       allocate_envs X ecs (env_cloud (ec_env ec) # provisioned_clouds) s')"

definition allocate :: "'r xbench \<Rightarrow> env_components list \<Rightarrow> ('r xworld, exn, unit) io" where
  "allocate X ecs =
     io_bind (load_cluster X) (\<lambda>c.
       io_catch [CloudException, NodeException] XbenchException (allocate_envs X ecs [] (False, c)))"

section \<open>Preparation, installation\<close>

definition initialize_metrics :: "env_components \<Rightarrow> ('r xworld, exn, unit) io" where
  "initialize_metrics ec =
     io_bind (io_lift (as_pydict (region_config ec))) (\<lambda>rc.
     io_bind (case dget_default rc ''metric_server'' (VDict []) of
                VDict d \<Rightarrow> io_return d | _ \<Rightarrow> io_raise PyTypeError) (\<lambda>ms.
       io_modify (\<lambda>w. w\<lparr>metrics := metrics_initialize
         (case dget ms ''hostname'' of Some (VStr h) \<Rightarrow> Some h | _ \<Rightarrow> None) (metrics w)\<rparr>)))"

definition make :: "'r xbench \<Rightarrow> env_components list \<Rightarrow> ('r xworld, exn, unit) io" where
  "make X ecs =
     io_catch [CloudException, NodeException] XbenchException
      (io_bind (load_cluster X) (\<lambda>c.
       io_for ecs (\<lambda>ec.
         io_seq (initialize_metrics ec)
           (run_parallel (pool X) (map (\<lambda>n. node_configure (node_envt X) n)
             (filter (\<lambda>n. managed (vm n) \<and> env (vm n) = env_name (ec_env ec)) (dvalues (members c))))))))"

definition self_test :: "'r xbench \<Rightarrow> ('r xworld, exn, unit) io" where
  "self_test X =
     io_catch [NodeException, ShellSSHClientException] XbenchException
      (io_bind (load_cluster X) (\<lambda>c.
       io_for (dvalues (members c)) (\<lambda>n.
         io_when (managed (vm n)) (node_exec (node_envt X) n ''cat /etc/system-release'' False False))))"

definition groups_of_env :: "string \<Rightarrow> (string, node_group) dict \<Rightarrow> node_group list" where
  "groups_of_env e gs = filter (\<lambda>g. g_env g = e) (dvalues gs)"

definition install_errors :: "exn list" where
  "install_errors = [PyValueError, NodeException, ShellSSHClientException, DriverException, BackendException]"

text \<open>
  The backend target that the installs give, through the proxies above the component: for each
  result in the order of completion, the groups whose tree node is the parent.
\<close>

fun through_proxies :: "'r xbench \<Rightarrow> string \<Rightarrow> node_group list \<Rightarrow> backend_target \<Rightarrow> ('r xworld, exn, backend_target) io" where
  "through_proxies X parent [] b = io_return b"
| "through_proxies X parent (g # gs) b =
     (if g_name g = parent \<and> ko_is_proxy (klasses X) (g_klass g)
      then io_bind (ko_post_install (klasses X) (g_klass g) (g_nodes g) b) (through_proxies X parent gs)
      else through_proxies X parent gs b)"

fun final_target :: "'r xbench \<Rightarrow> cluster \<Rightarrow> (string \<times> backend_target option) list \<Rightarrow> backend_target option \<Rightarrow>
    ('r xworld, exn, backend_target option) io" where
  "final_target X c [] b = io_return b"
| "final_target X c ((name, None) # rs) b = final_target X c rs b"
| "final_target X c ((name, Some t) # rs) b =
     io_bind (io_lift (find_node_by_name (tree_lib X) name c)) (\<lambda>my_node.
     io_bind (io_lift (group_nodes_by_name (tree_lib X) (import_klass X) c)) (\<lambda>gs.
       case fst my_node of
         None \<Rightarrow> if gs = [] then final_target X c rs (Some t) else io_raise PyAttributeError
       | Some p \<Rightarrow> io_bind (through_proxies X (tname p) (dvalues gs) t) (\<lambda>t'. final_target X c rs (Some t'))))"

definition no_target :: backend_target where
  "no_target = BackendTarget ''127.0.0.1'' ''user'' ''no value'' ''no_value'' 0"

text \<open>
  The work on the machines: all components are configured environment by environment, then all are
  installed; the result is the backend target of the cluster, if any.
\<close>

definition install_components :: "'r xbench \<Rightarrow> env_components list \<Rightarrow> cluster \<Rightarrow>
    ('r xworld, exn, backend_target option) io" where
  "install_components X ecs c =
     io_seq (io_for ecs (\<lambda>ec.
       io_seq (initialize_metrics ec)
      (io_bind (io_lift (group_nodes_by_name (tree_lib X) (import_klass X) c)) (\<lambda>gs.
         run_parallel (pool X) (map (\<lambda>g. ko_configure (klasses X) (g_klass g) (g_nodes g))
           (groups_of_env (env_name (ec_env ec)) gs))))))
    (io_bind (io_lift (group_nodes_by_name (tree_lib X) (import_klass X) c)) (\<lambda>gs.
     io_bind (run_parallel_returning (pool X) (map (\<lambda>g.
         io_bind (ko_install (klasses X) (g_klass g) (g_nodes g)) (\<lambda>r. io_return (g_name g, r))) (dvalues gs)))
       (\<lambda>completed_installs. final_target X c completed_installs None)))"

definition install :: "'r xbench \<Rightarrow> env_components list \<Rightarrow> ('r xworld, exn, unit) io" where
  "install X ecs =
     io_catch install_errors XbenchException
      (io_bind (load_cluster X) (\<lambda>c.
       io_bind (install_components X ecs c) (\<lambda>b.
         save_cluster X (c\<lparr>bt := (case b of None \<Rightarrow> no_target | Some t \<Rightarrow> t), state := state_value Ready\<rparr>) False)))"

text \<open>Uninstalling: per environment, and the target is cleared and the cluster saved after each.\<close>

definition clean :: "'r xbench \<Rightarrow> env_components list \<Rightarrow> ('r xworld, exn, unit) io" where
  "clean X ecs =
     io_catch install_errors XbenchException
      (io_bind (load_cluster X) (\<lambda>c.
       io_for ecs (\<lambda>ec.
         io_seq (initialize_metrics ec)
        (io_bind (io_lift (group_nodes_by_name (tree_lib X) (import_klass X) c)) (\<lambda>gs.
         io_seq (run_parallel (pool X) (map (\<lambda>g. ko_clean (klasses X) (g_klass g) (g_nodes g))
             (groups_of_env (env_name (ec_env ec)) gs)))
           (save_cluster X (c\<lparr>bt := BackendTarget [] [] [] [] 0\<rparr>) False))))))"

section \<open>Lemmas\<close>

text \<open>What the clouds, the component classes and the nodes leave alone.\<close>

definition cloud_keeps :: "('w \<Rightarrow> bool) \<Rightarrow> 'w cloud_ops \<Rightarrow> bool" where
  "cloud_keeps I C \<longleftrightarrow> io_keeps I (co_is_running C) \<and> (\<forall>ss. io_keeps I (co_launch_storage C ss))
     \<and> (\<forall>ps. io_keeps I (co_launch_instances C ps)) \<and> (\<forall>ns. io_keeps I (co_terminate_instances C ns))
     \<and> (\<forall>ss. io_keeps I (co_terminate_storage C ss)) \<and> (\<forall>ns. io_keeps I (co_start_instances C ns))
     \<and> (\<forall>ns. io_keeps I (co_stop_instances C ns))"

definition klass_keeps :: "('w \<Rightarrow> bool) \<Rightarrow> 'w klass_ops \<Rightarrow> bool" where
  "klass_keeps I K \<longleftrightarrow> (\<forall>k g. io_keeps I (ko_configure K k g) \<and> io_keeps I (ko_install K k g)
     \<and> io_keeps I (ko_clean K k g) \<and> io_keeps I (ko_start K k g) \<and> io_keeps I (ko_stop K k g)
     \<and> (\<forall>b. io_keeps I (ko_post_install K k g b)))"

text \<open>Nothing but the \<open>Xbench\<close> object itself writes the cluster files.\<close>

definition files_are :: "(string \<rightharpoonup> cluster_doc) \<Rightarrow> 'r xworld \<Rightarrow> bool" where
  "files_are F w \<longleftrightarrow> cluster_files w = F"

definition files_private :: "'r xbench \<Rightarrow> bool" where
  "files_private X \<longleftrightarrow> (\<forall>F. klass_keeps (files_are F) (klasses X)
     \<and> remote_keeps (files_are F) (ssh (node_envt X))
     \<and> (\<forall>m w. files_are F w \<longrightarrow> files_are F (put_metrics (node_envt X) m w))
     \<and> (\<forall>cl n rc C. make_cloud X cl n rc = Inr C \<longrightarrow> cloud_keeps (files_are F) C)) \<and> valid_schedule (pool X)"

lemma base_cloud_keeps:
  assumes "valid_schedule S" and "io_keeps I (describe_by_tag P)"
    and "\<forall>t. io_keeps I (describe_instance_type P t)"
    and "\<forall>gc v ps. io_keeps I (comp_create P gc ps) \<and> io_keeps I (comp_destroy P gc v)
      \<and> io_keeps I (comp_stop P gc v) \<and> io_keeps I (comp_start P gc v)"
    and "\<forall>gs s v vo so. io_keeps I (stor_init P gs vo s) \<and> io_keeps I (stor_create P gs so)
      \<and> io_keeps I (stor_attach P gs so v) \<and> io_keeps I (stor_destroy P gs so)"
  shows "cloud_keeps I (base_cloud S P)"
proof -
  have ls: "io_keeps I (launch_storage P v s)" for v s
    unfolding launch_storage_def base_launch_storage_def using assms(5)
    by (auto intro!: io_keeps_try io_keeps_bind io_keeps_seq io_keeps_return io_keeps_lift split: option.split)
  have ts: "io_keeps I (terminate_storage P v s)" for v s
    unfolding terminate_storage_def using assms(5)
    by (auto intro!: io_keeps_bind io_keeps_seq io_keeps_return io_keeps_lift)
  have li: "io_keeps I (launch_instance P ps)" for ps
    unfolding launch_instance_def base_launch_instance_def using assms(3,4)
    by (auto intro!: io_keeps_try io_keeps_bind io_keeps_return io_keeps_lift process_storage_keeps ls)
  show ?thesis
    unfolding cloud_keeps_def base_cloud_def cloud_is_running_def launch_storage_instances_def
      terminate_storage_instances_def process_storage_instances_def launch_instances_def start_instances_def
      stop_instances_def start_instance_def stop_instance_def
    using assms li ls ts
    by (auto intro!: io_keeps_bind io_keeps_return io_keeps_lift io_keeps_map run_parallel_keeps
        terminate_instances_keeps)
qed

lemma initialize_metrics_keeps: "io_keeps (files_are F) (initialize_metrics ec)"
  unfolding initialize_metrics_def
  by (auto intro!: io_keeps_bind io_keeps_lift io_keeps_modify io_keeps_return io_keeps_raise
      simp: files_are_def split: pyval.split)

lemma load_cluster_keeps: "io_keeps I (load_cluster X)"
  by (simp add: io_keeps_def load_cluster_def)

lemma io_catch_keeps: "io_keeps I m \<Longrightarrow> io_keeps I (io_catch cs t m)"
  unfolding io_catch_def by (auto intro!: io_keeps_try io_keeps_raise)

lemma through_proxies_keeps:
  "klass_keeps I (klasses X) \<Longrightarrow> io_keeps I (through_proxies X p gs b)"
  by (induction X p gs b rule: through_proxies.induct)
     (auto intro!: io_keeps_bind io_keeps_return simp: klass_keeps_def)

lemma final_target_keeps:
  "klass_keeps I (klasses X) \<Longrightarrow> io_keeps I (final_target X c rs b)"
  by (induction X c rs b rule: final_target.induct)
     (auto intro!: io_keeps_bind io_keeps_return io_keeps_lift io_keeps_raise through_proxies_keeps
       split: option.split)

lemma install_components_keeps:
  assumes "files_private X"
  shows "io_keeps (files_are F) (install_components X ecs c)"
proof -
  have "klass_keeps (files_are F) (klasses X)" and "valid_schedule (pool X)"
    using assms by (simp_all add: files_private_def)
  then show ?thesis
    unfolding install_components_def
    by (auto intro!: io_keeps_bind io_keeps_seq io_keeps_for io_keeps_lift io_keeps_return run_parallel_keeps
        initialize_metrics_keeps final_target_keeps simp: klass_keeps_def)
qed

lemma node_configure_keeps:
  assumes "remote_keeps I (ssh N)" and "\<And>m w. I w \<Longrightarrow> I (put_metrics N m w)"
  shows "io_keeps I (node_configure N nd)"
proof -
  obtain m :: "('a, exn, unit) io" where
    "node_configure N nd = io_seq m (node_register_metric_target N nd ''node'' ne_port)" and "io_keeps I m"
    using node_configure_split [of N nd] assms(1) by blast
  then show ?thesis
    unfolding node_register_metric_target_def
    using assms(2) by (auto intro!: io_keeps_seq io_keeps_bind io_keeps_lift io_keeps_modify)
qed

lemma install_outcome:
  assumes "files_private X" and "install X ecs w = (r, w')"
  shows "case r of
      Inr _ \<Rightarrow> \<exists>c b. fst (load_cluster X w) = Inr c
        \<and> cluster_files w' = (cluster_files w)(cluster_name c \<mapsto>
            as_dict (py_str (libs X)) (c\<lparr>bt := b, state := state_value Ready\<rparr>))
    | Inl e \<Rightarrow> cluster_files w' = cluster_files w"
proof (cases "fst (load_cluster X w)")
  case (Inl e)
  then have "load_cluster X w = (Inl e, w)" by (simp add: load_cluster_def)
  with assms(2) show ?thesis by (auto simp: install_def io_catch_def io_defs split: if_splits)
next
  case (Inr c)
  then have l: "load_cluster X w = (Inr c, w)" by (simp add: load_cluster_def)
  obtain b v where b: "install_components X ecs c w = (b, v)" by (cases "install_components X ecs c w")
  have "cluster_files v = cluster_files w"
    using io_keepsD [OF install_components_keeps [OF assms(1)], of "cluster_files w" w ecs c] b
    by (simp add: files_are_def)
  with assms(2) l b Inr show ?thesis
    by (cases b) (auto simp: install_def io_catch_def save_cluster_def io_defs split: if_splits)
qed

lemma make_self_test_keep:
  assumes "files_private X"
  shows "io_keeps (files_are F) (make X ecs) \<and> io_keeps (files_are F) (self_test X)"
proof -
  have r: "remote_keeps (files_are F) (ssh (node_envt X))" and s: "valid_schedule (pool X)"
    and p: "\<And>m w. files_are F w \<Longrightarrow> files_are F (put_metrics (node_envt X) m w)"
    using assms by (simp_all add: files_private_def)
  have "io_keeps (files_are F) (make X ecs)"
    unfolding make_def using s
    by (auto intro!: io_catch_keeps io_keeps_bind io_keeps_seq io_keeps_for load_cluster_keeps
        initialize_metrics_keeps run_parallel_keeps node_configure_keeps r p)
  moreover have "io_keeps (files_are F) (self_test X)"
    unfolding self_test_def
    by (auto intro!: io_catch_keeps io_keeps_bind io_keeps_for io_keeps_when load_cluster_keeps node_exec_keeps r)
  ultimately show ?thesis ..
qed

section \<open>Properties\<close>



text \<open>
  How many machines a component gets: for a positive \<open>count\<close> the instances \<open>name-0\<close> to
  \<open>name-(count-1)\<close> are requested, once each; for a count of zero or less, one machine with an empty
  name is requested, because splitting the empty list of names gives one empty name.
\<close>

theorem requested_names:
  assumes "dget (components ec) component = Some p" and "p \<noteq> []" and "CHR '','' \<notin> set component"
  shows "map (\<lambda>q. dget q ''name'') (requested ec [(component, instance_names component n)]) =
    (if n > 0 then map (\<lambda>i. Some (VStr (component @ ''-'' @ str_nat i))) [0..<nat n]
     else [Some (VStr [])])"
proof -
  have name: "dget (instance_params ec component x p) ''name'' = Some (VStr x)" for x
    by (simp add: instance_params_def Let_def)
  have "map (\<lambda>q. dget q ''name'') (requested ec [(component, s)]) =
      map (\<lambda>x. Some (VStr x)) (split_on (CHR '','') s)" for s
  proof -
    obtain p0 ps where "p = p0 # ps" using assms(2) by (cases p) auto
    with assms(1) have "requested ec [(component, s)] =
        map (\<lambda>x. instance_params ec component x p) (split_on (CHR '','') s)"
      by (simp add: requested_def concat_map_singleton)
    then show ?thesis by (simp add: o_def name)
  qed
  moreover have "split_on (CHR '','') (instance_names component n) =
      (if n > 0 then map (\<lambda>i. component @ ''-'' @ str_nat i) [0..<nat n] else [[]])"
  proof -
    have "CHR '','' \<notin> set (component @ ''-'' @ str_nat i)" for i
      using assms(3) str_nat_digits [of "CHR '',''" i] by (auto simp: is_digit_def)
    then show ?thesis by (simp add: instance_names_def split_on_join)
  qed
  ultimately show ?thesis by (simp add: o_def)
qed

lemma io_lift_Inr: "io_lift (Inr x) = io_return x"
  by (rule ext) (simp add: io_defs)

lemma open_cloud_keeps:
  "files_private X \<Longrightarrow> open_cloud X ec = Inr C \<Longrightarrow> cloud_keeps (files_are F) C"
  by (auto simp: open_cloud_def files_private_def split: pyval.splits sum.splits)

lemma launch_env_keeps:
  assumes "files_private X"
  shows "io_keeps (files_are F) (launch_env X ec pc tmap)"
proof (cases "open_cloud X ec")
  case (Inl e)
  then show ?thesis by (simp add: launch_env_def io_defs io_keeps_def)
next
  case (Inr C)
  show ?thesis
    unfolding launch_env_def Inr io_lift_Inr io_bind_return
    using open_cloud_keeps [OF assms Inr, of F]
    by (auto intro!: io_keeps_seq io_keeps_bind io_keeps_return io_keeps_raise io_keeps_lift
        simp: cloud_keeps_def split: option.split)
qed

lemma add_nodes_result:
  "add_nodes ns (f, c) = (f', c') \<Longrightarrow>
     f' = (f \<or> None \<in> set ns) \<and> cluster_name c' = cluster_name c \<and> envs c' = envs c
     \<and> topo_map c' = topo_map c
     \<and> state c' = (if (\<exists>n. Some n \<in> set ns) then state_value Allocated else state c)"
proof (induction ns arbitrary: f c)
  case (Cons x ns)
  then show ?case
    by (cases x) (auto simp: add_member_def dest!: Cons.IH)
qed simp

lemma allocate_env_outcome:
  assumes "files_private X" and "allocate_env X ec pc (False, c) w = (r, w')"
  shows "case r of
      Inr (f, c') \<Rightarrow> f = False \<and> cluster_name c' = cluster_name c \<and> envs c' = envs c @ [ec_env ec]
        \<and> state c' \<in> {state c, state_value Allocated}
        \<and> cluster_files w' = (cluster_files w)(cluster_name c \<mapsto> as_dict (py_str (libs X)) c')
    | Inl e \<Rightarrow> cluster_files w' = cluster_files w
        \<or> e = XbenchException \<and> (\<exists>c'. state c' = state_value Failed \<and> cluster_name c' = cluster_name c
            \<and> cluster_files w' = (cluster_files w)(cluster_name c \<mapsto> as_dict (py_str (libs X)) c'))"
proof -
  obtain x v where x: "launch_env X ec pc (topo_map c) w = (x, v)"
    by (cases "launch_env X ec pc (topo_map c) w")
  have v: "cluster_files v = cluster_files w"
    using io_keepsD [OF launch_env_keeps [OF assms(1)], of "cluster_files w" w ec pc "topo_map c"] x
    by (simp add: files_are_def)
  show ?thesis
  proof (cases x)
    case (Inl e)
    with assms(2) x v show ?thesis by (auto simp: allocate_env_def io_bind_def)
  next
    case (Inr y)
    obtain ss ns where y: "y = (ss, ns)" by (cases y)
    obtain f c' where a: "add_nodes ns (False, c\<lparr>envs := envs c @ [ec_env ec], shared_storage := ss\<rparr>) = (f, c')"
      by (cases "add_nodes ns (False, c\<lparr>envs := envs c @ [ec_env ec], shared_storage := ss\<rparr>)")
    note n = add_nodes_result [OF a]
    show ?thesis
    proof (cases f)
      case True
      with assms(2) x v Inr y a n show ?thesis
        by (auto simp: allocate_env_def io_defs save_cluster_def
            intro!: exI [of _ "c'\<lparr>state := state_value Failed\<rparr>"])
    next
      case False
      with assms(2) x v Inr y a n show ?thesis
        by (auto simp: allocate_env_def io_defs save_cluster_def)
    qed
  qed
qed

lemma allocate_envs_outcome:
  assumes "files_private X"
  shows "allocate_envs X ecs pc (False, c) w = (r, w') \<Longrightarrow>
    \<exists>c'. state c' \<in> {state c, state_value Allocated, state_value Failed}
      \<and> (cluster_files w' = cluster_files w
         \<or> cluster_files w' = (cluster_files w)(cluster_name c \<mapsto> as_dict (py_str (libs X)) c'))
      \<and> (r = Inr () \<longrightarrow> state c' \<in> {state c, state_value Allocated} \<and> envs c' = envs c @ map ec_env ecs
         \<and> (ecs \<noteq> [] \<longrightarrow> cluster_files w' = (cluster_files w)(cluster_name c \<mapsto> as_dict (py_str (libs X)) c')))
      \<and> (state c' \<in> {state c, state_value Allocated} \<or> r = Inl XbenchException)"
proof (induction ecs arbitrary: pc c w)
  case Nil
  then show ?case by (intro exI [of _ c]) (auto simp: io_return_def)
next
  case (Cons ec ecs)
  obtain x v where x: "allocate_env X ec pc (False, c) w = (x, v)"
    by (cases "allocate_env X ec pc (False, c) w")
  note o = allocate_env_outcome [OF assms x]
  show ?case
  proof (cases x)
    case (Inl e)
    with Cons.prems x have rw: "r = Inl e" "w' = v" by (simp_all add: io_bind_def)
    from o Inl consider "cluster_files v = cluster_files w"
      | c' where "e = XbenchException" "state c' = state_value Failed"
          "cluster_files v = (cluster_files w)(cluster_name c \<mapsto> as_dict (py_str (libs X)) c')" by auto
    then show ?thesis
    proof cases
      case 1
      then show ?thesis by (intro exI [of _ c]) (simp add: rw)
    next
      case (2 c')
      then show ?thesis by (intro exI [of _ c']) (simp add: rw)
    qed
  next
    case (Inr y)
    then obtain c1 where y: "y = (False, c1)" and c1: "cluster_name c1 = cluster_name c"
        "envs c1 = envs c @ [ec_env ec]" "state c1 \<in> {state c, state_value Allocated}"
        "cluster_files v = (cluster_files w)(cluster_name c \<mapsto> as_dict (py_str (libs X)) c1)"
      using o by (cases y) auto
    from Cons.prems x Inr y have
      "allocate_envs X ecs (env_cloud (ec_env ec) # pc) (False, c1) v = (r, w')" by (simp add: io_bind_def)
    from Cons.IH [OF this] obtain c' where c': "state c' \<in> {state c1, state_value Allocated, state_value Failed}"
      "cluster_files w' = cluster_files v
         \<or> cluster_files w' = (cluster_files v)(cluster_name c1 \<mapsto> as_dict (py_str (libs X)) c')"
      "r = Inr () \<longrightarrow> state c' \<in> {state c1, state_value Allocated} \<and> envs c' = envs c1 @ map ec_env ecs
         \<and> (ecs \<noteq> [] \<longrightarrow> cluster_files w' = (cluster_files v)(cluster_name c1 \<mapsto> as_dict (py_str (libs X)) c'))"
      "state c' \<in> {state c1, state_value Allocated} \<or> r = Inl XbenchException" by blast
    show ?thesis
    proof (cases "ecs = []")
      case True
      with \<open>allocate_envs X ecs _ (False, c1) v = (r, w')\<close> have "r = Inr ()" "w' = v" by (simp_all add: io_return_def)
      with True c1 show ?thesis by (intro exI [of _ c1]) auto
    next
      case False
      show ?thesis
      proof (cases "cluster_files w' = (cluster_files v)(cluster_name c1 \<mapsto> as_dict (py_str (libs X)) c')")
        case True
        with c' c1 show ?thesis by (intro exI [of _ c']) auto
      next
        case F: False
        with c' have "cluster_files w' = cluster_files v" by blast
        moreover from F c'(3) False have "r \<noteq> Inr ()" by blast
        ultimately show ?thesis using c1 by (intro exI [of _ c1]) auto
      qed
    qed
  qed
qed


text \<open>A bench for the witnesses: the provider of the theory of clouds inside the world.\<close>

definition on_machines :: "('r, exn, 'a) io \<Rightarrow> ('r xworld, exn, 'a) io" where
  "on_machines m w = (case m (machines w) of (r, s) \<Rightarrow> (r, w\<lparr>machines := s\<rparr>))"

lemma on_machines_keeps: "(\<And>w s. I w \<Longrightarrow> I (w\<lparr>machines := s\<rparr>)) \<Longrightarrow> io_keeps I (on_machines m)"
  by (auto simp: io_keeps_def on_machines_def split: prod.splits)

definition demo_xprovider :: "(string list \<times> string list) xworld provider" where
  "demo_xprovider = \<lparr>cloud_kind = GcpCloud, cli = Some GcpCli,
     describe_by_tag = on_machines (describe_by_tag demo_provider),
     describe_instance_type = (\<lambda>t. on_machines (describe_instance_type demo_provider t)),
     comp_create = (\<lambda>gc ps. on_machines (comp_create demo_provider gc ps)),
     comp_destroy = (\<lambda>gc v. on_machines (comp_destroy demo_provider gc v)),
     comp_stop = (\<lambda>gc v. on_machines (comp_stop demo_provider gc v)),
     comp_start = (\<lambda>gc v. on_machines (comp_start demo_provider gc v)),
     stor_init = (\<lambda>gs v s. on_machines (stor_init demo_provider gs v s)),
     stor_create = (\<lambda>gs s. on_machines (stor_create demo_provider gs s)),
     stor_attach = (\<lambda>gs s v. on_machines (stor_attach demo_provider gs s v)),
     stor_destroy = (\<lambda>gs s. on_machines (stor_destroy demo_provider gs s))\<rparr>"

definition demo_klasses :: "'w klass_ops" where
  "demo_klasses = \<lparr>ko_configure = (\<lambda>k g. io_return ()), ko_install = (\<lambda>k g. io_return None),
     ko_post_install = (\<lambda>k g b. io_return b), ko_clean = (\<lambda>k g. io_return ()), ko_start = (\<lambda>k g. io_return ()),
     ko_stop = (\<lambda>k g. io_return ()), ko_is_proxy = (\<lambda>k. False), ko_is_backend = (\<lambda>k. True)\<rparr>"

definition demo_xnode_env :: "'r xworld node_env" where
  "demo_xnode_env = \<lparr>ssh = \<lparr>
       conn_run = (\<lambda>h c t. io_return \<lparr>exit_status = Some 0, rr_stdout = [], rr_stderr = []\<rparr>),
       scp_to = (\<lambda>h l r b. io_return ()), scp_from = (\<lambda>h r l b. io_return ()), sftp_put = (\<lambda>h l r. io_return ()),
       clock = \<lparr>now = (\<lambda>w. 0), sleep = (\<lambda>d w. w)\<rparr>, jitter_draw = (\<lambda>i. i)\<rparr>,
     get_metrics = metrics, put_metrics = (\<lambda>m w. w\<lparr>metrics := m\<rparr>), read_file = (\<lambda>f. io_return []),
     pem_dir = Some ''/pem'', home_dir = ''/xb'', task_order = (\<lambda>n. [0..<n])\<rparr>"

definition demo_xbench :: "(string list \<times> string list) xbench" where
  "demo_xbench = \<lparr>xb_cluster_name = ''perf'', impl_yaml = Inr demo_config, cloud_yaml = Inr demo_config,
     topo_yaml = Inr demo_config, dry_run = False, libs = demo_libs,
     storage_from_dict = (\<lambda>v. Inl PyTypeError), tree_lib = queue_tree, import_klass = demo_importer,
     make_cloud = (\<lambda>cl n rc. Inr (base_cloud demo_schedule demo_xprovider)), klasses = demo_klasses,
     node_envt = demo_xnode_env, pool = demo_schedule, rand = (\<lambda>i. i), home_path = ''/root''\<rparr>"

definition demo_xworld :: "(string list \<times> string list) xworld" where
  "demo_xworld = \<lparr>cluster_files = [''perf'' \<mapsto> as_dict (py_str demo_libs) demo_saved], archive_files = Map.empty,
     metrics = \<lparr>has_ssh_client = False, targets = []\<rparr>, machines = ([], [])\<rparr>"

lemma demo_cloud_keeps:
  "(\<And>w s. I w \<Longrightarrow> I (w\<lparr>machines := s\<rparr>)) \<Longrightarrow> cloud_keeps I (base_cloud demo_schedule demo_xprovider)"
  by (rule base_cloud_keeps) (simp_all add: demo_schedule_valid demo_xprovider_def on_machines_keeps)

lemma demo_xbench_private: "files_private demo_xbench"
proof -
  have "cloud_keeps (files_are F) (base_cloud demo_schedule demo_xprovider)" for F
    by (rule demo_cloud_keeps) (simp add: files_are_def)
  then show ?thesis
    by (auto simp: files_private_def demo_xbench_def demo_klasses_def klass_keeps_def demo_schedule_valid
        remote_keeps_def demo_xnode_env_def files_are_def intro: io_keeps_return)
qed

lemma demo_load:
  "load_cluster demo_xbench demo_xworld =
     (Inr (demo_saved\<lparr>incarnation := None, bt := bt_as_dict (py_str demo_libs) (bt demo_saved)\<rparr>), demo_xworld)"
proof -
  have "load_from_config demo_libs (Some (as_dict (py_str demo_libs) demo_saved)) (Cluster (\<lambda>i. i) ''perf'' ''xpand'')
    = Inr (demo_saved\<lparr>incarnation := None, bt := bt_as_dict (py_str demo_libs) (bt demo_saved)\<rparr>)"
    using load_members_append [of "members demo_saved" demo_libs]
    by (simp add: load_from_config_def as_dict_def load_envs_to_dict demo_saved_def demo_libs_def
        demo_external_def Node_def Cluster_def)
  then show ?thesis
    by (simp add: load_cluster_def demo_xbench_def demo_xworld_def catch_def)
qed



definition demo_env_components :: env_components where
  "demo_env_components = \<lparr>ec_env = \<lparr>env_name = ''env_0'', env_cloud = ''gcp'', env_cloud_klass = ''k'', env_region = ''r''\<rparr>,
     region_config = VDict [(''key_file'', VStr ''k'')],
     components = [(''driver'', [(''count'', VInt 2), (''provisioned'', VBool True)])], ec_shared_storage = []\<rparr>"

theorem requested_names_witness:
  "map (\<lambda>q. dget q ''name'') (requested demo_env_components [(''driver'', instance_names ''driver'' 2)])
     = [Some (VStr ''driver-0''), Some (VStr ''driver-1'')]
   \<and> map (\<lambda>q. dget q ''name'') (requested demo_env_components [(''driver'', instance_names ''driver'' 0)])
     = [Some (VStr [])]"
proof -
  have "str_nat 0 = ''0''" "str_nat 1 = ''1''" by code_simp+
  then show ?thesis
    using requested_names [of demo_env_components "''driver''" "[(''count'', VInt 2), (''provisioned'', VBool True)]" 2]
      requested_names [of demo_env_components "''driver''" "[(''count'', VInt 2), (''provisioned'', VBool True)]" 0]
    by (simp add: demo_env_components_def upt_rec del: str_nat.simps)
qed


text \<open>
  C18. The precedence of component parameters: a value given on the command line wins, then the name of
  the cluster, then the component's own value, then the global default; the value that the
  implementation sets for all its components comes last, so a key that has a global default cannot
  be set there.
\<close>

theorem component_params_precedence:
  assumes "impl_yaml X = Inr y" and "select_key (yaml_config_dict y) impl k = Inr (VDict mine)"
    and "defaults y = VDict d" and "d \<noteq> []" and "\<not> is_empty (VDict (dict_update d mine))"
    and "dict_ok mine" and "dict_ok d"
    and "dget_default extra k (VDict []) = VDict x" and "dict_ok x" and "\<forall>(q, v) \<in> set x. \<not> is_VDict v"
  shows "\<exists>p. component_params X impl common extra k = Inr p \<and> (\<forall>q. dget p q =
    (case dget x q of Some v \<Rightarrow> Some v | None \<Rightarrow>
      if q = ''cluster_name'' then Some (VStr (xb_cluster_name X))
      else (case dget mine q of Some v \<Rightarrow> Some v | None \<Rightarrow>
        (case dget d q of Some v \<Rightarrow> Some v | None \<Rightarrow> dget common q))))"
proof -
  have g: "get_key y impl k True = Inr (VDict (dict_update d mine))"
    using apply_defaults_dict [of d mine] assms(2-5) by (simp add: get_key_def)
  have ext: "dget (extender b z) q = (case dget z q of Some v \<Rightarrow> Some v | None \<Rightarrow> dget b q)"
    if "dict_ok z" "\<forall>(q, v) \<in> set z. \<not> is_VDict v" for b z q
    using that
  proof (induction z arbitrary: b)
    case (Cons a z)
    obtain u v where a: "a = (u, v)" by (cases a)
    with Cons.prems have "\<not> is_VDict v" "u \<notin> fst ` set z" by auto
    then have "extender b (a # z) = extender (dset b u v) z" and "dget z u = None"
      by (cases v; simp add: a dget_None_iff)+
    with Cons show ?case by (auto simp: a split: option.splits)
  qed simp
  have "dict_ok (dict_update d mine)" using assms(7) by simp
  then show ?thesis
    using assms(6,8-10) by (simp add: component_params_def assms(1) g ext Let_def split: option.split)
qed

theorem component_params_precedence_witness:
  "\<exists>p. component_params demo_xbench ''itest'' [(''os_type'', VStr ''Rocky8'')] [] ''driver'' = Inr p
     \<and> dget p ''os_type'' = Some (VStr ''CentOS7'') \<and> dget p ''count'' = Some (VInt 1)"
proof -
  have "impl_yaml demo_xbench = Inr demo_config" by (simp add: demo_xbench_def)
  from component_params_precedence [OF this, of "''itest''" "''driver''" "[(''count'', VInt 1)]"
      "[(''os_type'', VStr ''CentOS7''), (''zone'', VStr ''a'')]" "[]" "[]" "[(''os_type'', VStr ''Rocky8'')]"]
  show ?thesis
    by (auto simp: demo_config_def select_key_def dget_default_def is_empty_def is_empty_simple_key_def)
qed

end
