(* ===== verification/XB_Lifecycle.thy ===== *)
theory XB_Lifecycle
  imports XB_Provisioning
begin

text \<open>
  The commands on an existing cluster: \<^verbatim>\<open>xbench/deprovisioning.py\<close> (\<open>clean\<close> and \<open>nuke\<close>) and
  \<^verbatim>\<open>xbench/cloud_commands.py\<close> (\<open>start_stop_cluster\<close>).
\<close>

section \<open>De-provisioning\<close>

text \<open>\<open>DeProvisioning.__init__\<close>: with \<open>--force\<close> and a cloud the cluster file is not needed.\<close>

definition DeProvisioning :: "'r xbench \<Rightarrow> string option \<Rightarrow> bool \<Rightarrow> ('r xworld, exn, cluster option) io" where
  "DeProvisioning X cl force =
     (if \<not> force \<or> cl = None then io_bind (load_cluster X) (\<lambda>c. io_return (Some c)) else io_return None)"

text \<open>The configuration of a region; \<open>None.get\<close> raises \<open>AttributeError\<close>.\<close>

definition load_region :: "'r xbench \<Rightarrow> string \<Rightarrow> string option \<Rightarrow> exn + pydict" where
  "load_region X cl region =
     (case load_cloud X cl of Inl e \<Rightarrow> Inl e | Inr cc \<Rightarrow>
     (case as_pydict cc of Inl e \<Rightarrow> Inl e | Inr cloud_config \<Rightarrow>
     (case region of None \<Rightarrow> Inl PyAttributeError | Some rg \<Rightarrow>
      as_pydict (dget_default cloud_config rg VNone))))"

definition init_metrics :: "pydict \<Rightarrow> ('r xworld, exn, unit) io" where
  "init_metrics rc =
     io_bind (case dget_default rc ''metric_server'' (VDict []) of
                VDict d \<Rightarrow> io_return d | _ \<Rightarrow> io_raise PyTypeError) (\<lambda>ms.
       io_modify (\<lambda>w. w\<lparr>metrics := metrics_initialize
         (case dget ms ''hostname'' of Some (VStr h) \<Rightarrow> Some h | _ \<Rightarrow> None) (metrics w)\<rparr>))"

definition deregister_metrics :: "string \<Rightarrow> ('r xworld, exn, unit) io" where
  "deregister_metrics name = io_modify (\<lambda>w. w\<lparr>metrics := deregister_cluster name (metrics w)\<rparr>)"

definition nodes_to_terminate :: "cluster \<Rightarrow> string \<Rightarrow> node list" where
  "nodes_to_terminate c e = filter (\<lambda>n. env (vm n) = e \<and> provisioned (vm n)) (dvalues (members c))"

definition clean_env :: "'r xbench \<Rightarrow> cluster \<Rightarrow> environment \<Rightarrow> ('r xworld, exn, unit) io" where
  "clean_env X c e =
     io_bind (io_lift (load_region X (env_cloud e) (Some (env_region e)))) (\<lambda>rc.
     io_seq (init_metrics rc)
    (io_bind (io_lift (create_cloud_from_str (env_cloud e))) (\<lambda>cc.
     io_bind (io_lift (make_cloud X cc (xb_cluster_name X) rc)) (\<lambda>cl.
     io_seq (deregister_metrics (cluster_name c))
    (io_seq (io_when (co_is_persistent cl \<and> \<not> dry_run X)
       (io_bind (io_lift (group_nodes_by_name (tree_lib X) (import_klass X) c)) (\<lambda>gs.
          run_parallel (pool X) (map (\<lambda>g. ko_clean (klasses X) (g_klass g) (g_nodes g))
            (filter (\<lambda>g. g_env g = env_name e \<or> env_name e = ''*'') (dvalues gs))))))
    (io_when (\<not> dry_run X)
       (io_seq (io_when (nodes_to_terminate c (env_name e) \<noteq> [])
                  (co_terminate_instances cl (nodes_to_terminate c (env_name e))))
               (co_terminate_storage cl (shared_storage c)))))))))"

definition deprovision_clean :: "'r xbench \<Rightarrow> cluster \<Rightarrow> ('r xworld, exn, unit) io" where
  "deprovision_clean X c =
     io_seq (save_cluster X c True)
    (io_seq (io_for (envs c) (clean_env X c)) (remove_cluster_yaml X))"

text \<open>The operations of the command-line tool that \<open>nuke\<close> uses.\<close>

record 'w nuke_ops =
  nk_instances :: "('w, exn, pyval list) io"
  nk_volumes :: "('w, exn, pyval list) io"
  nk_terminate :: "pyval list \<Rightarrow> ('w, exn, unit) io"
  nk_wait_terminated :: "pyval list \<Rightarrow> ('w, exn, unit) io"
  nk_delete_volumes :: "pyval list \<Rightarrow> ('w, exn, unit) io"

definition nuke :: "'r xbench \<Rightarrow> (cli_class \<Rightarrow> 'r xworld nuke_ops) \<Rightarrow> string \<Rightarrow> string option \<Rightarrow> ('r xworld, exn, unit) io" where
  "nuke X tools cl region =
     io_bind (io_lift (load_region X cl region)) (\<lambda>rc.
     io_seq (init_metrics rc)
    (io_seq (deregister_metrics (xb_cluster_name X))
    (io_bind (io_lift (create_cli_from_str cl)) (\<lambda>cli.
       case cli of
         None \<Rightarrow> remove_cluster_yaml X
       | Some t \<Rightarrow>
           io_bind (nk_instances (tools t)) (\<lambda>all_instances.
           io_bind (nk_volumes (tools t)) (\<lambda>all_volumes.
             if dry_run X then io_return ()
             else
               io_seq (io_when (all_instances \<noteq> [])
                 (io_seq (nk_terminate (tools t) all_instances) (nk_wait_terminated (tools t) all_instances)))
              (io_seq (io_when (all_volumes \<noteq> []) (nk_delete_volumes (tools t) all_volumes))
                      (remove_cluster_yaml X))))))))"

section \<open>Starting and stopping\<close>

definition stoppable :: "cluster \<Rightarrow> string \<Rightarrow> node list" where
  "stoppable c e = filter (\<lambda>n.
     (case storage (vm n) of None \<Rightarrow> True | Some s \<Rightarrow> vs_type s \<noteq> Some ''ephemeral'') \<and> env (vm n) = e)
     (dvalues (members c))"

fun add_started :: "node option list \<Rightarrow> cluster \<Rightarrow> cluster" where
  "add_started [] c = c"
| "add_started (None # ns) c = add_started ns c"
| "add_started (Some n # ns) c = add_started ns (add_member (vm_name (vm n)) n c)"

definition backend_groups :: "'r xbench \<Rightarrow> cluster \<Rightarrow> exn + node_group list" where
  "backend_groups X c = map_sum id (\<lambda>gs. filter (\<lambda>g. ko_is_backend (klasses X) (g_klass g)) (dvalues gs))
     (group_nodes_by_name (tree_lib X) (import_klass X) c)"

text \<open>One environment; the cluster object is shared by the environments.\<close>

definition start_stop_env :: "'r xbench \<Rightarrow> string \<Rightarrow> environment \<Rightarrow> cluster \<Rightarrow> ('r xworld, exn, cluster) io" where
  "start_stop_env X on_off e c =
     io_bind (io_lift (load_cloud X (env_cloud e))) (\<lambda>cc.
     io_bind (io_lift (as_pydict cc)) (\<lambda>cloud_config.
     io_bind (io_lift (dict_index cloud_config (env_region e))) (\<lambda>rv.
     io_bind (io_lift (case rv of VDict rc \<Rightarrow> Inr rc | _ \<Rightarrow> Inl PyTypeError)) (\<lambda>rc.
     io_bind (io_lift (create_cloud_from_str (env_cloud e))) (\<lambda>kind.
     io_bind (io_lift (make_cloud X kind (xb_cluster_name X) rc)) (\<lambda>cl.
       if on_off = ''start'' then
         (if state c \<noteq> state_value Down then io_raise XbenchException
          else io_bind (co_start_instances cl (stoppable c (env_name e))) (\<lambda>new_instances.
            let c' = (add_started new_instances c)\<lparr>state := state_value Ready\<rparr> in
            io_seq (save_cluster X c' False)
           (io_bind (io_lift (backend_groups X c')) (\<lambda>gs.
            io_seq (io_for gs (\<lambda>g. ko_start (klasses X) (g_klass g) (g_nodes g))) (io_return c')))))
       else if on_off = ''stop'' then
         (if state c \<noteq> state_value Ready then io_raise XbenchException
          else if stoppable c (env_name e) \<noteq> [] then
            (let c' = c\<lparr>state := state_value Down\<rparr> in
             io_bind (io_lift (backend_groups X c)) (\<lambda>gs.
             io_seq (io_for gs (\<lambda>g. ko_stop (klasses X) (g_klass g) (g_nodes g)))
            (io_seq (save_cluster X c' False)
            (io_seq (co_stop_instances cl (stoppable c (env_name e))) (io_return c')))))
          else io_return c)
       else io_return c))))))"

fun start_stop_envs :: "'r xbench \<Rightarrow> string \<Rightarrow> environment list \<Rightarrow> cluster \<Rightarrow> ('r xworld, exn, cluster) io" where
  "start_stop_envs X on_off [] c = io_return c"
| "start_stop_envs X on_off (e # es) c =
     io_bind (start_stop_env X on_off e c) (\<lambda>c'. start_stop_envs X on_off es c')"

definition start_stop_cluster :: "'r xbench \<Rightarrow> string \<Rightarrow> cluster \<Rightarrow> ('r xworld, exn, cluster) io" where
  "start_stop_cluster X on_off c = start_stop_envs X on_off (envs c) c"

section \<open>Lemmas\<close>

text \<open>An invariant that only the cluster files and the metrics server's registration touch.\<close>

definition outside_keeps :: "('r xworld \<Rightarrow> bool) \<Rightarrow> 'r xbench \<Rightarrow> bool" where
  "outside_keeps I X \<longleftrightarrow> klass_keeps I (klasses X) \<and> valid_schedule (pool X)
     \<and> (\<forall>m w. I w \<longrightarrow> I (w\<lparr>metrics := m\<rparr>))
     \<and> (\<forall>cl n rc C. make_cloud X cl n rc = Inr C \<longrightarrow> cloud_keeps I C)"

lemma init_metrics_keeps: "(\<And>m w. I w \<Longrightarrow> I (w\<lparr>metrics := m\<rparr>)) \<Longrightarrow> io_keeps I (init_metrics rc)"
  unfolding init_metrics_def
  by (auto intro!: io_keeps_bind io_keeps_modify io_keeps_return io_keeps_raise split: pyval.split)

lemma io_bind_lift_keeps:
  "(\<And>x. r = Inr x \<Longrightarrow> io_keeps I (f x)) \<Longrightarrow> io_keeps I (io_bind (io_lift r) f)"
  by (cases r) (auto simp: io_keeps_def io_defs)

lemma clean_env_keeps:
  assumes "outside_keeps I X"
  shows "io_keeps I (clean_env X c e)"
proof -
  have m: "I w \<Longrightarrow> I (w\<lparr>metrics := m\<rparr>)" for m w using assms by (simp add: outside_keeps_def)
  have k: "klass_keeps I (klasses X)" and s: "valid_schedule (pool X)"
    using assms by (simp_all add: outside_keeps_def)
  have "cloud_keeps I C" if "make_cloud X cl n rc = Inr C" for cl n rc C
    using assms that by (simp add: outside_keeps_def)
  with k s show ?thesis
    unfolding clean_env_def deregister_metrics_def
    by (intro io_bind_lift_keeps io_keeps_seq init_metrics_keeps m io_keeps_modify io_keeps_when
        run_parallel_keeps) (auto simp: cloud_keeps_def klass_keeps_def)
qed

text \<open>In a dry run nothing but the metrics server is touched.\<close>

lemma clean_env_dry_run:
  assumes "dry_run X" and "\<And>m w. I w \<Longrightarrow> I (w\<lparr>metrics := m\<rparr>)"
  shows "io_keeps I (clean_env X c e)"
  unfolding clean_env_def deregister_metrics_def using assms(1)
  by (intro io_bind_lift_keeps io_keeps_seq init_metrics_keeps assms(2) io_keeps_modify)
     (auto simp: io_when_def intro: io_keeps_return)

section \<open>Properties\<close>


text \<open>
  A dry run of \<open>clean\<close> leaves every machine alone, but it is not dry otherwise: when it returns, the
  cluster file is gone, as after a real one.
\<close>

theorem deprovision_dry_run:
  assumes "dry_run X" and "xb_cluster_name X = cluster_name c" and "deprovision_clean X c w = (r, w')"
  shows "machines w' = machines w \<and> (r = Inr () \<longrightarrow> cluster_files w' (cluster_name c) = None)"
proof -
  obtain v where v: "save_cluster X c True w = (Inr (), v)" and m: "machines v = machines w"
    by (simp add: save_cluster_def io_modify_def)
  obtain x u where u: "io_for (envs c) (clean_env X c) v = (x, u)"
    by (cases "io_for (envs c) (clean_env X c) v")
  have "io_keeps (\<lambda>w. machines w = machines v) (io_for (envs c) (clean_env X c))"
    using assms(1) by (intro io_keeps_for clean_env_dry_run) simp_all
  from io_keepsD [OF this, of v] u m have "machines u = machines w" by simp
  with assms(2,3) v u show ?thesis
    by (cases x) (auto simp: deprovision_clean_def remove_cluster_yaml_def io_defs)
qed

lemma io_bind_lift_fails:
  "(\<And>x. \<exists>ex. f x w = (Inl ex, w)) \<Longrightarrow> \<exists>ex. io_bind (io_lift r) f w = (Inl ex, w)"
  by (cases r) (auto simp: io_defs)

lemma io_bind_Inr: "io_bind m f w = (Inr y, w') \<Longrightarrow> \<exists>x v. m w = (Inr x, v) \<and> f x v = (Inr y, w')"
  by (auto simp: io_bind_def split: prod.splits sum.splits)

lemma io_seq_Inr: "io_seq m n w = (Inr y, w') \<Longrightarrow> \<exists>x v. m w = (Inr x, v) \<and> n v = (Inr y, w')"
  unfolding io_seq_def by (rule io_bind_Inr)

lemma start_stop_guard:
  assumes "on_off = ''start'' \<and> state c \<noteq> state_value Down \<or> on_off = ''stop'' \<and> state c \<noteq> state_value Ready"
  shows "\<exists>ex. start_stop_env X on_off e c w = (Inl ex, w)"
  unfolding start_stop_env_def
  by (intro io_bind_lift_fails) (use assms in \<open>auto simp: io_raise_def\<close>)

lemma start_env_state:
  assumes "start_stop_env X ''start'' e c w = (Inr c', w')"
  shows "state c' = state_value Ready"
  using assms unfolding start_stop_env_def
  by (auto dest!: io_bind_Inr io_seq_Inr simp: io_return_def io_raise_def Let_def split: if_splits)

lemma stop_env_state:
  assumes "start_stop_env X ''stop'' e c w = (Inr c', w')" and "stoppable c (env_name e) \<noteq> []"
  shows "state c' = state_value Down"
  using assms unfolding start_stop_env_def
  by (auto dest!: io_bind_Inr io_seq_Inr simp: io_return_def io_raise_def Let_def split: if_splits)

text \<open>
  C19. Starting and stopping check the state: a cluster that has an environment is only started when it is
  down and only stopped when it is ready; otherwise the command raises and changes nothing.
\<close>

theorem start_stop_checks_state:
  assumes "envs c \<noteq> []"
    and "on_off = ''start'' \<and> state c \<noteq> state_value Down \<or> on_off = ''stop'' \<and> state c \<noteq> state_value Ready"
  shows "\<exists>ex. start_stop_cluster X on_off c w = (Inl ex, w)"
proof -
  obtain e es where e: "envs c = e # es" using assms(1) by (cases "envs c") auto
  obtain ex where "start_stop_env X on_off e c w = (Inl ex, w)" using start_stop_guard [OF assms(2)] by blast
  then show ?thesis by (simp add: start_stop_cluster_def e io_bind_def)
qed

definition demo_two_envs :: cluster where
  "demo_two_envs = demo_saved\<lparr>state := ''down'', envs :=
     [\<lparr>env_name = ''e'', env_cloud = ''gcp'', env_cloud_klass = ''k'', env_region = ''r''\<rparr>,
      \<lparr>env_name = ''e2'', env_cloud = ''gcp'', env_cloud_klass = ''k'', env_region = ''r''\<rparr>]\<rparr>"

theorem start_stop_checks_state_witness:
  "\<exists>ex. start_stop_cluster demo_xbench ''stop'' demo_two_envs demo_xworld = (Inl ex, demo_xworld)"
  by (rule start_stop_checks_state) (simp_all add: demo_two_envs_def)

text \<open>
  A cluster of several environments cannot be started or stopped: the first environment changes the
  state of the cluster, and the check for the second one fails. Starting never returns normally when
  there are two or more environments, and neither does stopping when the first has a machine to stop.
\<close>

theorem start_stop_one_environment_only:
  assumes "envs c = e1 # e2 # es"
    and "on_off = ''start'' \<or> on_off = ''stop'' \<and> stoppable c (env_name e1) \<noteq> []"
  shows "\<exists>ex. fst (start_stop_cluster X on_off c w) = Inl ex"
proof (cases "start_stop_env X on_off e1 c w")
  case (Pair r v)
  show ?thesis
  proof (cases r)
    case (Inl ex)
    with Pair show ?thesis by (simp add: start_stop_cluster_def assms(1) io_bind_def)
  next
    case (Inr c')
    with assms(2) Pair start_env_state [of X e1 c w c' v] stop_env_state [of X e1 c w c' v]
    have "on_off = ''start'' \<and> state c' \<noteq> state_value Down \<or> on_off = ''stop'' \<and> state c' \<noteq> state_value Ready"
      by auto
    then obtain ex where "start_stop_env X on_off e2 c' v = (Inl ex, v)"
      using start_stop_guard [of on_off c' X e2 v] by blast
    with Pair Inr show ?thesis by (simp add: start_stop_cluster_def assms(1) io_bind_def)
  qed
qed

theorem start_stop_one_environment_only_witness:
  "\<exists>ex. fst (start_stop_cluster demo_xbench ''start'' demo_two_envs demo_xworld) = Inl ex"
  by (rule start_stop_one_environment_only) (auto simp: demo_two_envs_def)


theorem deprovision_dry_run_witness:
  "\<exists>w'. deprovision_clean (demo_xbench\<lparr>dry_run := True\<rparr>) demo_saved demo_xworld = (Inr (), w')
     \<and> machines w' = machines demo_xworld \<and> cluster_files w' ''perf'' = None"
proof -
  have c: "cluster_name demo_saved = ''perf''" "envs demo_saved = []" by (simp_all add: demo_saved_def Cluster_def)
  obtain w' where run: "deprovision_clean (demo_xbench\<lparr>dry_run := True\<rparr>) demo_saved demo_xworld = (Inr (), w')"
    by (simp add: deprovision_clean_def c io_defs save_cluster_def remove_cluster_yaml_def)
  have "xb_cluster_name (demo_xbench\<lparr>dry_run := True\<rparr>) = cluster_name demo_saved"
    by (simp add: demo_xbench_def c)
  from deprovision_dry_run [OF _ this run] run show ?thesis by (simp add: c)
qed

end
