(* ===== verification/XB_Process.thy ===== *)
theory XB_Process
  imports XB_Common
begin

text \<open>
  Local processes, \<^verbatim>\<open>compute/run_subprocess.py\<close>, and the base of the vendors' command-line
  tools, \<^verbatim>\<open>cloud/abstract_cli.py\<close>. The operating system is a parameter: how a process ends.

  The callers of the tools look into the text of an exception (\<open>if "..." in str(e)\<close>), so here an error is a
  pair of the class and its text; \<open>drop_text\<close> forgets the text where nobody looks.
\<close>

section \<open>Local processes\<close>

text \<open>How a process ends: it times out and is killed, there is no such program, or it exits.\<close>

datatype process_end = Timed_Out | No_Program | Exited string string int

record 'w os_shell =
  popen :: "string \<Rightarrow> bool \<Rightarrow> nat option \<Rightarrow> 'w \<Rightarrow> process_end \<times> 'w"
  shell_var :: "string option"
  path_exists :: "'w \<Rightarrow> string \<Rightarrow> bool"

definition DEFAULT_TIMEOUT :: nat where "DEFAULT_TIMEOUT = 5 * 60"

text \<open>
  \<open>RunSubprocess._run\<close>: standard output, standard error and the exit code, which is zero. (The text of
  \<open>FileNotFoundError\<close> is left out; a shell is always found.)
\<close>

definition run_process_text :: "'w os_shell \<Rightarrow> string \<Rightarrow> nat option \<Rightarrow> bool \<Rightarrow>
    ('w, exn \<times> string, string \<times> string \<times> int) io" where
  "run_process_text S cmd timeout as_shell =
     (case shell_var S of
        None \<Rightarrow> io_raise (PyKeyError, ''SHELL'')
      | Some sh \<Rightarrow> (\<lambda>w.
          case popen S cmd (as_shell \<and> \<not> contains_str sh ''.exe'') timeout w of
            (Timed_Out, w') \<Rightarrow> (Inl (TimeoutException, ''Command '' @ cmd @ '' timed out after ''
                @ (case timeout of None \<Rightarrow> ''None'' | Some n \<Rightarrow> str_nat n) @ '' seconds''), w')
          | (No_Program, w') \<Rightarrow> (Inl (CommandException, ''Command '' @ cmd @ '' failed with: ''), w')
          | (Exited out err code, w') \<Rightarrow>
              (if code \<noteq> 0 then Inl (CommandException, ''Command '' @ cmd @ '' failed with '' @ err @ '', error code '' @ str_int code)
               else Inr (out, err, code), w')))"

definition drop_text :: "('w, exn \<times> string, 'a) io \<Rightarrow> ('w, exn, 'a) io" where
  "drop_text m w = (case m w of (r, w') \<Rightarrow> (map_sum fst id r, w'))"

definition run_process :: "'w os_shell \<Rightarrow> string \<Rightarrow> nat option \<Rightarrow> bool \<Rightarrow> ('w, exn, string \<times> string \<times> int) io" where
  "run_process S cmd timeout as_shell = drop_text (run_process_text S cmd timeout as_shell)"

text \<open>\<open>except c as e: h(e)\<close> where the handler looks at the text.\<close>

definition io_except :: "('w, exn \<times> string, 'a) io \<Rightarrow> exn \<Rightarrow> (string \<Rightarrow> ('w, exn, 'a) io) \<Rightarrow> ('w, exn, 'a) io" where
  "io_except m c h w =
     (case m w of
        (Inl (e, t), w') \<Rightarrow> (if isinstance_exn e c then h t w' else (Inl e, w'))
      | (Inr x, w') \<Rightarrow> (Inr x, w'))"

section \<open>Command-line tools\<close>

text \<open>\<open>' '.join(s.split())\<close>.\<close>

definition squeeze :: "string \<Rightarrow> string" where
  "squeeze s = join '' '' (filter (\<lambda>x. x \<noteq> [])
     (split_on (CHR '' '') (map (\<lambda>c. if is_space c then CHR '' '' else c) s)))"

definition CLI_DEFAULT_TIMEOUT :: nat where "CLI_DEFAULT_TIMEOUT = 600"

text \<open>What \<open>AbstractCli\<close> keeps: the text put before each command, and whether output on standard error is a failure.\<close>

record cli_base =
  base_command :: string
  check_stderr :: bool

definition cli_run_with :: "'w os_shell \<Rightarrow> cli_base \<Rightarrow> string \<Rightarrow> nat \<Rightarrow> bool \<Rightarrow> bool \<Rightarrow> ('w, exn \<times> string, string) io" where
  "cli_run_with S B cmd timeout as_shell use_base w =
     (case run_process_text S (squeeze (if use_base then base_command B @ '' '' @ cmd else cmd)) (Some timeout) as_shell w of
        (Inl (e, t), w') \<Rightarrow>
          (Inl (if isinstance_exn e ProcessExecutionException then (CloudCliException, ''CLI command failed with '' @ t) else (e, t)), w')
      | (Inr (out, err, code), w') \<Rightarrow>
          (if code \<noteq> 0 \<or> check_stderr B \<and> err \<noteq> [] then Inl (CloudCliException, ''CLI command failed with '' @ err)
           else Inr out, w'))"

abbreviation cli_run :: "'w os_shell \<Rightarrow> cli_base \<Rightarrow> string \<Rightarrow> ('w, exn \<times> string, string) io" where
  "cli_run S B cmd \<equiv> cli_run_with S B cmd CLI_DEFAULT_TIMEOUT True True"

section \<open>Answers\<close>

text \<open>
  What the tools print is JSON. \<open>v[0]\<close>, \<open>v.get(k)\<close> and \<open>for x in v\<close> of a value; a value that stands
  where a text is expected is taken as its text (\<open>text_of\<close>, with \<open>str\<close> as a parameter).
\<close>

definition first_item :: "pyval \<Rightarrow> exn + pyval" where
  "first_item v = (case v of VList (x # xs) \<Rightarrow> Inr x | VList [] \<Rightarrow> Inl PyIndexError | VDict d \<Rightarrow> Inl PyKeyError | _ \<Rightarrow> Inl PyTypeError)"

definition val_get :: "pyval \<Rightarrow> string \<Rightarrow> exn + pyval" where
  "val_get v k = (case v of VDict d \<Rightarrow> Inr (dget_default d k VNone) | _ \<Rightarrow> Inl PyAttributeError)"

definition items_of :: "pyval \<Rightarrow> exn + pyval list" where
  "items_of v = (case v of VList xs \<Rightarrow> Inr xs | VDict d \<Rightarrow> Inr (map VStr (dkeys d)) | VStr s \<Rightarrow> Inr (map (\<lambda>c. VStr [c]) s) | _ \<Rightarrow> Inl PyTypeError)"

definition text_of :: "(pyval \<Rightarrow> string) \<Rightarrow> pyval \<Rightarrow> string" where
  "text_of show v = (case v of VStr s \<Rightarrow> s | _ \<Rightarrow> show v)"

section \<open>Lemmas\<close>

lemma run_process_raises:
  "run_process_text S cmd timeout sh w = (Inl (e, t), w') \<Longrightarrow>
     isinstance_exn e ProcessExecutionException \<or> shell_var S = None \<and> e = PyKeyError"
  by (auto simp: run_process_text_def io_defs isinstance_eval split: option.splits process_end.splits prod.splits if_splits)

text \<open>The only error of a tool is \<open>CloudCliException\<close>, once the environment has a shell.\<close>

lemma cli_run_raises:
  "shell_var S \<noteq> None \<Longrightarrow> cli_run_with S B cmd timeout sh base w = (Inl (e, t), w') \<Longrightarrow> e = CloudCliException"
  using run_process_raises [of S _ "Some timeout" sh w]
  by (fastforce simp: cli_run_with_def split: prod.splits sum.splits if_splits)

lemma run_process_keeps:
  assumes "\<And>w c sh t. I w \<Longrightarrow> I (snd (popen S c sh t w))"
  shows "io_keeps I (run_process_text S cmd timeout as_shell)"
proof (rule io_keepsI)
  fix w assume "I w"
  then have "I w'" if "popen S c sh t w = (r, w')" for c sh t r w' using assms that by (metis snd_conv)
  then show "I (snd (run_process_text S cmd timeout as_shell w))"
    using \<open>I w\<close> by (auto simp: run_process_text_def io_defs split: option.split process_end.split prod.split)
qed

lemma cli_run_keeps [io_inv_intros]:
  assumes "\<And>w c sh t. I w \<Longrightarrow> I (snd (popen S c sh t w))"
  shows "io_keeps I (cli_run_with S B cmd timeout sh base)"
proof (rule io_keepsI)
  fix w assume "I w"
  have "io_keeps I (run_process_text S c (Some t) h)" for c t h by (rule run_process_keeps) (rule assms)
  from io_keepsD [OF this \<open>I w\<close>]
  have "I (snd (run_process_text S (squeeze (if base then base_command B @ '' '' @ cmd else cmd)) (Some timeout) sh w))" .
  then show "I (snd (cli_run_with S B cmd timeout sh base w))"
    unfolding cli_run_with_def by (auto simp del: if_split split: prod.split sum.split)
qed

lemma drop_text_keeps [io_inv_intros]: "io_keeps I m \<Longrightarrow> io_keeps I (drop_text m)"
  by (auto simp: io_keeps_def drop_text_def split: prod.splits)

lemma io_except_keeps [io_inv_intros]:
  "io_keeps I m \<Longrightarrow> (\<And>t. io_keeps I (h t)) \<Longrightarrow> io_keeps I (io_except m c h)"
  by (auto simp: io_keeps_def io_except_def split: prod.splits sum.splits)

end
