(* ===== verification/XB_Sysbench.thy ===== *)
theory XB_Sysbench
  imports XB_Node
begin

text \<open>
  \<^verbatim>\<open>benchmark/sysbench/sysbench_runner.py\<close>: the parser of sysbench reports, the data check, the
  command line with its SSL options, the run of one thread count under the retry decorator and the
  loop over repeats and thread counts.

  The decimal numbers of a report are rationals (Python reads them into floats). jinja2, the database
  connection and pandas (the tables of results) are parameters.
\<close>

section \<open>Patterns\<close>

text \<open>
  The regular expressions, as readers of the line: each gives the captured text and the rest. The
  repetitions are greedy, and what follows each of them cannot start with a character it takes.
\<close>

definition read_lit :: "string \<Rightarrow> string \<Rightarrow> string option" where
  "read_lit p s = (if startswith s p then Some (drop (length p) s) else None)"

definition read_digits :: "string \<Rightarrow> (string \<times> string) option" where
  "read_digits s = (if takeWhile is_digit s = [] then None else Some (takeWhile is_digit s, dropWhile is_digit s))"

text \<open>\<^verbatim>\<open>\s+\<close>, and \<^verbatim>\<open>\s+\<close> followed by a blank: two white-space characters, the last a blank.\<close>

definition read_spaces :: "string \<Rightarrow> string option" where
  "read_spaces s = (if takeWhile is_space s = [] then None else Some (dropWhile is_space s))"

definition read_spaces_blank :: "string \<Rightarrow> string option" where
  "read_spaces_blank s =
     (if length (takeWhile is_space s) \<ge> 2 \<and> last (takeWhile is_space s) = CHR '' ''
      then Some (dropWhile is_space s) else None)"

definition decimal_value :: "string \<Rightarrow> string \<Rightarrow> rat" where
  "decimal_value a b = of_nat (nat_of_digits a) + of_nat (nat_of_digits b) / 10 ^ length b"

text \<open>\<^verbatim>\<open>(\d+\.\d+)\<close> and \<^verbatim>\<open>(\d+)\<close>, through \<open>float\<close>.\<close>

definition read_decimal :: "string \<Rightarrow> (rat \<times> string) option" where
  "read_decimal s =
     Option.bind (read_digits s) (\<lambda>(a, s).
     Option.bind (read_lit ''.'' s) (\<lambda>s.
     Option.bind (read_digits s) (\<lambda>(b, s). Some (decimal_value a b, s))))"

definition read_number :: "string \<Rightarrow> (rat \<times> string) option" where
  "read_number s = map_option (\<lambda>(a, s). (of_nat (nat_of_digits a), s)) (read_digits s)"

definition re_histogram :: "string \<Rightarrow> (rat \<times> rat) option" where
  "re_histogram s =
     Option.bind (read_lit ''Histogram latency (avg/stddev): '' s) (\<lambda>s.
     Option.bind (read_decimal s) (\<lambda>(a, s).
     Option.bind (read_lit '' / '' s) (\<lambda>s.
     Option.bind (read_decimal s) (\<lambda>(b, s). Some (a, b)))))"

definition re_threads :: "string \<Rightarrow> rat option" where
  "re_threads s = Option.bind (read_lit ''Number of threads: '' s) (\<lambda>s. map_option fst (read_number s))"

definition re_transactions :: "string \<Rightarrow> (rat \<times> rat) option" where
  "re_transactions s =
     Option.bind (read_lit ''transactions:'' s) (\<lambda>s.
     Option.bind (read_spaces_blank s) (\<lambda>s.
     Option.bind (read_number s) (\<lambda>(n, s).
     Option.bind (read_spaces s) (\<lambda>s.
     Option.bind (read_lit ''('' s) (\<lambda>s.
     Option.bind (read_decimal s) (\<lambda>(t, s). Some (n, t)))))))"

definition re_queries :: "string \<Rightarrow> rat option" where
  "re_queries s =
     Option.bind (read_lit ''queries:'' s) (\<lambda>s.
     Option.bind (read_spaces_blank s) (\<lambda>s.
     Option.bind (read_number s) (\<lambda>(n, s).
     Option.bind (read_spaces s) (\<lambda>s.
     Option.bind (read_lit ''('' s) (\<lambda>s. map_option fst (read_decimal s))))))"

definition re_errors :: "string \<Rightarrow> rat option" where
  "re_errors s =
     Option.bind (read_lit ''ignored errors:'' s) (\<lambda>s.
     Option.bind (read_spaces_blank s) (\<lambda>s. map_option fst (read_number s)))"

definition re_p95 :: "string \<Rightarrow> rat option" where
  "re_p95 s =
     Option.bind (read_lit ''95th percentile:'' s) (\<lambda>s.
     Option.bind (read_spaces s) (\<lambda>s. map_option fst (read_decimal s)))"

text \<open>The pattern of the sum is not anchored: the first place where it matches.\<close>

definition re_sum_here :: "string \<Rightarrow> rat option" where
  "re_sum_here s =
     Option.bind (read_lit ''sum:'' s) (\<lambda>s.
     Option.bind (read_spaces_blank s) (\<lambda>s. map_option fst (read_decimal s)))"

fun re_sum :: "string \<Rightarrow> rat option" where
  "re_sum [] = None"
| "re_sum (c # cs) = (case re_sum_here (c # cs) of Some v \<Rightarrow> Some v | None \<Rightarrow> re_sum cs)"

section \<open>The parser\<close>

text \<open>\<open>StringIO(s).readlines()\<close>: the lines with their newline; the last may have none.\<close>

definition readlines :: "string \<Rightarrow> string list" where
  "readlines s =
     (let ps = split_on newline s in
      map (\<lambda>p. p @ [newline]) (butlast ps) @ (if last ps = [] then [] else [last ps]))"

record report =
  thds :: rat
  tps :: rat
  qps :: rat
  avg :: rat
  stddev :: rat
  transactions :: rat
  total_response_time :: rat
  p95_latency :: rat
  errors :: rat
  seen_latency :: bool
  seen_sql_statistics :: bool

definition report0 :: report where
  "report0 = \<lparr>thds = 0, tps = 0, qps = 0, avg = 0, stddev = 0, transactions = 0, total_response_time = 0,
     p95_latency = 0, errors = 0, seen_latency = False, seen_sql_statistics = False\<rparr>"

definition or_zero :: "rat option \<Rightarrow> rat" where
  "or_zero x = (case x of None \<Rightarrow> 0 | Some v \<Rightarrow> v)"

definition is_fatal :: "string \<Rightarrow> bool" where
  "is_fatal l \<longleftrightarrow> startswith l ''FATAL:'' \<or> startswith l ''Segmentation fault''"

text \<open>The conditionals of the loop body, in order.\<close>

definition mark_sections :: "string \<Rightarrow> report \<Rightarrow> report" where
  "mark_sections l r =
     (if startswith l ''SQL statistics:'' then r\<lparr>seen_sql_statistics := True\<rparr>
      else if startswith l ''Latency (ms):'' then r\<lparr>seen_latency := True\<rparr> else r)"

definition read_histogram :: "string \<Rightarrow> report \<Rightarrow> report" where
  "read_histogram l r =
     (if startswith l ''Histogram latency'' then
        r\<lparr>avg := or_zero (map_option fst (re_histogram l)), stddev := or_zero (map_option snd (re_histogram l))\<rparr>
      else r)"

definition read_threads :: "string \<Rightarrow> report \<Rightarrow> report" where
  "read_threads l r =
     (if \<not> seen_sql_statistics r \<and> startswith l ''Number of threads'' then r\<lparr>thds := or_zero (re_threads l)\<rparr> else r)"

definition read_statistics :: "string \<Rightarrow> report \<Rightarrow> report" where
  "read_statistics l r =
     (if seen_sql_statistics r \<and> \<not> seen_latency r then
        (if startswith l ''transactions:'' then
           r\<lparr>transactions := or_zero (map_option fst (re_transactions l)),
             tps := or_zero (map_option snd (re_transactions l))\<rparr>
         else if startswith l ''queries:'' then r\<lparr>qps := or_zero (re_queries l)\<rparr>
         else if startswith l ''ignored errors:'' then r\<lparr>errors := or_zero (re_errors l)\<rparr>
         else r)
      else r)"

definition read_latency :: "string \<Rightarrow> report \<Rightarrow> report" where
  "read_latency l r =
     (if seen_latency r then
        (if startswith l ''95th'' then r\<lparr>p95_latency := or_zero (re_p95 l)\<rparr>
         else if startswith l ''sum:'' then r\<lparr>total_response_time := or_zero (re_sum l)\<rparr>
         else r)
      else r)"

definition parse_line :: "string \<Rightarrow> report \<Rightarrow> report" where
  "parse_line l r =
     read_latency l (read_statistics l (read_threads l (read_histogram l (mark_sections l r))))"

fun parse_lines :: "string list \<Rightarrow> report \<Rightarrow> exn + report" where
  "parse_lines [] r = Inr r"
| "parse_lines (l # ls) r = (if is_fatal l then Inl SysbenchFatalException else parse_lines ls (parse_line l r))"

type_synonym sysbench_result = "rat \<times> rat \<times> rat \<times> rat \<times> rat \<times> rat \<times> rat \<times> rat"

definition report_tuple :: "report \<Rightarrow> sysbench_result" where
  "report_tuple r = (thds r, tps r, qps r, stddev r, transactions r, total_response_time r, p95_latency r, errors r)"

definition parse_output :: "string \<Rightarrow> exn + sysbench_result" where
  "parse_output s =
     (case parse_lines (readlines s) report0 of
        Inl e \<Rightarrow> Inl e
      | Inr r \<Rightarrow> if \<not> tps r > 0 then Inl SysbenchOutputParseException else Inr (report_tuple r))"

section \<open>The data check\<close>

text \<open>
  \<open>row_num\<close> answers \<open>select count(*)\<close> of a table. The percentage of deviation is the float that
  Python computes for \<open>abs(1 - actual / desired) * 100\<close>: a parameter. \<open>tables\<close> and the sizes are
  integers.
\<close>

definition tpcc_scale_factors :: "int \<Rightarrow> (string \<times> int) list" where
  "tpcc_scale_factors SCALE = [(''customer'', SCALE * 30000), (''district'', SCALE * 10), (''item'', 100000),
     (''warehouse'', SCALE)]"

definition ERROR_PCT :: rat where
  "ERROR_PCT = 5"

definition table_numbers :: "int \<Rightarrow> nat list" where
  "table_numbers tables = [1..<Suc (nat tables)]"

definition check_oltp_table :: "(string \<Rightarrow> ('w, exn, int) io) \<Rightarrow> int \<Rightarrow> nat \<Rightarrow> ('w, exn, unit) io" where
  "check_oltp_table row_num desired_rows k =
     io_bind (row_num (''sbtest'' @ str_nat k)) (\<lambda>actual_rows.
       if actual_rows \<noteq> desired_rows then io_raise BenchmarkException else io_return ())"

definition check_tpcc_table :: "(string \<Rightarrow> ('w, exn, int) io) \<Rightarrow> (int \<Rightarrow> int \<Rightarrow> rat) \<Rightarrow> nat \<Rightarrow> string \<times> int \<Rightarrow>
    ('w, exn, unit) io" where
  "check_tpcc_table row_num err_pct i kv =
     (case kv of (k, desired_rows) \<Rightarrow>
      io_bind (row_num (k @ str_nat i)) (\<lambda>actual_rows.
        if desired_rows = 0 then io_raise PyZeroDivisionError
        else if err_pct actual_rows desired_rows > ERROR_PCT then io_raise BenchmarkException
        else io_return ()))"

definition data_check :: "('w, exn, unit) io \<Rightarrow> (string \<Rightarrow> ('w, exn, int) io) \<Rightarrow> (int \<Rightarrow> int \<Rightarrow> rat) \<Rightarrow>
    string \<Rightarrow> int \<Rightarrow> int \<Rightarrow> int \<Rightarrow> ('w, exn, unit) io" where
  "data_check db_connect row_num err_pct lua tables table_size scale =
     io_seq (io_when (startswith lua ''oltp'')
       (io_seq db_connect (io_for (table_numbers tables) (check_oltp_table row_num table_size))))
    (io_when (startswith lua ''tpcc'')
       (io_seq db_connect (io_for (table_numbers tables) (\<lambda>i.
          io_for (tpcc_scale_factors scale) (check_tpcc_table row_num err_pct i)))))"

section \<open>The command line\<close>

text \<open>The SSL options: \<open>ssl\<close> is the dictionary of the target (\<open>None\<close> or empty: no SSL).\<close>

definition ssl_mode :: "pydict option \<Rightarrow> string \<Rightarrow> exn + string" where
  "ssl_mode ssl dialect =
     (case ssl of
        None \<Rightarrow> Inr []
      | Some [] \<Rightarrow> Inr []
      | Some (x # xs) \<Rightarrow>
          (if dialect = ''mysql'' then
             (case dget_default (x # xs) ''ssl_ca'' VNone of
                VStr f \<Rightarrow>
                  Inr (''--mysql-ssl=on '' @ (if f = [] then [] else ''--mysql-ssl-ca=$XBENCH_HOME/certs/''
                    @ rev (takeWhile (\<lambda>c. c \<noteq> CHR ''/'') (rev f))))
              | v \<Rightarrow> if truthy v then Inl PyTypeError else Inr ''--mysql-ssl=on '')
           else Inr ''--pgsql-sslmode=verifa-ca''))"

text \<open>
  The templates are rendered by jinja2: a parameter that maps a template (\<open>None\<close> when the entry is
  missing) and its variables to the text, or \<open>None\<close> for an undefined variable.
\<close>

definition evaluate_command :: "(pyval \<Rightarrow> pydict \<Rightarrow> string option) \<Rightarrow> pydict \<Rightarrow> pydict \<Rightarrow> pydict option \<Rightarrow> string \<Rightarrow>
    string \<Rightarrow> pydict \<Rightarrow> exn + string" where
  "evaluate_command render workload_config kwargs ssl dialect cmd extra =
     (case ssl_mode ssl dialect of Inl e \<Rightarrow> Inl e | Inr mode \<Rightarrow>
     (case render (dget_default workload_config ''connection'' VNone)
             (dict_update kwargs [(''ssl_mode'', VStr mode)]) of
        None \<Rightarrow> Inl SysbenchException
      | Some connection_cmd \<Rightarrow>
          (case render (dget_default workload_config cmd VNone)
                  (dict_update (dict_update kwargs extra) [(''connection'', VStr connection_cmd)]) of
             None \<Rightarrow> Inl SysbenchException
           | Some c \<Rightarrow> Inr c)))"

section \<open>One thread count\<close>

text \<open>
  The runner: its hosts, the command line for a thread count, the time limits, and the writing of a
  raw output file.
\<close>

record 'w sysbench =
  hosts :: "ssh_client list"
  command_for :: "int \<Rightarrow> exn + string"
  time_arg :: int
  warmup_time :: int
  save_output :: "string \<Rightarrow> string \<Rightarrow> ('w, exn, unit) io"
  artifact_dir :: string
  workload_name :: string

definition run_thread_policy :: retry_policy where
  "run_thread_policy = \<lparr>exceptions_to_check =
       [NodeException, SysbenchOutputParseException, SshClientTimeoutException, SysbenchFatalException],
     exception_to_raise = BenchmarkException, max_delay = 600\<rparr>"

definition no_args :: "string \<Rightarrow> unit \<Rightarrow> exn + string" where
  "no_args c a = Inr c"

definition run_thread_once :: "'w node_env \<Rightarrow> 'w sysbench \<Rightarrow> int \<Rightarrow> int \<Rightarrow> ('w, exn, sysbench_result list) io" where
  "run_thread_once N B t r =
     io_bind (pssh_run (ssh N) (task_order N) no_args (hosts B) (CmdStr ''pkill -9 sysbench || true'') 30 False None False) (\<lambda>_.
     io_bind (io_lift (command_for B t)) (\<lambda>run_command.
     io_bind (pssh_run (ssh N) (task_order N) no_args (hosts B)
         (CmdStr (run_command @ '' | /xbench/workload-exporter/bin/sysbench_parser.sh''))
         (time_arg B + warmup_time B + 30) False None False) (\<lambda>outs.
       io_map outs (\<lambda>host_output.
         let sysbench_output = dget_default host_output ''stdout'' [];
             file_name = path_join (artifact_dir B) (dget_default host_output ''hostname'' ''None'' @ ''_''
               @ workload_name B @ ''_'' @ str_int r @ ''_'' @ str_int t @ ''.out'')
         in io_seq (save_output B file_name sysbench_output) (io_lift (parse_output sysbench_output))))))"

definition run_thread :: "'w node_env \<Rightarrow> 'w sysbench \<Rightarrow> int \<Rightarrow> int \<Rightarrow> ('w, exn, sysbench_result list) io" where
  "run_thread N B t r =
     retry (clock (ssh N)) run_thread_policy (jitter_delays (jitter_draw (ssh N)) 3 3 30) (run_thread_once N B t r)"

section \<open>The run\<close>

text \<open>
  The command line evaluated for the log, the hooks of the backend (nothing when they are not
  configured), the sleep between thread counts and the tables written at the end of
  a repeat and at the end of the run are parameters.
\<close>

record 'w run_hooks =
  log_command :: "exn + string"
  pre_workload :: "('w, exn, unit) io"
  pre_thread :: "('w, exn, unit) io"
  pause :: "('w, exn, unit) io"
  save_repeat :: "int \<Rightarrow> sysbench_result list \<Rightarrow> ('w, exn, unit) io"
  save_summary :: "('w, exn, unit) io"

text \<open>\<open>int(t / num_drivers)\<close> rounds towards zero.\<close>

definition per_driver :: "int \<Rightarrow> nat \<Rightarrow> int" where
  "per_driver t num_drivers = (if t < 0 then - ((- t) div int num_drivers) else t div int num_drivers)"

definition run_thread_counts :: "'w run_hooks \<Rightarrow> nat \<Rightarrow> (int \<Rightarrow> int \<Rightarrow> ('w, exn, sysbench_result list) io) \<Rightarrow> int list \<Rightarrow>
    int \<Rightarrow> ('w, exn, sysbench_result list) io" where
  "run_thread_counts H num_drivers rt threads r =
     io_bind (io_map threads (\<lambda>t.
       io_seq (pause H) (io_seq (pre_thread H)
         (if num_drivers = 0 then io_raise PyZeroDivisionError else rt (per_driver t num_drivers) r))))
       (\<lambda>rs. io_return (concat rs))"

definition run_repeats :: "'w run_hooks \<Rightarrow> nat \<Rightarrow> (int \<Rightarrow> int \<Rightarrow> ('w, exn, sysbench_result list) io) \<Rightarrow> int list \<Rightarrow>
    nat \<Rightarrow> ('w, exn, unit) io" where
  "run_repeats H num_drivers rt threads repeats =
     io_for (map int [1..<Suc repeats]) (\<lambda>r.
       io_seq (pre_workload H)
      (io_bind (run_thread_counts H num_drivers rt threads r) (\<lambda>results. save_repeat H r results)))"

text \<open>
  \<open>try / except BenchmarkException / finally\<close>: the summary is written unless a
  \<open>BenchmarkException\<close> was caught; after any other exception it is written too, and the exception
  goes on.
\<close>

definition sysbench_run :: "'w run_hooks \<Rightarrow> nat \<Rightarrow> (int \<Rightarrow> int \<Rightarrow> ('w, exn, sysbench_result list) io) \<Rightarrow> int list \<Rightarrow>
    nat \<Rightarrow> ('w, exn, unit) io" where
  "sysbench_run H num_drivers rt threads repeats w =
     (case log_command H of Inl e \<Rightarrow> (Inl e, w) | Inr _ \<Rightarrow>
     (case run_repeats H num_drivers rt threads repeats w of
        (Inr _, w') \<Rightarrow> save_summary H w'
      | (Inl e, w') \<Rightarrow>
          (if isinstance_exn e BenchmarkException then (Inl BenchmarkException, w')
           else case save_summary H w' of (Inl e', w'') \<Rightarrow> (Inl e', w'') | (Inr _, w'') \<Rightarrow> (Inl e, w''))))"

definition get_scale_string :: "(pyval \<Rightarrow> string) \<Rightarrow> pydict \<Rightarrow> string" where
  "get_scale_string show kwargs =
     show (dget_default kwargs ''tables'' VNone) @ ''x'' @
     show (dget_default kwargs (if dget_default kwargs ''bench'' VNone = VStr ''oltp'' then ''table_size'' else ''scale'') VNone)"

section \<open>Lemmas\<close>

lemma parse_lines_outcome:
  "parse_lines ls r = (if \<exists>l \<in> set ls. is_fatal l then Inl SysbenchFatalException else Inr (fold parse_line ls r))"
  by (induction ls r rule: parse_lines.induct) auto

lemma takeWhile_digits:
  "list_all is_digit a \<Longrightarrow> \<not> is_digit c \<Longrightarrow>
     takeWhile is_digit (a @ c # s) = a \<and> dropWhile is_digit (a @ c # s) = c # s"
  by (induction a) auto

lemma read_digits_ok:
  "list_all is_digit a \<Longrightarrow> a \<noteq> [] \<Longrightarrow> \<not> is_digit c \<Longrightarrow> read_digits (a @ c # s) = Some (a, c # s)"
  by (simp add: read_digits_def takeWhile_digits)

lemma read_number_ok:
  "list_all is_digit a \<Longrightarrow> a \<noteq> [] \<Longrightarrow> \<not> is_digit c \<Longrightarrow>
     read_number (a @ c # s) = Some (of_nat (nat_of_digits a), c # s)"
  by (simp add: read_number_def read_digits_ok)

lemma read_decimal_ok:
  assumes "list_all is_digit a" "a \<noteq> []" "list_all is_digit b" "b \<noteq> []" "\<not> is_digit c"
  shows "read_decimal (a @ CHR ''.'' # b @ c # s) = Some (decimal_value a b, c # s)"
proof -
  have "\<not> is_digit (CHR ''.'')" by (simp add: is_digit_def)
  with assms show ?thesis
    by (simp add: read_decimal_def read_digits_ok read_lit_def startswith_def)
qed

lemma not_space_digit: "is_digit c \<Longrightarrow> \<not> is_space c"
  by (cases c) (auto simp: is_digit_def is_space_def)

lemma readlines_printed:
  assumes "\<forall>l \<in> set ls. newline \<notin> set l"
  shows "readlines (concat (map (\<lambda>l. l @ [newline]) ls)) = map (\<lambda>l. l @ [newline]) ls"
proof -
  have "split_on newline (concat (map (\<lambda>l. l @ [newline]) ls)) = ls @ [[]]"
    using assms by (induction ls) (simp_all add: split_on_append)
  then show ?thesis by (simp add: readlines_def)
qed

section \<open>Properties\<close>

text \<open>
  What the parser makes of an output: a line that starts with \<open>FATAL:\<close> or \<open>Segmentation fault\<close>
  anywhere gives \<open>SysbenchFatalException\<close>; otherwise every line is read in order, and the result is
  the tuple of values when the transactions per second are positive, and
  \<open>SysbenchOutputParseException\<close> when they are not. Nothing else is raised, whatever the text.
\<close>

theorem parse_output_outcome:
  "parse_output s =
     (if \<exists>l \<in> set (readlines s). is_fatal l then Inl SysbenchFatalException
      else let r = fold parse_line (readlines s) report0 in
        if tps r > 0 then Inr (report_tuple r) else Inl SysbenchOutputParseException)"
  by (simp add: parse_output_def parse_lines_outcome Let_def)

text \<open>A report as it reaches the parser, with its numbers as digit strings.\<close>

record printed_report =
  pr_threads :: string
  pr_transactions :: string
  pr_tps :: "string \<times> string"
  pr_queries :: string
  pr_qps :: "string \<times> string"
  pr_errors :: string
  pr_p95 :: "string \<times> string"
  pr_sum :: "string \<times> string"
  pr_avg :: "string \<times> string"
  pr_stddev :: "string \<times> string"

definition decimal :: "string \<times> string \<Rightarrow> string" where
  "decimal d = fst d @ ''.'' @ snd d"

definition report_lines :: "printed_report \<Rightarrow> string list" where
  "report_lines p = [
     ''Number of threads: '' @ pr_threads p,
     ''SQL statistics:'',
     ''transactions:      '' @ pr_transactions p @ '' ('' @ decimal (pr_tps p) @ '' per sec.)'',
     ''queries:           '' @ pr_queries p @ '' ('' @ decimal (pr_qps p) @ '' per sec.)'',
     ''ignored errors:    '' @ pr_errors p @ '' (0.00 per sec.)'',
     ''Latency (ms):'',
     ''95th percentile:   '' @ decimal (pr_p95 p),
     ''sum:               '' @ decimal (pr_sum p),
     ''Histogram latency (avg/stddev): '' @ decimal (pr_avg p) @ '' / '' @ decimal (pr_stddev p)]"

definition print_report :: "printed_report \<Rightarrow> string" where
  "print_report p = concat (map (\<lambda>l. l @ [newline]) (report_lines p))"

definition digits :: "string \<Rightarrow> bool" where
  "digits s \<longleftrightarrow> s \<noteq> [] \<and> list_all is_digit s"

definition digits2 :: "string \<times> string \<Rightarrow> bool" where
  "digits2 d \<longleftrightarrow> digits (fst d) \<and> digits (snd d)"

definition wf_report :: "printed_report \<Rightarrow> bool" where
  "wf_report p \<longleftrightarrow> digits (pr_threads p) \<and> digits (pr_transactions p) \<and> digits2 (pr_tps p) \<and> digits (pr_queries p)
     \<and> digits2 (pr_qps p) \<and> digits (pr_errors p) \<and> digits2 (pr_p95 p) \<and> digits2 (pr_sum p) \<and> digits2 (pr_avg p)
     \<and> digits2 (pr_stddev p)"

subsection \<open>Round trip\<close>

lemma read_lit_Cons: "read_lit (p # ps) (x # xs) = (if x = p then read_lit ps xs else None)"
  by (simp add: read_lit_def startswith_simps)

lemma read_lit_Nil: "read_lit [] s = Some s"
  by (simp add: read_lit_def startswith_simps)

lemma digits_cases: "digits s \<Longrightarrow> \<exists>c cs. s = c # cs \<and> is_digit c \<and> list_all is_digit cs"
  by (cases s) (auto simp: digits_def)

lemma is_space_simps: "is_space (CHR '' '')" "\<not> is_space (CHR ''('')"
  by (simp_all add: is_space_def)

lemma spaces_then_digits:
  assumes "digits a"
  shows "read_spaces (CHR '' '' # a @ s) = Some (a @ s)"
    and "takeWhile is_space (CHR '' '' # CHR '' '' # a @ s) = [CHR '' '', CHR '' '']"
    and "takeWhile is_space (a @ s) = []" and "dropWhile is_space (a @ s) = a @ s"
proof -
  obtain c cs where "a = c # cs" and "\<not> is_space c"
    using digits_cases [OF assms] not_space_digit by blast
  then show "read_spaces (CHR '' '' # a @ s) = Some (a @ s)"
    and "takeWhile is_space (CHR '' '' # CHR '' '' # a @ s) = [CHR '' '', CHR '' '']"
    and "takeWhile is_space (a @ s) = []" and "dropWhile is_space (a @ s) = a @ s"
    by (simp_all add: read_spaces_def is_space_simps)
qed

lemma not_digit_simps: "\<not> is_digit (CHR '' '')" "\<not> is_digit newline" "\<not> is_digit (CHR ''.'')"
  by (simp_all add: is_digit_def)

lemma printed_number: "digits a \<Longrightarrow> \<not> is_digit c \<Longrightarrow> read_number (a @ c # s) = Some (of_nat (nat_of_digits a), c # s)"
  by (simp add: digits_def read_number_ok)

definition dec :: "string \<times> string \<Rightarrow> rat" where
  "dec d = decimal_value (fst d) (snd d)"

lemma printed_decimal: "digits2 d \<Longrightarrow> \<not> is_digit c \<Longrightarrow> read_decimal (decimal d @ c # s) = Some (dec d, c # s)"
  by (simp add: digits2_def digits_def decimal_def dec_def read_decimal_ok)

lemma decimal_starts: "digits2 d \<Longrightarrow> \<exists>a. digits a \<and> (\<exists>s. decimal d = a @ s)"
  by (auto simp: digits2_def decimal_def)

lemma spaces_then_decimal:
  assumes "digits2 d"
  shows "takeWhile is_space (decimal d @ s) = []" and "dropWhile is_space (decimal d @ s) = decimal d @ s"
  using decimal_starts [OF assms] by (auto simp: spaces_then_digits)

lemmas scan_rules = read_lit_Cons read_lit_Nil read_spaces_def read_spaces_blank_def spaces_then_digits spaces_then_decimal
  is_space_simps not_digit_simps printed_number printed_decimal

lemma re_threads_printed: "digits a \<Longrightarrow> re_threads (''Number of threads: '' @ a @ [newline]) = Some (of_nat (nat_of_digits a))"
  by (simp add: re_threads_def scan_rules)

lemma re_transactions_printed:
  "digits a \<Longrightarrow> digits2 d \<Longrightarrow> re_transactions (''transactions:      '' @ a @ '' ('' @ decimal d @ '' per sec.)'' @ s)
     = Some (of_nat (nat_of_digits a), dec d)"
  by (simp add: re_transactions_def scan_rules)

lemma re_queries_printed:
  "digits a \<Longrightarrow> digits2 d \<Longrightarrow> re_queries (''queries:           '' @ a @ '' ('' @ decimal d @ '' per sec.)'' @ s) = Some (dec d)"
  by (simp add: re_queries_def scan_rules)

lemma re_errors_printed:
  "digits a \<Longrightarrow> re_errors (''ignored errors:    '' @ a @ '' (0.00 per sec.)'' @ s) = Some (of_nat (nat_of_digits a))"
  by (simp add: re_errors_def scan_rules)

lemma re_p95_printed: "digits2 d \<Longrightarrow> re_p95 (''95th percentile:   '' @ decimal d @ [newline]) = Some (dec d)"
  by (simp add: re_p95_def scan_rules)

lemma re_sum_printed: "digits2 d \<Longrightarrow> re_sum (''sum:               '' @ decimal d @ [newline]) = Some (dec d)"
  by (simp add: re_sum_here_def scan_rules)

lemma re_histogram_printed:
  "digits2 d \<Longrightarrow> digits2 d' \<Longrightarrow>
     re_histogram (''Histogram latency (avg/stddev): '' @ decimal d @ '' / '' @ decimal d' @ [newline]) = Some (dec d, dec d')"
  by (simp add: re_histogram_def scan_rules)

lemmas line_rules = parse_line_def mark_sections_def read_histogram_def read_threads_def read_statistics_def
  read_latency_def startswith_simps or_zero_def

text \<open>The line of the report that each conditional reads, and that no other conditional takes.\<close>

lemma parse_threads_line:
  "digits a \<Longrightarrow> \<not> seen_sql_statistics r \<Longrightarrow> \<not> seen_latency r \<Longrightarrow>
     parse_line (''Number of threads: '' @ a @ [newline]) r = r\<lparr>thds := of_nat (nat_of_digits a)\<rparr>"
  using re_threads_printed [of a] by (simp add: line_rules)

lemma parse_section_lines:
  "\<not> seen_latency r \<Longrightarrow> parse_line (''SQL statistics:'' @ [newline]) r = r\<lparr>seen_sql_statistics := True\<rparr>"
  "parse_line (''Latency (ms):'' @ [newline]) r = r\<lparr>seen_latency := True\<rparr>"
  by (simp_all add: line_rules)

lemma parse_statistics_lines:
  assumes "seen_sql_statistics r" and "\<not> seen_latency r" and "digits a"
  shows "digits2 d \<Longrightarrow> parse_line (''transactions:      '' @ a @ '' ('' @ decimal d @ '' per sec.)'' @ [newline]) r
      = r\<lparr>transactions := of_nat (nat_of_digits a), tps := dec d\<rparr>"
    and "digits2 d \<Longrightarrow> parse_line (''queries:           '' @ a @ '' ('' @ decimal d @ '' per sec.)'' @ [newline]) r
      = r\<lparr>qps := dec d\<rparr>"
    and "parse_line (''ignored errors:    '' @ a @ '' (0.00 per sec.)'' @ [newline]) r
      = r\<lparr>errors := of_nat (nat_of_digits a)\<rparr>"
  using assms re_transactions_printed [of a d "[newline]"] re_queries_printed [of a d "[newline]"]
    re_errors_printed [of a "[newline]"]
  by (simp_all add: line_rules)

lemma parse_latency_lines:
  assumes "seen_latency r" and "digits2 d"
  shows "parse_line (''95th percentile:   '' @ decimal d @ [newline]) r = r\<lparr>p95_latency := dec d\<rparr>"
    and "parse_line (''sum:               '' @ decimal d @ [newline]) r = r\<lparr>total_response_time := dec d\<rparr>"
  using assms re_p95_printed [of d] re_sum_printed [of d] by (simp_all add: line_rules)

lemma parse_histogram_line:
  "seen_sql_statistics r \<Longrightarrow> digits2 d \<Longrightarrow> digits2 d' \<Longrightarrow>
     parse_line (''Histogram latency (avg/stddev): '' @ decimal d @ '' / '' @ decimal d' @ [newline]) r
       = r\<lparr>avg := dec d, stddev := dec d'\<rparr>"
  using re_histogram_printed [of d d'] by (simp add: line_rules)

definition printed_values :: "printed_report \<Rightarrow> report" where
  "printed_values p = \<lparr>thds = of_nat (nat_of_digits (pr_threads p)), tps = dec (pr_tps p), qps = dec (pr_qps p),
     avg = dec (pr_avg p), stddev = dec (pr_stddev p), transactions = of_nat (nat_of_digits (pr_transactions p)),
     total_response_time = dec (pr_sum p), p95_latency = dec (pr_p95 p), errors = of_nat (nat_of_digits (pr_errors p)),
     seen_latency = True, seen_sql_statistics = True\<rparr>"

lemma fold_parse_printed:
  assumes "wf_report p"
  shows "fold parse_line (map (\<lambda>l. l @ [newline]) (report_lines p)) report0 = printed_values p"
  using assms
  by (simp add: wf_report_def report_lines_def report0_def printed_values_def
      parse_threads_line parse_section_lines parse_statistics_lines parse_latency_lines parse_histogram_line
      del: append.simps append_Cons append_Nil)

lemma report_not_fatal: "l \<in> set (report_lines p) \<Longrightarrow> \<not> is_fatal (l @ s)"
  by (auto simp: report_lines_def is_fatal_def startswith_simps)

lemma report_no_newline:
  assumes "wf_report p" and "l \<in> set (report_lines p)"
  shows "newline \<notin> set l"
proof -
  have a: "newline \<notin> set a" if "digits a" for a
    using that not_digit_simps(2) by (auto simp: digits_def list_all_iff)
  have d: "newline \<notin> set (decimal x)" if "digits2 x" for x
    using that a by (simp add: digits2_def decimal_def)
  from assms(1) have "\<forall>x \<in> {pr_tps p, pr_qps p, pr_p95 p, pr_sum p, pr_avg p, pr_stddev p}. newline \<notin> set (decimal x)"
    and "\<forall>x \<in> {pr_threads p, pr_transactions p, pr_queries p, pr_errors p}. newline \<notin> set x"
    using a d by (simp_all add: wf_report_def)
  with assms(2) show ?thesis by (auto simp: report_lines_def)
qed


definition demo_report :: printed_report where
  "demo_report = \<lparr>pr_threads = ''8'', pr_transactions = ''1200'', pr_tps = (''40'', ''05''), pr_queries = ''24000'',
     pr_qps = (''800'', ''5''), pr_errors = ''0'', pr_p95 = (''12'', ''30''), pr_sum = (''9000'', ''0''),
     pr_avg = (''7'', ''5''), pr_stddev = (''1'', ''25'')\<rparr>"


section \<open>Failures of one thread count\<close>

text \<open>
  A failure of the parallel client ends the run at once: when a driver does not carry out the clean-up
  command or the run command, \<open>run_thread\<close> raises \<open>BenchmarkException\<close> after that one attempt,
  without a pause and without another try, because \<open>PsshClientException\<close> is not among the classes
  its decorator checks.
\<close>

theorem run_thread_pssh_failure:
  assumes "run_thread_once N B t r w = (Inl PsshClientException, w')"
  shows "run_thread N B t r w = (Inl BenchmarkException, w')"
proof -
  have "retry_delays (jitter_delays (jitter_draw (ssh N)) 3 3 30)" by (rule jitter_delays_ok) simp_all
  from retry_single_failure [of "run_thread_once N B t r" w, OF assms _ _ _ this, where p = run_thread_policy]
  show ?thesis by (simp add: run_thread_def run_thread_policy_def isinstance_eval)
qed

definition demo_sysbench :: "string list sysbench" where
  "demo_sysbench = \<lparr>hosts = [demo_client ''n1''], command_for = (\<lambda>t. Inr ''false''), time_arg = 10, warmup_time = 0,
     save_output = (\<lambda>f s w. (Inr (), f # w)), artifact_dir = ''/a'', workload_name = ''w''\<rparr>"

definition demo_failing_env :: "string list node_env" where
  "demo_failing_env = demo_node_env\<lparr>ssh := demo_env\<lparr>conn_run := (\<lambda>h c t w. (Inl PyConnectionError, (h @ '': '' @ c) # w))\<rparr>,
     task_order := (\<lambda>n. [0..<n])\<rparr>"

theorem run_thread_pssh_failure_witness:
  "run_thread demo_failing_env demo_sysbench 4 1 [] = (Inl BenchmarkException, [''n1: pkill -9 sysbench || true''])"
proof (rule run_thread_pssh_failure)
  have c: "clean_cmd (CmdStr ''pkill -9 sysbench || true'') = ''pkill -9 sysbench || true''"
    by (simp add: clean_cmd_def strip_def lstrip_def is_space_def is_linebreak_def)
  show "run_thread_once demo_failing_env demo_sysbench 4 1 [] = (Inl PsshClientException, [''n1: pkill -9 sysbench || true''])"
    unfolding run_thread_once_def pssh_run_def c
    by (simp add: run_clients_def gather_def io_defs run_client_def demo_failing_env_def demo_sysbench_def
        demo_env_def demo_client_def remote_command_def Let_def is_linebreak_def isinstance_eval)
qed

section \<open>The data check\<close>

lemma io_for_check:
  assumes "\<And>x. x \<in> set xs \<Longrightarrow> f x w = (if P x then Inr () else Inl (e x), w)"
  shows "io_for xs f w = (case find (\<lambda>x. \<not> P x) xs of None \<Rightarrow> Inr () | Some x \<Rightarrow> Inl (e x), w)"
  using assms by (induction xs) (simp_all add: io_defs)

lemma io_for_check_iff:
  assumes "\<And>x. x \<in> set xs \<Longrightarrow> f x w = (if P x then Inr () else Inl e, w)"
  shows "io_for xs f w = (if \<forall>x \<in> set xs. P x then Inr () else Inl e, w)"
  using io_for_check [of xs f w P "\<lambda>_. e", OF assms]
  by (auto simp: find_None_iff find_Some_iff split: option.splits)

text \<open>
  The data check after loading: with the row counts \<open>n\<close> of the tables, it returns exactly when the
  data are as ordered, and otherwise raises \<open>BenchmarkException\<close>. For an \<open>oltp\<close> workload every
  table \<open>sbtest1 \<dots> sbtest<tables>\<close> must have exactly \<open>table_size\<close> rows; for \<open>tpcc\<close> with a scale
  above zero every table of every set may deviate by the tolerated percentage; any other workload
  passes unchecked.
\<close>

theorem data_check_spec:
  assumes "\<forall>s w. row_num s w = (Inr (n s), w)" and "db_connect w = (Inr (), w')" and "0 < scale"
  shows "fst (data_check db_connect row_num err_pct lua tables table_size scale w) =
    (if startswith lua ''oltp'' then
       (if \<forall>k. 1 \<le> k \<and> int k \<le> tables \<longrightarrow> n (''sbtest'' @ str_nat k) = table_size then Inr () else Inl BenchmarkException)
     else if startswith lua ''tpcc'' then
       (if \<forall>i. 1 \<le> i \<and> int i \<le> tables \<longrightarrow> (\<forall>(k, rows) \<in> set (tpcc_scale_factors scale).
             err_pct (n (k @ str_nat i)) rows \<le> ERROR_PCT)
        then Inr () else Inl BenchmarkException)
     else Inr ())"
proof -
  have nums: "k \<in> set (table_numbers tables) \<longleftrightarrow> 1 \<le> k \<and> int k \<le> tables" for k
    by (auto simp: table_numbers_def)
  have oltp: "io_for (table_numbers tables) (check_oltp_table row_num table_size) w' =
      (if \<forall>k \<in> set (table_numbers tables). n (''sbtest'' @ str_nat k) = table_size then Inr () else Inl BenchmarkException, w')"
    using assms(1) by (intro io_for_check_iff) (simp add: check_oltp_table_def io_defs)
  have "io_for (tpcc_scale_factors scale) (check_tpcc_table row_num err_pct i) w' =
      (if \<forall>(k, rows) \<in> set (tpcc_scale_factors scale). err_pct (n (k @ str_nat i)) rows \<le> ERROR_PCT
       then Inr () else Inl BenchmarkException, w')" for i
    using assms(1,3)
    by (intro io_for_check_iff) (auto simp: check_tpcc_table_def io_defs tpcc_scale_factors_def)
  then have tpcc: "io_for (table_numbers tables) (\<lambda>i. io_for (tpcc_scale_factors scale) (check_tpcc_table row_num err_pct i)) w' =
      (if \<forall>i \<in> set (table_numbers tables). \<forall>(k, rows) \<in> set (tpcc_scale_factors scale).
          err_pct (n (k @ str_nat i)) rows \<le> ERROR_PCT then Inr () else Inl BenchmarkException, w')"
    by (rule io_for_check_iff)
  have one: "\<not> (startswith lua ''oltp'' \<and> startswith lua ''tpcc'')"
    by (cases lua) (auto simp: startswith_simps)
  show ?thesis
    unfolding data_check_def
    using one by (auto simp: io_defs io_when_def assms(2) oltp tpcc nums Ball_def split: if_splits)
qed

theorem data_check_spec_witness:
  "fst (data_check (io_return ()) (\<lambda>s w. (Inr (if s = ''sbtest2'' then 99 else 100), w)) (\<lambda>a d. 0) ''oltp_read_only'' 2 100 1 ())
     = Inl BenchmarkException"
proof -
  let ?rows = "\<lambda>s (w :: unit). (Inr (if s = ''sbtest2'' then 99 else 100 :: int), w)"
  have "str_nat 2 = ''2''" by (simp add: str_nat.simps digit_chars_def)
  then have "\<not> (\<forall>k. 1 \<le> k \<and> int k \<le> 2 \<longrightarrow> (if ''sbtest'' @ str_nat k = ''sbtest2'' then 99 else 100 :: int) = 100)"
    by (auto intro: exI [of _ 2])
  then show ?thesis
    using data_check_spec [of ?rows "\<lambda>s. if s = ''sbtest2'' then 99 else 100" "io_return ()" "()" "()" 1
        "\<lambda>a d. 0" "''oltp_read_only''" 2 100]
    by (simp add: io_return_def startswith_simps)
qed

end
