(* ===== verification/XB_Sql.thy ===== *)
theory XB_Sql
  imports XB_Node
begin

text \<open>
  The database clients \<^verbatim>\<open>lib/mysql_client/mysql_client.py\<close> and \<^verbatim>\<open>lib/pgsql_client/pgsql_client.py\<close>,
  and the classes that the backends derive from them: \<^verbatim>\<open>backend/base_mysql_backend.py\<close> and
  \<^verbatim>\<open>backend/base_pgsql_backend.py\<close>.

  The drivers pymysql and psycopg2 are parameters: what a connection attempt, a statement and a fetch
  do to the world and what they return or raise. The cursor of a client is \<open>None\<close> until
  \<open>connect\<close> has succeeded; using it before raises \<open>AttributeError\<close>.
\<close>

section \<open>The clients\<close>

record 'w sql_lib =
  lib_connect :: "pydict \<Rightarrow> ('w, exn, unit) io"
  lib_execute :: "string \<Rightarrow> ('w, exn, unit) io"
  lib_fetchone :: "('w, exn, pydict option) io"
  lib_fetchall :: "('w, exn, pydict list) io"
  rownumber :: "'w \<Rightarrow> int"
  rowcount :: "'w \<Rightarrow> int"
  has_cursor :: "'w \<Rightarrow> bool"
  set_cursor :: "'w \<Rightarrow> 'w"
  sql_clock :: "'w os_clock"
  sql_draw :: "nat \<Rightarrow> nat"

text \<open>
  The constructors. \<open>accepted\<close> are the names of the parameters of \<open>pymysql.connect\<close>;
  \<open>roundrobin\<close> gives the first host of the list of hosts.
\<close>

definition sql_hosts :: "pydict \<Rightarrow> exn + string list" where
  "sql_hosts kwargs = (case dget_default kwargs ''host'' VNone of
     VStr h \<Rightarrow> Inr (split_on (CHR '','') h) | _ \<Rightarrow> Inl PyAttributeError)"

definition MySqlClient :: "string list \<Rightarrow> (string list \<Rightarrow> string) \<Rightarrow> pydict \<Rightarrow> exn + pydict" where
  "MySqlClient accepted roundrobin kwargs =
     (case sql_hosts kwargs of Inl e \<Rightarrow> Inl e | Inr hs \<Rightarrow>
        Inr (dset (dset (filter (\<lambda>(k, v). k \<in> set accepted) kwargs) ''host'' (VStr (roundrobin hs)))
          ''cursorclass'' (VObj ''DictCursor'')))"

definition PgSqlClient :: "(string list \<Rightarrow> string) \<Rightarrow> pydict \<Rightarrow> exn + pydict" where
  "PgSqlClient roundrobin kwargs =
     (case sql_hosts kwargs of Inl e \<Rightarrow> Inl e | Inr hs \<Rightarrow>
        Inr (dset (dset (filter (\<lambda>(k, v). k \<in> set [''host'', ''port'', ''user'', ''password'', ''database'', ''connect_timeout'']) kwargs)
          ''host'' (VStr (roundrobin hs))) ''cursor_factory'' (VObj ''RealDictCursor'')))"

text \<open>
  The policies of the decorated methods. (\<open>OperationalError\<close>, which two of them name as well, is an
  \<open>Error\<close> in both drivers.)
\<close>

definition sql_policy :: "exn \<Rightarrow> exn \<Rightarrow> retry_policy" where
  "sql_policy checked target = \<lparr>exceptions_to_check = [checked], exception_to_raise = target, max_delay = 300\<rparr>"

text \<open>The bodies of the methods; \<open>prog\<close> is the driver's \<open>ProgrammingError\<close>.\<close>

definition with_cursor :: "'w sql_lib \<Rightarrow> ('w, exn, 'a) io \<Rightarrow> ('w, exn, 'a) io" where
  "with_cursor L m w = (if has_cursor L w then m w else (Inl PyAttributeError, w))"

definition fetch_one :: "'w sql_lib \<Rightarrow> string \<Rightarrow> ('w, exn, pydict option) io" where
  "fetch_one L query =
     with_cursor L (io_bind (lib_execute L query) (\<lambda>_.
       io_bind (lib_fetchone L) (\<lambda>row w. (Inr (if rownumber L w > 0 then row else Some []), w))))"

definition fetch_all :: "'w sql_lib \<Rightarrow> string \<Rightarrow> ('w, exn, pydict list) io" where
  "fetch_all L query = with_cursor L (io_bind (lib_execute L query) (\<lambda>_. lib_fetchall L))"

definition execute_once :: "'w sql_lib \<Rightarrow> string \<Rightarrow> ('w, exn, int) io" where
  "execute_once L query = with_cursor L (io_bind (lib_execute L query) (\<lambda>_ w. (Inr (rowcount L w), w)))"

definition mysql_connect :: "'w sql_lib \<Rightarrow> pydict \<Rightarrow> ('w, exn, unit) io" where
  "mysql_connect L params =
     retry (sql_clock L) (sql_policy PyMySqlError MySqlConnectionException) (jitter_delays (sql_draw L) 3 10 10)
       (io_seq (lib_connect L params) (io_modify (set_cursor L)))"

definition mysql_select_one_row :: "'w sql_lib \<Rightarrow> string \<Rightarrow> ('w, exn, pydict option) io" where
  "mysql_select_one_row L query =
     retry (sql_clock L) (sql_policy PyMySqlError MySqlClientException) (jitter_delays (sql_draw L) 3 10 10)
       (io_catch [PyMySqlProgrammingError] MySqlInvalidQueryException (fetch_one L query))"

definition mysql_select_all_rows :: "'w sql_lib \<Rightarrow> string \<Rightarrow> ('w, exn, pydict list) io" where
  "mysql_select_all_rows L query =
     retry (sql_clock L) (sql_policy PyMySqlError MySqlClientException) (jitter_delays (sql_draw L) 3 3 10)
       (io_catch [PyMySqlProgrammingError] MySqlInvalidQueryException (fetch_all L query))"

definition mysql_execute :: "'w sql_lib \<Rightarrow> string \<Rightarrow> ('w, exn, int) io" where
  "mysql_execute L query =
     retry (sql_clock L) (sql_policy PyMySqlError MySqlClientException) (jitter_delays (sql_draw L) 5 15 60)
       (io_catch [PyMySqlProgrammingError] MySqlInvalidQueryException (execute_once L query))"

text \<open>
  The PostgreSQL client differs in the driver's classes, and in that \<open>connect\<close> names Python's own
  \<open>ConnectionError\<close> as the exception to raise.
\<close>

definition pgsql_connect :: "'w sql_lib \<Rightarrow> pydict \<Rightarrow> ('w, exn, unit) io" where
  "pgsql_connect L params =
     retry (sql_clock L) (sql_policy Psycopg2Error PyConnectionError) (jitter_delays (sql_draw L) 3 10 10)
       (io_seq (lib_connect L params) (io_modify (set_cursor L)))"

definition pgsql_select_one_row :: "'w sql_lib \<Rightarrow> string \<Rightarrow> ('w, exn, pydict option) io" where
  "pgsql_select_one_row L query =
     retry (sql_clock L) (sql_policy Psycopg2Error PgSqlClientException) (jitter_delays (sql_draw L) 3 10 10)
       (io_catch [Psycopg2ProgrammingError] PgSqlInvalidQueryException (fetch_one L query))"

definition pgsql_select_all_rows :: "'w sql_lib \<Rightarrow> string \<Rightarrow> ('w, exn, pydict list) io" where
  "pgsql_select_all_rows L query =
     retry (sql_clock L) (sql_policy Psycopg2Error PgSqlClientException) (jitter_delays (sql_draw L) 3 3 10)
       (io_catch [Psycopg2ProgrammingError] PgSqlInvalidQueryException (fetch_all L query))"

definition pgsql_execute :: "'w sql_lib \<Rightarrow> string \<Rightarrow> ('w, exn, int) io" where
  "pgsql_execute L query =
     retry (sql_clock L) (sql_policy Psycopg2Error PgSqlClientException) (jitter_delays (sql_draw L) 5 15 60)
       (io_catch [Psycopg2ProgrammingError] PgSqlInvalidQueryException (execute_once L query))"

text \<open>\<open>row.get(k)\<close> of what a select returned.\<close>

definition row_get :: "pydict option \<Rightarrow> string \<Rightarrow> exn + pyval" where
  "row_get row k = (case row of None \<Rightarrow> Inl PyAttributeError | Some d \<Rightarrow> Inr (dget_default d k VNone))"

definition mysql_print_db_version :: "'w sql_lib \<Rightarrow> ('w, exn, unit) io" where
  "mysql_print_db_version L =
     io_bind (mysql_select_one_row L ''select version()'') (\<lambda>row.
     io_bind (io_lift (row_get row ''version()'')) (\<lambda>_. io_return ()))"

definition pgsql_print_db_version :: "'w sql_lib \<Rightarrow> ('w, exn, unit) io" where
  "pgsql_print_db_version L =
     io_bind (pgsql_select_one_row L ''select version()'') (\<lambda>row.
     io_bind (io_lift (row_get row ''version'')) (\<lambda>_. io_return ()))"

section \<open>The MySQL base class\<close>

text \<open>Text of the program with its quotation marks: a backquote stands for the single quote, a tilde for the double one.\<close>

definition lit :: "string \<Rightarrow> string" where
  "lit s = map (\<lambda>c. if c = CHR ''`'' then CHR 0x27 else if c = CHR ''~'' then CHR 0x22 else c) s"

definition mysql_cli :: "string \<Rightarrow> string" where
  "mysql_cli cmd = join [newline] [''mysql -A -s << EOF'',
     ''        '' @ map (\<lambda>c. if c = CHR 0x27 then CHR 0x22 else c) cmd, ''        EOF'', ''        '']"

definition mysql_db_connect :: "'w sql_lib \<Rightarrow> pydict \<Rightarrow> ('w, exn, unit) io" where
  "mysql_db_connect L params = io_catch [MySqlClientException] BaseMySqlBackendException (mysql_connect L params)"

text \<open>The statements for the database \<open>d\<close> and the user \<open>u\<close> with password \<open>p\<close>.\<close>

definition create_database_and_user_stmt :: "string \<Rightarrow> string \<Rightarrow> string \<Rightarrow> string" where
  "create_database_and_user_stmt d u p = join [newline] [[],
     ''        create database if not exists '' @ d @ '';'',
     lit ''        create user if not exists `'' @ u @ lit ''`@`%` identified by `'' @ p @ lit ''` ;'',
     lit ''        grant all on *.* to `'' @ u @ lit ''`@`%` with grant option;'',
     ''        flush privileges;'', ''        '']"

definition mysql_create_database_and_user :: "(string \<Rightarrow> ('w, exn, unit) io) \<Rightarrow> string \<Rightarrow> string \<Rightarrow> string \<Rightarrow>
    ('w, exn, unit) io" where
  "mysql_create_database_and_user run d u p = run (mysql_cli (create_database_and_user_stmt d u p))"

definition non_default_variables_query :: string where
  "non_default_variables_query = join [newline]
    [''select variable_name, global_value from INFORMATION_SCHEMA.SYSTEM_VARIABLES where global_value != coalesce(default_value, ''
       @ lit ''``)'',
     lit ''            and variable_name not in (`BACK_LOG`, `BASEDIR`, `CHARACTER_SETS_DIR`, `HOSTNAME`, `FT_STOPWORD_FILE`, `INNODB_LOG_GROUP_HOME_DIR`,'',
     lit ''            `INNODB_VERSION`, `LC_MESSAGES_DIR`, `LICENSE`, `PID_FILE`, `PLUGIN_DIR`, `RELAY_LOG_INFO_FILE`, `SLAVE_LOAD_TMPDIR`, `PROTOCOL_VERSION`,'',
     lit ''            `GTID_BINLOG_POS`, `GTID_BINLOG_STATE`, `GTID_CURRENT_POS`, `SQL_BIG_SELECTS`, `SYSTEM_VERSIONING_ASOF`, `WSREP_PATCH_VERSION`)'',
     lit ''            and variable_name not like `HAVE_%` and variable_name not like `VERSION%` order by 1'',
     ''            '']"

definition mysql_print_non_default_variables :: "'w sql_lib \<Rightarrow> ('w, exn, unit) io" where
  "mysql_print_non_default_variables L =
     io_catch [MySqlClientException] BaseMySqlBackendException
       (io_seq (mysql_select_all_rows L non_default_variables_query) (io_return ()))"

definition mysql_self_test :: "'w sql_lib \<Rightarrow> pydict \<Rightarrow> ('w, exn, unit) io" where
  "mysql_self_test L params =
     io_seq (mysql_db_connect L params) (io_seq (mysql_print_db_version L) (mysql_print_non_default_variables L))"

text \<open>\<open>show\<close> is \<open>str()\<close> of a value of the row.\<close>

definition mysql_print_db_size :: "'w sql_lib \<Rightarrow> (pyval \<Rightarrow> string) \<Rightarrow> string \<Rightarrow> ('w, exn, unit) io" where
  "mysql_print_db_size L show database =
     io_bind (mysql_select_one_row L (lit ''SELECT GROUP_CONCAT(` `, CONCAT(table_schema, `.`, table_name)) AS tables FROM INFORMATION_SCHEMA.TABLES WHERE TABLE_SCHEMA=`''
       @ database @ lit ''`'')) (\<lambda>row.
     io_bind (io_lift (row_get row ''tables'')) (\<lambda>tables.
     io_seq (mysql_select_all_rows L (''ANALYZE TABLE '' @ show tables))
    (io_bind (mysql_select_one_row L (lit ''select ROUND(SUM(data_length + index_length) / 1024 / 1024 / 1024, 2) as  db_size FROM information_schema.TABLES where table_schema = `''
       @ database @ lit ''`'')) (\<lambda>row.
     io_bind (io_lift (row_get row ''db_size'')) (\<lambda>_. io_return ())))))"

text \<open>
  \<open>force_innodb_checkpoint\<close>. The loop waits for the dirty pages to go; it has no bound of its own,
  so it runs on fuel, and running out of it is \<open>None\<close>.
\<close>

definition select_value :: "'w sql_lib \<Rightarrow> string \<Rightarrow> string \<Rightarrow> ('w, exn, pyval) io" where
  "select_value L query k = io_bind (mysql_select_one_row L query) (\<lambda>row. io_lift (row_get row k))"

definition dirty_pages :: "'w sql_lib \<Rightarrow> ('w, exn, int) io" where
  "dirty_pages L =
     io_bind (select_value L (lit ''show global status like `innodb_buffer_pool_pages_dirty`;'') ''Value'') (\<lambda>v. io_lift (py_int_val v))"

fun checkpoint_wait :: "nat \<Rightarrow> 'w sql_lib \<Rightarrow> int \<Rightarrow> int \<Rightarrow> int \<Rightarrow> 'w \<Rightarrow> ((exn + unit) \<times> 'w) option" where
  "checkpoint_wait 0 L buffer_pool_pages_dirty pages_dirty_old repeat w = None"
| "checkpoint_wait (Suc fuel) L buffer_pool_pages_dirty pages_dirty_old repeat w =
     (if buffer_pool_pages_dirty \<ge> 1000 \<and> repeat \<ge> 0 then
        (case dirty_pages L (sleep (sql_clock L) 5 w) of
           (Inl e, w') \<Rightarrow> Some (Inl e, w')
         | (Inr d, w') \<Rightarrow> checkpoint_wait fuel L d d (if d = pages_dirty_old then repeat - 1 else 5) w')
      else Some (Inr (), w))"

definition checkpoint_begin :: "'w sql_lib \<Rightarrow> pydict \<Rightarrow> ('w, exn, pyval \<times> pyval \<times> int) io" where
  "checkpoint_begin L params =
     io_seq (mysql_db_connect L params)
    (io_bind (select_value L ''select @@innodb_max_dirty_pages_pct;'' ''@@innodb_max_dirty_pages_pct'') (\<lambda>pct.
     io_bind (select_value L ''select @@innodb_max_dirty_pages_pct_lwm;'' ''@@innodb_max_dirty_pages_pct_lwm'') (\<lambda>lwm.
     io_seq (mysql_execute L ''set global innodb_max_dirty_pages_pct=0;'')
    (io_bind (dirty_pages L) (\<lambda>d. io_return (pct, lwm, d))))))"

definition checkpoint_end :: "'w sql_lib \<Rightarrow> (pyval \<Rightarrow> string) \<Rightarrow> pyval \<Rightarrow> pyval \<Rightarrow> ('w, exn, unit) io" where
  "checkpoint_end L show pct lwm =
     io_seq (mysql_execute L (''set global innodb_max_dirty_pages_pct='' @ show pct @ '';''))
    (io_seq (mysql_execute L (''set global innodb_max_dirty_pages_pct_lwm='' @ show lwm @ '';''))
    (io_seq (mysql_execute L ''FLUSH HOSTS'') (io_return ())))"

definition force_innodb_checkpoint :: "nat \<Rightarrow> 'w sql_lib \<Rightarrow> (pyval \<Rightarrow> string) \<Rightarrow> pydict \<Rightarrow> 'w \<Rightarrow>
    ((exn + unit) \<times> 'w) option" where
  "force_innodb_checkpoint fuel L show params w =
     (case checkpoint_begin L params w of
        (Inl e, w') \<Rightarrow> Some (Inl e, w')
      | (Inr (pct, lwm, d), w') \<Rightarrow>
          (case checkpoint_wait fuel L d 0 5 w' of
             None \<Rightarrow> None
           | Some (Inl e, w'') \<Rightarrow> Some (Inl e, w'')
           | Some (Inr _, w'') \<Rightarrow> Some (checkpoint_end L show pct lwm w'')))"

text \<open>\<open>globals\<close> of the configuration, in order.\<close>

definition mysql_set_globals :: "'w sql_lib \<Rightarrow> (pyval \<Rightarrow> string) \<Rightarrow> pydict \<Rightarrow> pydict \<Rightarrow> ('w, exn, unit) io" where
  "mysql_set_globals L show params gs =
     io_seq (mysql_db_connect L params) (io_for gs (\<lambda>(k, v).
       io_seq (mysql_execute L (''set global '' @ k @ '' = '' @ show v)) (io_return ())))"

section \<open>The PostgreSQL base class\<close>

definition pgsql_cli :: "string \<Rightarrow> string" where
  "pgsql_cli cmd = join [newline] [lit ''sudo -i  -u postgres $SHELL -c `psql` << EOF'', ''        '' @ cmd, ''        EOF'', ''        '']"

definition pgsql_db_connect :: "'w sql_lib \<Rightarrow> pydict \<Rightarrow> ('w, exn, unit) io" where
  "pgsql_db_connect L params = io_catch [PgSqlClientException] BasePgSqlBackendException (pgsql_connect L params)"

definition pgsql_settings_query :: string where
  "pgsql_settings_query = join [newline]
    [lit ''SELECT name, source, setting, unit FROM pg_settings WHERE source != `default` AND source != `override` and'',
     lit ''        name not in (`application_name`, `client_encoding`, `DateStyle`, `default_text_search_config`, `TimeZone`, `max_stack_depth`)'',
     lit ''        and name not like (`log%`) and name not like (`lc%`) ORDER by 2, 1 '']"

definition pgsql_print_non_default_variables :: "'w sql_lib \<Rightarrow> ('w, exn, unit) io" where
  "pgsql_print_non_default_variables L =
     io_catch [PgSqlClientException] BasePgSqlBackendException
       (io_seq (pgsql_select_all_rows L pgsql_settings_query) (io_return ()))"

definition pgsql_self_test :: "'w sql_lib \<Rightarrow> pydict \<Rightarrow> ('w, exn, unit) io" where
  "pgsql_self_test L params =
     io_seq (pgsql_db_connect L params) (io_seq (pgsql_print_db_version L) (pgsql_print_non_default_variables L))"

definition pgsql_print_db_size :: "'w sql_lib \<Rightarrow> string \<Rightarrow> ('w, exn, unit) io" where
  "pgsql_print_db_size L database =
     io_catch [PgSqlClientException] BasePgSqlBackendException
       (io_bind (pgsql_select_one_row L (lit ''SELECT pg_size_pretty(pg_database_size(`'' @ database @ lit ''`)) as size'')) (\<lambda>row.
        io_bind (io_lift (row_get row ''size'')) (\<lambda>_. io_return ())))"

definition pgsql_set_globals :: "'w sql_lib \<Rightarrow> (pyval \<Rightarrow> string) \<Rightarrow> pydict \<Rightarrow> pydict \<Rightarrow> ('w, exn, unit) io" where
  "pgsql_set_globals L show params gs =
     io_seq (pgsql_db_connect L params) (io_for gs (\<lambda>(k, v).
       io_seq (pgsql_execute L (''set '' @ k @ '' = '' @ show v)) (io_return ())))"

section \<open>Lemmas\<close>

interpretation sql_delays: retry_delays "jitter_delays draw 3 10 10" for draw
  by (rule jitter_delays_ok) simp_all

interpretation sql_rows_delays: retry_delays "jitter_delays draw 3 3 10" for draw
  by (rule jitter_delays_ok) simp_all

interpretation sql_execute_delays: retry_delays "jitter_delays draw 5 15 60" for draw
  by (rule jitter_delays_ok) simp_all

text \<open>Each client is a runner of one class of failures.\<close>

interpretation mysql_connector: raises_class "\<lambda>(L, params). mysql_connect L params" MySqlConnectionException
  by unfold_locales (auto simp: mysql_connect_def sql_policy_def dest: sql_delays.raises_only)

interpretation pgsql_connector: raises_class "\<lambda>(L, params). pgsql_connect L params" PyConnectionError
  by unfold_locales (auto simp: pgsql_connect_def sql_policy_def dest: sql_delays.raises_only)

interpretation mysql_selector: raises_class "\<lambda>(L, q). mysql_select_one_row L q" MySqlClientException
  by unfold_locales (auto simp: mysql_select_one_row_def sql_policy_def dest: sql_delays.raises_only)

interpretation mysql_executor: raises_class "\<lambda>(L, q). mysql_execute L q" MySqlClientException
  by unfold_locales (auto simp: mysql_execute_def sql_policy_def dest: sql_execute_delays.raises_only)

interpretation mysql_db_connector: raises_class
  "\<lambda>q. io_try ((\<lambda>(L, params). mysql_connect L params) q) (\<lambda>e. isinstance_exn e MySqlClientException)
     (\<lambda>e. io_raise BaseMySqlBackendException)" BaseMySqlBackendException
  by (rule mysql_connector.translated) (simp add: isinstance_eval)

text \<open>The loop of \<open>force_innodb_checkpoint\<close> ends when the dirty pages do not grow while it waits.\<close>

lemma checkpoint_wait_returns:
  fixes D :: "'w \<Rightarrow> nat"
  assumes reading: "\<And>w v w'. dirty_pages L w = (Inr v, w') \<Longrightarrow> v = int (D w') \<and> D w' \<le> D w"
    and waiting: "\<And>w. D (sleep (sql_clock L) 5 w) \<le> D w"
  shows "7 * D w + nat (repeat + 2) + (if old = int (D w) then 0 else 7) < n \<Longrightarrow> repeat \<le> 5 \<Longrightarrow>
    checkpoint_wait n L (int (D w)) old repeat w \<noteq> None"
proof (induction n arbitrary: repeat old w)
  case (Suc n)
  let ?w = "sleep (sql_clock L) 5 w"
  show ?case
  proof (cases "int (D w) \<ge> 1000 \<and> repeat \<ge> 0")
    case True
    obtain r w' where r: "dirty_pages L ?w = (r, w')" by (cases "dirty_pages L ?w")
    show ?thesis
    proof (cases r)
      case (Inr d)
      with reading [of ?w d w'] r waiting [of w] have d: "d = int (D w')" "D w' \<le> D w" by auto
      let ?rep = "if d = old then repeat - 1 else 5"
      have "7 * D w' + nat (?rep + 2) < n"
        using Suc.prems True d by (auto split: if_splits)
      then have "checkpoint_wait n L (int (D w')) (int (D w')) ?rep w' \<noteq> None"
        using Suc.prems by (intro Suc.IH) auto
      then show ?thesis using True r Inr d by simp
    qed (use True r in simp)
  next
    case False
    then show ?thesis by auto
  qed
qed simp

section \<open>Properties\<close>

text \<open>
  C21. What a backend's \<open>db_connect\<close> raises. For MySQL every failure to connect is a
  \<open>BaseMySqlBackendException\<close>, which the provisioning code catches as a \<open>BackendException\<close>. For
  PostgreSQL it is Python's \<open>ConnectionError\<close>: \<open>BasePgSqlBackendException\<close> is never raised by
  \<open>db_connect\<close>, because the client names a class that is not a \<open>PgSqlClientException\<close>. Apart from
  these only \<open>SigTermException\<close> and the interrupts pass.
\<close>

theorem db_connect_errors:
  "(mysql_db_connect L params w = (Inl e, w') \<longrightarrow>
      e \<in> {BaseMySqlBackendException, SigTermException, PyKeyboardInterrupt, PySystemExit})
   \<and> (pgsql_db_connect L params w = (Inl e, w') \<longrightarrow>
      e \<in> {PyConnectionError, SigTermException, PyKeyboardInterrupt, PySystemExit})"
proof (intro conjI impI)
  assume *: "mysql_db_connect L params w = (Inl e, w')"
  have "io_try ((\<lambda>(L, params). mysql_connect L params) (L, params)) (\<lambda>e. isinstance_exn e MySqlClientException)
      (\<lambda>e. io_raise BaseMySqlBackendException) w = (Inl e, w')"
    using * by (simp add: mysql_db_connect_def io_catch_def)
  from mysql_db_connector.raises [OF this]
  show "e \<in> {BaseMySqlBackendException, SigTermException, PyKeyboardInterrupt, PySystemExit}"
    by (auto simp: isinstance_Exception)
next
  assume *: "pgsql_db_connect L params w = (Inl e, w')"
  obtain r v where r: "pgsql_connect L params w = (r, v)" by (cases "pgsql_connect L params w")
  from * r obtain e' where e': "r = Inl e'" by (cases r) (auto simp: pgsql_db_connect_def io_catch_def io_defs)
  with r pgsql_connector.raises [of "(L, params)" w e' v]
  have "e' \<in> {PyConnectionError, SigTermException, PyKeyboardInterrupt, PySystemExit}"
    by (auto simp: isinstance_Exception)
  then show "e \<in> {PyConnectionError, SigTermException, PyKeyboardInterrupt, PySystemExit}"
    using * r e' by (auto simp: pgsql_db_connect_def io_catch_def io_defs isinstance_eval)
qed

text \<open>
  A database for the witnesses: a server that refuses connections (\<open>False\<close>) or has a number of
  dirty pages in a pool of 2500, of which ten seconds flush a thousand.
\<close>

type_synonym demo_db = "nat \<times> string list"

definition demo_sql :: "bool \<Rightarrow> demo_db sql_lib" where
  "demo_sql up = \<lparr>
     lib_connect = (\<lambda>p w. if up then (Inr (), w) else (Inl Psycopg2Error, w)),
     lib_execute = (\<lambda>q (n, l). if q = ''selct 1'' then (Inl PyMySqlProgrammingError, (n, q # l)) else (Inr (), (n, q # l))),
     lib_fetchone = (\<lambda>(n, l). (Inr (Some [(''Value'', VInt (int (min n 2500)))]), (n, l))),
     lib_fetchall = (\<lambda>w. (Inr [], w)), rownumber = (\<lambda>w. 1), rowcount = (\<lambda>w. 0), has_cursor = (\<lambda>w. True), set_cursor = (\<lambda>w. w),
     sql_clock = \<lparr>now = (\<lambda>w. 0), sleep = (\<lambda>d (n, l). (n - 500, ''sleep'' # l))\<rparr>, sql_draw = (\<lambda>i. 0)\<rparr>"

lemma demo_dirty_pages: "dirty_pages (demo_sql up) (n, l) =
    (Inr (int (min n 2500)), (n, lit ''show global status like `innodb_buffer_pool_pages_dirty`;'' # l))"
proof -
  have "fetch_one (demo_sql up) (lit ''show global status like `innodb_buffer_pool_pages_dirty`;'') (n, l)
      = (Inr (Some [(''Value'', VInt (int (min n 2500)))]), (n, lit ''show global status like `innodb_buffer_pool_pages_dirty`;'' # l))"
    by (simp add: fetch_one_def with_cursor_def io_defs demo_sql_def lit_def)
  then have "mysql_select_one_row (demo_sql up) (lit ''show global status like `innodb_buffer_pool_pages_dirty`;'') (n, l)
      = (Inr (Some [(''Value'', VInt (int (min n 2500)))]), (n, lit ''show global status like `innodb_buffer_pool_pages_dirty`;'' # l))"
    unfolding mysql_select_one_row_def by (intro sql_delays.retry_success) (simp add: io_catch_def io_defs)
  then show ?thesis
    by (simp add: dirty_pages_def select_value_def io_defs row_get_def dget_default_def py_int_val_def)
qed

theorem db_connect_errors_witness:
  "fst (pgsql_db_connect (demo_sql False) [] (0, [])) = Inl PyConnectionError"
proof -
  have "\<exists>w'. io_seq (lib_connect (demo_sql False) []) (io_modify (set_cursor (demo_sql False))) w = (Inl Psycopg2Error, w')" for w
    by (simp add: demo_sql_def io_defs)
  from sql_delays.retry_always_fails [OF this, where p = "sql_policy Psycopg2Error PyConnectionError"]
  have "fst (pgsql_connect (demo_sql False) [] (0, [])) = Inl PyConnectionError"
    by (simp add: pgsql_connect_def sql_policy_def)
  then obtain w' where c: "pgsql_connect (demo_sql False) [] (0, []) = (Inl PyConnectionError, w')"
    by (cases "pgsql_connect (demo_sql False) [] (0, [])") auto
  then have d: "pgsql_db_connect (demo_sql False) [] (0, []) = (Inl PyConnectionError, w')"
    by (simp add: pgsql_db_connect_def io_catch_def io_defs isinstance_eval)
  with db_connect_errors [of "demo_sql False" "[]" "(0, [])" PyConnectionError w'] show ?thesis by simp
qed

text \<open>
  An invalid statement is not repeated: when the driver reports a \<open>ProgrammingError\<close>, the statement
  has been sent once, and the caller gets a \<open>MySqlClientException\<close> (the decorator replaces the
  \<open>InvalidQueryException\<close> of the method body) in the world that one statement left.
\<close>

theorem mysql_invalid_query_once:
  assumes "has_cursor L w" and "lib_execute L q w = (Inl PyMySqlProgrammingError, w')"
  shows "mysql_select_one_row L q w = (Inl MySqlClientException, w')
    \<and> mysql_select_all_rows L q w = (Inl MySqlClientException, w')
    \<and> mysql_execute L q w = (Inl MySqlClientException, w')"
proof -
  have once: "retry c (sql_policy PyMySqlError MySqlClientException) ds
      (io_catch [PyMySqlProgrammingError] MySqlInvalidQueryException m) w = (Inl MySqlClientException, w')"
    if "m w = (Inl PyMySqlProgrammingError, w')" and "retry_delays ds" for m :: "('a, exn, 'b) io" and ds c
    using retry_single_failure [of "io_catch [PyMySqlProgrammingError] MySqlInvalidQueryException m" w
        MySqlInvalidQueryException w' "sql_policy PyMySqlError MySqlClientException" ds c] that
    by (simp add: io_catch_def io_defs sql_policy_def isinstance_eval)
  show ?thesis
    unfolding mysql_select_one_row_def mysql_select_all_rows_def mysql_execute_def
    using assms
    by (intro conjI once sql_delays.retry_delays_axioms sql_rows_delays.retry_delays_axioms
          sql_execute_delays.retry_delays_axioms)
       (simp_all add: fetch_one_def fetch_all_def execute_once_def with_cursor_def io_defs)
qed

theorem mysql_invalid_query_once_witness:
  "mysql_execute (demo_sql True) ''selct 1'' (0, []) = (Inl MySqlClientException, (0, [''selct 1'']))"
  using mysql_invalid_query_once [of "demo_sql True" "(0, [])" "''selct 1''" "(0, [''selct 1''])"]
  by (simp add: demo_sql_def)

text \<open>
  C13. Waiting for the InnoDB checkpoint ends: for a buffer pool of at most \<open>m\<close> pages, if the number of
  dirty pages does not grow while the program sleeps and asks, then \<open>force_innodb_checkpoint\<close>
  returns or raises after at most \<open>7 * m + 14\<close> rounds, whatever the answers are otherwise.
\<close>

theorem force_innodb_checkpoint_ends:
  fixes D :: "'w \<Rightarrow> nat"
  assumes "\<forall>w v w'. dirty_pages L w = (Inr v, w') \<longrightarrow> v = int (D w') \<and> D w' \<le> D w"
    and "\<forall>w. D (sleep (sql_clock L) 5 w) \<le> D w" and "\<forall>w. D w \<le> m"
  shows "force_innodb_checkpoint (7 * m + 15) L show params w \<noteq> None"
proof (cases "checkpoint_begin L params w")
  case (Pair r w')
  show ?thesis
  proof (cases r)
    case (Inr x)
    obtain pct lwm d where x: "x = (pct, lwm, d)" by (cases x)
    with Pair Inr have "\<exists>v. dirty_pages L v = (Inr d, w')"
      by (auto simp: checkpoint_begin_def io_defs split: prod.splits sum.splits)
    then have d: "d = int (D w')" using assms(1) by blast
    have "7 * D w' + nat (5 + 2) + (if 0 = int (D w') then 0 else 7) < 7 * m + 15"
      using assms(3) [rule_format, of w'] by simp
    then have "checkpoint_wait (7 * m + 15) L (int (D w')) 0 5 w' \<noteq> None"
      by (intro checkpoint_wait_returns) (use assms in auto)
    then show ?thesis
      using Pair Inr x d by (auto simp: force_innodb_checkpoint_def split: option.splits prod.splits sum.splits)
  qed (use Pair in \<open>simp add: force_innodb_checkpoint_def\<close>)
qed

theorem force_innodb_checkpoint_ends_witness:
  "force_innodb_checkpoint (7 * 2500 + 15) (demo_sql True) (\<lambda>v. []) [] (2500, []) \<noteq> None"
proof (rule force_innodb_checkpoint_ends [where D = "\<lambda>(n, l). min n 2500"])
  show "\<forall>w v w'. dirty_pages (demo_sql True) w = (Inr v, w') \<longrightarrow>
      v = int (case w' of (n, l) \<Rightarrow> min n 2500) \<and> (case w' of (n, l) \<Rightarrow> min n 2500) \<le> (case w of (n, l) \<Rightarrow> min n 2500)"
    by (auto simp: demo_dirty_pages)
qed (auto simp: demo_sql_def)

end
