(* ===== verification/XB_SkySql.thy ===== *)
theory XB_SkySql
  imports XB_Cluster XB_Sql
begin

text \<open>
  \<^verbatim>\<open>cloud/skysql/skysql_api.py\<close>, \<^verbatim>\<open>cloud/skysql/skysql_deployment.py\<close> and
  \<^verbatim>\<open>cloud/skysql/skysql.py\<close>: the client of the REST interface of SkySQL with its polling loops,
  and the cloud class above it.

  The HTTP library is a parameter: a request maps the world to a response (or raises). A response has
  its status code and what \<open>res.json()\<close> gives. json's \<open>dumps\<close>, \<open>str()\<close> of a value, dacite, the database client and the
  backend classes are parameters too. Case conversion is that of ASCII letters.
\<close>

section \<open>Requests\<close>

record response =
  status_code :: int
  json :: "exn + pyval"

record 'w sky_api =
  api_key :: "string option"
  sky_region :: string
  sky_provider :: string
  api_server :: string
  id_server :: string
  inst_nap_time :: int
  inst_max_polls :: nat
  bearer_token :: "string option"
  http :: "string \<Rightarrow> string \<Rightarrow> (string, string) dict \<Rightarrow> string option \<Rightarrow> pydict \<Rightarrow> ('w, exn, response) io"
  dumps :: "pyval \<Rightarrow> string"
  show_val :: "pyval \<Rightarrow> string"
  sky_clock :: "'w os_clock"

text \<open>
  \<open>SkySQLAPI.nap_time\<close> and \<open>SkySQLAPI.max_api_call_polls\<close>: the polling loops of the class use these
  class attributes, not the values of the instance.
\<close>

definition nap_time :: int where
  "nap_time = 60"

definition max_api_call_polls :: nat where
  "max_api_call_polls = 60"

text \<open>Iteration over the decoded JSON.\<close>

definition py_iter :: "pyval \<Rightarrow> exn + pyval list" where
  "py_iter v = (case v of
     VList xs \<Rightarrow> Inr xs
   | VDict d \<Rightarrow> Inr (map (\<lambda>(k, _). VStr k) d)
   | VStr s \<Rightarrow> Inr (map (\<lambda>c. VStr [c]) s)
   | _ \<Rightarrow> Inl PyTypeError)"

text \<open>\<open>for x in xs: if test(x): return True\<close>, then \<open>return False\<close>.\<close>

fun any_of :: "(pyval \<Rightarrow> exn + bool) \<Rightarrow> pyval list \<Rightarrow> exn + bool" where
  "any_of test [] = Inr False"
| "any_of test (x # xs) = (case test x of Inl e \<Rightarrow> Inl e | Inr True \<Rightarrow> Inr True | Inr False \<Rightarrow> any_of test xs)"

definition has_value :: "pyval \<Rightarrow> string \<Rightarrow> pyval \<Rightarrow> exn + bool" where
  "has_value x k v = (case subscript x k of Inl e \<Rightarrow> Inl e | Inr u \<Rightarrow> Inr (u = v))"

text \<open>\<open>_api_call\<close>. The token is added to the headers of the call, which win on the same name.\<close>

definition auth_headers :: "'w sky_api \<Rightarrow> (string, string) dict" where
  "auth_headers A = (case bearer_token A of None \<Rightarrow> [] | Some t \<Rightarrow> [(''Authorization'', ''Bearer '' @ t)])"

definition check_response :: "response \<Rightarrow> exn + response" where
  "check_response res =
     (if status_code res \<ge> 400 then
        (if status_code res < 500
         then Inl (if status_code res = 404 then SkySQLAPINotFound else SkySQLAPIClientException)
         else Inl SkySQLAPIServerException)
      else Inr res)"

definition api_call :: "'w sky_api \<Rightarrow> string \<Rightarrow> string \<Rightarrow> (string, string) dict \<Rightarrow> string option \<Rightarrow> pydict \<Rightarrow>
    ('w, exn, response) io" where
  "api_call A url meth headers data params =
     (let m = map lower_char meth in
      if m \<in> set [''get'', ''post'', ''delete''] then
        io_bind (http A m url (dict_update (auth_headers A) headers) (if m = ''post'' then data else None) params)
          (\<lambda>res. io_lift (check_response res))
      else io_raise PyAttributeError)"

definition get_json :: "'w sky_api \<Rightarrow> string \<Rightarrow> pydict \<Rightarrow> ('w, exn, pyval) io" where
  "get_json A path params =
     io_bind (api_call A (api_server A @ path) ''get'' [] None params) (\<lambda>res. io_lift (json res))"

text \<open>\<open>get_bearer_token\<close> gives the object with its token.\<close>

definition get_bearer_token :: "'w sky_api \<Rightarrow> ('w, exn, pyval) io" where
  "get_bearer_token A =
     (case api_key A of
        None \<Rightarrow> io_raise SkySQLAPIException
      | Some k \<Rightarrow>
          io_bind (api_call A (id_server A @ ''/api/v1/token'') ''post''
             [(''Authorization'', ''Token '' @ k), (''Content-length'', ''0'')] None []) (\<lambda>res.
          io_bind (io_lift (json res)) (\<lambda>d. io_lift (subscript d ''token''))))"

definition get_databases :: "'w sky_api \<Rightarrow> ('w, exn, pyval) io" where
  "get_databases A = get_json A ''/services/'' []"

definition get_database :: "'w sky_api \<Rightarrow> string \<Rightarrow> ('w, exn, pyval) io" where
  "get_database A db = get_json A (''/services/'' @ db) []"

definition get_credentials :: "'w sky_api \<Rightarrow> string \<Rightarrow> ('w, exn, pyval \<times> pyval) io" where
  "get_credentials A dbid =
     io_bind (get_json A (''/services/'' @ dbid @ ''/security/credentials'') []) (\<lambda>d.
     io_bind (io_lift (subscript d ''username'')) (\<lambda>u.
     io_bind (io_lift (subscript d ''password'')) (\<lambda>p. io_return (u, p))))"

definition get_allow_list :: "'w sky_api \<Rightarrow> string \<Rightarrow> ('w, exn, pyval) io" where
  "get_allow_list A dbid = get_json A (''/services/'' @ dbid @ ''/security/allowlist'') []"

definition post_allow_ip :: "'w sky_api \<Rightarrow> string \<Rightarrow> string \<Rightarrow> ('w, exn, pyval) io" where
  "post_allow_ip A ip dbid =
     io_bind (api_call A (api_server A @ ''/services/'' @ dbid @ ''/security/allowlist'') ''post'' []
       (Some (dumps A (VDict [(''ip_address'', VStr ip)]))) []) (\<lambda>res. io_lift (json res))"

text \<open>
  \<open>allow_ip\<close>: the list is read once; the loop looks at that list again and again.
\<close>

definition ip_listed :: "pyval list \<Rightarrow> string \<Rightarrow> exn + bool" where
  "ip_listed allowed_ips ip = any_of (\<lambda>a. has_value a ''ip_address'' (VStr ip)) allowed_ips"

fun allow_ip_loop :: "'w sky_api \<Rightarrow> pyval list \<Rightarrow> string \<Rightarrow> nat \<Rightarrow> ('w, exn, unit) io" where
  "allow_ip_loop A allowed_ips ip 0 = io_raise SkySQLAPIServerException"
| "allow_ip_loop A allowed_ips ip (Suc retries) =
     io_bind (io_lift (ip_listed allowed_ips ip)) (\<lambda>found.
       if found then io_return ()
       else io_seq (io_modify (sleep (sky_clock A) nap_time)) (allow_ip_loop A allowed_ips ip retries))"

definition allow_ip :: "'w sky_api \<Rightarrow> string \<Rightarrow> string \<Rightarrow> ('w, exn, unit) io" where
  "allow_ip A ip dbid =
     io_bind (post_allow_ip A ip dbid) (\<lambda>_.
     io_bind (get_allow_list A dbid) (\<lambda>l.
     io_bind (io_lift (py_iter l)) (\<lambda>allowed_ips.
     io_bind (io_lift (ip_listed allowed_ips ip)) (\<lambda>found.
       if found then io_return () else allow_ip_loop A allowed_ips ip max_api_call_polls))))"

section \<open>Checks of the offering\<close>

definition get_providers :: "'w sky_api \<Rightarrow> ('w, exn, pyval) io" where
  "get_providers A = get_json A ''/offering/providers'' []"

definition provider_matches :: "string \<Rightarrow> pyval \<Rightarrow> exn + bool" where
  "provider_matches cl p =
     (case has_value p ''active'' (VStr ''true'') of
        Inl e \<Rightarrow> Inl e
      | Inr False \<Rightarrow> Inr False
      | Inr True \<Rightarrow> (case has_value p ''name'' (VStr cl) of
                       Inl e \<Rightarrow> Inl e | Inr True \<Rightarrow> Inr True | Inr False \<Rightarrow> has_value p ''value'' (VStr cl)))"

definition check_provider :: "'w sky_api \<Rightarrow> string \<Rightarrow> ('w, exn, bool) io" where
  "check_provider A cl =
     io_bind (get_providers A) (\<lambda>ps. io_bind (io_lift (py_iter ps)) (\<lambda>ps. io_lift (any_of (provider_matches cl) ps)))"

definition get_regions :: "'w sky_api \<Rightarrow> string \<Rightarrow> ('w, exn, pyval) io" where
  "get_regions A prov = get_json A ''/offering/regions'' [(''provider'', VStr prov)]"

definition check_region :: "'w sky_api \<Rightarrow> string \<Rightarrow> string \<Rightarrow> ('w, exn, bool) io" where
  "check_region A reg prov =
     io_bind (get_regions A prov) (\<lambda>rs. io_bind (io_lift (py_iter rs)) (\<lambda>rs.
       io_lift (any_of (\<lambda>r. has_value r ''name'' (VStr reg)) rs)))"

definition get_deployments :: "'w sky_api \<Rightarrow> ('w, exn, pyval) io" where
  "get_deployments A = get_json A ''/offering/service-types'' []"

text \<open>\<open>s.split(", ")\<close>.\<close>

fun split_comma_blank :: "string \<Rightarrow> string list" where
  "split_comma_blank [] = [[]]"
| "split_comma_blank [x] = [[x]]"
| "split_comma_blank (x # y # s) =
     (if x = CHR '','' \<and> y = CHR '' '' then [] # split_comma_blank s
      else (case split_comma_blank (y # s) of [] \<Rightarrow> [[x]] | p # ps \<Rightarrow> (x # p) # ps))"

definition offers_topology :: "string \<Rightarrow> pyval \<Rightarrow> exn + bool" where
  "offers_topology deploy s =
     (case subscript s ''active_topologies'' of
        Inl e \<Rightarrow> Inl e
      | Inr (VStr t) \<Rightarrow> Inr (deploy \<in> set (split_comma_blank t))
      | Inr _ \<Rightarrow> Inl PyAttributeError)"

definition check_deployment :: "'w sky_api \<Rightarrow> string \<Rightarrow> ('w, exn, bool) io" where
  "check_deployment A deploy =
     io_bind (get_deployments A) (\<lambda>ss. io_bind (io_lift (py_iter ss)) (\<lambda>ss. io_lift (any_of (offers_topology deploy) ss)))"

definition check_aws_iops :: "int \<Rightarrow> int \<Rightarrow> int" where
  "check_aws_iops disk_size n =
     (if disk_size < 2000 \<and> n > 50 * disk_size then disk_size * 50
      else if disk_size > 2000 \<and> n > 60000 * disk_size then disk_size * 60000
      else n)"

text \<open>The releases by the lower-case name of their service type; a later one replaces an earlier.\<close>

fun releases_of :: "pyval list \<Rightarrow> (string, pyval) dict \<Rightarrow> exn + (string, pyval) dict" where
  "releases_of [] acc = Inr acc"
| "releases_of (r # rs) acc =
     (case subscript r ''service_type'' of
        Inl e \<Rightarrow> Inl e
      | Inr (VStr t) \<Rightarrow> (case subscript r ''name'' of
                         Inl e \<Rightarrow> Inl e
                       | Inr n \<Rightarrow> releases_of rs (dset acc (map lower_char t) n))
      | Inr _ \<Rightarrow> Inl PyAttributeError)"

definition get_releases :: "'w sky_api \<Rightarrow> ('w, exn, (string, pyval) dict) io" where
  "get_releases A =
     io_bind (get_json A ''/offering/versions'' [(''limit'', VInt 100)]) (\<lambda>rs.
     io_bind (io_lift (py_iter rs)) (\<lambda>rs. io_lift (releases_of rs [])))"

definition check_size :: "'w sky_api \<Rightarrow> string \<Rightarrow> string \<Rightarrow> string \<Rightarrow> string \<Rightarrow> ('w, exn, bool) io" where
  "check_size A sz cl kind reg =
     io_bind (get_json A ''/offering/sizes'' [(''tier'', VStr ''Power''), (''provider'', VStr cl), (''topology'', VStr kind),
       (''region'', VStr reg)]) (\<lambda>ss. io_bind (io_lift (py_iter ss)) (\<lambda>ss.
       io_lift (any_of (\<lambda>s. has_value s ''name'' (VStr sz)) ss)))"

definition check_db_name :: "string \<Rightarrow> string" where
  "check_db_name db_name = (if length db_name > 24 then take 24 db_name else db_name)"

definition convert_db_name :: "string \<Rightarrow> string" where
  "convert_db_name name = ''mdbint-'' @ map (\<lambda>c. if c = CHR ''_'' then CHR ''-'' else c) name"

definition db_status_is_up :: "'w sky_api \<Rightarrow> string \<Rightarrow> ('w, exn, bool) io" where
  "db_status_is_up A dbid =
     io_bind (get_json A (''/services/'' @ dbid @ ''/status'') []) (\<lambda>d.
     io_bind (io_lift (subscript d ''status'')) (\<lambda>st. io_return (st = VStr ''Running'')))"

definition db_has_ip :: "'w sky_api \<Rightarrow> string \<Rightarrow> ('w, exn, bool) io" where
  "db_has_ip A dbid =
     io_bind (get_json A (''/services/'' @ dbid) []) (\<lambda>d.
     io_bind (io_lift (subscript d ''ip_address'')) (\<lambda>ip.
     io_bind (io_lift (subscript d ''read_write_port'')) (\<lambda>port.
     io_bind (io_lift (subscript d ''fqdn'')) (\<lambda>fqdn.
       io_return (\<not> (ip = VStr [] \<or> port = VStr [] \<or> fqdn = VStr []))))))"

section \<open>Creation of a database\<close>

text \<open>The deployments and the tables of \<^verbatim>\<open>skysql_deployment.py\<close>.\<close>

definition dep_xpand :: string where "dep_xpand = ''Distributed Transactions''"
definition dep_standalone_mariadb :: string where "dep_standalone_mariadb = ''Single Node Transactions''"

definition SKYSQL_SERVICES_DEPLOYMENT_MAP :: "(string, string) dict" where
  "SKYSQL_SERVICES_DEPLOYMENT_MAP = [(''xpand'', dep_xpand), (''mariadb'', dep_standalone_mariadb),
     (''mariadb_replicated'', ''Replicated Transactions''), (''columnstore'', ''Single Node Analytics''),
     (''columnstore_replicated'', ''Multi-Node Analytics'')]"

definition SKYSQL_DEPLOY_2_RELEASE_MAP :: "(string, string) dict" where
  "SKYSQL_DEPLOY_2_RELEASE_MAP = [(''xpand'', ''xpand''), (''mariadb'', ''enterprise server'')]"

definition SKYSQL_DB_IS_UP_AND_RUNNING :: string where "SKYSQL_DB_IS_UP_AND_RUNNING = ''Installed''"
definition SKYSQL_DB_IS_INSTALLING :: string where "SKYSQL_DB_IS_INSTALLING = ''Pending Install''"
definition SKYSQL_DB_IS_BUSY :: "string list" where
  "SKYSQL_DB_IS_BUSY = [''In Maintenance'', ''Pending Repair'', ''Retired'']"

text \<open>The arguments of \<open>_create_db_cluster\<close>.\<close>

record create_args =
  ca_version :: pyval
  ca_region :: string
  ca_cloud :: string
  ca_name :: string
  ca_replicas :: int
  ca_size :: string
  ca_kind :: string
  ca_disk_size :: int
  ca_iops :: int
  ca_ssl :: bool

definition refuse_unless :: "exn \<Rightarrow> bool \<Rightarrow> ('w, exn, unit) io" where
  "refuse_unless e b = (if b then io_return () else io_raise e)"

definition check_db_cluster_create_params :: "'w sky_api \<Rightarrow> string \<Rightarrow> string \<Rightarrow> string \<Rightarrow> string \<Rightarrow> int \<Rightarrow> ('w, exn, unit) io" where
  "check_db_cluster_create_params A cl reg kind sz replicas =
     io_seq (io_bind (check_provider A cl) (refuse_unless SkySQLAPIException))
    (io_seq (io_bind (check_region A reg cl) (refuse_unless SkySQLAPIException))
    (io_seq (io_bind (check_deployment A kind) (refuse_unless SkySQLAPIException))
    (io_seq (io_bind (check_size A sz cl kind reg) (refuse_unless SkySQLAPIException))
            (refuse_unless SkySQLAPIException (\<not> (replicas < 3 \<and> kind = dep_xpand))))))"

definition create_request :: "create_args \<Rightarrow> pyval" where
  "create_request a =
     (let cl = map lower_char (ca_cloud a);
          n = (if cl = ''aws'' then check_aws_iops (ca_disk_size a) (ca_iops a) else ca_iops a);
          r = (if ca_kind a = dep_standalone_mariadb then 0 else ca_replicas a)
      in VDict [(''name'', VStr (check_db_name (convert_db_name (ca_name a)))), (''provider'', VStr cl),
           (''region'', VStr (ca_region a)), (''release_version'', ca_version a), (''replicas'', VStr (str_int r)),
           (''size'', VStr (capitalize (ca_size a))), (''ssl_tls'', VStr (if ca_ssl a then ''Enabled'' else ''Disabled'')),
           (''tier'', VStr ''Power''), (''topology'', VStr (ca_kind a)), (''tx_storage'', VStr (str_int (ca_disk_size a))),
           (''volume_iops'', VStr (str_int n))])"

definition post_db_cluster :: "'w sky_api \<Rightarrow> create_args \<Rightarrow> ('w, exn, pyval) io" where
  "post_db_cluster A a =
     io_seq (check_db_cluster_create_params A (map lower_char (ca_cloud a)) (ca_region a) (ca_kind a) (capitalize (ca_size a))
        (if ca_kind a = dep_standalone_mariadb then 0 else ca_replicas a))
    (io_bind (api_call A (api_server A @ ''/services/'') ''post'' [(''Content-type'', ''application/json'')]
        (Some (dumps A (create_request a))) []) (\<lambda>res. io_lift (json res)))"

definition id_of :: "'w sky_api \<Rightarrow> pyval \<Rightarrow> exn + string" where
  "id_of A db = map_sum id (show_val A) (subscript db ''id'')"

text \<open>The two loops share the counter \<open>retries\<close>: the first gives what is left of it to the second.\<close>

fun wait_until_up :: "'w sky_api \<Rightarrow> pyval \<Rightarrow> nat \<Rightarrow> ('w, exn, nat) io" where
  "wait_until_up A db 0 = io_return 0"
| "wait_until_up A db (Suc retries) =
     io_bind (io_lift (id_of A db)) (\<lambda>i.
     io_bind (db_status_is_up A i) (\<lambda>up.
       if up then io_return (Suc retries)
       else io_seq (io_modify (sleep (sky_clock A) nap_time)) (wait_until_up A db retries)))"

fun wait_for_ip :: "'w sky_api \<Rightarrow> pyval \<Rightarrow> nat \<Rightarrow> ('w, exn, pyval) io" where
  "wait_for_ip A db 0 = io_raise SkySQLAPIServerException"
| "wait_for_ip A db (Suc retries) =
     io_bind (io_lift (id_of A db)) (\<lambda>i.
     io_bind (db_has_ip A i) (\<lambda>has.
       if has then
         io_bind (get_database A i) (\<lambda>db.
         io_bind (io_lift (subscript db ''fqdn'')) (\<lambda>_.
         io_bind (io_lift (subscript db ''read_write_port'')) (\<lambda>_. io_return db)))
       else io_seq (io_modify (sleep (sky_clock A) nap_time)) (wait_for_ip A db retries)))"

definition create_db_cluster :: "'w sky_api \<Rightarrow> create_args \<Rightarrow> ('w, exn, pyval) io" where
  "create_db_cluster A a =
     io_bind (post_db_cluster A a) (\<lambda>db.
     io_bind (wait_until_up A db max_api_call_polls) (\<lambda>retries. wait_for_ip A db retries))"

definition destroy :: "'w sky_api \<Rightarrow> string \<Rightarrow> ('w, exn, unit) io" where
  "destroy A dbid =
     io_seq (api_call A (api_server A @ ''/services/'' @ dbid) ''delete'' [] None []) (io_return ())"

section \<open>The cloud\<close>

text \<open>
  The parts that the cloud uses: the connection test of the MySQL client with given credentials, the
  statements of the backend class, their execution, and the connection of the backend.
\<close>

record 'w sky_cloud =
  sc_api :: "'w sky_api"
  sc_cluster_name :: string
  sc_mysql_connect :: "string \<Rightarrow> int \<Rightarrow> pyval \<Rightarrow> pyval \<Rightarrow> ('w, exn, unit) io"
  sc_mysql_execute :: "string \<Rightarrow> ('w, exn, unit) io"
  sc_klass_kind :: "component_klass \<Rightarrow> string"
  sc_create_stmt :: "component_klass \<Rightarrow> node \<Rightarrow> string"
  sc_db_connect :: "component_klass \<Rightarrow> node \<Rightarrow> ('w, exn, unit) io"
  sc_import :: importer
  sc_libs :: cluster_libs

definition can_connect :: "'w sky_cloud \<Rightarrow> string \<Rightarrow> string \<Rightarrow> int \<Rightarrow> ('w, exn, bool) io" where
  "can_connect S dbid host prt =
     io_bind (get_credentials (sc_api S) dbid) (\<lambda>(u, p).
       io_try (io_seq (sc_mysql_connect S host prt u p) (io_return True))
         (\<lambda>e. isinstance_exn e MySqlConnectionException) (\<lambda>e. io_return False))"

definition connect_args :: "'w sky_cloud \<Rightarrow> pyval \<Rightarrow> exn + string \<times> string \<times> int" where
  "connect_args S inst =
     (case subscript inst ''id'' of Inl e \<Rightarrow> Inl e | Inr i \<Rightarrow>
     (case subscript inst ''ip_address'' of Inl e \<Rightarrow> Inl e | Inr ip \<Rightarrow>
     (case subscript inst ''read_write_port'' of Inl e \<Rightarrow> Inl e | Inr p \<Rightarrow>
     (case py_int_val p of Inl e \<Rightarrow> Inl e | Inr n \<Rightarrow> Inr (show_val (sc_api S) i, show_val (sc_api S) ip, n)))))"

fun connectivity_loop :: "'w sky_cloud \<Rightarrow> pyval \<Rightarrow> nat \<Rightarrow> ('w, exn, unit) io" where
  "connectivity_loop S inst 0 = io_raise PyException"
| "connectivity_loop S inst (Suc retries) =
     io_bind (io_lift (connect_args S inst)) (\<lambda>(i, ip, p).
     io_bind (can_connect S i ip p) (\<lambda>ok.
       if ok then io_return ()
       else io_seq (io_modify (sleep (sky_clock (sc_api S)) (inst_nap_time (sc_api S)))) (connectivity_loop S inst retries)))"

definition wait_for_database_connectivity :: "'w sky_cloud \<Rightarrow> pyval \<Rightarrow> ('w, exn, unit) io" where
  "wait_for_database_connectivity S inst = connectivity_loop S inst (inst_max_polls (sc_api S))"

text \<open>
  \<open>is_running\<close>. A client error other than 404 is swallowed, and the list stays empty.
\<close>

definition listed_running :: "string \<Rightarrow> pyval \<Rightarrow> exn + bool" where
  "listed_running cn db =
     (case subscript db ''name'' of
        Inl e \<Rightarrow> Inl e
      | Inr (VStr n) \<Rightarrow>
          (if convert_db_name n = convert_db_name cn
           then has_value db ''install_status'' (VStr SKYSQL_DB_IS_UP_AND_RUNNING) else Inr False)
      | Inr _ \<Rightarrow> Inl PyAttributeError)"

definition sky_is_running :: "'w sky_cloud \<Rightarrow> ('w, exn, bool) io" where
  "sky_is_running S =
     io_bind (io_try (get_databases (sc_api S)) (\<lambda>e. isinstance_exn e SkySQLAPIClientException) (\<lambda>e. io_return (VList []))) (\<lambda>dbs.
     io_bind (io_lift (py_iter dbs)) (\<lambda>dbs. io_lift (any_of (listed_running (sc_cluster_name S)) dbs)))"

text \<open>\<open>clean_cmd(stmt).replace("\n", "").split(";")[:-1]\<close>.\<close>

definition statements_of :: "string \<Rightarrow> string list" where
  "statements_of cmd = butlast (split_on (CHR '';'') (filter (\<lambda>c. c \<noteq> newline) (clean_cmd (CmdStr cmd))))"

definition sky_create_database_and_user :: "'w sky_cloud \<Rightarrow> component_klass \<Rightarrow> node \<Rightarrow> ('w, exn, unit) io" where
  "sky_create_database_and_user S k n = io_for (statements_of (sc_create_stmt S k n)) (sc_mysql_execute S)"

definition latest_version_for_deploy :: "'w sky_cloud \<Rightarrow> string \<Rightarrow> ('w, exn, pyval) io" where
  "latest_version_for_deploy S deploy =
     io_bind (get_releases (sc_api S)) (\<lambda>rs.
       case dget rs (map lower_char deploy) of None \<Rightarrow> io_raise PyKeyError | Some v \<Rightarrow> io_return v)"

definition check_kind :: "string \<Rightarrow> exn + string" where
  "check_kind kind = (case dget SKYSQL_SERVICES_DEPLOYMENT_MAP kind of
     None \<Rightarrow> Inl SkySQLCLoudException | Some d \<Rightarrow> Inr d)"

text \<open>
  \<open>check_for_databases\<close>: the first database of the name that decides; one in a state that the code
  does not know is passed over.
\<close>

fun usable_database :: "string \<Rightarrow> pyval list \<Rightarrow> exn + pyval option" where
  "usable_database name [] = Inr None"
| "usable_database name (db # dbs) =
     (case has_value db ''name'' (VStr name) of
        Inl e \<Rightarrow> Inl e
      | Inr False \<Rightarrow> usable_database name dbs
      | Inr True \<Rightarrow>
          (case subscript db ''install_status'' of
             Inl e \<Rightarrow> Inl e
           | Inr st \<Rightarrow>
               (if st = VStr SKYSQL_DB_IS_UP_AND_RUNNING then Inr (Some db)
                else if st = VStr SKYSQL_DB_IS_INSTALLING \<or> st \<in> VStr ` set SKYSQL_DB_IS_BUSY then Inl SkySQLCLoudException
                else usable_database name dbs)))"

definition check_for_databases :: "'w sky_cloud \<Rightarrow> pydict \<Rightarrow> ('w, exn, pyval option) io" where
  "check_for_databases S inst =
     io_bind (io_try (get_databases (sc_api S)) (\<lambda>e. isinstance_exn e SkySQLAPIClientException) (\<lambda>e. io_return (VList []))) (\<lambda>dbs.
     io_bind (io_lift (py_iter dbs)) (\<lambda>dbs.
       if dbs = [] then io_return None
       else case dget inst ''cluster_name'' of
         None \<Rightarrow> io_raise PyKeyError
       | Some (VStr cn) \<Rightarrow> io_lift (usable_database (convert_db_name cn) dbs)
       | Some _ \<Rightarrow> io_raise PyAttributeError))"

text \<open>
  \<open>launch_skysql_database\<close>: the values that the arguments of the creation need are read from the
  instance before it is known whether a database has to be created.
\<close>

definition int_item :: "pydict \<Rightarrow> string \<Rightarrow> exn + int" where
  "int_item d k = (case dget d k of None \<Rightarrow> Inl PyKeyError | Some (VInt i) \<Rightarrow> Inr i | Some _ \<Rightarrow> Inl PyTypeError)"

definition str_item :: "pydict \<Rightarrow> string \<Rightarrow> exn + string" where
  "str_item d k = (case dget d k of None \<Rightarrow> Inl PyKeyError | Some (VStr s) \<Rightarrow> Inr s | Some _ \<Rightarrow> Inl PyAttributeError)"

definition dict_item :: "pydict \<Rightarrow> string \<Rightarrow> exn + pydict" where
  "dict_item d k = (case dget d k of None \<Rightarrow> Inl PyKeyError | Some (VDict e) \<Rightarrow> Inr e | Some _ \<Rightarrow> Inl PyTypeError)"

definition launch_skysql_database :: "'w sky_cloud \<Rightarrow> pydict \<Rightarrow> ('w, exn, pyval) io" where
  "launch_skysql_database S inst =
     io_bind (io_lift (str_item inst ''kind'')) (\<lambda>kind.
     io_bind (io_lift (check_kind kind)) (\<lambda>deploy.
     io_bind (check_for_databases S inst) (\<lambda>db_node.
     io_bind (case dget SKYSQL_DEPLOY_2_RELEASE_MAP kind of None \<Rightarrow> io_raise PyKeyError | Some d \<Rightarrow> io_return d) (\<lambda>rel.
     io_bind (latest_version_for_deploy S rel) (\<lambda>version.
     io_bind (io_lift (int_item inst ''count'')) (\<lambda>replicas.
     io_bind (io_lift (str_item inst ''instance_type'')) (\<lambda>sz.
     io_bind (io_lift (dict_item inst ''storage'')) (\<lambda>st.
     io_bind (io_lift (int_item st ''size'')) (\<lambda>disk.
     io_bind (io_lift (int_item st ''iops'')) (\<lambda>n.
       case db_node of
         Some (VDict (x # xs)) \<Rightarrow> io_return (VDict (x # xs))
       | _ \<Rightarrow> create_db_cluster (sc_api S) \<lparr>ca_version = version, ca_region = sky_region (sc_api S),
           ca_cloud = sky_provider (sc_api S), ca_name = sc_cluster_name S, ca_replicas = replicas, ca_size = sz,
           ca_kind = deploy, ca_disk_size = disk, ca_iops = n, ca_ssl = False\<rparr>))))))))))"

text \<open>The machine that the cluster file will hold for the database.\<close>

definition sky_vm :: "'w sky_cloud \<Rightarrow> pyval \<Rightarrow> virtual_machine \<Rightarrow> exn + virtual_machine" where
  "sky_vm S db v =
     (case subscript db ''provider'' of Inl e \<Rightarrow> Inl e | Inr prov \<Rightarrow>
     (case subscript db ''id'' of Inl e \<Rightarrow> Inl e | Inr i \<Rightarrow>
     (case subscript db ''size'' of Inl e \<Rightarrow> Inl e | Inr sz \<Rightarrow>
     (case subscript db ''ip_address'' of Inl e \<Rightarrow> Inl e | Inr ip \<Rightarrow>
       Inr (v\<lparr>cloud := show_val (sc_api S) prov, vm_id := Some (show_val (sc_api S) i),
              instance_type := show_val (sc_api S) sz,
              network := Some \<lparr>cloud_type = ''public_cloud'', private_ip = ''127.0.0.1'', public_ip = show_val (sc_api S) ip,
                disable_network_security = True\<rparr>,
              zone := ''not a real zone'', vm_cluster_name := sc_cluster_name S\<rparr>)))))"

definition sky_launch_instances :: "'w sky_cloud \<Rightarrow> pydict list \<Rightarrow> ('w, exn, node list) io" where
  "sky_launch_instances S instances =
     (case instances of [] \<Rightarrow> io_raise PyIndexError | inst # _ \<Rightarrow>
     (case dget_default inst ''klass'' VNone of
        VStr kl \<Rightarrow>
          io_bind (io_lift (get_class_from_klass (sc_import S) kl)) (\<lambda>k.
          io_bind (launch_skysql_database S (dict_update inst [(''kind'', VStr (sc_klass_kind S k))])) (\<lambda>db.
          io_bind (io_lift (id_of (sc_api S) db)) (\<lambda>i.
          io_seq (allow_ip (sc_api S) ''0.0.0.0/0'' i)
         (io_seq (wait_for_database_connectivity S db)
         (io_bind (io_lift (vm_from_dict (sc_libs S) inst)) (\<lambda>v.
          io_bind (io_lift (sky_vm S db v)) (\<lambda>v.
          io_bind (io_lift (Node v)) (\<lambda>n.
          io_seq (sky_create_database_and_user S k n)
         (io_seq (sc_db_connect S k n) (io_return [n]))))))))))
      | _ \<Rightarrow> io_raise PyAttributeError))"

definition sky_terminate_instances :: "'w sky_cloud \<Rightarrow> node list \<Rightarrow> ('w, exn, unit) io" where
  "sky_terminate_instances S instances =
     (case instances of [] \<Rightarrow> io_raise PyIndexError
      | n # _ \<Rightarrow> destroy (sc_api S) (case vm_id (vm n) of None \<Rightarrow> ''None'' | Some i \<Rightarrow> i))"

section \<open>Lemmas\<close>

lemma any_of_False: "\<forall>x \<in> set xs. test x = Inr False \<Longrightarrow> any_of test xs = Inr False"
  by (induction xs) auto

lemma convert_length: "length (convert_db_name s) = length s + 7"
  by (simp add: convert_db_name_def)

lemma convert_prefix: "startswith (convert_db_name s) ''mdbint-''"
  by (simp add: convert_db_name_def startswith_def)

lemma check_db_name_take: "check_db_name s = take 24 s"
  by (simp add: check_db_name_def)

text \<open>A created name can only convert to the name of a cluster that begins with the prefix.\<close>

lemma convert_again:
  assumes "convert_db_name (take 24 (convert_db_name n)) = convert_db_name c"
  shows "startswith c ''mdbint''"
proof -
  let ?d = "\<lambda>c. if c = CHR ''_'' then CHR ''-'' else c"
  have "map ?d (take 24 (convert_db_name n)) = map ?d c"
    using assms by (simp add: convert_db_name_def)
  then have eq: "take 6 (map ?d c) = take 6 (map ?d (take 24 (convert_db_name n)))" by simp
  have "take 6 (map ?d (take 24 (convert_db_name n))) = ''mdbint''"
    by (simp add: convert_db_name_def)
  with eq have "map ?d (take 6 c) = ''mdbint''" by (simp add: take_map)
  then have "take 6 c = ''mdbint''"
    by (auto simp: map_eq_Cons_conv split: if_splits)
  then show ?thesis by (simp add: startswith_def eval_nat_numeral)
qed

lemma allow_ip_loop_stale:
  "ip_listed l ip = Inr False \<Longrightarrow>
     allow_ip_loop A l ip n w = (Inl SkySQLAPIServerException, (sleep (sky_clock A) nap_time ^^ n) w)"
  by (induction n arbitrary: w) (simp_all add: io_defs funpow_swap1)

text \<open>The calls of the interface keep what the requests keep.\<close>

definition http_keeps :: "('w \<Rightarrow> bool) \<Rightarrow> 'w sky_api \<Rightarrow> bool" where
  "http_keeps I A \<longleftrightarrow> (\<forall>m u h d p. io_keeps I (http A m u h d p))"

lemma api_call_keeps: "http_keeps I A \<Longrightarrow> io_keeps I (api_call A url meth headers data params)"
  by (auto simp: api_call_def http_keeps_def Let_def intro!: io_inv_intros)

lemma get_json_keeps: "http_keeps I A \<Longrightarrow> io_keeps I (get_json A path params)"
  unfolding get_json_def by (intro io_inv_intros api_call_keeps)

lemma db_status_keeps: "http_keeps I A \<Longrightarrow> io_keeps I (db_status_is_up A i)"
  unfolding db_status_is_up_def by (intro io_inv_intros get_json_keeps)

lemma db_has_ip_keeps: "http_keeps I A \<Longrightarrow> io_keeps I (db_has_ip A i)"
  unfolding db_has_ip_def by (intro io_inv_intros get_json_keeps)

lemma get_database_keeps: "http_keeps I A \<Longrightarrow> io_keeps I (get_database A i)"
  unfolding get_database_def by (rule get_json_keeps)

lemma create_params_keeps: "http_keeps I A \<Longrightarrow> io_keeps I (check_db_cluster_create_params A cl reg kind sz replicas)"
  unfolding check_db_cluster_create_params_def check_provider_def get_providers_def check_region_def get_regions_def
    check_deployment_def get_deployments_def check_size_def refuse_unless_def
  by (intro io_inv_intros get_json_keeps; simp add: io_inv_intros)

lemma post_db_cluster_keeps: "http_keeps I A \<Longrightarrow> io_keeps I (post_db_cluster A a)"
  unfolding post_db_cluster_def by (intro io_inv_intros create_params_keeps api_call_keeps)

lemma keeps_counter:
  assumes "\<And>s :: int. io_keeps (\<lambda>w. slept w = s) m" and "m w = (r, w')"
  shows "slept w' = slept w"
  using io_keepsD [OF assms(1), of w "slept w"] assms(2) by simp

text \<open>The polling loops sleep at most once per poll, and the first leaves the rest of the polls to the second.\<close>

lemma wait_until_up_time:
  fixes slept :: "'w \<Rightarrow> int"
  assumes http: "\<And>s. http_keeps (\<lambda>w. slept w = s) A" and nap: "\<And>w. slept (sleep (sky_clock A) nap_time w) = slept w + 60"
  shows "wait_until_up A db n w = (r, w') \<Longrightarrow>
    slept w' + 60 * (case r of Inl _ \<Rightarrow> 0 | Inr m \<Rightarrow> int m) \<le> slept w + 60 * int n"
proof (induction n arbitrary: w)
  case (Suc n)
  show ?case
  proof (cases "id_of A db")
    case (Inr i)
    obtain u v where u: "db_status_is_up A i w = (u, v)" by (cases "db_status_is_up A i w")
    then have v: "slept v = slept w" by (rule keeps_counter [OF db_status_keeps [OF http]])
    show ?thesis
    proof (cases u)
      case (Inr up)
      show ?thesis
      proof (cases up)
        case False
        with Suc.prems Inr u \<open>id_of A db = Inr i\<close> have "wait_until_up A db n (sleep (sky_clock A) nap_time v) = (r, w')"
          by (simp add: io_defs)
        from Suc.IH [OF this] v nap [of v] show ?thesis by simp
      qed (use Suc.prems Inr u v \<open>id_of A db = Inr i\<close> in \<open>auto simp: io_defs\<close>)
    qed (use Suc.prems u v Inr in \<open>auto simp: io_defs\<close>)
  qed (use Suc.prems in \<open>auto simp: io_defs\<close>)
qed (auto simp: io_defs)

lemma wait_for_ip_time:
  fixes slept :: "'w \<Rightarrow> int"
  assumes http: "\<And>s. http_keeps (\<lambda>w. slept w = s) A" and nap: "\<And>w. slept (sleep (sky_clock A) nap_time w) = slept w + 60"
  shows "slept (snd (wait_for_ip A db n w)) \<le> slept w + 60 * int n"
proof (induction n arbitrary: w)
  case (Suc n)
  show ?case
  proof (cases "id_of A db")
    case (Inr i)
    obtain u v where u: "db_has_ip A i w = (u, v)" by (cases "db_has_ip A i w")
    then have v: "slept v = slept w" by (rule keeps_counter [OF db_has_ip_keeps [OF http]])
    show ?thesis
    proof (cases u)
      case (Inr has)
      obtain g x where g: "get_database A i v = (g, x)" by (cases "get_database A i v")
      then have "slept x = slept v" by (rule keeps_counter [OF get_database_keeps [OF http]])
      with Suc.IH [of "sleep (sky_clock A) nap_time v"] nap [of v] v g u Inr \<open>id_of A db = Inr i\<close> show ?thesis
        by (auto simp: io_defs split: sum.splits)
    qed (use u v Inr in \<open>simp add: io_defs\<close>)
  qed (simp add: io_defs)
qed (simp add: io_defs)

section \<open>Properties\<close>

text \<open>
  The creation of a database waits at most an hour in all: the request, the polls for the status and
  the polls for the address together sleep at most \<open>max_api_call_polls\<close> times \<open>nap_time\<close> seconds
  (the two loops share one counter), and then the creation has returned or raised.
\<close>

theorem create_db_cluster_time:
  fixes slept :: "'w \<Rightarrow> int"
  assumes "\<forall>m u h d p w. slept (snd (http A m u h d p w)) = slept w"
    and "\<forall>d w. slept (sleep (sky_clock A) d w) = slept w + d"
  shows "slept (snd (create_db_cluster A a w)) \<le> slept w + int max_api_call_polls * nap_time"
proof -
  have http: "http_keeps (\<lambda>w. slept w = s) A" for s using assms(1) by (simp add: http_keeps_def io_keeps_def)
  have nap: "slept (sleep (sky_clock A) nap_time w) = slept w + 60" for w using assms(2) by (simp add: nap_time_def)
  obtain r v where r: "post_db_cluster A a w = (r, v)" by (cases "post_db_cluster A a w")
  then have v: "slept v = slept w" by (rule keeps_counter [OF post_db_cluster_keeps [OF http]])
  show ?thesis
  proof (cases r)
    case (Inr db)
    obtain n x where n: "wait_until_up A db max_api_call_polls v = (n, x)" by (cases "wait_until_up A db max_api_call_polls v")
    from wait_until_up_time [OF http nap n] wait_for_ip_time [OF http nap, of db "case n of Inr k \<Rightarrow> k" x] r v n Inr
    show ?thesis by (cases n) (auto simp: create_db_cluster_def io_defs nap_time_def max_api_call_polls_def)
  qed (use r v in \<open>simp add: create_db_cluster_def io_defs nap_time_def max_api_call_polls_def\<close>)
qed

text \<open>An interface for the witnesses: it logs the requests and answers every one with the same value.\<close>

definition demo_api :: "pyval \<Rightarrow> (int \<times> string list) sky_api" where
  "demo_api v = \<lparr>api_key = Some ''key'', sky_region = ''us'', sky_provider = ''aws'', api_server = ''https://api'',
     id_server = ''https://id'', inst_nap_time = 60, inst_max_polls = 60, bearer_token = Some ''t'',
     http = (\<lambda>m u h d p (t, l). (Inr \<lparr>status_code = 200, json = Inr v\<rparr>, (t, (m @ '' '' @ u) # l))),
     dumps = (\<lambda>v. []), show_val = (\<lambda>v. case v of VStr s \<Rightarrow> s | _ \<Rightarrow> []),
     sky_clock = \<lparr>now = (\<lambda>w. 0), sleep = (\<lambda>d (t, l). (t + d, l))\<rparr>\<rparr>"

theorem create_db_cluster_time_witness:
  "fst (snd (create_db_cluster (demo_api (VDict [(''id'', VStr ''db1''), (''status'', VStr ''Pending'')]))
     \<lparr>ca_version = VNone, ca_region = ''us'', ca_cloud = ''AWS'', ca_name = ''perf'', ca_replicas = 3, ca_size = ''sky-2x8'',
      ca_kind = ''k'', ca_disk_size = 100, ca_iops = 100, ca_ssl = False\<rparr> (0, []))) \<le> 3600"
  using create_db_cluster_time [of fst "demo_api (VDict [(''id'', VStr ''db1''), (''status'', VStr ''Pending'')])"
      "\<lparr>ca_version = VNone, ca_region = ''us'', ca_cloud = ''AWS'', ca_name = ''perf'', ca_replicas = 3, ca_size = ''sky-2x8'',
      ca_kind = ''k'', ca_disk_size = 100, ca_iops = 100, ca_ssl = False\<rparr>" "(0, [])"]
  by (simp add: max_api_call_polls_def nap_time_def demo_api_def split_beta)

text \<open>
  Opening the database to an address does not wait for the change: the list of allowed addresses is
  read once. When the address is in it, \<open>allow_ip\<close> returns at once; when it is not, the loop looks
  at the same list sixty times, sleeps for an hour and raises, whatever happens on the server.
\<close>

theorem allow_ip_reads_once:
  assumes "post_allow_ip A ip dbid w = (Inr v, w1)" and "get_allow_list A dbid w1 = (Inr (VList l), w2)"
    and "ip_listed l ip = Inr found"
  shows "allow_ip A ip dbid w =
    (if found then (Inr (), w2) else (Inl SkySQLAPIServerException, (sleep (sky_clock A) 60 ^^ 60) w2))"
  using assms allow_ip_loop_stale [of l ip A max_api_call_polls w2]
  by (simp add: allow_ip_def io_defs py_iter_def max_api_call_polls_def nap_time_def)

theorem allow_ip_reads_once_witness:
  "\<exists>l. allow_ip (demo_api (VList [])) ''10.0.0.1'' ''db1'' (0, []) = (Inl SkySQLAPIServerException, (3600, l))"
proof -
  let ?A = "demo_api (VList [])"
  obtain w1 where p: "post_allow_ip ?A ''10.0.0.1'' ''db1'' (0, []) = (Inr (VList []), (0, w1))"
    by (simp add: post_allow_ip_def api_call_def io_defs demo_api_def check_response_def Let_def lower_char_def)
  obtain w2 where g: "get_allow_list ?A ''db1'' (0, w1) = (Inr (VList []), (0, w2))"
    by (simp add: get_allow_list_def get_json_def api_call_def io_defs demo_api_def check_response_def Let_def lower_char_def)
  have "(sleep (sky_clock ?A) 60 ^^ n) (0, w2) = (60 * int n, w2)" for n
    by (induction n) (simp_all add: demo_api_def)
  with allow_ip_reads_once [OF p g, of False] show ?thesis
    by (simp add: ip_listed_def)
qed

text \<open>
  The check whether the cluster is already running does not see the databases of this program: when
  all databases of the account were created by it (under the converted, shortened name of some
  cluster), \<open>is_running\<close> answers \<open>False\<close> for every cluster whose name does not itself begin with
  \<open>mdbint\<close>, running databases of that very cluster included, because the name from the list is
  converted a second time.
\<close>

theorem sky_is_running_blind:
  assumes "get_databases (sc_api S) w = (Inr (VList dbs), w')"
    and "\<forall>db \<in> set dbs. \<exists>d n. db = VDict d \<and> dget d ''name'' = Some (VStr (check_db_name (convert_db_name n)))"
    and "\<not> startswith (sc_cluster_name S) ''mdbint''"
  shows "sky_is_running S w = (Inr False, w')"
proof -
  have "listed_running (sc_cluster_name S) db = Inr False" if mem: "db \<in> set dbs" for db
  proof -
    obtain d n where db: "db = VDict d" "dget d ''name'' = Some (VStr (take 24 (convert_db_name n)))"
      using bspec [OF assms(2) mem] unfolding check_db_name_take by blast
    have "convert_db_name (take 24 (convert_db_name n)) \<noteq> convert_db_name (sc_cluster_name S)"
      using assms(3) convert_again by blast
    with db show ?thesis by (simp add: listed_running_def subscript_def)
  qed
  then have "any_of (listed_running (sc_cluster_name S)) dbs = Inr False" by (intro any_of_False) blast
  with assms(1) show ?thesis by (simp add: sky_is_running_def io_defs py_iter_def)
qed

definition demo_sky :: "pyval \<Rightarrow> (int \<times> string list) sky_cloud" where
  "demo_sky v = \<lparr>sc_api = demo_api v, sc_cluster_name = ''perf'', sc_mysql_connect = (\<lambda>h p u pw w. (Inr (), w)),
     sc_mysql_execute = (\<lambda>s w. (Inr (), w)), sc_klass_kind = (\<lambda>k. ''xpand''), sc_create_stmt = (\<lambda>k n. []),
     sc_db_connect = (\<lambda>k n w. (Inr (), w)), sc_import = (\<lambda>m k. Inr \<lparr>klass_name = k, clustered = True\<rparr>),
     sc_libs = \<lparr>py_str = (\<lambda>v. []), vm_from_dict = (\<lambda>d. Inl PyTypeError), bt_from_dict = (\<lambda>d. Inl PyTypeError)\<rparr>\<rparr>"

theorem sky_is_running_blind_witness:
  "fst (sky_is_running (demo_sky (VList [VDict [(''name'', VStr ''mdbint-perf''), (''install_status'', VStr ''Installed'')]])) (0, []))
     = Inr False"
proof -
  let ?v = "VList [VDict [(''name'', VStr ''mdbint-perf''), (''install_status'', VStr ''Installed'')]]"
  obtain w' where g: "get_databases (sc_api (demo_sky ?v)) (0, []) = (Inr ?v, w')"
    by (simp add: demo_sky_def get_databases_def get_json_def api_call_def io_defs demo_api_def check_response_def Let_def lower_char_def)
  have "''mdbint-perf'' = check_db_name (convert_db_name ''perf'')"
    by (simp add: check_db_name_def convert_db_name_def)
  then have "\<forall>db \<in> set [VDict [(''name'', VStr ''mdbint-perf''), (''install_status'', VStr ''Installed'')]].
      \<exists>d n. db = VDict d \<and> dget d ''name'' = Some (VStr (check_db_name (convert_db_name n)))"
    by (metis (no_types, lifting) empty_iff empty_set map_of_Cons_code(2) set_ConsD)
  moreover have "\<not> startswith (sc_cluster_name (demo_sky ?v)) ''mdbint''"
    by (simp add: demo_sky_def startswith_simps)
  ultimately show ?thesis using sky_is_running_blind [OF g] by simp
qed

text \<open>
  What the creation asks for: the name has the prefix \<open>mdbint-\<close>, at most 24 characters and no
  underscore, and on AWS the operations per second never exceed what was asked, nor 50 per gigabyte
  below 2000 GB, nor 60000 per gigabyte above 2000 GB; a request within the limits is left as it is,
  and at exactly 2000 GB nothing is limited.
\<close>

theorem create_request_limits:
  "(let n = check_db_name (convert_db_name name) in
      startswith n ''mdbint-'' \<and> length n \<le> 24 \<and> CHR ''_'' \<notin> set n)
   \<and> check_aws_iops disk ops \<le> ops
   \<and> check_aws_iops disk ops =
       (if disk < 2000 then min ops (50 * disk) else if disk > 2000 then min ops (60000 * disk) else ops)"
proof -
  have "CHR ''_'' \<notin> set (convert_db_name name)" by (auto simp: convert_db_name_def split: if_splits)
  then have "CHR ''_'' \<notin> set (check_db_name (convert_db_name name))"
    unfolding check_db_name_take using set_take_subset by fast
  moreover have "startswith (check_db_name (convert_db_name name)) ''mdbint-''"
    by (simp add: check_db_name_take convert_db_name_def startswith_def)
  ultimately show ?thesis by (auto simp: check_db_name_take check_aws_iops_def Let_def)
qed

end
