(* ===== verification/XB_SkySql2.thy ===== *)
theory XB_SkySql2
  imports XB_SkySql
begin

text \<open>
  \<^verbatim>\<open>cloud/skysql/skysql_api2.py\<close>, \<^verbatim>\<open>cloud/skysql/skysql2_data_model.py\<close>,
  \<^verbatim>\<open>cloud/skysql/skysql2_deployment.py\<close> and \<^verbatim>\<open>cloud/skysql/skysql2.py\<close>: the second client of
  the SkySQL interface, whose calls run under the retry decorator, and its cloud class.

  The HTTP library is a parameter, given the data of a request before they are encoded as JSON; so are
  \<open>urljoin\<close> with the gateway, dacite, the MySQL client and the backend classes.
\<close>

section \<open>Services\<close>

record service_port =
  sp_name :: string
  sp_port :: int
  sp_purpose :: string

record service_endpoint =
  se_name :: string
  se_ports :: "service_port list"

record service =
  sv_id :: string
  sv_name :: string
  sv_status :: string
  sv_endpoints :: "service_endpoint list"
  sv_fqdn :: string

record credentials =
  cr_host :: string
  cr_username :: string
  cr_password :: string

definition get_port_by_name :: "service_endpoint \<Rightarrow> string \<Rightarrow> exn + service_port" where
  "get_port_by_name e port_name = (case find (\<lambda>p. sp_name p = port_name) (se_ports e) of
     None \<Rightarrow> Inl SkySQLAPIException2 | Some p \<Rightarrow> Inr p)"

definition get_endpoint_by_name :: "service \<Rightarrow> string \<Rightarrow> exn + service_endpoint" where
  "get_endpoint_by_name s name = (case find (\<lambda>e. se_name e = name) (sv_endpoints s) of
     None \<Rightarrow> Inl SkySQLAPIException2 | Some e \<Rightarrow> Inr e)"

text \<open>\<open>ServiceState\<close>: the states the client looks for.\<close>

definition st_ready :: string where "st_ready = ''ready''"
definition st_failed :: string where "st_failed = ''failed''"

section \<open>The client\<close>

record response2 =
  status2 :: int
  content_type :: string
  json2 :: "exn + pyval"

record 'w sky2 =
  s2_api_key :: "string option"
  s2_bearer_token :: "string option"
  s2_project_id :: pyval
  s2_region :: pyval
  s2_provider :: pyval
  s2_auth_url :: string
  s2_join :: "string \<Rightarrow> string"
  s2_http :: "string \<Rightarrow> string \<Rightarrow> (string, string) dict \<Rightarrow> pyval \<Rightarrow> pydict \<Rightarrow> ('w, exn, response2) io"
  s2_service :: "pydict \<Rightarrow> exn + service"
  s2_credentials :: "pydict \<Rightarrow> exn + credentials"
  s2_clock :: "'w os_clock"
  s2_draw :: "nat \<Rightarrow> nat"
  s2_local_ip :: string

definition SERVICES :: string where "SERVICES = ''/provisioning/v1/services''"
definition VERSIONS :: string where "VERSIONS = ''/provisioning/v1/versions''"
definition RELEASES :: string where "RELEASES = ''/provisioning/v1/releases''"
definition PROJECTS :: string where "PROJECTS = ''/organization/v1/projects''"
definition MAX_SERVICE_NAME_LENGTH :: nat where "MAX_SERVICE_NAME_LENGTH = 24"

text \<open>The headers of a call without its own: neither a token nor a key makes the concatenation fail.\<close>

definition auth_headers2 :: "'w sky2 \<Rightarrow> exn + (string, string) dict" where
  "auth_headers2 A =
     (case (case s2_bearer_token A of Some (c # cs) \<Rightarrow> Some (c # cs) | _ \<Rightarrow> s2_api_key A) of
        None \<Rightarrow> Inl PyTypeError
      | Some t \<Rightarrow> Inr [(''Authorization'', ''Bearer '' @ t), (''Content-Type'', ''application/json'')])"

definition is_json_response :: "response2 \<Rightarrow> bool" where
  "is_json_response r = contains_str (content_type r) ''json''"

text \<open>\<open>res.get("errors")[0].get("message")\<close>, which the message of the exception needs.\<close>

definition error_message_ok :: "pyval \<Rightarrow> exn + unit" where
  "error_message_ok res = (case res of
     VDict d \<Rightarrow>
       (case dget_default d ''errors'' VNone of
          VList (VDict _ # _) \<Rightarrow> Inr ()
        | VList [] \<Rightarrow> Inl PyIndexError
        | VList _ \<Rightarrow> Inl PyAttributeError
        | VStr (_ # _) \<Rightarrow> Inl PyAttributeError
        | VStr [] \<Rightarrow> Inl PyIndexError
        | VDict _ \<Rightarrow> Inl PyKeyError
        | _ \<Rightarrow> Inl PyTypeError)
   | _ \<Rightarrow> Inl PyAttributeError)"

definition check_status_code :: "response2 \<Rightarrow> exn + unit" where
  "check_status_code r =
     (if status2 r < 300 then Inr ()
      else case (if is_json_response r then (case json2 r of Inl e \<Rightarrow> Inl e | Inr v \<Rightarrow> error_message_ok v) else Inr ()) of
        Inl e \<Rightarrow> Inl e
      | Inr _ \<Rightarrow>
          (if 400 \<le> status2 r \<and> status2 r < 500 then Inl SkySQLAPIClientException2
           else if status2 r \<ge> 500 then Inl SkySQLAPIServerException2 else Inr ()))"

definition autocomplete_url :: "'w sky2 \<Rightarrow> string \<Rightarrow> string" where
  "autocomplete_url A url = (if startswith url ''http'' then url else s2_join A url)"

definition api_policy2 :: retry_policy where
  "api_policy2 = \<lparr>exceptions_to_check = [RequestsReadTimeout, RequestsConnectionError],
     exception_to_raise = SkySQLAPIException2, max_delay = 300\<rparr>"

definition api_call_once2 :: "'w sky2 \<Rightarrow> string \<Rightarrow> string \<Rightarrow> pyval \<Rightarrow> pydict \<Rightarrow> (string, string) dict \<Rightarrow> ('w, exn, pyval) io" where
  "api_call_once2 A url meth data params headers =
     io_bind (io_lift (if headers = [] then auth_headers2 A else Inr headers)) (\<lambda>hs.
       let m = map lower_char meth in
       if m \<in> set [''get'', ''post'', ''patch'', ''delete''] then
         io_bind (s2_http A m (autocomplete_url A url) hs (if m \<in> set [''post'', ''patch''] then data else VNone)
            (if m \<in> set [''get'', ''delete''] then params else [])) (\<lambda>r.
         io_bind (io_lift (check_status_code r)) (\<lambda>_.
           if is_json_response r then io_lift (json2 r) else io_return (VDict [])))
       else io_raise SkySQLAPIException2)"

definition api_call2 :: "'w sky2 \<Rightarrow> string \<Rightarrow> string \<Rightarrow> pyval \<Rightarrow> pydict \<Rightarrow> (string, string) dict \<Rightarrow> ('w, exn, pyval) io" where
  "api_call2 A url meth data params headers =
     retry (s2_clock A) api_policy2 (jitter_delays (s2_draw A) 3 10 15) (api_call_once2 A url meth data params headers)"

definition post_only :: "'w sky2 \<Rightarrow> string \<Rightarrow> pyval \<Rightarrow> ('w, exn, unit) io" where
  "post_only A url data = io_seq (api_call2 A url ''post'' data [] []) (io_return ())"

definition post_dict :: "'w sky2 \<Rightarrow> string \<Rightarrow> pyval \<Rightarrow> (string, string) dict \<Rightarrow> ('w, exn, pydict) io" where
  "post_dict A url data headers =
     io_bind (api_call2 A url ''post'' data [] headers) (\<lambda>r.
       case r of VDict d \<Rightarrow> io_return d | _ \<Rightarrow> io_raise SkySQLAPIException2)"

definition delete_url :: "'w sky2 \<Rightarrow> string \<Rightarrow> ('w, exn, unit) io" where
  "delete_url A url = io_seq (api_call2 A url ''delete'' VNone [] []) (io_return ())"

definition get_one :: "'w sky2 \<Rightarrow> string \<Rightarrow> ('w, exn, pydict) io" where
  "get_one A url =
     io_bind (api_call2 A url ''get'' VNone [] []) (\<lambda>r.
       case r of VDict d \<Rightarrow> io_return d | _ \<Rightarrow> io_raise SkySQLAPIException2)"

definition get_many :: "'w sky2 \<Rightarrow> string \<Rightarrow> pydict \<Rightarrow> ('w, exn, pyval list) io" where
  "get_many A url params =
     io_bind (api_call2 A url ''get'' VNone params []) (\<lambda>r.
       case r of VList l \<Rightarrow> io_return l | _ \<Rightarrow> io_raise SkySQLAPIException2)"

text \<open>\<open>get_bearer_token\<close> and \<open>set_default_project_id\<close> change the object, which they return here.\<close>

definition opt_string :: "pyval \<Rightarrow> string option" where
  "opt_string v = (case v of VStr s \<Rightarrow> Some s | _ \<Rightarrow> None)"

definition get_bearer_token2 :: "'w sky2 \<Rightarrow> ('w, exn, 'w sky2) io" where
  "get_bearer_token2 A =
     (case s2_api_key A of
        None \<Rightarrow> io_raise SkySQLAPIException2
      | Some k \<Rightarrow>
          io_bind (post_dict A (s2_auth_url A @ ''/api/v1/token'') VNone
            [(''Authorization'', ''Token '' @ k), (''Content-length'', ''0'')]) (\<lambda>r.
            io_return (A\<lparr>s2_bearer_token := opt_string (dget_default r ''token'' VNone)\<rparr>)))"

fun default_project :: "pyval list \<Rightarrow> exn + pyval" where
  "default_project [] = Inl SkySQLAPIException2"
| "default_project (p # ps) = (case p of
     VDict d \<Rightarrow> (if truthy (dget_default d ''is_default'' VNone) then Inr (dget_default d ''id'' VNone) else default_project ps)
   | _ \<Rightarrow> Inl PyAttributeError)"

definition set_default_project_id :: "'w sky2 \<Rightarrow> ('w, exn, 'w sky2) io" where
  "set_default_project_id A =
     (if s2_project_id A \<noteq> VNone then io_return A
      else io_bind (get_many A PROJECTS []) (\<lambda>ps.
           io_bind (io_lift (default_project ps)) (\<lambda>p. io_return (A\<lparr>s2_project_id := p\<rparr>))))"

definition SkySQLAPI2 :: "'w sky2 \<Rightarrow> ('w, exn, 'w sky2) io" where
  "SkySQLAPI2 A = io_bind (get_bearer_token2 (A\<lparr>s2_bearer_token := None\<rparr>)) set_default_project_id"

definition get_latest_version :: "'w sky2 \<Rightarrow> string \<Rightarrow> ('w, exn, pyval) io" where
  "get_latest_version A tp =
     io_bind (get_many A VERSIONS [(''topology'', VStr tp), (''limit'', VInt 100)]) (\<lambda>versions.
       if tp = ''xpand-pg'' then io_return (VStr ''6.1.1'')
       else case versions of
         [] \<Rightarrow> io_raise SkySQLAPIException2
       | VDict d # _ \<Rightarrow> io_return (dget_default d ''name'' VNone)
       | _ # _ \<Rightarrow> io_raise PyAttributeError)"

fun first_release :: "string \<Rightarrow> pyval list \<Rightarrow> exn + pyval" where
  "first_release product [] = Inr (VStr [])"
| "first_release product (r # rs) = (case r of
     VDict d \<Rightarrow>
       (if dget_default d ''product_name'' VNone = VStr product \<and> truthy (dget_default d ''is_active'' VNone)
        then Inr (dget_default d ''version'' (VStr [])) else first_release product rs)
   | _ \<Rightarrow> Inl PyAttributeError)"

definition get_latest_release :: "'w sky2 \<Rightarrow> string \<Rightarrow> ('w, exn, pyval) io" where
  "get_latest_release A product_name =
     io_bind (get_many A RELEASES [(''limit'', VInt 100)]) (\<lambda>rs. io_lift (first_release product_name rs))"

text \<open>dacite refuses what is no mapping with an \<open>AttributeError\<close>.\<close>

fun load_services :: "(pydict \<Rightarrow> exn + service) \<Rightarrow> pyval list \<Rightarrow> exn + service list" where
  "load_services f [] = Inr []"
| "load_services f (v # vs) =
     (case (case v of VDict d \<Rightarrow> f d | _ \<Rightarrow> Inl PyAttributeError) of
        Inl e \<Rightarrow> Inl e
      | Inr s \<Rightarrow> (case load_services f vs of Inl e \<Rightarrow> Inl e | Inr ss \<Rightarrow> Inr (s # ss)))"

definition get_services :: "'w sky2 \<Rightarrow> ('w, exn, service list) io" where
  "get_services A = io_bind (get_many A SERVICES []) (\<lambda>rs. io_lift (load_services (s2_service A) rs))"

definition get_service_id_by_name :: "'w sky2 \<Rightarrow> string \<Rightarrow> ('w, exn, string option) io" where
  "get_service_id_by_name A name =
     io_bind (get_services A) (\<lambda>ss. io_return (map_option sv_id (find (\<lambda>s. sv_name s = name) ss)))"

definition get_service_by_id :: "'w sky2 \<Rightarrow> string \<Rightarrow> ('w, exn, service) io" where
  "get_service_by_id A i = io_bind (get_one A (SERVICES @ ''/'' @ i)) (\<lambda>r. io_lift (s2_service A r))"

definition get_service_status :: "'w sky2 \<Rightarrow> string \<Rightarrow> ('w, exn, string) io" where
  "get_service_status A i = io_bind (get_service_by_id A i) (\<lambda>s. io_return (sv_status s))"

definition service_policy :: retry_policy where
  "service_policy = \<lparr>exceptions_to_check = [SkySQLServicePending], exception_to_raise = SkySQLServiceFailed, max_delay = 3600\<rparr>"

definition poll_service :: "'w sky2 \<Rightarrow> string \<Rightarrow> ('w, exn, unit) io" where
  "poll_service A i =
     io_bind (get_service_status A i) (\<lambda>st.
       if st = st_ready then io_return ()
       else if st = st_failed then io_raise SkySQLServiceFailed
       else io_raise SkySQLServicePending)"

definition wait_until_service_is_ready :: "'w sky2 \<Rightarrow> string \<Rightarrow> ('w, exn, unit) io" where
  "wait_until_service_is_ready A i = retry (s2_clock A) service_policy (constant_delay 60 60) (poll_service A i)"

section \<open>Operations on services\<close>

definition service_param_names :: "string list" where
  "service_param_names = [''name'', ''service_type'', ''version'', ''nodes'', ''size'', ''topology'', ''storage'', ''volume_iops'',
     ''volume_type'', ''ssl_enabled'']"

fun pick_params :: "pydict \<Rightarrow> string list \<Rightarrow> exn + pydict" where
  "pick_params kwargs [] = Inr []"
| "pick_params kwargs (k # ks) =
     (case dget kwargs k of
        None \<Rightarrow> Inl PyKeyError
      | Some v \<Rightarrow> (case pick_params kwargs ks of Inl e \<Rightarrow> Inl e | Inr d \<Rightarrow> Inr ((k, v) # d)))"

text \<open>
  The parameters of the new service. \<open>architecture\<close> is not among the names that are picked, so its
  value is never there to be kept.
\<close>

definition service_params :: "'w sky2 \<Rightarrow> pydict \<Rightarrow> exn + pydict" where
  "service_params A kwargs =
     (case pick_params kwargs service_param_names of
        Inl e \<Rightarrow> Inl e
      | Inr d \<Rightarrow>
          Inr (dict_update d [(''architecture'', (if truthy (dget_default d ''architecture'' VNone)
                  then dget_default d ''architecture'' VNone else VStr ''amd64'')),
                (''project_id'', s2_project_id A), (''region'', s2_region A), (''provider'', s2_provider A)]))"

definition lookup_name :: "string \<Rightarrow> string" where
  "lookup_name nm =
     (if length nm > MAX_SERVICE_NAME_LENGTH then take MAX_SERVICE_NAME_LENGTH nm else nm)"

definition create_service :: "'w sky2 \<Rightarrow> pydict \<Rightarrow> ('w, exn, pyval) io" where
  "create_service A kwargs =
     (case dget_default kwargs ''name'' (VStr []) of
        VStr nm \<Rightarrow>
          io_bind (get_service_id_by_name A (lookup_name nm)) (\<lambda>existing.
            case existing of
              Some i \<Rightarrow> io_return (VStr i)
            | None \<Rightarrow>
                io_bind (io_lift (service_params A kwargs)) (\<lambda>ps.
                io_bind (post_dict A SERVICES (VDict ps) []) (\<lambda>res. io_return (dget_default res ''id'' (VStr [])))))
      | _ \<Rightarrow> io_raise PyTypeError)"

definition delete_service :: "'w sky2 \<Rightarrow> string \<Rightarrow> ('w, exn, unit) io" where
  "delete_service A i = delete_url A (SERVICES @ ''/'' @ i)"

definition allow_ip2 :: "'w sky2 \<Rightarrow> string \<Rightarrow> string option \<Rightarrow> ('w, exn, unit) io" where
  "allow_ip2 A i ip =
     io_seq (post_only A (SERVICES @ ''/'' @ i @ ''/security/allowlist'')
        (VDict [(''ip_address'', VStr ((case ip of None \<Rightarrow> s2_local_ip A | Some a \<Rightarrow> a) @ ''/32''))]))
      (wait_until_service_is_ready A i)"

definition get_credentials2 :: "'w sky2 \<Rightarrow> string \<Rightarrow> ('w, exn, credentials) io" where
  "get_credentials2 A i =
     io_bind (get_one A (SERVICES @ ''/'' @ i @ ''/security/credentials'')) (\<lambda>r. io_lift (s2_credentials A r))"

definition get_default_service_access_parameters :: "'w sky2 \<Rightarrow> string \<Rightarrow> ('w, exn, string \<times> int \<times> string \<times> string) io" where
  "get_default_service_access_parameters A i =
     io_bind (get_credentials2 A i) (\<lambda>c.
     io_bind (get_service_by_id A i) (\<lambda>s.
     io_bind (io_lift (get_endpoint_by_name s ''primary'')) (\<lambda>e.
     io_bind (io_lift (get_port_by_name e ''readwrite'')) (\<lambda>p.
       io_return (sv_fqdn s, sp_port p, cr_password c, cr_username c)))))"

definition sky2_power :: "'w sky2 \<Rightarrow> string \<Rightarrow> string \<Rightarrow> ('w, exn, unit) io" where
  "sky2_power A i active = post_only A (SERVICES @ ''/'' @ i @ ''/power'') (VDict [(''is_active'', VStr active)])"

definition sky2_start :: "'w sky2 \<Rightarrow> string \<Rightarrow> ('w, exn, unit) io" where
  "sky2_start A i = sky2_power A i ''true''"

definition sky2_stop :: "'w sky2 \<Rightarrow> string \<Rightarrow> ('w, exn, unit) io" where
  "sky2_stop A i = sky2_power A i ''false''"

section \<open>The cloud\<close>

definition XBENCH_2_SKY_MAP :: "(string, (string, string) dict) dict" where
  "XBENCH_2_SKY_MAP = [
     (''xpand'', [(''product_name'', ''xpand''), (''topology'', ''xpand-direct''), (''service_type'', ''transactional'')]),
     (''mariadb'', [(''product_name'', ''server''), (''topology'', ''standalone''), (''service_type'', ''transactional'')]),
     (''xgres'', [(''product_name'', ''xgres''), (''topology'', ''xpand-pg''), (''service_type'', ''transactional'')])]"

definition XBENCH_2_SKY_ARCH_MAP :: "string \<Rightarrow> string" where
  "XBENCH_2_SKY_ARCH_MAP a = (if a = ''aarch64'' then ''arm64'' else ''amd64'')"

text \<open>
  The cloud object: the client, the parts that come from the MySQL client, the backend class and the
  cluster file (\<open>all_drivers_public_ips\<close>).
\<close>

record 'w sky_cloud2 =
  c2_api :: "'w sky2"
  c2_cluster_name :: string
  c2_cluster :: "('w, exn, cluster) io"
  c2_tree :: anytree
  c2_product :: "component_klass \<Rightarrow> string"
  c2_mysql_connect :: "string \<Rightarrow> int \<Rightarrow> string \<Rightarrow> string \<Rightarrow> ('w, exn, unit) io"
  c2_mysql_execute :: "string \<Rightarrow> ('w, exn, unit) io"
  c2_create_stmt :: "component_klass \<Rightarrow> node \<Rightarrow> string"
  c2_db_connect :: "component_klass \<Rightarrow> node \<Rightarrow> ('w, exn, unit) io"
  c2_import :: importer
  c2_libs :: cluster_libs

text \<open>A driver that is no member of the cluster, or a machine without network, raises \<open>AttributeError\<close>.\<close>

fun public_ips_of :: "node option list \<Rightarrow> exn + string list" where
  "public_ips_of [] = Inr []"
| "public_ips_of (None # ns) = Inl PyAttributeError"
| "public_ips_of (Some n # ns) =
     (case network (vm n) of
        None \<Rightarrow> Inl PyAttributeError
      | Some nw \<Rightarrow> (case public_ips_of ns of Inl e \<Rightarrow> Inl e | Inr ips \<Rightarrow> Inr (get_public_iface nw # ips)))"

definition all_drivers_public_ips :: "'w sky_cloud2 \<Rightarrow> ('w, exn, string list) io" where
  "all_drivers_public_ips S =
     io_bind (c2_cluster S) (\<lambda>c.
     io_bind (io_lift (get_all_driver_nodes (c2_tree S) c)) (\<lambda>ns. io_lift (public_ips_of ns)))"

definition sky2_create_database_and_user :: "'w sky_cloud2 \<Rightarrow> component_klass \<Rightarrow> node \<Rightarrow> ('w, exn, unit) io" where
  "sky2_create_database_and_user S k n =
     (let sql_cmd = c2_create_stmt S k n in
      io_when (sql_cmd \<noteq> []) (io_for (statements_of sql_cmd) (c2_mysql_execute S)))"

definition service_args :: "'w sky_cloud2 \<Rightarrow> pydict \<Rightarrow> string \<Rightarrow> string \<Rightarrow> pyval \<Rightarrow> exn + pydict" where
  "service_args S inst stype tp version =
     (case dget inst ''count'' of None \<Rightarrow> Inl PyKeyError | Some cnt \<Rightarrow>
     (case str_item inst ''instance_type'' of Inl e \<Rightarrow> Inl e | Inr it \<Rightarrow>
     (case dict_item inst ''storage'' of Inl e \<Rightarrow> Inl e | Inr st \<Rightarrow>
     (case dget st ''size'' of None \<Rightarrow> Inl PyKeyError | Some sz \<Rightarrow>
     (case dget st ''iops'' of None \<Rightarrow> Inl PyKeyError | Some n \<Rightarrow>
       Inr [(''architecture'', VStr (XBENCH_2_SKY_ARCH_MAP (case dget_default inst ''arch'' (VStr []) of VStr a \<Rightarrow> a | _ \<Rightarrow> []))),
         (''name'', VStr (c2_cluster_name S)), (''service_type'', VStr stype), (''provider'', s2_provider (c2_api S)),
         (''region'', s2_region (c2_api S)), (''version'', version), (''nodes'', cnt), (''size'', VStr (map lower_char it)),
         (''topology'', VStr tp), (''storage'', sz), (''volume_type'', dget_default st ''type'' (VStr ''io1'')),
         (''volume_iops'', n), (''ssl_enabled'', VBool False)])))))"

definition launch_skysql_service :: "'w sky_cloud2 \<Rightarrow> component_klass \<Rightarrow> pydict \<Rightarrow> ('w, exn, string \<times> string) io" where
  "launch_skysql_service S k inst =
     (case dget XBENCH_2_SKY_MAP (c2_product S k) of
        None \<Rightarrow> io_raise PyKeyError
      | Some m \<Rightarrow>
          io_bind (get_latest_version (c2_api S) (dget_default m ''topology'' [])) (\<lambda>version.
          io_bind (io_lift (service_args S inst (dget_default m ''service_type'' []) (dget_default m ''topology'' []) version)) (\<lambda>args.
          io_bind (create_service (c2_api S) args) (\<lambda>sid.
            let i = (case sid of VStr i \<Rightarrow> i | _ \<Rightarrow> py_str (c2_libs S) sid) in
            io_seq (wait_until_service_is_ready (c2_api S) i)
           (io_seq (allow_ip2 (c2_api S) i None)
           (io_bind (all_drivers_public_ips S) (\<lambda>ips.
            io_seq (io_for ips (\<lambda>ip. allow_ip2 (c2_api S) i (Some ip)))
           (io_bind (get_default_service_access_parameters (c2_api S) i) (\<lambda>(host, prt, pw, user).
            io_seq (c2_mysql_connect S host prt pw user) (io_return (i, host))))))))))) "

definition sky2_vm :: "'w sky_cloud2 \<Rightarrow> string \<Rightarrow> string \<Rightarrow> string \<Rightarrow> virtual_machine \<Rightarrow> virtual_machine" where
  "sky2_vm S i host it v =
     v\<lparr>cloud := (case s2_provider (c2_api S) of VStr p \<Rightarrow> p | w \<Rightarrow> py_str (c2_libs S) w), vm_id := Some i, instance_type := it,
       network := Some \<lparr>cloud_type = ''public_cloud'', private_ip = ''127.0.0.1'', public_ip = host, disable_network_security = True\<rparr>,
       zone := ''not a real zone'', vm_cluster_name := c2_cluster_name S\<rparr>"

fun copies_of :: "virtual_machine \<Rightarrow> pydict list \<Rightarrow> exn + node list" where
  "copies_of v [] = Inr []"
| "copies_of v (i # is) =
     (case Node (v\<lparr>vm_name := (case dget_default i ''name'' (VStr []) of VStr n \<Rightarrow> n | _ \<Rightarrow> [])\<rparr>) of
        Inl e \<Rightarrow> Inl e
      | Inr n \<Rightarrow> (case copies_of v is of Inl e \<Rightarrow> Inl e | Inr ns \<Rightarrow> Inr (n # ns)))"

definition sky2_launch_instances :: "'w sky_cloud2 \<Rightarrow> pydict list \<Rightarrow> ('w, exn, node list) io" where
  "sky2_launch_instances S instances =
     (case instances of [] \<Rightarrow> io_raise PyIndexError | inst # _ \<Rightarrow>
     (case dget_default inst ''klass'' VNone of
        VStr kl \<Rightarrow>
          io_bind (io_lift (get_class_from_klass (c2_import S) kl)) (\<lambda>k.
          io_bind (launch_skysql_service S k inst) (\<lambda>(i, host).
          io_bind (io_lift (vm_from_dict (c2_libs S) inst)) (\<lambda>v.
          io_bind (io_lift (str_item inst ''instance_type'')) (\<lambda>it.
            let v = sky2_vm S i host it v in
            io_bind (io_lift (Node v)) (\<lambda>n.
            io_seq (sky2_create_database_and_user S k n)
           (io_seq (c2_db_connect S k n)
             (io_lift (if length instances > 1 then copies_of v instances else map_sum id (\<lambda>n. [n]) (Node v)))))))))
      | _ \<Rightarrow> io_raise PyAttributeError))"

definition first_id :: "node list \<Rightarrow> exn + string" where
  "first_id ns = (case ns of [] \<Rightarrow> Inl PyIndexError | n # _ \<Rightarrow> Inr (case vm_id (vm n) of None \<Rightarrow> ''None'' | Some i \<Rightarrow> i))"

definition sky2_terminate_instances :: "'w sky_cloud2 \<Rightarrow> node list \<Rightarrow> ('w, exn, unit) io" where
  "sky2_terminate_instances S ns = io_bind (io_lift (first_id ns)) (delete_service (c2_api S))"

definition sky2_stop_instances :: "'w sky_cloud2 \<Rightarrow> node list \<Rightarrow> ('w, exn, unit) io" where
  "sky2_stop_instances S ns = io_bind (io_lift (first_id ns)) (sky2_stop (c2_api S))"

definition sky2_start_instances :: "'w sky_cloud2 \<Rightarrow> node list \<Rightarrow> ('w, exn, unit) io" where
  "sky2_start_instances S ns = io_bind (io_lift (first_id ns)) (sky2_start (c2_api S))"

section \<open>Lemmas\<close>

interpretation service_delays: retry_delays "constant_delay 60 60"
  by unfold_locales (auto simp: constant_delay_def)

interpretation api2_delays: retry_delays "jitter_delays draw 3 10 15" for draw
  by (rule jitter_delays_ok) simp_all

text \<open>A call of the interface fails with one class only, whatever the server answered.\<close>

interpretation api2_runner: raises_class "\<lambda>(A, url, m, data, ps, hs). api_call2 A url m data ps hs" SkySQLAPIException2
  by unfold_locales (auto simp: api_call2_def api_policy2_def dest: api2_delays.raises_only)

lemma pick_params_get:
  "pick_params kwargs ks = Inr d \<Longrightarrow> dget d k = (if k \<in> set ks then dget kwargs k else None)"
  by (induction ks arbitrary: d) (auto split: option.splits sum.splits)

lemma service_params_get:
  assumes "service_params A kwargs = Inr ps"
  shows "dget ps ''name'' = dget kwargs ''name''" and "dget ps ''architecture'' = Some (VStr ''amd64'')"
proof -
  obtain d where d: "pick_params kwargs service_param_names = Inr d"
    using assms by (cases "pick_params kwargs service_param_names") (simp_all add: service_params_def)
  note get = pick_params_get [OF d]
  show "dget ps ''name'' = dget kwargs ''name''"
    using assms d get [of "''name''"] by (auto simp: service_params_def service_param_names_def simp del: pick_params.simps)
  have "dget d ''architecture'' = None" using get [of "''architecture''"] by (simp add: service_param_names_def)
  then show "dget ps ''architecture'' = Some (VStr ''amd64'')"
    using assms d by (auto simp: service_params_def dget_default_def)
qed

section \<open>Properties\<close>

text \<open>
  A call of the interface raises \<open>SkySQLAPIException\<close> and nothing else (but for \<open>SigTermException\<close> and
  the interrupts): the classes for client and server errors that the status check raises are replaced
  by the decorator, and so is every error in reading the answer.
\<close>

theorem api_call2_errors:
  assumes "api_call2 A url meth data params headers w = (Inl e, w')"
  shows "e \<in> {SkySQLAPIException2, SigTermException, PyKeyboardInterrupt, PySystemExit}"
  using api2_runner.raises [of "(A, url, meth, data, params, headers)" w e w'] assms
  by (auto simp: isinstance_Exception)

definition demo_sky2 :: "int \<Rightarrow> pyval \<Rightarrow> nat sky2" where
  "demo_sky2 st v = \<lparr>s2_api_key = Some ''key'', s2_bearer_token = Some ''t'', s2_project_id = VStr ''p'', s2_region = VStr ''us'',
     s2_provider = VStr ''gcp'', s2_auth_url = ''https://id'', s2_join = (\<lambda>u. ''https://gw'' @ u),
     s2_http = (\<lambda>m u h d p n. (Inr \<lparr>status2 = st, content_type = ''application/json'', json2 = Inr v\<rparr>, Suc n)),
     s2_service = (\<lambda>d. Inr \<lparr>sv_id = ''id1'', sv_name = ''other'',
        sv_status = (case dget_default d ''status'' VNone of VStr s \<Rightarrow> s | _ \<Rightarrow> []), sv_endpoints = [], sv_fqdn = []\<rparr>),
     s2_credentials = (\<lambda>d. Inl PyTypeError), s2_clock = \<lparr>now = (\<lambda>n. 0), sleep = (\<lambda>d n. n)\<rparr>, s2_draw = (\<lambda>i. 0), s2_local_ip = ''1.2.3.4''\<rparr>"

lemma demo_sky2_call:
  "api_call2 (demo_sky2 200 v) url ''get'' VNone [] [] n = (Inr v, Suc n)"
  unfolding api_call2_def
  by (intro api2_delays.retry_success)
     (simp add: api_call_once2_def auth_headers2_def demo_sky2_def io_defs Let_def lower_char_def
        check_status_code_def is_json_response_def startswith_simps)

theorem api_call2_errors_witness:
  "fst (api_call2 (demo_sky2 403 (VDict [(''errors'', VList [VDict []])])) ''/x'' ''get'' VNone [] [] 0) = Inl SkySQLAPIException2"
proof -
  let ?A = "demo_sky2 403 (VDict [(''errors'', VList [VDict []])])"
  have "api_call_once2 ?A ''/x'' ''get'' VNone [] [] 0 = (Inl SkySQLAPIClientException2, 1)"
    by (simp add: api_call_once2_def auth_headers2_def demo_sky2_def io_defs Let_def lower_char_def
        check_status_code_def is_json_response_def error_message_ok_def dget_default_def startswith_simps)
  then have run: "api_call2 ?A ''/x'' ''get'' VNone [] [] 0 = (Inl SkySQLAPIException2, 1)"
    using retry_single_failure [of "api_call_once2 ?A ''/x'' ''get'' VNone [] []" 0 SkySQLAPIClientException2 1 api_policy2
        "jitter_delays (s2_draw ?A) 3 10 15" "s2_clock ?A"] api2_delays.retry_delays_axioms
    by (simp add: api_call2_def api_policy2_def isinstance_eval)
  from api_call2_errors [OF this] show ?thesis using run by simp
qed

text \<open>
  Waiting for a service stops at the first answer that decides: \<open>ready\<close> returns, \<open>failed\<close> raises
  \<open>SkySQLServiceFailed\<close>; and so does any failure of the status call itself, after that one poll.
  Only a pending service is polled again.
\<close>

theorem wait_service_decides:
  assumes "get_service_status A i w = (r, w')"
    and "r = Inr ''ready'' \<or> r = Inr ''failed'' \<or> (\<exists>e. r = Inl e \<and> e \<noteq> SkySQLServicePending \<and> e \<noteq> SigTermException
      \<and> e \<noteq> PyKeyboardInterrupt \<and> e \<noteq> PySystemExit)"
  shows "wait_until_service_is_ready A i w = (if r = Inr ''ready'' then Inr () else Inl SkySQLServiceFailed, w')"
proof (cases "r = Inr ''ready''")
  case True
  with assms(1) show ?thesis
    by (simp add: wait_until_service_is_ready_def poll_service_def io_defs st_ready_def service_delays.retry_success)
next
  case False
  then obtain e where e: "poll_service A i w = (Inl e, w')" "e \<noteq> SkySQLServicePending" "e \<noteq> SigTermException"
      "e \<noteq> PyKeyboardInterrupt" "e \<noteq> PySystemExit"
    using assms by (auto simp: poll_service_def io_defs st_ready_def st_failed_def)
  have "\<not> isinstance_any e [SkySQLServicePending]"
    using e(2) by (cases e) (simp_all add: isinstance_eval)
  with retry_single_failure [of "poll_service A i" w e w' service_policy "constant_delay 60 60" "s2_clock A"] e
  show ?thesis using False service_delays.retry_delays_axioms
    by (simp add: wait_until_service_is_ready_def service_policy_def isinstance_Exception)
qed

theorem wait_service_decides_witness:
  "wait_until_service_is_ready (demo_sky2 200 (VDict [(''status'', VStr ''failed'')])) ''id1'' 0 = (Inl SkySQLServiceFailed, 1)"
proof -
  let ?A = "demo_sky2 200 (VDict [(''status'', VStr ''failed'')])"
  have "get_one ?A (SERVICES @ ''/'' @ ''id1'') 0 = (Inr [(''status'', VStr ''failed'')], 1)"
    unfolding get_one_def io_bind_def demo_sky2_call by (simp add: io_defs)
  then have "get_service_status ?A ''id1'' 0 = (Inr ''failed'', 1)"
    by (simp add: get_service_status_def get_service_by_id_def io_defs demo_sky2_def dget_default_def)
  from wait_service_decides [OF this] show ?thesis by simp
qed

text \<open>
  Creating a service: when one of the (shortened) name exists, its identifier is returned and nothing
  is requested. Otherwise one request is sent, and it has the name in full, although the search used at
  most 24 characters of it, and always the architecture \<open>amd64\<close>, whatever was asked for.
\<close>

theorem create_service_request:
  assumes "dget kwargs ''name'' = Some (VStr nm)" and "service_params A kwargs = Inr ps"
    and "get_service_id_by_name A (take 24 nm) w = (Inr found, w1)"
  shows "create_service A kwargs w =
      (case found of
         Some i \<Rightarrow> (Inr (VStr i), w1)
       | None \<Rightarrow> io_bind (post_dict A SERVICES (VDict ps) []) (\<lambda>res. io_return (dget_default res ''id'' (VStr []))) w1)
    \<and> dget ps ''name'' = Some (VStr nm) \<and> dget ps ''architecture'' = Some (VStr ''amd64'')"
proof -
  have "lookup_name nm = take 24 nm" by (simp add: lookup_name_def MAX_SERVICE_NAME_LENGTH_def)
  then have "create_service A kwargs w =
      (case found of
         Some i \<Rightarrow> (Inr (VStr i), w1)
       | None \<Rightarrow> io_bind (post_dict A SERVICES (VDict ps) []) (\<lambda>res. io_return (dget_default res ''id'' (VStr []))) w1)"
    using assms by (cases found) (simp_all add: create_service_def dget_default_def io_bind_def io_defs)
  with service_params_get [OF assms(2)] assms(1) show ?thesis by simp
qed

definition demo_service_args :: pydict where
  "demo_service_args = map (\<lambda>k. (k, VStr (if k = ''name'' then ''a-cluster-with-a-very-long-name'' else ''x''))) service_param_names
     @ [(''architecture'', VStr ''arm64'')]"

theorem create_service_request_witness:
  "\<exists>ps. service_params (demo_sky2 200 (VList [])) demo_service_args = Inr ps
     \<and> create_service (demo_sky2 200 (VList [])) demo_service_args 0
         = io_bind (post_dict (demo_sky2 200 (VList [])) SERVICES (VDict ps) []) (\<lambda>res. io_return (dget_default res ''id'' (VStr []))) 1
     \<and> dget ps ''name'' = Some (VStr ''a-cluster-with-a-very-long-name'') \<and> dget ps ''architecture'' = Some (VStr ''amd64'')"
proof -
  let ?A = "demo_sky2 200 (VList [])"
  obtain ps where ps: "service_params ?A demo_service_args = Inr ps"
    by (simp add: service_params_def demo_service_args_def service_param_names_def)
  have n: "dget demo_service_args ''name'' = Some (VStr ''a-cluster-with-a-very-long-name'')"
    by (simp add: demo_service_args_def service_param_names_def)
  have "get_many ?A SERVICES [] 0 = (Inr [], 1)"
    unfolding get_many_def io_bind_def demo_sky2_call by (simp add: io_defs)
  then have "get_service_id_by_name ?A (take 24 ''a-cluster-with-a-very-long-name'') 0 = (Inr None, 1)"
    by (simp add: get_service_id_by_name_def get_services_def io_defs)
  from create_service_request [OF n ps this] ps show ?thesis by auto
qed

end
