(* ===== verification/XB_Colo.thy ===== *)
theory XB_Colo
  imports XB_Provisioning XB_Sql
begin

text \<open>
  The co-location cloud, \<^verbatim>\<open>cloud/colo/\<close>: a fixed list of machines, the lock file that says which of
  them are in use and by which cluster, and the queue from which machines are handed out.

  Parameters are the list of hosts (a YAML file), the pid file that keeps two programs apart, the host
  name and the random draws. The lock file is part of the world, as its lines (only this class writes
  it, whole lines at a time). The object is the record \<open>sproutsys\<close>; \<open>self.host_list\<close>, a \<open>Queue\<close>, is a list whose
  head is taken and whose end is put. \<open>_get_host_for_instance\<close> calls itself: its first argument is the
  number of frames the interpreter has left.
\<close>

section \<open>State\<close>

definition COLO_CONFIG_FILE :: string where "COLO_CONFIG_FILE = ''colo.yaml''"
definition ORCHESTRATION_HOST :: string where "ORCHESTRATION_HOST = ''vqc008d.colo.sproutsys.com''"

record 'w colo_env =
  colo_nodes :: "'w node_env"
  colo_libs :: cluster_libs
  load_hosts :: "string \<Rightarrow> ('w, exn, (string, string list) dict) io"
  lock_file :: "'w \<Rightarrow> string list option"
  put_lock_file :: "string list \<Rightarrow> 'w \<Rightarrow> 'w"
  pid_enter :: "('w, exn, unit) io"
  pid_exit :: "'w \<Rightarrow> 'w"
  gethostname :: string
  colo_dir :: string
  colo_draw :: "nat \<Rightarrow> nat"
  colo_schedule :: schedule

record sproutsys =
  colo_cluster :: string
  available_hosts :: "string list"
  host_queue :: "string list"

section \<open>The lock file\<close>

definition create_lock_file :: "'w colo_env \<Rightarrow> ('w, exn, unit) io" where
  "create_lock_file E = io_modify (\<lambda>w. case lock_file E w of None \<Rightarrow> put_lock_file E [] w | Some ls \<Rightarrow> w)"

definition read_lock_file :: "'w colo_env \<Rightarrow> ('w, exn, string list) io" where
  "read_lock_file E w = (case lock_file E w of None \<Rightarrow> Inl PyFileNotFoundError | Some ls \<Rightarrow> Inr ls, w)"

definition node_is_locked :: "'w colo_env \<Rightarrow> string \<Rightarrow> ('w, exn, bool) io" where
  "node_is_locked E host = io_bind (read_lock_file E) (\<lambda>ls. io_return (list_ex (\<lambda>l. contains_str l host) ls))"

definition colo_is_running :: "'w colo_env \<Rightarrow> sproutsys \<Rightarrow> ('w, exn, bool) io" where
  "colo_is_running E c =
     io_bind (read_lock_file E) (\<lambda>ls. io_return (list_ex (\<lambda>l. contains_str l (colo_cluster c)) ls))"

definition lock_line :: "string \<Rightarrow> string \<Rightarrow> string" where
  "lock_line host cluster = host @ ''-'' @ cluster @ [newline]"

section \<open>Construction\<close>

definition duplicated_hosts :: "(string, string list) dict \<Rightarrow> bool" where
  "duplicated_hosts hosts = list_ex (\<lambda>(region, hs). list_ex (\<lambda>host.
     list_ex (\<lambda>(reg, hs'). reg \<noteq> region \<and> host \<in> set hs') hosts) hs) hosts"

definition parse_host_list :: "'w colo_env \<Rightarrow> ('w, exn, (string, string list) dict) io" where
  "parse_host_list E = io_bind (load_hosts E (path_join (colo_dir E) COLO_CONFIG_FILE)) (\<lambda>y.
     if duplicated_hosts y then io_raise ColoCloudEx else io_return y)"

fun unlocked :: "'w colo_env \<Rightarrow> string list \<Rightarrow> ('w, exn, string list) io" where
  "unlocked E [] = io_return []"
| "unlocked E (h # hs) = io_bind (node_is_locked E h) (\<lambda>l.
     io_bind (unlocked E hs) (\<lambda>rest. io_return (if l then rest else h # rest)))"

text \<open>Shuffling is in place: the queue starts with the hosts in their new order.\<close>

definition Sproutsys :: "'w colo_env \<Rightarrow> string \<Rightarrow> string \<Rightarrow> ('w, exn, sproutsys) io" where
  "Sproutsys E cluster region =
     io_seq (create_lock_file E)
    (io_bind (parse_host_list E) (\<lambda>hosts.
     io_bind (io_lift (dict_index hosts region)) (\<lambda>hs.
     io_bind (unlocked E hs) (\<lambda>free.
       let shuffled = shuffle_list_inplace (colo_draw E) free in
       if gethostname E \<noteq> ORCHESTRATION_HOST then io_raise ColoCloudEx
       else io_return \<lparr>colo_cluster = cluster, available_hosts = shuffled, host_queue = shuffled\<rparr>))))"

section \<open>Handing out hosts\<close>

fun count_kind :: "pyval \<Rightarrow> string list \<Rightarrow> exn + int" where
  "count_kind kind [] = Inr 0"
| "count_kind kind (h # hs) = (case kind of
       VStr k \<Rightarrow> (case count_kind kind hs of Inl e \<Rightarrow> Inl e | Inr n \<Rightarrow> Inr (if contains_str h k then n + 1 else n))
     | _ \<Rightarrow> Inl PyTypeError)"

definition check_node_availability :: "sproutsys \<Rightarrow> pyval \<Rightarrow> pyval \<Rightarrow> exn + unit" where
  "check_node_availability c n kind =
     (case count_kind kind (available_hosts c) of Inl e \<Rightarrow> Inl e
      | Inr available \<Rightarrow> (case n of
            VInt k \<Rightarrow> if k > available then Inl ColoCloudProvisioningEx else Inr ()
          | _ \<Rightarrow> Inl PyTypeError))"

definition suits :: "pyval \<Rightarrow> string \<Rightarrow> bool" where
  "suits kind host \<longleftrightarrow> kind = VStr ''*'' \<or> (case kind of VStr k \<Rightarrow> contains_str host k | _ \<Rightarrow> False)"

fun get_host_for_instance :: "nat \<Rightarrow> sproutsys \<Rightarrow> pydict \<Rightarrow> exn + pydict \<times> sproutsys" where
  "get_host_for_instance 0 c inst = Inl PyRecursionError"
| "get_host_for_instance (Suc frames) c inst =
     (case host_queue c of
        [] \<Rightarrow> Inl ColoCloudProvisioningEx
      | maybe_host # q \<Rightarrow>
          (case check_node_availability c (dget_default inst ''count'' VNone) (dget_default inst ''instance_type'' VNone) of
             Inl e \<Rightarrow> Inl e
           | Inr _ \<Rightarrow>
               if suits (dget_default inst ''instance_type'' VNone) maybe_host
               then Inr (dset inst ''colo_host'' (VStr maybe_host), c\<lparr>host_queue := q\<rparr>)
               else get_host_for_instance frames (c\<lparr>host_queue := q @ [maybe_host]\<rparr>)
                      (dset inst ''colo_host'' (VStr maybe_host))))"

definition with_pid_file :: "'w colo_env \<Rightarrow> ('w, exn, 'a) io \<Rightarrow> ('w, exn, 'a) io" where
  "with_pid_file E m w =
     (case pid_enter E w of
        (Inl e, w') \<Rightarrow> (Inl e, w')
      | (Inr _, w') \<Rightarrow> (case m w' of (r, w'') \<Rightarrow> (r, pid_exit E w'')))"

definition append_lock :: "'w colo_env \<Rightarrow> string \<Rightarrow> ('w, exn, unit) io" where
  "append_lock E l = io_modify (\<lambda>w. put_lock_file E ((case lock_file E w of None \<Rightarrow> [] | Some ls \<Rightarrow> ls) @ [l]) w)"

definition host_of :: "cluster_libs \<Rightarrow> pydict \<Rightarrow> string" where
  "host_of L inst = (case dget_default inst ''colo_host'' VNone of VStr h \<Rightarrow> h | v \<Rightarrow> py_str L v)"

fun lock_hosts :: "nat \<Rightarrow> 'w colo_env \<Rightarrow> sproutsys \<Rightarrow> pydict list \<Rightarrow> ('w, exn, pydict list) io" where
  "lock_hosts frames E c [] = io_return []"
| "lock_hosts frames E c (inst # insts) =
     io_bind (io_lift (get_host_for_instance frames c inst)) (\<lambda>(inst', c').
     io_seq (append_lock E (lock_line (host_of (colo_libs E) inst') (colo_cluster c)))
    (io_bind (lock_hosts frames E c' insts) (\<lambda>rest. io_return (inst' # rest))))"

section \<open>Deployment\<close>

text \<open>The address of a host, by the \<open>host\<close> program on the host itself.\<close>

definition host_command :: "string \<Rightarrow> string" where
  "host_command h = ''host '' @ h @ lit '' | awk `{print $NF}`''"

definition set_network :: "node \<Rightarrow> (virtual_network \<Rightarrow> virtual_network) \<Rightarrow> exn + node" where
  "set_network n f = (case network (vm n) of None \<Rightarrow> Inl PyAttributeError
     | Some v \<Rightarrow> Inr (n\<lparr>vm := (vm n)\<lparr>network := Some (f v)\<rparr>\<rparr>))"

definition deploy_host :: "'w colo_env \<Rightarrow> string \<Rightarrow> string \<Rightarrow> pydict \<Rightarrow> ('w, exn, node) io" where
  "deploy_host E cluster host params =
     io_bind (io_lift (vm_from_dict (colo_libs E) params)) (\<lambda>v.
       let v' = v\<lparr>vm_id := Some (''colo-'' @ py_str (colo_libs E) (dget_default params ''name'' VNone) @ ''-'' @ cluster @ ''-'' @ host),
                  zone := ''not a real zone'',
                  storage := map_option (\<lambda>s. s\<lparr>vs_zone := ''not a real zone''\<rparr>) (storage v)\<rparr> in
     io_bind (io_lift (case network v' of None \<Rightarrow> Inl PyAttributeError
                       | Some nw \<Rightarrow> Node (v'\<lparr>network := Some (nw\<lparr>public_ip := host\<rparr>)\<rparr>))) (\<lambda>n.
     io_bind (node_run (colo_nodes E) n (CmdStr (host_command host)) 300 False False None) (\<lambda>a.
     io_bind (io_lift (set_network n (\<lambda>nw. nw\<lparr>public_ip := a\<rparr>))) (\<lambda>n.
     io_bind (node_run (colo_nodes E) n (CmdStr (host_command
         (if dget params ''role'' = Some (VStr ''backend'') then host @ ''-10g'' else host))) 300 False False None) (\<lambda>b.
     io_lift (set_network n (\<lambda>nw. nw\<lparr>private_ip := b\<rparr>)))))))"

definition colo_launch_instance :: "'w colo_env \<Rightarrow> sproutsys \<Rightarrow> pydict \<Rightarrow> ('w, exn, node option) io" where
  "colo_launch_instance E c params =
     io_bind (deploy_host E (colo_cluster c) (host_of (colo_libs E) params) params) (\<lambda>n. io_return (Some n))"

definition colo_launch_instances :: "nat \<Rightarrow> 'w colo_env \<Rightarrow> sproutsys \<Rightarrow> pydict list \<Rightarrow> ('w, exn, node option list) io" where
  "colo_launch_instances frames E c instances =
     io_catch [PidFileAlreadyLockedError] CloudException
      (io_bind (with_pid_file E (lock_hosts frames E c instances)) (\<lambda>insts.
         run_parallel_returning (colo_schedule E) (map (colo_launch_instance E c) insts)))"

text \<open>\<open>terminate_instance\<close> does nothing; the machines stay.\<close>

definition unlock_hosts :: "'w colo_env \<Rightarrow> sproutsys \<Rightarrow> ('w, exn, unit) io" where
  "unlock_hosts E c = io_bind (read_lock_file E) (\<lambda>ls.
     io_modify (put_lock_file E (filter (\<lambda>l. \<not> contains_str l (colo_cluster c)) ls)))"

definition colo_terminate_instances :: "'w colo_env \<Rightarrow> sproutsys \<Rightarrow> node list \<Rightarrow> ('w, exn, unit) io" where
  "colo_terminate_instances E c instances =
     io_catch [PidFileAlreadyLockedError] CloudException
      (with_pid_file E (io_seq (unlock_hosts E c)
         (run_parallel (colo_schedule E) (map (\<lambda>_. io_return ()) instances))))"

text \<open>Starting and stopping only warn; \<open>start_instances\<close> returns \<open>None\<close>, which its caller cannot iterate.\<close>

definition colo_stop_instances :: "node list \<Rightarrow> ('w, exn, unit) io" where
  "colo_stop_instances ns = io_return ()"

text \<open>The local disk of a machine.\<close>

definition ColoNvme :: "string \<Rightarrow> virtual_storage \<Rightarrow> virtual_storage" where
  "ColoNvme cluster vs = vs\<lparr>vs_name := cluster @ ''-nvme'', vs_id := ''nvme-001'', num_ephemeral := 1\<rparr>"

definition colo_nvme_create :: "string \<Rightarrow> virtual_storage \<Rightarrow> virtual_storage" where
  "colo_nvme_create cluster vs = (ColoNvme cluster vs)\<lparr>device := ''/dev/nvme1n1''\<rparr>"

section \<open>Lemmas\<close>

lemma lock_line_cluster: "contains_str (lock_line h c) c" "contains_str (lock_line h c) h"
  unfolding lock_line_def
  using contains_str_infix [of "h @ ''-''" c "[newline]"] contains_str_infix [of "[]" h "''-'' @ c @ [newline]"] by simp_all

definition colo_ready :: "sproutsys \<Rightarrow> pydict \<Rightarrow> bool" where
  "colo_ready c inst \<longleftrightarrow>
     check_node_availability c (dget_default inst ''count'' VNone) (dget_default inst ''instance_type'' VNone) = Inr ()"

definition inst_kind :: "pydict \<Rightarrow> pyval" where
  "inst_kind inst = dget_default inst ''instance_type'' VNone"

lemma colo_ready_step [simp]:
  "colo_ready (c\<lparr>host_queue := q\<rparr>) inst = colo_ready c inst"
  "colo_ready c (dset inst ''colo_host'' v) = colo_ready c inst"
  "inst_kind (dset inst ''colo_host'' v) = inst_kind inst"
  by (simp_all add: colo_ready_def inst_kind_def check_node_availability_def dget_default_def)

lemma get_host_unready:
  assumes "\<not> colo_ready c inst"
  shows "\<exists>e. get_host_for_instance frames c inst = Inl e"
  using assms by (cases frames) (auto simp: colo_ready_def split: list.split sum.splits)

lemma get_host_step:
  "colo_ready c inst \<Longrightarrow> get_host_for_instance (Suc frames) c inst = (case host_queue c of
      [] \<Rightarrow> Inl ColoCloudProvisioningEx
    | h # q \<Rightarrow> if suits (inst_kind inst) h then Inr (dset inst ''colo_host'' (VStr h), c\<lparr>host_queue := q\<rparr>)
        else get_host_for_instance frames (c\<lparr>host_queue := q @ [h]\<rparr>) (dset inst ''colo_host'' (VStr h)))"
  by (simp add: colo_ready_def inst_kind_def split: list.split)

declare get_host_for_instance.simps(2) [simp del]

lemma get_host_found:
  "colo_ready c inst \<Longrightarrow> host_queue c = pre @ h # post \<Longrightarrow> \<forall>g \<in> set pre. \<not> suits (inst_kind inst) g \<Longrightarrow>
     suits (inst_kind inst) h \<Longrightarrow> length pre < frames \<Longrightarrow>
     get_host_for_instance frames c inst = Inr (dset inst ''colo_host'' (VStr h), c\<lparr>host_queue := post @ pre\<rparr>)"
proof (induction pre arbitrary: frames c inst post)
  case Nil
  then obtain n where "frames = Suc n" by (cases frames) auto
  with Nil show ?case by (simp add: get_host_step)
next
  case (Cons g pre)
  then obtain n where n: "frames = Suc n" "length pre < n" by (cases frames) auto
  from Cons.prems Cons.IH [of "c\<lparr>host_queue := (pre @ h # post) @ [g]\<rparr>" "dset inst ''colo_host'' (VStr g)" "post @ [g]" n] n
  show ?case by (simp add: get_host_step)
qed

lemma get_host_never:
  "colo_ready c inst \<Longrightarrow> host_queue c \<noteq> [] \<Longrightarrow> \<forall>g \<in> set (host_queue c). \<not> suits (inst_kind inst) g \<Longrightarrow>
     get_host_for_instance frames c inst = Inl PyRecursionError"
proof (induction frames arbitrary: c inst)
  case (Suc n)
  then obtain h q where q: "host_queue c = h # q" by (cases "host_queue c") auto
  with Suc.prems Suc.IH [of "c\<lparr>host_queue := q @ [h]\<rparr>" "dset inst ''colo_host'' (VStr h)"] show ?case
    by (simp add: get_host_step)
qed simp

lemma get_host_rotates:
  "get_host_for_instance frames c inst = Inr (inst', c') \<Longrightarrow>
     \<exists>h. inst' = dset inst ''colo_host'' (VStr h) \<and> suits (inst_kind inst) h
       \<and> mset (host_queue c) = add_mset h (mset (host_queue c')) \<and> colo_cluster c' = colo_cluster c
       \<and> available_hosts c' = available_hosts c"
proof (induction frames arbitrary: c inst)
  case (Suc n)
  have r: "colo_ready c inst" using get_host_unready [of c inst "Suc n"] Suc.prems by auto
  show ?case
  proof (cases "host_queue c")
    case Nil
    with Suc.prems r show ?thesis by (simp add: get_host_step)
  next
    case (Cons h q)
    show ?thesis
    proof (cases "suits (inst_kind inst) h")
      case True
      with Suc.prems Cons r show ?thesis by (auto simp: get_host_step)
    next
      case False
      with Suc.prems Cons r have "get_host_for_instance n (c\<lparr>host_queue := q @ [h]\<rparr>) (dset inst ''colo_host'' (VStr h)) = Inr (inst', c')"
        by (simp add: get_host_step)
      from Suc.IH [OF this] Cons show ?thesis by auto
    qed
  qed
qed simp

lemma host_of_set [simp]: "host_of L (dset inst ''colo_host'' (VStr h)) = h"
  by (simp add: host_of_def dget_default_def)

lemma lock_hosts_ok:
  assumes put: "\<And>ls w. lock_file E (put_lock_file E ls w) = Some ls"
  shows "lock_hosts frames E c insts w = (Inr rs, w') \<Longrightarrow> lock_file E w = Some ls \<Longrightarrow>
    mset (map (host_of (colo_libs E)) rs) \<subseteq># mset (host_queue c) \<and> length rs = length insts
    \<and> lock_file E w' = Some (ls @ map (\<lambda>r. lock_line (host_of (colo_libs E) r) (colo_cluster c)) rs)"
proof (induction insts arbitrary: c w ls rs)
  case Nil
  then show ?case by (simp add: io_defs)
next
  case (Cons inst insts)
  let ?l = "\<lambda>i. lock_line (host_of (colo_libs E) i) (colo_cluster c)"
  from Cons.prems(1) obtain i c1 where g: "get_host_for_instance frames c inst = Inr (i, c1)"
    by (auto simp: io_defs split: sum.splits prod.splits)
  let ?w = "put_lock_file E (ls @ [?l i]) w"
  from Cons.prems g obtain rs' where rs: "lock_hosts frames E c1 insts ?w = (Inr rs', w')" "rs = i # rs'"
    by (auto simp: io_defs append_lock_def split: sum.splits prod.splits)
  from get_host_rotates [OF g] obtain h where h: "i = dset inst ''colo_host'' (VStr h)"
    "mset (host_queue c) = add_mset h (mset (host_queue c1))" "colo_cluster c1 = colo_cluster c" by blast
  from Cons.IH [OF rs(1) put] h rs(2) show ?case by simp
qed

lemma unlocked_free:
  "unlocked E hs w = (Inr free, w') \<Longrightarrow> w' = w \<and> set free \<subseteq> set hs \<and> (distinct hs \<longrightarrow> distinct free)
     \<and> (\<forall>h \<in> set free. \<forall>l \<in> set (the (lock_file E w)). \<not> contains_str l h)"
  by (induction hs arbitrary: free)
     (auto simp: io_defs node_is_locked_def read_lock_file_def list_ex_iff split: option.splits prod.splits sum.splits if_splits)

lemma distinct_submset: "mset xs \<subseteq># mset ys \<Longrightarrow> distinct ys \<Longrightarrow> distinct xs"
proof -
  assume "mset xs \<subseteq># mset ys" and d: "distinct ys"
  then obtain zs where "mset ys = mset (xs @ zs)" by (metis ex_mset mset_append mset_subset_eq_exists_conv)
  then show "distinct xs" using d mset_eq_imp_distinct_iff [of ys "xs @ zs"] by simp
qed

lemma sproutsys_free:
  assumes "Sproutsys E cluster region w = (Inr c, w')"
  shows "host_queue c = available_hosts c" and "colo_cluster c = cluster"
    and "\<forall>h \<in> set (available_hosts c). \<forall>l \<in> set (the (lock_file E w')). \<not> contains_str l h"
proof -
  from assms obtain hs free v where u: "unlocked E hs v = (Inr free, w')"
    and c: "c = \<lparr>colo_cluster = cluster, available_hosts = shuffle_list_inplace (colo_draw E) free,
      host_queue = shuffle_list_inplace (colo_draw E) free\<rparr>"
    by (auto simp: Sproutsys_def io_defs Let_def split: prod.splits sum.splits if_splits)
  have "set (shuffle_list_inplace (colo_draw E) free) = set free"
    using shuffle_permutes [of "colo_draw E" free] by (metis set_mset_mset)
  with unlocked_free [OF u] c show "host_queue c = available_hosts c" and "colo_cluster c = cluster"
    and "\<forall>h \<in> set (available_hosts c). \<forall>l \<in> set (the (lock_file E w')). \<not> contains_str l h"
    by auto
qed

section \<open>Properties\<close>

text \<open>
  C28. The search for a host of a kind: when the check of the inventory passes, the first host of the queue that
  suits is taken, and those before it go to its end; and when none of the queue suits the search
  never ends: with any number of frames it is stopped by Python's recursion limit. (The check counts all the
  hosts that were free at the start, also those handed out since.)
\<close>

theorem get_host_search:
  assumes "check_node_availability c (dget_default inst ''count'' VNone) (dget_default inst ''instance_type'' VNone) = Inr ()"
    and "host_queue c \<noteq> []" and "length (host_queue c) \<le> frames"
  shows "let q = host_queue c; ok = suits (dget_default inst ''instance_type'' VNone);
             before = takeWhile (\<lambda>h. \<not> ok h) q; rest = dropWhile (\<lambda>h. \<not> ok h) q in
    get_host_for_instance frames c inst =
      (if rest = [] then Inl PyRecursionError
       else Inr (dset inst ''colo_host'' (VStr (hd rest)), c\<lparr>host_queue := tl rest @ before\<rparr>))"
proof -
  have r: "colo_ready c inst" using assms(1) by (simp add: colo_ready_def)
  let ?no = "\<lambda>h. \<not> suits (dget_default inst ''instance_type'' VNone) h"
  show ?thesis
  proof (cases "dropWhile ?no (host_queue c)")
    case Nil
    then have "\<forall>h \<in> set (host_queue c). ?no h" by (simp add: dropWhile_eq_Nil_conv)
    with get_host_never [OF r assms(2)] Nil show ?thesis by (simp add: inst_kind_def)
  next
    case (Cons h post)
    have q: "host_queue c = takeWhile ?no (host_queue c) @ h # post"
      using takeWhile_dropWhile_id [of ?no "host_queue c"] by (simp only: Cons)
    have "length (takeWhile ?no (host_queue c)) < length (host_queue c)"
      using arg_cong [OF q, of length] by (simp only: length_append list.size)
    moreover have "\<not> ?no h" using hd_dropWhile [of ?no "host_queue c"] Cons by simp
    moreover have "\<forall>g \<in> set (takeWhile ?no (host_queue c)). ?no g" by (auto dest: set_takeWhileD)
    ultimately have "get_host_for_instance frames c inst
        = Inr (dset inst ''colo_host'' (VStr h), c\<lparr>host_queue := post @ takeWhile ?no (host_queue c)\<rparr>)"
      using get_host_found [OF r q] assms(3) by (simp add: inst_kind_def)
    with Cons show ?thesis by (simp only: Let_def list.sel) simp
  qed
qed

text \<open>Three machines and a lock file with the lines of another cluster, for the witnesses.\<close>

definition demo_colo_env :: "string list colo_env" where
  "demo_colo_env = \<lparr>colo_nodes = demo_node_env, colo_libs = demo_libs,
     load_hosts = (\<lambda>f w. (Inr [(''pek'', [''yin1'', ''yang2'', ''yang3''])], w)), lock_file = Some, put_lock_file = (\<lambda>ls w. ls),
     pid_enter = (\<lambda>w. (Inr (), w)), pid_exit = (\<lambda>w. w), gethostname = ORCHESTRATION_HOST, colo_dir = ''/etc'',
     colo_draw = (\<lambda>i. i), colo_schedule = \<lparr>exec_order = (\<lambda>n. [0..<n]), done_order = (\<lambda>n. [0..<n])\<rparr>\<rparr>"

definition demo_colo :: sproutsys where
  "demo_colo = \<lparr>colo_cluster = ''perf'', available_hosts = [''yin1'', ''yang2'', ''yang3''],
     host_queue = [''yin1'', ''yang2'', ''yang3'']\<rparr>"

definition demo_inst :: "string \<Rightarrow> pydict" where
  "demo_inst k = [(''count'', VInt 2), (''instance_type'', VStr k)]"

theorem get_host_search_witness:
  "get_host_for_instance 3 demo_colo (demo_inst ''yang'') =
     Inr (dset (demo_inst ''yang'') ''colo_host'' (VStr ''yang2''), demo_colo\<lparr>host_queue := [''yang3'', ''yin1'']\<rparr>)
   \<and> get_host_for_instance 3 (demo_colo\<lparr>host_queue := [''yin1'']\<rparr>) (demo_inst ''yang'') = Inl PyRecursionError"
proof
  have c: "check_node_availability c (dget_default (demo_inst ''yang'') ''count'' VNone)
      (dget_default (demo_inst ''yang'') ''instance_type'' VNone) = Inr ()"
    if "available_hosts c = available_hosts demo_colo" for c
    by (simp add: that demo_colo_def demo_inst_def dget_default_def check_node_availability_def startswith_def)
  show "get_host_for_instance 3 demo_colo (demo_inst ''yang'') =
      Inr (dset (demo_inst ''yang'') ''colo_host'' (VStr ''yang2''), demo_colo\<lparr>host_queue := [''yang3'', ''yin1'']\<rparr>)"
    using get_host_search [OF c, of demo_colo 3]
    by (simp add: demo_colo_def demo_inst_def dget_default_def suits_def startswith_def Let_def)
  show "get_host_for_instance 3 (demo_colo\<lparr>host_queue := [''yin1'']\<rparr>) (demo_inst ''yang'') = Inl PyRecursionError"
    using get_host_search [OF c, of "demo_colo\<lparr>host_queue := [''yin1'']\<rparr>" 3]
    by (simp add: demo_colo_def demo_inst_def dget_default_def suits_def startswith_def Let_def)
qed

lemma demo_lock: "lock_hosts 9 demo_colo_env demo_colo [demo_inst ''yang''] [''yin9-other'']
    = (Inr [dset (demo_inst ''yang'') ''colo_host'' (VStr ''yang2'')], [''yin9-other'', lock_line ''yang2'' ''perf''])"
proof -
  have r: "colo_ready demo_colo (demo_inst ''yang'')"
    by (simp add: colo_ready_def demo_colo_def demo_inst_def dget_default_def check_node_availability_def startswith_def)
  have "get_host_for_instance 9 demo_colo (demo_inst ''yang'') = Inr (dset (demo_inst ''yang'') ''colo_host'' (VStr ''yang2''),
      demo_colo\<lparr>host_queue := [''yang3'', ''yin1'']\<rparr>)"
    using get_host_found [OF r, of "[''yin1'']" "''yang2''" "[''yang3'']" 9]
    by (simp add: demo_colo_def demo_inst_def inst_kind_def dget_default_def suits_def startswith_def)
  then show ?thesis
    by (simp add: io_defs append_lock_def demo_colo_env_def demo_colo_def demo_inst_def host_of_def dget_default_def)
qed

text \<open>
  C27. No machine is handed out twice: when the object is made and then gives machines to the instances, these are
  different machines if the list of hosts has no host twice, none of them is named in the lock
  file as it was, and every one of them has its line at the end of the lock file, in order.
\<close>

theorem colo_hosts_exclusive:
  assumes "\<forall>ls w. lock_file E (put_lock_file E ls w) = Some ls"
    and "Sproutsys E cluster region w = (Inr c, w1)" and "distinct (available_hosts c)"
    and "lock_file E w1 = Some ls" and "lock_hosts frames E c insts w1 = (Inr rs, w2)"
  shows "let hosts = map (host_of (colo_libs E)) rs in
    distinct hosts \<and> length hosts = length insts
    \<and> list_all (\<lambda>h. list_all (\<lambda>l. \<not> contains_str l h) ls) hosts
    \<and> lock_file E w2 = Some (ls @ map (\<lambda>h. lock_line h cluster) hosts)"
proof -
  note free = sproutsys_free [OF assms(2)]
  have ok: "mset (map (host_of (colo_libs E)) rs) \<subseteq># mset (available_hosts c)" "length rs = length insts"
    "lock_file E w2 = Some (ls @ map (\<lambda>r. lock_line (host_of (colo_libs E) r) cluster) rs)"
    using lock_hosts_ok [of E, OF _ assms(5,4)] assms(1) free by auto
  have d: "distinct (map (host_of (colo_libs E)) rs)"
    using ok(1) assms(3) by (rule distinct_submset)
  have "set (map (host_of (colo_libs E)) rs) \<subseteq> set (available_hosts c)"
    using ok(1) by (metis set_mset_mono set_mset_mset)
  then have "list_all (\<lambda>h. list_all (\<lambda>l. \<not> contains_str l h) ls) (map (host_of (colo_libs E)) rs)"
    using free(3) assms(4) by (auto simp: list_all_iff)
  with d ok(2,3) show ?thesis by (simp add: o_def)
qed

lemma demo_sproutsys: "Sproutsys demo_colo_env ''perf'' ''pek'' [''yin9-other''] = (Inr demo_colo, [''yin9-other''])"
  by (simp add: Sproutsys_def io_defs Let_def demo_colo_env_def demo_colo_def create_lock_file_def parse_host_list_def
      duplicated_hosts_def dict_index_def node_is_locked_def read_lock_file_def startswith_def
      shuffle_list_inplace_def swap_at_def upt_rec)

theorem colo_hosts_exclusive_witness:
  "lock_file demo_colo_env [''yin9-other'', lock_line ''yang2'' ''perf'']
     = Some ([''yin9-other''] @ map (\<lambda>h. lock_line h ''perf'') [''yang2''])"
  using colo_hosts_exclusive [OF _ demo_sproutsys _ _ demo_lock, of "[''yin9-other'']"]
  by (simp add: demo_colo_env_def demo_colo_def)

text \<open>
  Unlocking: after the machines are locked and the cluster is terminated, the lock file has its old lines
  except those that contain the name of the cluster. (That may be the lines of other clusters: one whose
  name has this name in it, or a machine that has.)
\<close>

theorem colo_unlock_roundtrip:
  assumes "\<forall>ls w. lock_file E (put_lock_file E ls w) = Some ls"
    and "lock_file E w = Some ls" and "lock_hosts frames E c insts w = (Inr rs, w1)"
    and "unlock_hosts E c w1 = (Inr u, w2)"
  shows "lock_file E w2 = Some (filter (\<lambda>l. \<not> contains_str l (colo_cluster c)) ls)"
proof -
  have "lock_file E w1 = Some (ls @ map (\<lambda>r. lock_line (host_of (colo_libs E) r) (colo_cluster c)) rs)"
    using lock_hosts_ok [of E, OF _ assms(3,2)] assms(1) by simp
  with assms(1,4) show ?thesis
    by (auto simp: unlock_hosts_def read_lock_file_def io_defs lock_line_cluster filter_empty_conv)
qed

theorem colo_unlock_roundtrip_witness:
  "lock_file demo_colo_env (snd (unlock_hosts demo_colo_env demo_colo [''yin9-other'', lock_line ''yang2'' ''perf'']))
     = Some [''yin9-other'']"
proof -
  have "\<exists>w2. unlock_hosts demo_colo_env demo_colo [''yin9-other'', lock_line ''yang2'' ''perf''] = (Inr (), w2)"
    by (simp add: unlock_hosts_def read_lock_file_def io_defs demo_colo_env_def)
  then obtain w2 where w2: "unlock_hosts demo_colo_env demo_colo [''yin9-other'', lock_line ''yang2'' ''perf''] = (Inr (), w2)"
    by blast
  show ?thesis
    using colo_unlock_roundtrip [OF _ _ demo_lock w2, of "[''yin9-other'']"] w2
    by (simp add: demo_colo_env_def demo_colo_def startswith_def)
qed

text \<open>
  The kind \<open>*\<close>, which is meant to accept any machine, is always refused: no host has a star in its
  name, so the check finds none of them.
\<close>

theorem colo_wildcard_refused:
  assumes "dget inst ''instance_type'' = Some (VStr ''*'')" and "dget inst ''count'' = Some (VInt n)" and "0 < n"
    and "\<forall>h \<in> set (available_hosts c). CHR ''*'' \<notin> set h"
  shows "get_host_for_instance (Suc frames) c inst = Inl ColoCloudProvisioningEx"
proof -
  have "\<not> contains_str h ''*''" if "CHR ''*'' \<notin> set h" for h
    using that by (induction h) (auto simp: startswith_def)
  then have "count_kind (VStr ''*'') hs = Inr 0" if "\<forall>h \<in> set hs. CHR ''*'' \<notin> set h" for hs
    using that by (induction hs) auto
  with assms show ?thesis
    by (simp add: get_host_for_instance.simps(2) check_node_availability_def dget_default_def split: list.split)
qed

theorem colo_wildcard_refused_witness:
  "get_host_for_instance (Suc 5) demo_colo (demo_inst ''*'') = Inl ColoCloudProvisioningEx"
  by (rule colo_wildcard_refused [where n = 2]) (simp_all add: demo_inst_def demo_colo_def)

end
