(* ===== verification/XB_Aws.thy ===== *)
theory XB_Aws
  imports XB_Lifecycle XB_Process XB_Sql
begin

text \<open>
  Amazon's cloud, \<^verbatim>\<open>cloud/aws/\<close>: the command-line tool (\<^verbatim>\<open>aws_cli.py\<close>), machines
  (\<^verbatim>\<open>aws_ec2.py\<close>), volumes (\<^verbatim>\<open>aws_ebs.py\<close>), local disks (\<^verbatim>\<open>aws_nvme.py\<close>) and
  buckets (\<^verbatim>\<open>aws_s3.py\<close>), and how they make up the \<open>provider\<close> of the inherited cloud operations.

  What the tool prints is a parameter, by the processes of \<open>os_shell\<close>; so are \<open>json.loads\<close>, \<open>str\<close> and dacite
  (\<open>cluster_libs\<close>). A command is written with single blanks where the source has newlines and
  indentation: \<open>AbstractCli.run\<close> squeezes it anyway.
\<close>

section \<open>The command-line tool\<close>

definition AWS_CLI_VERSION_REQUIRED :: string where "AWS_CLI_VERSION_REQUIRED = ''2.''"
definition AWS_RETRY_MODE :: string where "AWS_RETRY_MODE = ''adaptive''"
definition AWS_MAX_ATTEMPTS :: int where "AWS_MAX_ATTEMPTS = 10"

record 'w aws_env =
  aws_os :: "'w os_shell"
  aws_json :: "string \<Rightarrow> exn + pyval"
  aws_libs :: cluster_libs

record aws_cli =
  aws_cluster :: string
  aws_conf :: pydict

text \<open>The attributes of the object: defaults, and the values of the region configuration for the same names.\<close>

definition aws_defaults :: pydict where
  "aws_defaults = [(''aws_region'', VStr ''us-west-2''), (''aws_access_key_id'', VStr []), (''aws_secret_access_key'', VStr []),
     (''security_group'', VStr []), (''placement_group'', VNone), (''key_name'', VStr []), (''key_file'', VStr [])]"

definition aws_attr_val :: "aws_cli \<Rightarrow> string \<Rightarrow> pyval" where
  "aws_attr_val C k = (case dget (aws_conf C) k of Some v \<Rightarrow> v | None \<Rightarrow> dget_default aws_defaults k VNone)"

definition aws_attr :: "'w aws_env \<Rightarrow> aws_cli \<Rightarrow> string \<Rightarrow> string" where
  "aws_attr A C k = text_of (py_str (aws_libs A)) (aws_attr_val C k)"

definition aws_base_command :: "'w aws_env \<Rightarrow> aws_cli \<Rightarrow> string" where
  "aws_base_command A C =
     ''export AWS_ACCESS_KEY_ID='' @ aws_attr A C ''aws_access_key_id'' @ '' && export AWS_SECRET_ACCESS_KEY=''
     @ aws_attr A C ''aws_secret_access_key'' @ '' && export AWS_MAX_ATTEMPTS='' @ str_int AWS_MAX_ATTEMPTS
     @ '' && export AWS_RETRY_MODE='' @ AWS_RETRY_MODE @ '' && aws --region '' @ aws_attr A C ''aws_region'' @ '' --output json ''"

definition aws_base :: "'w aws_env \<Rightarrow> aws_cli \<Rightarrow> cli_base" where
  "aws_base A C = \<lparr>base_command = aws_base_command A C, check_stderr = True\<rparr>"

definition aws_run_text :: "'w aws_env \<Rightarrow> aws_cli \<Rightarrow> string \<Rightarrow> ('w, exn \<times> string, string) io" where
  "aws_run_text A C cmd = cli_run (aws_os A) (aws_base A C) cmd"

definition aws_run :: "'w aws_env \<Rightarrow> aws_cli \<Rightarrow> string \<Rightarrow> ('w, exn, string) io" where
  "aws_run A C cmd = drop_text (aws_run_text A C cmd)"

definition aws_call :: "'w aws_env \<Rightarrow> aws_cli \<Rightarrow> string \<Rightarrow> ('w, exn, unit) io" where
  "aws_call A C cmd = io_bind (aws_run A C cmd) (\<lambda>_. io_return ())"

definition aws_query :: "'w aws_env \<Rightarrow> aws_cli \<Rightarrow> string \<Rightarrow> ('w, exn, pyval) io" where
  "aws_query A C cmd = io_bind (aws_run A C cmd) (\<lambda>out. io_lift (aws_json A out))"

text \<open>The version is asked for twice; the second answer is only returned.\<close>

definition aws_version :: "'w aws_env \<Rightarrow> aws_cli \<Rightarrow> ('w, exn, string) io" where
  "aws_version A C = drop_text (cli_run_with (aws_os A) (aws_base A C) ''--version'' 30 True True)"

definition aws_check_cli_version :: "'w aws_env \<Rightarrow> aws_cli \<Rightarrow> ('w, exn, unit) io" where
  "aws_check_cli_version A C =
     io_bind (aws_version A C) (\<lambda>stdout.
       if \<not> contains_str stdout (''aws-cli/'' @ AWS_CLI_VERSION_REQUIRED) then io_raise AwsCliException
       else io_bind (aws_version A C) (\<lambda>_. io_return ()))"

definition describe_availability_zones :: "'w aws_env \<Rightarrow> aws_cli \<Rightarrow> ('w, exn, unit) io" where
  "describe_availability_zones A C =
     io_bind (aws_query A C (''ec2 describe-availability-zones --region '' @ aws_attr A C ''aws_region''
       @ lit ''  | jq `.AvailabilityZones[] | {zoneName: .ZoneName, zoneId: .ZoneId}` | jq -s'')) (\<lambda>_. io_return ())"

definition AwsCliObject :: "'w aws_env \<Rightarrow> string \<Rightarrow> pydict \<Rightarrow> ('w, exn, aws_cli) io" where
  "AwsCliObject A cluster rc =
     (let C = \<lparr>aws_cluster = text_of (py_str (aws_libs A)) (dget_default rc ''cluster_name'' (VStr cluster)),
               aws_conf = rc\<rparr> in
      io_seq (aws_check_cli_version A C)
     (io_bind (run_process (aws_os A) ''which jq'' (Some 15) False) (\<lambda>(_, _, retcode).
        if retcode = 127 then io_raise AwsCliException
        else io_seq (describe_availability_zones A C) (io_return C))))"

text \<open>What the tool lists by the tag of the cluster.\<close>

definition aws_instances_by_tag :: "'w aws_env \<Rightarrow> aws_cli \<Rightarrow> ('w, exn, pyval) io" where
  "aws_instances_by_tag A C = aws_query A C
     (''ec2 describe-instances --output json --filters Name=tag:Name,Values='' @ aws_cluster C
      @ lit ''* Name=instance-state-name,Values=pending,running  | jq  `.Reservations[].Instances[] | {id: .InstanceId, private_ip:''
      @ lit '' .PrivateIpAddress, public_ip: .PublicIpAddress, name: .Tags[].Value}` | jq -s'')"

definition aws_volumes_by_tag :: "'w aws_env \<Rightarrow> aws_cli \<Rightarrow> ('w, exn, pyval) io" where
  "aws_volumes_by_tag A C = aws_query A C
     (''ec2 describe-volumes --output json --filters Name=tag:Name,Values='' @ aws_cluster C
      @ lit ''*  | jq  `.Volumes[] | {id: .VolumeId, name: .Tags[].Value}` | jq -s'')"

text \<open>The state of a machine or a volume that the tool can wait for.\<close>

definition compute_running :: string where "compute_running = ''instance-running''"
definition compute_terminated :: string where "compute_terminated = ''instance-terminated''"
definition compute_stopped :: string where "compute_stopped = ''instance-stopped''"
definition storage_ready :: string where "storage_ready = ''volume-available''"
definition storage_in_use :: string where "storage_in_use = ''volume-in-use''"

definition aws_wait_for_instance :: "'w aws_env \<Rightarrow> aws_cli \<Rightarrow> string \<Rightarrow> string \<Rightarrow> ('w, exn, unit) io" where
  "aws_wait_for_instance A C instance_id status = aws_call A C (''ec2 wait '' @ status @ '' --instance-ids '' @ instance_id)"

definition aws_terminate_instance :: "'w aws_env \<Rightarrow> aws_cli \<Rightarrow> string \<Rightarrow> ('w, exn, unit) io" where
  "aws_terminate_instance A C instance_id = aws_call A C (''ec2 terminate-instances --instance-ids '' @ instance_id)"

definition aws_delete_volume :: "'w aws_env \<Rightarrow> aws_cli \<Rightarrow> string \<Rightarrow> ('w, exn, unit) io" where
  "aws_delete_volume A C volume_id = aws_call A C (''ec2 delete-volume --volume-id '' @ volume_id)"

definition each_id :: "'w aws_env \<Rightarrow> pyval list \<Rightarrow> (string \<Rightarrow> ('w, exn, unit) io) \<Rightarrow> ('w, exn, unit) io" where
  "each_id A items f = io_for items (\<lambda>i. io_bind (io_lift (val_get i ''id'')) (\<lambda>v. f (text_of (py_str (aws_libs A)) v)))"

definition aws_wait_for_instances :: "'w aws_env \<Rightarrow> aws_cli \<Rightarrow> pyval list \<Rightarrow> string \<Rightarrow> ('w, exn, unit) io" where
  "aws_wait_for_instances A C instances status = each_id A instances (\<lambda>i. aws_wait_for_instance A C i status)"

definition aws_terminate_instances :: "'w aws_env \<Rightarrow> aws_cli \<Rightarrow> pyval list \<Rightarrow> ('w, exn, unit) io" where
  "aws_terminate_instances A C instances = each_id A instances (aws_terminate_instance A C)"

definition aws_delete_volumes :: "'w aws_env \<Rightarrow> aws_cli \<Rightarrow> pyval list \<Rightarrow> ('w, exn, unit) io" where
  "aws_delete_volumes A C volumes = each_id A volumes (aws_delete_volume A C)"

definition instance_type_command :: "'w aws_env \<Rightarrow> aws_cli \<Rightarrow> string \<Rightarrow> string" where
  "instance_type_command A C t =
     ''ec2 describe-instance-types --region '' @ aws_attr A C ''aws_region'' @ '' --instance-types '' @ t
     @ lit '' | jq `.InstanceTypes[] | {instance_type: .InstanceType, hypervisor: .Hypervisor, nvme_support: .EbsInfo.NvmeSupport,''
     @ '' ebs_baseline_iops: .EbsInfo.EbsOptimizedInfo.BaselineIops,ebs_baseline_throughput:''
     @ '' .EbsInfo.EbsOptimizedInfo.BaselineThroughputInMBps, local_nvme: .InstanceStorageSupported,''
     @ lit '' local_nvme_disks: .InstanceStorageInfo.Disks}`  | jq -s''"

text \<open>The answer is used as a dictionary by all callers.\<close>

definition aws_describe_instance_type :: "'w aws_env \<Rightarrow> aws_cli \<Rightarrow> pyval \<Rightarrow> ('w, exn, pydict) io" where
  "aws_describe_instance_type A C t =
     io_bind (io_except (aws_run_text A C (instance_type_command A C (text_of (py_str (aws_libs A)) t))) CloudCliException
        (\<lambda>msg. io_raise (if contains_str msg ''InvalidInstanceType'' then AwsCliException else CloudCliException))) (\<lambda>out.
     io_bind (io_lift (aws_json A out)) (\<lambda>v.
     io_bind (io_lift (first_item v)) (\<lambda>info. case info of VDict d \<Rightarrow> io_return d | _ \<Rightarrow> io_raise PyAttributeError)))"

section \<open>The security group\<close>

definition security_of :: "pyval \<Rightarrow> pyval \<Rightarrow> exn + security_record" where
  "security_of a r =
     (case val_get a ''from'' of Inl e \<Rightarrow> Inl e | Inr p \<Rightarrow>
     (case val_get a ''to'' of Inl e \<Rightarrow> Inl e | Inr q \<Rightarrow>
     (case val_get r ''CidrIp'' of Inl e \<Rightarrow> Inl e | Inr c \<Rightarrow>
     (case val_get r ''Description'' of Inl e \<Rightarrow> Inl e | Inr ds \<Rightarrow> SecurityRecord p q c VNone ds))))"

fun map_sums :: "('a \<Rightarrow> exn + 'b) \<Rightarrow> 'a list \<Rightarrow> exn + 'b list" where
  "map_sums f [] = Inr []"
| "map_sums f (x # xs) = (case f x of Inl e \<Rightarrow> Inl e | Inr y \<Rightarrow> map_sum id (\<lambda>ys. y # ys) (map_sums f xs))"

definition permission_records :: "pyval \<Rightarrow> exn + security_record list" where
  "permission_records a =
     (case val_get a ''ip_ranges'' of Inl e \<Rightarrow> Inl e | Inr rs \<Rightarrow>
     (case items_of rs of Inl e \<Rightarrow> Inl e | Inr rs \<Rightarrow> map_sums (security_of a) rs))"

definition aws_list_security_access :: "'w aws_env \<Rightarrow> aws_cli \<Rightarrow> ('w, exn, security_record list) io" where
  "aws_list_security_access A C =
     io_bind (aws_query A C (''ec2 describe-security-groups  --no-paginate --group-ids '' @ aws_attr A C ''security_group''
       @ lit '' |  jq  `.SecurityGroups[].IpPermissions[]  | {from: .FromPort, to: .ToPort, ip_ranges: .IpRanges }` | jq -s'')) (\<lambda>info.
     io_bind (io_lift (items_of info)) (\<lambda>as. io_lift (map_sum id concat (map_sums permission_records as))))"

definition ingress_command :: "'w aws_env \<Rightarrow> aws_cli \<Rightarrow> string \<Rightarrow> security_record \<Rightarrow> string" where
  "ingress_command A C verb r =
     ''ec2 '' @ verb @ ''-security-group-ingress --group-id '' @ aws_attr A C ''security_group''
     @ lit '' --ip-permissions ~IpProtocol=tcp,FromPort='' @ text_of (py_str (aws_libs A)) (port_from r) @ '',ToPort=''
     @ text_of (py_str (aws_libs A)) (port_to r) @ '',IpRanges=[{CidrIp='' @ cidr r @ lit ''}]~ ''"

definition aws_authorize_access :: "'w aws_env \<Rightarrow> aws_cli \<Rightarrow> security_record \<Rightarrow> ('w, exn, unit) io" where
  "aws_authorize_access A C r = aws_call A C (ingress_command A C ''authorize'' r)"

definition aws_revoke_access :: "'w aws_env \<Rightarrow> aws_cli \<Rightarrow> security_record \<Rightarrow> ('w, exn, unit) io" where
  "aws_revoke_access A C r = aws_call A C (ingress_command A C ''revoke'' r)"

definition aws_nuke :: "'w aws_env \<Rightarrow> aws_cli \<Rightarrow> 'w nuke_ops" where
  "aws_nuke A C = \<lparr>
     nk_instances = io_bind (aws_instances_by_tag A C) (\<lambda>v. io_lift (items_of v)),
     nk_volumes = io_bind (aws_volumes_by_tag A C) (\<lambda>v. io_lift (items_of v)),
     nk_terminate = aws_terminate_instances A C,
     nk_wait_terminated = (\<lambda>is. aws_wait_for_instances A C is compute_terminated),
     nk_delete_volumes = aws_delete_volumes A C\<rparr>"

section \<open>Machines\<close>

text \<open>An image is found in the region configuration by the system and the architecture; \<open>d[k]\<close> twice.\<close>

definition conf_path :: "aws_cli \<Rightarrow> string list \<Rightarrow> exn + pyval" where
  "conf_path C ks = (case ks of [] \<Rightarrow> Inr (VDict (aws_conf C))
     | k # rest \<Rightarrow> foldl (\<lambda>r k. case r of Inl e \<Rightarrow> Inl e | Inr v \<Rightarrow> subscript v k)
         (Inr (dget_default (aws_conf C) k VNone)) rest)"

definition aws_ec2_vm :: "'w aws_env \<Rightarrow> aws_cli \<Rightarrow> pydict \<Rightarrow> exn + virtual_machine" where
  "aws_ec2_vm A C params =
     vm_from_dict (aws_libs A) (dict_update (dict_update params [(''cluster_name'', VStr (aws_cluster C)), (''cloud'', VStr ''aws'')])
       [(''placement_group'', if truthy (dget_default params ''use_placement_group'' VNone)
          then aws_attr_val C ''placement_group'' else VNone)])"

definition instance_id :: "exn \<Rightarrow> virtual_machine \<Rightarrow> exn + string" where
  "instance_id e v = (case vm_id v of None \<Rightarrow> Inl e | Some i \<Rightarrow> Inr i)"

text \<open>
  \<open>wait_for_instance\<close>: a failure of the tool is logged or, when its text is another one, made into an
  exception that is not raised.
\<close>

definition ec2_wait :: "'w aws_env \<Rightarrow> aws_cli \<Rightarrow> virtual_machine \<Rightarrow> string \<Rightarrow> ('w, exn, unit) io" where
  "ec2_wait A C v status =
     io_bind (io_lift (instance_id AwsEc2Exception v)) (\<lambda>i.
       io_try (aws_wait_for_instance A C i status) (\<lambda>e. isinstance_exn e CloudCliException) (\<lambda>_. io_return ()))"

definition ec2_describe :: "'w aws_env \<Rightarrow> aws_cli \<Rightarrow> virtual_machine \<Rightarrow> ('w, exn, pyval) io" where
  "ec2_describe A C v =
     io_bind (io_lift (instance_id AwsEc2Exception v)) (\<lambda>i.
     io_bind (io_except (aws_run_text A C (''ec2 describe-instances --output json --instance-ids '' @ i
          @ lit '' | jq  `.Reservations[].Instances[] | {id: .InstanceId, private_ip: .PrivateIpAddress, public_ip:''
          @ lit '' .PublicIpAddress, name: .Tags[].Value}` | jq -s'')) CloudCliException
        (\<lambda>msg. io_raise (if contains_str msg ''InvalidInstanceID.NotFound'' then AwsEc2Exception else AwsCliException))) (\<lambda>out.
     io_bind (io_lift (aws_json A out)) (\<lambda>instances.
       if instances = VList [] then io_raise AwsEc2Exception else io_lift (first_item instances))))"

definition described_network :: "'w aws_env \<Rightarrow> pyval \<Rightarrow> exn + virtual_network" where
  "described_network A inst = (case inst of
      VDict d \<Rightarrow> Inr \<lparr>cloud_type = ''public_cloud'',
        private_ip = text_of (py_str (aws_libs A)) (dget_default d ''private_ip'' (VStr [])),
        public_ip = text_of (py_str (aws_libs A)) (dget_default d ''public_ip'' (VStr [])), disable_network_security = True\<rparr>
    | _ \<Rightarrow> Inl PyAttributeError)"

definition run_instances_command :: "'w aws_env \<Rightarrow> aws_cli \<Rightarrow> virtual_machine \<Rightarrow> pyval \<Rightarrow> pyval \<Rightarrow> string" where
  "run_instances_command A C v subnet img =
     (let t = text_of (py_str (aws_libs A)) in
      squeeze (''ec2 run-instances --output json --count 1 --instance-type '' @ instance_type v @ '' --image-id '' @ t img
        @ '' --key-name '' @ t (dget_default (aws_conf C) ''key_name'' VNone) @ '' --subnet-id '' @ t subnet @ '' ''
        @ (case placement_group v of Some (x # xs) \<Rightarrow> ''--placement GroupName='' @ (x # xs) | _ \<Rightarrow> [])
        @ '' --security-group-ids '' @ t (dget_default (aws_conf C) ''security_group'' VNone)
        @ '' --block-device-mappings DeviceName=/dev/sda1,Ebs={DeleteOnTermination=true} --tag-specifications ''
        @ lit ''`ResourceType=instance,Tags=[{Key=Name,Value='' @ aws_cluster C @ ''-'' @ vm_name v
        @ lit ''}]` | jq `.Instances[] | {id: .InstanceId}` | jq -s''))"

text \<open>What \<open>create\<close> takes from the region configuration: the subnet, the image, and the machine's key and user.\<close>

definition ec2_settings :: "'w aws_env \<Rightarrow> aws_cli \<Rightarrow> virtual_machine \<Rightarrow> exn + pyval \<times> pyval \<times> virtual_machine" where
  "ec2_settings A C v =
     catch [PyKeyError] AwsEc2Exception
       (case conf_path C [''zones'', zone v] of Inl e \<Rightarrow> Inl e | Inr subnet \<Rightarrow>
       (case conf_path C [''images'', os_type v, arch v, ''image_id''] of Inl e \<Rightarrow> Inl e | Inr img \<Rightarrow>
       (let v1 = (if key_file v = [] then v\<lparr>key_file := text_of (py_str (aws_libs A)) (dget_default (aws_conf C) ''key_file'' VNone)\<rparr> else v) in
       (case conf_path C [''images'', os_type v, arch v, ''ssh_user''] of Inl e \<Rightarrow> Inl e | Inr u \<Rightarrow>
          Inr (subnet, img, v1\<lparr>ssh_user := text_of (py_str (aws_libs A)) u\<rparr>)))))"

definition new_id :: "pyval \<Rightarrow> exn + string option" where
  "new_id answer = (case first_item answer of Inl e \<Rightarrow> Inl e | Inr a \<Rightarrow>
     (case val_get a ''id'' of Inl e \<Rightarrow> Inl e | Inr v \<Rightarrow> Inr (case v of VStr s \<Rightarrow> Some s | _ \<Rightarrow> None)))"

definition ec2_create :: "'w aws_env \<Rightarrow> aws_cli \<Rightarrow> pydict \<Rightarrow> ('w, exn, virtual_machine) io" where
  "ec2_create A C params =
     io_bind (io_lift (aws_ec2_vm A C params)) (\<lambda>v.
     io_bind (io_lift (ec2_settings A C v)) (\<lambda>(subnet, img, v1).
     io_catch [CloudCliException] AwsEc2Exception
      (io_bind (aws_query A C (run_instances_command A C v1 subnet img)) (\<lambda>answer.
       io_bind (io_lift (new_id answer)) (\<lambda>i.
       let v2 = v1\<lparr>vm_id := i\<rparr> in
       io_seq (ec2_wait A C v2 compute_running)
      (io_bind (ec2_describe A C v2) (\<lambda>inst.
       io_bind (io_lift (described_network A inst)) (\<lambda>nw. io_return (v2\<lparr>network := Some nw\<rparr>))))))))) "

definition aws_managed :: "virtual_machine \<Rightarrow> exn + bool" where
  "aws_managed v = map_sum id (\<lambda>i. startswith i ''i-'') (instance_id AwsEc2Exception v)"

text \<open>A machine that cannot be described is gone; a machine that is not Amazon's is left alone.\<close>

definition ec2_destroy :: "'w aws_env \<Rightarrow> aws_cli \<Rightarrow> virtual_machine \<Rightarrow> ('w, exn, unit) io" where
  "ec2_destroy A C v =
     io_bind (io_lift (aws_managed v)) (\<lambda>m.
       if \<not> m then io_return ()
       else io_bind (io_try (io_bind (ec2_describe A C v) (\<lambda>_. io_return True))
              (\<lambda>e. isinstance_exn e AwsEc2Exception) (\<lambda>_. io_return False)) (\<lambda>there.
            io_when there
              (io_bind (io_lift (instance_id AwsEc2Exception v)) (\<lambda>i.
               io_seq (aws_terminate_instance A C i) (ec2_wait A C v compute_terminated)))))"

definition ec2_command :: "'w aws_env \<Rightarrow> aws_cli \<Rightarrow> virtual_machine \<Rightarrow> string \<Rightarrow> ('w, exn, unit) io" where
  "ec2_command A C v verb =
     io_bind (io_lift (instance_id AwsEc2Exception v)) (\<lambda>i. aws_call A C (''ec2 '' @ verb @ ''-instances --instance-ids '' @ i))"

definition ec2_reboot :: "'w aws_env \<Rightarrow> aws_cli \<Rightarrow> virtual_machine \<Rightarrow> bool \<Rightarrow> ('w, exn, unit) io" where
  "ec2_reboot A C v wait =
     io_bind (io_lift (aws_managed v)) (\<lambda>m.
       io_when m (io_seq (ec2_command A C v ''reboot'') (io_when wait (ec2_wait A C v compute_running))))"

definition ec2_stop :: "'w aws_env \<Rightarrow> aws_cli \<Rightarrow> virtual_machine \<Rightarrow> ('w, exn, unit) io" where
  "ec2_stop A C v =
     io_bind (io_lift (aws_managed v)) (\<lambda>m.
       io_when m (io_seq (ec2_command A C v ''stop'') (ec2_wait A C v compute_stopped)))"

definition ec2_start :: "'w aws_env \<Rightarrow> aws_cli \<Rightarrow> virtual_machine \<Rightarrow> ('w, exn, virtual_machine option) io" where
  "ec2_start A C v =
     io_bind (io_lift (aws_managed v)) (\<lambda>m.
       if \<not> m then io_return None
       else io_seq (ec2_command A C v ''start'')
           (io_seq (ec2_wait A C v compute_running)
           (io_bind (ec2_describe A C v) (\<lambda>inst.
            io_bind (io_lift (described_network A inst)) (\<lambda>nw. io_return (Some (v\<lparr>network := Some nw\<rparr>)))))))"

section \<open>Storage\<close>

definition volume_tag :: "aws_cli \<Rightarrow> virtual_storage \<Rightarrow> string" where
  "volume_tag C vs = aws_cluster C @ ''-'' @ vs_name vs"

definition vs_type_text :: "virtual_storage \<Rightarrow> string" where
  "vs_type_text vs = (case vs_type vs of None \<Rightarrow> ''None'' | Some t \<Rightarrow> t)"

definition ebs_wait :: "'w aws_env \<Rightarrow> aws_cli \<Rightarrow> virtual_storage \<Rightarrow> string \<Rightarrow> ('w, exn, unit) io" where
  "ebs_wait A C vs event = aws_call A C (''ec2 wait '' @ event @ '' --volume-ids '' @ vs_id vs)"

text \<open>An answer without an identifier leaves the volume without one, and waiting for it is refused.\<close>

definition ebs_create :: "'w aws_env \<Rightarrow> aws_cli \<Rightarrow> virtual_storage \<Rightarrow> ('w, exn, virtual_storage) io" where
  "ebs_create A C vs =
     io_bind (aws_query A C (''ec2 create-volume --volume-type '' @ vs_type_text vs @ '' --no-encrypted --availability-zone ''
        @ vs_zone vs @ '' --size '' @ str_int (vs_size vs) @ lit '' --tag-specifications `ResourceType=volume,Tags=[{Key=Name,Value=''
        @ volume_tag C vs @ lit ''}]` --no-multi-attach-enabled''
        @ (if vs_type vs \<in> {Some ''io1'', Some ''io2''} then '' --iops '' @ str_int (iops vs) else []))) (\<lambda>spec.
     io_bind (io_lift (val_get spec ''VolumeId'')) (\<lambda>i.
       case i of
         VNone \<Rightarrow> io_raise CloudStorageException
       | _ \<Rightarrow> (let vs' = vs\<lparr>vs_id := text_of (py_str (aws_libs A)) i\<rparr> in
           io_seq (ebs_wait A C vs' storage_ready) (io_return vs'))))"

definition ebs_describe :: "'w aws_env \<Rightarrow> aws_cli \<Rightarrow> virtual_storage \<Rightarrow> ('w, exn, pyval) io" where
  "ebs_describe A C vs =
     (if vs_id vs = [] then io_raise CloudStorageException
      else io_bind (io_except (aws_run_text A C (''ec2 describe-volumes --volume-id '' @ vs_id vs)) CloudCliException
          (\<lambda>msg. io_raise (if contains_str msg ''InvalidVolume.NotFound'' then CloudStorageException else CloudCliException))) (\<lambda>out.
        io_lift (aws_json A out)))"

definition ebs_destroy :: "'w aws_env \<Rightarrow> aws_cli \<Rightarrow> virtual_storage \<Rightarrow> ('w, exn, unit) io" where
  "ebs_destroy A C vs =
     io_bind (io_try (io_bind (ebs_describe A C vs) (\<lambda>_. io_return True))
         (\<lambda>e. isinstance_any e [AwsStorageException, CloudStorageException]) (\<lambda>_. io_return False)) (\<lambda>there.
       io_when there (aws_delete_volume A C (vs_id vs)))"

text \<open>
  The two checks at the start (no device, another zone) make exceptions that are not raised. The type of
  the instance is not passed on, so every instance is taken for a Nitro one.
\<close>

definition ebs_attach :: "'w aws_env \<Rightarrow> aws_cli \<Rightarrow> virtual_storage \<Rightarrow> virtual_machine \<Rightarrow> ('w, exn, virtual_storage) io" where
  "ebs_attach A C vs v =
     io_seq (aws_call A C (''ec2 attach-volume --volume-id '' @ vs_id vs @ '' --instance-id ''
        @ (case vm_id v of None \<Rightarrow> ''None'' | Some i \<Rightarrow> i) @ '' --device '' @ device vs))
    (io_seq (ebs_wait A C vs storage_in_use) (io_return (vs\<lparr>device := ''/dev/nvme1n1''\<rparr>)))"

text \<open>The disks of the machine itself: the constructor asks for the data of the instance type.\<close>

definition nvme_init :: "'w aws_env \<Rightarrow> aws_cli \<Rightarrow> pyval \<Rightarrow> virtual_storage \<Rightarrow> ('w, exn, storage_object) io" where
  "nvme_init A C t vs =
     io_bind (aws_describe_instance_type A C t) (\<lambda>info.
       io_return \<lparr>so_vs = vs\<lparr>vs_name := aws_cluster C @ ''-nvme'', vs_id := ''nvme-001''\<rparr>, so_info = info, so_vm_name = None\<rparr>)"

definition nvme_device :: "nat \<Rightarrow> string" where
  "nvme_device i = ''/dev/nvme'' @ str_nat i @ ''n1''"

definition local_disks :: "pydict \<Rightarrow> virtual_storage \<Rightarrow> exn + int" where
  "local_disks info vs =
     (if dget info ''local_nvme'' \<noteq> Some (VBool True) then Inr (num_ephemeral vs)
      else (case dget_default info ''local_nvme_disks'' VNone of
              VNone \<Rightarrow> Inr 0
            | ds \<Rightarrow> (case first_item ds of Inl e \<Rightarrow> Inl e | Inr d \<Rightarrow>
                (case val_get d ''Count'' of Inl e \<Rightarrow> Inl e | Inr (VInt n) \<Rightarrow> Inr n | Inr _ \<Rightarrow> Inl PyTypeError))))"

definition nvme_create :: "storage_object \<Rightarrow> exn + virtual_storage" where
  "nvme_create so =
     (let start_from = (if dget (so_info so) ''nvme_support'' = Some (VStr ''required'') then 1 else 0);
          vs = so_vs so in
      case local_disks (so_info so) vs of
        Inl e \<Rightarrow> Inl e
      | Inr n \<Rightarrow> Inr (vs\<lparr>num_ephemeral := n,
          device := (if n = 1 then nvme_device start_from
            else if n > 1 then join '','' (map nvme_device [start_from..<nat n + start_from])
            else device vs)\<rparr>))"

text \<open>
  A bucket for the whole cluster. The pattern of addresses accepts four numbers up to 255 without leading
  zeros, with dots between them.
\<close>

definition canonize_bucket_name :: "string \<Rightarrow> string" where
  "canonize_bucket_name n = map (\<lambda>c. lower_char (if c = CHR ''_'' then CHR ''-'' else c)) n"

definition is_alnum :: "char \<Rightarrow> bool" where
  "is_alnum c \<longleftrightarrow> is_digit c \<or> is_lower (lower_char c)"

definition is_ipv4 :: "string \<Rightarrow> bool" where
  "is_ipv4 s \<longleftrightarrow> (let parts = split_on (CHR ''.'') s in
     length parts = 4 \<and> list_all (\<lambda>p. p \<in> set (map str_nat [0..<256])) parts)"

definition bucket_name_ok :: "string \<Rightarrow> bool" where
  "bucket_name_ok n \<longleftrightarrow> 3 \<le> length n \<and> length n \<le> 63 \<and> \<not> startswith n ''xn--''
     \<and> \<not> startswith (rev n) (rev ''-s3alias'') \<and> is_alnum (hd n) \<and> is_alnum (last n)
     \<and> \<not> contains_str n ''..'' \<and> \<not> is_ipv4 n"

definition s3_create :: "'w aws_env \<Rightarrow> aws_cli \<Rightarrow> virtual_storage \<Rightarrow> ('w, exn, virtual_storage) io" where
  "s3_create A C vs =
     (let bucket = canonize_bucket_name (aws_cluster C) in
      if \<not> bucket_name_ok bucket then io_raise AwsStorageException
      else io_seq (io_except (io_bind (aws_run_text A C (''s3api head-bucket --bucket '' @ bucket)) (\<lambda>_. io_return ()))
             CloudCliException (\<lambda>msg.
               if \<not> contains_str msg ''error code 254'' then io_raise CloudCliException
               else aws_call A C (''s3api create-bucket --bucket '' @ bucket
                 @ '' --acl private --create-bucket-configuration LocationConstraint='' @ aws_attr A C ''aws_region'')))
             (io_return (vs\<lparr>vs_id := bucket\<rparr>)))"

definition s3_destroy :: "'w aws_env \<Rightarrow> aws_cli \<Rightarrow> virtual_storage \<Rightarrow> ('w, exn, unit) io" where
  "s3_destroy A C vs = aws_call A C (''s3api delete-bucket --bucket '' @ vs_id vs)"

section \<open>The provider\<close>

text \<open>
  The classes behind the inherited operations. The factory gives only the three storage classes of
  Amazon for this tool (see \<open>create_storage\<close>); a started machine that is not Amazon's is \<open>None\<close>, of which no
  \<open>Node\<close> can be made.
\<close>

definition aws_stor_init :: "'w aws_env \<Rightarrow> aws_cli \<Rightarrow> storage_class \<Rightarrow> virtual_machine option \<Rightarrow> virtual_storage \<Rightarrow>
    ('w, exn, storage_object) io" where
  "aws_stor_init A C gs vo vs =
     (if gs = AwsNvme then nvme_init A C (case vo of None \<Rightarrow> VNone | Some v \<Rightarrow> VStr (instance_type v)) vs
      else io_return \<lparr>so_vs = vs, so_info = [], so_vm_name = None\<rparr>)"

definition aws_stor_create :: "'w aws_env \<Rightarrow> aws_cli \<Rightarrow> storage_class \<Rightarrow> storage_object \<Rightarrow> ('w, exn, virtual_storage) io" where
  "aws_stor_create A C gs so =
     (if gs = AwsNvme then io_lift (nvme_create so)
      else if gs = AwsEbs then ebs_create A C (so_vs so)
      else s3_create A C (so_vs so))"

definition aws_stor_attach :: "'w aws_env \<Rightarrow> aws_cli \<Rightarrow> storage_class \<Rightarrow> storage_object \<Rightarrow> virtual_machine \<Rightarrow>
    ('w, exn, virtual_storage) io" where
  "aws_stor_attach A C gs so v = (if gs = AwsEbs then ebs_attach A C (so_vs so) v else io_return (so_vs so))"

definition aws_stor_destroy :: "'w aws_env \<Rightarrow> aws_cli \<Rightarrow> storage_class \<Rightarrow> storage_object \<Rightarrow> ('w, exn, virtual_storage) io" where
  "aws_stor_destroy A C gs so =
     io_seq (if gs = AwsEbs then ebs_destroy A C (so_vs so) else if gs = AwsS3 then s3_destroy A C (so_vs so) else io_return ())
       (io_return (so_vs so))"

definition aws_provider :: "'w aws_env \<Rightarrow> aws_cli \<Rightarrow> 'w provider" where
  "aws_provider A C = \<lparr>
     cloud_kind = AwsCloud, cli = Some AwsCli,
     describe_by_tag = io_bind (aws_instances_by_tag A C) (\<lambda>v. io_bind (io_lift (items_of v)) (\<lambda>is. io_return (length is))),
     describe_instance_type = aws_describe_instance_type A C,
     comp_create = (\<lambda>gc. ec2_create A C), comp_destroy = (\<lambda>gc. ec2_destroy A C), comp_stop = (\<lambda>gc. ec2_stop A C),
     comp_start = (\<lambda>gc v. io_bind (ec2_start A C v) (\<lambda>r. case r of None \<Rightarrow> io_raise PyAttributeError | Some v' \<Rightarrow> io_return v')),
     stor_init = aws_stor_init A C, stor_create = aws_stor_create A C, stor_attach = aws_stor_attach A C,
     stor_destroy = aws_stor_destroy A C\<rparr>"

section \<open>Lemmas\<close>

text \<open>What the processes leave alone, the tool leaves alone, and so does everything built on it.\<close>

definition processes_keep :: "('w \<Rightarrow> bool) \<Rightarrow> 'w os_shell \<Rightarrow> bool" where
  "processes_keep I S \<longleftrightarrow> (\<forall>w c sh t. I w \<longrightarrow> I (snd (popen S c sh t w)))"

lemma aws_run_keeps [io_inv_intros]:
  "processes_keep I (aws_os A) \<Longrightarrow> io_keeps I (aws_run_text A C cmd)"
  "processes_keep I (aws_os A) \<Longrightarrow> io_keeps I (aws_run A C cmd)"
  "processes_keep I (aws_os A) \<Longrightarrow> io_keeps I (aws_call A C cmd)"
  "processes_keep I (aws_os A) \<Longrightarrow> io_keeps I (aws_query A C cmd)"
proof -
  assume k: "processes_keep I (aws_os A)"
  show 1: "io_keeps I (aws_run_text A C cmd)"
    unfolding aws_run_text_def using k by (intro cli_run_keeps) (simp add: processes_keep_def)
  show 2: "io_keeps I (aws_run A C cmd)" unfolding aws_run_def by (rule drop_text_keeps [OF 1])
  show "io_keeps I (aws_call A C cmd)" unfolding aws_call_def by (intro io_inv_intros 2)
  show "io_keeps I (aws_query A C cmd)" unfolding aws_query_def by (intro io_inv_intros 2)
qed

lemma ec2_keeps:
  assumes "processes_keep I (aws_os A)"
  shows "io_keeps I (aws_describe_instance_type A C t)" "io_keeps I (ec2_wait A C v st)" "io_keeps I (ec2_describe A C v)"
    and "io_keeps I (ec2_create A C ps)" "io_keeps I (ec2_destroy A C v)" "io_keeps I (ec2_stop A C v)" "io_keeps I (ec2_start A C v)"
proof -
  show "io_keeps I (aws_describe_instance_type A C t)"
    unfolding aws_describe_instance_type_def by (auto intro!: io_inv_intros assms split: pyval.split)
  show w: "io_keeps I (ec2_wait A C v st)" for v st
    unfolding ec2_wait_def aws_wait_for_instance_def by (intro io_inv_intros assms)
  show d: "io_keeps I (ec2_describe A C v)" for v
    unfolding ec2_describe_def by (auto intro!: io_inv_intros assms)
  show "io_keeps I (ec2_create A C ps)"
    unfolding ec2_create_def io_catch_def Let_def by (auto intro!: io_inv_intros assms w d split: prod.split)
  show "io_keeps I (ec2_destroy A C v)" "io_keeps I (ec2_stop A C v)" "io_keeps I (ec2_start A C v)"
    unfolding ec2_destroy_def ec2_stop_def ec2_start_def ec2_command_def aws_terminate_instance_def io_when_def
    by (auto intro!: io_inv_intros assms w d)
qed

lemma aws_storage_keeps:
  assumes "processes_keep I (aws_os A)"
  shows "io_keeps I (aws_stor_init A C gs vo vs)" "io_keeps I (aws_stor_create A C gs so)"
    and "io_keeps I (aws_stor_attach A C gs so v)" "io_keeps I (aws_stor_destroy A C gs so)"
proof -
  note k = io_inv_intros assms ec2_keeps(1) [OF assms]
  show "io_keeps I (aws_stor_init A C gs vo vs)"
    unfolding aws_stor_init_def nvme_init_def by (auto intro!: k)
  have "io_keeps I (ebs_create A C vs)" for vs
    unfolding ebs_create_def ebs_wait_def Let_def by (auto intro!: k split: pyval.split)
  moreover have "io_keeps I (s3_create A C vs)" for vs
    unfolding s3_create_def Let_def by (auto intro!: k)
  ultimately show "io_keeps I (aws_stor_create A C gs so)"
    unfolding aws_stor_create_def by (auto intro!: k)
  show "io_keeps I (aws_stor_attach A C gs so v)"
    unfolding aws_stor_attach_def ebs_attach_def ebs_wait_def by (auto intro!: k)
  show "io_keeps I (aws_stor_destroy A C gs so)"
    unfolding aws_stor_destroy_def ebs_destroy_def ebs_describe_def s3_destroy_def aws_delete_volume_def io_when_def
    by (auto intro!: k)
qed

text \<open>A tool for the witnesses that fails always, with the given text; its world is the list of the commands.\<close>

definition demo_shell :: "string \<Rightarrow> string list os_shell" where
  "demo_shell msg = \<lparr>popen = (\<lambda>c sh t w. (Exited [] msg 254, w @ [c])), shell_var = Some ''/bin/sh'',
     path_exists = (\<lambda>w p. True)\<rparr>"

definition demo_aws :: "string \<Rightarrow> string list aws_env" where
  "demo_aws msg = \<lparr>aws_os = demo_shell msg, aws_json = (\<lambda>s. Inr (VList [VDict []])), aws_libs = demo_libs\<rparr>"

definition demo_aws_cli :: aws_cli where
  "demo_aws_cli = \<lparr>aws_cluster = ''perf'', aws_conf = []\<rparr>"

section \<open>Properties\<close>



text \<open>
  A failed wait goes unnoticed: whatever the tool answers, \<open>wait_for_instance\<close> of a machine with an
  identifier returns, because the exception made for the failure is never raised.
\<close>

theorem ec2_wait_never_fails:
  assumes "shell_var (aws_os A) \<noteq> None" and "vm_id v = Some i"
  shows "fst (ec2_wait A C v status w) = Inr ()"
proof -
  obtain r w' where r: "aws_run_text A C (''ec2 wait '' @ status @ '' --instance-ids '' @ i) w = (r, w')" by fastforce
  have "e = CloudCliException" if "r = Inl (e, t)" for e t
    using cli_run_raises [OF assms(1), of "aws_base A C"] r that by (simp add: aws_run_text_def)
  then show ?thesis
    using assms(2) r
    by (cases r) (auto simp: ec2_wait_def instance_id_def aws_wait_for_instance_def aws_call_def aws_run_def drop_text_def io_defs)
qed

lemma demo_aws_run:
  "\<exists>u. aws_run_text (demo_aws msg) C c w = (Inl (CloudCliException, ''CLI command failed with Command '' @ u @ '' failed with '' @ msg
     @ '', error code 254''), w @ [u])"
  by (simp add: aws_run_text_def cli_run_with_def run_process_text_def demo_aws_def demo_shell_def startswith_def isinstance_eval
      str_int_def str_nat.simps digit_chars_def)

theorem ec2_wait_never_fails_witness:
  "fst (ec2_wait (demo_aws ''Waiter failed'') demo_aws_cli (demo_vm\<lparr>vm_id := Some ''i-1''\<rparr>) compute_running []) = Inr ()"
  by (rule ec2_wait_never_fails [where i = "''i-1''"]) (simp_all add: demo_aws_def demo_shell_def)

lemma run_parallel_raises:
  assumes "valid_schedule S" and "t \<in> set tasks" and "\<And>w. \<exists>e. fst (t w) = Inl e"
  shows "\<exists>e. fst (run_parallel_returning S tasks w) = Inl e"
proof -
  obtain i where i: "i < length tasks" "t = tasks ! i" using assms(2) by (metis in_set_conv_nth)
  let ?n = "length tasks"
  obtain res v where res: "exec_all (exec_order S ?n) tasks (\<lambda>i. Inl PyException) w = (res, v)" by fastforce
  then obtain u u' where "(tasks ! i) u = (res i, u')"
    using exec_all_ran [of "exec_order S ?n" i tasks "\<lambda>i. Inl PyException" w] assms(1) i(1)
    by (auto simp: valid_schedule_def)
  then obtain e where "res i = Inl e" using assms(3) [of u] i(2) by auto
  moreover have "i \<in> set (done_order S ?n)" using assms(1) i(1) by (simp add: valid_schedule_def)
  ultimately have "\<nexists>rs. map res (done_order S ?n) = map Inr rs"
    by (metis Inl_Inr_False ex_map_conv in_set_conv_nth list.set_map rev_image_eqI sum.distinct(1))
  then show ?thesis
    using collect_results_ok [of "done_order S ?n" res] res
    by (cases "collect_results (done_order S ?n) res") (auto simp: run_parallel_returning_def)
qed

text \<open>
  One unknown instance type stops the launch of all: when the tool refuses the type of one of the requested
  machines, \<open>launch_instances\<close> raises, also when the other machines have been made. (In other clouds the
  machine would just be missing.)
\<close>

theorem aws_unknown_type_stops_launch:
  assumes "valid_schedule S" and "ps \<in> set params"
    and "\<forall>w. fst (aws_describe_instance_type A C (dget_default ps ''instance_type'' VNone) w) = Inl AwsCliException"
  shows "\<exists>e. fst (launch_instances S (aws_provider A C) params w) = Inl e"
  unfolding launch_instances_def
proof (rule run_parallel_raises [OF assms(1)])
  show "launch_instance (aws_provider A C) ps \<in> set (map (launch_instance (aws_provider A C)) params)"
    using assms(2) by simp
  fix w
  have "\<exists>w'. aws_describe_instance_type A C (dget_default ps ''instance_type'' VNone) w = (Inl AwsCliException, w')"
    using assms(3) by (metis prod.collapse)
  then show "\<exists>e. fst (launch_instance (aws_provider A C) ps w) = Inl e"
    by (auto simp: launch_instance_def aws_provider_def io_defs)
qed

theorem aws_unknown_type_stops_launch_witness:
  "\<exists>e. fst (launch_instances demo_schedule (aws_provider (demo_aws ''InvalidInstanceType'') demo_aws_cli)
     [[(''instance_type'', VStr ''t9.huge'')], []] []) = Inl e"
proof (rule aws_unknown_type_stops_launch [OF demo_schedule_valid, where ps = "[(''instance_type'', VStr ''t9.huge'')]"], simp, intro allI)
  fix w
  let ?t = "dget_default [(''instance_type'', VStr ''t9.huge'')] ''instance_type'' VNone"
  obtain u where u: "aws_run_text (demo_aws ''InvalidInstanceType'') demo_aws_cli
      (instance_type_command (demo_aws ''InvalidInstanceType'') demo_aws_cli (text_of (py_str (aws_libs (demo_aws ''InvalidInstanceType''))) ?t)) w
      = (Inl (CloudCliException, ''CLI command failed with Command '' @ u @ '' failed with '' @ ''InvalidInstanceType'' @ '', error code 254''), w @ [u])"
    using demo_aws_run by blast
  have "contains_str (''CLI command failed with Command '' @ u @ '' failed with '' @ ''InvalidInstanceType'' @ '', error code 254'') ''InvalidInstanceType''"
    using contains_str_infix [of "''CLI command failed with Command '' @ u @ '' failed with ''" "''InvalidInstanceType''" "'', error code 254''"]
    by (simp only: append_assoc)
  then show "fst (aws_describe_instance_type (demo_aws ''InvalidInstanceType'') demo_aws_cli ?t w) = Inl AwsCliException"
    unfolding aws_describe_instance_type_def io_bind_def io_except_def u by (simp only: prod.case sum.case isinstance_refl if_True io_raise_def fst_conv)
qed

text \<open>
  Destroying is careful: a machine whose identifier is not one of Amazon's is left alone without a single
  command, and one that Amazon does not know (any more) is not an error.
\<close>

theorem ec2_destroy_careful:
  assumes "vm_id v = Some i"
  shows "(\<not> startswith i ''i-'' \<longrightarrow> ec2_destroy A C v w = (Inr (), w))
    \<and> (fst (ec2_describe A C v w) = Inl AwsEc2Exception \<longrightarrow> fst (ec2_destroy A C v w) = Inr ())"
proof (cases "startswith i ''i-''")
  case True
  then show ?thesis
    using assms by (cases "ec2_describe A C v w")
      (auto simp: ec2_destroy_def aws_managed_def instance_id_def io_defs isinstance_eval)
qed (use assms in \<open>simp add: ec2_destroy_def aws_managed_def instance_id_def io_defs\<close>)

theorem ec2_destroy_careful_witness:
  "ec2_destroy (demo_aws []) demo_aws_cli (demo_vm\<lparr>vm_id := Some ''colo-1''\<rparr>) [] = (Inr (), [])"
  using ec2_destroy_careful [of "demo_vm\<lparr>vm_id := Some ''colo-1''\<rparr>" "''colo-1''" "demo_aws []" demo_aws_cli "[]"]
  by (simp add: startswith_def)

text \<open>
  The local disks: for an instance type with \<open>n > 0\<close> local disks the device is the list of \<open>n\<close> different
  devices, from the first one that is not the root disk (which a Nitro instance has at 0).
\<close>

theorem nvme_create_devices:
  assumes "dget (so_info so) ''local_nvme'' = Some (VBool True)"
    and "dget (so_info so) ''local_nvme_disks'' = Some (VList (VDict [(''Count'', VInt (int n))] # ds))" and "0 < n"
  shows "let s = (if dget (so_info so) ''nvme_support'' = Some (VStr ''required'') then 1 else 0); is = [s..<n + s] in
    nvme_create so = Inr ((so_vs so)\<lparr>num_ephemeral := int n, device := join '','' (map nvme_device is)\<rparr>)
    \<and> length is = n \<and> distinct (map nvme_device is)"
proof -
  have "inj nvme_device"
    by (rule injI) (simp add: nvme_device_def)
  then have "distinct (map nvme_device xs) = distinct xs" for xs
    using inj_on_subset [OF \<open>inj nvme_device\<close> subset_UNIV] by (simp add: distinct_map)
  moreover have "[s..<Suc s] = [s]" for s :: nat by simp
  ultimately show ?thesis
    using assms by (auto simp: nvme_create_def local_disks_def first_item_def val_get_def dget_default_def Let_def join_def)
qed

theorem nvme_create_devices_witness:
  "map_sum id device (nvme_create \<lparr>so_vs = \<lparr>vs_size = 0, iops = 0, vs_type = Some ''ephemeral'', device = [], vs_zone = [], vs_name = [], vs_id = [], num_ephemeral = 0\<rparr>, so_info = [(''nvme_support'', VStr ''required''),
     (''local_nvme'', VBool True), (''local_nvme_disks'', VList [VDict [(''Count'', VInt 2)]])], so_vm_name = None\<rparr>)
   = Inr ''/dev/nvme1n1,/dev/nvme2n1''"
proof -
  let ?so = "\<lparr>so_vs = \<lparr>vs_size = 0, iops = 0, vs_type = Some ''ephemeral'', device = [], vs_zone = [], vs_name = [], vs_id = [], num_ephemeral = 0\<rparr>, so_info = [(''nvme_support'', VStr ''required''),
     (''local_nvme'', VBool True), (''local_nvme_disks'', VList [VDict [(''Count'', VInt 2)]])], so_vm_name = None\<rparr>"
  have "dget (so_info ?so) ''local_nvme_disks'' = Some (VList (VDict [(''Count'', VInt (int 2))] # []))" by simp
  from nvme_create_devices [OF _ this] show ?thesis
    by (simp add: Let_def nvme_device_def join_def upt_rec str_nat.simps digit_chars_def)
qed

end
