(* ===== verification/XB_Gcp.thy ===== *)
theory XB_Gcp
  imports XB_Aws
begin

text \<open>
  Google's cloud, \<^verbatim>\<open>cloud/gcp/\<close>: the command-line tool (\<^verbatim>\<open>gcp_cli.py\<close>), machines
  (\<^verbatim>\<open>gcp_compute.py\<close>), disks (\<^verbatim>\<open>gcp_storage.py\<close>), the provider they make up, and AlloyDB
  (\<^verbatim>\<open>gcp_alloydb_cli.py\<close>, \<^verbatim>\<open>gcp_alloydb_compute.py\<close>, \<^verbatim>\<open>gcp_alloydb_cloud.py\<close>).

  Parameters are those of the other vendor tools (\<open>XB_Process\<close>), the comparison of versions, the random
  letters, and the file shares (\<^verbatim>\<open>gcp_nas_storage.py\<close>), whose storage class has fields of its own.
\<close>

section \<open>The command-line tool\<close>

definition GCP_CLI_VERSION_REQUIRED :: string where "GCP_CLI_VERSION_REQUIRED = ''414.0.0''"

record 'w gcp_env =
  gcp_os :: "'w os_shell"
  gcp_json :: "string \<Rightarrow> exn + pyval"
  gcp_libs :: cluster_libs
  version_below :: "string \<Rightarrow> string \<Rightarrow> exn + bool"
  gcp_letters :: "'w \<Rightarrow> string"
  nas_create :: "storage_object \<Rightarrow> ('w, exn, virtual_storage) io"
  nas_attach :: "storage_object \<Rightarrow> virtual_machine \<Rightarrow> ('w, exn, virtual_storage) io"
  nas_destroy :: "storage_object \<Rightarrow> ('w, exn, virtual_storage) io"

text \<open>The tool of AlloyDB is the same one with another base command and without the check of the version.\<close>

record gcp_cli =
  gcp_cluster :: string
  gcp_conf :: pydict
  gcp_alloydb :: bool

definition gcp_attr :: "'w gcp_env \<Rightarrow> gcp_cli \<Rightarrow> string \<Rightarrow> string" where
  "gcp_attr G C k = text_of (py_str (gcp_libs G)) (dget_default (gcp_conf C) k (VStr []))"

definition gcp_base_command :: "'w gcp_env \<Rightarrow> gcp_cli \<Rightarrow> string" where
  "gcp_base_command G C = ''gcloud --project='' @ gcp_attr G C ''gcp_project_id'' @ '' --format=json ''
     @ (if gcp_alloydb C then '' alloydb '' else [])"

definition gcp_base :: "'w gcp_env \<Rightarrow> gcp_cli \<Rightarrow> bool \<Rightarrow> cli_base" where
  "gcp_base G C strict = \<lparr>base_command = gcp_base_command G C, check_stderr = strict\<rparr>"

definition gcp_run_text :: "'w gcp_env \<Rightarrow> gcp_cli \<Rightarrow> string \<Rightarrow> ('w, exn \<times> string, string) io" where
  "gcp_run_text G C cmd = cli_run (gcp_os G) (gcp_base G C False) cmd"

definition gcp_run :: "'w gcp_env \<Rightarrow> gcp_cli \<Rightarrow> string \<Rightarrow> ('w, exn, string) io" where
  "gcp_run G C cmd = drop_text (gcp_run_text G C cmd)"

definition gcp_call :: "'w gcp_env \<Rightarrow> gcp_cli \<Rightarrow> string \<Rightarrow> ('w, exn, unit) io" where
  "gcp_call G C cmd = io_bind (gcp_run G C cmd) (\<lambda>_. io_return ())"

definition gcp_query :: "'w gcp_env \<Rightarrow> gcp_cli \<Rightarrow> string \<Rightarrow> ('w, exn, pyval) io" where
  "gcp_query G C cmd = io_bind (gcp_run G C cmd) (\<lambda>out. io_lift (gcp_json G out))"

text \<open>Three numbers with dots between them, as a pattern of \<open>grep\<close>.\<close>

definition grep_pattern_version :: string where
  "grep_pattern_version = (let number = ''[0-9]'' @ [CHR 0x5C] @ ''+'' in join ([CHR 0x5C] @ ''.'') [number, number, number])"

definition gcp_check_cli_version :: "'w gcp_env \<Rightarrow> gcp_cli \<Rightarrow> ('w, exn, unit) io" where
  "gcp_check_cli_version G C =
     (if gcp_alloydb C then io_return ()
      else io_bind (drop_text (cli_run_with (gcp_os G) (gcp_base G C True)
          (lit ''--version | grep -o ~Google Cloud SDK '' @ grep_pattern_version @ lit ''~ | grep -o ~'' @ grep_pattern_version @ lit ''~'') 30 True True)) (\<lambda>stdout.
        io_bind (io_lift (version_below G stdout GCP_CLI_VERSION_REQUIRED)) (\<lambda>old.
          if old then io_raise GcpCliException else io_return ())))"

text \<open>The account is the step before any other command; it does not use the base command.\<close>

definition authorize_service_account :: "'w gcp_env \<Rightarrow> gcp_cli \<Rightarrow> ('w, exn, unit) io" where
  "authorize_service_account G C =
     io_bind (drop_text (cli_run_with (gcp_os G) (gcp_base G C False)
       (''gcloud auth activate-service-account --key-file '' @ gcp_attr G C ''service_account_file'') 30 True False)) (\<lambda>_. io_return ())"

definition GcpCliObject :: "'w gcp_env \<Rightarrow> bool \<Rightarrow> string \<Rightarrow> pydict \<Rightarrow> ('w, exn, gcp_cli) io" where
  "GcpCliObject G alloydb cluster rc =
     (let C = \<lparr>gcp_cluster = text_of (py_str (gcp_libs G)) (dget_default rc ''cluster_name'' (VStr cluster)),
               gcp_conf = rc, gcp_alloydb = alloydb\<rparr> in
      io_seq (gcp_check_cli_version G C) (io_seq (authorize_service_account G C) (io_return C)))"

definition format_arg :: "string \<Rightarrow> string" where
  "format_arg a = map (\<lambda>c. if c = CHR ''_'' then CHR ''-'' else c) a"

definition render_arg :: "'w gcp_env \<Rightarrow> string \<Rightarrow> pyval \<Rightarrow> string" where
  "render_arg G name val = (if val = VNone then [] else ''--'' @ format_arg name @ ''='' @ text_of (py_str (gcp_libs G)) val @ '' '')"

definition create_command :: "'w gcp_env \<Rightarrow> gcp_cli \<Rightarrow> virtual_machine \<Rightarrow> pydict \<Rightarrow> string list option \<Rightarrow> string" where
  "create_command G C v img tags =
     ''compute instances create '' @ format_arg (vm_cluster_name v @ ''-'' @ vm_name v) @ '' --zone '' @ zone v
     @ '' --machine-type='' @ instance_type v @ '' --boot-disk-type=pd-ssd --network '' @ gcp_attr G C ''network'' @ '' ''
     @ (if pub_file v = [] then [] else ''--metadata-from-file ssh-keys='' @ pub_file v @ '' '')
     @ concat (map (\<lambda>n. render_arg G n (dget_default img n VNone)) [''image_family'', ''image_project'', ''image_id''])
     @ (case tags of None \<Rightarrow> [] | Some ts \<Rightarrow> render_arg G ''tags'' (VStr (format_arg (join '','' ts))))"

definition gcp_cli_create :: "'w gcp_env \<Rightarrow> gcp_cli \<Rightarrow> virtual_machine \<Rightarrow> pydict \<Rightarrow> string list option \<Rightarrow> ('w, exn, pyval) io" where
  "gcp_cli_create G C v img tags =
     (if dget_default img ''image_family'' VNone = VNone \<and> dget_default img ''image_id'' VNone = VNone then io_raise GcpCliException
      else io_bind (io_gets (\<lambda>w. path_exists (gcp_os G) w (pub_file v))) (\<lambda>there.
        if pub_file v \<noteq> [] \<and> \<not> there then io_raise GcpCliException
        else gcp_query G C (create_command G C v img tags)))"

text \<open>
  A command that fails has raised in \<open>run\<close>; the code after the call, which looks at the exit code and
  at \<open>ignore_error\<close>, finds zero only.
\<close>

definition gcp_terminate_instance :: "'w gcp_env \<Rightarrow> gcp_cli \<Rightarrow> string \<Rightarrow> string \<Rightarrow> bool \<Rightarrow> ('w, exn, unit) io" where
  "gcp_terminate_instance G C iid z ignore_error =
     gcp_call G C (''compute instances delete '' @ iid @ '' --zone '' @ z @ '' --delete-disks=all --quiet'')"

definition gcp_instances_by_tag :: "'w gcp_env \<Rightarrow> gcp_cli \<Rightarrow> ('w, exn, pyval) io" where
  "gcp_instances_by_tag G C =
     (if gcp_alloydb C then io_return (VList [])
      else gcp_query G C (lit ''compute instances list --filter=~tags:'' @ gcp_cluster C @ lit ''~ | jq `.[] | {id: .id, name: .name, tags: .tags, private_ip:''
        @ lit '' .networkInterfaces[].networkIP, public_ip: .networkInterfaces[].accessConfigs[].natIP, zone: .zone}` -r | jq -s''))"

definition gcp_volumes_by_tag :: "'w gcp_env \<Rightarrow> gcp_cli \<Rightarrow> ('w, exn, pyval) io" where
  "gcp_volumes_by_tag G C =
     (if gcp_alloydb C then io_return VNone
      else gcp_query G C (lit ''compute disks list --filter=~tags:'' @ gcp_cluster C @ lit ''~ | jq `.[] | {id: .id, zone: .zone}` -r | jq -s''))"

definition id_zone :: "'w gcp_env \<Rightarrow> pyval \<Rightarrow> exn + string \<times> string" where
  "id_zone G i = (case val_get i ''id'' of Inl e \<Rightarrow> Inl e | Inr a \<Rightarrow> (case val_get i ''zone'' of Inl e \<Rightarrow> Inl e
     | Inr z \<Rightarrow> Inr (text_of (py_str (gcp_libs G)) a, text_of (py_str (gcp_libs G)) z)))"

definition gcp_terminate_instances :: "'w gcp_env \<Rightarrow> gcp_cli \<Rightarrow> pyval list \<Rightarrow> ('w, exn, unit) io" where
  "gcp_terminate_instances G C instances =
     (if gcp_alloydb C then io_return ()
      else io_for instances (\<lambda>i. io_bind (io_lift (id_zone G i)) (\<lambda>(a, z). gcp_terminate_instance G C a z True)))"

definition gcp_delete_volume :: "'w gcp_env \<Rightarrow> gcp_cli \<Rightarrow> string \<Rightarrow> string \<Rightarrow> ('w, exn, unit) io" where
  "gcp_delete_volume G C volume_id z = gcp_call G C (''compute disks delete '' @ volume_id @ '' --zone='' @ z @ '' --quiet'')"

definition gcp_delete_volumes :: "'w gcp_env \<Rightarrow> gcp_cli \<Rightarrow> pyval list \<Rightarrow> ('w, exn, unit) io" where
  "gcp_delete_volumes G C volumes =
     (if gcp_alloydb C then io_return ()
      else io_for volumes (\<lambda>i. io_bind (io_lift (id_zone G i)) (\<lambda>(a, z). gcp_delete_volume G C a z)))"

definition gcp_nuke :: "'w gcp_env \<Rightarrow> gcp_cli \<Rightarrow> 'w nuke_ops" where
  "gcp_nuke G C = \<lparr>
     nk_instances = io_bind (gcp_instances_by_tag G C) (\<lambda>v. io_lift (items_of v)),
     nk_volumes = io_bind (gcp_volumes_by_tag G C) (\<lambda>v. io_lift (items_of v)),
     nk_terminate = gcp_terminate_instances G C, nk_wait_terminated = (\<lambda>is. io_return ()),
     nk_delete_volumes = gcp_delete_volumes G C\<rparr>"

section \<open>Firewall rules\<close>

text \<open>A port is one number or a range; a rule without ports is for all of them.\<close>

definition port_range :: "string \<Rightarrow> exn + string \<times> string" where
  "port_range p = (if CHR ''-'' \<in> set p
     then (case split_on (CHR ''-'') p of [a, b] \<Rightarrow> Inr (a, b) | _ \<Rightarrow> Inl PyValueError) else Inr (p, p))"

definition rule_ports :: "pyval \<Rightarrow> exn + pyval list" where
  "rule_ports a = (case val_get a ''ports'' of Inl e \<Rightarrow> Inl e
     | Inr VNone \<Rightarrow> Inr [VStr ''0-65535''] | Inr v \<Rightarrow> items_of v)"

definition rule_record :: "pyval \<Rightarrow> pyval \<Rightarrow> pyval \<Rightarrow> exn + security_record" where
  "rule_record a s p = (case p of
      VStr t \<Rightarrow> (case port_range t of Inl e \<Rightarrow> Inl e | Inr (x, y) \<Rightarrow>
        (case val_get a ''name'' of Inl e \<Rightarrow> Inl e | Inr n \<Rightarrow> SecurityRecord (VStr x) (VStr y) s n default_desc))
    | _ \<Rightarrow> Inl PyTypeError)"

definition rule_source :: "pyval \<Rightarrow> pyval \<Rightarrow> exn + security_record list" where
  "rule_source a s = (case rule_ports a of Inl e \<Rightarrow> Inl e | Inr ps \<Rightarrow> map_sums (rule_record a s) ps)"

definition rule_records :: "pyval \<Rightarrow> exn + security_record list" where
  "rule_records a = (case val_get a ''source_ranges'' of Inl e \<Rightarrow> Inl e | Inr v \<Rightarrow>
     (case items_of v of Inl e \<Rightarrow> Inl e | Inr ss \<Rightarrow> map_sum id concat (map_sums (rule_source a) ss)))"

definition gcp_list_security_access :: "'w gcp_env \<Rightarrow> gcp_cli \<Rightarrow> ('w, exn, security_record list) io" where
  "gcp_list_security_access G C =
     io_bind (gcp_query G C (lit ''compute firewall-rules list  | jq `.[] | {name: .name, source_ranges: .sourceRanges, ports: .allowed[].ports}` | jq -s'')) (\<lambda>info.
     io_bind (io_lift (items_of info)) (\<lambda>as. io_lift (map_sum id concat (map_sums rule_records as))))"

definition gcp_authorize_access :: "'w gcp_env \<Rightarrow> gcp_cli \<Rightarrow> security_record \<Rightarrow> ('w, exn, unit) io" where
  "gcp_authorize_access G C r =
     io_bind (io_gets (gcp_letters G)) (\<lambda>l.
       gcp_call G C (''compute firewall-rules create xbench-'' @ l @ '' --network='' @ gcp_attr G C ''network''
         @ lit '' --allow tcp --source-ranges=~'' @ cidr r @ lit ''~ --description=~Allow incoming traffic on TCP for '' @ cidr r
         @ lit ''~ --direction=INGRESS''))"

definition gcp_revoke_access :: "'w gcp_env \<Rightarrow> gcp_cli \<Rightarrow> security_record \<Rightarrow> ('w, exn, unit) io" where
  "gcp_revoke_access G C r =
     io_bind (gcp_list_security_access G C) (\<lambda>all_rules.
       io_for all_rules (\<lambda>q. io_when (cidr q = cidr r)
         (gcp_call G C (''compute firewall-rules delete '' @ text_of (py_str (gcp_libs G)) (sec_name q) @ '' --quiet''))))"

section \<open>Machines\<close>

definition gcp_vm :: "'w gcp_env \<Rightarrow> gcp_cli \<Rightarrow> string \<Rightarrow> pydict \<Rightarrow> exn + virtual_machine" where
  "gcp_vm G C kind params =
     vm_from_dict (gcp_libs G) (dict_update params [(''cluster_name'', VStr (gcp_cluster C)), (''cloud'', VStr kind)])"

definition gcp_image :: "gcp_cli \<Rightarrow> virtual_machine \<Rightarrow> exn + pyval" where
  "gcp_image C v = (case subscript (dget_default (gcp_conf C) ''images'' VNone) (os_type v) of Inl e \<Rightarrow> Inl e
     | Inr a \<Rightarrow> subscript a (arch v))"

definition gcp_settings :: "'w gcp_env \<Rightarrow> gcp_cli \<Rightarrow> virtual_machine \<Rightarrow> pyval \<Rightarrow> exn + virtual_machine" where
  "gcp_settings G C v img =
     (let t = text_of (py_str (gcp_libs G));
          v1 = (if key_file v = [] then v\<lparr>key_file := t (dget_default (gcp_conf C) ''key_file'' VNone)\<rparr> else v);
          v2 = (if pub_file v1 = [] then v1\<lparr>pub_file := t (dget_default (gcp_conf C) ''pub_file'' VNone)\<rparr> else v1) in
      case subscript img ''ssh_user'' of Inl e \<Rightarrow> Inl e | Inr u \<Rightarrow> Inr (v2\<lparr>ssh_user := t u\<rparr>))"

text \<open>The addresses are taken from the first interface of the answer and its first access.\<close>

definition gcp_network :: "'w gcp_env \<Rightarrow> pyval \<Rightarrow> exn + virtual_network" where
  "gcp_network G inst =
     (case val_get inst ''networkInterfaces'' of Inl e \<Rightarrow> Inl e | Inr is \<Rightarrow>
     (case first_item is of Inl e \<Rightarrow> Inl e | Inr i \<Rightarrow>
     (case val_get i ''accessConfigs'' of Inl e \<Rightarrow> Inl e | Inr as \<Rightarrow>
     (case first_item as of Inl e \<Rightarrow> Inl e | Inr a \<Rightarrow>
     (case val_get a ''natIP'' of Inl e \<Rightarrow> Inl e | Inr pub \<Rightarrow>
     (case val_get i ''networkIP'' of Inl e \<Rightarrow> Inl e | Inr priv \<Rightarrow>
        Inr \<lparr>cloud_type = ''public_cloud'', private_ip = text_of (py_str (gcp_libs G)) priv,
          public_ip = text_of (py_str (gcp_libs G)) pub, disable_network_security = True\<rparr>))))))"

definition gcp_compute_create :: "'w gcp_env \<Rightarrow> gcp_cli \<Rightarrow> pydict \<Rightarrow> ('w, exn, virtual_machine) io" where
  "gcp_compute_create G C params =
     io_bind (io_lift (gcp_vm G C ''gcp'' params)) (\<lambda>v.
     io_bind (io_lift (catch [PyKeyError] GcpCloudException (gcp_image C v))) (\<lambda>img.
     io_catch [CloudCliException] GcpCloudException
      (io_bind (io_lift (gcp_settings G C v img)) (\<lambda>v1.
       io_bind (case img of VDict d \<Rightarrow> gcp_cli_create G C v1 d (Some [gcp_cluster C]) | _ \<Rightarrow> io_raise PyAttributeError) (\<lambda>answer.
       io_bind (io_lift (first_item answer)) (\<lambda>inst.
       io_bind (io_lift (val_get inst ''id'')) (\<lambda>i.
       io_bind (io_lift (gcp_network G inst)) (\<lambda>nw.
         io_return (v1\<lparr>vm_id := (case i of VNone \<Rightarrow> None | _ \<Rightarrow> Some (text_of (py_str (gcp_libs G)) i)), network := Some nw\<rparr>)))))))))"

definition gcp_compute_describe :: "'w gcp_env \<Rightarrow> gcp_cli \<Rightarrow> virtual_machine \<Rightarrow> ('w, exn, pyval) io" where
  "gcp_compute_describe G C v =
     io_bind (io_lift (instance_id GcpCloudException v)) (\<lambda>i.
     io_bind (io_except (gcp_run_text G C (''compute instances describe '' @ i @ '' --zone '' @ zone v)) CloudCliException
       (\<lambda>msg. io_raise (if contains_str msg ''was not found'' then GcpCloudException else GcpCliException))) (\<lambda>out.
     io_lift (gcp_json G out)))"

definition id_text :: "virtual_machine \<Rightarrow> string" where
  "id_text v = (case vm_id v of None \<Rightarrow> ''None'' | Some i \<Rightarrow> i)"

definition gcp_compute_destroy :: "'w gcp_env \<Rightarrow> gcp_cli \<Rightarrow> virtual_machine \<Rightarrow> ('w, exn, unit) io" where
  "gcp_compute_destroy G C v = gcp_terminate_instance G C (id_text v) (zone v) False"

definition gcp_switch :: "'w gcp_env \<Rightarrow> gcp_cli \<Rightarrow> string \<Rightarrow> virtual_machine \<Rightarrow> ('w, exn, unit) io" where
  "gcp_switch G C verb v =
     io_bind (io_lift (instance_id GcpCloudException v)) (\<lambda>i.
       gcp_call G C (''compute instances '' @ verb @ '' '' @ i @ '' --zone '' @ zone v))"

definition gcp_compute_stop :: "'w gcp_env \<Rightarrow> gcp_cli \<Rightarrow> virtual_machine \<Rightarrow> ('w, exn, unit) io" where
  "gcp_compute_stop G C v = gcp_switch G C ''stop'' v"

text \<open>\<open>start\<close> has no \<open>return\<close>: its value is \<open>None\<close>.\<close>

definition gcp_compute_start :: "'w gcp_env \<Rightarrow> gcp_cli \<Rightarrow> virtual_machine \<Rightarrow> ('w, exn, virtual_machine option) io" where
  "gcp_compute_start G C v = io_seq (gcp_switch G C ''start'' v) (io_return None)"

definition gcp_compute_reboot :: "'w gcp_env \<Rightarrow> gcp_cli \<Rightarrow> virtual_machine \<Rightarrow> ('w, exn, unit) io" where
  "gcp_compute_reboot G C v = io_seq (gcp_compute_stop G C v) (io_bind (gcp_compute_start G C v) (\<lambda>_. io_return ()))"

section \<open>Disks\<close>

text \<open>The name of the machine is a text also when there is none, so the blank of it stays in the name.\<close>

definition disk_name :: "gcp_cli \<Rightarrow> storage_object \<Rightarrow> string" where
  "disk_name C so = gcp_cluster C @ ''-'' @ (case so_vm_name so of None \<Rightarrow> [] | Some n \<Rightarrow> n @ ''-'') @ vs_name (so_vs so)"

definition gcp_disk_create :: "'w gcp_env \<Rightarrow> gcp_cli \<Rightarrow> storage_object \<Rightarrow> ('w, exn, virtual_storage) io" where
  "gcp_disk_create G C so =
     (let vs = so_vs so in
      io_bind (gcp_query G C (''compute disks create '' @ disk_name C so @ '' --type='' @ vs_type_text vs @ '' --size=''
        @ str_int (vs_size vs) @ '' --zone='' @ vs_zone vs @ '' --labels=tags='' @ gcp_cluster C)) (\<lambda>spec.
      io_bind (io_lift (first_item spec)) (\<lambda>s.
      io_bind (io_lift (val_get s ''id'')) (\<lambda>i. io_return (vs\<lparr>vs_id := text_of (py_str (gcp_libs G)) i\<rparr>)))))"

definition gcp_disk_describe :: "'w gcp_env \<Rightarrow> gcp_cli \<Rightarrow> storage_object \<Rightarrow> ('w, exn, pyval) io" where
  "gcp_disk_describe G C so =
     io_bind (io_except (gcp_run_text G C (''compute disks describe ''
         @ (if vs_id (so_vs so) \<noteq> [] then vs_id (so_vs so) else disk_name C so) @ '' --zone='' @ vs_zone (so_vs so))) CloudCliException
       (\<lambda>msg. io_raise (if contains_str msg ''HTTPError 404'' then GcpStorageException else CloudCliException))) (\<lambda>out.
     io_lift (gcp_json G out))"

definition gcp_disk_destroy :: "'w gcp_env \<Rightarrow> gcp_cli \<Rightarrow> storage_object \<Rightarrow> ('w, exn, virtual_storage) io" where
  "gcp_disk_destroy G C so =
     io_bind (io_try (io_bind (gcp_disk_describe G C so) (\<lambda>_. io_return True))
         (\<lambda>e. isinstance_exn e GcpStorageException) (\<lambda>_. io_return False)) (\<lambda>there.
       if there then io_seq (gcp_delete_volume G C (vs_id (so_vs so)) (vs_zone (so_vs so))) (io_return ((so_vs so)\<lparr>vs_id := []\<rparr>))
       else io_return (so_vs so))"

definition gcp_disk_attach :: "'w gcp_env \<Rightarrow> gcp_cli \<Rightarrow> storage_object \<Rightarrow> virtual_machine \<Rightarrow> ('w, exn, virtual_storage) io" where
  "gcp_disk_attach G C so v =
     (let vs = so_vs so in
      io_seq (gcp_call G C (''compute instances attach-disk '' @ id_text v @ '' --disk='' @ vs_id vs @ '' --zone='' @ zone v
        @ '' --device-name='' @ device vs))
      (io_return (vs\<lparr>device := ''/dev/'' @ device vs\<rparr>)))"

definition gcp_disk_detach :: "'w gcp_env \<Rightarrow> gcp_cli \<Rightarrow> storage_object \<Rightarrow> virtual_machine \<Rightarrow> ('w, exn, unit) io" where
  "gcp_disk_detach G C so v =
     gcp_call G C (''compute instances detach-disk '' @ id_text v @ '' --disk='' @ disk_name C so @ '' --zone='' @ zone v)"

section \<open>The provider\<close>

definition gcp_stor_init :: "storage_class \<Rightarrow> virtual_machine option \<Rightarrow> virtual_storage \<Rightarrow> ('w, exn, storage_object) io" where
  "gcp_stor_init gs vo vs =
     io_return \<lparr>so_vs = vs, so_info = [], so_vm_name = (if gs = GcpStorage then Some (case vo of None \<Rightarrow> [] | Some v \<Rightarrow> vm_name v) else None)\<rparr>"

definition gcp_provider :: "'w gcp_env \<Rightarrow> gcp_cli \<Rightarrow> 'w provider" where
  "gcp_provider G C = \<lparr>
     cloud_kind = GcpCloud, cli = Some GcpCli,
     describe_by_tag = io_bind (gcp_instances_by_tag G C) (\<lambda>v. io_bind (io_lift (items_of v)) (\<lambda>is. io_return (length is))),
     describe_instance_type = (\<lambda>t. io_raise PyAttributeError),
     comp_create = (\<lambda>gc. gcp_compute_create G C), comp_destroy = (\<lambda>gc. gcp_compute_destroy G C),
     comp_stop = (\<lambda>gc. gcp_compute_stop G C),
     comp_start = (\<lambda>gc v. io_bind (gcp_compute_start G C v) (\<lambda>r. case r of None \<Rightarrow> io_raise PyAttributeError | Some v' \<Rightarrow> io_return v')),
     stor_init = gcp_stor_init,
     stor_create = (\<lambda>gs so. if gs = GcpStorage then gcp_disk_create G C so else nas_create G so),
     stor_attach = (\<lambda>gs so v. if gs = GcpStorage then gcp_disk_attach G C so v else nas_attach G so v),
     stor_destroy = (\<lambda>gs so. if gs = GcpStorage then gcp_disk_destroy G C so else nas_destroy G so)\<rparr>"

section \<open>AlloyDB\<close>

text \<open>The machines it comes on: processors and gigabytes.\<close>

definition N2_HIGH_MEM_TYPES :: "(string, int \<times> int) dict" where
  "N2_HIGH_MEM_TYPES = [(''n2-highmem-2'', (2, 16)), (''n2-highmem-4'', (4, 32)), (''n2-highmem-8'', (8, 64)),
     (''n2-highmem-16'', (16, 128)), (''n2-highmem-32'', (32, 256)), (''n2-highmem-64'', (64, 512))]"

definition get_nproc_memory :: "string \<Rightarrow> exn + int \<times> int" where
  "get_nproc_memory t = (case dget N2_HIGH_MEM_TYPES t of None \<Rightarrow> Inl GcpAlloyDBCloudException
     | Some (cpu, gb) \<Rightarrow> Inr (cpu, 1024 * gb))"

definition get_settings :: "int \<Rightarrow> int \<Rightarrow> (string, int) dict" where
  "get_settings np mb =
     (let shared_buffers = round_down_to_even (of_int mb / 4);
          c0 = np * 8 + 10;
          c1 = (if c0 < 256 then 256 + np else c0);
          max_connections = (if c1 < 1000 then 1000 else c1);
          m0 = round_down_to_even (of_int shared_buffers / of_int max_connections);
          work_mem = (if m0 < 64 then 64 else m0) in
      [(''shared_buffers'', shared_buffers), (''max_connections'', max_connections), (''work_mem'', work_mem),
       (''effective_cache_size'', round_down_to_even (of_int mb * 3 / 4)),
       (''max_worker_processes'', if np < 64 then 64 else np)])"

definition db_params :: "(string, int) dict \<Rightarrow> string" where
  "db_params settings = ''--database-flags='' @ join '','' (map (\<lambda>(k, v). k @ ''='' @ str_int v) settings)"

definition alloydb_create_instance :: "'w gcp_env \<Rightarrow> gcp_cli \<Rightarrow> virtual_machine \<Rightarrow> bool \<Rightarrow> int \<Rightarrow> ('w, exn, unit) io" where
  "alloydb_create_instance G C v primary node_count =
     io_bind (io_lift (get_nproc_memory (instance_type v))) (\<lambda>(np, mb).
       gcp_call G C (''instances create '' @ (if primary then ''primary-instance --instance-type=PRIMARY '' else ''read--pool-instance --instance-type=READ_POOL '')
         @ db_params (get_settings np mb) @ '' --cpu-count='' @ str_int np @ '' --region='' @ zone v @ '' --cluster=''
         @ format_arg (gcp_cluster C) @ (if primary then [] else '' --read-pool-node-count='' @ str_int node_count)))"

definition alloydb_create_cluster :: "'w gcp_env \<Rightarrow> gcp_cli \<Rightarrow> virtual_machine \<Rightarrow> pyval \<Rightarrow> ('w, exn, unit) io" where
  "alloydb_create_cluster G C v pw =
     gcp_call G C (''clusters create '' @ format_arg (gcp_cluster C) @ '' --region='' @ zone v @ '' --password=''
       @ text_of (py_str (gcp_libs G)) pw @ '' --disable-automated-backup'')"

definition alloydb_get_endpoint :: "'w gcp_env \<Rightarrow> gcp_cli \<Rightarrow> virtual_machine \<Rightarrow> ('w, exn, pyval) io" where
  "alloydb_get_endpoint G C v =
     io_bind (gcp_query G C (''instances describe primary-instance --region='' @ zone v @ '' --cluster='' @ format_arg (gcp_cluster C))) (\<lambda>a.
       io_lift (val_get a ''ipAddress''))"

definition alloydb_delete_cluster :: "'w gcp_env \<Rightarrow> gcp_cli \<Rightarrow> virtual_machine \<Rightarrow> ('w, exn, unit) io" where
  "alloydb_delete_cluster G C v =
     gcp_call G C (''clusters delete '' @ format_arg (gcp_cluster C) @ '' --region='' @ zone v @ '' --quiet --force --async'')"

definition set_private_ip :: "virtual_machine \<Rightarrow> string \<Rightarrow> exn + virtual_machine" where
  "set_private_ip v ip = (case network v of None \<Rightarrow> Inl PyAttributeError | Some nw \<Rightarrow> Inr (v\<lparr>network := Some (nw\<lparr>private_ip := ip\<rparr>)\<rparr>))"

definition alloydb_create :: "'w gcp_env \<Rightarrow> gcp_cli \<Rightarrow> pydict \<Rightarrow> int \<Rightarrow> ('w, exn, virtual_machine) io" where
  "alloydb_create G C params node_count =
     io_bind (io_lift (gcp_vm G C ''gcp_alloydb'' params)) (\<lambda>v.
     io_catch [CloudCliException] GcpAlloyDBCloudException
      (io_seq (alloydb_create_cluster G C v (dget_default params ''password'' VNone))
      (io_seq (alloydb_create_instance G C v True 1)
      (io_seq (io_when (node_count > 1) (alloydb_create_instance G C v False (node_count - 1)))
      (io_bind (alloydb_get_endpoint G C v) (\<lambda>ip.
         io_lift (set_private_ip v (text_of (py_str (gcp_libs G)) ip))))))))"

text \<open>
  All requested machines are one cluster: with several, each gets the data of the primary under the
  name that was asked for.
\<close>

definition alloydb_nodes :: "'w gcp_env \<Rightarrow> virtual_machine \<Rightarrow> pydict list \<Rightarrow> exn + node option list" where
  "alloydb_nodes G v instances =
     (if length instances > 1
      then map_sums (\<lambda>i. map_sum id Some (Node (v\<lparr>vm_name := text_of (py_str (gcp_libs G)) (dget_default i ''name'' VNone)\<rparr>))) instances
      else map_sum id (\<lambda>n. [Some n]) (Node v))"

definition alloydb_launch_instances :: "'w gcp_env \<Rightarrow> gcp_cli \<Rightarrow> pydict list \<Rightarrow> ('w, exn, node option list) io" where
  "alloydb_launch_instances G C instances =
     (case instances of
        [] \<Rightarrow> io_raise PyIndexError
      | params # _ \<Rightarrow> io_bind (alloydb_create G C params (int (length instances))) (\<lambda>v. io_lift (alloydb_nodes G v instances)))"

definition alloydb_terminate_instances :: "'w gcp_env \<Rightarrow> gcp_cli \<Rightarrow> node list \<Rightarrow> ('w, exn, unit) io" where
  "alloydb_terminate_instances G C instances =
     (case instances of [] \<Rightarrow> io_raise PyIndexError | n # _ \<Rightarrow> alloydb_delete_cluster G C (vm n))"


section \<open>The cloud as a whole\<close>

lemma gcp_run_keeps [io_inv_intros]:
  "processes_keep I (gcp_os G) \<Longrightarrow> io_keeps I (gcp_run_text G C cmd)"
  "processes_keep I (gcp_os G) \<Longrightarrow> io_keeps I (gcp_run G C cmd)"
  "processes_keep I (gcp_os G) \<Longrightarrow> io_keeps I (gcp_call G C cmd)"
  "processes_keep I (gcp_os G) \<Longrightarrow> io_keeps I (gcp_query G C cmd)"
proof -
  assume k: "processes_keep I (gcp_os G)"
  then show "io_keeps I (gcp_run_text G C cmd)"
    unfolding gcp_run_text_def by (auto intro!: cli_run_keeps simp: processes_keep_def)
  then show "io_keeps I (gcp_run G C cmd)" unfolding gcp_run_def by (rule drop_text_keeps)
  then show "io_keeps I (gcp_call G C cmd)" "io_keeps I (gcp_query G C cmd)"
    unfolding gcp_call_def gcp_query_def by (auto intro!: io_inv_intros)
qed

lemma gcp_compute_keeps:
  assumes "processes_keep I (gcp_os G)"
  shows "io_keeps I (gcp_compute_create G C ps)" "io_keeps I (gcp_compute_destroy G C v)"
    and "io_keeps I (gcp_compute_stop G C v)" "io_keeps I (gcp_compute_start G C v)"
proof -
  note k = io_inv_intros assms
  show "io_keeps I (gcp_compute_create G C ps)"
    unfolding gcp_compute_create_def gcp_cli_create_def by (auto intro!: io_catch_keeps k split: pyval.split)
  show "io_keeps I (gcp_compute_destroy G C v)"
    unfolding gcp_compute_destroy_def gcp_terminate_instance_def by (intro k)
  show "io_keeps I (gcp_compute_stop G C v)" "io_keeps I (gcp_compute_start G C v)"
    unfolding gcp_compute_stop_def gcp_compute_start_def gcp_switch_def by (auto intro!: k)
qed

lemma gcp_disk_keeps:
  assumes "processes_keep I (gcp_os G)"
  shows "io_keeps I (gcp_disk_create G C so)" "io_keeps I (gcp_disk_attach G C so v)" "io_keeps I (gcp_disk_destroy G C so)"
proof -
  note k = io_inv_intros assms
  show "io_keeps I (gcp_disk_create G C so)" "io_keeps I (gcp_disk_attach G C so v)"
    unfolding gcp_disk_create_def gcp_disk_attach_def by (auto simp: Let_def intro!: k)
  show "io_keeps I (gcp_disk_destroy G C so)"
    unfolding gcp_disk_destroy_def gcp_disk_describe_def gcp_delete_volume_def by (auto intro!: k)
qed


section \<open>Properties\<close>

text \<open>
  Google's cloud writes no cluster file: when the processes it starts do not, and the file shares do not,
  no operation of the cloud object does.
\<close>

theorem gcp_cloud_keeps:
  assumes "valid_schedule S" and "processes_keep I (gcp_os G)"
    and "\<And>so v. io_keeps I (nas_create G so) \<and> io_keeps I (nas_attach G so v) \<and> io_keeps I (nas_destroy G so)"
  shows "cloud_keeps I (base_cloud S (gcp_provider G C))"
proof (rule base_cloud_keeps [OF assms(1)])
  note k = gcp_compute_keeps [OF assms(2)] gcp_disk_keeps [OF assms(2)]
  show "io_keeps I (describe_by_tag (gcp_provider G C))"
    unfolding gcp_provider_def gcp_instances_by_tag_def by (auto intro!: io_inv_intros assms)
  show "\<forall>t. io_keeps I (describe_instance_type (gcp_provider G C) t)"
    unfolding gcp_provider_def by (auto intro!: io_inv_intros)
  show "\<forall>gc v ps. io_keeps I (comp_create (gcp_provider G C) gc ps) \<and> io_keeps I (comp_destroy (gcp_provider G C) gc v)
      \<and> io_keeps I (comp_stop (gcp_provider G C) gc v) \<and> io_keeps I (comp_start (gcp_provider G C) gc v)"
    unfolding gcp_provider_def by (auto intro!: io_inv_intros k split: option.split)
  show "\<forall>gs s v vo so. io_keeps I (stor_init (gcp_provider G C) gs vo s) \<and> io_keeps I (stor_create (gcp_provider G C) gs so)
      \<and> io_keeps I (stor_attach (gcp_provider G C) gs so v) \<and> io_keeps I (stor_destroy (gcp_provider G C) gs so)"
    unfolding gcp_provider_def gcp_stor_init_def by (auto simp: k assms intro!: io_inv_intros)
qed

definition demo_gcp :: "string list gcp_env" where
  "demo_gcp = \<lparr>gcp_os = \<lparr>popen = (\<lambda>c sh t w. (Exited ''Updated'' [] 0, w @ [c])), shell_var = Some ''/bin/sh'', path_exists = (\<lambda>w p. True)\<rparr>,
     gcp_json = (\<lambda>s. Inr (VDict [(''ipAddress'', VStr ''10.0.0.7'')])), gcp_libs = demo_libs, version_below = (\<lambda>a b. Inr False),
     gcp_letters = (\<lambda>w. ''abc''), nas_create = (\<lambda>so. io_raise CloudException), nas_attach = (\<lambda>so v. io_raise CloudException),
     nas_destroy = (\<lambda>so. io_raise CloudException)\<rparr>"

definition demo_gcp_cli :: gcp_cli where
  "demo_gcp_cli = \<lparr>gcp_cluster = ''perf'', gcp_conf = [], gcp_alloydb = False\<rparr>"

theorem gcp_cloud_keeps_witness:
  "cloud_keeps (\<lambda>w. 2 \<le> length w) (base_cloud demo_schedule (gcp_provider demo_gcp demo_gcp_cli))"
  by (rule gcp_cloud_keeps [OF demo_schedule_valid])
    (simp_all add: processes_keep_def demo_gcp_def io_keeps_def io_defs)

text \<open>
  A stopped cluster on Google's cloud cannot be started: \<open>start_instances\<close> of one machine or more always
  raises, whatever the tool answers, since \<open>start\<close> returns no machine and the node of \<open>None\<close> cannot be made.
\<close>

theorem gcp_start_always_raises:
  assumes "valid_schedule S" and "instances \<noteq> []"
  shows "\<exists>e. fst (start_instances S (gcp_provider G C) instances w) = Inl e"
proof -
  obtain n ns where n: "instances = n # ns" using assms(2) by (cases instances) auto
  have a: "\<exists>e. fst (start_instance (gcp_provider G C) n u) = Inl e" for u
    by (auto simp: start_instance_def gcp_provider_def gcp_compute_start_def io_defs split: prod.splits sum.splits)
  have b: "start_instance (gcp_provider G C) n \<in> set (map (start_instance (gcp_provider G C)) instances)"
    using n by simp
  show ?thesis unfolding start_instances_def by (rule run_parallel_raises [OF assms(1) b a])
qed

theorem gcp_start_always_raises_witness:
  "\<exists>e. fst (start_instances demo_schedule (gcp_provider demo_gcp demo_gcp_cli) [demo_node] []) = Inl e"
  by (rule gcp_start_always_raises [OF demo_schedule_valid]) simp

text \<open>
  The settings of AlloyDB keep the minimums of the service whatever the machine: a thousand connections,
  64 of work memory and 64 workers. The shared buffers are the greatest even number within a quarter of
  the memory, so they are even and not negative; and all connections together have no more work memory
  than there are shared buffers unless the minimum was taken.
\<close>

theorem alloydb_settings_bounds:
  fixes np mb :: int
  assumes "0 \<le> mb"
  shows "\<exists>sb mc wm ec mw. get_settings np mb = [(''shared_buffers'', sb), (''max_connections'', mc), (''work_mem'', wm),
      (''effective_cache_size'', ec), (''max_worker_processes'', mw)]
    \<and> 1000 \<le> mc \<and> np * 8 + 10 \<le> mc \<and> 64 \<le> wm \<and> 64 \<le> mw \<and> np \<le> mw
    \<and> even sb \<and> 0 \<le> sb \<and> 4 * sb \<le> mb \<and> mb < 4 * sb + 8
    \<and> even ec \<and> 4 * ec \<le> 3 * mb \<and> 3 * mb < 4 * ec + 8
    \<and> (wm = 64 \<or> wm * mc \<le> sb)"
proof -
  note r = round_down_to_even_spec
  define sb where "sb = round_down_to_even (of_int mb / 4)"
  define c1 where "c1 = (if np * 8 + 10 < 256 then 256 + np else np * 8 + 10)"
  define mc where "mc = (if c1 < 1000 then 1000 else c1)"
  define m0 where "m0 = round_down_to_even (of_int sb / of_int mc)"
  define ec where "ec = round_down_to_even (of_int mb * 3 / 4)"
  have sb: "even sb" "4 * sb \<le> mb" "mb < 4 * sb + 8"
    using r [of "of_int mb / 4 :: rat"] unfolding sb_def [symmetric] by linarith+
  then have sb0: "0 \<le> sb" using assms by presburger
  have ec: "even ec" "4 * ec \<le> 3 * mb" "3 * mb < 4 * ec + 8"
    using r [of "of_int mb * 3 / 4 :: rat"] unfolding ec_def [symmetric] by linarith+
  have mc: "1000 \<le> mc" "np * 8 + 10 \<le> mc" by (auto simp: mc_def c1_def)
  have "of_int m0 \<le> of_int sb / (of_int mc :: rat)" using r [of "of_int sb / of_int mc"] unfolding m0_def [symmetric] by simp
  then have "of_int (m0 * mc) \<le> (of_int sb :: rat)" using mc(1) by (simp add: pos_le_divide_eq)
  then have m0: "m0 * mc \<le> sb" by (simp only: of_int_le_iff)
  define wm where "wm = (if m0 < 64 then 64 else m0)"
  define mw where "mw = (if np < 64 then 64 else np)"
  have g: "get_settings np mb = [(''shared_buffers'', sb), (''max_connections'', mc), (''work_mem'', wm),
      (''effective_cache_size'', ec), (''max_worker_processes'', mw)]"
    unfolding get_settings_def Let_def sb_def c1_def mc_def m0_def ec_def wm_def mw_def by (rule refl)
  have wm: "64 \<le> wm" "wm = 64 \<or> wm * mc \<le> sb" using m0 by (auto simp: wm_def)
  have mw: "64 \<le> mw" "np \<le> mw" by (auto simp: mw_def)
  show ?thesis
    by (rule exI [of _ sb], rule exI [of _ mc], rule exI [of _ wm], rule exI [of _ ec], rule exI [of _ mw])
      (intro conjI g sb sb0 mc ec wm mw)
qed

theorem alloydb_settings_bounds_witness:
  "\<exists>sb mc wm ec mw. get_settings 16 131072 = [(''shared_buffers'', sb), (''max_connections'', mc), (''work_mem'', wm),
      (''effective_cache_size'', ec), (''max_worker_processes'', mw)]
    \<and> 1000 \<le> mc \<and> 16 * 8 + 10 \<le> mc \<and> 64 \<le> wm \<and> 64 \<le> mw \<and> 16 \<le> mw
    \<and> even sb \<and> 0 \<le> sb \<and> 4 * sb \<le> 131072 \<and> 131072 < 4 * sb + 8
    \<and> even ec \<and> 4 * ec \<le> 3 * 131072 \<and> 3 * 131072 < 4 * ec + 8
    \<and> (wm = 64 \<or> wm * mc \<le> sb)"
  by (rule alloydb_settings_bounds) simp


definition demo_gcp_unset :: "string list gcp_env" where
  "demo_gcp_unset = demo_gcp\<lparr>gcp_libs := demo_libs\<lparr>vm_from_dict := (\<lambda>d. Inr (demo_vm\<lparr>network := None\<rparr>))\<rparr>\<rparr>"

definition demo_ro :: virtual_machine where "demo_ro = demo_vm\<lparr>managed := False, vm_name := []\<rparr>"

text \<open>
  AlloyDB needs a \<open>network\<close> in its configuration, and asks for it last: without one
  the database cluster is made, and then \<open>create\<close> fails, whatever the tool answers.
\<close>

theorem alloydb_needs_network:
  assumes "gcp_vm G C ''gcp_alloydb'' params = Inr v" and "network v = None"
  shows "\<exists>e. fst (alloydb_create G C params k w) = Inl e"
  using assms by (auto simp: alloydb_create_def set_private_ip_def io_catch_def io_defs split: prod.splits sum.splits)

lemma Node_vm: "Node u = Inr n \<Longrightarrow> vm n = u"
  by (auto simp: Node_def split: if_splits sum.splits option.splits)

lemma map_sums_nth:
  assumes "map_sums f xs = Inr ys"
  shows "length ys = length xs \<and> (\<forall>i < length xs. f (xs ! i) = Inr (ys ! i))"
  using assms
proof (induction xs arbitrary: ys)
  case (Cons x xs)
  from Cons.prems obtain y zs where y: "f x = Inr y" "map_sums f xs = Inr zs" "ys = y # zs"
    by (cases "map_sums f xs") (auto split: sum.splits)
  then show ?case using Cons.IH [OF y(2)] by (auto simp: nth_Cons split: nat.split)
qed simp

text \<open>
  However many machines are asked for, AlloyDB is one endpoint: the answer has a node for each of them, in
  order, and each is the primary's machine (its address, its zone, its region) under the name asked for.
\<close>

theorem alloydb_one_endpoint:
  assumes "alloydb_nodes G v instances = Inr ns" and "length instances > 1"
  shows "length ns = length instances \<and> (\<forall>i < length instances. \<exists>n. ns ! i = Some n
     \<and> vm n = v\<lparr>vm_name := text_of (py_str (gcp_libs G)) (dget_default (instances ! i) ''name'' VNone)\<rparr>)"
proof -
  let ?f = "\<lambda>i. map_sum id Some (Node (v\<lparr>vm_name := text_of (py_str (gcp_libs G)) (dget_default i ''name'' VNone)\<rparr>))"
  have m: "map_sums ?f instances = Inr ns" using assms by (simp add: alloydb_nodes_def)
  have "\<exists>n. y = Some n \<and> vm n = u" if "map_sum id Some (Node u) = Inr y" for u y
    using that by (cases "Node u") (auto dest: Node_vm)
  with map_sums_nth [OF m] show ?thesis by blast
qed

theorem alloydb_needs_network_witness:
  "\<exists>e. fst (alloydb_create demo_gcp_unset demo_gcp_cli [] 1 []) = Inl e"
  by (rule alloydb_needs_network [where v = "demo_vm\<lparr>network := None\<rparr>"]) (simp_all add: gcp_vm_def demo_gcp_unset_def)

theorem alloydb_one_endpoint_witness:
  "length [Some \<lparr>vm = demo_ro, node_yum = None, node_ssh = None\<rparr>, Some \<lparr>vm = demo_ro, node_yum = None, node_ssh = None\<rparr>]
     = length [[] :: pydict, []] \<and>
   (\<exists>n. [Some \<lparr>vm = demo_ro, node_yum = None, node_ssh = None\<rparr>, Some \<lparr>vm = demo_ro, node_yum = None, node_ssh = None\<rparr>] ! 1 = Some n
     \<and> vm n = demo_ro\<lparr>vm_name := []\<rparr>)"
  using alloydb_one_endpoint [of demo_gcp demo_ro "[[], []]"
    "[Some \<lparr>vm = demo_ro, node_yum = None, node_ssh = None\<rparr>, Some \<lparr>vm = demo_ro, node_yum = None, node_ssh = None\<rparr>]"]
  by (simp add: alloydb_nodes_def demo_ro_def Node_def demo_gcp_def demo_libs_def demo_vm_def)

end
