(* ===== verification/XB_Backend.thy ===== *)
theory XB_Backend
  imports XB_Sql XB_Config
begin

text \<open>
  \<^verbatim>\<open>backend/base_backend.py\<close> and \<^verbatim>\<open>driver/base_driver.py\<close>: what the database backends and the
  drivers share. A backend reads its configuration from a YAML file, changes it by parameters of the
  command line, and prepares the storage of its machines; a driver prepares its machine, installs
  the benchmarks and talks to the database through the command-line clients.

  The configuration file (by key), dacite and the benchmark classes are parameters.
\<close>

section \<open>Configuration\<close>

text \<open>\<open>BackendConfig\<close>; the attributes of a derived class are kept by name.\<close>

record backend_config =
  bc_db :: backend_target
  data_dir :: pyval
  bc_attrs :: pydict

fun config_update :: "backend_config \<Rightarrow> pydict \<Rightarrow> exn + backend_config" where
  "config_update c [] = Inr c"
| "config_update c ((key, v) # updates) =
     (if key = ''db'' then
        (case v of VDict d \<Rightarrow> config_update (c\<lparr>bc_db := dict_update (bc_db c) d\<rparr>) updates | _ \<Rightarrow> Inl PyAttributeError)
      else if key = ''data_dir'' then config_update (c\<lparr>data_dir := v\<rparr>) updates
      else config_update (c\<lparr>bc_attrs := dset (bc_attrs c) key v\<rparr>) updates)"

text \<open>
  \<open>BaseBackend.__init__\<close>: \<open>key_value\<close> is \<open>get_key_from_yaml\<close> of the configuration file with
  defaults, \<open>config_of\<close> is dacite's \<open>from_dict\<close>.
\<close>

definition config_key :: "string \<Rightarrow> pydict \<Rightarrow> string" where
  "config_key label kwargs = (case dget_default kwargs ''override_config_klass_label'' VNone of
     VStr (c # cs) \<Rightarrow> c # cs | _ \<Rightarrow> label)"

definition extra_config_params :: "pydict \<Rightarrow> exn + pyval" where
  "extra_config_params kwargs = (case dget kwargs ''backend'' of
     None \<Rightarrow> Inr (VDict [])
   | Some (VDict b) \<Rightarrow> Inr (dget_default b ''config'' (VDict []))
   | Some _ \<Rightarrow> Inl PyTypeError)"

definition BaseBackend :: "(string \<Rightarrow> exn + pyval) \<Rightarrow> (pyval \<Rightarrow> exn + backend_config) \<Rightarrow> string \<Rightarrow> pydict \<Rightarrow>
    exn + backend_config" where
  "BaseBackend key_value config_of label kwargs =
     (case key_value (config_key label kwargs) of Inl e \<Rightarrow> Inl e | Inr v \<Rightarrow>
     (case config_of v of Inl e \<Rightarrow> Inl e | Inr c \<Rightarrow>
     (case dget_default kwargs ''bt'' (VDict []) of
        VDict b \<Rightarrow>
          (case extra_config_params kwargs of
             Inl e \<Rightarrow> Inl e
           | Inr VNone \<Rightarrow> Inr (c\<lparr>bc_db := bt_update (bc_db c) b\<rparr>)
           | Inr (VDict x) \<Rightarrow> config_update (c\<lparr>bc_db := bt_update (bc_db c) b\<rparr>) x
           | Inr _ \<Rightarrow> Inl PyAttributeError)
      | _ \<Rightarrow> Inl PyAttributeError)))"

text \<open>The derived classes set the address, the dialect and the product of the class.\<close>

definition with_address :: "string \<Rightarrow> backend_dialect \<Rightarrow> backend_product \<Rightarrow> backend_config \<Rightarrow> backend_config" where
  "with_address host dia prd c =
     c\<lparr>bc_db := dset (dset (dset (bc_db c) ''host'' (VStr host)) ''dialect'' (VStr (dialect_value dia)))
        ''product'' (VStr (product_value prd))\<rparr>"

definition MultiUnManagedBackend :: "(string \<Rightarrow> exn + pyval) \<Rightarrow> (pyval \<Rightarrow> exn + backend_config) \<Rightarrow> backend_dialect \<Rightarrow>
    backend_product \<Rightarrow> string option \<Rightarrow> node list \<Rightarrow> pydict \<Rightarrow> exn + multi_node \<times> backend_config" where
  "MultiUnManagedBackend key_value config_of dia prd pem ns kwargs =
     (case MultiNode pem ns of Inl e \<Rightarrow> Inl e | Inr m \<Rightarrow>
     (case head_node ns of Inl e \<Rightarrow> Inl e | Inr h \<Rightarrow>
     (case BaseBackend key_value config_of (klass_config_label (vm h)) kwargs of Inl e \<Rightarrow> Inl e | Inr c \<Rightarrow>
     (case all_private_ips ns of Inl e \<Rightarrow> Inl e | Inr ips \<Rightarrow> Inr (m, with_address (join '','' ips) dia prd c)))))"

definition SingleUnManagedBackend :: "(string \<Rightarrow> exn + pyval) \<Rightarrow> (pyval \<Rightarrow> exn + backend_config) \<Rightarrow> backend_dialect \<Rightarrow>
    backend_product \<Rightarrow> node \<Rightarrow> pydict \<Rightarrow> exn + backend_config" where
  "SingleUnManagedBackend key_value config_of dia prd n kwargs =
     (case BaseBackend key_value config_of (klass_config_label (vm n)) kwargs of Inl e \<Rightarrow> Inl e | Inr c \<Rightarrow>
     (case network (vm n) of None \<Rightarrow> Inl PyAttributeError
      | Some nw \<Rightarrow> Inr (with_address (get_public_iface nw) dia prd c)))"

section \<open>Storage\<close>

text \<open>
  \<open>mdadm_command\<close>: the command that joins several local disks and the device to use. The first
  storage with ephemeral disks decides; without one it is the device of the last storage.
\<close>

fun mdadm_loop :: "virtual_storage list \<Rightarrow> string option \<Rightarrow> string option \<times> string option" where
  "mdadm_loop [] dev = (None, dev)"
| "mdadm_loop (s # ss) dev =
     (if num_ephemeral s > 0 then
        (let local_volumes = split_on (CHR '','') (device s) in
         if length local_volumes > 1
         then (Some (''mdadm --create /dev/md0 -l0 -n'' @ str_nat (length local_volumes) @ '' '' @ join '' '' local_volumes),
               Some ''/dev/md0'')
         else (None, Some (device s)))
      else mdadm_loop ss (Some (device s)))"

definition mdadm_command :: "node \<Rightarrow> string option \<times> string option" where
  "mdadm_command n = mdadm_loop (get_all_storage (vm n)) None"

text \<open>\<open>os.path.normpath\<close> for POSIX paths.\<close>

definition norm_step :: "bool \<Rightarrow> string list \<Rightarrow> string \<Rightarrow> string list" where
  "norm_step absolute comps cp =
     (if cp = [] \<or> cp = ''.'' then comps
      else if cp \<noteq> ''..'' \<or> (\<not> absolute \<and> comps = []) \<or> (comps \<noteq> [] \<and> last comps = ''..'') then comps @ [cp]
      else butlast comps)"

definition normpath :: "string \<Rightarrow> string" where
  "normpath p =
     (if p = [] then ''.''
      else let slashes = (if \<not> startswith p ''/'' then 0 else if startswith p ''//'' \<and> \<not> startswith p ''///'' then 2 else 1 :: nat);
               q = replicate slashes (CHR ''/'') @ join ''/'' (foldl (norm_step (slashes > 0)) [] (split_on (CHR ''/'') p))
           in if q = [] then ''.'' else q)"

text \<open>\<open>mkdir_command\<close>. The text for \<open>chmod\<close> is no format string: its braces are sent as they are.\<close>

definition mkdir_command :: "string \<Rightarrow> string \<Rightarrow> bool \<Rightarrow> bool \<Rightarrow> string" where
  "mkdir_command directory dev mount_to_parent chmod =
     (let mountpoint = (if mount_to_parent then path_head (normpath directory) else directory);
          opts = ''discard,defaults,nofail''
      in join [newline] (map (\<lambda>l. if l = [] then [] else ''        '' @ l)
        [[],
         ''mkdir -p '' @ directory,
         ''! mountpoint -q '' @ mountpoint @ '' || umount -f '' @ mountpoint,
         ''mkfs.ext4 -F -j '' @ dev,
         ''mount '' @ dev @ '' '' @ mountpoint,
         ''mkdir -p '' @ directory,
         lit ''echo ~UUID=$(sudo blkid -s UUID -o value '' @ dev @ '') '' @ mountpoint @ '' ext4 '' @ opts @ lit '' 0 2~ | sudo tee -a /etc/fstab'',
         (if chmod then ''chmod -R 777 {directory}'' else ''echo''),
         ''tune2fs -m1 '' @ dev]) @ [newline] @ ''        '')"

definition RUN_COMMAND_TIMEOUT :: int where
  "RUN_COMMAND_TIMEOUT = 600"

definition backend_run :: "'w node_env \<Rightarrow> node \<Rightarrow> string \<Rightarrow> string option \<Rightarrow> ('w, exn, unit) io" where
  "backend_run N n cmd user =
     io_bind (node_run N n (CmdStr cmd) RUN_COMMAND_TIMEOUT True False user) (\<lambda>_. io_return ())"

text \<open>\<open>configure\<close> of the managed backends: \<open>run\<close> runs a command on the machine or on all machines.\<close>

definition prepare_storage :: "(string \<Rightarrow> ('w, exn, unit) io) \<Rightarrow> node \<Rightarrow> string \<Rightarrow> bool \<Rightarrow> ('w, exn, unit) io" where
  "prepare_storage run n directory to_parent =
     (case mdadm_command n of (cmd, dev) \<Rightarrow>
      io_seq (case cmd of None \<Rightarrow> io_return () | Some c \<Rightarrow> run c)
        (case dev of None \<Rightarrow> io_return () | Some d \<Rightarrow> run (mkdir_command directory d to_parent False)))"

definition single_configure :: "'w node_env \<Rightarrow> node \<Rightarrow> string \<Rightarrow> bool \<Rightarrow> ('w, exn, unit) io" where
  "single_configure N n directory to_parent = prepare_storage (\<lambda>c. backend_run N n c None) n directory to_parent"

definition multi_configure :: "'w node_env \<Rightarrow> multi_node \<Rightarrow> string \<Rightarrow> bool \<Rightarrow> ('w, exn, unit) io" where
  "multi_configure N m directory to_parent =
     io_bind (io_lift (head_node (nodes m))) (\<lambda>h.
       prepare_storage (\<lambda>c. io_bind (run_on_all_nodes N (\<lambda>c (a :: unit). Inr c) m (CmdStr c) 300 True None False) (\<lambda>_. io_return ()))
         h directory to_parent)"

section \<open>Templates\<close>

text \<open>
  \<open>FileTemplate.render\<close> of \<^verbatim>\<open>lib/file_template.py\<close>: a file that cannot be read and an undefined variable
  are one exception. jinja2 and the directory of the configuration are parameters.
\<close>

definition template_render :: "('w \<Rightarrow> string \<Rightarrow> exn + string) \<Rightarrow> (string \<Rightarrow> pydict \<Rightarrow> exn + string) \<Rightarrow> string \<Rightarrow> string \<Rightarrow>
    pydict \<Rightarrow> ('w, exn, string) io" where
  "template_render read jinja dir filename args =
     io_catch [PyOSError, JinjaUndefinedError] FileTemplateException
       (io_bind (io_gets (\<lambda>w. read w (path_join dir filename))) (\<lambda>t.
        io_bind (io_lift t) (\<lambda>text. io_lift (jinja text args))))"

section \<open>The driver\<close>

definition DEFAULT_DIR :: string where "DEFAULT_DIR = ''/xbench''"
definition WORKLOAD_EXPORTER_PORT :: int where "WORKLOAD_EXPORTER_PORT = 9300"
definition MARIADB_VERSION :: string where "MARIADB_VERSION = ''10.7''"

definition load_config :: "exn + yaml_config \<Rightarrow> string \<Rightarrow> exn + pyval" where
  "load_config cfg label = catch [YamlConfigException] DriverException
     (case cfg of Inl e \<Rightarrow> Inl e | Inr y \<Rightarrow> get_key y label [] True)"

text \<open>A multi-line command as the sources write it: every line indented by eight blanks.\<close>

definition script :: "string list \<Rightarrow> string" where
  "script ls = join [newline] ([] # map (\<lambda>l. ''        '' @ l) ls @ [''        ''])"

text \<open>Multi-line texts with the indentation they have in the source.\<close>

definition script_at :: "nat \<Rightarrow> string list \<Rightarrow> string" where
  "script_at i ls = join [newline] ([] # map (\<lambda>l. if l = [] then [] else replicate i (CHR '' '') @ l) ls
     @ [replicate i (CHR '' '')])"

definition driver_configure_cmd :: "string \<Rightarrow> string \<Rightarrow> string \<Rightarrow> string" where
  "driver_configure_cmd install_epel pm_i pm_r = script [
     install_epel @ '' || true'',
     pm_i @ '' irqbalance'',
     ''sudo systemctl start irqbalance'',
     ''sudo systemctl status irqbalance'',
     ''# Update open files limits'',
     lit ''echo ~* soft nofile 20000~ | sudo tee -a /etc/security/limits.conf'',
     lit ''echo ~* hard nofile 20000~ | sudo tee -a /etc/security/limits.conf'',
     ''ulimit -n'',
     ''mkdir -p /xbench'',
     ''chmod 777 /xbench'',
     '' # Git'',
     pm_i @ '' git openssl python3'',
     ''# Install MariaDB libraries'',
     pm_r @ '' MariaDB-client MariaDB-shared'',
     ''wget https://downloads.mariadb.com/MariaDB/mariadb_repo_setup'',
     ''chmod +x mariadb_repo_setup'',
     ''./mariadb_repo_setup --mariadb-server-version=mariadb-'' @ MARIADB_VERSION @ '' --skip-maxscale --skip-tools'',
     pm_i @ '' MariaDB-client MariaDB-shared'',
     ''# Installing Postgresql client'',
     pm_i @ '' postgresql postgresql-devel'']"

text \<open>
  \<open>configure\<close>. The command for mounting the storage is made and not run, so nothing of it is here.
\<close>

definition driver_configure :: "'w node_env \<Rightarrow> yum \<Rightarrow> node \<Rightarrow> ('w, exn, unit) io" where
  "driver_configure N y n =
     io_bind (io_lift (install_epel_command y)) (\<lambda>epel.
     io_bind (io_lift (install_pkg_cmd y)) (\<lambda>pm_i.
     io_bind (io_lift (remove_pkg_cmd y)) (\<lambda>pm_r.
     io_seq (node_exec N n (driver_configure_cmd epel pm_i pm_r) True False)
       (node_exec N n (script [
          lit ''echo `export XBENCH_HOME='' @ DEFAULT_DIR @ lit ''` >> '' @ [CHR 0x7E] @ ''/.bashrc'',
          lit ''echo `export PYTHONPATH=$XBENCH_HOME/workload_exporter` >> '' @ [CHR 0x7E] @ ''/.bashrc'']) False False))))"

text \<open>The attributes of the backend target as text (\<open>show\<close> is \<open>str()\<close>), and its hosts.\<close>

definition bt_text :: "(pyval \<Rightarrow> string) \<Rightarrow> backend_target \<Rightarrow> string \<Rightarrow> string" where
  "bt_text show b k = show (dget_default b k VNone)"

definition bt_hosts :: "backend_target \<Rightarrow> exn + string list" where
  "bt_hosts b = (case dget_default b ''host'' VNone of VStr h \<Rightarrow> Inr (split_on (CHR '','') h) | _ \<Rightarrow> Inl PyAttributeError)"

definition setup_pgpass_file :: "'w node_env \<Rightarrow> (pyval \<Rightarrow> string) \<Rightarrow> node \<Rightarrow> backend_target \<Rightarrow> ('w, exn, unit) io" where
  "setup_pgpass_file N show n b =
     io_seq (node_exec N n (''rm -f '' @ [CHR 0x7E] @ ''/.pgpass'') False False)
    (io_bind (io_lift (bt_hosts b)) (\<lambda>hs.
     io_seq (io_for hs (\<lambda>h. node_exec N n (lit ''echo `'' @ h @ '':'' @ bt_text show b ''port'' @ '':*:'' @ bt_text show b ''user'' @ '':''
         @ bt_text show b ''password'' @ lit ''` >> '' @ [CHR 0x7E] @ ''/.pgpass'') False False))
       (node_exec N n (''chmod 0600 '' @ [CHR 0x7E] @ ''/.pgpass'') False False)))"

text \<open>\<open>os.path.expanduser\<close> is a parameter.\<close>

definition copy_certs :: "'w node_env \<Rightarrow> (string \<Rightarrow> string) \<Rightarrow> node \<Rightarrow> backend_target \<Rightarrow> ('w, exn, unit) io" where
  "copy_certs N expanduser n b =
     (case dget_default b ''ssl'' VNone of
        VNone \<Rightarrow> io_return ()
      | VDict files \<Rightarrow>
          io_seq (node_exec N n (join [newline] [[], ''            mkdir -p '' @ DEFAULT_DIR @ ''/certs'', ''            '']) False False)
            (io_for files (\<lambda>(_, file).
               case file of
                 VStr f \<Rightarrow> send_file N n (expanduser f) (DEFAULT_DIR @ ''/certs/'' @ basename f) False
               | _ \<Rightarrow> io_raise PyTypeError))
      | _ \<Rightarrow> io_seq (node_exec N n (join [newline] [[], ''            mkdir -p '' @ DEFAULT_DIR @ ''/certs'', ''            '']) False False)
               (io_raise PyAttributeError))"

definition mysql_script_cmd :: "(pyval \<Rightarrow> string) \<Rightarrow> backend_target \<Rightarrow> string \<Rightarrow> string \<Rightarrow> string" where
  "mysql_script_cmd show b host scr =
     ''mysql --user='' @ bt_text show b ''user'' @ lit '' --password=`'' @ bt_text show b ''password'' @ lit ''` --host='' @ host
       @ '' --port='' @ bt_text show b ''port'' @ '' --connect-timeout=5 ''
       @ (if dget_default b ''ssl'' VNone \<noteq> VNone then ''--ssl'' else []) @ lit '' -e `'' @ scr @ lit ''`''"

definition pgsql_script_cmd :: "(pyval \<Rightarrow> string) \<Rightarrow> backend_target \<Rightarrow> string \<Rightarrow> string \<Rightarrow> string" where
  "pgsql_script_cmd show b host scr =
     ''PGCONNECT_TIMEOUT=5 psql --username='' @ bt_text show b ''user'' @ '' --host='' @ host @ '' --port='' @ bt_text show b ''port''
       @ lit '' postgres --command=`'' @ scr @ lit ''`''"

text \<open>A target of another dialect gets the empty command.\<close>

definition run_db_script :: "'w node_env \<Rightarrow> (pyval \<Rightarrow> string) \<Rightarrow> node \<Rightarrow> backend_target \<Rightarrow> string \<Rightarrow> ('w, exn, unit) io" where
  "run_db_script N show n b scr =
     io_bind (io_lift (bt_hosts b)) (\<lambda>hs.
       let host = hd hs in
       if dget_default b ''dialect'' VNone = VStr ''mysql'' then node_exec N n (mysql_script_cmd show b host scr) False False
       else if dget_default b ''dialect'' VNone = VStr ''pgsql'' then
         io_seq (setup_pgpass_file N show n b) (node_exec N n (pgsql_script_cmd show b host scr) False False)
       else node_exec N n [] False False)"

definition driver_self_test :: "'w node_env \<Rightarrow> (pyval \<Rightarrow> string) \<Rightarrow> (string \<Rightarrow> string) \<Rightarrow> node \<Rightarrow> backend_target \<Rightarrow> ('w, exn, unit) io" where
  "driver_self_test N show expanduser n b =
     io_seq (copy_certs N expanduser n b) (run_db_script N show n b ''select 1 as one'')"

definition clean_database :: "'w node_env \<Rightarrow> (pyval \<Rightarrow> string) \<Rightarrow> node \<Rightarrow> backend_target \<Rightarrow> ('w, exn, unit) io" where
  "clean_database N show n b =
     io_for [''drop database if exists '' @ bt_text show b ''database'', ''create database '' @ bt_text show b ''database'']
       (run_db_script N show n b)"

definition install_workload_prometheus_exporter :: "'w node_env \<Rightarrow> node \<Rightarrow> ('w, exn, unit) io" where
  "install_workload_prometheus_exporter N n =
     io_seq (node_exec N n (script [
         ''cd '' @ DEFAULT_DIR,
         ''git clone https://github.com/mariadb-corporation/workload-exporter.git'',
         ''cd /xbench/workload-exporter'',
         ''pip3 install -r requirements.txt'',
         ''cp workload-exporter.service  /lib/systemd/system/'',
         ''systemctl enable workload-exporter'',
         ''systemctl start workload-exporter'']) True False)
       (node_register_metric_target N n ''workload_exporter'' WORKLOAD_EXPORTER_PORT)"

definition uninstall_workload_prometheus_exporter :: "'w node_env \<Rightarrow> node \<Rightarrow> ('w, exn, unit) io" where
  "uninstall_workload_prometheus_exporter N n =
     io_seq (node_exec N n (join [newline] ([] # map (\<lambda>l. ''        '' @ l) [
         ''systemctl stop workload-exporter'',
         ''systemctl disable workload-exporter'',
         ''rm -rf /lib/systemd/system/workload-exporter.service'',
         ''pip uninstall -r /xbench/workload-exporter/requirements.txt'',
         ''rm -rf /xbench/workload-exporter''])) True False)
       (node_deregister_metric_target N n ''workload_exporter'' WORKLOAD_EXPORTER_PORT)"

text \<open>The benchmark classes by name: a parameter.\<close>

record 'w bench_ops =
  bo_class :: "string \<Rightarrow> exn + unit"
  bo_configure :: "string \<Rightarrow> node \<Rightarrow> ('w, exn, unit) io"
  bo_install :: "string \<Rightarrow> node \<Rightarrow> ('w, exn, unit) io"
  bo_clean :: "string \<Rightarrow> node \<Rightarrow> ('w, exn, unit) io"

definition driver_install :: "'w node_env \<Rightarrow> 'w bench_ops \<Rightarrow> node \<Rightarrow> string list \<Rightarrow> ('w, exn, unit) io" where
  "driver_install N B n benchmarks =
     io_seq (install_workload_prometheus_exporter N n)
      (io_catch [BenchmarkException] DriverException
        (io_for benchmarks (\<lambda>k. io_bind (io_lift (bo_class B k)) (\<lambda>_. io_seq (bo_configure B k n) (bo_install B k n)))))"

definition clean_packages :: "'w node_env \<Rightarrow> yum \<Rightarrow> node \<Rightarrow> ('w, exn, unit) io" where
  "clean_packages N y n =
     io_bind (io_lift (remove_pkg_cmd y)) (\<lambda>pm_r.
       node_exec N n (script [
         '' # Git Openssl Python3'',
         pm_r @ '' git openssl python3'',
         ''# Removing MariaDB libraries'',
         pm_r @ '' MariaDB-client MariaDB-shared'',
         ''# removing Postgresql client'',
         pm_r @ '' postgresql'']) True False)"

definition kill_command :: "string \<Rightarrow> string" where
  "kill_command pids = ''kill -9 '' @ join '' '' (map tl (split_on newline pids))"

definition kill_xbench_procs :: "'w node_env \<Rightarrow> node \<Rightarrow> ('w, exn, unit) io" where
  "kill_xbench_procs N n =
     io_bind (node_run N n (CmdStr (''lsof -w -Fp '' @ DEFAULT_DIR)) 300 True False None) (\<lambda>pids.
       node_exec N n (kill_command pids) True False)"

definition clean_storage :: "'w node_env \<Rightarrow> node \<Rightarrow> ('w, exn, unit) io" where
  "clean_storage N n =
     (case storage (vm n) of
        None \<Rightarrow> io_raise PyAttributeError
      | Some _ \<Rightarrow> node_exec N n (''umount -f '' @ DEFAULT_DIR) True False)"

definition driver_clean :: "'w node_env \<Rightarrow> yum \<Rightarrow> 'w bench_ops \<Rightarrow> node \<Rightarrow> string list \<Rightarrow> ('w, exn, unit) io" where
  "driver_clean N y B n benchmarks =
     io_seq (clean_packages N y n)
    (io_seq (uninstall_workload_prometheus_exporter N n)
    (io_seq (kill_xbench_procs N n)
    (io_seq (clean_storage N n)
      (io_catch [BenchmarkException] DriverException
        (io_for benchmarks (\<lambda>k. io_bind (io_lift (bo_class B k)) (\<lambda>_. bo_clean B k n)))))))"

section \<open>Properties\<close>

text \<open>
  The precedence of the connection parameters of a backend: what \<open>--backend.config.db\<close> gives wins;
  then what \<open>--bt\<close> gives for an attribute that the target has; then the configuration file. The rest
  of the configuration is that of the file.
\<close>

theorem base_backend_precedence:
  assumes "key_value (config_key label kwargs) = Inr v" and "config_of v = Inr c"
    and "dget_default kwargs ''bt'' (VDict []) = VDict b" and "dict_ok b"
    and "extra_config_params kwargs = Inr (VDict [(''db'', VDict d)])" and "dict_ok d"
  shows "\<exists>c'. BaseBackend key_value config_of label kwargs = Inr c'
    \<and> data_dir c' = data_dir c \<and> bc_attrs c' = bc_attrs c
    \<and> (\<forall>k. dget (bc_db c') k = (case dget d k of Some x \<Rightarrow> Some x | None \<Rightarrow> dget (bt_update (bc_db c) b) k))
    \<and> (\<forall>k. k \<notin> set bt_methods \<longrightarrow> dget (bt_update (bc_db c) b) k =
         (if dget (bc_db c) k = None then None else case dget b k of Some x \<Rightarrow> Some x | None \<Rightarrow> dget (bc_db c) k))"
proof -
  have upd: "dget (bt_update t b) k =
      (if dget t k = None then None else case dget b k of Some x \<Rightarrow> Some x | None \<Rightarrow> dget t k)"
    if "k \<notin> set bt_methods" for t k
    using dget_bt_update [OF assms(4)] that by (auto split: option.splits)
  have "BaseBackend key_value config_of label kwargs = Inr (c\<lparr>bc_db := dict_update (bt_update (bc_db c) b) d\<rparr>)"
    using assms(1,2,3,5) by (simp add: BaseBackend_def)
  then show ?thesis using upd assms(6) by (auto split: option.splits)
qed

definition demo_backend_config :: backend_config where
  "demo_backend_config = \<lparr>bc_db = BackendTarget ''h'' ''u'' ''p'' ''d'' 3306, data_dir = VStr ''/data'', bc_attrs = []\<rparr>"

theorem base_backend_precedence_witness:
  "\<exists>c'. BaseBackend (\<lambda>k. Inr VNone) (\<lambda>v. Inr demo_backend_config) ''label''
      [(''bt'', VDict [(''user'', VStr ''u2''), (''port'', VInt 1)]), (''backend'', VDict [(''config'', VDict [(''db'', VDict [(''port'', VInt 2)])])])] = Inr c'
    \<and> dget (bc_db c') ''user'' = Some (VStr ''u2'') \<and> dget (bc_db c') ''port'' = Some (VInt 2)
    \<and> dget (bc_db c') ''database'' = Some (VStr ''d'')"
proof -
  let ?kw = "[(''bt'', VDict [(''user'', VStr ''u2''), (''port'', VInt 1)]), (''backend'', VDict [(''config'', VDict [(''db'', VDict [(''port'', VInt 2)])])])]"
  have "extra_config_params ?kw = Inr (VDict [(''db'', VDict [(''port'', VInt 2)])])"
    and "dget_default ?kw ''bt'' (VDict []) = VDict [(''user'', VStr ''u2''), (''port'', VInt 1)]"
    by (simp_all add: extra_config_params_def dget_default_def)
  then obtain c' where c': "BaseBackend (\<lambda>k. Inr VNone) (\<lambda>v. Inr demo_backend_config) ''label'' ?kw = Inr c'"
    and get: "\<forall>k. dget (bc_db c') k = (case dget [(''port'', VInt 2)] k of Some x \<Rightarrow> Some x
        | None \<Rightarrow> dget (bt_update (bc_db demo_backend_config) [(''user'', VStr ''u2''), (''port'', VInt 1)]) k)"
    using base_backend_precedence [of "\<lambda>k. Inr VNone" "''label''" ?kw VNone "\<lambda>v. Inr demo_backend_config" demo_backend_config
        "[(''user'', VStr ''u2''), (''port'', VInt 1)]" "[(''port'', VInt 2)]"] by auto
  from c' get [rule_format, of "''user''"] get [rule_format, of "''port''"] get [rule_format, of "''database''"] show ?thesis
    by (simp add: demo_backend_config_def BackendTarget_def)
qed

text \<open>
  The storage of a machine: the first of its volumes with ephemeral disks decides. If its device
  lists several disks they are joined into \<open>/dev/md0\<close> by one \<open>mdadm\<close> command that names them all; a
  single disk is used as it is. Without ephemeral disks the device of the last volume is used, and
  without volumes there is none.
\<close>

theorem mdadm_command_spec:
  "mdadm_command n =
     (case find (\<lambda>s. num_ephemeral s > 0) (get_all_storage (vm n)) of
        Some s \<Rightarrow>
          (if CHR '','' \<in> set (device s)
           then (Some (''mdadm --create /dev/md0 -l0 -n'' @ str_nat (length (split_on (CHR '','') (device s))) @ '' ''
                   @ join '' '' (split_on (CHR '','') (device s))), Some ''/dev/md0'')
           else (None, Some (device s)))
      | None \<Rightarrow> (None, if get_all_storage (vm n) = [] then None else Some (device (last (get_all_storage (vm n))))))"
proof -
  have many: "Suc 0 < length (split_on (CHR '','') s) \<longleftrightarrow> CHR '','' \<in> set s" for s
  proof
    assume "CHR '','' \<in> set s"
    then obtain a b where "s = a @ CHR '','' # b" "CHR '','' \<notin> set a" by (meson split_list_first)
    then show "Suc 0 < length (split_on (CHR '','') s)"
      by (cases "split_on (CHR '','') b") (simp_all add: split_on_append)
  qed (use split_on_no_sep in fastforce)
  have "mdadm_loop ss dev =
     (case find (\<lambda>s. num_ephemeral s > 0) ss of
        Some s \<Rightarrow>
          (if CHR '','' \<in> set (device s)
           then (Some (''mdadm --create /dev/md0 -l0 -n'' @ str_nat (length (split_on (CHR '','') (device s))) @ '' ''
                   @ join '' '' (split_on (CHR '','') (device s))), Some ''/dev/md0'')
           else (None, Some (device s)))
      | None \<Rightarrow> (None, if ss = [] then dev else Some (device (last ss))))" for ss dev
    by (induction ss arbitrary: dev) (auto simp: many Let_def split: option.splits)
  then show ?thesis by (simp add: mdadm_command_def)
qed

text \<open>
  The processes that hold files under the benchmark directory: from the lines \<open>p<pid>\<close> that \<open>lsof\<close>
  prints, the kill command names exactly these process ids, in order.
\<close>

theorem kill_command_pids:
  assumes "pids \<noteq> []" and "\<forall>p \<in> set pids. newline \<notin> set p"
  shows "kill_command (join [newline] (map (\<lambda>p. CHR ''p'' # p) pids)) = ''kill -9 '' @ join '' '' pids"
proof -
  have "split_on newline (join [newline] (map (\<lambda>p. CHR ''p'' # p) pids)) = map (\<lambda>p. CHR ''p'' # p) pids"
    using assms by (intro split_on_join) auto
  then show ?thesis by (simp add: kill_command_def o_def)
qed

theorem kill_command_pids_witness:
  "kill_command (join [newline] [''p12'', ''p345'']) = ''kill -9 12 345''"
  using kill_command_pids [of "[''12'', ''345'']"] by (simp add: join_def)

end
