(* ===== verification/XB_Benchbase.thy ===== *)
theory XB_Benchbase
  imports XB_Backend XB_Sysbench "HOL-Library.Char_ord" "HOL-Library.List_Lexorder"
begin

text \<open>
  The runner of benchbase, \<^verbatim>\<open>benchmark/benchbase/benchbase_runner.py\<close>, with its driver classes
  (\<^verbatim>\<open>benchbase.py\<close>, \<^verbatim>\<open>benchmark/base_java_benchmark.py\<close>): the load, the check of the data, the runs over all repeats and
  numbers of terminals, and the tables of their results.

  Parameters are the nodes, the files of the machine the tool runs on, jinja2, the readers of JSON and CSV, the
  clock on the wall, \<open>float()\<close>, the percentage of a deviation as a float, and the backend of the workload. The tables that pandas keeps are lists of
  rows, and its \<open>groupby\<close> is written out; only the text it makes of a table is a parameter. Floats are rationals.
\<close>

section \<open>The runner\<close>

definition DEFAULT_SLEEP_TIME :: int where "DEFAULT_SLEEP_TIME = 60"
definition BENCHBASE_ERROR_PCT :: rat where "BENCHBASE_ERROR_PCT = 5"
definition EXTRA_BENCHBASE_TIMEOUT :: int where "EXTRA_BENCHBASE_TIMEOUT = 600"
definition RESULT_PRECISION :: nat where "RESULT_PRECISION = 2"

text \<open>The expressions of the table sizes, with the value \<open>SCALE\<close> they are evaluated with.\<close>

definition benchbase_scale_factors :: "int \<Rightarrow> (string \<times> int) list" where
  "benchbase_scale_factors SCALE = [(''customer'', SCALE * 30000), (''district'', SCALE * 10), (''item'', 100000),
     (''oorder'', SCALE * 30000), (''warehouse'', SCALE)]"

text \<open>The backend that the workload gives the runner.\<close>

record 'w bb_backend =
  be_connect :: "('w, exn, unit) io"
  be_select_one_row :: "string \<Rightarrow> ('w, exn, pydict option) io"
  be_post_data_load :: "pyval \<Rightarrow> ('w, exn, unit) io"
  be_pre_workload_run :: "('w, exn, unit) io"
  be_pre_thread_run :: "('w, exn, unit) io"
  be_post_workload_run :: "string \<Rightarrow> ('w, exn, unit) io"
  be_get_logs :: "('w, exn, string) io"

text \<open>
  What a run adds to the table of a repeat: terminals and throughput as they stand in the JSON file, and the
  latencies in milliseconds; then the rows of a table, and those of the table of queries.
\<close>

record bb_tuple =
  bt_terminals :: pyval
  bt_throughput :: pyval
  bt_avg :: rat
  bt_p90 :: rat

record bb_row =
  concurrency :: rat
  throughput :: rat
  avg_latency :: rat
  p90_latency :: rat

record query_row =
  qr_query :: string
  qr_concurrency :: int
  qr_avg :: rat
  qr_p90 :: rat
  qr_tp :: rat

text \<open>A line of the pivot table: a query and, for every measure and every concurrency, a value.\<close>

type_synonym pivot_line = "string \<times> (string \<times> int \<times> rat) list"

record 'w bb_env =
  bb_nodes :: "'w node_env"
  jinja :: "string \<Rightarrow> pydict \<Rightarrow> exn + string"
  bb_config_dir :: string
  bb_read :: "'w \<Rightarrow> string \<Rightarrow> exn + string"
  bb_write :: "string \<Rightarrow> string \<Rightarrow> ('w, exn, unit) io"
  bb_glob :: "'w \<Rightarrow> string \<Rightarrow> string list"
  bb_json :: "string \<Rightarrow> exn + pyval"
  read_csv :: "string \<Rightarrow> exn + nat \<times> rat list list"
  bb_now :: "'w \<Rightarrow> string"
  py_float :: "pyval \<Rightarrow> exn + rat"
  dev_pct :: "int \<Rightarrow> int \<Rightarrow> rat"
  bb_str :: "pyval \<Rightarrow> string"
  to_csv :: "bb_row list \<Rightarrow> string"
  show_pivot :: "pivot_line list \<Rightarrow> string"
  bb_backend_of :: "'w bb_backend"

record bb_runner =
  bb_multi :: multi_node
  bb_kwargs :: pydict
  bench :: string
  bb_product :: string

definition bb_get :: "bb_runner \<Rightarrow> string \<Rightarrow> pyval" where
  "bb_get r k = dget_default (bb_kwargs r) k VNone"

definition bb_artifact_dir :: "'w bb_env \<Rightarrow> bb_runner \<Rightarrow> string" where
  "bb_artifact_dir E r = (case bb_get r ''artifact_dir'' of VStr s \<Rightarrow> s | v \<Rightarrow> bb_str E v)"

definition bb_workload_name :: "'w bb_env \<Rightarrow> bb_runner \<Rightarrow> string" where
  "bb_workload_name E r = (case bb_get r ''workload_name'' of VStr s \<Rightarrow> s | v \<Rightarrow> bb_str E v)"

text \<open>\<open>-\<close> is not allowed in the name of the product.\<close>

definition BenchbaseRunner :: "'w bb_env \<Rightarrow> node list \<Rightarrow> pydict \<Rightarrow> exn + bb_runner" where
  "BenchbaseRunner E ns kwargs =
     (case MultiNode (pem_dir (bb_nodes E)) ns of Inl e \<Rightarrow> Inl e | Inr m \<Rightarrow>
     (case dget_default kwargs ''product'' (VStr []) of
        VStr p \<Rightarrow> Inr \<lparr>bb_multi = m, bb_kwargs = kwargs,
          bench = (case dget_default kwargs ''bench'' VNone of VStr b \<Rightarrow> b | v \<Rightarrow> bb_str E v),
          bb_product = replace_all ''-'' ''_'' p\<rparr>
      | _ \<Rightarrow> Inl PyAttributeError))"

definition num_drivers :: "bb_runner \<Rightarrow> nat" where
  "num_drivers r = length (nodes (bb_multi r))"

section \<open>The configuration file of benchbase\<close>

text \<open>The five characters that XML keeps for itself; the ampersand goes first.\<close>

definition escape :: "string \<Rightarrow> string" where
  "escape s =
     replace_all [CHR 0x27] ''&apos;'' (replace_all [CHR 0x22] ''&quot;''
       (replace_all ''>'' ''&gt;'' (replace_all ''<'' ''&lt;'' (replace_all ''&'' ''&amp;'' s))))"

text \<open>A list of terminals is replaced by its first element.\<close>

definition first_terminals :: "string \<Rightarrow> pydict \<Rightarrow> exn + pydict" where
  "first_terminals k d =
     (case dget_default d k VNone of
        VList (x # xs) \<Rightarrow> Inr (dset d k x)
      | VList [] \<Rightarrow> Inl PyIndexError
      | _ \<Rightarrow> Inr d)"

definition all_first_terminals :: "pydict \<Rightarrow> exn + pydict" where
  "all_first_terminals d =
     (case first_terminals ''terminals'' d of Inl e \<Rightarrow> Inl e | Inr d1 \<Rightarrow>
     (case first_terminals ''terminals_tpcc'' d1 of Inl e \<Rightarrow> Inl e | Inr d2 \<Rightarrow> first_terminals ''terminals_chbenchmark'' d2))"

definition hosts_with_port :: "'w bb_env \<Rightarrow> pydict \<Rightarrow> exn + string" where
  "hosts_with_port E d =
     (case dget_default d ''host'' VNone of
        VStr h \<Rightarrow> Inr (join '','' (map (\<lambda>host. host @ '':'' @ (case dget_default d ''port'' VNone of VStr p \<Rightarrow> p | v \<Rightarrow> bb_str E v))
          (split_on (CHR '','') h)))
      | _ \<Rightarrow> Inl PyAttributeError)"

definition escaped_password :: "pydict \<Rightarrow> exn + string" where
  "escaped_password d = (case dget_default d ''password'' (VStr []) of VStr p \<Rightarrow> Inr (escape p) | _ \<Rightarrow> Inl PyAttributeError)"

definition get_config_data :: "'w bb_env \<Rightarrow> bb_runner \<Rightarrow> string \<Rightarrow> ('w, exn, bb_runner \<times> string) io" where
  "get_config_data E r step =
     io_bind (io_lift (all_first_terminals (bb_kwargs r))) (\<lambda>d.
     io_bind (io_lift (hosts_with_port E d)) (\<lambda>hosts.
     io_bind (io_lift (escaped_password d)) (\<lambda>pw.
     io_bind (io_catch [FileTemplateException] BenchmarkException
        (template_render (bb_read E) (jinja E) (bb_config_dir E) (''benchbase_xml/'' @ bench r @ ''_config.xml'')
          (dict_update d [(''hosts'', VStr hosts), (''password'', VStr pw), (''step'', VStr step)]))) (\<lambda>t.
     io_return (r\<lparr>bb_kwargs := d\<rparr>, t)))))"

definition save_config_data :: "'w bb_env \<Rightarrow> bb_runner \<Rightarrow> string \<Rightarrow> string \<Rightarrow> ('w, exn, bb_runner) io" where
  "save_config_data E r config_file_name step =
     io_bind (get_config_data E r step) (\<lambda>(r', config_data).
     io_seq (bb_write E (''/tmp/'' @ config_file_name) config_data)
    (io_seq (scp_to_all_nodes (bb_nodes E) (bb_multi r) (''/tmp/'' @ config_file_name)
        (''$XBENCH_HOME/benchbase/'' @ config_file_name) False)
     (io_return r')))"

definition config_file :: "bb_runner \<Rightarrow> string" where
  "config_file r = bb_product r @ ''_'' @ bench r @ ''_config.xml''"

section \<open>Preparing the data\<close>

definition bb_head :: "bb_runner \<Rightarrow> ('w, exn, node) io" where
  "bb_head r = io_lift (head_node (nodes (bb_multi r)))"

definition driver_memory :: "'w bb_env \<Rightarrow> bb_runner \<Rightarrow> ('w, exn, int) io" where
  "driver_memory E r = io_bind (bb_head r) (\<lambda>h. io_bind (memory_mb (bb_nodes E) h) (\<lambda>m. io_return (py_round (of_int m * 4 / 5))))"

definition bb_setup :: "'w bb_env \<Rightarrow> bb_runner \<Rightarrow> ('w, exn, unit) io" where
  "bb_setup E r =
     io_bind (driver_memory E r) (\<lambda>mem.
     io_bind (bb_head r) (\<lambda>h.
     node_exec (bb_nodes E) h (script
       [''cd $XBENCH_HOME/benchbase'',
        lit ''export MAVEN_OPTS=`-Xmx'' @ str_int mem @ lit ''m`'',
        ''./mvnw clean package -P '' @ bb_product r @ '' -Dmaven.test.skip'',
        ''mv target/benchbase-'' @ bb_product r @ ''.tgz ../'',
        ''cd ..'',
        ''tar xvf benchbase-'' @ bb_product r @ ''.tgz'']) False False))"

text \<open>A composite benchmark loads the schema of TPC-C too.\<close>

definition bench_names :: "bb_runner \<Rightarrow> string" where
  "bench_names r = (if bench r = ''chbenchmark'' then ''tpcc,'' @ bench r else bench r)"

definition benchbase_prepare :: "'w bb_env \<Rightarrow> bb_runner \<Rightarrow> ('w, exn, unit) io" where
  "benchbase_prepare E r =
     io_bind (save_config_data E r (config_file r) ''prepare'') (\<lambda>r.
     io_seq (bb_setup E r)
    (io_bind (driver_memory E r) (\<lambda>mem.
     io_bind (bb_head r) (\<lambda>h.
     io_seq (node_unsafe_run (bb_nodes E) h (CmdStr (script
        [''cd $XBENCH_HOME/benchbase-'' @ bb_product r,
         ''java -Xmx'' @ str_int mem @ ''m -jar benchbase.jar -b '' @ bench_names r @ '' -c $XBENCH_HOME/benchbase/''
           @ config_file r @ '' --create=true --load=true --execute=false''])) DEFAULT_LONG_COMMAND_TIMEOUT False False None)
     (io_when (truthy (bb_get r ''post_data_load'')) (be_post_data_load (bb_backend_of E) (bb_get r ''database'')))))))"


section \<open>The check of the data\<close>

definition check_benchbase_table :: "'w bb_env \<Rightarrow> string \<times> int \<Rightarrow> ('w, exn, unit) io" where
  "check_benchbase_table E kv =
     (case kv of (k, desired_rows) \<Rightarrow>
      io_bind (be_select_one_row (bb_backend_of E) (''select count(*) as row_num from '' @ k)) (\<lambda>row.
      case row of
        None \<Rightarrow> io_raise PyAttributeError
      | Some d \<Rightarrow>
          io_bind (io_lift (py_int_val (dget_default d ''row_num'' VNone))) (\<lambda>actual_rows.
            if desired_rows = 0 then io_raise PyZeroDivisionError
            else if dev_pct E actual_rows desired_rows > BENCHBASE_ERROR_PCT then io_raise BenchmarkException
            else io_return ())))"

text \<open>Only for TPC-C; the other benchmarks have a warning. A scale that is no number fails in the first product.\<close>

definition benchbase_data_check :: "'w bb_env \<Rightarrow> bb_runner \<Rightarrow> ('w, exn, unit) io" where
  "benchbase_data_check E r =
     io_when (bench r = ''tpcc'')
       (io_seq (be_connect (bb_backend_of E))
         (case bb_get r ''scale'' of
            VInt SCALE \<Rightarrow> io_for (benchbase_scale_factors SCALE) (check_benchbase_table E)
          | _ \<Rightarrow> io_raise PyTypeError))"

section \<open>Errors of a run\<close>

text \<open>\<open>d[k]\<close> along a path of keys.\<close>

fun json_path :: "string list \<Rightarrow> pyval \<Rightarrow> exn + pyval" where
  "json_path [] v = Inr v"
| "json_path (k # ks) v = (case subscript v k of Inl e \<Rightarrow> Inl e | Inr x \<Rightarrow> json_path ks x)"

definition bb_load :: "'w bb_env \<Rightarrow> string \<Rightarrow> ('w, exn, pyval) io" where
  "bb_load E f = io_bind (io_gets (\<lambda>w. bb_read E w f)) (\<lambda>t. io_bind (io_lift t) (\<lambda>s. io_lift (bb_json E s)))"

definition sorted_files :: "'w bb_env \<Rightarrow> string \<Rightarrow> ('w, exn, string list) io" where
  "sorted_files E pat = io_gets (\<lambda>w. sort (bb_glob E w pat))"

text \<open>The three counts of a histogram file; they are numbers, and are added.\<close>

definition num_samples :: "'w bb_env \<Rightarrow> string \<Rightarrow> pyval \<Rightarrow> exn + rat" where
  "num_samples E k data = (case json_path [k, ''NUM_SAMPLES''] data of Inl e \<Rightarrow> Inl e
     | Inr (VStr s) \<Rightarrow> Inl PyTypeError | Inr v \<Rightarrow> py_float E v)"

definition histogram_counts :: "'w bb_env \<Rightarrow> pyval \<Rightarrow> exn + rat \<times> rat \<times> rat" where
  "histogram_counts E data =
     (case num_samples E ''aborted'' data of Inl e \<Rightarrow> Inl e | Inr a \<Rightarrow>
     (case num_samples E ''unexpected'' data of Inl e \<Rightarrow> Inl e | Inr u \<Rightarrow>
     (case num_samples E ''completed'' data of Inl e \<Rightarrow> Inl e | Inr c \<Rightarrow> Inr (a, u, c))))"

definition error_ratio :: "(rat \<times> rat \<times> rat) list \<Rightarrow> exn + rat" where
  "error_ratio cs =
     (let aborted = sum_list (map fst cs); unexpected = sum_list (map (fst \<circ> snd) cs);
          completed = sum_list (map (snd \<circ> snd) cs) in
      if completed = 0 then Inl PyZeroDivisionError else Inr ((aborted + unexpected) / completed * 100))"

text \<open>The threshold is compared as a number; \<open>None\<close> and texts are not.\<close>

definition above :: "'w bb_env \<Rightarrow> rat \<Rightarrow> pyval \<Rightarrow> exn + bool" where
  "above E x v = (case v of
      VNone \<Rightarrow> Inl PyTypeError | VStr s \<Rightarrow> Inl PyTypeError | VList l \<Rightarrow> Inl PyTypeError | VDict d \<Rightarrow> Inl PyTypeError
    | _ \<Rightarrow> (case py_float E v of Inl e \<Rightarrow> Inl e | Inr t \<Rightarrow> Inr (t < x)))"

definition check_errors :: "'w bb_env \<Rightarrow> bb_runner \<Rightarrow> string \<Rightarrow> pyval \<Rightarrow> ('w, exn, bool) io" where
  "check_errors E r outdir threshold =
     io_bind (sorted_files E (bb_artifact_dir E r @ ''/'' @ outdir @ ''_*/histogram.json'')) (\<lambda>fs.
     io_bind (io_map fs (\<lambda>f. io_bind (bb_load E f) (\<lambda>d. io_lift (histogram_counts E d)))) (\<lambda>cs.
     io_bind (io_lift (error_ratio cs)) (\<lambda>ratio. io_lift (above E ratio threshold))))"

text \<open>
  \<open>check_stdout_errors\<close>. \<open>.+Exception\<close> is found in a line when the word stands after at least one character.
  Finding one leaves the loop, with the value that not finding one gives.
\<close>

definition java_error :: "string \<Rightarrow> bool" where
  "java_error l = (case l of [] \<Rightarrow> False | c # cs \<Rightarrow> contains_str cs ''Exception'')"

fun scan_lines :: "string list \<Rightarrow> bool option" where
  "scan_lines [] = None"
| "scan_lines (l # ls) = (if java_error l then Some False else scan_lines ls)"

fun scan_files :: "'w bb_env \<Rightarrow> string list \<Rightarrow> ('w, exn, bool) io" where
  "scan_files E [] = io_return False"
| "scan_files E (f # fs) =
     io_bind (io_gets (\<lambda>w. bb_read E w f)) (\<lambda>t. io_bind (io_lift t) (\<lambda>s.
       case scan_lines (readlines s) of Some b \<Rightarrow> io_return b | None \<Rightarrow> scan_files E fs))"

definition check_stdout_errors :: "'w bb_env \<Rightarrow> bb_runner \<Rightarrow> string \<Rightarrow> ('w, exn, bool) io" where
  "check_stdout_errors E r outdir =
     io_bind (sorted_files E (bb_artifact_dir E r @ ''/'' @ outdir @ ''_*/stdout'')) (scan_files E)"

section \<open>Tables\<close>

text \<open>\<open>groupby\<close>: the keys in increasing order, each with its rows in the order of the table.\<close>

definition group_by :: "('a \<Rightarrow> 'k::linorder) \<Rightarrow> 'a list \<Rightarrow> ('k \<times> 'a list) list" where
  "group_by key xs = map (\<lambda>k. (k, filter (\<lambda>x. key x = k) xs)) (sort (remdups (map key xs)))"

definition mean :: "rat list \<Rightarrow> rat" where
  "mean xs = sum_list xs / of_nat (length xs)"

definition max_of :: "rat list \<Rightarrow> rat" where
  "max_of xs = fold max (tl xs) (hd xs)"

definition round_row :: "bb_row \<Rightarrow> bb_row" where
  "round_row x = \<lparr>concurrency = py_round_to RESULT_PRECISION (concurrency x), throughput = py_round_to RESULT_PRECISION (throughput x),
     avg_latency = py_round_to RESULT_PRECISION (avg_latency x), p90_latency = py_round_to RESULT_PRECISION (p90_latency x)\<rparr>"

text \<open>
  The table of one repeat: the drivers of a number of terminals together. Their throughputs are added, and the
  number of terminals of one driver is multiplied by the number of drivers.
\<close>

definition repeat_group :: "nat \<Rightarrow> rat \<times> bb_row list \<Rightarrow> bb_row" where
  "repeat_group drivers g = (case g of (k, xs) \<Rightarrow>
     \<lparr>concurrency = of_int (int drivers * py_trunc k), throughput = sum_list (map throughput xs),
      avg_latency = mean (map avg_latency xs), p90_latency = max_of (map p90_latency xs)\<rparr>)"

definition repeat_table :: "nat \<Rightarrow> bb_row list \<Rightarrow> bb_row list" where
  "repeat_table drivers xs = map (round_row \<circ> repeat_group drivers) (group_by concurrency xs)"

text \<open>The table of all repeats.\<close>

definition summary_group :: "rat \<times> bb_row list \<Rightarrow> bb_row" where
  "summary_group g = (case g of (k, xs) \<Rightarrow>
     \<lparr>concurrency = k, throughput = mean (map throughput xs), avg_latency = mean (map avg_latency xs),
      p90_latency = max_of (map p90_latency xs)\<rparr>)"

definition summary_table :: "bb_row list \<Rightarrow> bb_row list" where
  "summary_table xs = map (round_row \<circ> summary_group) (group_by concurrency xs)"

text \<open>\<open>astype(float)\<close>.\<close>

definition float_row :: "'w bb_env \<Rightarrow> bb_tuple \<Rightarrow> exn + bb_row" where
  "float_row E t =
     (case py_float E (bt_terminals t) of Inl e \<Rightarrow> Inl e | Inr c \<Rightarrow>
     (case py_float E (bt_throughput t) of Inl e \<Rightarrow> Inl e | Inr p \<Rightarrow>
        Inr \<lparr>concurrency = c, throughput = p, avg_latency = bt_avg t, p90_latency = bt_p90 t\<rparr>))"

definition save_print_one_repeat :: "'w bb_env \<Rightarrow> bb_runner \<Rightarrow> int \<Rightarrow> bb_tuple list \<Rightarrow> ('w, exn, bb_row list) io" where
  "save_print_one_repeat E r repeat ts =
     io_bind (io_map ts (\<lambda>t. io_lift (float_row E t))) (\<lambda>xs.
       let df = repeat_table (num_drivers r) xs in
       io_seq (bb_write E (path_join (bb_artifact_dir E r) (bb_workload_name E r @ ''_run_'' @ str_int repeat @ ''.csv'')) (to_csv E df))
         (io_return df))"

text \<open>A table that has had no rows added yet has no columns either.\<close>

definition save_print_summary :: "'w bb_env \<Rightarrow> bb_runner \<Rightarrow> bb_row list option \<Rightarrow> ('w, exn, unit) io" where
  "save_print_summary E r all =
     (case all of None \<Rightarrow> io_raise PyKeyError
      | Some xs \<Rightarrow> bb_write E (path_join (bb_artifact_dir E r) (bb_workload_name E r @ ''_summary.csv'')) (to_csv E (summary_table xs)))"

section \<open>Tables of queries\<close>

text \<open>\<open>.+(Q\d+)\.csv\<close>: the last such piece of the file's name.\<close>

definition query_here :: "string \<Rightarrow> string option" where
  "query_here s = (case s of
      CHR ''Q'' # t \<Rightarrow> (case read_digits t of Some (d, rest) \<Rightarrow> if startswith rest ''.csv'' then Some (CHR ''Q'' # d) else None | None \<Rightarrow> None)
    | _ \<Rightarrow> None)"

fun last_query :: "string \<Rightarrow> string option" where
  "last_query [] = None"
| "last_query (c # cs) = (case last_query cs of Some q \<Rightarrow> Some q | None \<Rightarrow> query_here (c # cs))"

definition query_name :: "string \<Rightarrow> string option" where
  "query_name f = (case f of [] \<Rightarrow> None | c # cs \<Rightarrow> last_query cs)"

text \<open>Twelve columns; a query that was not run in an interval has no throughput there.\<close>

definition query_line :: "string \<Rightarrow> rat list \<Rightarrow> query_row option" where
  "query_line q xs = (if xs ! 1 > 0 then Some \<lparr>qr_query = q, qr_concurrency = 0, qr_avg = xs ! 2, qr_p90 = xs ! 7, qr_tp = xs ! 11\<rparr> else None)"

definition query_file :: "'w bb_env \<Rightarrow> string \<Rightarrow> ('w, exn, query_row list list) io" where
  "query_file E f =
     io_bind (io_gets (\<lambda>w. bb_read E w f)) (\<lambda>t. io_bind (io_lift t) (\<lambda>s.
     io_bind (io_lift (read_csv E s)) (\<lambda>(width, rows).
       if width \<noteq> 12 then io_raise PyValueError
       else io_return (case query_name f of None \<Rightarrow> [] | Some q \<Rightarrow> [List.map_filter (query_line q) rows]))))"

definition one_repeat_queries_results :: "'w bb_env \<Rightarrow> bb_runner \<Rightarrow> string \<Rightarrow> ('w, exn, query_row list) io" where
  "one_repeat_queries_results E r outdir =
     io_bind (sorted_files E (bb_artifact_dir E r @ ''/'' @ outdir @ ''_*/*.results.Q*.csv'')) (\<lambda>fs.
     io_bind (io_map fs (query_file E)) (\<lambda>dfs.
       if concat dfs = [] then io_raise PyValueError else io_return (concat (concat dfs))))"

definition with_concurrency :: "int \<Rightarrow> query_row list \<Rightarrow> query_row list" where
  "with_concurrency k xs = map (\<lambda>x. x\<lparr>qr_concurrency := k\<rparr>) xs"

text \<open>
  The pivot: for every query, in the order of its number, the mean latency, the greatest 90th percentile
  and the mean throughput at every concurrency; zero where the query was not run.
\<close>

definition query_number :: "string \<Rightarrow> int" where
  "query_number q = int (nat_of_digits (replace_all ''Q'' [] q))"

definition measure_at :: "(query_row list \<Rightarrow> rat) \<Rightarrow> query_row list \<Rightarrow> string \<Rightarrow> int \<Rightarrow> rat" where
  "measure_at f xs q c = (case filter (\<lambda>x. qr_query x = q \<and> qr_concurrency x = c) xs of [] \<Rightarrow> 0 | ys \<Rightarrow> f ys)"

definition pivot :: "query_row list \<Rightarrow> pivot_line list" where
  "pivot xs =
     (let cs = sort (remdups (map qr_concurrency xs)); qs = sort_key query_number (sort (remdups (map qr_query xs)));
          ms = [(''avg_latency'', \<lambda>ys. mean (map qr_avg ys)), (''p90_latency'', \<lambda>ys. max_of (map qr_p90 ys)), (''tp'', \<lambda>ys. mean (map qr_tp ys))] in
      map (\<lambda>q. (q, concat (map (\<lambda>(m, f). map (\<lambda>c. (m, c, measure_at f xs q c)) cs) ms))) qs)"

definition summaries_all_queries :: "query_row list list \<Rightarrow> exn + pivot_line list" where
  "summaries_all_queries dfs = (if dfs = [] then Inl PyValueError else Inr (pivot (concat dfs)))"

definition save_print_queries_one_repeat :: "'w bb_env \<Rightarrow> bb_runner \<Rightarrow> (int, query_row list) dict \<Rightarrow> int \<Rightarrow> ('w, exn, unit) io" where
  "save_print_queries_one_repeat E r dfs repeat =
     io_bind (io_lift (summaries_all_queries (map (\<lambda>k. with_concurrency k (dget_default dfs k [])) (sort (dkeys dfs))))) (\<lambda>p.
       bb_write E (path_join (bb_artifact_dir E r) (bb_workload_name E r @ ''_queries_run_'' @ str_int repeat @ ''.csv'')) (show_pivot E p))"

definition save_print_queries_summary :: "'w bb_env \<Rightarrow> bb_runner \<Rightarrow> (int, (int, query_row list) dict) dict \<Rightarrow> ('w, exn, unit) io" where
  "save_print_queries_summary E r data =
     io_bind (io_lift (summaries_all_queries (concat (map (\<lambda>(_, d). map (\<lambda>(k, df). with_concurrency k df) d) data)))) (\<lambda>p.
       bb_write E (path_join (bb_artifact_dir E r) (bb_workload_name E r @ ''_queries_summary.csv'')) (show_pivot E p))"

text \<open>The results of the drivers, one summary file each.\<close>

definition latency_ms :: "'w bb_env \<Rightarrow> string \<Rightarrow> pyval \<Rightarrow> exn + rat" where
  "latency_ms E k data =
     (case json_path [''Latency Distribution'', k] data of Inl e \<Rightarrow> Inl e | Inr v \<Rightarrow>
     (case py_float E v of Inl e \<Rightarrow> Inl e | Inr x \<Rightarrow> Inr (py_round_to 2 (x / 1000))))"

definition overall_result :: "'w bb_env \<Rightarrow> pyval \<Rightarrow> exn + bb_tuple" where
  "overall_result E data =
     (case subscript data ''terminals'' of Inl e \<Rightarrow> Inl e | Inr t \<Rightarrow>
     (case subscript data ''Throughput (requests/second)'' of Inl e \<Rightarrow> Inl e | Inr p \<Rightarrow>
     (case latency_ms E ''Average Latency (microseconds)'' data of Inl e \<Rightarrow> Inl e | Inr a \<Rightarrow>
     (case latency_ms E ''90th Percentile Latency (microseconds)'' data of Inl e \<Rightarrow> Inl e | Inr q \<Rightarrow>
        Inr \<lparr>bt_terminals = t, bt_throughput = p, bt_avg = a, bt_p90 = q\<rparr>))))"

definition one_repeat_overall_results :: "'w bb_env \<Rightarrow> bb_runner \<Rightarrow> string \<Rightarrow> ('w, exn, bb_tuple list) io" where
  "one_repeat_overall_results E r outdir =
     io_bind (sorted_files E (bb_artifact_dir E r @ ''/'' @ outdir @ ''_*/*.summary.json'')) (\<lambda>fs.
     io_map fs (\<lambda>f. io_bind (bb_load E f) (\<lambda>d. io_lift (overall_result E d))))"


section \<open>The run\<close>

text \<open>
  The local variables that the \<open>finally\<close> clause reads: \<open>None\<close> stands for a name that is not bound yet. They
  stay when an exception is raised, so they go with the world.
\<close>

record run_state =
  repeat_runs :: int
  this_repeat_results :: "bb_tuple list option"
  this_repeat_queries :: "(int, query_row list) dict option"
  summary_query_data :: "(int, (int, query_row list) dict) dict"
  all_results_df :: "bb_row list option"

definition bound :: "('s \<Rightarrow> 'a option) \<Rightarrow> ('w \<times> 's, exn, 'a) io" where
  "bound f = io_bind (io_gets (\<lambda>ws. f (snd ws))) (\<lambda>x. case x of None \<Rightarrow> io_raise PyUnboundLocalError | Some v \<Rightarrow> io_return v)"

text \<open>\<open>f % args\<close> for \<open>%s\<close>, the only conversion used.\<close>

fun percent_s :: "string \<Rightarrow> string list \<Rightarrow> exn + string" where
  "percent_s [] as = (if as = [] then Inr [] else Inl PyTypeError)"
| "percent_s (c # cs) as =
     (if c \<noteq> CHR ''%'' then map_sum id (\<lambda>t. c # t) (percent_s cs as)
      else (case cs of
          [] \<Rightarrow> Inl PyValueError
        | d # ds \<Rightarrow>
            if d = CHR ''%'' then map_sum id (\<lambda>t. d # t) (percent_s ds as)
            else if d = CHR ''s'' then (case as of [] \<Rightarrow> Inl PyTypeError | a # as' \<Rightarrow> map_sum id (\<lambda>t. a @ t) (percent_s ds as'))
            else Inl PyValueError))"

definition single_terminal :: "pyval \<Rightarrow> pyval" where
  "single_terminal v = (case v of VInt t \<Rightarrow> VList [v] | VBool b \<Rightarrow> VList [v] | _ \<Rightarrow> v)"

definition list_of :: "pyval \<Rightarrow> exn + pyval list" where
  "list_of v = (case v of VList xs \<Rightarrow> Inr xs | _ \<Rightarrow> Inl PyTypeError)"

definition item_at :: "pyval \<Rightarrow> nat \<Rightarrow> exn + pyval" where
  "item_at v i = (case v of VList xs \<Rightarrow> if i < length xs then Inr (xs ! i) else Inl PyIndexError | _ \<Rightarrow> Inl PyTypeError)"

definition int_of :: "pyval \<Rightarrow> exn + int" where
  "int_of v = (case v of VInt i \<Rightarrow> Inr i | VBool b \<Rightarrow> Inr (if b then 1 else 0) | _ \<Rightarrow> Inl PyTypeError)"

definition bb_text :: "'w bb_env \<Rightarrow> pyval \<Rightarrow> string" where
  "bb_text E v = (case v of VStr s \<Rightarrow> s | VInt i \<Rightarrow> str_int i | _ \<Rightarrow> bb_str E v)"

definition composite :: "bb_runner \<Rightarrow> bool" where "composite r \<longleftrightarrow> bench r = ''chbenchmark''"

definition analytical :: "bb_runner \<Rightarrow> bool" where "analytical r \<longleftrightarrow> bench r \<in> {''tpch'', ''chbenchmark''}"

definition run_terminals :: "bb_runner \<Rightarrow> pyval" where
  "run_terminals r = single_terminal (bb_get r (if composite r then ''terminals_tpcc'' else ''terminals''))"

definition terminals_chbenchmark :: "bb_runner \<Rightarrow> pyval" where
  "terminals_chbenchmark r = single_terminal (bb_get r ''terminals_chbenchmark'')"

definition extra_params :: "'w bb_env \<Rightarrow> bb_runner \<Rightarrow> string" where
  "extra_params E r = (if truthy (bb_get r ''raw_output'') then ''-r'' else [])
     @ (if truthy (bb_get r ''sampling_window'') then '' -s '' @ bb_text E (bb_get r ''sampling_window'') else [])"

definition benchbase_command :: "bb_runner \<Rightarrow> int \<Rightarrow> string \<Rightarrow> string \<Rightarrow> string \<Rightarrow> string" where
  "benchbase_command r mem terminals_clause remote_outdir extra = script_at 20
     [''cd $XBENCH_HOME'',
      ''python3 benchbase/scripts/update_config.py --config $XBENCH_HOME/benchbase/'' @ config_file r @ '' '' @ terminals_clause @ '' --randomseed %s'',
      ''cd benchbase-'' @ bb_product r,
      ''java -Xmx'' @ str_int mem @ ''m -jar benchbase.jar -b '' @ bench_names r @ '' -c $XBENCH_HOME/benchbase/'' @ config_file r
        @ '' --create=false --load=false --execute=true -d /tmp/'' @ remote_outdir @ ''_%s -jh /tmp/'' @ remote_outdir @ ''_%s/histogram.json '' @ extra]"

text \<open>Every driver has its number as the seed and its name in the directory of its results.\<close>

definition driver_commands :: "bb_runner \<Rightarrow> string \<Rightarrow> (exn + string) list" where
  "driver_commands r cmd = map (\<lambda>i. let n = vm_name (vm (nodes (bb_multi r) ! i)) in percent_s cmd [str_int (int i), n, n]) [0..<num_drivers r]"

definition run_timeout :: "bb_runner \<Rightarrow> exn + int" where
  "run_timeout r = (case int_of (bb_get r ''time'') of Inl e \<Rightarrow> Inl e | Inr t \<Rightarrow>
     (case int_of (bb_get r ''warmup'') of Inl e \<Rightarrow> Inl e | Inr u \<Rightarrow> Inr (t + u + EXTRA_BENCHBASE_TIMEOUT)))"

definition save_stdout :: "'w bb_env \<Rightarrow> bb_runner \<Rightarrow> string \<Rightarrow> node \<times> (string, string) dict \<Rightarrow> ('w, exn, unit) io" where
  "save_stdout E r outdir ds =
     (case dget (snd ds) ''stdout'' of
        None \<Rightarrow> io_raise PyKeyError
      | Some out \<Rightarrow> bb_write E (path_join (bb_artifact_dir E r) (outdir @ ''_'' @ vm_name (vm (fst ds)) @ ''/stdout'')) out)"

definition run_drivers :: "'w bb_env \<Rightarrow> bb_runner \<Rightarrow> string \<Rightarrow> string \<Rightarrow> string \<Rightarrow> ('w, exn, unit) io" where
  "run_drivers E r cmd outdir remote_outdir =
     (let N = bb_nodes E; hosts = pssh (bb_multi r) in
      io_bind (io_map (driver_commands r cmd) io_lift) (\<lambda>host_args.
      io_bind (io_lift (run_timeout r)) (\<lambda>timeout.
      io_bind (pssh_run (ssh N) (task_order N) (\<lambda>c a. Inr a) hosts (CmdStr ''%(cmd)s'') timeout False (Some host_args) False) (\<lambda>outputs.
      io_seq (pssh_receive_files (ssh N) (task_order N) hosts (''/tmp/'' @ remote_outdir @ ''_*/'') (bb_artifact_dir E r @ ''/'') True)
        (io_for (zip (nodes (bb_multi r)) outputs) (save_stdout E r outdir))))))"

definition run_terminal :: "'w bb_env \<Rightarrow> bb_runner \<Rightarrow> int \<Rightarrow> string \<Rightarrow> int \<Rightarrow> nat \<times> pyval \<Rightarrow> ('w \<times> run_state, exn, unit) io" where
  "run_terminal E r mem run_outdir repeat it =
     (case it of (i, t) \<Rightarrow>
      io_bind (io_lift (if composite r then item_at (terminals_chbenchmark r) i else Inr t)) (\<lambda>q.
      let terminal_path = (if composite r then bb_text E t @ ''_'' @ bb_text E q else bb_text E t);
          outdir = terminal_path @ ''_terminals_run_'' @ str_int repeat;
          remote_outdir = run_outdir @ ''/'' @ outdir in
      io_seq (on_world (io_modify (sleep (clock (ssh (bb_nodes E))) DEFAULT_SLEEP_TIME)))
     (io_seq (on_world (io_when (truthy (bb_get r ''pre_thread_run'')) (be_pre_thread_run (bb_backend_of E))))
     (io_bind (io_lift (int_of t)) (\<lambda>n.
      let clause = (if composite r then ''--terminals_tpcc '' @ bb_text E t @ '' --terminals_chbenchmark '' @ bb_text E q
                    else ''--terminals '' @ str_int (per_driver n (num_drivers r))) in
      io_seq (on_world (run_drivers E r (benchbase_command r mem clause remote_outdir (extra_params E r)) outdir remote_outdir))
     (io_bind (on_world (one_repeat_overall_results E r outdir)) (\<lambda>results.
      io_seq (upd (\<lambda>s. s\<lparr>this_repeat_results := map_option (\<lambda>rs. rs @ results) (this_repeat_results s)\<rparr>))
     (io_seq (io_when (analytical r)
        (io_bind (on_world (one_repeat_queries_results E r outdir)) (\<lambda>df.
         io_bind (io_lift (int_of q)) (\<lambda>k.
           upd (\<lambda>s. s\<lparr>this_repeat_queries := map_option (\<lambda>d. dset d k df) (this_repeat_queries s)\<rparr>)))))
     (io_bind (on_world (check_errors E r outdir (bb_get r ''error_threshold''))) (\<lambda>bad.
        if bad then io_raise BenchmarkException
        else io_bind (on_world (check_stdout_errors E r outdir)) (\<lambda>java.
          if java then io_raise BenchmarkException else io_return ())))))))))))"

definition add_results :: "'w bb_env \<Rightarrow> bb_runner \<Rightarrow> ('w \<times> run_state, exn, unit) io" where
  "add_results E r =
     io_bind (bound this_repeat_results) (\<lambda>ts.
     io_bind (io_gets (\<lambda>ws. repeat_runs (snd ws))) (\<lambda>k.
     io_bind (on_world (save_print_one_repeat E r k ts)) (\<lambda>df.
       upd (\<lambda>s. s\<lparr>all_results_df := Some (case all_results_df s of None \<Rightarrow> df | Some xs \<Rightarrow> xs @ df)\<rparr>))))"

definition add_queries :: "'w bb_env \<Rightarrow> bb_runner \<Rightarrow> ('w \<times> run_state, exn, unit) io" where
  "add_queries E r =
     io_when (analytical r)
       (io_bind (bound this_repeat_queries) (\<lambda>qs.
        io_bind (io_gets (\<lambda>ws. repeat_runs (snd ws))) (\<lambda>k.
        io_seq (on_world (save_print_queries_one_repeat E r qs k))
          (upd (\<lambda>s. s\<lparr>summary_query_data := dset (summary_query_data s) k qs\<rparr>)))))"

definition run_repeat :: "'w bb_env \<Rightarrow> bb_runner \<Rightarrow> int \<Rightarrow> string \<Rightarrow> int \<Rightarrow> ('w \<times> run_state, exn, unit) io" where
  "run_repeat E r mem run_outdir repeat =
     io_seq (upd (\<lambda>s. s\<lparr>repeat_runs := repeat\<rparr>))
    (io_seq (on_world (io_when (truthy (bb_get r ''pre_workload_run'')) (be_pre_workload_run (bb_backend_of E))))
    (io_seq (upd (\<lambda>s. s\<lparr>this_repeat_queries := Some [], this_repeat_results := Some []\<rparr>))
    (io_bind (io_lift (list_of (run_terminals r))) (\<lambda>ts.
    (io_seq (io_for (enumerate 0 ts) (run_terminal E r mem run_outdir repeat))
    (io_seq (add_queries E r) (add_results E r)))))))"

definition bb_repeats :: "'w bb_env \<Rightarrow> bb_runner \<Rightarrow> int \<Rightarrow> string \<Rightarrow> ('w \<times> run_state, exn, unit) io" where
  "bb_repeats E r mem run_outdir =
     io_bind (io_lift (int_of (bb_get r ''repeats''))) (\<lambda>k. io_for [1..k] (run_repeat E r mem run_outdir))"

text \<open>The \<open>finally\<close> clause: what there is of an unfinished repeat is saved, then the tables of the whole run.\<close>

definition bb_finally :: "'w bb_env \<Rightarrow> bb_runner \<Rightarrow> bool \<Rightarrow> ('w \<times> run_state, exn, unit) io" where
  "bb_finally E r success =
     io_seq (io_when (\<not> success) (io_seq (add_queries E r) (add_results E r)))
    (io_seq (io_when (analytical r) (io_bind (io_gets (\<lambda>ws. summary_query_data (snd ws))) (\<lambda>d. on_world (save_print_queries_summary E r d))))
    (io_seq (io_bind (io_gets (\<lambda>ws. all_results_df (snd ws))) (\<lambda>xs. on_world (save_print_summary E r xs)))
    (io_seq (on_world (io_when (truthy (bb_get r ''post_workload_run'')) (be_post_workload_run (bb_backend_of E) (bb_artifact_dir E r))))
    (io_seq (on_world (io_when (truthy (bb_get r ''export_query_log''))
        (io_bind (be_get_logs (bb_backend_of E)) (\<lambda>l. bb_write E (path_join (bb_artifact_dir E r) ''query.log'') l))))
      (io_when (\<not> success) (io_raise BenchmarkException))))))"

definition start_state :: run_state where
  "start_state = \<lparr>repeat_runs = 0, this_repeat_results = None, this_repeat_queries = None, summary_query_data = [], all_results_df = None\<rparr>"

definition guarded_repeats :: "'w bb_env \<Rightarrow> bb_runner \<Rightarrow> int \<Rightarrow> string \<Rightarrow> ('w \<times> run_state, exn, unit) io" where
  "guarded_repeats E r mem run_outdir ws =
     (case bb_repeats E r mem run_outdir ws of
        (Inr _, ws') \<Rightarrow> bb_finally E r True ws'
      | (Inl e, ws') \<Rightarrow>
          (if isinstance_exn e BenchmarkException then bb_finally E r False ws'
           else case bb_finally E r True ws' of (Inl e', ws'') \<Rightarrow> (Inl e', ws'') | (Inr _, ws'') \<Rightarrow> (Inl e, ws'')))"

definition benchbase_cleanup :: "'w bb_env \<Rightarrow> bb_runner \<Rightarrow> ('w, exn, unit) io" where
  "benchbase_cleanup E r =
     io_bind (run_on_all_nodes (bb_nodes E) (\<lambda>c (a :: unit). Inr c) (bb_multi r)
       (CmdStr (lit ''kill -9 $(pgrep -f ~jar benchbase.jar~) || true'')) 300 True None False) (\<lambda>_. io_return ())"

definition benchbase_run :: "'w bb_env \<Rightarrow> bb_runner \<Rightarrow> ('w, exn, unit) io" where
  "benchbase_run E r =
     io_seq (benchbase_cleanup E r)
    (io_bind (save_config_data E r (config_file r) ''run'') (\<lambda>r'.
     io_bind (io_gets (bb_now E)) (\<lambda>now.
     io_bind (driver_memory E r) (\<lambda>mem w.
       (case guarded_repeats E r mem (now @ ''_benchbase_'' @ bench r) (w, start_state) of (x, (w', s)) \<Rightarrow> (x, w'))))))"

section \<open>The classes of the drivers\<close>

definition DEFAULT_JAVA_VERSION :: string where "DEFAULT_JAVA_VERSION = ''17''"
definition BENCHBASE_GIT :: string where "BENCHBASE_GIT = ''https://github.com/mariadb-corporation/benchbase''"
definition BENCHBASE_JAVA_VERSION :: string where "BENCHBASE_JAVA_VERSION = ''17''"

definition java_package :: "string \<Rightarrow> string" where
  "java_package version = ''jdk-'' @ version @ ''_linux-x64_bin.rpm''"

definition java_version_of :: "string option \<Rightarrow> string" where
  "java_version_of v = (case v of None \<Rightarrow> DEFAULT_JAVA_VERSION | Some s \<Rightarrow> if s = [] then DEFAULT_JAVA_VERSION else s)"

definition java_install :: "'w node_env \<Rightarrow> yum \<Rightarrow> node \<Rightarrow> string \<Rightarrow> ('w, exn, unit) io" where
  "java_install N y n version =
     io_catch [NodeException] BenchmarkException
       (io_bind (io_lift (install_local_pkg_cmd y)) (\<lambda>pm.
         node_exec N n (script_at 12 [''wget https://download.oracle.com/java/17/latest/'' @ java_package version, pm @ '' '' @ java_package version]) True False))"

definition java_clean :: "'w node_env \<Rightarrow> yum \<Rightarrow> node \<Rightarrow> string \<Rightarrow> ('w, exn, unit) io" where
  "java_clean N y n version =
     io_catch [NodeException] BenchmarkException
       (io_bind (io_lift (remove_pkg_cmd y)) (\<lambda>pm.
         node_exec N n (script_at 12 [pm @ '' '' @ java_package version, ''rm -rf '' @ java_package version]) True False))"

definition benchbase_install :: "'w node_env \<Rightarrow> yum \<Rightarrow> node \<Rightarrow> ('w, exn, unit) io" where
  "benchbase_install N y n =
     io_catch [NodeException] BenchmarkException
       (io_seq (java_install N y n (java_version_of (Some BENCHBASE_JAVA_VERSION)))
         (node_exec N n (script_at 12
           [''sudo pip3 install xmltodict'', ''cd $XBENCH_HOME'', ''git clone --depth 1 '' @ BENCHBASE_GIT, ''cd benchbase'', ''./mvnw -v'']) False False))"

definition benchbase_clean :: "'w node_env \<Rightarrow> yum \<Rightarrow> node \<Rightarrow> ('w, exn, unit) io" where
  "benchbase_clean N y n =
     io_catch [NodeException] BenchmarkException
       (io_seq (java_clean N y n (java_version_of (Some BENCHBASE_JAVA_VERSION)))
         (node_exec N n (script_at 12 [''cd $XBENCH_HOME'', ''rm -rf benchbase'']) False False))"


section \<open>Lemmas\<close>

lemma replace_all_char: "replace_all [c] new s = concat (map (\<lambda>x. if x = c then new else [x]) s)"
proof (induction s)
  case Nil
  show ?case by (simp add: replace_all.simps)
next
  case (Cons x xs)
  then show ?case by (subst replace_all.simps) (simp add: startswith_def)
qed

lemma concat_map_concat: "concat (map f (concat xss)) = concat (map (\<lambda>xs. concat (map f xs)) xss)"
  by (induction xss) simp_all

lemma sum_list_single:
  "distinct ks \<Longrightarrow> sum_list (map (\<lambda>j. if k = j then a else (0 :: rat)) ks) = (if k \<in> set ks then a else 0)"
  by (induction ks) auto

lemma sum_list_groups:
  fixes f :: "'a \<Rightarrow> rat"
  assumes "distinct ks" and "\<forall>x \<in> set xs. key x \<in> set ks"
  shows "sum_list (map (\<lambda>k. sum_list (map f (filter (\<lambda>x. key x = k) xs))) ks) = sum_list (map f xs)"
  using assms(2)
proof (induction xs)
  case Nil
  show ?case by (simp add: sum_list_0)
next
  case (Cons x xs)
  have "sum_list (map (\<lambda>k. sum_list (map f (filter (\<lambda>y. key y = k) (x # xs)))) ks)
      = sum_list (map (\<lambda>k. (if key x = k then f x else 0) + sum_list (map f (filter (\<lambda>y. key y = k) xs))) ks)"
    by (intro arg_cong [where f = sum_list] map_cong) simp_all
  also have "\<dots> = f x + sum_list (map f xs)"
    using Cons sum_list_single [OF assms(1), of "key x" "f x"] by (simp add: sum_list_addf)
  finally show ?case by simp
qed

lemma group_by_keys: "map fst (group_by key xs) = sort (remdups (map key xs))"
  by (simp add: group_by_def comp_def)

lemma group_by_sum:
  fixes f :: "'a \<Rightarrow> rat"
  shows "sum_list (map (\<lambda>g. sum_list (map f (snd g))) (group_by key xs)) = sum_list (map f xs)"
  using sum_list_groups [of "sort (remdups (map key xs))" xs key f] by (simp add: group_by_def comp_def)

lemma fold_max_spec:
  "(fold max xs x :: rat) \<in> set (x # xs) \<and> (\<forall>y \<in> set (x # xs). y \<le> fold max xs x)"
proof (induction xs arbitrary: x)
  case (Cons y ys)
  from Cons.IH [of "max y x"] show ?case by (auto simp: max_def split: if_splits)
qed simp

lemma max_of_spec: "xs \<noteq> [] \<Longrightarrow> max_of xs \<in> set xs \<and> (\<forall>y \<in> set xs. y \<le> max_of xs)"
  using fold_max_spec [of "tl xs" "hd xs"] by (cases xs) (auto simp: max_of_def)

lemma py_trunc_mono: "x \<le> y \<Longrightarrow> py_trunc x \<le> py_trunc y"
proof (cases "x < 0 \<and> \<not> y < 0")
  case True
  then have "0 \<le> floor (- x)" "0 \<le> floor y" by simp_all
  then have "- floor (- x) \<le> floor y" by linarith
  with True show ?thesis by (simp add: py_trunc_def)
next
  case False
  then show "x \<le> y \<Longrightarrow> ?thesis" using floor_mono [of "- y" "- x"] floor_mono [of x y] by (auto simp: py_trunc_def)
qed

lemma scan_files_no: "fst (scan_files E fs w) \<noteq> Inr True"
proof (induction fs arbitrary: w)
  case (Cons f fs)
  have "scan_lines ls \<noteq> Some True" for ls by (induction ls) simp_all
  then show ?case using Cons.IH by (auto simp: io_defs split: sum.splits option.splits)
qed (simp add: io_defs)

lemma io_seq_raises: "(\<And>v. fst (k v) \<noteq> Inr ()) \<Longrightarrow> fst (io_seq m k w) \<noteq> Inr ()"
  by (cases "m w") (auto simp: io_seq_def io_bind_def split: sum.splits)

section \<open>Properties\<close>

text \<open>
  \<open>escape\<close> is the substitution of characters one by one, although it is done as five replacements in a row: no
  replacement touches what an earlier one has put in.
\<close>

theorem escape_by_characters:
  "escape s = concat (map (\<lambda>c.
     if c = CHR ''&'' then ''&amp;'' else if c = CHR ''<'' then ''&lt;'' else if c = CHR ''>'' then ''&gt;''
     else if c = CHR 0x22 then ''&quot;'' else if c = CHR 0x27 then ''&apos;'' else [c]) s)"
  unfolding escape_def replace_all_char concat_map_concat map_map comp_def
  by (intro arg_cong [where f = concat] map_cong refl) simp

text \<open>
  Java exceptions in the output of a driver are never reported: whatever the files hold,
  \<open>check_stdout_errors\<close> does not answer \<open>True\<close>.
\<close>

theorem check_stdout_errors_blind: "fst (check_stdout_errors E r outdir w) \<noteq> Inr True"
  by (simp add: check_stdout_errors_def sorted_files_def io_bind_def io_gets_def scan_files_no)

text \<open>
  The table of a repeat: one row for every number of terminals, in increasing order, and, before the rounding,
  the throughputs of the rows add up to those of all drivers, and the latency
  of a row is the greatest one of its drivers.
\<close>

theorem repeat_table_spec:
  "\<exists>rows. repeat_table d xs = map round_row rows
     \<and> length rows = card (concurrency ` set xs)
     \<and> sorted (map concurrency rows)
     \<and> sum_list (map throughput rows) = sum_list (map throughput xs)
     \<and> map p90_latency rows = map (\<lambda>k. Max {p90_latency x |x. x \<in> set xs \<and> concurrency x = k}) (sort (remdups (map concurrency xs)))"
proof (intro exI [of _ "map (repeat_group d) (group_by concurrency xs)"] conjI)
  let ?g = "group_by concurrency xs" and ?ks = "sort (remdups (map concurrency xs))"
  show "repeat_table d xs = map round_row (map (repeat_group d) ?g)" by (simp add: repeat_table_def)
  show "length (map (repeat_group d) ?g) = card (concurrency ` set xs)"
    by (simp add: group_by_def length_remdups_card_conv)
  have "map concurrency (map (repeat_group d) ?g) = map (\<lambda>k. of_int (int d * py_trunc k)) ?ks"
    by (simp add: group_by_def repeat_group_def comp_def)
  moreover have "sorted (map (\<lambda>k. of_int (int d * py_trunc k) :: rat) ks)" if "sorted ks" for ks
    using that by (auto simp: sorted_iff_nth_mono intro!: mult_left_mono py_trunc_mono simp del: of_int_mult)
  ultimately show "sorted (map concurrency (map (repeat_group d) ?g))" by simp
  show "sum_list (map throughput (map (repeat_group d) ?g)) = sum_list (map throughput xs)"
    using group_by_sum [of throughput concurrency xs] by (simp add: repeat_group_def comp_def case_prod_beta)
  have "max_of (map p90_latency (filter (\<lambda>x. concurrency x = k) xs)) = Max {p90_latency x |x. x \<in> set xs \<and> concurrency x = k}"
    if "k \<in> set ?ks" for k
  proof -
    let ?ys = "map p90_latency (filter (\<lambda>x. concurrency x = k) xs)"
    have "?ys \<noteq> []" using that by (auto simp: filter_empty_conv)
    then have "max_of ?ys = Max (set ?ys)" using max_of_spec [of ?ys] by (intro Max_eqI [symmetric]) auto
    moreover have "set ?ys = {p90_latency x |x. x \<in> set xs \<and> concurrency x = k}" by auto
    ultimately show ?thesis by simp
  qed
  then show "map p90_latency (map (repeat_group d) ?g) = map (\<lambda>k. Max {p90_latency x |x. x \<in> set xs \<and> concurrency x = k}) ?ks"
    by (simp add: group_by_def repeat_group_def)
qed

text \<open>
  A failure inside a repeat is a failure of the run: whatever the \<open>finally\<close> clause manages to save,
  \<open>guarded_repeats\<close> raises when the repeats raise.
\<close>

theorem failed_repeat_fails_run:
  assumes "fst (bb_repeats E r mem d ws) = Inl e"
  shows "\<exists>e'. fst (guarded_repeats E r mem d ws) = Inl e'"
proof -
  obtain ws' where b: "bb_repeats E r mem d ws = (Inl e, ws')" using assms by (cases "bb_repeats E r mem d ws") auto
  have "fst (bb_finally E r False v) \<noteq> Inr ()" for v
    unfolding bb_finally_def by (rule io_seq_raises)+ (simp add: io_defs)
  then have "\<exists>e'. fst (bb_finally E r False v) = Inl e'" for v by (metis (full_types) old.sum.exhaust old.unit.exhaust)
  then show ?thesis using b by (auto simp: guarded_repeats_def split: prod.splits sum.splits)
qed

definition demo_bb :: "string list bb_env" where
  "demo_bb = \<lparr>bb_nodes = demo_node_env, jinja = (\<lambda>t d. Inr t), bb_config_dir = ''/conf'',
     bb_read = (\<lambda>w f. Inr ''{}''), bb_write = (\<lambda>f s. io_return ()), bb_glob = (\<lambda>w p. [''/a/o_d0/histogram.json'', ''/a/o_d1/histogram.json'']),
     bb_json = (\<lambda>s. Inr (VDict (map (\<lambda>(k, i). (k, VDict [(''NUM_SAMPLES'', VInt i)])) [(''aborted'', 3), (''unexpected'', 1), (''completed'', 50)]))),
     read_csv = (\<lambda>s. Inr (12, [])), bb_now = (\<lambda>w. ''now''), py_float = (\<lambda>v. map_sum id of_int (int_of v)), dev_pct = (\<lambda>a d. 0),
     bb_str = (\<lambda>v. []), to_csv = (\<lambda>t. []), show_pivot = (\<lambda>t. []),
     bb_backend_of = \<lparr>be_connect = io_return (), be_select_one_row = (\<lambda>q. io_return None), be_post_data_load = (\<lambda>v. io_return ()),
       be_pre_workload_run = io_return (), be_pre_thread_run = io_return (), be_post_workload_run = (\<lambda>d. io_return ()), be_get_logs = io_return []\<rparr>\<rparr>"

definition demo_bb_runner :: bb_runner where
  "demo_bb_runner = \<lparr>bb_multi = \<lparr>nodes = [demo_node], pssh = []\<rparr>, bb_kwargs = [], bench = ''tpcc'', bb_product = ''mariadb''\<rparr>"

theorem failed_repeat_fails_run_witness:
  "\<exists>e'. fst (guarded_repeats demo_bb demo_bb_runner 1024 ''now'' ([], start_state)) = Inl e'"
  by (rule failed_repeat_fails_run [where e = PyTypeError])
    (simp add: bb_repeats_def io_defs int_of_def bb_get_def demo_bb_runner_def dget_default_def)

text \<open>
  The check of the errors: with the counts of the histogram files, and some transactions completed, the answer is
  whether the errors are more than the given percentage of the completed transactions; with none
  completed it is a division by zero.
\<close>

theorem check_errors_spec:
  assumes "io_map (sort (bb_glob E w (bb_artifact_dir E r @ ''/'' @ outdir @ ''_*/histogram.json'')))
      (\<lambda>f. io_bind (bb_load E f) (\<lambda>d. io_lift (histogram_counts E d))) w = (Inr cs, w')"
    and "py_float E (VInt t) = Inr (of_int t)"
  shows "fst (check_errors E r outdir (VInt t) w) =
     (let completed = sum_list (map (\<lambda>(a, u, c). c) cs); errors = sum_list (map (\<lambda>(a, u, c). a + u) cs) in
      if completed = 0 then Inl PyZeroDivisionError else Inr (of_int t < 100 * errors / completed))"
proof -
  have "sum_list (map (\<lambda>(a, u, c). a + u) cs) = sum_list (map fst cs) + sum_list (map (fst \<circ> snd) cs)"
    by (induction cs) auto
  moreover have "sum_list (map (\<lambda>(a, u, c). c) cs) = sum_list (map (snd \<circ> snd) cs)" by (induction cs) auto
  ultimately show ?thesis
    using assms by (simp add: check_errors_def sorted_files_def io_defs error_ratio_def above_def Let_def mult.commute)
qed

theorem check_errors_spec_witness:
  "fst (check_errors demo_bb demo_bb_runner ''o'' (VInt 5) []) = Inr True"
proof -
  have "io_map (sort (bb_glob demo_bb [] (bb_artifact_dir demo_bb demo_bb_runner @ ''/'' @ ''o'' @ ''_*/histogram.json'')))
      (\<lambda>f. io_bind (bb_load demo_bb f) (\<lambda>d. io_lift (histogram_counts demo_bb d))) [] = (Inr [(3, 1, 50), (3, 1, 50)], [])"
    by (simp add: demo_bb_def bb_load_def io_defs histogram_counts_def num_samples_def subscript_def int_of_def)
  from check_errors_spec [OF this, of 5] show ?thesis by (simp add: demo_bb_def int_of_def)
qed

end
