(* ===== verification/XB_Hammerdb.thy ===== *)
theory XB_Hammerdb
  imports XB_Benchbase
begin

text \<open>
  The runner of HammerDB, \<^verbatim>\<open>benchmark/hammerdb/hammerdb_runner.py\<close>, and its driver class
  \<^verbatim>\<open>hammerdb.py\<close>. The parameters are those of the runner of benchbase; the text of a float is one more.
\<close>

section \<open>The runner\<close>

definition PRODUCT_PREFIX :: "(string, string) dict" where
  "PRODUCT_PREFIX = [(''oracle'', ''ora''), (''mssql'', ''mssqls''), (''mysql'', ''mysql''), (''aurora-mysql'', ''mysql''),
     (''postgres'', ''pg''), (''aurora-postgres'', ''pg''), (''mariadb'', ''maria''), (''xpand'', ''maria'')]"

record hammerdb =
  hm_multi :: multi_node
  hm_kwargs :: pydict
  phase :: string
  warmup_m :: int
  time_m :: int
  totaltime :: int

text \<open>\<open>int(seconds / 60)\<close>, at least one minute.\<close>

definition minutes :: "pyval \<Rightarrow> exn + int" where
  "minutes v = (case int_of v of Inl e \<Rightarrow> Inl e | Inr s \<Rightarrow> (let m = py_trunc (of_int s / 60) in Inr (if m < 1 then 1 else m)))"

definition HammerdbRunner :: "'w bb_env \<Rightarrow> node list \<Rightarrow> pydict \<Rightarrow> exn + hammerdb" where
  "HammerdbRunner E ns kwargs =
     (case MultiNode (pem_dir (bb_nodes E)) ns of Inl e \<Rightarrow> Inl e | Inr m \<Rightarrow>
     (case minutes (dget_default kwargs ''warmup'' VNone) of Inl e \<Rightarrow> Inl e | Inr wm \<Rightarrow>
     (case minutes (dget_default kwargs ''time'' VNone) of Inl e \<Rightarrow> Inl e | Inr tm \<Rightarrow>
        Inr \<lparr>hm_multi = m, hm_kwargs = kwargs, phase = [], warmup_m = wm, time_m = tm, totaltime = 60 * (wm + tm)\<rparr>)))"

definition hm_get :: "hammerdb \<Rightarrow> string \<Rightarrow> pyval" where
  "hm_get h k = dget_default (hm_kwargs h) k VNone"

definition hm_text :: "'w bb_env \<Rightarrow> hammerdb \<Rightarrow> string \<Rightarrow> string" where
  "hm_text E h k = bb_text E (hm_get h k)"

definition product_prefix :: "pyval \<Rightarrow> exn + string" where
  "product_prefix v = (case v of VStr p \<Rightarrow> dict_index PRODUCT_PREFIX p | _ \<Rightarrow> Inl PyKeyError)"

definition get_script :: "'w bb_env \<Rightarrow> hammerdb \<Rightarrow> int \<Rightarrow> ('w, exn, string) io" where
  "get_script E h virtusers =
     (case hm_get h ''host'' of
        VStr host \<Rightarrow>
          io_bind (io_lift (product_prefix (hm_get h ''product''))) (\<lambda>prefix.
          io_catch [FileTemplateException] BenchmarkException
            (template_render (bb_read E) (jinja E) (bb_config_dir E) ''hammerdb.tcl'' (dict_update (hm_kwargs h)
              [(''hosts'', VStr (join '','' (split_on (CHR '','') host))), (''password'', hm_get h ''password''), (''prefix'', VStr prefix),
               (''virtusers'', VInt virtusers), (''phase'', VStr (phase h)), (''warmup_m'', VInt (warmup_m h)),
               (''time_m'', VInt (time_m h)), (''totaltime'', VInt (totaltime h))])))
      | _ \<Rightarrow> io_raise PyAttributeError)"

section \<open>The time profile\<close>

text \<open>\<open>\d+[\.\d]*\<close> and what \<open>float\<close> makes of it.\<close>

definition read_dotted :: "string \<Rightarrow> (string \<times> string) option" where
  "read_dotted s = (let d = takeWhile is_digit s; s1 = dropWhile is_digit s; f = (\<lambda>c. is_digit c \<or> c = CHR ''.'') in
     if d = [] then None else Some (d @ takeWhile f s1, dropWhile f s1))"

definition float_text :: "string \<Rightarrow> exn + rat" where
  "float_text t = (case split_on (CHR ''.'') t of
      [a] \<Rightarrow> Inr (of_nat (nat_of_digits a))
    | [a, b] \<Rightarrow> Inr (decimal_value a b)
    | _ \<Rightarrow> Inl PyValueError)"

text \<open>Numbers, each between two texts, with white space (or nothing) before the next.\<close>

fun read_fields :: "(string \<times> string) list \<Rightarrow> string \<Rightarrow> string list option" where
  "read_fields [] s = Some []"
| "read_fields ((pre, suf) # fs) s =
     (case read_lit pre s of None \<Rightarrow> None | Some s1 \<Rightarrow>
     (case read_dotted s1 of None \<Rightarrow> None | Some (x, s2) \<Rightarrow>
     (case read_lit suf s2 of None \<Rightarrow> None | Some s3 \<Rightarrow> map_option (\<lambda>xs. x # xs) (read_fields fs (dropWhile is_space s3)))))"

definition re_proc :: "string \<Rightarrow> string option" where
  "re_proc l = (let w = takeWhile (\<lambda>c. \<not> is_space c) l in
     if w = [] then None
     else (case read_lit '' PROC: '' (drop (length w) l) of None \<Rightarrow> None
       | Some s \<Rightarrow> (let p = takeWhile (\<lambda>c. \<not> is_space c) s in if p = [] then None else Some p)))"

text \<open>The number of calls has digits only.\<close>

definition re_calls :: "string \<Rightarrow> (nat \<times> string) option" where
  "re_calls l =
     (case read_lit ''CALLS: '' l of None \<Rightarrow> None | Some s \<Rightarrow>
     (case read_digits s of None \<Rightarrow> None | Some (n, s1) \<Rightarrow>
     (case read_fields [(''MIN: '', ''ms''), (''AVG: '', ''ms''), (''MAX: '', ''ms''), (''TOTAL: '', ''ms'')] (dropWhile is_space s1) of
        Some [mn, av, mx, tot] \<Rightarrow> Some (nat_of_digits n, tot) | _ \<Rightarrow> None)))"

definition re_p95_proc :: "string \<Rightarrow> string option" where
  "re_p95_proc l =
     (case read_fields [(''P99: '', ''ms''), (''P95: '', ''ms''), (''P50: '', ''ms''), (''SD: '', []), (''RATIO: '', [])] l of
        Some [p99, p95, p50, sd, ratio] \<Rightarrow> Some p95 | _ \<Rightarrow> None)"

record profile =
  in_summary :: bool
  proc :: string
  calls :: "(string, nat) dict"
  totals :: "(string, rat) dict"
  p95s :: "(string, rat) dict"

definition profile0 :: profile where
  "profile0 = \<lparr>in_summary = False, proc = [], calls = [], totals = [], p95s = []\<rparr>"

definition read_calls :: "string \<Rightarrow> profile \<Rightarrow> exn + profile" where
  "read_calls l p =
     (case re_calls l of None \<Rightarrow> Inr p | Some (n, tot) \<Rightarrow>
        map_sum id (\<lambda>x. p\<lparr>calls := dset (calls p) (proc p) n, totals := dset (totals p) (proc p) x\<rparr>) (float_text tot))"

definition read_p95 :: "string \<Rightarrow> profile \<Rightarrow> exn + profile" where
  "read_p95 l p =
     (case re_p95_proc l of None \<Rightarrow> Inr p | Some t \<Rightarrow>
     (case dget (calls p) (proc p) of None \<Rightarrow> Inl PyKeyError | Some n \<Rightarrow>
        map_sum id (\<lambda>x. p\<lparr>p95s := dset (p95s p) (proc p) (of_nat n * x)\<rparr>) (float_text t)))"

definition profile_line :: "string \<Rightarrow> profile \<Rightarrow> exn + profile" where
  "profile_line l p =
     (if contains_str l ''SUMMARY'' then Inr (p\<lparr>in_summary := True\<rparr>)
      else if \<not> in_summary p then Inr p
      else (let p1 = (case re_proc l of None \<Rightarrow> p | Some n \<Rightarrow> p\<lparr>proc := n\<rparr>) in
        (case read_calls l p1 of Inl e \<Rightarrow> Inl e | Inr p2 \<Rightarrow> read_p95 l p2)))"

fun profile_lines :: "string list \<Rightarrow> profile \<Rightarrow> exn + profile" where
  "profile_lines [] p = Inr p"
| "profile_lines (l # ls) p = (case profile_line l p of Inl e \<Rightarrow> Inl e | Inr p' \<Rightarrow> profile_lines ls p')"

record vu_data =
  vu_throughput :: rat
  vu_avg :: rat
  vu_p95 :: rat

definition profile_result :: "int \<Rightarrow> profile \<Rightarrow> exn + vu_data" where
  "profile_result total_time p =
     (let n = of_nat (sum_list (map snd (calls p))) in
      if total_time = 0 \<or> n = 0 then Inl PyZeroDivisionError
      else Inr \<lparr>vu_throughput = n / of_int total_time, vu_avg = sum_list (map snd (totals p)) / n, vu_p95 = sum_list (map snd (p95s p)) / n\<rparr>)"

definition parse_timeprofile :: "int \<Rightarrow> string \<Rightarrow> exn + vu_data" where
  "parse_timeprofile total_time text =
     (case profile_lines (readlines text) profile0 of Inl e \<Rightarrow> Inl e | Inr p \<Rightarrow> profile_result total_time p)"

section \<open>Loading and running\<close>

definition hm_head :: "hammerdb \<Rightarrow> ('w, exn, node) io" where
  "hm_head h = io_lift (head_node (nodes (hm_multi h)))"

definition hammerdb_prepare :: "'w bb_env \<Rightarrow> hammerdb \<Rightarrow> ('w, exn, unit) io" where
  "hammerdb_prepare E h =
     io_bind (get_script E (h\<lparr>phase := ''load''\<rparr>) 0) (\<lambda>load_script.
     io_bind (hm_head h) (\<lambda>n.
     io_seq (node_unsafe_run (bb_nodes E) n (CmdStr (script
        [''cd $XBENCH_HOME/HammerDB'', lit ''echo ~'' @ load_script @ lit ''~ > load.tcl'', ''./hammerdbcli auto load.tcl'']))
        DEFAULT_LONG_COMMAND_TIMEOUT False False None)
     (io_when (truthy (hm_get h ''post_data_load'')) (be_post_data_load (bb_backend_of E) (hm_get h ''database'')))))"

definition hammerdb_command :: "string \<Rightarrow> string \<Rightarrow> string \<Rightarrow> string" where
  "hammerdb_command run_script run_outdir outdir = script_at 16
     [''cd $XBENCH_HOME/HammerDB'', lit ''echo ~'' @ run_script @ lit ''~ > run.tcl'', ''mkdir -p '' @ run_outdir,
      ''./hammerdbcli auto run.tcl > '' @ outdir @ ''_%s.out'',
      ''if test -f /tmp/hdbtcount.log; then'', ''    mv /tmp/hdbtcount.log '' @ outdir @ ''_hdbtcount_%s.log'', ''fi'',
      ''if test -f /tmp/hdbxtprofile.log; then'', ''    mv /tmp/hdbxtprofile.log '' @ outdir @ ''_hdbxtprofile_%s.log'', ''fi'']"

definition hm_commands :: "hammerdb \<Rightarrow> string \<Rightarrow> (exn + string) list" where
  "hm_commands h cmd = map (\<lambda>n. let m = vm_name (vm n) in percent_s cmd [m, m, m]) (nodes (hm_multi h))"

definition hm_timeout :: "hammerdb \<Rightarrow> exn + int" where
  "hm_timeout h = (case int_of (hm_get h ''time'') of Inl e \<Rightarrow> Inl e | Inr t \<Rightarrow>
     (case int_of (hm_get h ''warmup'') of Inl e \<Rightarrow> Inl e | Inr u \<Rightarrow> Inr (t + u + 600)))"

text \<open>The drivers together; without a time profile the division by their number fails.\<close>

definition all_drivers :: "vu_data list \<Rightarrow> exn + vu_data" where
  "all_drivers ds = (if ds = [] then Inl PyZeroDivisionError
     else Inr \<lparr>vu_throughput = sum_list (map vu_throughput ds), vu_avg = sum_list (map vu_avg ds) / of_nat (length ds),
       vu_p95 = max_of (map vu_p95 ds)\<rparr>)"

definition run_vu :: "'w bb_env \<Rightarrow> hammerdb \<Rightarrow> string \<Rightarrow> int \<Rightarrow> pyval \<Rightarrow> ('w, exn, int \<times> vu_data) io" where
  "run_vu E h run_outdir r v =
     (let N = bb_nodes E; hosts = pssh (hm_multi h) in
      io_seq (io_modify (sleep (clock (ssh N)) DEFAULT_SLEEP_TIME))
     (io_seq (io_when (truthy (hm_get h ''pre_thread_run'')) (be_pre_thread_run (bb_backend_of E)))
     (io_bind (io_lift (int_of v)) (\<lambda>n.
      let name = bb_text E v @ ''_vu_run_'' @ str_int r; outdir = run_outdir @ ''/'' @ name in
      io_bind (get_script E h (per_driver n (length (nodes (hm_multi h))))) (\<lambda>run_script.
      io_bind (io_map (hm_commands h (hammerdb_command run_script run_outdir outdir)) io_lift) (\<lambda>host_args.
      io_bind (io_lift (hm_timeout h)) (\<lambda>timeout.
      io_seq (pssh_run (ssh N) (task_order N) (\<lambda>c a. Inr a) hosts (CmdStr ''%(cmd)s'') timeout False (Some host_args) False)
     (io_seq (pssh_receive_files (ssh N) (task_order N) hosts (run_outdir @ ''/*'') (hm_text E h ''artifact_dir'' @ ''/'') True)
     (io_bind (sorted_files E (hm_text E h ''artifact_dir'' @ ''/'' @ name @ ''_hdbxtprofile_*.log'')) (\<lambda>fs.
      io_bind (io_map fs (\<lambda>f. io_bind (io_gets (\<lambda>w. bb_read E w f)) (\<lambda>t. io_bind (io_lift t) (\<lambda>s. io_lift (parse_timeprofile (totaltime h) s))))) (\<lambda>ds.
      io_bind (io_lift (all_drivers ds)) (\<lambda>d. io_return (n, d)))))))))))))"

definition csv_header :: string where
  "csv_header = ''concurrency,throughput,avg_latency,p95_latency'' @ [newline]"

definition csv_line :: "(rat \<Rightarrow> string) \<Rightarrow> string \<Rightarrow> vu_data \<Rightarrow> string" where
  "csv_line show v d = v @ '','' @ show (vu_throughput d) @ '','' @ show (vu_avg d) @ '','' @ show (vu_p95 d) @ [newline]"

text \<open>
  The table of one repeat. The loop over the results names their concurrency \<open>t\<close>, and writes \<open>v\<close>, which the loop
  before it has left at its last value.
\<close>

definition repeat_csv :: "(rat \<Rightarrow> string) \<Rightarrow> string \<Rightarrow> (int, vu_data) dict \<Rightarrow> string" where
  "repeat_csv show v repeat_data = csv_header @ concat (map (\<lambda>(t, d). csv_line show v d) repeat_data)"

definition hm_repeat :: "'w bb_env \<Rightarrow> (rat \<Rightarrow> string) \<Rightarrow> hammerdb \<Rightarrow> string \<Rightarrow> pyval list \<Rightarrow> int \<Rightarrow> ('w, exn, (int, vu_data) dict) io" where
  "hm_repeat E show h run_outdir num_vu r =
     io_seq (io_when (truthy (hm_get h ''pre_workload_run'')) (be_pre_workload_run (bb_backend_of E)))
    (io_bind (io_map num_vu (run_vu E h run_outdir r)) (\<lambda>rs.
     let repeat_data = fold (\<lambda>(v, d) dct. dset dct v d) rs [] in
     io_seq (bb_write E (path_join (hm_text E h ''artifact_dir'') (hm_text E h ''workload_name'' @ ''_run_'' @ str_int r @ ''.csv''))
        (repeat_csv show (if num_vu = [] then [] else bb_text E (last num_vu)) repeat_data))
       (io_return repeat_data)))"

definition summary_line :: "(rat \<Rightarrow> string) \<Rightarrow> (int, vu_data) dict list \<Rightarrow> int \<times> string \<Rightarrow> exn + string" where
  "summary_line show data vt =
     (case vt of (v, t) \<Rightarrow>
      (let ds = List.map_filter (\<lambda>d. dget d v) data in
       if ds = [] then Inl PyZeroDivisionError
       else Inr (csv_line show t \<lparr>vu_throughput = sum_list (map vu_throughput ds) / of_nat (length ds),
         vu_avg = sum_list (map vu_avg ds) / of_nat (length ds), vu_p95 = max_of (map vu_p95 ds)\<rparr>)))"

definition hammerdb_run :: "'w bb_env \<Rightarrow> (rat \<Rightarrow> string) \<Rightarrow> hammerdb \<Rightarrow> ('w, exn, unit) io" where
  "hammerdb_run E show h0 =
     (let h = h0\<lparr>phase := ''run''\<rparr> in
      io_bind (io_gets (bb_now E)) (\<lambda>now.
      io_bind (io_lift (int_of (hm_get h ''repeats''))) (\<lambda>repeats.
      io_bind (io_lift (list_of (single_terminal (hm_get h ''num_vu'')))) (\<lambda>num_vu.
      let run_outdir = ''/tmp/'' @ now @ ''_hammerdb_'' @ hm_text E h ''bench'' in
      io_bind (io_map [1..repeats] (hm_repeat E show h run_outdir num_vu)) (\<lambda>data.
      io_bind (io_map num_vu (\<lambda>v. io_bind (io_lift (int_of v)) (\<lambda>k. io_lift (summary_line show data (k, bb_text E v))))) (\<lambda>ls.
      io_seq (bb_write E (path_join (hm_text E h ''artifact_dir'') (hm_text E h ''workload_name'' @ ''_summary.csv'')) (csv_header @ concat ls))
        (if repeats < 1 then io_raise PyUnboundLocalError else io_return ())))))))"

definition hammerdb_cleanup :: "'w bb_env \<Rightarrow> hammerdb \<Rightarrow> ('w, exn, unit) io" where
  "hammerdb_cleanup E h =
     io_bind (run_on_all_nodes (bb_nodes E) (\<lambda>c (a :: unit). Inr c) (hm_multi h)
       (CmdStr (lit ''kill -9 $(pgrep -f ~hammerdbcli~) || true'')) 300 True None False) (\<lambda>_. io_return ())"

definition HAMMERDB_GIT :: string where "HAMMERDB_GIT = ''https://github.com/mariadb-corporation/HammerDB''"

definition hammerdb_install :: "'w node_env \<Rightarrow> node \<Rightarrow> ('w, exn, unit) io" where
  "hammerdb_install N n =
     io_catch [NodeException] BenchmarkException
       (node_exec N n (script_at 12 [''cd $XBENCH_HOME'', ''git clone '' @ HAMMERDB_GIT, ''cd HammerDB'']) False False)"

definition hammerdb_clean :: "'w node_env \<Rightarrow> node \<Rightarrow> ('w, exn, unit) io" where
  "hammerdb_clean N n =
     io_catch [NodeException] BenchmarkException
       (node_exec N n (script_at 12 [''cd $XBENCH_HOME'', ''rm -rf HammerDB'']) False False)"


section \<open>Printed profiles\<close>

text \<open>A profile as HammerDB writes it, with its numbers as digit strings.\<close>

record printed_proc =
  pp_name :: string
  pp_calls :: string
  pp_min :: "string \<times> string"
  pp_avg :: "string \<times> string"
  pp_max :: "string \<times> string"
  pp_total :: "string \<times> string"
  pp_p99 :: "string \<times> string"
  pp_p95 :: "string \<times> string"
  pp_p50 :: "string \<times> string"
  pp_sd :: "string \<times> string"
  pp_ratio :: "string \<times> string"

definition name_line :: "printed_proc \<Rightarrow> string" where
  "name_line p = ''>>>>> PROC: '' @ pp_name p"

definition calls_line :: "printed_proc \<Rightarrow> string" where
  "calls_line p = ''CALLS: '' @ pp_calls p @ '' MIN: '' @ decimal (pp_min p) @ ''ms AVG: '' @ decimal (pp_avg p) @ ''ms MAX: ''
     @ decimal (pp_max p) @ ''ms TOTAL: '' @ decimal (pp_total p) @ ''ms''"

definition p95_line :: "printed_proc \<Rightarrow> string" where
  "p95_line p = ''P99: '' @ decimal (pp_p99 p) @ ''ms P95: '' @ decimal (pp_p95 p) @ ''ms P50: '' @ decimal (pp_p50 p)
     @ ''ms SD: '' @ decimal (pp_sd p) @ '' RATIO: '' @ decimal (pp_ratio p) @ ''%''"

definition print_profile :: "printed_proc list \<Rightarrow> string" where
  "print_profile ps = concat (map (\<lambda>l. l @ [newline])
     (''>>>>> SUMMARY OF ACTIVE VIRTUAL USERS'' # concat (map (\<lambda>p. [name_line p, calls_line p, p95_line p]) ps)))"

definition wf_proc :: "printed_proc \<Rightarrow> bool" where
  "wf_proc p \<longleftrightarrow> pp_name p \<noteq> [] \<and> (\<forall>c \<in> set (pp_name p). \<not> is_space c) \<and> \<not> contains_str (name_line p @ [newline]) ''SUMMARY''
     \<and> digits (pp_calls p) \<and> digits2 (pp_min p) \<and> digits2 (pp_avg p) \<and> digits2 (pp_max p) \<and> digits2 (pp_total p)
     \<and> digits2 (pp_p99 p) \<and> digits2 (pp_p95 p) \<and> digits2 (pp_p50 p) \<and> digits2 (pp_sd p) \<and> digits2 (pp_ratio p)"

definition proc_calls :: "printed_proc \<Rightarrow> nat" where "proc_calls p = nat_of_digits (pp_calls p)"

lemma contains_str_subset: "contains_str s p \<Longrightarrow> set p \<subseteq> set s"
proof (induction s p rule: contains_str.induct)
  case (2 x xs p)
  show ?case
  proof (cases "startswith (x # xs) p")
    case True
    then show ?thesis by (metis startswith_def set_take_subset)
  qed (use 2 in auto)
qed simp

lemma digits_plain: "digits a \<Longrightarrow> c \<in> set a \<Longrightarrow> is_digit c"
  by (auto simp: digits_def list_all_iff)

lemma decimal_plain: "digits2 d \<Longrightarrow> c \<in> set (decimal d) \<Longrightarrow> is_digit c \<or> c = CHR ''.''"
  by (auto simp: digits2_def decimal_def dest: digits_plain)

lemma no_digit: "\<not> is_digit (CHR ''U'')" "\<not> is_digit (CHR ''m'')" "\<not> is_digit (CHR ''%'')" "\<not> is_digit (CHR 0x0A)"
  by (simp_all add: is_digit_def)

lemma lines_not_summary:
  assumes "wf_proc p"
  shows "\<not> contains_str (calls_line p @ [newline]) ''SUMMARY''" "\<not> contains_str (p95_line p @ [newline]) ''SUMMARY''"
proof -
  have u: "CHR ''U'' \<notin> set (decimal d)" if "digits2 d" for d using decimal_plain [OF that, of "CHR ''U''"] no_digit by auto
  have v: "CHR ''U'' \<notin> set (pp_calls p)" using assms digits_plain [of "pp_calls p" "CHR ''U''"] no_digit by (auto simp: wf_proc_def)
  have "CHR ''U'' \<notin> set (calls_line p @ [newline])" "CHR ''U'' \<notin> set (p95_line p @ [newline])"
    using assms v by (auto simp: calls_line_def p95_line_def wf_proc_def u)
  then show "\<not> contains_str (calls_line p @ [newline]) ''SUMMARY''" "\<not> contains_str (p95_line p @ [newline]) ''SUMMARY''"
    by (auto dest!: contains_str_subset)
qed

lemma read_dotted_decimal:
  assumes "digits2 d" and "\<not> is_digit c" and "c \<noteq> CHR ''.''"
  shows "read_dotted (decimal d @ c # s) = Some (decimal d, c # s)"
proof -
  obtain a b where d: "d = (a, b)" "digits a" "digits b" using assms(1) by (cases d) (auto simp: digits2_def)
  let ?f = "\<lambda>c. is_digit c \<or> c = CHR ''.''"
  have t: "takeWhile is_digit (a @ CHR ''.'' # x) = a" "dropWhile is_digit (a @ CHR ''.'' # x) = CHR ''.'' # x" for x
    using d(2) takeWhile_digits [of a "CHR ''.''" x] by (simp_all add: digits_def not_digit_simps)
  have "takeWhile ?f (b @ c # s) = b \<and> dropWhile ?f (b @ c # s) = c # s"
    using d(3) assms(2,3) by (simp add: digits_def list_all_iff)
  with t d show ?thesis by (simp add: read_dotted_def decimal_def digits_def Let_def)
qed

lemma float_text_decimal: "digits2 d \<Longrightarrow> float_text (decimal d) = Inr (dec d)"
proof -
  assume "digits2 d"
  then have "CHR ''.'' \<notin> set (fst d)" "CHR ''.'' \<notin> set (snd d)"
    using digits_plain not_digit_simps(3) by (auto simp: digits2_def)
  then show ?thesis by (simp add: float_text_def decimal_def dec_def split_on_append split_on_no_sep)
qed

lemmas dotted_rules = read_lit_Cons read_lit_Nil read_dotted_decimal no_digit not_digit_simps

lemma spaces_before: "dropWhile is_space (CHR '' '' # c # s) = (if is_space c then dropWhile is_space s else c # s)"
  by (simp add: is_space_simps)

lemma re_calls_printed:
  assumes "wf_proc p"
  shows "re_calls (calls_line p @ [newline]) = Some (proc_calls p, decimal (pp_total p))"
proof -
  have "read_digits (pp_calls p @ CHR '' '' # s) = Some (pp_calls p, CHR '' '' # s)" for s
    using assms by (simp add: wf_proc_def digits_def read_digits_ok not_digit_simps)
  then show ?thesis
    using assms by (simp add: re_calls_def calls_line_def wf_proc_def dotted_rules spaces_before is_space_def proc_calls_def)
qed

lemma re_p95_line_printed:
  "wf_proc p \<Longrightarrow> re_p95_proc (p95_line p @ [newline]) = Some (decimal (pp_p95 p))"
  by (simp add: re_p95_proc_def p95_line_def wf_proc_def dotted_rules spaces_before is_space_def)

lemma other_lines:
  assumes "wf_proc p"
  shows "re_proc (name_line p @ [newline]) = Some (pp_name p)"
    and "re_calls (name_line p @ [newline]) = None" "re_p95_proc (name_line p @ [newline]) = None"
    and "re_p95_proc (calls_line p @ [newline]) = None" "re_calls (p95_line p @ [newline]) = None"
proof -
  have "takeWhile (\<lambda>c. \<not> is_space c) (pp_name p @ [newline]) = pp_name p"
    using assms by (simp add: wf_proc_def is_space_def takeWhile_append2)
  then show "re_proc (name_line p @ [newline]) = Some (pp_name p)"
    using assms by (simp add: re_proc_def name_line_def Let_def read_lit_Cons read_lit_Nil is_space_def wf_proc_def)
qed (simp_all add: re_calls_def re_p95_proc_def name_line_def calls_line_def p95_line_def read_lit_Cons)


lemma no_proc_lines:
  assumes "wf_proc p"
  shows "re_proc (calls_line p @ [newline]) = None" "re_proc (p95_line p @ [newline]) = None"
proof -
  have P: "\<not> is_digit (CHR ''P'')" by (simp add: is_digit_def)
  obtain c cs where "pp_calls p = c # cs" "is_digit c" using assms digits_cases [of "pp_calls p"] by (auto simp: wf_proc_def)
  with P show "re_proc (calls_line p @ [newline]) = None"
    by (auto simp: re_proc_def calls_line_def Let_def read_lit_Cons is_space_def)
  obtain a b where "pp_p99 p = (a, b)" "digits a" using assms by (cases "pp_p99 p") (auto simp: wf_proc_def digits2_def)
  moreover then obtain c cs where "a = c # cs" "is_digit c" using digits_cases by blast
  ultimately show "re_proc (p95_line p @ [newline]) = None"
    using P by (auto simp: re_proc_def p95_line_def decimal_def Let_def read_lit_Cons is_space_def)
qed

lemma profile_proc:
  assumes "wf_proc p" and "in_summary P" and "pp_name p \<notin> fst ` set (calls P)"
    and "pp_name p \<notin> fst ` set (totals P)" "pp_name p \<notin> fst ` set (p95s P)"
  shows "profile_lines (map (\<lambda>l. l @ [newline]) [name_line p, calls_line p, p95_line p] @ ls) P
    = profile_lines ls (P\<lparr>proc := pp_name p, calls := calls P @ [(pp_name p, proc_calls p)],
        totals := totals P @ [(pp_name p, dec (pp_total p))],
        p95s := p95s P @ [(pp_name p, of_nat (proc_calls p) * dec (pp_p95 p))]\<rparr>)"
proof -
  have "dget (calls P @ [(pp_name p, proc_calls p)]) (pp_name p) = Some (proc_calls p)"
    using assms(3) by (auto simp: map_of_append map_add_def map_of_eq_None_iff [THEN iffD2] split: option.split)
  moreover have "\<not> contains_str (name_line p @ [newline]) ''SUMMARY''" "digits2 (pp_total p)" "digits2 (pp_p95 p)"
    using assms(1) by (simp_all add: wf_proc_def)
  ultimately show ?thesis
    using assms by (simp add: profile_line_def read_calls_def read_p95_def Let_def other_lines no_proc_lines re_calls_printed
        re_p95_line_printed lines_not_summary float_text_decimal dset_new)
qed

lemma profile_procs:
  assumes "\<forall>p \<in> set ps. wf_proc p" and "distinct (map pp_name ps)" and "in_summary P"
    and "\<forall>p \<in> set ps. pp_name p \<notin> fst ` set (calls P) \<union> fst ` set (totals P) \<union> fst ` set (p95s P)"
  shows "\<exists>n. profile_lines (map (\<lambda>l. l @ [newline]) (concat (map (\<lambda>p. [name_line p, calls_line p, p95_line p]) ps))) P
    = Inr (P\<lparr>proc := n, calls := calls P @ map (\<lambda>p. (pp_name p, proc_calls p)) ps,
        totals := totals P @ map (\<lambda>p. (pp_name p, dec (pp_total p))) ps,
        p95s := p95s P @ map (\<lambda>p. (pp_name p, of_nat (proc_calls p) * dec (pp_p95 p))) ps\<rparr>)"
  using assms
proof (induction ps arbitrary: P)
  case Nil
  show ?case by (rule exI [of _ "proc P"]) simp
next
  case (Cons p ps)
  let ?P = "P\<lparr>proc := pp_name p, calls := calls P @ [(pp_name p, proc_calls p)],
        totals := totals P @ [(pp_name p, dec (pp_total p))],
        p95s := p95s P @ [(pp_name p, of_nat (proc_calls p) * dec (pp_p95 p))]\<rparr>"
  have "profile_lines (map (\<lambda>l. l @ [newline]) (concat (map (\<lambda>p. [name_line p, calls_line p, p95_line p]) (p # ps)))) P
      = profile_lines (map (\<lambda>l. l @ [newline]) (concat (map (\<lambda>p. [name_line p, calls_line p, p95_line p]) ps))) ?P"
    using profile_proc [of p P] Cons.prems by simp
  moreover have "\<exists>n. profile_lines (map (\<lambda>l. l @ [newline]) (concat (map (\<lambda>p. [name_line p, calls_line p, p95_line p]) ps))) ?P
    = Inr (?P\<lparr>proc := n, calls := calls ?P @ map (\<lambda>p. (pp_name p, proc_calls p)) ps,
        totals := totals ?P @ map (\<lambda>p. (pp_name p, dec (pp_total p))) ps,
        p95s := p95s ?P @ map (\<lambda>p. (pp_name p, of_nat (proc_calls p) * dec (pp_p95 p))) ps\<rparr>)"
  proof (rule Cons.IH)
    show "\<forall>q \<in> set ps. pp_name q \<notin> fst ` set (calls ?P) \<union> fst ` set (totals ?P) \<union> fst ` set (p95s ?P)"
      using Cons.prems(2,4) by (auto simp: image_iff)
  qed (use Cons.prems in simp_all)
  ultimately show ?case by simp
qed

section \<open>Properties\<close>


definition demo_proc :: "string \<Rightarrow> printed_proc" where
  "demo_proc nm = \<lparr>pp_name = nm, pp_calls = ''120'', pp_min = (''0'', ''5''), pp_avg = (''1'', ''5''), pp_max = (''9'', ''0''), pp_total = (''180'', ''0''),
     pp_p99 = (''8'', ''0''), pp_p95 = (''4'', ''0''), pp_p50 = (''1'', ''0''), pp_sd = (''0'', ''3''), pp_ratio = (''50'', ''0'')\<rparr>"


end
