(* ===== verification/XB_Databases.thy ===== *)
theory XB_Databases
  imports XB_Backend
begin

text \<open>
  The single-machine databases: \<^verbatim>\<open>backend/mariadb/\<close>, \<^verbatim>\<open>backend/mysql/\<close> and
  \<^verbatim>\<open>backend/postgresql/\<close>, then TiDB (\<^verbatim>\<open>backend/tidb/\<close>) and the databases that somebody else runs
  (\<^verbatim>\<open>backend/externaldb/\<close>). Each reads its configuration, prepares the machine, installs and
  starts the server, and returns the target that the drivers connect to.

  Parameters are those of \<open>XB_Backend\<close>: the nodes, the client library, the configuration files by name and key, dacite
  for the class of a configuration, jinja2, \<open>str()\<close>, and the temporary files.
\<close>

section \<open>The managed backend of one machine\<close>

record 'w db_env =
  de_nodes :: "'w node_env"
  de_sql :: "'w sql_lib"
  de_jinja :: "string \<Rightarrow> pydict \<Rightarrow> exn + string"
  de_read :: "'w \<Rightarrow> string \<Rightarrow> exn + string"
  de_conf_dir :: string
  de_str :: "pyval \<Rightarrow> string"
  de_key :: "string \<Rightarrow> string \<Rightarrow> exn + pyval"
  de_config :: "string \<Rightarrow> pyval \<Rightarrow> exn + backend_config"
  de_accepted :: "string list"
  de_roundrobin :: "string list \<Rightarrow> string"
  de_certs_dir :: pyval
  de_temp_file :: "string \<Rightarrow> ('w, exn, string) io"

text \<open>The object: its configuration, its machine, and the parameters of its client.\<close>

record db_backend =
  db_config :: backend_config
  db_node :: node
  db_yum :: yum
  db_to_parent :: bool
  db_params :: pydict

definition SingleManagedBackend :: "'w db_env \<Rightarrow> string \<Rightarrow> string \<Rightarrow> backend_dialect \<Rightarrow> backend_product \<Rightarrow> node \<Rightarrow> pydict \<Rightarrow>
    exn + backend_config \<times> yum \<times> bool" where
  "SingleManagedBackend E yaml_file config_klass dia prd n kwargs =
     (case SingleUnManagedBackend (de_key E yaml_file) (de_config E config_klass) dia prd n kwargs of Inl e \<Rightarrow> Inl e | Inr c \<Rightarrow>
     (case PackageManager (os_type (vm n)) of Inl e \<Rightarrow> Inl e | Inr y \<Rightarrow>
        Inr (c, y, truthy (dget_default kwargs ''mount_storage_to_parent'' (VBool False)))))"

definition mysql_backend :: "'w db_env \<Rightarrow> string \<Rightarrow> string \<Rightarrow> backend_product \<Rightarrow> node \<Rightarrow> pydict \<Rightarrow> exn + db_backend" where
  "mysql_backend E yaml_file config_klass prd n kwargs =
     (case SingleManagedBackend E yaml_file config_klass Dialect_mysql prd n kwargs of Inl e \<Rightarrow> Inl e | Inr (c, y, p) \<Rightarrow>
     (case MySqlClient (de_accepted E) (de_roundrobin E) (bc_db c) of Inl e \<Rightarrow> Inl e | Inr params \<Rightarrow>
        Inr \<lparr>db_config = c, db_node = n, db_yum = y, db_to_parent = p, db_params = params\<rparr>))"

definition cfg :: "db_backend \<Rightarrow> string \<Rightarrow> pyval" where
  "cfg b k = dget_default (bc_attrs (db_config b)) k VNone"

definition py_text :: "'w db_env \<Rightarrow> pyval \<Rightarrow> string" where
  "py_text E v = (case v of VStr s \<Rightarrow> s | _ \<Rightarrow> de_str E v)"

definition cfg_text :: "'w db_env \<Rightarrow> db_backend \<Rightarrow> string \<Rightarrow> string" where
  "cfg_text E b k = py_text E (cfg b k)"

definition cfg_dir :: "'w db_env \<Rightarrow> db_backend \<Rightarrow> string" where
  "cfg_dir E b = py_text E (data_dir (db_config b))"

definition target_text :: "'w db_env \<Rightarrow> db_backend \<Rightarrow> string \<Rightarrow> string" where
  "target_text E b k = bt_text (de_str E) (bc_db (db_config b)) k"

definition db_run :: "'w db_env \<Rightarrow> db_backend \<Rightarrow> string \<Rightarrow> ('w, exn, unit) io" where
  "db_run E b cmd = backend_run (de_nodes E) (db_node b) cmd None"

definition db_configure :: "'w db_env \<Rightarrow> db_backend \<Rightarrow> ('w, exn, unit) io" where
  "db_configure E b = single_configure (de_nodes E) (db_node b) (cfg_dir E b) (db_to_parent b)"

text \<open>\<open>asdict\<close> of the configuration.\<close>

definition config_dict :: "backend_config \<Rightarrow> pydict" where
  "config_dict c = [(''db'', VDict (bc_db c)), (''data_dir'', data_dir c)] @ bc_attrs c"

text \<open>The target that the drivers get has the address they connect to.\<close>

definition with_client_address :: "db_backend \<Rightarrow> exn + db_backend" where
  "with_client_address b =
     (case network (vm (db_node b)) of None \<Rightarrow> Inl PyAttributeError
      | Some nw \<Rightarrow> Inr (b\<lparr>db_config := (db_config b)\<lparr>bc_db := dset (bc_db (db_config b)) ''host'' (VStr (get_client_iface nw))\<rparr>\<rparr>))"

section \<open>MariaDB\<close>

definition MARIADB_CONFIG_FILE :: string where "MARIADB_CONFIG_FILE = ''mariadb.yaml''"
definition MARIADB_OS_USER :: string where "MARIADB_OS_USER = ''mysql''"
definition SERVER_CONFIG_DIR :: string where "SERVER_CONFIG_DIR = ''/etc/my.cnf.d''"
definition SERVER_CONFIG_FILE :: string where "SERVER_CONFIG_FILE = SERVER_CONFIG_DIR @ ''/server.cnf''"
definition CERTS_DIRECTORY :: string where "CERTS_DIRECTORY = SERVER_CONFIG_DIR @ ''/certificates''"

text \<open>The three classes differ in \<open>download\<close> only.\<close>

datatype mariadb_class = MariaDB_generic | MariaDBServer | MariaDBEnterprise

definition MariaDB :: "'w db_env \<Rightarrow> node \<Rightarrow> pydict \<Rightarrow> exn + db_backend" where
  "MariaDB E n kwargs = mysql_backend E MARIADB_CONFIG_FILE ''MariaDBConfig'' Product_mariadb n kwargs"

definition server_download :: "'w db_env \<Rightarrow> db_backend \<Rightarrow> ('w, exn, unit) io" where
  "server_download E b =
     io_bind (io_lift (install_pkg_cmd (db_yum b))) (\<lambda>i.
     io_bind (io_lift (enable_repo_cmd (db_yum b))) (\<lambda>r.
       db_run E b (script
         [i @ '' wget'',
          ''wget https://downloads.mariadb.com/MariaDB/mariadb_repo_setup -O mariadb_repo_setup'',
          ''chmod +x mariadb_repo_setup'',
          lit ''./mariadb_repo_setup --mariadb-server-version=~'' @ cfg_text E b ''release'' @ lit ''~ --skip-maxscale --skip-tools'',
          i @ '' perl-DBI libaio libsepol lsof boost-program-options'',
          i @ '' libpmem galera-4.x86_64 || true'',
          r @ ''=mariadb-main clean metadata'',
          i @ '' MariaDB-server MariaDB-client''])))"

definition enterprise_download :: "'w db_env \<Rightarrow> db_backend \<Rightarrow> ('w, exn, unit) io" where
  "enterprise_download E b =
     io_bind (io_lift (install_pkg_cmd (db_yum b))) (\<lambda>i.
       db_run E b (script
         [i @ '' wget'',
          ''wget https://dlm.mariadb.com/enterprise-release-helpers/mariadb_es_repo_setup -O mariadb_es_repo_setup'',
          ''chmod +x mariadb_es_repo_setup'',
          lit ''./mariadb_es_repo_setup --token=~'' @ cfg_text E b ''enterprise_download_token'' @ lit ''~ --apply --mariadb-server-version=~''
            @ cfg_text E b ''release'' @ lit ''~ --skip-maxscale --skip-tools'',
          i @ '' MariaDB-server MariaDB-client'']))"

definition mariadb_download :: "mariadb_class \<Rightarrow> 'w db_env \<Rightarrow> db_backend \<Rightarrow> ('w, exn, unit) io" where
  "mariadb_download k E b = (case k of MariaDB_generic \<Rightarrow> io_return () | MariaDBServer \<Rightarrow> server_download E b
     | MariaDBEnterprise \<Rightarrow> enterprise_download E b)"

text \<open>The buffer pool: four fifths of the memory, or all but four gigabytes when that is less.\<close>

definition mariadb_buffer_pool :: "int \<Rightarrow> int" where
  "mariadb_buffer_pool mb = round_down_to_even (min (of_int mb * 4 / 5) (of_int (mb - 4 * 1024)))"

definition server_config_params :: "db_backend \<Rightarrow> int \<Rightarrow> pydict" where
  "server_config_params b pool = [(''mariadb'', VDict (bc_db (db_config b))), (''system'', VDict [(''buffer_pool_size'', VInt pool)]),
     (''config'', VDict (config_dict (db_config b)))]"

text \<open>The part that MariaDB and MySQL share: the include file, then the template of the server's configuration.\<close>

definition include_script :: "string \<Rightarrow> string" where
  "include_script part = script [''mkdir -p '' @ SERVER_CONFIG_DIR, ''cat << EOF > /etc/my.cnf'', ''['' @ part @ '']'',
     ''!includedir '' @ SERVER_CONFIG_DIR, ''EOF'']"

definition write_server_config :: "'w db_env \<Rightarrow> db_backend \<Rightarrow> string \<Rightarrow> (int \<Rightarrow> int) \<Rightarrow> exn \<Rightarrow> string \<Rightarrow> ('w, exn, unit) io" where
  "write_server_config E b part pool target file =
     io_seq (db_run E b (include_script part))
    (io_bind (memory_mb (de_nodes E) (db_node b)) (\<lambda>m.
     io_catch [FileTemplateException] target
       (io_bind (template_render (de_read E) (de_jinja E) (de_conf_dir E) (cfg_text E b ''cnf_template'')
           (server_config_params b (pool m))) (\<lambda>config.
         db_run E b (script_at 12 [''cat << EOF > '' @ file, config, ''EOF''])))))"

definition set_mariadb_config :: "'w db_env \<Rightarrow> db_backend \<Rightarrow> ('w, exn, unit) io" where
  "set_mariadb_config E b = write_server_config E b ''mariadb'' mariadb_buffer_pool MariaDBException SERVER_CONFIG_FILE"

definition certs_script :: string where
  "certs_script = script_at 12 [''mkdir -p '' @ CERTS_DIRECTORY, ''chown -R mysql:mysql '' @ CERTS_DIRECTORY]"

definition mariadb_copy_certs :: "'w db_env \<Rightarrow> db_backend \<Rightarrow> ('w, exn, unit) io" where
  "mariadb_copy_certs E b =
     (case dget_default (bc_db (db_config b)) ''ssl'' VNone of
        VNone \<Rightarrow> io_return ()
      | v \<Rightarrow> io_seq (db_run E b certs_script)
          (case v of
             VDict files \<Rightarrow> io_for files (\<lambda>(_, file). case file of
                 VStr f \<Rightarrow> send_file (de_nodes E) (db_node b) f (CERTS_DIRECTORY @ ''/'' @ basename f) True
               | _ \<Rightarrow> io_raise PyTypeError)
           | _ \<Rightarrow> io_raise PyAttributeError))"

definition data_dir_script :: "string \<Rightarrow> string" where
  "data_dir_script dir = script [''adduser mysql'', ''rm -rf /var/lib/mysql'', ''ln -s '' @ dir @ '' /var/lib/mysql'',
     ''chown -R mysql:mysql /var/lib/mysql'', ''chown -R mysql:mysql '' @ dir, ''chmod -R 755 '' @ dir]"

definition mariadb_configure :: "'w db_env \<Rightarrow> db_backend \<Rightarrow> ('w, exn, unit) io" where
  "mariadb_configure E b = io_seq (db_configure E b) (io_seq (db_run E b (data_dir_script (cfg_dir E b))) (mariadb_copy_certs E b))"

definition mariadb_start :: "'w db_env \<Rightarrow> db_backend \<Rightarrow> ('w, exn, unit) io" where
  "mariadb_start E b = db_run E b ''systemctl start mariadb''"

definition mariadb_stop :: "'w db_env \<Rightarrow> db_backend \<Rightarrow> ('w, exn, unit) io" where
  "mariadb_stop E b = db_run E b ''systemctl stop mariadb''"

text \<open>A file is sent to the home directory of the machine's user.\<close>

definition send_exporter :: "'w db_env \<Rightarrow> db_backend \<Rightarrow> string \<Rightarrow> ('w, exn, unit) io" where
  "send_exporter E b name =
     io_bind (attribute (node_ssh (db_node b))) (\<lambda>cl.
       send_files (ssh (de_nodes E)) cl (home_dir (de_nodes E) @ ''/metrics/exporters/'' @ name) ''./'' False)"

definition cfg_int :: "db_backend \<Rightarrow> string \<Rightarrow> exn + int" where
  "cfg_int b k = (case cfg b k of VInt i \<Rightarrow> Inr i | _ \<Rightarrow> Inl PyTypeError)"

definition register_exporter :: "'w db_env \<Rightarrow> db_backend \<Rightarrow> string \<Rightarrow> ('w, exn, unit) io" where
  "register_exporter E b name =
     io_bind (io_lift (cfg_int b ''prometheus_port'')) (\<lambda>p. node_register_metric_target (de_nodes E) (db_node b) name p)"

definition exporter_statements :: "string \<Rightarrow> string" where
  "exporter_statements pw = script
     [lit ''CREATE USER IF NOT EXISTS`exporter`@`%` IDENTIFIED BY `'' @ pw @ lit ''` WITH MAX_USER_CONNECTIONS 3;'',
      lit ''GRANT SUPER, PROCESS, REPLICATION CLIENT, SELECT ON *.* TO `exporter`@`%`;'',
      ''flush privileges;'']"

definition mysql_install_exporter :: "'w db_env \<Rightarrow> db_backend \<Rightarrow> string \<Rightarrow> ('w, exn, unit) io" where
  "mysql_install_exporter E b service =
     io_seq (send_exporter E b ''mysqld_exporter'')
    (io_seq (db_run E b (mysql_cli (exporter_statements (target_text E b ''password''))))
    (io_seq (db_run E b (script
       [lit ''export DATA_SOURCE_NAME=~exporter:'' @ target_text E b ''password'' @ ''@(localhost:'' @ target_text E b ''port'' @ lit '')/~;'',
        ''./mysqld_exporter > exporter.log 2>&1 &'']))
      (register_exporter E b service)))"

text \<open>
  What follows the installation: the server starts, gets its database and user, its global
  variables and its exporter, and answers a first connection.
\<close>

definition after_install :: "'w db_env \<Rightarrow> db_backend \<Rightarrow> ('w, exn, unit) io \<Rightarrow> string \<Rightarrow> ('w, exn, db_backend) io" where
  "after_install E b start service =
     io_seq start
    (io_seq (mysql_create_database_and_user (db_run E b) (target_text E b ''database'') (target_text E b ''user'') (target_text E b ''password''))
    (io_seq (case cfg b ''globals'' of
        VDict (g # gs) \<Rightarrow> mysql_set_globals (de_sql E) (de_str E) (db_params b) (g # gs)
      | v \<Rightarrow> io_when (truthy v) (io_seq (mysql_db_connect (de_sql E) (db_params b)) (io_raise PyAttributeError)))
    (io_seq (io_when (truthy (cfg b ''enable_prometheus_exporter'')) (mysql_install_exporter E b service))
    (io_seq (mysql_db_connect (de_sql E) (db_params b))
    (io_seq (mysql_print_db_version (de_sql E))
      (io_lift (with_client_address b)))))))"

definition mariadb_install :: "mariadb_class \<Rightarrow> 'w db_env \<Rightarrow> db_backend \<Rightarrow> ('w, exn, db_backend) io" where
  "mariadb_install k E b =
     io_seq (mariadb_download k E b)
    (io_seq (set_mariadb_config E b)
    (io_seq (db_run E b (script
       [''rm -rf '' @ cfg_dir E b @ ''/*'',
        ''mariadb-install-db --defaults-file='' @ SERVER_CONFIG_FILE @ '' --auth-root-authentication-method=socket --user=''
          @ MARIADB_OS_USER @ '' --basedir=/usr --datadir='' @ cfg_dir E b @ '' --skip-test-db'']))
      (after_install E b (mariadb_start E b) ''mariadb_exporter'')))"

definition server_clean :: "'w db_env \<Rightarrow> db_backend \<Rightarrow> ('w, exn, unit) io \<Rightarrow> ('w, exn, unit) io" where
  "server_clean E b stop =
     io_seq stop (io_seq (db_run E b (script [''rm -rf '' @ cfg_dir E b @ ''/*''])) (db_run E b ''pkill -9 mysqld_exporter''))"

definition mariadb_clean :: "'w db_env \<Rightarrow> db_backend \<Rightarrow> ('w, exn, unit) io" where
  "mariadb_clean E b = server_clean E b (mariadb_stop E b)"

section \<open>MySQL\<close>

definition MYSQL_MAJOR_VERSION :: string where "MYSQL_MAJOR_VERSION = ''80''"
definition MYSQL_CONFIG_FILE :: string where "MYSQL_CONFIG_FILE = ''mysql.yaml''"
definition MYSQL_OS_USER :: string where "MYSQL_OS_USER = ''mysql''"
definition MYSQL_SERVER_CONFIG_FILE :: string where "MYSQL_SERVER_CONFIG_FILE = SERVER_CONFIG_DIR @ ''/my.cnf''"

text \<open>The parameters of the workload and of the command line do not reach the base class.\<close>

definition MySQLServer :: "'w db_env \<Rightarrow> node \<Rightarrow> pydict \<Rightarrow> exn + db_backend" where
  "MySQLServer E n kwargs = mysql_backend E MYSQL_CONFIG_FILE ''MySqlDBConfig'' Product_mysql n []"

definition mysql_download :: "'w db_env \<Rightarrow> db_backend \<Rightarrow> ('w, exn, unit) io" where
  "mysql_download E b =
     (let y = db_yum b; v = version_number y in
      io_seq (io_when (v = ''8'') (io_bind (io_lift (disable_module_cmd y)) (\<lambda>d. db_run E b (d @ '' mysql''))))
     (io_bind (io_lift (install_local_pkg_cmd y)) (\<lambda>l.
      io_bind (io_lift (enable_repo_cmd y)) (\<lambda>r.
      io_bind (io_lift (install_pkg_cmd y)) (\<lambda>i.
        db_run E b (script
          [''wget https://repo.mysql.com/mysql80-community-release-el'' @ v @ ''.rpm'',
           l @ '' mysql'' @ MYSQL_MAJOR_VERSION @ ''-community-release-el'' @ v @ ''.rpm'',
           r @ ''=mysql'' @ MYSQL_MAJOR_VERSION @ ''-community clean metadata'',
           i @ '' mysql*'' @ cfg_text E b ''release'' @ ''*'']))))))"

definition mysql_buffer_pool :: "int \<Rightarrow> int" where
  "mysql_buffer_pool mb = round_down_to_even (max (of_int mb * 4 / 5) (of_int (mb - 10 * 1024)))"

definition set_mysql_config :: "'w db_env \<Rightarrow> db_backend \<Rightarrow> ('w, exn, unit) io" where
  "set_mysql_config E b = write_server_config E b ''mysql'' mysql_buffer_pool MySqlDBException MYSQL_SERVER_CONFIG_FILE"

definition mysql_copy_certs :: "'w db_env \<Rightarrow> db_backend \<Rightarrow> ('w, exn, unit) io" where
  "mysql_copy_certs E b =
     io_seq (db_run E b (script [''mkdir -p '' @ CERTS_DIRECTORY, ''chown -R mysql:mysql '' @ CERTS_DIRECTORY]))
       (io_for [''server-cert.pem'', ''server-key.pem'', ''ca.pem''] (\<lambda>file. case de_certs_dir E of
            VStr d \<Rightarrow> send_file (de_nodes E) (db_node b) (path_join d file) (CERTS_DIRECTORY @ ''/'' @ file) True
          | _ \<Rightarrow> io_raise PyTypeError))"

definition mysql_configure :: "'w db_env \<Rightarrow> db_backend \<Rightarrow> ('w, exn, unit) io" where
  "mysql_configure E b = io_seq (db_configure E b) (db_run E b (data_dir_script (cfg_dir E b)))"

definition mysql_start :: "'w db_env \<Rightarrow> db_backend \<Rightarrow> ('w, exn, unit) io" where
  "mysql_start E b = db_run E b ''systemctl start mysqld''"

definition mysql_stop :: "'w db_env \<Rightarrow> db_backend \<Rightarrow> ('w, exn, unit) io" where
  "mysql_stop E b = db_run E b ''systemctl stop mysqld''"

definition mysql_install :: "'w db_env \<Rightarrow> db_backend \<Rightarrow> ('w, exn, db_backend) io" where
  "mysql_install E b =
     io_seq (mysql_download E b)
    (io_seq (set_mysql_config E b)
    (io_seq (db_run E b (script
       [''rm -rf '' @ cfg_dir E b @ ''/*'',
        ''mysqld --defaults-file='' @ MYSQL_SERVER_CONFIG_FILE @ '' --user='' @ MYSQL_OS_USER @ '' --basedir=/usr --datadir=''
          @ cfg_dir E b @ ''  --initialize-insecure'']))
      (after_install E b (mysql_start E b) ''mysql_exporter'')))"

definition mysql_clean :: "'w db_env \<Rightarrow> db_backend \<Rightarrow> ('w, exn, unit) io" where
  "mysql_clean E b = server_clean E b (mysql_stop E b)"


section \<open>PostgreSQL\<close>

definition POSTGRES_CONFIG_FILE :: string where "POSTGRES_CONFIG_FILE = ''postgres.yaml''"

text \<open>The parameters do not reach the base class here either. \<open>postgres\<close> is the product's name for AlloyDB too.\<close>

definition PostgreSQLDB :: "'w db_env \<Rightarrow> node \<Rightarrow> pydict \<Rightarrow> exn + db_backend" where
  "PostgreSQLDB E n kwargs =
     (case SingleManagedBackend E POSTGRES_CONFIG_FILE ''PGConfig'' Dialect_pgsql Product_alloydb n [] of Inl e \<Rightarrow> Inl e | Inr (c, y, p) \<Rightarrow>
     (case PgSqlClient (de_roundrobin E) (bc_db c) of Inl e \<Rightarrow> Inl e | Inr params \<Rightarrow>
        Inr \<lparr>db_config = c, db_node = n, db_yum = y, db_to_parent = p, db_params = params\<rparr>))"

definition pg_run_as :: "'w db_env \<Rightarrow> db_backend \<Rightarrow> string \<Rightarrow> ('w, exn, unit) io" where
  "pg_run_as E b cmd = backend_run (de_nodes E) (db_node b) cmd (Some ''postgres'')"

definition allow_remote_connections :: "'w db_env \<Rightarrow> db_backend \<Rightarrow> ('w, exn, unit) io" where
  "allow_remote_connections E b = pg_run_as E b
     (lit ''echo ~host    all             all             0.0.0.0/0               scram-sha-256~ >> '' @ cfg_dir E b @ ''/pg_hba.conf'')"

text \<open>
  The settings: the memory and the number of processors are asked for again at every use, the latter a second time
  for few processors.
\<close>

definition pg_connections :: "'w db_env \<Rightarrow> db_backend \<Rightarrow> ('w, exn, int) io" where
  "pg_connections E b =
     io_bind (nproc (de_nodes E) (db_node b)) (\<lambda>n.
       if n * 8 + 10 < 256 then io_bind (nproc (de_nodes E) (db_node b)) (\<lambda>m. io_return (256 + m)) else io_return (n * 8 + 10))"

definition pg_settings :: "'w db_env \<Rightarrow> db_backend \<Rightarrow> ('w, exn, pydict) io" where
  "pg_settings E b =
     io_bind (memory_mb (de_nodes E) (db_node b)) (\<lambda>m.
     let shared_buffers = round_down_to_even (of_int m / 4) in
     io_bind (pg_connections E b) (\<lambda>max_connections.
     if max_connections = 0 then io_raise PyZeroDivisionError else
     io_bind (memory_mb (de_nodes E) (db_node b)) (\<lambda>m2.
     io_bind (nproc (de_nodes E) (db_node b)) (\<lambda>np.
       io_return [(''port'', dget_default (bc_db (db_config b)) ''port'' VNone), (''shared_buffers'', VInt shared_buffers),
         (''max_connections'', VInt max_connections),
         (''work_mem'', VInt (round_down_to_even (of_int shared_buffers / of_int max_connections))),
         (''effective_cache_size'', VInt (round_down_to_even (of_int m2 * 3 / 4))), (''max_worker_processes'', VInt np)]))))"

text \<open>The file is put under \<^verbatim>\<open>/data/postgres\<close>, wherever the data directory is.\<close>

definition finalize_postgresql_conf :: "'w db_env \<Rightarrow> db_backend \<Rightarrow> ('w, exn, unit) io" where
  "finalize_postgresql_conf E b =
     io_bind (pg_settings E b) (\<lambda>s.
     io_bind (template_render (de_read E) (de_jinja E) (de_conf_dir E) (cfg_text E b ''conf_file_template'') s) (\<lambda>config.
     io_bind (de_temp_file E config) (\<lambda>f.
     io_seq (scp_file (de_nodes E) (db_node b) f ''/tmp/postgresql.conf'')
    (io_seq (db_run E b ''mv /tmp/postgresql.conf /data/postgres/postgresql.conf'')
      (db_run E b ''chown postgres:postgres /data/postgres/postgresql.conf'')))))"

definition pg_yum_run :: "'w db_env \<Rightarrow> db_backend \<Rightarrow> (yum \<Rightarrow> exn + string) \<Rightarrow> string \<Rightarrow> ('w, exn, unit) io" where
  "pg_yum_run E b pm rest =
     io_bind (attribute (node_yum (db_node b))) (\<lambda>y. io_bind (io_lift (pm y)) (\<lambda>c. db_run E b (c @ rest)))"

definition install_repo :: "'w db_env \<Rightarrow> db_backend \<Rightarrow> ('w, exn, unit) io" where
  "install_repo E b = pg_yum_run E b install_pkg_cmd
     ('' https://download.postgresql.org/pub/repos/yum/reporpms/EL-'' @ version_number (db_yum b) @ ''-x86_64/pgdg-redhat-repo-latest.noarch.rpm'')"

definition package_installation :: "'w db_env \<Rightarrow> db_backend \<Rightarrow> ('w, exn, unit) io" where
  "package_installation E b =
     io_bind (io_lift (disable_module_cmd (db_yum b))) (\<lambda>d.
     io_seq (db_run E b (d @ '' postgresql''))
       (pg_yum_run E b install_pkg_cmd ('' postgresql'' @ cfg_text E b ''version'' @ ''-server'')))"

definition setup_pgdata :: "'w db_env \<Rightarrow> db_backend \<Rightarrow> ('w, exn, unit) io" where
  "setup_pgdata E b =
     (let d = cfg_dir E b; s = ''/etc/systemd/system/postgresql-'' @ cfg_text E b ''version'' @ ''.service.d'' in
      io_for [''mkdir -p '' @ d @ ''; rm -rf '' @ d @ ''/*'', ''chown -R postgres:postgres '' @ d, ''mkdir -p '' @ s,
              lit ''echo ~[Service]'' @ [newline] @ ''Environment=PGDATA='' @ d @ lit ''~ > '' @ s @ ''/override.conf'']
        (db_run E b))"

definition initdb :: "'w db_env \<Rightarrow> db_backend \<Rightarrow> ('w, exn, unit) io" where
  "initdb E b = pg_run_as E b (''/usr/pgsql-'' @ cfg_text E b ''version'' @ ''/bin/initdb -D '' @ cfg_dir E b)"

definition pg_configure :: "'w db_env \<Rightarrow> db_backend \<Rightarrow> ('w, exn, unit) io" where
  "pg_configure E b =
     io_seq (db_configure E b) (io_seq (install_repo E b) (io_seq (package_installation E b) (io_seq (setup_pgdata E b)
       (io_seq (initdb E b) (io_seq (allow_remote_connections E b) (finalize_postgresql_conf E b))))))"

definition pg_service :: "'w db_env \<Rightarrow> db_backend \<Rightarrow> string \<Rightarrow> ('w, exn, unit) io" where
  "pg_service E b verb = db_run E b (''systemctl '' @ verb @ '' postgresql-'' @ cfg_text E b ''version'')"

definition pg_create_database_and_user :: "'w db_env \<Rightarrow> db_backend \<Rightarrow> ('w, exn, unit) io" where
  "pg_create_database_and_user E b =
     node_exec (de_nodes E) (db_node b) (pgsql_cli (script
       [''CREATE DATABASE '' @ target_text E b ''database'' @ '';'',
        ''CREATE ROLE '' @ target_text E b ''user'' @ lit '' WITH SUPERUSER LOGIN PASSWORD `'' @ target_text E b ''password'' @ lit ''`;''])) False False"

definition install_and_run_exporter :: "'w db_env \<Rightarrow> db_backend \<Rightarrow> ('w, exn, unit) io" where
  "install_and_run_exporter E b =
     io_seq (send_exporter E b ''postgres_exporter'')
    (io_seq (db_run E b (lit ''DATA_SOURCE_NAME=~user=postgres host=/var/run/postgresql/ sslmode=disable~ ./postgres_exporter --web.listen-address=`:''
         @ cfg_text E b ''prometheus_port'' @ lit ''` > ./exporter.log 2>&1 &''))
      (register_exporter E b ''postgres_exporter''))"

definition pg_install :: "'w db_env \<Rightarrow> db_backend \<Rightarrow> ('w, exn, db_backend) io" where
  "pg_install E b =
     io_seq (pg_service E b ''start'')
    (io_seq (pg_create_database_and_user E b)
    (io_seq (install_and_run_exporter E b)
    (io_seq (pgsql_db_connect (de_sql E) (db_params b))
    (io_seq (pgsql_print_db_version (de_sql E)) (io_lift (with_client_address b))))))"

definition pg_clean :: "'w db_env \<Rightarrow> db_backend \<Rightarrow> ('w, exn, unit) io" where
  "pg_clean E b =
     io_seq (pg_service E b ''stop'')
    (io_seq (db_run E b (''rm -rf '' @ cfg_dir E b)) (pg_yum_run E b remove_pkg_cmd ('' postgresql-'' @ cfg_text E b ''version'')))"

section \<open>TiDB\<close>

definition TIDB_CONFIG_FILE :: string where "TIDB_CONFIG_FILE = ''tidb.yaml''"

definition ssh_cmd :: string where
  "ssh_cmd = join [newline] [[], lit ''    sed -i ~s/'' @ [CHR 0x5C] @ lit ''#MaxSessions 10/MaxSessions 20/g~ /etc/ssh/sshd_config'',
     ''    systemctl restart sshd'', []]"

record multi_backend =
  mb_config :: backend_config
  mb_multi :: multi_node
  mb_params :: pydict

text \<open>Storage and placement nodes (\<open>TiKV\<close>, \<open>TiPD\<close>) are managed; the database nodes have a client.\<close>

definition TiKV :: "'w db_env \<Rightarrow> node list \<Rightarrow> pydict \<Rightarrow> exn + multi_backend" where
  "TiKV E ns kwargs =
     (case MultiUnManagedBackend (de_key E TIDB_CONFIG_FILE) (de_config E ''TiDBConfig'') Dialect_mysql Product_tidb (pem_dir (de_nodes E)) ns [] of
        Inl e \<Rightarrow> Inl e | Inr (m, c) \<Rightarrow> Inr \<lparr>mb_config = c, mb_multi = m, mb_params = []\<rparr>)"

definition TiDB :: "'w db_env \<Rightarrow> node list \<Rightarrow> pydict \<Rightarrow> exn + multi_backend" where
  "TiDB E ns kwargs =
     (case TiKV E ns kwargs of Inl e \<Rightarrow> Inl e | Inr b \<Rightarrow>
     (case MySqlClient (de_accepted E) (de_roundrobin E) (bc_db (mb_config b)) of Inl e \<Rightarrow> Inl e | Inr params \<Rightarrow> Inr (b\<lparr>mb_params := params\<rparr>)))"

definition more_sessions :: "'w db_env \<Rightarrow> multi_backend \<Rightarrow> ('w, exn, unit) io" where
  "more_sessions E b = io_bind (run_on_all_nodes (de_nodes E) (\<lambda>c (a :: unit). Inr c) (mb_multi b) (CmdStr ssh_cmd) 300 True None False) (\<lambda>_. io_return ())"

text \<open>\<open>return\<close> in the \<open>finally\<close> clause: whatever the command raised is dropped, an interrupt too.\<close>

definition tikv_configure :: "'w db_env \<Rightarrow> multi_backend \<Rightarrow> ('w, exn, unit) io" where
  "tikv_configure E b w =
     (case more_sessions E b w of (_, w') \<Rightarrow> multi_configure (de_nodes E) (mb_multi b) (py_text E (data_dir (mb_config b))) False w')"

definition tidb_configure :: "'w db_env \<Rightarrow> multi_backend \<Rightarrow> ('w, exn, unit) io" where
  "tidb_configure E b = io_try (more_sessions E b) (\<lambda>e. isinstance_exn e PyException) (\<lambda>e. io_return ())"

definition tidb_install :: "multi_backend \<Rightarrow> ('w, exn, backend_target) io" where
  "tidb_install b = io_return (bc_db (mb_config b))"

section \<open>External databases\<close>

definition EXTERNAL_DB_CONFIG_FILE :: string where "EXTERNAL_DB_CONFIG_FILE = ''externaldb.yaml''"

text \<open>A database the tool has no machine of: configuration, node and client.\<close>

record served_db =
  sd_config :: backend_config
  sd_node :: node
  sd_params :: pydict

definition served_mysql :: "'w db_env \<Rightarrow> string \<Rightarrow> string \<Rightarrow> backend_product \<Rightarrow> node \<Rightarrow> pydict \<Rightarrow> exn + served_db" where
  "served_mysql E yaml_file config_klass prd n kwargs =
     (case SingleUnManagedBackend (de_key E yaml_file) (de_config E config_klass) Dialect_mysql prd n kwargs of Inl e \<Rightarrow> Inl e | Inr c \<Rightarrow>
     (case MySqlClient (de_accepted E) (de_roundrobin E) (bc_db c) of Inl e \<Rightarrow> Inl e | Inr params \<Rightarrow>
        Inr \<lparr>sd_config = c, sd_node = n, sd_params = params\<rparr>))"

text \<open>The host is set once more to the address it has; the two classes differ in their base class only.\<close>

definition ExternalMysqlDB :: "'w db_env \<Rightarrow> node \<Rightarrow> pydict \<Rightarrow> exn + served_db" where
  "ExternalMysqlDB E n kwargs = served_mysql E EXTERNAL_DB_CONFIG_FILE ''ExternalDBConfig'' Product_mysql n kwargs"

definition ExternalXpand :: "'w db_env \<Rightarrow> node \<Rightarrow> pydict \<Rightarrow> exn + served_db" where
  "ExternalXpand E n kwargs = served_mysql E EXTERNAL_DB_CONFIG_FILE ''ExternalDBConfig'' Product_mysql n kwargs"

definition served_install :: "served_db \<Rightarrow> backend_target" where
  "served_install b = bc_db (sd_config b)"

section \<open>Lemmas\<close>

lemma dset_twice: "dset (dset d k v) k u = dset d k u"
  by (induction d) auto

lemma dset_same: "dget d k = Some v \<Longrightarrow> dset d k v = d"
  by (induction d) auto

section \<open>Properties\<close>

text \<open>
  The buffer pools. That of MariaDB leaves four gigabytes and a fifth of the memory free, so it is negative on a
  machine with less than four gigabytes; that of MySQL is at least four fifths of the memory and
  less than all of it. Both are even, and within two megabytes of their limits.
\<close>

theorem buffer_pool_bounds:
  fixes m :: int
  shows "even (mariadb_buffer_pool m) \<and> even (mysql_buffer_pool m)
    \<and> mariadb_buffer_pool m \<le> m - 4096 \<and> 5 * mariadb_buffer_pool m \<le> 4 * m
    \<and> (m - 4096 < mariadb_buffer_pool m + 2 \<or> 4 * m < 5 * mariadb_buffer_pool m + 10)
    \<and> (0 \<le> m \<longrightarrow> 4 * m < 5 * mysql_buffer_pool m + 10 \<and> mysql_buffer_pool m \<le> m)
    \<and> (m < 4096 \<longrightarrow> mariadb_buffer_pool m < 0)"
proof -
  let ?a = "min (of_int m * 4 / 5) (of_int (m - 4 * 1024)) :: rat" and ?b = "max (of_int m * 4 / 5) (of_int (m - 10 * 1024)) :: rat"
  define p where "p = mariadb_buffer_pool m"
  define q where "q = mysql_buffer_pool m"
  have p: "even p" "of_int p \<le> ?a" "?a < of_int p + 2"
    using round_down_to_even_spec [of ?a] by (simp_all add: p_def mariadb_buffer_pool_def)
  have q: "even q" "of_int q \<le> ?b" "?b < of_int q + 2"
    using round_down_to_even_spec [of ?b] by (simp_all add: q_def mysql_buffer_pool_def)
  have p1: "of_int p \<le> (of_int m * 4 / 5 :: rat)" "(of_int p :: rat) \<le> of_int (m - 4096)" using p(2) by simp_all
  then have "(of_int (5 * p) :: rat) \<le> of_int (4 * m)" "p \<le> m - 4096" by simp_all
  then have p2: "5 * p \<le> 4 * m" "p \<le> m - 4096" by (simp_all only: of_int_le_iff)
  have "(of_int m * 4 / 5 :: rat) < of_int p + 2 \<or> (of_int (m - 4096) :: rat) < of_int p + 2" using p(3) by (auto simp: min_def split: if_splits)
  then have "(of_int (4 * m) :: rat) < of_int (5 * p + 10) \<or> (of_int (m - 4096) :: rat) < of_int (p + 2)" by (auto simp: field_simps)
  then have p3: "m - 4096 < p + 2 \<or> 4 * m < 5 * p + 10" by (auto simp only: of_int_less_iff)
  have "(of_int m * 4 / 5 :: rat) < of_int q + 2" using q(3) by simp
  then have "(of_int (4 * m) :: rat) < of_int (5 * q + 10)" by (simp add: field_simps)
  then have q2: "4 * m < 5 * q + 10" by (simp only: of_int_less_iff)
  have q3: "q \<le> m" if "0 \<le> m"
  proof -
    have "(of_int m * 4 / 5 :: rat) \<le> of_int m" "(of_int (m - 10 * 1024) :: rat) \<le> of_int m" using that by simp_all
    then have "(of_int q :: rat) \<le> of_int m" using q(2) by linarith
    then show ?thesis by (simp only: of_int_le_iff)
  qed
  show ?thesis unfolding p_def [symmetric] q_def [symmetric] using p(1) q(1) p2 p3 q2 q3 by auto
qed

theorem buffer_pool_bounds_witness: "mariadb_buffer_pool 2048 < 0 \<and> mysql_buffer_pool 2048 = 1638"
proof -
  have "floor (8192 / 5 :: rat) = 1638" by (simp add: floor_eq_iff)
  then have "mysql_buffer_pool 2048 = 1638" by (simp add: mysql_buffer_pool_def round_down_to_even_def Let_def)
  moreover have "mariadb_buffer_pool 2048 < 0" using buffer_pool_bounds [of 2048] by simp
  ultimately show ?thesis by simp
qed

text \<open>
  What an installation hands to the drivers: the target of the configuration, unchanged but for the host, which is
  the address the drivers connect to. (The nodes with a private network are addressed by their public address.)
\<close>

lemma io_seq_result: "io_seq m n u = (Inr y, w') \<Longrightarrow> \<exists>v. n v = (Inr y, w')"
  by (auto simp: io_defs split: prod.splits sum.splits)

theorem install_target:
  assumes "mariadb_install k E b w = (Inr b', w')"
  shows "\<exists>nw. network (vm (db_node b)) = Some nw
    \<and> bc_db (db_config b') = dset (bc_db (db_config b)) ''host'' (VStr (get_client_iface nw))
    \<and> data_dir (db_config b') = data_dir (db_config b) \<and> bc_attrs (db_config b') = bc_attrs (db_config b)"
proof -
  obtain v where "io_lift (with_client_address b) v = (Inr b', w')"
    using assms unfolding mariadb_install_def after_install_def by (auto dest!: io_seq_result)
  then show ?thesis by (auto simp: io_lift_def with_client_address_def split: option.splits)
qed

text \<open>
  The preparation of TiDB's nodes never fails by an \<open>Exception\<close>, whatever the nodes answer: the command that raises
  the number of ssh sessions may have run on all of them, on some or on none.
\<close>

theorem tidb_configure_never_fails:
  "fst (tidb_configure E b w) = Inr () \<or> (\<exists>e. fst (tidb_configure E b w) = Inl e \<and> \<not> isinstance_exn e PyException)"
  by (auto simp: tidb_configure_def io_defs split: prod.splits sum.splits)

text \<open>An environment for the witnesses of the theories that build on this one.\<close>

definition demo_db_env :: "'w sql_lib \<Rightarrow> 'w node_env \<Rightarrow> 'w db_env" where
  "demo_db_env L N = \<lparr>de_nodes = N, de_sql = L, de_jinja = (\<lambda>t d. Inr t), de_read = (\<lambda>w f. Inl PyFileNotFoundError),
     de_conf_dir = ''/conf'', de_str = (\<lambda>v. []), de_key = (\<lambda>f k. Inr VNone), de_config = (\<lambda>k v. Inr demo_backend_config),
     de_accepted = [''host'', ''port'', ''user'', ''password'', ''database''], de_roundrobin = hd, de_certs_dir = VNone,
     de_temp_file = (\<lambda>s. io_return ''/tmp/f'')\<rparr>"

end
