(* ===== verification/XB_Managed.thy ===== *)
theory XB_Managed
  imports XB_Databases XB_Aws
begin

text \<open>
  Databases that a vendor runs: the backends (\<^verbatim>\<open>backend/aurora/\<close>, \<^verbatim>\<open>backend/rds/\<close>,
  \<^verbatim>\<open>backend/skysql/\<close>, \<^verbatim>\<open>backend/alloydb/\<close>), and what creates and deletes those of Amazon
  (\<^verbatim>\<open>cloud/aws/aws_aurora_*.py\<close>, \<^verbatim>\<open>cloud/aws/aws_rds_*.py\<close>).

  The provider builds a backend for the settings of its configuration only, and waits for the states of the
  database with the \<open>retry\<close> decorator. The processes, JSON, \<open>str\<close>, dacite and the class loader are parameters.
\<close>

section \<open>Backends over a client of the database\<close>

definition AURORA_MYSQL_CONFIG_FILE :: string where "AURORA_MYSQL_CONFIG_FILE = ''aurora_mysql.yaml''"
definition AURORA_PGSQL_CONFIG_FILE :: string where "AURORA_PGSQL_CONFIG_FILE = ''aurora_postgresql.yaml''"
definition RDS_CONFIG_FILE :: string where "RDS_CONFIG_FILE = ''rds.yaml''"

text \<open>The parameters of the constructors are not passed on.\<close>

definition AuroraMySql :: "'w db_env \<Rightarrow> node \<Rightarrow> pydict \<Rightarrow> exn + served_db" where
  "AuroraMySql E n kwargs = served_mysql E AURORA_MYSQL_CONFIG_FILE ''AuroraMySqlConfig'' Product_aurora_mysql n []"

definition RdsMySql :: "'w db_env \<Rightarrow> node \<Rightarrow> pydict \<Rightarrow> exn + served_db" where
  "RdsMySql E n kwargs = served_mysql E RDS_CONFIG_FILE ''RdsMySqlConfig'' Product_mariadb n []"

definition AuroraPostgreSql :: "'w db_env \<Rightarrow> node \<Rightarrow> pydict \<Rightarrow> exn + served_db" where
  "AuroraPostgreSql E n kwargs =
     (case SingleUnManagedBackend (de_key E AURORA_PGSQL_CONFIG_FILE) (de_config E ''AuroraPostgreSqlConfig'') Dialect_pgsql
         Product_aurora_postgres n [] of Inl e \<Rightarrow> Inl e | Inr c \<Rightarrow>
     (case PgSqlClient (de_roundrobin E) (bc_db c) of Inl e \<Rightarrow> Inl e | Inr params \<Rightarrow>
        Inr \<lparr>sd_config = c, sd_node = n, sd_params = params\<rparr>))"

text \<open>
  \<open>configure\<close>: the client connects without the database (or to the one that is always there) to create it. The
  parameters of the connection change in between, so the object goes along with the world.
\<close>

definition set_sd_database :: "pyval \<Rightarrow> served_db \<Rightarrow> served_db" where
  "set_sd_database v b = b\<lparr>sd_params := dset (sd_params b) ''database'' v\<rparr>"

definition create_database_from :: "pyval \<Rightarrow> (pydict \<Rightarrow> ('w, exn, unit) io) \<Rightarrow> ('w, exn, unit) io \<Rightarrow>
    ('w \<times> served_db, exn, unit) io" where
  "create_database_from first_db connect query =
     io_bind (io_gets snd) (\<lambda>b.
     io_bind (io_lift (case dget (sd_params b) ''database'' of None \<Rightarrow> Inl PyKeyError | Some v \<Rightarrow> Inr v)) (\<lambda>database.
     io_seq (upd (set_sd_database first_db))
    (io_seq (io_bind (io_gets snd) (\<lambda>b. on_world (connect (sd_params b))))
    (io_seq (on_world query)
      (upd (set_sd_database database))))))"

definition sd_target_text :: "'w db_env \<Rightarrow> served_db \<Rightarrow> string \<Rightarrow> string" where
  "sd_target_text E b k = bt_text (de_str E) (bc_db (sd_config b)) k"

definition aurora_mysql_configure :: "'w db_env \<Rightarrow> ('w \<times> served_db, exn, unit) io" where
  "aurora_mysql_configure E =
     io_bind (io_gets snd) (\<lambda>b. create_database_from VNone (mysql_db_connect (de_sql E))
       (io_bind (mysql_execute (de_sql E) (''create database if not exists '' @ sd_target_text E b ''database'')) (\<lambda>_. io_return ())))"

definition aurora_pgsql_configure :: "'w db_env \<Rightarrow> ('w \<times> served_db, exn, unit) io" where
  "aurora_pgsql_configure E =
     io_bind (io_gets snd) (\<lambda>b. create_database_from (VStr ''postgres'') (pgsql_db_connect (de_sql E))
       (io_bind (pgsql_execute (de_sql E) (''create database '' @ sd_target_text E b ''database'')) (\<lambda>_. io_return ())))"

definition rds_configure :: "'w db_env \<Rightarrow> ('w \<times> served_db, exn, unit) io" where
  "rds_configure E =
     io_bind (io_gets snd) (\<lambda>b. create_database_from VNone (mysql_db_connect (de_sql E))
       (io_bind (mysql_execute (de_sql E) (''create database if not exists '' @ sd_target_text E b ''database'')) (\<lambda>_. io_return ())))"

text \<open>\<open>install\<close> connects, and hands out the target with the address of the drivers.\<close>

definition client_target :: "served_db \<Rightarrow> exn + backend_target" where
  "client_target b = (case network (vm (sd_node b)) of None \<Rightarrow> Inl PyAttributeError
     | Some nw \<Rightarrow> Inr (dset (bc_db (sd_config b)) ''host'' (VStr (get_client_iface nw))))"

definition aurora_mysql_install :: "'w db_env \<Rightarrow> served_db \<Rightarrow> ('w, exn, backend_target) io" where
  "aurora_mysql_install E b =
     io_seq (mysql_db_connect (de_sql E) (sd_params b)) (io_seq (mysql_print_db_version (de_sql E)) (io_lift (client_target b)))"

definition aurora_pgsql_install :: "'w db_env \<Rightarrow> served_db \<Rightarrow> ('w, exn, backend_target) io" where
  "aurora_pgsql_install E b =
     io_seq (pgsql_db_connect (de_sql E) (sd_params b)) (io_seq (pgsql_print_db_version (de_sql E)) (io_lift (client_target b)))"

definition rds_install :: "'w db_env \<Rightarrow> served_db \<Rightarrow> ('w, exn, backend_target) io" where
  "rds_install E b =
     io_seq (mysql_db_connect (de_sql E) (sd_params b)) (io_seq (mysql_print_db_version (de_sql E)) (io_lift (client_target b)))"

section \<open>SkySQL\<close>

text \<open>Nothing to prepare: the target is that of the configuration, with the public address of the service.\<close>

definition SkySQLMariaDB :: "'w db_env \<Rightarrow> node \<Rightarrow> pydict \<Rightarrow> exn + served_db" where
  "SkySQLMariaDB E n kwargs = served_mysql E MARIADB_CONFIG_FILE ''MariaDBConfig'' Product_mariadb n []"

definition SkySQLXpand :: "'w db_env \<Rightarrow> node \<Rightarrow> pydict \<Rightarrow> exn + served_db" where
  "SkySQLXpand E n kwargs = served_mysql E ''xpand.yaml'' ''XpandConfig'' Product_xpand n []"

definition SkySQLXgres :: "'w db_env \<Rightarrow> node \<Rightarrow> pydict \<Rightarrow> exn + served_db" where
  "SkySQLXgres E n kwargs = served_mysql E ''xpand.yaml'' ''XpandConfig'' Product_xgres n []"

definition sky_grants :: string where
  "sky_grants = ''ALTER, ALTER ROUTINE, CREATE, CREATE ROUTINE, CREATE TEMPORARY TABLES, CREATE USER, CREATE VIEW, DELETE, DROP, EXECUTE, INDEX, INSERT, LOCK TABLES, PROCESS, RELOAD, SELECT, SHOW DATABASES, SHOW VIEW, TRIGGER, UPDATE''"

definition sky_create_database_stmt :: "'w db_env \<Rightarrow> served_db \<Rightarrow> string" where
  "sky_create_database_stmt E b = script_at 8
     [''create database if not exists '' @ sd_target_text E b ''database'' @ '';'',
      lit ''create user if not exists `'' @ sd_target_text E b ''user'' @ lit ''`@`%` identified by `'' @ sd_target_text E b ''password'' @ lit ''`;'',
      ''GRANT '' @ sky_grants @ lit '' ON *.* TO `'' @ sd_target_text E b ''user'' @ lit ''`@`%`;'',
      ''flush privileges;'']"

section \<open>AlloyDB\<close>

definition ALLOYDB_CONFIG_FILE :: string where "ALLOYDB_CONFIG_FILE = ''alloydb.yaml''"

text \<open>
  The database has no public address: the client is \<^verbatim>\<open>psql\<close> on the first driver machine of the cluster.
  (\<open>drivers\<close> is what \<open>get_default_cluster\<close> says of them.)
\<close>

definition PgSshSqlClient :: "exn + node option list \<Rightarrow> pydict \<Rightarrow> exn + pydict \<times> node option" where
  "PgSshSqlClient drivers kwargs =
     (case drivers of Inl e \<Rightarrow> Inl e | Inr [] \<Rightarrow> Inl PyIndexError | Inr (d # _) \<Rightarrow>
        Inr (filter (\<lambda>(k, v). k \<in> set [''host'', ''port'', ''user'', ''password'', ''database'', ''connect_timeout'']) kwargs, d))"

definition AlloyDB :: "'w db_env \<Rightarrow> exn + node option list \<Rightarrow> node list \<Rightarrow> pydict \<Rightarrow> exn + served_db \<times> node option" where
  "AlloyDB E drivers ns kwargs =
     (case ns of [] \<Rightarrow> Inl PyIndexError | n # _ \<Rightarrow>
     (case SingleUnManagedBackend (de_key E ALLOYDB_CONFIG_FILE) (de_config E ''AlloyDBConfig'') Dialect_pgsql Product_alloydb n [] of
        Inl e \<Rightarrow> Inl e | Inr c \<Rightarrow>
     (case PgSshSqlClient drivers (bc_db c) of Inl e \<Rightarrow> Inl e | Inr (params, d) \<Rightarrow>
     (case network (vm n) of None \<Rightarrow> Inl PyAttributeError | Some nw \<Rightarrow>
        Inr (\<lparr>sd_config = c, sd_node = n, sd_params = dset params ''host'' (VStr (get_client_iface nw))\<rparr>, d)))))"

definition pg_text :: "'w db_env \<Rightarrow> served_db \<Rightarrow> string \<Rightarrow> string" where
  "pg_text E b k = py_text E (dget_default (sd_params b) k VNone)"

definition psql_command :: "'w db_env \<Rightarrow> served_db \<Rightarrow> string" where
  "psql_command E b = ''psql -h '' @ pg_text E b ''host'' @ '' -p '' @ pg_text E b ''port'' @ '' -U '' @ pg_text E b ''user''"

text \<open>A driver that the cluster names and does not have is \<open>None\<close>, which has no client.\<close>

definition on_driver :: "'w db_env \<Rightarrow> node option \<Rightarrow> string \<Rightarrow> ('w, exn, string) io" where
  "on_driver E d cmd =
     io_bind (attribute d) (\<lambda>n. io_bind (attribute (node_ssh n)) (\<lambda>cl.
       ssh_run (ssh (de_nodes E)) cl (CmdStr cmd) DEFAULT_EXECUTION_TIMEOUT False False None))"

definition set_password_for_psql :: "'w db_env \<Rightarrow> served_db \<Rightarrow> node option \<Rightarrow> ('w, exn, unit) io" where
  "set_password_for_psql E b d =
     io_bind (on_driver E d (join [newline] [''touch '' @ [CHR 0x7E] @ ''/.pgpass'',
       lit ''        printf ~*:*:*:'' @ pg_text E b ''user'' @ '':'' @ pg_text E b ''password'' @ lit ''~ >> '' @ [CHR 0x7E] @ ''/.pgpass'',
       ''        chmod 0600 '' @ [CHR 0x7E] @ ''/.pgpass'', ''        ''])) (\<lambda>_. io_return ())"

definition pg_ssh_execute :: "'w db_env \<Rightarrow> served_db \<Rightarrow> node option \<Rightarrow> string \<Rightarrow> ('w, exn, string) io" where
  "pg_ssh_execute E b d q = on_driver E d (psql_command E b @ lit '' -t -w -c ~'' @ q @ lit ''~'')"

definition pg_ssh_select_one_row :: "'w db_env \<Rightarrow> (string \<Rightarrow> exn + pyval) \<Rightarrow> served_db \<Rightarrow> node option \<Rightarrow> string \<Rightarrow> ('w, exn, pyval) io" where
  "pg_ssh_select_one_row E json b d q =
     io_bind (on_driver E d (psql_command E b @ ''  '' @ pg_text E b ''database'' @ lit '' -t -w -c ~SELECT json_agg(e) from ('' @ q @ lit '') e~ '')) (\<lambda>r.
     io_bind (io_lift (json (strip r))) (\<lambda>v. io_lift (first_item v)))"

definition list_available_databases :: "'w db_env \<Rightarrow> served_db \<Rightarrow> node option \<Rightarrow> ('w, exn, string) io" where
  "list_available_databases E b d = on_driver E d (psql_command E b @ '' -w --list'')"

definition alloydb_print_db_size :: "'w db_env \<Rightarrow> (string \<Rightarrow> exn + pyval) \<Rightarrow> served_db \<Rightarrow> node option \<Rightarrow> string \<Rightarrow> ('w, exn, unit) io" where
  "alloydb_print_db_size E json b d database =
     io_bind (pg_ssh_select_one_row E json b d (lit ''SELECT pg_size_pretty(pg_database_size(`'' @ database @ lit ''`)) as size'')) (\<lambda>row.
     io_bind (io_lift (val_get row ''size'')) (\<lambda>_. io_return ()))"

definition alloydb_self_test :: "'w db_env \<Rightarrow> served_db \<Rightarrow> node option \<Rightarrow> ('w, exn, unit) io" where
  "alloydb_self_test E b d =
     io_bind (pg_ssh_execute E b d
       (lit ''SELECT name, source, setting, unit FROM pg_settings WHERE source != `default` AND source != `override` ORDER by 2, 1 '')) (\<lambda>_.
     io_return ())"

text \<open>Whether the database is in the list at the end only goes to the log.\<close>

definition alloydb_create_database :: "'w db_env \<Rightarrow> served_db \<Rightarrow> node option \<Rightarrow> ('w, exn, unit) io" where
  "alloydb_create_database E b d =
     io_seq (set_password_for_psql E b d)
    (io_bind (pg_ssh_execute E b d (''CREATE DATABASE '' @ pg_text E b ''database'')) (\<lambda>_.
     io_bind (list_available_databases E b d) (\<lambda>r.
       case dget_default (sd_params b) ''database'' VNone of VStr db \<Rightarrow> io_return () | _ \<Rightarrow> io_raise PyTypeError)))"

definition alloydb_install :: "'w db_env \<Rightarrow> served_db \<Rightarrow> node option \<Rightarrow> ('w, exn, backend_target) io" where
  "alloydb_install E b d =
     io_bind (io_lift (client_target b)) (\<lambda>bt. io_seq (alloydb_create_database E b d) (io_return bt))"


section \<open>Amazon's databases: the command-line tool\<close>

text \<open>
  \<open>AwsRdsCli\<close> and \<open>AwsAuroraCli\<close>. The object is that of \<open>XB_Aws\<close> with other attributes; the name of the database
  cluster is made of the name that the constructor gets.
\<close>

record 'w rds_env =
  rd_aws :: "'w aws_env"
  rd_clock :: "'w os_clock"
  rd_db :: "'w db_env"

definition rds_defaults :: pydict where
  "rds_defaults = [(''aws_region'', VStr ''us-west-2''), (''aws_access_key_id'', VStr []), (''aws_secret_access_key'', VStr []),
     (''db_subnet_group_name'', VStr []), (''vpc_security_group'', VStr [])]"

definition rds_text :: "'w rds_env \<Rightarrow> pyval \<Rightarrow> string" where
  "rds_text D v = text_of (py_str (aws_libs (rd_aws D))) v"

definition rds_attr :: "'w rds_env \<Rightarrow> aws_cli \<Rightarrow> string \<Rightarrow> string" where
  "rds_attr D C k = rds_text D (case dget (aws_conf C) k of Some v \<Rightarrow> v | None \<Rightarrow> dget_default rds_defaults k VNone)"

definition rds_base_command :: "'w rds_env \<Rightarrow> aws_cli \<Rightarrow> string" where
  "rds_base_command D C =
     ''export AWS_ACCESS_KEY_ID='' @ rds_attr D C ''aws_access_key_id'' @ '' && export AWS_SECRET_ACCESS_KEY=''
     @ rds_attr D C ''aws_secret_access_key'' @ '' && aws rds --region '' @ rds_attr D C ''aws_region'' @ '' --output json ''"

definition rds_base :: "'w rds_env \<Rightarrow> aws_cli \<Rightarrow> cli_base" where
  "rds_base D C = \<lparr>base_command = rds_base_command D C, check_stderr = True\<rparr>"

definition rds_run_text :: "'w rds_env \<Rightarrow> aws_cli \<Rightarrow> string \<Rightarrow> ('w, exn \<times> string, string) io" where
  "rds_run_text D C cmd = cli_run (aws_os (rd_aws D)) (rds_base D C) cmd"

definition rds_run :: "'w rds_env \<Rightarrow> aws_cli \<Rightarrow> string \<Rightarrow> ('w, exn, string) io" where
  "rds_run D C cmd = drop_text (rds_run_text D C cmd)"

definition rds_call :: "'w rds_env \<Rightarrow> aws_cli \<Rightarrow> string \<Rightarrow> ('w, exn, unit) io" where
  "rds_call D C cmd = io_bind (rds_run D C cmd) (\<lambda>_. io_return ())"

definition rds_query :: "'w rds_env \<Rightarrow> aws_cli \<Rightarrow> string \<Rightarrow> ('w, exn, pyval) io" where
  "rds_query D C cmd = io_bind (rds_run D C cmd) (\<lambda>out. io_lift (aws_json (rd_aws D) out))"

definition rds_version :: "'w rds_env \<Rightarrow> aws_cli \<Rightarrow> ('w, exn, string) io" where
  "rds_version D C = drop_text (cli_run_with (aws_os (rd_aws D)) (rds_base D C) ''--version'' 30 True True)"

definition rds_check_cli_version :: "'w rds_env \<Rightarrow> aws_cli \<Rightarrow> ('w, exn, unit) io" where
  "rds_check_cli_version D C =
     io_bind (rds_version D C) (\<lambda>stdout.
       if \<not> contains_str stdout (''aws-cli/'' @ AWS_CLI_VERSION_REQUIRED) then io_raise AwsRdsCliException
       else io_bind (rds_version D C) (\<lambda>_. io_return ()))"

definition AwsRdsCliObject :: "'w rds_env \<Rightarrow> string \<Rightarrow> pydict \<Rightarrow> ('w, exn, aws_cli) io" where
  "AwsRdsCliObject D cluster rc =
     (let C = \<lparr>aws_cluster = rds_text D (dget_default rc ''cluster_name'' (VStr cluster)), aws_conf = rc\<rparr> in
      io_seq (rds_check_cli_version D C)
     (io_bind (run_process (aws_os (rd_aws D)) ''which jq'' (Some 15) False) (\<lambda>(_, _, retcode).
        if retcode = 127 then io_raise AwsRdsCliException else io_return C)))"

text \<open>\<open>name.replace("_", "-")\<close> and \<open>name.replace(".", "-")\<close>.\<close>

definition dashes :: "char \<Rightarrow> string \<Rightarrow> string" where
  "dashes c s = map (\<lambda>x. if x = c then CHR ''-'' else x) s"

definition AwsAuroraCliObject :: "'w rds_env \<Rightarrow> string \<Rightarrow> pydict \<Rightarrow> ('w, exn, aws_cli \<times> string) io" where
  "AwsAuroraCliObject D cluster rc = io_bind (AwsRdsCliObject D cluster rc) (\<lambda>C. io_return (C, dashes CHR ''_'' cluster))"

definition aurora_instances_by_tag :: "'w rds_env \<Rightarrow> aws_cli \<Rightarrow> string \<Rightarrow> ('w, exn, pyval) io" where
  "aurora_instances_by_tag D C db_cluster = rds_query D C
     (''describe-db-clusters --filters Name=db-cluster-id,Values='' @ db_cluster @ '' --output json''
      @ lit '' | jq `.DBClusters[] | {cluster_name: .DBClusterIdentifier, status: .Status }` | jq -s'')"

section \<open>Amazon's databases: creation and deletion\<close>

text \<open>The provider's object: the machine that stands for the database, the backend whose settings it takes, and the names.\<close>

record managed_db =
  md_vm :: virtual_machine
  md_backend :: served_db
  md_cluster :: string
  md_instance :: string

definition rds_vm :: "'w rds_env \<Rightarrow> aws_cli \<Rightarrow> string \<Rightarrow> pydict \<Rightarrow> exn + virtual_machine" where
  "rds_vm D C cloud_name params =
     vm_from_dict (aws_libs (rd_aws D)) (dict_update params [(''cluster_name'', VStr (aws_cluster C)), (''cloud'', VStr cloud_name)])"

text \<open>The two classes of Aurora, by the importer of classes.\<close>

type_synonym 'w aurora_importer = "string \<Rightarrow> string \<Rightarrow> exn + (node \<Rightarrow> pydict \<Rightarrow> exn + served_db)"

definition AwsAuroraCompute :: "'w rds_env \<Rightarrow> 'w aurora_importer \<Rightarrow> aws_cli \<Rightarrow> pydict \<Rightarrow> exn + managed_db" where
  "AwsAuroraCompute D imp C params =
     (case rds_vm D C ''aws_aurora'' params of Inl e \<Rightarrow> Inl e | Inr v \<Rightarrow>
     (case dget_default params ''klass'' VNone of
        VStr k \<Rightarrow>
          (case get_class_from_klass imp k of Inl e \<Rightarrow> Inl e | Inr cls \<Rightarrow>
          (case Node v of Inl e \<Rightarrow> Inl e | Inr n \<Rightarrow>
          (case cls n [] of Inl e \<Rightarrow> Inl e | Inr b \<Rightarrow>
             Inr \<lparr>md_vm = v, md_backend = b, md_cluster = dashes CHR ''_'' (aws_cluster C),
                  md_instance = ''i-aws-'' @ dashes CHR ''_'' (aws_cluster C) @ ''-'' @ dashes CHR ''.'' (instance_type v)\<rparr>)))
      | _ \<Rightarrow> Inl PyAttributeError))"

text \<open>The identifier of an RDS database is made of the type of the machine alone.\<close>

definition rds_instance_id :: "virtual_machine \<Rightarrow> string" where
  "rds_instance_id v = ''i-aws-rds-'' @ dashes CHR ''.'' (instance_type v)"

definition AwsRdsCompute :: "'w rds_env \<Rightarrow> aws_cli \<Rightarrow> pydict \<Rightarrow> exn + managed_db" where
  "AwsRdsCompute D C params =
     (case rds_vm D C ''aws_rds'' params of Inl e \<Rightarrow> Inl e | Inr v \<Rightarrow>
     (case Node v of Inl e \<Rightarrow> Inl e | Inr n \<Rightarrow>
     (case RdsMySql (rd_db D) n [] of Inl e \<Rightarrow> Inl e | Inr b \<Rightarrow>
        Inr \<lparr>md_vm = v\<lparr>vm_id := Some (rds_instance_id v)\<rparr>, md_backend = b, md_cluster = dashes CHR ''_'' (aws_cluster C),
             md_instance = rds_instance_id v\<rparr>)))"

definition md_conf :: "'w rds_env \<Rightarrow> managed_db \<Rightarrow> string \<Rightarrow> string" where
  "md_conf D m k = rds_text D (dget_default (bc_attrs (sd_config (md_backend m))) k VNone)"

definition md_target :: "'w rds_env \<Rightarrow> managed_db \<Rightarrow> string \<Rightarrow> string" where
  "md_target D m k = bt_text (py_str (aws_libs (rd_aws D))) (bc_db (sd_config (md_backend m))) k"

definition md_id :: "managed_db \<Rightarrow> string" where
  "md_id m = (case vm_id (md_vm m) of None \<Rightarrow> ''None'' | Some i \<Rightarrow> i)"

definition aurora_create_db_cluster :: "'w rds_env \<Rightarrow> aws_cli \<Rightarrow> managed_db \<Rightarrow> ('w, exn, unit) io" where
  "aurora_create_db_cluster D C m = rds_call D C
     (''create-db-cluster --db-cluster-identifier='' @ md_cluster m @ '' --engine='' @ md_conf D m ''engine''
      @ '' --engine-version='' @ md_conf D m ''engine_version'' @ '' --master-username='' @ md_target D m ''user''
      @ '' --master-user-password='' @ md_target D m ''password'' @ '' --db-subnet-group-name='' @ rds_attr D C ''db_subnet_group_name''
      @ '' --vpc-security-group-ids='' @ rds_attr D C ''vpc_security_group'' @ '' --port='' @ md_target D m ''port''
      @ '' --tags Key=Name,Value='' @ md_cluster m)"

definition delete_db_cluster :: "'w rds_env \<Rightarrow> aws_cli \<Rightarrow> managed_db \<Rightarrow> ('w, exn, unit) io" where
  "delete_db_cluster D C m = rds_call D C (''delete-db-cluster --db-cluster-identifier='' @ md_cluster m @ '' --skip-final-snapshot'')"

text \<open>A wait asks once per attempt; another state than the one waited for is an exception that is tried again.\<close>

definition status_once :: "'w rds_env \<Rightarrow> aws_cli \<Rightarrow> string \<Rightarrow> exn \<Rightarrow> string \<Rightarrow> ('w, exn, unit) io" where
  "status_once D C cmd not_ready status =
     io_bind (rds_query D C cmd) (\<lambda>v.
     io_bind (io_lift (first_item v)) (\<lambda>r.
     io_bind (io_lift (val_get r ''status'')) (\<lambda>s. if s \<noteq> VStr status then io_raise not_ready else io_return ())))"

definition wait_policy :: "exn \<Rightarrow> exn \<Rightarrow> retry_policy" where
  "wait_policy checked target = \<lparr>exceptions_to_check = [checked], exception_to_raise = target, max_delay = 600\<rparr>"

definition wait_for_db_cluster :: "'w rds_env \<Rightarrow> aws_cli \<Rightarrow> managed_db \<Rightarrow> string \<Rightarrow> ('w, exn, unit) io" where
  "wait_for_db_cluster D C m status =
     retry (rd_clock D) (wait_policy AwsAuroraCliWaitException AwsAuroraCliException) (constant_delay 30 20)
       (status_once D C (''describe-db-clusters --db-cluster-identifier='' @ md_cluster m @ '' --output json''
          @ lit '' | jq `.DBClusters[] | { status: .Status }` | jq -s'') AwsAuroraCliWaitException status)"

definition aurora_create_db_instance :: "'w rds_env \<Rightarrow> aws_cli \<Rightarrow> managed_db \<Rightarrow> ('w, exn, managed_db) io" where
  "aurora_create_db_instance D C m =
     io_seq (rds_call D C
       (''create-db-instance --db-instance-identifier='' @ md_instance m @ '' --db-cluster-identifier='' @ md_cluster m
        @ '' --engine '' @ md_conf D m ''engine'' @ '' --db-instance-class='' @ instance_type (md_vm m) @ '' --availability-zone=''
        @ zone (md_vm m) @ '' --db-parameter-group-name='' @ md_conf D m ''db_parameter_group_name''
        @ '' --publicly-accessible --no-multi-az''))
       (io_return (m\<lparr>md_vm := (md_vm m)\<lparr>vm_id := Some (md_instance m)\<rparr>\<rparr>))"

definition delete_db_instance :: "'w rds_env \<Rightarrow> aws_cli \<Rightarrow> managed_db \<Rightarrow> ('w, exn, unit) io" where
  "delete_db_instance D C m = rds_call D C
     (''delete-db-instance --db-instance-identifier='' @ md_id m @ '' --skip-final-snapshot --delete-automated-backups'')"

definition aurora_wait_for_db_instance :: "'w rds_env \<Rightarrow> aws_cli \<Rightarrow> managed_db \<Rightarrow> string \<Rightarrow> ('w, exn, unit) io" where
  "aurora_wait_for_db_instance D C m status =
     retry (rd_clock D) (wait_policy AwsAuroraCliWaitException AwsAuroraCliException) (constant_delay 30 20)
       (status_once D C (''describe-db-instances --output json --db-instance-identifier='' @ md_id m
          @ lit '' | jq `.DBInstances[] | { status: .DBInstanceStatus }` | jq -s'') AwsAuroraCliWaitException status)"

definition aurora_get_endpoint :: "'w rds_env \<Rightarrow> aws_cli \<Rightarrow> managed_db \<Rightarrow> ('w, exn, pyval) io" where
  "aurora_get_endpoint D C m =
     retry (rd_clock D) (wait_policy AwsAuroraCliWaitException AwsAuroraCliException) (constant_delay 30 20)
       (io_bind (rds_query D C (''describe-db-clusters --db-cluster-identifier='' @ md_cluster m @ '' --output json''
          @ lit '' | jq `.DBClusters[] | { endpoint: .Endpoint }` | jq -s'')) (\<lambda>v.
        io_bind (io_lift (first_item v)) (\<lambda>r. io_lift (val_get r ''endpoint''))))"

text \<open>The endpoint becomes the public address, in a network that is read by its public address everywhere.\<close>

definition with_endpoint :: "'w rds_env \<Rightarrow> managed_db \<Rightarrow> pyval \<Rightarrow> exn + virtual_machine" where
  "with_endpoint D m endpoint =
     (case network (md_vm m) of None \<Rightarrow> Inl PyAttributeError
      | Some nw \<Rightarrow> Inr ((md_vm m)\<lparr>network := Some (nw\<lparr>public_ip := rds_text D endpoint, cloud_type := ''private_cloud''\<rparr>)\<rparr>))"

definition aurora_create :: "'w rds_env \<Rightarrow> aws_cli \<Rightarrow> managed_db \<Rightarrow> ('w, exn, virtual_machine) io" where
  "aurora_create D C m = io_catch [CloudCliException] AwsAuroraComputeException
     (io_seq (aurora_create_db_cluster D C m)
     (io_seq (wait_for_db_cluster D C m ''available'')
     (io_bind (aurora_create_db_instance D C m) (\<lambda>m.
      io_seq (aurora_wait_for_db_instance D C m ''available'')
     (io_bind (aurora_get_endpoint D C m) (\<lambda>endpoint. io_lift (with_endpoint D m endpoint)))))))"

definition aurora_destroy :: "'w rds_env \<Rightarrow> aws_cli \<Rightarrow> managed_db \<Rightarrow> ('w, exn, unit) io" where
  "aurora_destroy D C m =
     io_seq (delete_db_instance D C m) (io_seq (aurora_wait_for_db_instance D C m ''deleting'') (delete_db_cluster D C m))"

text \<open>
  RDS: the creation is under the decorator too. A database that exists already is taken for the one to create; the
  exception that stands for a failed command is not the one that the decorator tries again.
\<close>

definition rds_create_command :: "'w rds_env \<Rightarrow> aws_cli \<Rightarrow> managed_db \<Rightarrow> exn + string" where
  "rds_create_command D C m =
     (case storage (md_vm m) of None \<Rightarrow> Inl PyAttributeError | Some s \<Rightarrow> Inr
       (''create-db-instance --db-instance-identifier='' @ md_id m @ '' --engine='' @ md_conf D m ''engine''
        @ '' --engine-version='' @ md_conf D m ''engine_version'' @ '' --db-instance-class='' @ instance_type (md_vm m)
        @ '' --availability-zone='' @ zone (md_vm m) @ '' --publicly-accessible --master-username='' @ md_target D m ''user''
        @ '' --master-user-password='' @ md_target D m ''password'' @ '' --db-subnet-group-name='' @ rds_attr D C ''db_subnet_group_name''
        @ '' --vpc-security-group-ids='' @ rds_attr D C ''vpc_security_group'' @ '' --port='' @ md_target D m ''port''
        @ '' --tags Key=Name,Value='' @ md_cluster m @ '' --allocated-storage='' @ str_int (vs_size s) @ '' --iops='' @ str_int (iops s)
        @ '' --storage-type='' @ vs_type_text s @ '' --backup-retention-period=0 --db-parameter-group-name=''
        @ md_conf D m ''db_parameter_group_name''))"

definition rds_create_once :: "'w rds_env \<Rightarrow> aws_cli \<Rightarrow> managed_db \<Rightarrow> ('w, exn, unit) io" where
  "rds_create_once D C m =
     io_bind (io_lift (rds_create_command D C m)) (\<lambda>cmd.
       io_except (io_bind (rds_run_text D C cmd) (\<lambda>_. io_return ())) CloudCliException
         (\<lambda>msg. if contains_str msg ''DBInstanceAlreadyExists'' then io_return () else io_raise CloudCliException))"

definition rds_create_db_instance :: "'w rds_env \<Rightarrow> aws_cli \<Rightarrow> managed_db \<Rightarrow> ('w, exn, unit) io" where
  "rds_create_db_instance D C m =
     retry (rd_clock D) (wait_policy AwsRdsCliException AwsRdsCliException) (constant_delay 30 20) (rds_create_once D C m)"

definition rds_wait_for_db_instance :: "'w rds_env \<Rightarrow> aws_cli \<Rightarrow> managed_db \<Rightarrow> string \<Rightarrow> ('w, exn, unit) io" where
  "rds_wait_for_db_instance D C m status =
     retry (rd_clock D) (wait_policy AwsRdsCliWaitException AwsRdsCliException) (constant_delay 60 20)
       (status_once D C (''describe-db-instances --db-instance-identifier='' @ md_id m
          @ lit '' | jq `.DBInstances[] | { status: .DBInstanceStatus }` | jq -s'') AwsRdsCliWaitException status)"

definition rds_get_endpoint :: "'w rds_env \<Rightarrow> aws_cli \<Rightarrow> managed_db \<Rightarrow> ('w, exn, pyval) io" where
  "rds_get_endpoint D C m =
     retry (rd_clock D) (wait_policy AwsRdsCliWaitException AwsRdsCliException) (constant_delay 30 20)
       (io_bind (rds_query D C (''describe-db-instances --db-instance-identifier='' @ md_id m
          @ lit ''  | jq `.DBInstances[] | { endpoint: .Endpoint }` | jq -s'')) (\<lambda>v.
        io_bind (io_lift (first_item v)) (\<lambda>r.
        io_bind (io_lift (subscript r ''endpoint'')) (\<lambda>e. io_lift (val_get e ''Address'')))))"

definition rds_create :: "'w rds_env \<Rightarrow> aws_cli \<Rightarrow> managed_db \<Rightarrow> ('w, exn, virtual_machine) io" where
  "rds_create D C m = io_catch [CloudCliException] AwsRdsComputeException
     (io_seq (rds_create_db_instance D C m)
     (io_seq (rds_wait_for_db_instance D C m ''available'')
     (io_bind (rds_get_endpoint D C m) (\<lambda>endpoint. io_lift (with_endpoint D m endpoint)))))"

definition rds_destroy :: "'w rds_env \<Rightarrow> aws_cli \<Rightarrow> managed_db \<Rightarrow> ('w, exn, unit) io" where
  "rds_destroy D C m = io_seq (delete_db_instance D C m) (rds_wait_for_db_instance D C m ''deleting'')"

section \<open>The two clouds\<close>

text \<open>One machine is launched however many are asked for; both clouds call themselves Aurora.\<close>

definition rds_cloud_type :: cloud_type_enum where "rds_cloud_type = Aurora"

definition launch_first :: "(pydict \<Rightarrow> exn + managed_db) \<Rightarrow> (managed_db \<Rightarrow> ('w, exn, virtual_machine) io) \<Rightarrow> pydict list \<Rightarrow>
    ('w, exn, node option list) io" where
  "launch_first object create instances =
     (case instances of [] \<Rightarrow> io_raise PyIndexError
      | params # _ \<Rightarrow>
          io_bind (io_lift (object params)) (\<lambda>m. io_bind (create m) (\<lambda>v. io_lift (map_sum id (\<lambda>n. [Some n]) (Node v)))))"

definition terminate_first :: "(pydict \<Rightarrow> exn + managed_db) \<Rightarrow> (managed_db \<Rightarrow> ('w, exn, unit) io) \<Rightarrow> node list \<Rightarrow> ('w, exn, unit) io" where
  "terminate_first object destroy instances =
     (case instances of [] \<Rightarrow> io_raise PyIndexError
      | n # _ \<Rightarrow> io_bind (io_lift (object (vm_asdict (vm n)))) destroy)"

definition aurora_launch_instances :: "'w rds_env \<Rightarrow> 'w aurora_importer \<Rightarrow> aws_cli \<Rightarrow> pydict list \<Rightarrow> ('w, exn, node option list) io" where
  "aurora_launch_instances D imp C = launch_first (AwsAuroraCompute D imp C) (aurora_create D C)"

definition aurora_terminate_instances :: "'w rds_env \<Rightarrow> 'w aurora_importer \<Rightarrow> aws_cli \<Rightarrow> node list \<Rightarrow> ('w, exn, unit) io" where
  "aurora_terminate_instances D imp C = terminate_first (AwsAuroraCompute D imp C) (aurora_destroy D C)"

definition rds_launch_instances :: "'w rds_env \<Rightarrow> aws_cli \<Rightarrow> pydict list \<Rightarrow> ('w, exn, node option list) io" where
  "rds_launch_instances D C = launch_first (AwsRdsCompute D C) (rds_create D C)"

definition rds_terminate_instances :: "'w rds_env \<Rightarrow> aws_cli \<Rightarrow> node list \<Rightarrow> ('w, exn, unit) io" where
  "rds_terminate_instances D C = terminate_first (AwsRdsCompute D C) (rds_destroy D C)"

text \<open>A machine alone is refused.\<close>

definition rds_launch_instance :: "pydict \<Rightarrow> ('w, exn, node option) io" where
  "rds_launch_instance params = io_raise CloudException"

definition rds_terminate_instance :: "node \<Rightarrow> bool \<Rightarrow> ('w, exn, unit) io" where
  "rds_terminate_instance n with_storage = io_raise CloudException"


section \<open>Lemmas\<close>

text \<open>The connection parameters after \<open>configure\<close>: as before when the database was created, else without the database.\<close>

lemma create_database_from_params:
  assumes "dget (sd_params b) ''database'' = Some db"
  shows "snd (snd (create_database_from first_db connect query (w, b))) =
    (if fst (create_database_from first_db connect query (w, b)) = Inr () then b else set_sd_database first_db b)"
  using assms
  by (auto simp: create_database_from_def io_defs set_sd_database_def dset_twice dset_same split: prod.splits sum.splits)

lemma rds_run_raises:
  assumes "shell_var (aws_os (rd_aws D)) \<noteq> None" and "rds_run D C cmd w = (Inl e, w')"
  shows "e = CloudCliException"
proof -
  obtain t where "rds_run_text D C cmd w = (Inl (e, t), w')"
  proof (cases "rds_run_text D C cmd w")
    case (Pair r v)
    then show thesis using assms(2) that by (cases r) (auto simp: rds_run_def drop_text_def)
  qed
  then show ?thesis using cli_run_raises [OF assms(1)] unfolding rds_run_text_def by blast
qed

interpretation wait_30: retry_delays "constant_delay 30 20" by unfold_locales (auto simp: constant_delay_def)
interpretation wait_60: retry_delays "constant_delay 60 20" by unfold_locales (auto simp: constant_delay_def)

text \<open>A command runs one process.\<close>

lemma rds_query_counts:
  fixes calls :: "'w \<Rightarrow> nat"
  assumes "shell_var (aws_os (rd_aws D)) \<noteq> None" and "\<And>c sh t w. calls (snd (popen (aws_os (rd_aws D)) c sh t w)) = Suc (calls w)"
  shows "calls (snd (status_once D C cmd e status w)) = Suc (calls w)"
proof -
  obtain sh where sh: "shell_var (aws_os (rd_aws D)) = Some sh" using assms(1) by auto
  have a: "calls (snd (run_process_text (aws_os (rd_aws D)) c t s u)) = Suc (calls u)" for c t s u
    using assms(2) [of c "s \<and> \<not> contains_str sh ''.exe''" t u]
    by (auto simp: run_process_text_def sh split: prod.splits process_end.splits)
  have b: "calls (snd (rds_run D C c u)) = Suc (calls u)" for c u
    using a by (auto simp: rds_run_def drop_text_def rds_run_text_def cli_run_with_def split: prod.splits sum.splits) (metis snd_conv)+
  then show ?thesis
    by (auto simp: status_once_def rds_query_def io_defs split: prod.splits sum.splits) (metis snd_conv)+
qed

text \<open>What a creation can raise, before the translation: \<open>cli_only\<close> is closed under sequencing.\<close>

definition cli_only :: "('w, exn, 'a) io \<Rightarrow> bool" where
  "cli_only m \<longleftrightarrow> (\<forall>w e w'. m w = (Inl e, w') \<longrightarrow>
     isinstance_exn e CloudCliException \<or> e = SigTermException \<or> \<not> isinstance_exn e PyException)"

lemma cli_only_seq: "cli_only m \<Longrightarrow> cli_only n \<Longrightarrow> cli_only (io_seq m n)"
  by (fastforce simp: cli_only_def io_defs split: prod.splits sum.splits)

lemma cli_only_bind: "cli_only m \<Longrightarrow> (\<And>x. cli_only (f x)) \<Longrightarrow> cli_only (io_bind m f)"
  by (fastforce simp: cli_only_def io_defs split: prod.splits sum.splits)

lemma io_bind_seq: "io_bind (io_seq m n) f = io_seq m (io_bind n f)"
  by (rule ext) (auto simp: io_defs split: prod.splits sum.splits)

lemma cli_only_return: "cli_only (io_return x)"
  by (simp add: cli_only_def io_defs)

lemma cli_only_call: "shell_var (aws_os (rd_aws D)) \<noteq> None \<Longrightarrow> cli_only (rds_call D C cmd)"
  unfolding rds_call_def cli_only_def
  by (auto simp: io_defs isinstance_eval split: prod.splits sum.splits dest!: rds_run_raises [rotated])

lemma cli_only_wait:
  assumes "isinstance_exn target CloudCliException"
  shows "cli_only (retry c (wait_policy checked target) (constant_delay 30 20) f)"
    and "cli_only (retry c (wait_policy checked target) (constant_delay 60 20) f)"
  using assms wait_30.raises_only [where c = c and p = "wait_policy checked target" and f = f]
    wait_60.raises_only [where c = c and p = "wait_policy checked target" and f = f]
  unfolding cli_only_def by (fastforce simp: wait_policy_def)+

lemma cli_only_endpoint:
  "network (md_vm m) \<noteq> None \<Longrightarrow> cli_only (io_lift (with_endpoint D m endpoint))"
  by (auto simp: with_endpoint_def io_defs cli_only_def)

lemma cli_only_caught:
  "cli_only m \<Longrightarrow> fst (io_catch [CloudCliException] target m w) = Inl e \<Longrightarrow>
     e = target \<or> e = SigTermException \<or> \<not> isinstance_exn e PyException"
  by (fastforce simp: cli_only_def io_catch_def isinstance_any_def io_defs split: prod.splits sum.splits if_splits)

lemma rds_query_keeps [io_inv_intros]:
  assumes "\<And>w c sh t. I w \<Longrightarrow> I (snd (popen (aws_os (rd_aws D)) c sh t w))"
  shows "io_keeps I (rds_query D C cmd)"
  unfolding rds_query_def rds_run_def rds_run_text_def by (intro io_inv_intros drop_text_keeps cli_run_keeps assms)

section \<open>Properties\<close>

text \<open>
  The preparation of Aurora and of RDS changes the parameters of the connection and puts them back only
  when the database was created: after a failure the backend stays without its database, so every later
  connection is to none (or to \<open>postgres\<close>).
\<close>

theorem managed_configure_params:
  assumes "dget (sd_params b) ''database'' = Some db"
  shows "snd (snd (aurora_mysql_configure E (w, b))) =
      (if fst (aurora_mysql_configure E (w, b)) = Inr () then b else set_sd_database VNone b)
    \<and> snd (snd (rds_configure E (w, b))) = (if fst (rds_configure E (w, b)) = Inr () then b else set_sd_database VNone b)
    \<and> snd (snd (aurora_pgsql_configure E (w, b))) =
      (if fst (aurora_pgsql_configure E (w, b)) = Inr () then b else set_sd_database (VStr ''postgres'') b)"
proof -
  have "\<exists>q c. aurora_mysql_configure E (w, b) = create_database_from VNone c q (w, b)"
    "\<exists>q c. rds_configure E (w, b) = create_database_from VNone c q (w, b)"
    "\<exists>q c. aurora_pgsql_configure E (w, b) = create_database_from (VStr ''postgres'') c q (w, b)"
    by (auto simp: aurora_mysql_configure_def rds_configure_def aurora_pgsql_configure_def io_bind_def io_gets_def)
  then show ?thesis by (elim exE) (simp only: create_database_from_params [OF assms])
qed

definition demo_served :: served_db where
  "demo_served = \<lparr>sd_config = demo_backend_config, sd_node = demo_node, sd_params = [(''database'', VStr ''sbt'')]\<rparr>"

lemma demo_no_connection: "fst (pgsql_db_connect (demo_sql False) params w) = Inl PyConnectionError"
proof -
  have "\<exists>w'. io_seq (lib_connect (demo_sql False) params) (io_modify (set_cursor (demo_sql False))) u = (Inl Psycopg2Error, w')" for u
    by (simp add: demo_sql_def io_defs)
  from sql_delays.retry_always_fails [where f = "io_seq (lib_connect (demo_sql False) params) (io_modify (set_cursor (demo_sql False)))",
      OF this, where p = "sql_policy Psycopg2Error PyConnectionError"]
  have "fst (pgsql_connect (demo_sql False) params w) = Inl PyConnectionError"
    by (simp add: pgsql_connect_def sql_policy_def)
  then obtain w' where "pgsql_connect (demo_sql False) params w = (Inl PyConnectionError, w')"
    by (metis prod.collapse)
  then show ?thesis by (simp add: pgsql_db_connect_def io_catch_def io_try_def io_raise_def isinstance_any_def isinstance_eval)
qed

theorem managed_configure_params_witness:
  "sd_params (snd (snd (aurora_pgsql_configure (demo_db_env (demo_sql False) undefined) ((0, []), demo_served)))) = [(''database'', VStr ''postgres'')]"
proof -
  let ?E = "demo_db_env (demo_sql False) undefined"
  have "fst (aurora_pgsql_configure ?E ((0, []), demo_served)) \<noteq> Inr ()"
    using demo_no_connection [of "[(''database'', VStr ''postgres'')]" "(0, [])"]
    by (auto simp: aurora_pgsql_configure_def create_database_from_def io_defs demo_served_def set_sd_database_def demo_db_env_def
        split: prod.splits sum.splits)
  moreover have "dget (sd_params demo_served) ''database'' = Some (VStr ''sbt'')" by (simp add: demo_served_def)
  ultimately have "snd (snd (aurora_pgsql_configure ?E ((0, []), demo_served))) = set_sd_database (VStr ''postgres'') demo_served"
    using managed_configure_params [of demo_served "VStr ''sbt''" ?E "(0, [])"] by auto
  then show ?thesis by (simp add: demo_served_def set_sd_database_def)
qed

text \<open>
  C36. Two RDS databases on machines of the same type are one database, whatever the clusters are called: they have one
  identifier, the second creation finds the first database and takes it, and the deletion for the second
  cluster is the command that deletes the first.
\<close>

theorem rds_shared_instance:
  assumes "AwsRdsCompute D C ps = Inr m" and "AwsRdsCompute D C' ps' = Inr m'"
    and "instance_type (md_vm m) = instance_type (md_vm m')"
    and "rds_create_command D C' m' = Inr cmd"
    and "rds_run_text D C' cmd w = (Inl (CloudCliException, msg), w')" and "contains_str msg ''DBInstanceAlreadyExists''"
  shows "md_id m' = md_id m \<and> delete_db_instance D C' m' = delete_db_instance D C' m
    \<and> rds_create_db_instance D C' m' w = (Inr (), w')"
proof -
  have id: "md_id n = rds_instance_id (md_vm n)" if "AwsRdsCompute D K qs = Inr n" for K qs n
    using that by (auto simp: AwsRdsCompute_def md_id_def rds_instance_id_def split: sum.splits)
  have "md_id m' = md_id m" using assms(3) by (simp add: id [OF assms(1)] id [OF assms(2)] rds_instance_id_def)
  moreover have "rds_create_once D C' m' w = (Inr (), w')"
    using assms(4-6) by (simp add: rds_create_once_def io_defs io_except_def)
  ultimately show ?thesis
    by (simp add: delete_db_instance_def rds_create_db_instance_def wait_30.retry_success)
qed

definition demo_rds_vm :: virtual_machine where
  "demo_rds_vm = demo_vm\<lparr>storage := Some \<lparr>vs_size = 100, iops = 1000, vs_type = Some ''io1'', device = [], vs_zone = ''z'',
     vs_name = ''s'', vs_id = [], num_ephemeral = 0\<rparr>\<rparr>"

definition demo_rds :: "string list rds_env" where
  "demo_rds = \<lparr>rd_aws = (demo_aws ''DBInstanceAlreadyExists'')\<lparr>aws_libs := demo_libs\<lparr>vm_from_dict := (\<lambda>d. Inr demo_rds_vm)\<rparr>\<rparr>,
     rd_clock = \<lparr>now = (\<lambda>w. 0), sleep = (\<lambda>d w. w)\<rparr>, rd_db = demo_db_env undefined demo_node_env\<rparr>"

abbreviation demo_other_cli :: aws_cli where "demo_other_cli \<equiv> demo_aws_cli\<lparr>aws_cluster := ''other''\<rparr>"

lemma demo_rds_object:
  "\<exists>m. AwsRdsCompute demo_rds C [] = Inr m \<and> md_vm m = demo_rds_vm\<lparr>vm_id := Some (rds_instance_id demo_rds_vm)\<rparr>"
  by (simp add: AwsRdsCompute_def rds_vm_def demo_rds_def demo_rds_vm_def demo_vm_def Node_def PackageManager_def RdsMySql_def
      served_mysql_def SingleUnManagedBackend_def BaseBackend_def demo_db_env_def MySqlClient_def sql_hosts_def
      dget_default_def extra_config_params_def with_address_def ALL_OS_TYPES_def)

theorem rds_shared_instance_witness:
  "\<exists>m m' w'. AwsRdsCompute demo_rds demo_aws_cli [] = Inr m \<and> AwsRdsCompute demo_rds demo_other_cli [] = Inr m'
    \<and> md_id m' = md_id m \<and> rds_create_db_instance demo_rds demo_other_cli m' [] = (Inr (), w')"
proof -
  obtain m m' where m: "AwsRdsCompute demo_rds demo_aws_cli [] = Inr m" "AwsRdsCompute demo_rds demo_other_cli [] = Inr m'"
    "instance_type (md_vm m) = instance_type (md_vm m')" "storage (md_vm m') \<noteq> None"
    using demo_rds_object [of demo_aws_cli] demo_rds_object [of demo_other_cli] by (fastforce simp: demo_rds_vm_def)
  obtain cmd where c: "rds_create_command demo_rds demo_other_cli m' = Inr cmd" using m(4) by (auto simp: rds_create_command_def)
  obtain u where u: "rds_run_text demo_rds demo_other_cli cmd [] =
      (Inl (CloudCliException, ''CLI command failed with Command '' @ u @ '' failed with '' @ ''DBInstanceAlreadyExists'' @ '', error code 254''), [u])"
    by (simp add: rds_run_text_def cli_run_with_def run_process_text_def demo_rds_def demo_aws_def demo_shell_def startswith_def isinstance_eval
        str_int_def str_nat.simps digit_chars_def)
  have "contains_str (''CLI command failed with Command '' @ u @ '' failed with '' @ ''DBInstanceAlreadyExists'' @ '', error code 254'')
      ''DBInstanceAlreadyExists''"
    using contains_str_infix [of "''CLI command failed with Command '' @ u @ '' failed with ''" "''DBInstanceAlreadyExists''" "'', error code 254''"]
    by (simp only: append_assoc)
  from rds_shared_instance [OF m(1-3) c u this] m(1,2) show ?thesis by blast
qed

text \<open>
  What the creation of a database can raise, once the environment has a shell and the machine a network: the exception of
  the provider's class, or what no handler of the program catches (termination, an interrupt).
\<close>

theorem managed_create_errors:
  assumes "shell_var (aws_os (rd_aws D)) \<noteq> None" and "network (md_vm m) \<noteq> None"
  shows "(case fst (aurora_create D C m w) of Inr v \<Rightarrow> True
      | Inl e \<Rightarrow> e = AwsAuroraComputeException \<or> e = SigTermException \<or> \<not> isinstance_exn e PyException)
    \<and> (case fst (rds_create D C m w) of Inr v \<Rightarrow> True
      | Inl e \<Rightarrow> e = AwsRdsComputeException \<or> e = SigTermException \<or> \<not> isinstance_exn e PyException)"
proof -
  have w: "isinstance_exn AwsAuroraCliException CloudCliException" "isinstance_exn AwsRdsCliException CloudCliException"
    by (simp_all add: isinstance_eval)
  note k = cli_only_seq cli_only_bind cli_only_return cli_only_call [OF assms(1)] cli_only_wait [OF w(1)] cli_only_wait [OF w(2)]
    cli_only_endpoint assms(2)
  have n: "network (md_vm (m\<lparr>md_vm := (md_vm m)\<lparr>vm_id := i\<rparr>\<rparr>)) \<noteq> None" for i using assms(2) by simp
  have "cli_only (io_seq (aurora_create_db_cluster D C m)
     (io_seq (wait_for_db_cluster D C m ''available'')
     (io_bind (aurora_create_db_instance D C m) (\<lambda>m.
      io_seq (aurora_wait_for_db_instance D C m ''available'')
     (io_bind (aurora_get_endpoint D C m) (\<lambda>endpoint. io_lift (with_endpoint D m endpoint)))))))"
    unfolding aurora_create_db_cluster_def wait_for_db_cluster_def aurora_create_db_instance_def io_bind_seq io_bind_return
      aurora_wait_for_db_instance_def aurora_get_endpoint_def by (intro k n)
  moreover have "cli_only (io_seq (rds_create_db_instance D C m)
     (io_seq (rds_wait_for_db_instance D C m ''available'')
     (io_bind (rds_get_endpoint D C m) (\<lambda>endpoint. io_lift (with_endpoint D m endpoint)))))"
    unfolding rds_create_db_instance_def rds_wait_for_db_instance_def rds_get_endpoint_def by (intro k)
  ultimately show ?thesis
    unfolding aurora_create_def rds_create_def by (auto split: sum.split dest: cli_only_caught)
qed

theorem managed_create_errors_witness:
  "\<exists>m. AwsRdsCompute demo_rds demo_aws_cli [] = Inr m \<and>
    (case fst (rds_create demo_rds demo_aws_cli m []) of Inr v \<Rightarrow> True
      | Inl e \<Rightarrow> e = AwsRdsComputeException \<or> e = SigTermException \<or> \<not> isinstance_exn e PyException)"
proof -
  obtain m where m: "AwsRdsCompute demo_rds demo_aws_cli [] = Inr m" "network (md_vm m) \<noteq> None"
    using demo_rds_object [of demo_aws_cli] by (auto simp: demo_rds_vm_def demo_vm_def)
  have "shell_var (aws_os (rd_aws demo_rds)) \<noteq> None" by (simp add: demo_rds_def demo_aws_def demo_shell_def)
  from managed_create_errors [OF this m(2)] m(1) show ?thesis by blast
qed

text \<open>
  C38. The limits of the wait for an RDS database. Twenty polls are asked for, a minute apart; the time limit of ten minutes stops
  them after twelve at most, whatever the database answers, when the clock runs with the sleeps.
\<close>

theorem rds_wait_polls:
  fixes calls :: "'w \<Rightarrow> nat"
  assumes "shell_var (aws_os (rd_aws D)) \<noteq> None"
    and "\<And>c sh t w. calls (snd (popen (aws_os (rd_aws D)) c sh t w)) = Suc (calls w)"
    and "\<And>d w. calls (sleep (rd_clock D) d w) = calls w"
    and "\<And>c sh t w. now (rd_clock D) w \<le> now (rd_clock D) (snd (popen (aws_os (rd_aws D)) c sh t w))"
    and "\<And>d w. now (rd_clock D) (sleep (rd_clock D) d w) = now (rd_clock D) w + d * 1000000"
  shows "calls (snd (rds_wait_for_db_instance D C m status w)) \<le> calls w + 12"
proof -
  have t: "now (rd_clock D) u \<le> now (rd_clock D) (snd (status_once D C cmd e status u))" for cmd e u
  proof -
    have "io_keeps (\<lambda>v. now (rd_clock D) u \<le> now (rd_clock D) v) (status_once D C cmd e status)"
      unfolding status_once_def by (intro io_inv_intros rds_query_keeps) (use assms(4) order_trans in blast)
    then show ?thesis by (simp add: io_keeps_def)
  qed
  obtain cmd where e: "rds_wait_for_db_instance D C m status =
      retry (rd_clock D) (wait_policy AwsRdsCliWaitException AwsRdsCliException) (constant_delay 60 20)
        (status_once D C cmd AwsRdsCliWaitException status)"
    by (auto simp: rds_wait_for_db_instance_def)
  have "calls (snd (rds_wait_for_db_instance D C m status w))
      \<le> calls w + nat (max_delay (wait_policy AwsRdsCliWaitException AwsRdsCliException) div 60) + 2"
    unfolding e by (rule retry_constant_calls [OF rds_query_counts [OF assms(1,2)] assms(3) t assms(5)]) (simp_all add: wait_policy_def)
  then show ?thesis by (simp add: wait_policy_def)
qed

definition demo_timed :: "(nat \<times> int) rds_env" where
  "demo_timed = \<lparr>rd_aws = \<lparr>aws_os = \<lparr>popen = (\<lambda>c sh t (n, s). (Exited ''[]'' [] 0, (Suc n, s + 5))), shell_var = Some ''/bin/sh'',
       path_exists = (\<lambda>w p. True)\<rparr>, aws_json = (\<lambda>s. Inr (VList [VDict [(''status'', VStr ''creating'')]])), aws_libs = demo_libs\<rparr>,
     rd_clock = \<lparr>now = snd, sleep = (\<lambda>d (n, s). (n, s + d * 1000000))\<rparr>, rd_db = undefined\<rparr>"

theorem rds_wait_polls_witness:
  "\<exists>m. fst (snd (rds_wait_for_db_instance demo_timed demo_aws_cli m ''available'' (0, 0))) \<le> 12"
  using rds_wait_polls [of demo_timed fst demo_aws_cli undefined "''available''" "(0, 0)"]
  by (auto simp: demo_timed_def split_beta)

end
