(* ===== verification/XB_Proxies.thy ===== *)
theory XB_Proxies
  imports XB_Databases
begin

text \<open>
  The proxies of \<^verbatim>\<open>proxy/\<close>: Maxscale, Xgres (PostgreSQL with a foreign data wrapper for Xpand) and Xm (MariaDB with
  an engine for Xpand). \<open>post_install\<close> gets the target of the backend behind the proxy and returns the target
  for what is before it, which is the interface of the installation phase in \<open>XB_Provisioning\<close>.

  Parameters are those of \<open>XB_Databases\<close>, dacite for the classes of the configurations, and Python's \<open>%\<close>.
\<close>

text \<open>A configuration: its target and the other attributes by name.\<close>

record proxy_config =
  px_db :: backend_target
  px_attrs :: pydict

record 'w proxy_env =
  px_env :: "'w db_env"
  px_config :: "string \<Rightarrow> pyval \<Rightarrow> exn + proxy_config"
  px_percent :: "string \<Rightarrow> (string, string) dict \<Rightarrow> exn + string"

definition px_text :: "'w proxy_env \<Rightarrow> proxy_config \<Rightarrow> string \<Rightarrow> string" where
  "px_text P c k = py_text (px_env P) (dget_default (px_attrs c) k VNone)"

definition target_field :: "'w proxy_env \<Rightarrow> backend_target \<Rightarrow> string \<Rightarrow> string" where
  "target_field P b k = py_text (px_env P) (dget_default b k VNone)"

text \<open>\<open>bt.host.split(",")\<close>.\<close>

definition target_hosts :: "backend_target \<Rightarrow> exn + string list" where
  "target_hosts b = (case dget_default b ''host'' VNone of VStr h \<Rightarrow> Inr (split_on (CHR '','') h) | _ \<Rightarrow> Inl PyAttributeError)"

definition px_all :: "'w proxy_env \<Rightarrow> multi_node \<Rightarrow> string \<Rightarrow> int \<Rightarrow> bool \<Rightarrow> ('w, exn, (string, string) dict list) io" where
  "px_all P m cmd timeout sudo = run_on_all_nodes (de_nodes (px_env P)) (\<lambda>c (a :: unit). Inr c) m (CmdStr cmd) timeout sudo None False"

definition px_do :: "'w proxy_env \<Rightarrow> multi_node \<Rightarrow> string \<Rightarrow> bool \<Rightarrow> ('w, exn, unit) io" where
  "px_do P m cmd sudo = io_bind (px_all P m cmd 300 sudo) (\<lambda>_. io_return ())"

section \<open>Maxscale\<close>

definition MAXSCALE_CONFIG_FILE :: string where "MAXSCALE_CONFIG_FILE = ''maxscale.yaml''"
definition MAXSCALE_CNF_FILE :: string where "MAXSCALE_CNF_FILE = ''/etc/maxscale.cnf''"

record maxscale =
  mx_config :: proxy_config
  mx_multi :: multi_node
  mx_yum :: yum
  mx_params :: pydict

definition Maxscale :: "'w proxy_env \<Rightarrow> node list \<Rightarrow> pydict \<Rightarrow> exn + maxscale" where
  "Maxscale P ns kwargs =
     (case MultiNode (pem_dir (de_nodes (px_env P))) ns of Inl e \<Rightarrow> Inl e | Inr m \<Rightarrow>
     (case head_node ns of Inl e \<Rightarrow> Inl e | Inr h \<Rightarrow>
     (case de_key (px_env P) MAXSCALE_CONFIG_FILE (klass_config_label (vm h)) of Inl e \<Rightarrow> Inl e | Inr v \<Rightarrow>
     (case px_config P ''MaxscaleConfig'' v of Inl e \<Rightarrow> Inl e | Inr c \<Rightarrow>
     (case PackageManager (os_type (vm h)) of Inl e \<Rightarrow> Inl e | Inr y \<Rightarrow>
     (case all_public_ips ns of Inl e \<Rightarrow> Inl e | Inr ips \<Rightarrow>
     (let db = dset (px_db c) ''host'' (VStr (join '','' ips)) in
     (case MySqlClient (de_accepted (px_env P)) (de_roundrobin (px_env P)) db of Inl e \<Rightarrow> Inl e | Inr params \<Rightarrow>
        Inr \<lparr>mx_config = c\<lparr>px_db := db\<rparr>, mx_multi = m, mx_yum = y, mx_params = params\<rparr>))))))))"

definition maxscale_download :: "'w proxy_env \<Rightarrow> maxscale \<Rightarrow> ('w, exn, unit) io" where
  "maxscale_download P x = px_do P (mx_multi x) (script
     [''wget https://dlm.mariadb.com/enterprise-release-helpers/mariadb_es_repo_setup -O mariadb_es_repo_setup'',
      ''chmod +x mariadb_es_repo_setup'',
      lit ''./mariadb_es_repo_setup --token=~'' @ px_text P (mx_config x) ''enterprise_download_token''
        @ lit ''~ --apply --mariadb-maxscale-version=~'' @ px_text P (mx_config x) ''release'' @ lit ''~'']) True"

definition maxscale_configure :: "'w proxy_env \<Rightarrow> maxscale \<Rightarrow> ('w, exn, unit) io" where
  "maxscale_configure P x = maxscale_download P x"

definition maxscale_install :: "'w proxy_env \<Rightarrow> maxscale \<Rightarrow> ('w, exn, unit) io" where
  "maxscale_install P x =
     io_seq (maxscale_download P x)
       (io_bind (io_lift (install_pkg_cmd (mx_yum x))) (\<lambda>i. px_do P (mx_multi x) (i @ '' maxscale'') True))"

text \<open>The proxy is told of the first host of the target only. The change of the host stays in the object \<open>bt\<close>.\<close>

definition set_maxscale_config :: "'w proxy_env \<Rightarrow> maxscale \<Rightarrow> backend_target \<Rightarrow> ('w, exn, backend_target) io" where
  "set_maxscale_config P x b =
     io_catch [FileTemplateException] MaxscaleException
      (io_bind (io_lift (target_hosts b)) (\<lambda>hs.
       let b1 = dset b ''host'' (VStr (hd hs)) in
       io_bind (template_render (de_read (px_env P)) (de_jinja (px_env P)) (de_conf_dir (px_env P)) (px_text P (mx_config x) ''cnf_config_template'')
         [(''xpand'', VDict b1), (''maxscale'', VDict (px_db (mx_config x)))]) (\<lambda>config.
       io_seq (px_do P (mx_multi x) (script_at 12 [''cat << EOF > '' @ MAXSCALE_CNF_FILE, config, ''EOF'']) True)
         (io_return b1))))"

definition maxscale_start :: "'w proxy_env \<Rightarrow> maxscale \<Rightarrow> ('w, exn, unit) io" where
  "maxscale_start P x = px_do P (mx_multi x) ''systemctl start maxscale'' True"

definition maxscale_stop :: "'w proxy_env \<Rightarrow> maxscale \<Rightarrow> ('w, exn, unit) io" where
  "maxscale_stop P x = px_do P (mx_multi x) ''systemctl stop maxscale'' True"

text \<open>The target for the drivers: the addresses of the proxies.\<close>

definition with_client_hosts :: "multi_node \<Rightarrow> backend_target \<Rightarrow> exn + backend_target" where
  "with_client_hosts m b =
     (case all_client_ips (nodes m) of Inl e \<Rightarrow> Inl e | Inr ips \<Rightarrow> Inr (dset b ''host'' (VStr (join '','' ips))))"

definition maxscale_post_install :: "'w proxy_env \<Rightarrow> maxscale \<Rightarrow> backend_target \<Rightarrow> ('w, exn, backend_target) io" where
  "maxscale_post_install P x b =
     io_bind (set_maxscale_config P x b) (\<lambda>b1. io_seq (maxscale_start P x) (io_lift (with_client_hosts (mx_multi x) b1)))"

definition maxscale_get_version :: "'w proxy_env \<Rightarrow> maxscale \<Rightarrow> ('w, exn, string) io" where
  "maxscale_get_version P x = run_on_one_node (de_nodes (px_env P)) (mx_multi x) (CmdStr ''maxctrl --version'') 300 True"

definition maxscale_db_connect :: "'w proxy_env \<Rightarrow> maxscale \<Rightarrow> ('w, exn, unit) io" where
  "maxscale_db_connect P x = io_catch [MySqlClientException] MaxscaleException
     (io_seq (mysql_connect (de_sql (px_env P)) (mx_params x)) (mysql_print_db_version (de_sql (px_env P))))"

definition maxscale_self_test :: "'w proxy_env \<Rightarrow> maxscale \<Rightarrow> ('w, exn, unit) io" where
  "maxscale_self_test P x = px_do P (mx_multi x) ''maxctrl list servers'' True"

definition maxscale_clean :: "'w proxy_env \<Rightarrow> maxscale \<Rightarrow> ('w, exn, unit) io" where
  "maxscale_clean P x =
     io_seq (maxscale_stop P x)
       (px_do P (mx_multi x) (script [''rm -rf /var/log/maxscale'', ''rm -rf mariadb_es_repo_setup*'',
          ''rm -f /etc/yum.repos.d/mariadb.repo'', ''yum -y remove maxscale'']) True)"

section \<open>Xm\<close>

definition XM_CONFIG_FILE :: string where "XM_CONFIG_FILE = ''xm.yaml''"

record xm =
  xm_config :: proxy_config
  xm_multi :: multi_node

text \<open>\<open>data.update(kwargs['xm'])\<close> under a bare \<open>except\<close>: what is no dictionary changes nothing.\<close>

definition xm_data :: "pyval \<Rightarrow> pydict \<Rightarrow> pyval" where
  "xm_data data kwargs = (case (data, dget kwargs ''xm'') of (VDict d, Some (VDict u)) \<Rightarrow> VDict (dict_update d u) | _ \<Rightarrow> data)"

definition Xm :: "'w proxy_env \<Rightarrow> node list \<Rightarrow> pydict \<Rightarrow> exn + xm" where
  "Xm P ns kwargs =
     (case MultiNode (pem_dir (de_nodes (px_env P))) ns of Inl e \<Rightarrow> Inl e | Inr m \<Rightarrow>
     (case head_node ns of Inl e \<Rightarrow> Inl e | Inr h \<Rightarrow>
     (case de_key (px_env P) XM_CONFIG_FILE (klass_config_label (vm h)) of Inl e \<Rightarrow> Inl e | Inr v \<Rightarrow>
     (case px_config P ''XmConfig'' (xm_data v kwargs) of Inl e \<Rightarrow> Inl e | Inr c \<Rightarrow> Inr \<lparr>xm_config = c, xm_multi = m\<rparr>))))"

definition mode_is :: "xm \<Rightarrow> string \<Rightarrow> bool" where
  "mode_is x s \<longleftrightarrow> dget_default (px_attrs (xm_config x)) ''mode'' VNone = VStr s"

definition xm_build_command :: "'w proxy_env \<Rightarrow> xm \<Rightarrow> string" where
  "xm_build_command P x = script_at 0
     [lit ''script -f -c ~'', ''set -x'', ''# install prerequisites'',
      ''sudo dnf install -y git cmake gcc-c++ libaio-devel openssl-devel ncurses-devel bison bash-completion'',
      ''# git clone'', ''git init bld'', ''cd bld'',
      ''git fetch --depth 1 https://'' @ px_text P (xm_config x) ''git_token'' @ ''@github.com/mariadb-corporation/MariaDBEnterprise ''
        @ px_text P (xm_config x) ''commit'',
      ''git checkout FETCH_HEAD'', ''# cmake & make'',
      ''cmake -DCMAKE_INSTALL_PREFIX=/home/rocky/inst ''
        @ (if mode_is x ''debug'' then ''-DCMAKE_BUILD_TYPE=Debug'' else ''-DBUILD_CONFIG=enterprise'')
        @ '' . -DPLUGIN_CONNECT=NO -DPLUGIN_ROCKSDB=NO -DPLUGIN_SPIDER=NO -DPLUGIN_MROONGA=NO'',
      ''# make all install'', ''make -j$(( '' @ [CHR 0x60] @ ''nproc'' @ [CHR 0x60] @ '' + 1)) install'', ''# mysql_install_db'',
      ''cd /home/rocky/inst'', lit ''scripts/mariadb-install-db --innodb-log-file-size=1G~'',
      lit ''echo `PATH=$PATH:$HOME/inst/bin` >> .bashrc'']"

definition xm_install :: "'w proxy_env \<Rightarrow> xm \<Rightarrow> ('w, exn, unit) io" where
  "xm_install P x =
     io_seq (io_when (mode_is x ''profile'') (px_do P (xm_multi x) (script_at 0
       [''sudo dnf install -y perf perl-open'', ''git clone https://github.com/brendangregg/FlameGraph'',
        lit ''sudo sh -c `echo -1 > /proc/sys/kernel/perf_event_paranoid`'',
        lit ''sudo sh -c `echo 0 > /proc/sys/kernel/kptr_restrict`'']) False))
    (io_seq (io_when (mode_is x ''debug'') (px_do P (xm_multi x) (script_at 0
       [''sudo dnf install -y gdb python3-pip'', ''sudo pip3 install gdb-tools'', lit ''echo `py import duel` > .gdbinit'']) False))
      (io_bind (px_all P (xm_multi x) (xm_build_command P x) 3600 False) (\<lambda>_. io_return ())))"

text \<open>Each proxy talks to one host of the target, in turn.\<close>

definition xm_host_args :: "string list \<Rightarrow> nat \<Rightarrow> (string, string) dict list" where
  "xm_host_args ips n = map (\<lambda>i. [(''ip'', ips ! (i mod length ips))]) [0..<n]"

definition xm_config_command :: "'w proxy_env \<Rightarrow> backend_target \<Rightarrow> string" where
  "xm_config_command P b = script_at 0
     [''# my.cnf'', ''tee /home/rocky/.my.cnf << __END__'', ''[server]'', ''log-basename=xm'', ''plugin-load-add=ha_xm'',
      ''plugin-load-add=sql_errlog'', ''plugin-maturity=experimental'', ''xm-remote-host=%(ip)s'',
      ''xm-remote-port='' @ target_field P b ''port'', ''xm-remote-user='' @ target_field P b ''user'',
      lit ''xm-remote-password=~'' @ target_field P b ''password'' @ lit ''~'', ''init-file=/home/rocky/inst/init.sql'',
      ''enforce-storage-engine=xm'', ''sql-mode=STRICT_TRANS_TABLES,ERROR_FOR_DIVISION_BY_ZERO'', ''__END__'',
      ''tee /home/rocky/inst/init.sql << __END__'',
      ''create user if not exists '' @ target_field P b ''user'' @ lit ''@`%%` identified by ~'' @ target_field P b ''password'' @ lit ''~;'',
      ''grant all privileges on *.* to '' @ target_field P b ''user'' @ lit ''@`%%`;'', ''create database if not exists sysbench;'', ''__END__'']"

definition xm_start :: "'w proxy_env \<Rightarrow> xm \<Rightarrow> ('w, exn, unit) io" where
  "xm_start P x = px_do P (xm_multi x) (lit ''nohup script -ac ~mariadbd-safe &~'') False"

definition xm_stop :: "'w proxy_env \<Rightarrow> xm \<Rightarrow> ('w, exn, unit) io" where
  "xm_stop P x = px_do P (xm_multi x) ''pkill mariadbd'' False"

definition xm_post_install :: "'w proxy_env \<Rightarrow> xm \<Rightarrow> backend_target \<Rightarrow> ('w, exn, backend_target) io" where
  "xm_post_install P x b =
     io_bind (io_lift (target_hosts b)) (\<lambda>ips.
     io_bind (run_on_all_nodes (de_nodes (px_env P)) (px_percent P) (xm_multi x) (CmdStr (xm_config_command P b)) 300 False
         (Some (xm_host_args ips (num_nodes (xm_multi x)))) False) (\<lambda>_.
     io_seq (xm_start P x)
       (if truthy (dget_default (px_attrs (xm_config x)) ''skip'' VNone) then io_return b else io_lift (with_client_hosts (xm_multi x) b))))"

text \<open>The answers are looked at one by one; after the first that is not alive the others are only logged.\<close>

fun all_alive :: "(string, string) dict list \<Rightarrow> exn + bool" where
  "all_alive [] = Inr True"
| "all_alive (r # rs) =
     (case dget r ''stdout'' of None \<Rightarrow> Inl PyTypeError
      | Some out \<Rightarrow> if contains_str out ''is alive'' then all_alive rs else Inr False)"

definition xm_self_test :: "'w proxy_env \<Rightarrow> xm \<Rightarrow> ('w, exn, bool) io" where
  "xm_self_test P x = io_bind (px_all P (xm_multi x) ''mariadb-admin ping'' 300 False) (\<lambda>rs. io_lift (all_alive rs))"

definition xm_clean :: "'w proxy_env \<Rightarrow> xm \<Rightarrow> ('w, exn, unit) io" where
  "xm_clean P x = io_seq (xm_stop P x) (px_do P (xm_multi x) (''rm -rf '' @ [CHR 0x7E] @ ''/inst '' @ [CHR 0x7E] @ ''/bld '' @ [CHR 0x7E] @ ''/.my.cnf'') False)"


section \<open>Xgres\<close>

definition XGRES_CONFIG_FILE :: string where "XGRES_CONFIG_FILE = ''xgres.yaml''"
definition xgres_project_directory :: string where "xgres_project_directory = ''/data/xgres''"
definition xgres_database_directory :: string where "xgres_database_directory = xgres_project_directory @ ''/mdbinstall''"
definition xgres_custom_settings_file :: string where "xgres_custom_settings_file = xgres_database_directory @ ''/data/custom.conf''"

definition xgres_custom_settings :: string where
  "xgres_custom_settings = join [newline]
     [lit ''listen_addresses = `*`'', lit ''shared_preload_libraries = `$libdir/xgres.so`'', ''max_connections = 1024'',
      ''shared_buffers = 15852'', ''work_mem = 114'', ''effective_cache_size = 47558'', ''max_worker_processes = 16'',
      ''plan_cache_mode = force_generic_plan'']"

record xgres =
  xg_config :: proxy_config
  xg_node :: node
  xg_server :: string
  xg_params :: pydict

text \<open>The way of the queries: the wrapper (\<open>FDW\<close>), or anything else.\<close>

definition uses_fdw :: "proxy_config \<Rightarrow> bool" where
  "uses_fdw c \<longleftrightarrow> dget_default (px_attrs c) ''xgres_query_path'' VNone = VStr ''FDW''"

definition Xgres :: "'w proxy_env \<Rightarrow> node \<Rightarrow> pydict \<Rightarrow> exn + xgres" where
  "Xgres P n kwargs =
     (case de_key (px_env P) XGRES_CONFIG_FILE (klass_config_label (vm n)) of Inl e \<Rightarrow> Inl e | Inr v \<Rightarrow>
     (case px_config P ''XgresConfig'' v of Inl e \<Rightarrow> Inl e | Inr c \<Rightarrow>
     (case network (vm n) of None \<Rightarrow> Inl PyAttributeError | Some nw \<Rightarrow>
     (let db = dset (px_db c) ''host'' (VStr (get_private_iface nw)); field = (\<lambda>k. (k, dget_default db k VNone)) in
     (case PgSqlClient (de_roundrobin (px_env P)) [(''host'', VStr (get_public_iface nw)), field ''port'', field ''user'', field ''password'', field ''database'']
        of Inl e \<Rightarrow> Inl e | Inr params \<Rightarrow>
        Inr \<lparr>xg_config = c\<lparr>px_db := db\<rparr>, xg_node = n,
             xg_server = (if uses_fdw c then ''xpand_server'' else ''xpand_server_global''), xg_params = params\<rparr>)))))"

definition xg_db_text :: "'w proxy_env \<Rightarrow> xgres \<Rightarrow> string \<Rightarrow> string" where
  "xg_db_text P x k = target_field P (px_db (xg_config x)) k"

definition local_psql :: "string \<Rightarrow> string" where
  "local_psql stmt = join [newline] [lit ''sudo -i -u postgres $SHELL -c `psql` << EOF'', ''        '' @ stmt, ''        EOF'', ''        '']"

definition xg_psql :: "'w proxy_env \<Rightarrow> string \<Rightarrow> ('w, exn, unit) io" where
  "xg_psql P stmt = io_bind (pgsql_execute (de_sql (px_env P)) stmt) (\<lambda>_. io_return ())"

definition xg_root :: "'w proxy_env \<Rightarrow> xgres \<Rightarrow> string \<Rightarrow> ('w, exn, unit) io" where
  "xg_root P x cmd = node_exec (de_nodes (px_env P)) (xg_node x) cmd True False"

definition xg_user :: "'w proxy_env \<Rightarrow> xgres \<Rightarrow> string \<Rightarrow> ('w, exn, unit) io" where
  "xg_user P x cmd = node_exec (de_nodes (px_env P)) (xg_node x) cmd False False"

text \<open>As the user \<^verbatim>\<open>postgres\<close>, with errors ignored.\<close>

definition xg_postgres :: "'w proxy_env \<Rightarrow> xgres \<Rightarrow> string \<Rightarrow> ('w, exn, string) io" where
  "xg_postgres P x cmd = node_run (de_nodes (px_env P)) (xg_node x) (CmdStr cmd) 300 True True (Some ''postgres'')"

definition xg_quiet :: "'w proxy_env \<Rightarrow> xgres \<Rightarrow> string \<Rightarrow> ('w, exn, unit) io" where
  "xg_quiet P x cmd = io_bind (xg_postgres P x cmd) (\<lambda>_. io_return ())"

definition clone_repo_cmd :: "'w proxy_env \<Rightarrow> xgres \<Rightarrow> string \<Rightarrow> string \<Rightarrow> string" where
  "clone_repo_cmd P x repo_name target_dir =
     ''git clone https://'' @ px_text P (xg_config x) ''xgres_git_token'' @ ''@github.com/mariadb-corporation/'' @ repo_name @ ''.git '' @ target_dir"

definition make_project_directory :: "'w proxy_env \<Rightarrow> xgres \<Rightarrow> ('w, exn, unit) io" where
  "make_project_directory P x =
     io_seq (xg_root P x (mkdir_command ''/data'' ''/dev/nvme1n1'' False False))
    (io_seq (xg_root P x (''mkdir -p '' @ xgres_project_directory))
      (xg_root P x (''chown -R postgres:postgres '' @ xgres_project_directory)))"

text \<open>
  \<open>_manage_packages\<close>: the argument is replaced by the command of the package manager before it is compared with
  \<open>install\<close> and \<open>erase\<close>.
\<close>

definition package_actions :: "yum \<Rightarrow> string \<Rightarrow> exn + string \<times> string" where
  "package_actions y action =
     (if action = ''install''
      then (case install_pkg_cmd y of Inl e \<Rightarrow> Inl e | Inr a \<Rightarrow> map_sum id (\<lambda>g. (a, g)) (install_group y))
      else (case remove_pkg_cmd y of Inl e \<Rightarrow> Inl e | Inr a \<Rightarrow> map_sum id (\<lambda>g. (a, g)) (remove_group y)))"

definition manage_server_package :: "'w proxy_env \<Rightarrow> xgres \<Rightarrow> yum \<Rightarrow> string \<Rightarrow> ('w, exn, unit) io" where
  "manage_server_package P x y action =
     (if action = ''install'' then
        io_seq (io_when (version_number y = ''8'')
            (io_bind (io_lift (disable_module_cmd y)) (\<lambda>d. xg_user P x (d @ '' postgresql''))))
          (xg_root P x ''yes | yum install postgresql14 -y'')
      else io_when (action = ''erase'') (xg_root P x (action @ '' postgresql14'')))"

definition manage_packages :: "'w proxy_env \<Rightarrow> xgres \<Rightarrow> string \<Rightarrow> ('w, exn, unit) io" where
  "manage_packages P x action =
     io_bind (attribute (node_yum (xg_node x))) (\<lambda>y.
     io_bind (io_lift (package_actions y action)) (\<lambda>(act, group_action).
     io_seq (io_for [''zlib-devel'', ''readline-devel'', ''mariadb-devel'', ''libzstd''] (\<lambda>pkg. xg_root P x (act @ '' '' @ pkg)))
    (io_bind (os_version (de_nodes (px_env P)) (xg_node x)) (\<lambda>version.
     io_seq (xg_root P x (act @ '' https://download.postgresql.org/pub/repos/yum/reporpms/EL-'' @ hd (split_on (CHR ''.'') version) @ ''-''
       @ arch (vm (xg_node x)) @ ''/pgdg-redhat-repo-latest.noarch.rpm''))
    (io_seq (manage_server_package P x y act)
    (io_seq (xg_root P x (act @ '' libpq5-devel''))
      (xg_root P x (group_action @ lit '' ~Development Tools~ --nobest''))))))))"

definition pg_bash_profile :: string where
  "pg_bash_profile = join [newline]
     [[], ''# .bash_profile'', [], ''# Get the aliases and functions'', ''if [ -f '' @ [CHR 0x7E] @ ''/.bashrc ]; then'',
      ''    . '' @ [CHR 0x7E] @ ''/.bashrc'', ''fi'', [], ''# User specific environment and startup programs'', [],
      ''PATH=$PATH:$HOME/.local/bin:$HOME/bin'', [], ''export PATH'', ''export PGHOME='' @ xgres_database_directory @ ''/data'',
      ''export PATH='' @ xgres_database_directory @ ''/bin:$PATH'',
      ''export LD_LIBRARY_PATH='' @ xgres_database_directory @ ''/lib:$LD_LIBRARY_PATH'', []]"

text \<open>A text goes to a temporary file here, is copied to one there, and is moved to its place.\<close>

definition remote_temp :: "string \<Rightarrow> string" where
  "remote_temp f = ''/tmp/'' @ basename f"

definition setup_pg_bash_profile :: "'w proxy_env \<Rightarrow> xgres \<Rightarrow> ('w, exn, unit) io" where
  "setup_pg_bash_profile P x =
     io_bind (de_temp_file (px_env P) pg_bash_profile) (\<lambda>f.
     io_seq (scp_file (de_nodes (px_env P)) (xg_node x) f (remote_temp f))
    (io_seq (xg_root P x (''mv '' @ remote_temp f @ '' /home/postgres/.bash_profile''))
      (xg_root P x ''chown postgres:postgres /home/postgres/.bash_profile'')))"

definition create_pg_user :: "'w proxy_env \<Rightarrow> xgres \<Rightarrow> ('w, exn, unit) io" where
  "create_pg_user P x = xg_root P x ''useradd -s /bin/bash postgres''"

definition build_pg :: "'w proxy_env \<Rightarrow> xgres \<Rightarrow> ('w, exn, unit) io" where
  "build_pg P x = xg_quiet P x (join [newline] ([] # map (\<lambda>l. ''            '' @ l)
     [clone_repo_cmd P x ''xgres_postgresql'' ''postgresql'' @ '' &&'', ''cd /home/postgres/postgresql &&'',
      ''git checkout '' @ px_text P (xg_config x) ''pg_build_tag'' @ '' &&'', ''./configure --prefix='' @ xgres_database_directory @ '' &&'',
      ''make && make install'']))"

definition build_xgres :: "'w proxy_env \<Rightarrow> xgres \<Rightarrow> ('w, exn, unit) io" where
  "build_xgres P x = xg_quiet P x (join [newline] ([] # map (\<lambda>l. ''            '' @ l)
     [clone_repo_cmd P x ''xgres'' [] @ '' &&'', ''cd /home/postgres/xgres &&'',
      ''git checkout '' @ px_text P (xg_config x) ''build_tag'' @ '' &&'', ''make USE_PGXS=1 install'']))"

definition pg_ctl_cmd :: "string \<Rightarrow> string" where
  "pg_ctl_cmd cmd = xgres_database_directory @ ''/bin/pg_ctl '' @ cmd @ (if cmd = ''shutdown'' \<or> cmd = ''restart'' then '' -m fast'' else [])
     @ '' -D '' @ xgres_database_directory @ ''/data -l '' @ xgres_database_directory @ ''/'' @ cmd @ ''.log''"

definition add_custom_settings :: "'w proxy_env \<Rightarrow> xgres \<Rightarrow> ('w, exn, unit) io" where
  "add_custom_settings P x =
     io_bind (de_temp_file (px_env P) xgres_custom_settings) (\<lambda>f.
     io_seq (scp_file (de_nodes (px_env P)) (xg_node x) f (remote_temp f))
    (io_seq (xg_root P x (''chown postgres:postgres '' @ remote_temp f))
    (io_seq (xg_quiet P x (''mv '' @ remote_temp f @ '' '' @ xgres_database_directory @ ''/data/custom.conf''))
      (xg_quiet P x (''cat '' @ xgres_custom_settings_file @ '' >> '' @ xgres_database_directory @ ''/data/postgresql.conf'')))))"

definition xg_initdb :: "'w proxy_env \<Rightarrow> xgres \<Rightarrow> ('w, exn, unit) io" where
  "xg_initdb P x = xg_quiet P x (pg_ctl_cmd ''initdb'')"

definition start_pg_server :: "'w proxy_env \<Rightarrow> xgres \<Rightarrow> ('w, exn, unit) io" where
  "start_pg_server P x = xg_quiet P x (pg_ctl_cmd ''start'')"

definition allow_remote_pg_connections :: "'w proxy_env \<Rightarrow> xgres \<Rightarrow> ('w, exn, unit) io" where
  "allow_remote_pg_connections P x = xg_quiet P x
     (lit ''echo ~host    all             all             0.0.0.0/0               scram-sha-256~ >> '' @ xgres_database_directory @ ''/data/pg_hba.conf'')"

definition setup_benchmark_db :: "'w proxy_env \<Rightarrow> xgres \<Rightarrow> ('w, exn, unit) io" where
  "setup_benchmark_db P x = xg_user P x (local_psql (''CREATE DATABASE '' @ xg_db_text P x ''database'' @ '';''))"

definition create_extension :: "'w proxy_env \<Rightarrow> ('w, exn, unit) io" where
  "create_extension P = xg_psql P ''CREATE EXTENSION IF NOT EXISTS xgres''"

definition connect_pg_to_xpand :: "'w proxy_env \<Rightarrow> xgres \<Rightarrow> backend_target \<Rightarrow> ('w, exn, unit) io" where
  "connect_pg_to_xpand P x b =
     io_seq (xg_psql P (''CREATE SERVER '' @ xg_server x @ lit '' FOREIGN DATA WRAPPER xgres OPTIONS (host `'' @ target_field P b ''host''
        @ lit ''`, port `'' @ target_field P b ''port'' @ lit ''`, dbname `'' @ target_field P b ''database'' @ lit ''`, use_remote_estimate `FALSE`)''))
       (xg_psql P (''CREATE USER MAPPING FOR PUBLIC SERVER '' @ xg_server x @ lit '' OPTIONS (username `'' @ target_field P b ''user''
        @ lit ''`, password `'' @ target_field P b ''password'' @ lit ''`)''))"

definition create_pg_db_user :: "'w proxy_env \<Rightarrow> xgres \<Rightarrow> ('w, exn, unit) io" where
  "create_pg_db_user P x =
     io_seq (xg_user P x (local_psql (''CREATE ROLE '' @ xg_db_text P x ''user'' @ '' WITH SUPERUSER LOGIN;'')))
       (xg_user P x (local_psql (''ALTER ROLE '' @ xg_db_text P x ''user'' @ lit '' ENCRYPTED PASSWORD `'' @ xg_db_text P x ''password'' @ lit ''`;'')))"

definition xgres_configure :: "'w proxy_env \<Rightarrow> xgres \<Rightarrow> ('w, exn, unit) io" where
  "xgres_configure P x =
     io_seq (create_pg_user P x) (io_seq (make_project_directory P x) (io_seq (manage_packages P x ''install'')
       (io_seq (setup_pg_bash_profile P x) (io_seq (build_pg P x) (build_xgres P x)))))"

definition xgres_install :: "'w proxy_env \<Rightarrow> xgres \<Rightarrow> ('w, exn, unit) io" where
  "xgres_install P x =
     io_seq (xg_initdb P x) (io_seq (allow_remote_pg_connections P x) (io_seq (add_custom_settings P x) (start_pg_server P x)))"

definition set_query_path :: "'w proxy_env \<Rightarrow> xgres \<Rightarrow> ('w, exn, unit) io" where
  "set_query_path P x = xg_psql P (''SET xgres_fdw.passthrough = '' @ (if uses_fdw (xg_config x) then ''false'' else ''true''))"

text \<open>What it returns is the target it got.\<close>

definition xgres_post_install :: "'w proxy_env \<Rightarrow> xgres \<Rightarrow> backend_target \<Rightarrow> ('w, exn, backend_target) io" where
  "xgres_post_install P x b =
     io_seq (setup_benchmark_db P x)
    (io_seq (create_pg_db_user P x)
    (io_seq (pgsql_connect (de_sql (px_env P)) (xg_params x))
    (io_seq (create_extension P)
    (io_seq (connect_pg_to_xpand P x b)
    (io_seq (set_query_path P x) (io_return b))))))"

definition xgres_db_connect :: "'w proxy_env \<Rightarrow> xgres \<Rightarrow> ('w, exn, unit) io" where
  "xgres_db_connect P x = io_catch [PgSqlClientException] XgresException
     (io_seq (pgsql_connect (de_sql (px_env P)) (xg_params x)) (pgsql_print_db_version (de_sql (px_env P))))"

definition xgres_self_test :: "'w proxy_env \<Rightarrow> xgres \<Rightarrow> ('w, exn, bool) io" where
  "xgres_self_test P x = io_bind (xg_postgres P x (pg_ctl_cmd ''status'')) (\<lambda>out. io_return (contains_str out ''server is running''))"

definition xgres_start :: "'w proxy_env \<Rightarrow> xgres \<Rightarrow> ('w, exn, unit) io" where
  "xgres_start P x = start_pg_server P x"

definition xgres_stop :: "'w proxy_env \<Rightarrow> xgres \<Rightarrow> ('w, exn, unit) io" where
  "xgres_stop P x = xg_quiet P x (pg_ctl_cmd ''shutdown'')"

definition xgres_clean :: "'w proxy_env \<Rightarrow> xgres \<Rightarrow> ('w, exn, unit) io" where
  "xgres_clean P x =
     io_seq (xgres_stop P x) (io_seq (xg_root P x (''rm -rf '' @ xgres_project_directory)) (manage_packages P x ''erase''))"

section \<open>Lemmas\<close>

lemma io_catch_result: "io_catch cs t m w = (Inr y, w') \<Longrightarrow> m w = (Inr y, w')"
  by (auto simp: io_catch_def io_defs split: prod.splits sum.splits if_splits)

lemma with_client_hosts_target:
  "with_client_hosts m (dset b ''host'' v) = Inr b' \<Longrightarrow> \<exists>ips. all_client_ips (nodes m) = Inr ips \<and> b' = dset b ''host'' (VStr (join '','' ips))"
  by (auto simp: with_client_hosts_def dset_twice split: sum.splits)

lemma set_maxscale_config_result:
  assumes "set_maxscale_config P x b w = (Inr b', w')"
  shows "\<exists>hs. target_hosts b = Inr hs \<and> b' = dset b ''host'' (VStr (hd hs))"
proof -
  from io_catch_result [OF assms [unfolded set_maxscale_config_def]] show ?thesis
    by (auto simp: io_bind_def io_seq_def io_lift_def io_return_def Let_def split: prod.splits sum.splits)
qed

lemma mod_count: "k < L \<Longrightarrow> length (filter (\<lambda>i. i mod L = k) [0..<n]) = n div L + of_bool (k < n mod L)" for k L n :: nat
proof (induction n)
  case (Suc n)
  then show ?case by (cases "Suc (n mod L) = L") (auto simp: div_Suc mod_Suc)
qed simp

lemma count_list_filter: "count_list xs y = length (filter (\<lambda>x. x = y) xs)"
  by (induction xs) auto

text \<open>
  What \<open>post_install\<close> returns is what the drivers connect to. Maxscale and Xm (unless it is told to skip) return the target with
  their own client addresses as its hosts and nothing else changed. Xgres returns the target it got, so the
  drivers go past the proxy to the backend.
\<close>

lemma post_install_result:
  "case fst (maxscale_post_install P mx b w) of Inl e \<Rightarrow> True
     | Inr b' \<Rightarrow> \<exists>ips. all_client_ips (nodes (mx_multi mx)) = Inr ips \<and> b' = dset b ''host'' (VStr (join '','' ips))"
  "case fst (xm_post_install P x b w) of Inl e \<Rightarrow> True
     | Inr b' \<Rightarrow> if truthy (dget_default (px_attrs (xm_config x)) ''skip'' VNone) then b' = b
         else \<exists>ips. all_client_ips (nodes (xm_multi x)) = Inr ips \<and> b' = dset b ''host'' (VStr (join '','' ips))"
  "case fst (xgres_post_install P xg b w) of Inl e \<Rightarrow> True | Inr b' \<Rightarrow> b' = b"
  subgoal
    using set_maxscale_config_result [of P mx b w] with_client_hosts_target [where m = "mx_multi mx" and b = b]
    by (fastforce simp: maxscale_post_install_def io_bind_def io_seq_def io_lift_def split: prod.splits sum.splits)
  subgoal
    by (auto simp: xm_post_install_def with_client_hosts_def io_bind_def io_seq_def io_lift_def io_return_def split: prod.splits sum.splits)
  by (auto simp: xgres_post_install_def io_seq_def io_bind_def io_return_def split: prod.splits sum.splits)

section \<open>Properties\<close>

text \<open>
  Xgres never installs the PostgreSQL server, and never removes it: on every known system the command that stands for the action
  is neither of the words it is compared with, so that step does nothing.
\<close>

theorem xgres_skips_server:
  assumes "package_actions y action = Inr (act, group_action)"
  shows "manage_server_package P x y act w = (Inr (), w)"
proof -
  have "act \<noteq> ''install'' \<and> act \<noteq> ''erase''"
    using assms
    by (cases "install_group y"; cases "remove_group y") (auto simp: package_actions_def install_pkg_cmd_def remove_pkg_cmd_def dict_index_def PACKAGE_MANAGERS_INSTALL_def
        PACKAGE_MANAGERS_REMOVE_def split: if_splits sum.splits option.splits)
  then show ?thesis by (simp add: manage_server_package_def io_when_def io_return_def)
qed

text \<open>
  C31. The proxies of Xm share the hosts of the target evenly: of \<open>n\<close> proxies, each of the \<open>l\<close> hosts serves
  \<open>n div l\<close>, and the first \<open>n mod l\<close> hosts serve one more.
\<close>

theorem xm_hosts_balanced:
  assumes "distinct ips" and "k < length ips"
  shows "count_list (map (\<lambda>a. dget a ''ip'') (xm_host_args ips n)) (Some (ips ! k))
    = n div length ips + of_bool (k < n mod length ips)"
proof -
  have "i mod length ips < length ips" for i using assms(2) by (intro mod_less_divisor) linarith
  then have "ips ! (i mod length ips) = ips ! k \<longleftrightarrow> i mod length ips = k" for i
    using assms by (simp add: nth_eq_iff_index_eq)
  then have "count_list (map (\<lambda>a. dget a ''ip'') (xm_host_args ips n)) (Some (ips ! k)) = length (filter (\<lambda>i. i mod length ips = k) [0..<n])"
    by (simp add: xm_host_args_def count_list_filter filter_map o_def)
  then show ?thesis using mod_count [OF assms(2)] by simp
qed

theorem xm_hosts_balanced_witness:
  "count_list (map (\<lambda>a. dget a ''ip'') (xm_host_args [''10.0.0.1'', ''10.0.0.2'', ''10.0.0.3''] 4)) (Some ''10.0.0.1'') = 2"
  using xm_hosts_balanced [of "[''10.0.0.1'', ''10.0.0.2'', ''10.0.0.3'']" 0 4] by simp

definition demo_proxy_env :: "string list proxy_env" where
  "demo_proxy_env = \<lparr>px_env = demo_db_env undefined demo_node_env, px_config = (\<lambda>k v. Inr \<lparr>px_db = [], px_attrs = []\<rparr>), px_percent = (\<lambda>c a. Inr c)\<rparr>"

theorem xgres_skips_server_witness:
  "manage_server_package demo_proxy_env \<lparr>xg_config = \<lparr>px_db = [], px_attrs = []\<rparr>, xg_node = demo_node, xg_server = [], xg_params = []\<rparr>
     \<lparr>yum_os_type = ROCKY8\<rparr> ''dnf install -y'' [] = (Inr (), [])"
  by (rule xgres_skips_server [where action = "''install''" and group_action = "''dnf group install -y''"])
    (simp add: package_actions_def install_pkg_cmd_def install_group_def dict_index_def PACKAGE_MANAGERS_INSTALL_def
      PACKAGE_MANAGERS_GROUP_INSTALL_def ROCKY8_def CENTOS7_def RHEL7_def CENTOS8_def AMAZONLINUX2_def)

end
