(* ===== verification/XB_Columnstore.thy ===== *)
theory XB_Columnstore
  imports XB_Proxies XB_Aws
begin

text \<open>
  ColumnStore, \<^verbatim>\<open>backend/columnstore/\<close>: MariaDB servers on several machines with the ColumnStore
  engine, from the enterprise repository, from a build service or from local packages; and the storage of its data in S3, which is set up
  in the place of a proxy.

  Parameters are those of \<open>XB_Databases\<close> and \<open>XB_Aws\<close>, the cluster file, the configuration of the clouds, and
  \<open>json.loads\<close>.
\<close>

section \<open>The tool of Amazon\<close>

record 'w cs_env =
  cs_db :: "'w db_env"
  cs_aws :: "'w aws_env"
  cs_draw :: "nat \<Rightarrow> nat"
  cs_clusters :: "'w \<Rightarrow> string \<Rightarrow> cluster_doc option"
  cs_cloud_yaml :: "exn + yaml_config"
  cs_site :: string

definition get_default_cluster :: "'w cs_env \<Rightarrow> ('w, exn, cluster) io" where
  "get_default_cluster S w =
     (catch [YamlConfigException, XbenchConfigException, ClusterException] XbenchException
        (load_from_config (aws_libs (cs_aws S)) (cs_clusters S w (cs_site S)) (Cluster (cs_draw S) (cs_site S) ''xpand'')), w)"

text \<open>A region without configuration is \<open>None\<close>, which cannot be spread into arguments.\<close>

definition region_settings :: "exn + yaml_config \<Rightarrow> string \<Rightarrow> exn + pydict" where
  "region_settings y rg =
     (case y of Inl e \<Rightarrow> Inl e | Inr yc \<Rightarrow>
     (case get_key yc ''providers'' ''aws'' False of Inl e \<Rightarrow> Inl e
      | Inr (VDict aws) \<Rightarrow> (case dget aws rg of
            Some (VDict rc) \<Rightarrow> if dget rc ''cluster_name'' = None then Inr rc else Inl PyTypeError
          | _ \<Rightarrow> Inl PyTypeError)
      | Inr _ \<Rightarrow> Inl PyAttributeError))"

definition get_aws_cli :: "'w cs_env \<Rightarrow> ('w, exn, aws_cli) io" where
  "get_aws_cli S =
     io_bind (get_default_cluster S) (\<lambda>c.
       case envs c of [] \<Rightarrow> io_raise PyIndexError
       | v # _ \<Rightarrow> io_bind (io_lift (region_settings (cs_cloud_yaml S) (env_region v)))
           (\<lambda>rc. AwsCliObject (cs_aws S) (cs_site S) rc))"

section \<open>Builds\<close>

definition cs_os_mapping :: "(string, string) dict" where "cs_os_mapping = [(ROCKY8, ''rockylinux8'')]"
definition cs_arch_mapping :: "(string, string) dict" where
  "cs_arch_mapping = [(''aarch64'', ''arm64''), (''x86_64'', ''amd64'')]"

text \<open>For a build other than the latest the code takes the length of a comparison, which is a \<open>bool\<close>.\<close>

definition get_build_subpath :: "string \<Rightarrow> exn + string" where
  "get_build_subpath bld = (if bld = ''latest'' then Inr bld else Inl PyTypeError)"

definition get_engine_drone_build_bucket :: "string \<Rightarrow> string \<Rightarrow> string \<Rightarrow> string \<Rightarrow> string \<Rightarrow> exn + string" where
  "get_engine_drone_build_bucket brn ar os server_version bld =
     (case dict_index cs_os_mapping os of Inl e \<Rightarrow> Inl e | Inr o' \<Rightarrow>
     (case dict_index cs_arch_mapping ar of Inl e \<Rightarrow> Inl e | Inr a' \<Rightarrow>
     (case get_build_subpath bld of Inl e \<Rightarrow> Inl e | Inr p \<Rightarrow>
        Inr (''s3://cspkg/'' @ brn @ ''/'' @ p @ ''/'' @ server_version @ ''/'' @ a' @ ''/'' @ o'))))"

definition get_cmapi_build_bucket :: "string \<Rightarrow> string \<Rightarrow> exn + string" where
  "get_cmapi_build_bucket ar bld =
     (case dict_index cs_arch_mapping ar of Inl e \<Rightarrow> Inl e | Inr a' \<Rightarrow>
     (case get_build_subpath bld of Inl e \<Rightarrow> Inl e | Inr p \<Rightarrow> Inr (''s3://cspkg/cmapi/develop/'' @ p @ ''/'' @ a' @ ''/'')))"

section \<open>Templates\<close>

definition lines_of :: "string list \<Rightarrow> string" where
  "lines_of ls = join [newline] ([] # ls @ [[]])"

definition storagemanager_cnf :: "string \<Rightarrow> string \<Rightarrow> string \<Rightarrow> string \<Rightarrow> string" where
  "storagemanager_cnf bucket rg key secret = lines_of
     [''[ObjectStorage]'',
      ''service = S3'',
      ''object_size = 5M'',
      ''metadata_path = /var/lib/columnstore/storagemanager/metadata'',
      ''journal_path = /var/lib/columnstore/storagemanager/journal'',
      ''max_concurrent_downloads = 21'',
      ''max_concurrent_uploads = 21'',
      ''common_prefix_depth = 3'',
      [],
      ''[Cache]'',
      ''cache_size = 2g'',
      ''path = /var/lib/columnstore/storagemanager/cache'',
      [],
      ''[S3]'',
      ''bucket                = '' @ bucket,
      ''endpoint              = s3.amazonaws.com'',
      ''region                = '' @ rg,
      ''aws_access_key_id     = '' @ key,
      ''aws_secret_access_key = '' @ secret]"

definition mcs_cluster_cnf :: "nat \<Rightarrow> string" where
  "mcs_cluster_cnf server_id = lines_of
     [''[mariadb]'',
      ''bind_address                           = 0.0.0.0'',
      ''log_error                              = mariadbd.err'',
      ''character_set_server                   = utf8'',
      ''collation_server                       = utf8_general_ci'',
      ''log_bin                                = mariadb-bin'',
      ''log_bin_index                          = mariadb-bin.index'',
      ''relay_log                              = mariadb-relay'',
      ''relay_log_index                        = mariadb-relay.index'',
      ''log_slave_updates                      = ON'',
      ''gtid_strict_mode                       = OFF'',
      ''columnstore_use_import_for_batchinsert = ALWAYS'',
      ''server_id                              = '' @ str_nat server_id]"

definition util_query :: "string \<Rightarrow> string \<Rightarrow> string" where
  "util_query u p = lines_of
     [lit ''CREATE USER `'' @ u @ lit ''`@`127.0.0.1`'',
      lit ''IDENTIFIED BY `'' @ p @ lit ''`;'',
      [],
      ''GRANT SELECT, PROCESS ON *.*'',
      lit ''TO `'' @ u @ lit ''`@`127.0.0.1`;'']"

definition repl_query :: "string \<Rightarrow> string \<Rightarrow> string \<Rightarrow> string" where
  "repl_query u p slave_host = lines_of
     [lit ''CREATE USER `'' @ u @ lit ''`@`'' @ slave_host @ lit ''` IDENTIFIED BY `'' @ p @ lit ''`;'',
      [],
      ''GRANT REPLICA MONITOR,'',
      ''    REPLICATION REPLICA,'',
      ''    REPLICATION REPLICA ADMIN,'',
      ''    REPLICATION MASTER ADMIN'',
      lit ''ON *.* TO `'' @ u @ lit ''`@`'' @ slave_host @ lit ''`;'']"

definition slave_replica_users_query :: "string \<Rightarrow> string \<Rightarrow> string \<Rightarrow> string" where
  "slave_replica_users_query master_host u p = lines_of
     [''    STOP SLAVE;'',
      ''    CHANGE MASTER TO'',
      lit ''        MASTER_HOST=`'' @ master_host @ lit ''`,'',
      lit ''        MASTER_USER=`'' @ u @ lit ''`,'',
      lit ''        MASTER_PASSWORD=`'' @ p @ lit ''`,'',
      ''        MASTER_USE_GTID=slave_pos;'',
      [],
      ''    START SLAVE;'',
      ''    STOP SLAVE;'',
      ''    RESET SLAVE;'',
      ''    START SLAVE;'']"

definition engineering_repo :: "string \<Rightarrow> string \<Rightarrow> string" where
  "engineering_repo mcs_baseurl cmapi_baseurl = join [newline]
     [[],
      ''[Columnstore-Internal-Testing]'',
      ''name = Columnstore-Internal-Testing'',
      ''baseurl = '' @ mcs_baseurl,
      ''gpgcheck = 0'',
      ''enabled = 1'',
      ''module_hotfixes = 1'',
      [],
      ''[CMAPI-Internal-Testing]'',
      ''name = CMAPI-Internal-Testing'',
      ''baseurl = '' @ cmapi_baseurl,
      ''gpgcheck = 0'',
      ''enabled = 1'',
      ''module_hotfixes = 1'']"

section \<open>ColumnStore\<close>

definition COLUMNSTORE_CONFIG_FILE :: string where "COLUMNSTORE_CONFIG_FILE = ''columnstore.yaml''"
definition CMAPI_KEY :: string where "CMAPI_KEY = ''xbench-api-key''"
definition COLUMSTORE_PATH :: string where "COLUMSTORE_PATH = ''/var/lib/columnstore''"

record columnstore =
  cs_config :: backend_config
  cs_multi :: multi_node
  cs_yum :: yum
  maria_class :: mariadb_class
  maria_servers :: "db_backend list"
  columnstore_data_dir :: string
  cs_params :: pydict

text \<open>The directory beside that of MariaDB; the parent must not be the root of the file system.\<close>

definition set_data_dir :: "pyval \<Rightarrow> exn + string" where
  "set_data_dir d =
     (case d of VStr p \<Rightarrow>
        (let parent_dir = path_head (normpath p) in
         if parent_dir = ''/'' then Inl ColumnstoreException else Inr (path_join parent_dir ''columnstore''))
      | _ \<Rightarrow> Inl PyTypeError)"

fun make_servers :: "'w db_env \<Rightarrow> node list \<Rightarrow> exn + db_backend list" where
  "make_servers E [] = Inr []"
| "make_servers E (n # ns) =
     (case MariaDB E n [(''mount_storage_to_parent'', VBool True), (''override_config_klass_label'', VStr ''latest'')] of
        Inl e \<Rightarrow> Inl e
      | Inr b \<Rightarrow> (case make_servers E ns of Inl e \<Rightarrow> Inl e | Inr bs \<Rightarrow> Inr (b # bs)))"

definition cs_build :: "'w cs_env \<Rightarrow> backend_config \<Rightarrow> string" where
  "cs_build S c = py_text (cs_db S) (dget_default (bc_attrs c) ''build'' VNone)"

definition ColumnStore :: "'w cs_env \<Rightarrow> node list \<Rightarrow> pydict \<Rightarrow> exn + columnstore" where
  "ColumnStore S ns kwargs =
     (let E = cs_db S in
     (case MultiNode (pem_dir (de_nodes E)) ns of Inl e \<Rightarrow> Inl e | Inr m \<Rightarrow>
     (case head_node ns of Inl e \<Rightarrow> Inl e | Inr h \<Rightarrow>
     (case BaseBackend (de_key E COLUMNSTORE_CONFIG_FILE) (de_config E ''ColumnStoreConfig'') (klass_config_label (vm h)) kwargs of
        Inl e \<Rightarrow> Inl e | Inr c \<Rightarrow>
     (case PackageManager (os_type (vm h)) of Inl e \<Rightarrow> Inl e | Inr y \<Rightarrow>
     (case make_servers E ns of Inl e \<Rightarrow> Inl e | Inr ss \<Rightarrow>
     (case set_data_dir (data_dir (db_config (hd ss))) of Inl e \<Rightarrow> Inl e | Inr d \<Rightarrow>
     (case network (vm h) of None \<Rightarrow> Inl PyAttributeError | Some nw \<Rightarrow>
     (let db = dset (bc_db c) ''host'' (VStr (get_public_iface nw)) in
     (case MySqlClient (de_accepted E) (de_roundrobin E) db of Inl e \<Rightarrow> Inl e | Inr params \<Rightarrow>
        Inr \<lparr>cs_config = c\<lparr>bc_db := db\<rparr>, cs_multi = m, cs_yum = y,
          maria_class = (if cs_build S c = ''enterprise'' then MariaDBEnterprise else MariaDB_generic),
          maria_servers = ss, columnstore_data_dir = d, cs_params = params\<rparr>))))))))))"

definition cs_text :: "'w cs_env \<Rightarrow> columnstore \<Rightarrow> string \<Rightarrow> string" where
  "cs_text S x k = py_text (cs_db S) (dget_default (bc_attrs (cs_config x)) k VNone)"

definition cs_all :: "'w cs_env \<Rightarrow> columnstore \<Rightarrow> string \<Rightarrow> ('w, exn, (string, string) dict list) io" where
  "cs_all S x cmd = run_on_all_nodes (de_nodes (cs_db S)) (\<lambda>c (a :: unit). Inr c) (cs_multi x) (CmdStr cmd) 300 True None False"

definition cs_do :: "'w cs_env \<Rightarrow> columnstore \<Rightarrow> string \<Rightarrow> ('w, exn, unit) io" where
  "cs_do S x cmd = io_bind (cs_all S x cmd) (\<lambda>_. io_return ())"

definition cs_install_cmd :: "'w cs_env \<Rightarrow> columnstore \<Rightarrow> string \<Rightarrow> ('w, exn, unit) io" where
  "cs_install_cmd S x args = io_bind (io_lift (install_pkg_cmd (cs_yum x))) (\<lambda>i. cs_do S x (i @ '' '' @ args))"

definition cs_head :: "'w cs_env \<Rightarrow> columnstore \<Rightarrow> string \<Rightarrow> ('w, exn, unit) io" where
  "cs_head S x cmd = io_bind (io_lift (head_node (nodes (cs_multi x)))) (\<lambda>h. node_exec (de_nodes (cs_db S)) h cmd True False)"

definition install_columnstore_from_es_repo :: "'w cs_env \<Rightarrow> columnstore \<Rightarrow> ('w, exn, unit) io" where
  "install_columnstore_from_es_repo S x =
     cs_install_cmd S x ''MariaDB-columnstore-cmapi MariaDB-columnstore-engine MariaDB-columnstore-engine-debuginfo''"

text \<open>A text that the shell reads up to \<open>EOF\<close>, or to the end where that is missing.\<close>

definition write_here :: "string \<Rightarrow> nat \<Rightarrow> string \<Rightarrow> string" where
  "write_here file gap content = ''cat << EOF > '' @ file @ [newline] @ replicate gap (CHR '' '') @ content"

definition install_columnstore_from_link_in_env :: "'w cs_env \<Rightarrow> columnstore \<Rightarrow> ('w, exn, unit) io" where
  "install_columnstore_from_link_in_env S x =
     io_seq (cs_do S x (write_here ''/etc/yum.repos.d/engineering.repo'' 31
         (engineering_repo (cs_text S x ''mcs_baseurl'') (cs_text S x ''cmapi_baseurl''))))
       (cs_install_cmd S x (''MariaDB-shared MariaDB-client MariaDB-server MariaDB-backup MariaDB-spider-engine ''
         @ ''MariaDB-cracklib-password-check MariaDB-columnstore-engine  MariaDB-columnstore-cmapi ''))"

text \<open>The check for packages is made on a generator, which counts as true: it never raises.\<close>

definition install_columnstore_from_local :: "'w cs_env \<Rightarrow> columnstore \<Rightarrow> ('w, exn, unit) io" where
  "install_columnstore_from_local S x =
     io_bind (io_lift (package_file_extension (cs_yum x))) (\<lambda>ext.
     io_seq (scp_to_all_nodes (de_nodes (cs_db S)) (cs_multi x) (cs_text S x ''packages_path'') ''/tmp'' True)
       (cs_install_cmd S x (path_join ''/tmp'' (basename (normpath (cs_text S x ''packages_path''))) @ ''/*.'' @ ext)))"

text \<open>\<open>get_aws_commands\<close>.\<close>

definition get_aws_commands :: "'w cs_env \<Rightarrow> columnstore \<Rightarrow> string \<Rightarrow> string \<Rightarrow> string \<Rightarrow> ('w, exn, string list) io" where
  "get_aws_commands S x install_path os ar =
     io_bind (get_aws_cli S) (\<lambda>cli.
     io_bind (io_lift (get_engine_drone_build_bucket (cs_text S x ''branch'') ar os (cs_text S x ''server_version'') (cs_text S x ''build''))) (\<lambda>engine_bucket.
     io_bind (io_lift (get_cmapi_build_bucket ar (cs_text S x ''build''))) (\<lambda>cmapi_bucket.
       io_return (map (\<lambda>b. ''export PATH=$PATH:/usr/local/bin && '' @ aws_base_command (cs_aws S) cli @ '' s3 cp '' @ b @ '' '' @ install_path
           @ lit '' --recursive --exclude ~*~ --include ~*.rpm~'') [engine_bucket, cmapi_bucket]))))"

definition install_all_from_drone_artifacts :: "'w cs_env \<Rightarrow> columnstore \<Rightarrow> ('w, exn, unit) io" where
  "install_all_from_drone_artifacts S x =
     (let install_path = ''/tmp/columnstore_install/'' @ cs_text S x ''branch'' in
      io_seq (cs_install_cmd S x ''python3-pip'')
     (io_seq (cs_do S x ''pip3 install awscli'')
     (io_seq (cs_do S x (''mkdir -p '' @ install_path))
     (io_seq (cs_do S x (''rm -rf '' @ install_path @ ''/*''))
     (io_bind (io_lift (head_node (nodes (cs_multi x)))) (\<lambda>h.
      io_bind (get_aws_commands S x install_path (os_type (vm h)) (arch (vm h))) (\<lambda>commands.
      io_seq (io_for commands (cs_do S x))
     (io_seq (cs_install_cmd S x (install_path @ ''/*.rpm''))
        (cs_do S x (''chown -R -L mysql:mysql '' @ COLUMSTORE_PATH))))))))))"

subsection \<open>Replication\<close>

text \<open>Servers are numbered from one.\<close>

definition write_server_ids :: "'w cs_env \<Rightarrow> columnstore \<Rightarrow> ('w, exn, unit) io" where
  "write_server_ids S x = io_for (zip [1..<Suc (length (nodes (cs_multi x)))] (nodes (cs_multi x))) (\<lambda>(id_num, n).
     node_exec (de_nodes (cs_db S)) n (write_here ''/etc/my.cnf.d/mcs-cluster.cnf'' 22 (mcs_cluster_cnf id_num)) True False)"

definition cs_password :: "'w cs_env \<Rightarrow> columnstore \<Rightarrow> string" where
  "cs_password S x = target_text (cs_db S) (hd (maria_servers x)) ''password''"

definition setup_master :: "'w cs_env \<Rightarrow> columnstore \<Rightarrow> string \<Rightarrow> ('w, exn, unit) io" where
  "setup_master S x pw = io_for (tl (nodes (cs_multi x))) (\<lambda>n.
     io_bind (node_run (de_nodes (cs_db S)) n (CmdStr ''hostname'') 300 False False None) (\<lambda>slave_host.
       db_run (cs_db S) (hd (maria_servers x)) (mysql_cli (repl_query ''repl'' pw (strip slave_host)))))"

definition setup_slaves :: "'w cs_env \<Rightarrow> columnstore \<Rightarrow> string \<Rightarrow> ('w, exn, unit) io" where
  "setup_slaves S x pw =
     io_bind (io_lift (head_node (nodes (cs_multi x)))) (\<lambda>h.
       case network (vm h) of None \<Rightarrow> io_raise PyAttributeError
       | Some nw \<Rightarrow> io_for (tl (maria_servers x)) (\<lambda>b.
           db_run (cs_db S) b (mysql_cli (slave_replica_users_query (private_ip nw) ''repl'' pw))))"

definition cross_engine :: "'w cs_env \<Rightarrow> columnstore \<Rightarrow> string \<Rightarrow> ('w, exn, unit) io" where
  "cross_engine S x pw = io_for (nodes (cs_multi x)) (\<lambda>n.
     io_for [''mcsSetConfig CrossEngineSupport Host 127.0.0.1'', ''mcsSetConfig CrossEngineSupport Password '' @ pw,
             ''mcsSetConfig CrossEngineSupport User util_user'']
       (\<lambda>c. node_exec (de_nodes (cs_db S)) n c True False))"

definition configure_replication :: "'w cs_env \<Rightarrow> columnstore \<Rightarrow> ('w, exn, unit) io" where
  "configure_replication S x =
     (let pw = cs_password S x in
      io_seq (write_server_ids S x)
     (io_seq (cs_do S x (lit ''grep -rl skip-log-bin /etc/my.cnf.d/ | xargs sed -i `s/skip-log-bin/#skip-log-bin/g`''))
     (io_seq (cs_do S x ''systemctl restart mariadb'')
     (io_seq (db_run (cs_db S) (hd (maria_servers x)) (mysql_cli (util_query ''util_user'' pw)))
     (io_seq (setup_master S x pw)
     (io_seq (setup_slaves S x pw)
     (io_seq (cross_engine S x pw)
       (cs_do S x ''systemctl restart mariadb''))))))))"

subsection \<open>Operations\<close>

definition columnstore_start :: "'w cs_env \<Rightarrow> columnstore \<Rightarrow> ('w, exn, unit) io" where
  "columnstore_start S x =
     io_seq (io_for (maria_servers x) (mariadb_start (cs_db S))) (cs_do S x ''systemctl start mariadb-columnstore-cmapi'')"

definition cmapi_headers :: "nat \<Rightarrow> string" where
  "cmapi_headers gap = (let g = replicate gap (CHR '' '') in
     g @ lit ''--header `Content-Type:application/json`'' @ g @ lit ''--header `x-api-key:'' @ CMAPI_KEY @ lit ''`'')"

definition columnstore_stop :: "'w cs_env \<Rightarrow> columnstore \<Rightarrow> ('w, exn, unit) io" where
  "columnstore_stop S x =
     io_seq (cs_head S x (''curl -k -s -X PUT https://mcs1:8640/cmapi/0.4.0/cluster/shutdown'' @ cmapi_headers 32
        @ replicate 32 (CHR '' '') @ lit ''--data `{~timeout~: 120}` ''))
    (io_seq (io_for (maria_servers x) (mariadb_stop (cs_db S))) (cs_do S x ''systemctl stop mariadb-columnstore-cmapi''))"

definition own_directories :: "'w cs_env \<Rightarrow> columnstore \<Rightarrow> ('w, exn, unit) io" where
  "own_directories S x =
     io_seq (cs_do S x (''chown -R -L mysql:mysql '' @ columnstore_data_dir x))
    (io_seq (cs_do S x (''chown -R -L mysql:mysql '' @ COLUMSTORE_PATH))
       (cs_do S x (''chmod 755 '' @ columnstore_data_dir x)))"

text \<open>The configured object; the name of the cluster, which is only logged, is left out.\<close>

definition columnstore_configure :: "'w cs_env \<Rightarrow> columnstore \<Rightarrow> ('w, exn, unit) io" where
  "columnstore_configure S x =
     io_seq (io_for (maria_servers x) (mariadb_configure (cs_db S)))
    (io_seq (cs_do S x (''mkdir -p '' @ columnstore_data_dir x))
    (io_seq (cs_do S x (''rm -rf '' @ COLUMSTORE_PATH))
    (io_seq (cs_do S x (''ln -s '' @ columnstore_data_dir x @ '' '' @ COLUMSTORE_PATH @ '' ''))
       (own_directories S x))))"

text \<open>The node that is added is the word \<open>ip\<close>: in the source its braces are missing.\<close>

definition add_node_command :: string where
  "add_node_command = lit ''curl -k -s -X `PUT` https://127.0.0.1:8640/cmapi/0.4.0/cluster/node'' @ cmapi_headers 36
     @ replicate 36 (CHR '' '') @ lit ''--data `{~timeout~:120, ~node~: ip }`''"

definition columnstore_install :: "'w cs_env \<Rightarrow> columnstore \<Rightarrow> ('w, exn, columnstore) io" where
  "columnstore_install S x =
     (let bld = cs_text S x ''build'' in
      io_seq (cs_install_cmd S x ''curl jq'')
     (io_seq (io_when (bld \<notin> set [''local'', ''enterprise'', ''jenkins'']) (install_all_from_drone_artifacts S x))
     (io_seq (io_when (bld = ''local'') (install_columnstore_from_local S x))
     (io_seq (io_when (bld = ''jenkins'') (install_columnstore_from_link_in_env S x))
     (io_bind (io_map (maria_servers x) (mariadb_install (maria_class x) (cs_db S))) (\<lambda>ss.
      let y = x\<lparr>maria_servers := ss\<rparr> in
      io_seq (io_when (bld = ''enterprise'') (install_columnstore_from_es_repo S y))
     (io_seq (own_directories S y)
     (io_seq (configure_replication S y)
     (io_seq (columnstore_start S y)
     (io_bind (io_lift (all_client_ips (nodes (cs_multi y)))) (\<lambda>ips.
      io_seq (io_for ips (\<lambda>_. cs_head S y add_node_command))
        (io_return (y\<lparr>cs_config := (cs_config y)\<lparr>bc_db := dset (bc_db (cs_config y)) ''host'' (VStr (join '','' ips))\<rparr>\<rparr>)))))))))))))"

definition columnstore_db_connect :: "'w cs_env \<Rightarrow> columnstore \<Rightarrow> ('w, exn, unit) io" where
  "columnstore_db_connect S x = io_catch [MySqlClientException] ColumnstoreException (mysql_connect (de_sql (cs_db S)) (cs_params x))"

definition columnstore_clean :: "'w cs_env \<Rightarrow> columnstore \<Rightarrow> ('w, exn, unit) io" where
  "columnstore_clean S x =
     io_seq (columnstore_stop S x)
    (io_seq (cs_do S x (''rm -rf '' @ COLUMSTORE_PATH))
    (io_seq (cs_do S x (''rm -rf '' @ columnstore_data_dir x))
    (io_seq (io_for (maria_servers x) (mariadb_clean (cs_db S)))
       (cs_do S x ''yum list --installed | grep MariaDB | xargs yum remove -y''))))"

text \<open>The size is only logged; no answer at all is \<open>None\<close>, which has no \<open>get\<close>.\<close>

definition columnstore_print_db_size :: "'w cs_env \<Rightarrow> ('w, exn, unit) io" where
  "columnstore_print_db_size S =
     io_bind (mysql_select_one_row (de_sql (cs_db S)) ''call columnstore_info.total_usage();'') (\<lambda>row.
       case row of None \<Rightarrow> io_raise PyAttributeError | Some _ \<Rightarrow> io_return ())"


section \<open>The state of the cluster\<close>

text \<open>\<open>k in v\<close> for what \<open>json.loads\<close> returns.\<close>

definition py_contains :: "pyval \<Rightarrow> string \<Rightarrow> exn + bool" where
  "py_contains v k = (case v of
     VDict d \<Rightarrow> Inr (dget d k \<noteq> None) | VList vs \<Rightarrow> Inr (VStr k \<in> set vs) | VStr s \<Rightarrow> Inr (contains_str s k) | _ \<Rightarrow> Inl PyTypeError)"

definition equals_int :: "pyval \<Rightarrow> int \<Rightarrow> bool" where
  "equals_int v n = (case v of VInt i \<Rightarrow> i = n | VBool b \<Rightarrow> of_bool b = n | _ \<Rightarrow> False)"

text \<open>One address: whether it is a master.\<close>

definition node_is_master :: "int \<Rightarrow> pyval \<Rightarrow> string \<Rightarrow> exn + bool" where
  "node_is_master n status ip =
     (case py_contains status ip of Inl e \<Rightarrow> Inl e | Inr False \<Rightarrow> Inl ColumnstoreException | Inr True \<Rightarrow>
     (case subscript status ''num_nodes'' of Inl e \<Rightarrow> Inl e | Inr k \<Rightarrow>
      if \<not> equals_int k n then Inl ColumnstoreException else
     (case subscript status ip of Inl e \<Rightarrow> Inl e | Inr nd \<Rightarrow>
     (case subscript nd ''dbrm_mode'' of Inl e \<Rightarrow> Inl e | Inr cluster_status \<Rightarrow>
     (case subscript nd ''cluster_mode'' of Inl e \<Rightarrow> Inl e | Inr cluster_mode \<Rightarrow>
      if cluster_status = VStr ''master'' \<and> cluster_mode \<noteq> VStr ''readwrite'' then Inl ColumnstoreException
      else if cluster_status = VStr ''slave'' \<and> cluster_mode \<noteq> VStr ''readonly'' then Inl ColumnstoreException
      else Inr (cluster_status = VStr ''master''))))))"

fun masters_of :: "int \<Rightarrow> pyval \<Rightarrow> string list \<Rightarrow> exn + bool list" where
  "masters_of n status [] = Inr []"
| "masters_of n status (ip # ips) =
     (case node_is_master n status ip of Inl e \<Rightarrow> Inl e
      | Inr b \<Rightarrow> (case masters_of n status ips of Inl e \<Rightarrow> Inl e | Inr bs \<Rightarrow> Inr (b # bs)))"

text \<open>What one node answers. The last message names the last address, which is unbound when there is none.\<close>

definition check_status :: "int \<Rightarrow> string list \<Rightarrow> pyval \<Rightarrow> exn + unit" where
  "check_status n ips status =
     (case masters_of n status ips of Inl e \<Rightarrow> Inl e
      | Inr bs \<Rightarrow> if list_ex id bs then Inr () else if ips = [] then Inl PyUnboundLocalError else Inl ColumnstoreException)"

fun check_answers :: "(string \<Rightarrow> exn + pyval) \<Rightarrow> int \<Rightarrow> string list \<Rightarrow> (string, string) dict list \<Rightarrow> exn + unit" where
  "check_answers json n ips [] = Inr ()"
| "check_answers json n ips (r # rs) =
     (case dict_index r ''stdout'' of Inl e \<Rightarrow> Inl e | Inr out \<Rightarrow>
     (case json out of Inl e \<Rightarrow> Inl e | Inr status \<Rightarrow>
     (case check_status n ips status of Inl e \<Rightarrow> Inl e | Inr _ \<Rightarrow> check_answers json n ips rs)))"

definition columnstore_self_test :: "'w cs_env \<Rightarrow> columnstore \<Rightarrow> ('w, exn, unit) io" where
  "columnstore_self_test S x =
     io_bind (cs_all S x (''curl -k https://127.0.0.1:8640/cmapi/0.4.0/cluster/status'' @ cmapi_headers 45 @ '' | jq . '')) (\<lambda>rs.
       case rs of [] \<Rightarrow> io_return ()
       | _ \<Rightarrow> io_bind (io_lift (all_client_ips (nodes (cs_multi x)))) (\<lambda>ips.
           io_lift (check_answers (aws_json (cs_aws S)) (int (length (nodes (cs_multi x)))) ips rs)))"

section \<open>Storage in S3\<close>

definition get_storagemanager_config :: "'w cs_env \<Rightarrow> string \<Rightarrow> ('w, exn, string) io" where
  "get_storagemanager_config S bucket =
     io_bind (get_aws_cli S) (\<lambda>cli. let a = aws_attr (cs_aws S) cli in
       io_return (storagemanager_cnf bucket (a ''aws_region'') (a ''aws_access_key_id'') (a ''aws_secret_access_key'')))"

definition write_config_file_command :: "'w cs_env \<Rightarrow> string \<Rightarrow> string \<Rightarrow> ('w, exn, string) io" where
  "write_config_file_command S bucket config_name =
     io_bind (get_storagemanager_config S bucket) (\<lambda>c.
       io_return (''cat << EOF > '' @ config_name @ '' '' @ [newline] @ c @ '' '' @ [newline] @ ''EOF''))"

text \<open>
  \<open>ColumnstoreS3Backend\<close>, the machine that reaches the backends, and the search for the user of a backend by its private address. The
  members of the cluster are looked at in order up to the first that fits.
\<close>

record columnstore_s3 =
  s3_node :: node
  s3_cluster_name :: string

definition ColumnstoreS3Backend :: "'w cs_env \<Rightarrow> node \<Rightarrow> columnstore_s3" where
  "ColumnstoreS3Backend S n = \<lparr>s3_node = n, s3_cluster_name = cs_site S\<rparr>"

fun backend_ssh_user :: "(string, node) dict \<Rightarrow> string \<Rightarrow> exn + string" where
  "backend_ssh_user [] ip = Inr []"
| "backend_ssh_user ((k, n) # ms) ip =
     (if role (vm n) \<noteq> ''backend'' then backend_ssh_user ms ip
      else case network (vm n) of None \<Rightarrow> Inl PyAttributeError
        | Some nw \<Rightarrow> if get_private_iface nw = ip then Inr (ssh_user (vm n)) else backend_ssh_user ms ip)"

definition s3_exec :: "'w cs_env \<Rightarrow> columnstore_s3 \<Rightarrow> string \<Rightarrow> ('w, exn, unit) io" where
  "s3_exec S b cmd = node_exec (de_nodes (cs_db S)) (s3_node b) cmd False False"

definition deploy_config :: "'w cs_env \<Rightarrow> columnstore_s3 \<Rightarrow> cluster \<Rightarrow> string \<Rightarrow> string \<Rightarrow> ('w, exn, string) io" where
  "deploy_config S b c config_command ip =
     io_bind (io_lift (backend_ssh_user (members c) ip)) (\<lambda>u.
       if u = [] then io_raise ColumnstoreException
       else io_seq (s3_exec S b (''ssh '' @ u @ ''@'' @ ip @ lit '' bash -c `'' @ config_command @ lit ''`''))
           (io_seq (s3_exec S b (''ssh '' @ u @ ''@'' @ ip @ '' sudo mv storagemanager.cnf /etc/columnstore/storagemanager.cnf''))
             (io_return u)))"

text \<open>The list of addresses is never empty: the check for that is dead.\<close>

definition s3_post_install :: "'w cs_env \<Rightarrow> columnstore_s3 \<Rightarrow> backend_target \<Rightarrow> ('w, exn, backend_target) io" where
  "s3_post_install S b t =
     io_bind (io_lift (target_hosts t)) (\<lambda>ips.
     io_bind (write_config_file_command S (s3_cluster_name b) ''storagemanager.cnf'') (\<lambda>config_command.
     io_bind (get_default_cluster S) (\<lambda>c.
     io_bind (io_map ips (deploy_config S b c config_command)) (\<lambda>users.
     io_seq (s3_exec S b (''ssh '' @ hd users @ ''@'' @ hd ips @ '' sudo /usr/bin/mcs cluster restart''))
    (io_seq (io_for ips (\<lambda>ip. s3_exec S b (''ssh rocky@'' @ ip @ '' testS3Connection'')))
       (io_return t))))))"

section \<open>Lemmas\<close>

text \<open>
  A healthy cluster, said of the answer as a whole: it has the number of nodes, a master that writes, and no
  address whose modes are missing or contradict each other.
\<close>

definition node_modes :: "pydict \<Rightarrow> string \<Rightarrow> (pyval \<times> pyval) option" where
  "node_modes d ip = (case dget d ip of
     Some (VDict nd) \<Rightarrow> (case (dget nd ''dbrm_mode'', dget nd ''cluster_mode'') of (Some m, Some c) \<Rightarrow> Some (m, c) | _ \<Rightarrow> None)
   | _ \<Rightarrow> None)"

definition modes_agree :: "pyval \<times> pyval \<Rightarrow> bool" where
  "modes_agree mc = (if fst mc = VStr ''master'' then snd mc = VStr ''readwrite''
     else if fst mc = VStr ''slave'' then snd mc = VStr ''readonly'' else True)"

definition columnstore_healthy :: "int \<Rightarrow> string list \<Rightarrow> pydict \<Rightarrow> bool" where
  "columnstore_healthy n ips d = (equals_int (dget_default d ''num_nodes'' VNone) n
     \<and> list_all (\<lambda>ip. node_modes d ip \<noteq> None \<and> modes_agree (the (node_modes d ip))) ips
     \<and> list_ex (\<lambda>ip. node_modes d ip = Some (VStr ''master'', VStr ''readwrite'')) ips)"

lemma node_is_master_healthy:
  "node_is_master n (VDict d) ip = Inr b \<longleftrightarrow>
     equals_int (dget_default d ''num_nodes'' VNone) n \<and> node_modes d ip \<noteq> None \<and> modes_agree (the (node_modes d ip))
     \<and> b = (node_modes d ip = Some (VStr ''master'', VStr ''readwrite''))"
  by (auto simp: node_is_master_def py_contains_def subscript_def node_modes_def modes_agree_def dget_default_def equals_int_def
      split: option.splits pyval.splits if_splits)

lemma masters_of_healthy:
  "masters_of n (VDict d) ips = Inr bs \<longleftrightarrow>
     (ips \<noteq> [] \<longrightarrow> equals_int (dget_default d ''num_nodes'' VNone) n)
     \<and> list_all (\<lambda>ip. node_modes d ip \<noteq> None \<and> modes_agree (the (node_modes d ip))) ips
     \<and> bs = map (\<lambda>ip. node_modes d ip = Some (VStr ''master'', VStr ''readwrite'')) ips"
proof (induction ips arbitrary: bs)
  case (Cons ip ips)
  have "masters_of n (VDict d) (ip # ips) = Inr bs \<longleftrightarrow>
      (\<exists>b bs'. node_is_master n (VDict d) ip = Inr b \<and> masters_of n (VDict d) ips = Inr bs' \<and> bs = b # bs')"
    by (auto split: sum.splits)
  then show ?case unfolding node_is_master_healthy Cons.IH by auto
qed auto

lemma drone_never_returns:
  assumes "cs_text S x ''build'' \<noteq> ''latest''"
  shows "fst (install_all_from_drone_artifacts S x w) \<noteq> Inr ()"
proof -
  have "fst (get_aws_commands S x p os ar u) \<noteq> Inr cs" for p os ar u cs
    using assms by (auto simp: get_aws_commands_def io_bind_def io_lift_def get_engine_drone_build_bucket_def get_build_subpath_def
        split: sum.splits prod.splits)
  then have "get_aws_commands S x p os ar u \<noteq> (Inr cs, v)" for p os ar u cs v by (metis fst_conv)
  then show ?thesis
    by (auto simp: install_all_from_drone_artifacts_def Let_def io_seq_def io_bind_def io_lift_def split: prod.splits sum.splits)
qed

section \<open>Properties\<close>

text \<open>
  C32. The self test of ColumnStore accepts the answer of a node exactly when it describes a healthy cluster: all addresses are there with
  modes that agree, their number is right, and one of them is a master. More than one master is not refused.
\<close>

theorem check_status_healthy:
  "check_status n ips (VDict d) = Inr () \<longleftrightarrow> columnstore_healthy n ips d"
proof (cases "masters_of n (VDict d) ips")
  case (Inl e)
  then show ?thesis using masters_of_healthy [of n d ips]
    by (auto simp: check_status_def columnstore_healthy_def)
next
  case (Inr bs)
  then show ?thesis using masters_of_healthy [of n d ips bs]
    by (cases "ips = []") (auto simp: check_status_def columnstore_healthy_def list_ex_iff)
qed

text \<open>
  ColumnStore can be installed from four kinds of build only: a numbered build of the build service, which the configuration
  describes as the normal case, never gets installed.
\<close>

theorem numbered_build_never_installs:
  "case fst (columnstore_install S x w) of Inl e \<Rightarrow> True
   | Inr y \<Rightarrow> cs_text S x ''build'' \<in> set [''local'', ''enterprise'', ''jenkins'', ''latest'']"
proof (cases "cs_text S x ''build'' \<in> set [''local'', ''enterprise'', ''jenkins'', ''latest'']")
  case False
  then have "fst (install_all_from_drone_artifacts S x u) \<noteq> Inr ()" for u using drone_never_returns [of S x u] by simp
  then have "install_all_from_drone_artifacts S x u \<noteq> (Inr (), v)" for u v by (metis fst_conv)
  with False show ?thesis
    by (auto simp: columnstore_install_def Let_def io_seq_def io_bind_def io_when_def split: prod.splits sum.splits)
qed (simp split: sum.splits)

text \<open>The set-up of the storage hands on the target it got.\<close>

lemma s3_post_install_target:
  "case fst (s3_post_install S b t w) of Inl e \<Rightarrow> True | Inr t' \<Rightarrow> t' = t"
  by (auto simp: s3_post_install_def io_bind_def io_seq_def io_return_def split: prod.splits sum.splits)

end
