(* ===== verification/XB_Tools.thy ===== *)
theory XB_Tools
  imports XB_Databases XB_Gcp
begin

text \<open>
  The remaining tools: the machine that runs Prometheus and Grafana
  (\<^verbatim>\<open>backend/metrics_server/\<close>), the installers of sysbench and locust, the file shares of Google's cloud
  (\<^verbatim>\<open>cloud/gcp/gcp_nas_storage.py\<close>), and the decorator with which a monitor turns counters into
  differences (\<^verbatim>\<open>lib/xpand_monitor/memoize.py\<close>).

  Parameters are those of \<open>XB_Databases\<close> and \<open>XB_Gcp\<close>, \<open>yaml.dump\<close>, the listing of a directory, and for the
  decorator \<open>round\<close> to one decimal.
\<close>

section \<open>Differences of counters\<close>

text \<open>What a query of the monitor gives for a name. Floats are exact here.\<close>

datatype metric = MNum rat | MText string | MNone

definition metric_minus :: "metric \<Rightarrow> metric \<Rightarrow> exn + rat" where
  "metric_minus a b = (case (a, b) of (MNum x, MNum y) \<Rightarrow> Inr (x - y) | _ \<Rightarrow> Inl PyTypeError)"

text \<open>The decorator: its two lists of names. The cache keeps the last values of each monitor; no row is \<open>None\<close>.\<close>

record memoized =
  cumsum_metrics :: "string list"
  rate_metrics :: "string list"
  py_round1 :: "rat \<Rightarrow> rat"

type_synonym metrics = "(string, metric) dict option"
type_synonym memo_cache = "(string, rat \<times> metrics) dict"

definition prev_value :: "metrics \<Rightarrow> string \<Rightarrow> exn + metric" where
  "prev_value prev k = (case prev of None \<Rightarrow> Inl PyTypeError | Some d \<Rightarrow> dict_index d k)"

definition memo_diff :: "metrics \<Rightarrow> string \<Rightarrow> metric \<Rightarrow> exn + rat" where
  "memo_diff prev k v = (case prev_value prev k of Inl e \<Rightarrow> Inl e | Inr p \<Rightarrow> metric_minus v p)"

definition memo_value :: "memoized \<Rightarrow> metrics \<Rightarrow> rat \<Rightarrow> string \<Rightarrow> metric \<Rightarrow> exn + metric" where
  "memo_value M prev sec_diff k v =
     (if k \<in> set (cumsum_metrics M) then map_sum id MNum (memo_diff prev k v)
      else if k \<in> set (rate_metrics M) then
        (case memo_diff prev k v of Inl e \<Rightarrow> Inl e
         | Inr x \<Rightarrow> if sec_diff = 0 then Inl PyZeroDivisionError else Inr (MNum (py_round1 M (x / sec_diff))))
      else Inr v)"

fun memo_values :: "memoized \<Rightarrow> metrics \<Rightarrow> rat \<Rightarrow> (string, metric) dict \<Rightarrow> exn + (string, metric) dict" where
  "memo_values M prev sec_diff [] = Inr []"
| "memo_values M prev sec_diff ((k, v) # vs) =
     (case memo_value M prev sec_diff k v of Inl e \<Rightarrow> Inl e
      | Inr x \<Rightarrow> (case memo_values M prev sec_diff vs of Inl e \<Rightarrow> Inl e | Inr xs \<Rightarrow> Inr ((k, x) # xs)))"

text \<open>One call: nothing at first, then the values with their time. A failed call leaves the cache as it was.\<close>

definition memo_wrapper :: "memoized \<Rightarrow> rat \<Rightarrow> string \<Rightarrow> metrics \<Rightarrow> memo_cache \<Rightarrow> (exn + (string, metric) dict) \<times> memo_cache" where
  "memo_wrapper M utc_now monitor_inst curr_values cache =
     (case dget cache monitor_inst of
        None \<Rightarrow> (Inr [], dset cache monitor_inst (utc_now, curr_values))
      | Some (t, prev) \<Rightarrow>
          (case curr_values of None \<Rightarrow> (Inl PyAttributeError, cache) | Some vs \<Rightarrow>
          (case memo_values M prev (utc_now - t) vs of
             Inl e \<Rightarrow> (Inl e, cache)
           | Inr r \<Rightarrow> (Inr (dset r ''timestamp'' (MNum utc_now)), dset cache monitor_inst (utc_now, curr_values)))))"

text \<open>A run of a monitor: the results of its calls in order, up to the first that raises.\<close>

fun memo_run :: "memoized \<Rightarrow> string \<Rightarrow> (rat \<times> metrics) list \<Rightarrow> memo_cache \<Rightarrow> (exn + (string, metric) dict) list \<times> memo_cache" where
  "memo_run M i [] cache = ([], cache)"
| "memo_run M i ((t, v) # calls) cache =
     (case memo_wrapper M t i v cache of
        (Inl e, c) \<Rightarrow> ([Inl e], c)
      | (Inr r, c) \<Rightarrow> (case memo_run M i calls c of (rs, c') \<Rightarrow> (Inr r # rs, c')))"

section \<open>Sysbench and locust\<close>

definition home_bashrc :: string where "home_bashrc = CHR 0x7E # ''/.bashrc''"

text \<open>A line that is added to the profile of the user, and one that takes it out again.\<close>

definition export_line :: "string \<Rightarrow> string" where
  "export_line s = lit ''echo `export '' @ s @ lit ''` >> '' @ home_bashrc"

definition unexport_line :: "string \<Rightarrow> string" where
  "unexport_line s = lit ''sed -i `/^export '' @ s @ lit ''/d` '' @ home_bashrc"

definition sysbench_install_script :: string where
  "sysbench_install_script = script_at 12
     [''cd $XBENCH_HOME'',
      ''git clone https://github.com/mariadb-corporation/sysbench-bin'',
      ''sysbench-bin/bin/sysbench --version'',
      ''if ! command -v sysbench 1>/dev/null 2>&1; then'',
      export_line ''SYSBENCH_HOME=$XBENCH_HOME/sysbench-bin'',
      export_line ''PATH=$SYSBENCH_HOME/bin:$PATH'',
      export_line ''LD_LIBRARY_PATH=/usr/lib64:$LD_LIBRARY_PATH'',
      export_line ''LUA_PATH=$SYSBENCH_HOME/lua/?.lua'',
      ''fi'']"

definition sysbench_driver_install :: "'w node_env \<Rightarrow> node \<Rightarrow> ('w, exn, unit) io" where
  "sysbench_driver_install N n =
     io_catch [NodeException] BenchmarkException (node_exec N n sysbench_install_script False False)"

definition sysbench_driver_clean :: "'w node_env \<Rightarrow> node \<Rightarrow> ('w, exn, unit) io" where
  "sysbench_driver_clean N n =
     io_seq (node_exec N n ''pkill -9 sysbench || true'' False False)
       (node_exec N n (script (map unexport_line [''LUA_PATH'', ''LD_LIBRARY'', ''PATH'', ''SYSBENCH_HOME'']
          @ [''cd $XBENCH_HOME'', ''rm -rf sysbench-bin''])) False False)"

record locust =
  locust_node :: node
  locust_yum :: yum

definition Locust :: "node \<Rightarrow> exn + locust" where
  "Locust n = (case PackageManager (os_type (vm n)) of Inl e \<Rightarrow> Inl e | Inr y \<Rightarrow> Inr \<lparr>locust_node = n, locust_yum = y\<rparr>)"

definition locust_configure :: "'w node_env \<Rightarrow> locust \<Rightarrow> ('w, exn, unit) io" where
  "locust_configure N x =
     io_bind (io_lift (install_pkg_cmd (locust_yum x))) (\<lambda>pm_i. node_exec N (locust_node x) (script [pm_i @ '' python39'']) True False)"

text \<open>The first line follows the quotes; the test of the shell is written in its two pairs of brackets.\<close>

definition locust_install_script :: string where
  "locust_install_script = ''cd $XBENCH_HOME'' @ script_at 12
     [''git clone https://github.com/mariadb-corporation/xpand-locust.git'',
      ''pip3.9 install -r $XBENCH_HOME/xpand-locust/requirements.txt'',
      [],
      ''['' @ ''[ ${XPAND_LOCUST_HOME} ]'' @ ''] || {'',
      export_line ''XPAND_LOCUST_HOME=$XBENCH_HOME/xpand-locust'',
      export_line ''PATH=$XPAND_LOCUST_HOME/bin:$PATH'',
      export_line ''PYTHONPATH=$XPAND_LOCUST_HOME'',
      ''}'']"

definition locust_install :: "'w node_env \<Rightarrow> locust \<Rightarrow> ('w, exn, unit) io" where
  "locust_install N x =
     io_catch [NodeException] BenchmarkException (node_exec N (locust_node x) locust_install_script False False)"

definition locust_clean :: "'w node_env \<Rightarrow> locust \<Rightarrow> ('w, exn, unit) io" where
  "locust_clean N x =
     io_seq (node_exec N (locust_node x) ''pkill -9 python3.9 || true'' False False)
       (node_exec N (locust_node x) (script [unexport_line ''XPAND_LOCUST_HOME'', ''cd $XBENCH_HOME'', ''rm -rf xpand-locust'']) False False)"

section \<open>Metrics server\<close>

definition METRICS_CONFIG_FILE :: string where "METRICS_CONFIG_FILE = ''metricsserver.yaml''"

record 'w metrics_env =
  me_db :: "'w db_env"
  me_config :: "pyval \<Rightarrow> exn + string \<times> string \<times> string"
  me_dump :: "pyval \<Rightarrow> string"
  me_listdir :: "'w \<Rightarrow> string \<Rightarrow> exn + string list"
  me_dash_dir :: string

record metrics_backend =
  mb_node :: node
  mb_data_dir :: string
  grafana_user :: string
  grafana_password :: string

definition to_lower :: "char \<Rightarrow> char" where
  "to_lower c = (if of_char c \<ge> (65 :: nat) \<and> of_char c \<le> (90 :: nat) then char_of (of_char c + 32 :: nat) else c)"

text \<open>A server that exists already is only warned about.\<close>

definition MetricsServerBackend :: "'w metrics_env \<Rightarrow> node \<Rightarrow> ('w, exn, metrics_backend) io" where
  "MetricsServerBackend M n =
     io_bind (io_lift (case de_key (me_db M) METRICS_CONFIG_FILE (klass_config_label (vm n)) of Inl e \<Rightarrow> Inl e | Inr v \<Rightarrow> me_config M v)) (\<lambda>(d, u, p).
     io_bind (os_name (de_nodes (me_db M)) n) (\<lambda>name.
       if contains_str (map to_lower name) ''rocky'' then io_return \<lparr>mb_node = n, mb_data_dir = d, grafana_user = u, grafana_password = p\<rparr>
       else io_raise MetricsServerException))"

definition dashboard_directory :: string where "dashboard_directory = ''/etc/grafana/dashboards''"
definition scrape_targets_directory :: string where "scrape_targets_directory = ''/etc/prometheus/targets''"

definition grafana_conf :: pyval where
  "grafana_conf = VDict [(''apiVersion'', VInt 1),
     (''datasources'', VList [VDict [(''name'', VStr ''Prometheus''), (''url'', VStr ''http://prom:9090''), (''access'', VStr ''proxy''),
        (''type'', VStr ''prometheus'')]])]"

definition dashboard_conf :: pyval where
  "dashboard_conf = VDict [(''apiVersion'', VInt 1),
     (''providers'', VList [VDict [(''name'', VStr ''xbench''), (''folder'', VStr ''xbench''), (''type'', VStr ''file''),
        (''options'', VDict [(''path'', VStr dashboard_directory), (''foldersFromFilesStructure'', VBool True)])]])]"

definition prometheus_conf :: pyval where
  "prometheus_conf = VDict [(''global'', VDict [(''scrape_interval'', VStr ''1m'')]),
     (''scrape_configs'', VList [VDict [(''job_name'', VStr ''central_metrics_poll''), (''scrape_interval'', VStr ''15s''),
        (''file_sd_configs'', VList [VDict [(''files'', VList [VStr (basename scrape_targets_directory @ ''/*.json'')])]])]])]"

definition mb_root :: "'w metrics_env \<Rightarrow> metrics_backend \<Rightarrow> string \<Rightarrow> ('w, exn, unit) io" where
  "mb_root M b cmd = node_exec (de_nodes (me_db M)) (mb_node b) cmd True False"

definition install_container_runtime :: "'w metrics_env \<Rightarrow> metrics_backend \<Rightarrow> ('w, exn, unit) io" where
  "install_container_runtime M b = io_for [''podman'', ''podman-plugins''] (\<lambda>pkg.
     io_bind (attribute (node_yum (mb_node b))) (\<lambda>y. io_bind (io_lift (install_pkg_cmd y)) (\<lambda>i. mb_root M b (i @ '' '' @ pkg))))"

definition create_container_network :: "'w metrics_env \<Rightarrow> metrics_backend \<Rightarrow> ('w, exn, unit) io" where
  "create_container_network M b = mb_root M b ''podman network create metrics''"

definition set_directory_permissions :: "'w metrics_env \<Rightarrow> metrics_backend \<Rightarrow> ('w, exn, unit) io" where
  "set_directory_permissions M b = io_for
     [''chown -R 65534:65534 /etc/prometheus'',
      ''chown -R 65534:65534 '' @ mb_data_dir b @ ''/prometheus'',
      ''chown -R 472:0 '' @ mb_data_dir b @ ''/grafana'',
      ''chown -R 472:0 /etc/grafana/''] (mb_root M b)"

definition make_directories :: "'w metrics_env \<Rightarrow> metrics_backend \<Rightarrow> string list \<Rightarrow> ('w, exn, unit) io" where
  "make_directories M b ds = io_for ds (\<lambda>d. mb_root M b (''mkdir -p '' @ d))"

definition create_prometheus_directories :: "'w metrics_env \<Rightarrow> metrics_backend \<Rightarrow> ('w, exn, unit) io" where
  "create_prometheus_directories M b = make_directories M b [scrape_targets_directory, mb_data_dir b @ ''/prometheus'']"

definition create_grafana_directories :: "'w metrics_env \<Rightarrow> metrics_backend \<Rightarrow> ('w, exn, unit) io" where
  "create_grafana_directories M b = make_directories M b
     [''/etc/grafana'', dashboard_directory, ''/etc/grafana/provisioning'', ''/etc/grafana/provisioning/datasources'',
      ''/etc/grafana/provisioning/dashboards'', mb_data_dir b @ ''/grafana'']"

definition metrics_config_files :: "(string, pyval) dict" where
  "metrics_config_files =
     [(''/etc/grafana/provisioning/datasources/local-prom.yml'', grafana_conf),
      (''/etc/grafana/provisioning/dashboards/dash.yml'', dashboard_conf),
      (''/etc/prometheus/prometheus.yml'', prometheus_conf)]"

definition create_config_files :: "'w metrics_env \<Rightarrow> metrics_backend \<Rightarrow> ('w, exn, unit) io" where
  "create_config_files M b = io_for metrics_config_files (\<lambda>(conf, v).
     io_bind (de_temp_file (me_db M) (me_dump M v)) (\<lambda>f. let remote_file_name = ''/tmp/'' @ basename f in
     io_seq (scp_file (de_nodes (me_db M)) (mb_node b) f remote_file_name) (mb_root M b (''mv '' @ remote_file_name @ '' '' @ conf))))"

definition start_prometheus :: "'w metrics_env \<Rightarrow> metrics_backend \<Rightarrow> ('w, exn, unit) io" where
  "start_prometheus M b = mb_root M b (join '' ''
     [''podman run -d --name prom'',
      ''--network metrics'',
      ''--publish 9090:9090'',
      ''--volume '' @ scrape_targets_directory @ '':/etc/prometheus/targets'',
      ''--volume /etc/prometheus/prometheus.yml:/etc/prometheus/prometheus.yml'',
      ''--volume '' @ mb_data_dir b @ ''/prometheus:/prometheus'',
      ''docker.io/prom/prometheus'',
      ''--storage.tsdb.retention.time=1y'',
      ''--config.file=/etc/prometheus/prometheus.yml'',
      ''--storage.tsdb.path=/prometheus'',
      ''--web.console.libraries=/usr/share/prometheus/console_libraries'',
      ''--web.console.templates=/usr/share/prometheus/consoles''])"

definition start_grafana :: "'w metrics_env \<Rightarrow> metrics_backend \<Rightarrow> ('w, exn, unit) io" where
  "start_grafana M b = mb_root M b (join '' ''
     [''podman run -d --name graf'',
      ''--network metrics'',
      ''--publish 3000:3000'',
      ''--env GF_SECURITY_ADMIN_USER='' @ grafana_user b,
      ''--env GF_SECURITY_ADMIN_PASSWORD='' @ grafana_password b,
      ''--volume /etc/grafana/provisioning/dashboards:/etc/grafana/provisioning/dashboards'',
      ''--volume /etc/grafana/provisioning/datasources:/etc/grafana/provisioning/datasources'',
      ''--volume '' @ dashboard_directory @ '':/etc/grafana/dashboards'',
      ''--volume '' @ mb_data_dir b @ ''/grafana:/var/lib/grafana'',
      ''docker.io/grafana/grafana''])"

definition upload_dashboards :: "'w metrics_env \<Rightarrow> metrics_backend \<Rightarrow> ('w, exn, unit) io" where
  "upload_dashboards M b =
     io_bind (\<lambda>w. (me_listdir M w (me_dash_dir M), w)) (\<lambda>files.
     io_seq (io_for files (\<lambda>fname. scp_file (de_nodes (me_db M)) (mb_node b) (path_join (me_dash_dir M) fname) (''/tmp/'' @ fname)))
    (io_seq (mb_root M b (''mv /tmp/*.json '' @ dashboard_directory)) (mb_root M b ''podman restart graf'')))"

definition metrics_setup_storage :: "'w metrics_env \<Rightarrow> metrics_backend \<Rightarrow> ('w, exn, unit) io" where
  "metrics_setup_storage M b = prepare_storage (mb_root M b) (mb_node b) (mb_data_dir b) False"

definition metrics_configure :: "'w metrics_env \<Rightarrow> metrics_backend \<Rightarrow> ('w, exn, unit) io" where
  "metrics_configure M b =
     io_seq (install_container_runtime M b)
    (io_seq (create_container_network M b)
    (io_seq (metrics_setup_storage M b)
    (io_seq (create_grafana_directories M b)
    (io_seq (create_prometheus_directories M b)
    (io_seq (create_config_files M b)
      (set_directory_permissions M b))))))"

definition metrics_install :: "'w metrics_env \<Rightarrow> metrics_backend \<Rightarrow> ('w, exn, backend_target) io" where
  "metrics_install M b =
     io_seq (start_prometheus M b)
    (io_seq (start_grafana M b)
    (io_seq (upload_dashboards M b)
      (io_return (BackendTarget ''127.0.0.1'' ''user'' ''no value'' ''no_value'' 0))))"


section \<open>File shares\<close>

text \<open>\<open>GcpNasVirtualStorage\<close>: a storage with an address, which is shared.\<close>

record nas_storage = virtual_storage +
  nas_tier :: string
  nas_ip :: string

definition nas_is_shared :: "nas_storage \<Rightarrow> bool" where "nas_is_shared vs = True"

definition nas_instance_name :: "gcp_cli \<Rightarrow> nas_storage \<Rightarrow> string" where
  "nas_instance_name C vs = gcp_cluster C @ ''-'' @ vs_name vs"

text \<open>\<open>v.get(k, [])[0]\<close>.\<close>

definition first_of :: "pyval \<Rightarrow> string \<Rightarrow> exn + pyval" where
  "first_of v k = (case v of VDict d \<Rightarrow> first_item (dget_default d k (VList [])) | _ \<Rightarrow> Inl PyAttributeError)"

definition nas_update_vs :: "'w gcp_env \<Rightarrow> pyval \<Rightarrow> nas_storage \<Rightarrow> exn + nas_storage" where
  "nas_update_vs G volume_spec vs =
     (case volume_spec of VDict d \<Rightarrow>
        (case first_of volume_spec ''networks'' of Inl e \<Rightarrow> Inl e | Inr net \<Rightarrow>
        (case first_of net ''ipAddresses'' of Inl e \<Rightarrow> Inl e | Inr a \<Rightarrow>
           Inr (vs\<lparr>vs_id := text_of (py_str (gcp_libs G)) (dget_default d ''name'' (VStr [])), nas_ip := text_of (py_str (gcp_libs G)) a\<rparr>)))
      | _ \<Rightarrow> Inl PyAttributeError)"

definition nas_storage_create :: "'w gcp_env \<Rightarrow> gcp_cli \<Rightarrow> nas_storage \<Rightarrow> ('w, exn, nas_storage) io" where
  "nas_storage_create G C vs =
     io_bind (gcp_query G C (''filestore instances create '' @ nas_instance_name C vs @ '' --file-share=capacity='' @ str_int (vs_size vs)
       @ ''TB,name='' @ vs_name vs @ '' --network=name=default --zone='' @ vs_zone vs @ '' --labels=tags='' @ nas_instance_name C vs))
       (\<lambda>spec. io_lift (nas_update_vs G spec vs))"

definition nas_storage_describe :: "'w gcp_env \<Rightarrow> gcp_cli \<Rightarrow> nas_storage \<Rightarrow> ('w, exn, pyval) io" where
  "nas_storage_describe G C vs =
     io_bind (io_except (gcp_run_text G C (''filestore instances describe '' @ nas_instance_name C vs @ '' --zone='' @ vs_zone vs @ '' --quiet''))
       CloudCliException (\<lambda>msg. io_raise (if contains_str msg ''NOT_FOUND'' then GcpStorageException else CloudCliException)))
       (\<lambda>out. io_lift (gcp_json G out))"

text \<open>A share that is not there is warned about, and nothing is deleted.\<close>

definition nas_storage_destroy :: "'w gcp_env \<Rightarrow> gcp_cli \<Rightarrow> nas_storage \<Rightarrow> ('w, exn, nas_storage) io" where
  "nas_storage_destroy G C vs =
     io_bind (io_try (io_bind (nas_storage_describe G C vs) (\<lambda>_. io_return True))
         (\<lambda>e. isinstance_any e [GcpStorageException, CloudStorageException]) (\<lambda>_. io_return False)) (\<lambda>there.
       if there then io_seq (gcp_call G C (''filestore instances delete '' @ nas_instance_name C vs @ '' --zone='' @ vs_zone vs @ '' --quiet''))
           (io_return (vs\<lparr>vs_id := []\<rparr>))
       else io_return vs)"

definition nas_on_machine :: "'w node_env \<Rightarrow> virtual_machine \<Rightarrow> string \<Rightarrow> bool \<Rightarrow> ('w, exn, unit) io" where
  "nas_on_machine N v cmd ignore_errors =
     io_bind (io_lift (Node v)) (\<lambda>n. io_bind (node_run N n (CmdStr cmd) 600 True ignore_errors None) (\<lambda>_. io_return ()))"

definition nas_attach_storage :: "'w node_env \<Rightarrow> nas_storage \<Rightarrow> virtual_machine \<Rightarrow> ('w, exn, unit) io" where
  "nas_attach_storage N vs v = nas_on_machine N v (join [newline]
     [''mkdir -p '' @ device vs @ '' && '',
      ''        yum install nfs-utils -y && '',
      ''        mount '' @ nas_ip vs @ '':/'' @ vs_name vs @ '' '' @ device vs @ '' &&'',
      ''        chmod go+rw '' @ device vs,
      ''        '']) False"

definition nas_detach_storage :: "'w node_env \<Rightarrow> nas_storage \<Rightarrow> virtual_machine \<Rightarrow> ('w, exn, unit) io" where
  "nas_detach_storage N vs v = nas_on_machine N v (''umount '' @ device vs) True"

section \<open>Lemmas\<close>

lemma memo_values_dget:
  "memo_values M prev s vs = Inr r \<Longrightarrow> dget vs k = Some v \<Longrightarrow> \<exists>x. memo_value M prev s k v = Inr x \<and> dget r k = Some x"
  by (induction vs arbitrary: r) (auto split: sum.splits if_splits)

definition metric_number :: "metric option \<Rightarrow> rat" where
  "metric_number m = (case m of Some (MNum x) \<Rightarrow> x | _ \<Rightarrow> 0)"

lemma memo_value_cumsum:
  assumes "k \<in> set (cumsum_metrics M)" and "memo_value M (Some d) s k v = Inr x"
  shows "metric_number (Some x) = metric_number (Some v) - metric_number (dget d k)"
  using assms by (auto simp: memo_value_def memo_diff_def prev_value_def dict_index_def metric_minus_def metric_number_def
      split: sum.splits metric.splits option.splits)

lemma memo_wrapper_cumsum:
  assumes "k \<in> set (cumsum_metrics M)" and "k \<noteq> ''timestamp''" and "dget cache i = Some (t0, Some d)" and "dget vs k \<noteq> None"
    and "memo_wrapper M t i (Some vs) cache = (Inr r, cache')"
  shows "metric_number (dget r k) = metric_number (dget vs k) - metric_number (dget d k)" and "dget cache' i = Some (t, Some vs)"
proof -
  from assms(4) obtain v where v: "dget vs k = Some v" by auto
  from assms(3,5) obtain r' where r: "memo_values M (Some d) (t - t0) vs = Inr r'" "r = dset r' ''timestamp'' (MNum t)"
    and c: "cache' = dset cache i (t, Some vs)"
    by (auto simp: memo_wrapper_def split: sum.splits)
  from memo_values_dget [OF r(1) v] obtain x where "memo_value M (Some d) (t - t0) k v = Inr x" "dget r' k = Some x" by auto
  with memo_value_cumsum [OF assms(1)] r(2) v assms(2)
  show "metric_number (dget r k) = metric_number (dget vs k) - metric_number (dget d k)" by (auto simp: dget_dset)
  show "dget cache' i = Some (t, Some vs)" using c by (simp add: dget_dset)
qed

definition last_metrics :: "(string, metric) dict \<Rightarrow> (rat \<times> metrics) list \<Rightarrow> (string, metric) dict" where
  "last_metrics d calls = foldl (\<lambda>d c. case snd c of Some v \<Rightarrow> v | None \<Rightarrow> d) d calls"

section \<open>Properties\<close>

text \<open>
  C35. The differences that a monitor reports of a counter add up to how much the counter has grown since the first call,
  however many calls there are and whatever the other metrics do.
\<close>

theorem memo_cumsum_telescopes:
  assumes "k \<in> set (cumsum_metrics M)" and "k \<noteq> ''timestamp''" and "dget cache i = Some (t0, Some d0)"
    and "list_all (\<lambda>(t, v). v \<noteq> None \<and> dget (the v) k \<noteq> None) calls"
    and "list_all (\<lambda>r. \<not> isl r) (fst (memo_run M i calls cache))"
  shows "sum_list (map (\<lambda>r. metric_number (dget (projr r) k)) (fst (memo_run M i calls cache)))
    = metric_number (dget (last_metrics d0 calls) k) - metric_number (dget d0 k)"
  using assms(3-5)
proof (induction calls arbitrary: cache t0 d0)
  case Nil
  then show ?case by (simp add: last_metrics_def)
next
  case (Cons c calls)
  obtain t vs where c: "c = (t, Some vs)" and k: "dget vs k \<noteq> None" using Cons.prems(2) by (cases c) auto
  obtain r cache' where w: "memo_wrapper M t i (Some vs) cache = (r, cache')" by fastforce
  with Cons.prems(3) c obtain x where x: "r = Inr x" by (cases r) auto
  note step = memo_wrapper_cumsum [OF assms(1,2) Cons.prems(1) k w [unfolded x]]
  have rest: "list_all (\<lambda>r. \<not> isl r) (fst (memo_run M i calls cache'))"
    using Cons.prems(3) by (simp add: c w x split: prod.splits)
  have "sum_list (map (\<lambda>r. metric_number (dget (projr r) k)) (fst (memo_run M i calls cache')))
      = metric_number (dget (last_metrics vs calls) k) - metric_number (dget vs k)"
    using Cons.IH [OF step(2) _ rest] Cons.prems(2) by simp
  then show ?case using step(1) by (cases "memo_run M i calls cache'") (simp add: c w x last_metrics_def)
qed

definition demo_memoized :: memoized where
  "demo_memoized = \<lparr>cumsum_metrics = [''cpu_busy''], rate_metrics = [''qps''], py_round1 = id\<rparr>"

theorem memo_cumsum_telescopes_witness:
  "sum_list (map (\<lambda>r. metric_number (dget (projr r) ''cpu_busy'')) (fst (memo_run demo_memoized ''x''
     [(2, Some [(''cpu_busy'', MNum 7)]), (5, Some [(''cpu_busy'', MNum 12)])] [(''x'', (1, Some [(''cpu_busy'', MNum 3)]))]))) = 9"
proof -
  let ?calls = "[(2, Some [(''cpu_busy'', MNum 7)]), (5, Some [(''cpu_busy'', MNum 12)])]"
  show ?thesis
    using memo_cumsum_telescopes [of "''cpu_busy''" demo_memoized "[(''x'', (1, Some [(''cpu_busy'', MNum 3)]))]" "''x''" 1
        "[(''cpu_busy'', MNum 3)]" ?calls]
    by (simp add: demo_memoized_def memo_wrapper_def memo_value_def memo_diff_def prev_value_def dict_index_def metric_minus_def
        metric_number_def last_metrics_def)
qed

text \<open>A file share is deleted only after it was found: one that is reported missing costs one call of the tool.\<close>

lemma nas_destroy_missing:
  assumes "nas_storage_describe G C vs w = (Inl GcpStorageException, w')"
  shows "nas_storage_destroy G C vs w = (Inr vs, w')"
  using assms by (simp add: nas_storage_destroy_def io_bind_def io_try_def io_return_def isinstance_any_def isinstance_eval)

end
