(* ===== verification/XB_SysTables.thy ===== *)
theory XB_SysTables
  imports XB_Sysbench XB_Benchbase
begin

text \<open>
  The tables that \<^verbatim>\<open>benchmark/sysbench/sysbench_runner.py\<close> makes of the results: one for each repeat, over the
  drivers, and one for all repeats. They are what \<open>save_repeat\<close> and \<open>save_summary\<close> of \<open>XB_Sysbench\<close> write.

  pandas prints the same rows; the text it writes is a parameter. Sums and means are exact.
\<close>

section \<open>Rows\<close>

text \<open>A latency is infinite or undefined where there were no transactions. Response times are not negative.\<close>

datatype pd_float = Fin rat | PosInf | NaN

fun finite_part :: "pd_float \<Rightarrow> rat" where
  "finite_part (Fin x) = x"
| "finite_part PosInf = 0"
| "finite_part NaN = 0"

definition pd_divide :: "rat \<Rightarrow> rat \<Rightarrow> pd_float" where
  "pd_divide x y = (if y \<noteq> 0 then Fin (x / y) else if x = 0 then NaN else PosInf)"

definition pd_round :: "pd_float \<Rightarrow> pd_float" where
  "pd_round v = (case v of Fin x \<Rightarrow> Fin (py_round_to RESULT_PRECISION x) | PosInf \<Rightarrow> PosInf | NaN \<Rightarrow> NaN)"

text \<open>The mean skips what is undefined.\<close>

definition pd_mean :: "pd_float list \<Rightarrow> pd_float" where
  "pd_mean xs = (let ys = filter (\<lambda>x. x \<noteq> NaN) xs in
     if ys = [] then NaN else if PosInf \<in> set ys then PosInf else Fin (mean (map finite_part ys)))"

record sb_row =
  sb_concurrency :: rat
  sb_throughput :: rat
  sb_avg_latency :: pd_float
  sb_stddev :: rat
  sb_p95_latency :: rat
  sb_errors :: rat

definition sb_round :: "sb_row \<Rightarrow> sb_row" where
  "sb_round x = x\<lparr>sb_throughput := py_round_to RESULT_PRECISION (sb_throughput x), sb_avg_latency := pd_round (sb_avg_latency x),
     sb_stddev := py_round_to RESULT_PRECISION (sb_stddev x), sb_p95_latency := py_round_to RESULT_PRECISION (sb_p95_latency x),
     sb_errors := py_round_to RESULT_PRECISION (sb_errors x)\<rparr>"

section \<open>One repeat\<close>

fun res_thds :: "sysbench_result \<Rightarrow> rat" where "res_thds (c, t, q, s, n, r, p, e) = c"
fun res_tps :: "sysbench_result \<Rightarrow> rat" where "res_tps (c, t, q, s, n, r, p, e) = t"
fun res_stddev :: "sysbench_result \<Rightarrow> rat" where "res_stddev (c, t, q, s, n, r, p, e) = s"
fun res_transactions :: "sysbench_result \<Rightarrow> rat" where "res_transactions (c, t, q, s, n, r, p, e) = n"
fun res_response_time :: "sysbench_result \<Rightarrow> rat" where "res_response_time (c, t, q, s, n, r, p, e) = r"
fun res_p95 :: "sysbench_result \<Rightarrow> rat" where "res_p95 (c, t, q, s, n, r, p, e) = p"
fun res_errors :: "sysbench_result \<Rightarrow> rat" where "res_errors (c, t, q, s, n, r, p, e) = e"

text \<open>The drivers with the same number of threads together; the threads of one are multiplied by the number of drivers.\<close>

definition sb_repeat_group :: "nat \<Rightarrow> rat \<times> sysbench_result list \<Rightarrow> sb_row" where
  "sb_repeat_group drivers g = (case g of (k, xs) \<Rightarrow>
     \<lparr>sb_concurrency = of_nat drivers * of_int (py_trunc k), sb_throughput = sum_list (map res_tps xs),
      sb_avg_latency = pd_divide (sum_list (map res_response_time xs)) (sum_list (map res_transactions xs)),
      sb_stddev = max_of (map res_stddev xs), sb_p95_latency = max_of (map res_p95 xs), sb_errors = sum_list (map res_errors xs)\<rparr>)"

definition sb_repeat_rows :: "nat \<Rightarrow> sysbench_result list \<Rightarrow> sb_row list" where
  "sb_repeat_rows drivers rs = map (sb_repeat_group drivers) (group_by res_thds rs)"

definition sb_repeat_table :: "nat \<Rightarrow> sysbench_result list \<Rightarrow> sb_row list" where
  "sb_repeat_table drivers rs = map sb_round (sb_repeat_rows drivers rs)"

record 'w table_files =
  tf_csv :: "sb_row list \<Rightarrow> string"
  tf_write :: "string \<Rightarrow> string \<Rightarrow> ('w, exn, unit) io"
  tf_artifact_dir :: string
  tf_workload :: string

definition sb_save_one_repeat :: "'w table_files \<Rightarrow> nat \<Rightarrow> int \<Rightarrow> sysbench_result list \<Rightarrow> ('w, exn, sb_row list) io" where
  "sb_save_one_repeat T drivers rep rs =
     (let df = sb_repeat_table drivers rs in
      io_seq (tf_write T (path_join (tf_artifact_dir T) (tf_workload T @ ''_'' @ str_int rep @ ''.csv'')) (tf_csv T df)) (io_return df))"

section \<open>All repeats\<close>

definition sb_summary_group :: "rat \<times> sb_row list \<Rightarrow> sb_row" where
  "sb_summary_group g = (case g of (k, xs) \<Rightarrow>
     \<lparr>sb_concurrency = k, sb_throughput = mean (map sb_throughput xs), sb_avg_latency = pd_mean (map sb_avg_latency xs),
      sb_stddev = max_of (map sb_stddev xs), sb_p95_latency = max_of (map sb_p95_latency xs), sb_errors = sum_list (map sb_errors xs)\<rparr>)"

definition sb_summary_table :: "sb_row list \<Rightarrow> sb_row list" where
  "sb_summary_table xs = map (sb_round \<circ> sb_summary_group) (group_by sb_concurrency xs)"

text \<open>Without a repeat the table has no columns to group by.\<close>

definition sb_save_summary :: "'w table_files \<Rightarrow> sb_row list option \<Rightarrow> ('w, exn, unit) io" where
  "sb_save_summary T all =
     (case all of None \<Rightarrow> io_raise PyKeyError
      | Some xs \<Rightarrow> tf_write T (path_join (tf_artifact_dir T) (tf_workload T @ ''_summary.csv'')) (tf_csv T (sb_summary_table xs)))"

section \<open>Properties\<close>

lemma sum_list_pos: "xs \<noteq> [] \<Longrightarrow> (\<And>x. x \<in> set xs \<Longrightarrow> (0 :: rat) < x) \<Longrightarrow> 0 < sum_list xs"
proof (induction xs)
  case (Cons x xs)
  then show ?case by (cases xs) (auto intro: add_pos_pos)
qed simp

lemma group_by_nonempty: "g \<in> set (group_by key xs) \<Longrightarrow> snd g \<noteq> [] \<and> set (snd g) \<subseteq> set xs"
  by (auto simp: group_by_def filter_empty_conv)

text \<open>
  C34. The table of one repeat has one row for each number of threads, in order and multiplied by the number of
  drivers; its rows before rounding account for all transactions per second and all errors; and when every driver
  made a transaction each latency is a number.
\<close>

theorem sb_repeat_table_spec:
  "map sb_concurrency (sb_repeat_table drivers rs) = map (\<lambda>k. of_nat drivers * of_int (py_trunc k)) (sort (remdups (map res_thds rs)))
   \<and> sum_list (map sb_throughput (sb_repeat_rows drivers rs)) = sum_list (map res_tps rs)
   \<and> sum_list (map sb_errors (sb_repeat_rows drivers rs)) = sum_list (map res_errors rs)
   \<and> (if list_all (\<lambda>r. 0 < res_transactions r) rs
       then list_all (\<lambda>x. sb_avg_latency x \<noteq> NaN \<and> sb_avg_latency x \<noteq> PosInf) (sb_repeat_table drivers rs) else True)"
proof (intro conjI)
  have "map sb_concurrency (sb_repeat_table drivers rs) = map (\<lambda>k. of_nat drivers * of_int (py_trunc k)) (map fst (group_by res_thds rs))"
    by (simp add: sb_repeat_table_def sb_repeat_rows_def sb_round_def sb_repeat_group_def split_def comp_def)
  then show "map sb_concurrency (sb_repeat_table drivers rs) = map (\<lambda>k. of_nat drivers * of_int (py_trunc k)) (sort (remdups (map res_thds rs)))"
    by (simp only: group_by_keys)
  show "sum_list (map sb_throughput (sb_repeat_rows drivers rs)) = sum_list (map res_tps rs)"
    using group_by_sum [of res_tps res_thds rs] by (simp add: sb_repeat_rows_def sb_repeat_group_def split_def comp_def)
  show "sum_list (map sb_errors (sb_repeat_rows drivers rs)) = sum_list (map res_errors rs)"
    using group_by_sum [of res_errors res_thds rs] by (simp add: sb_repeat_rows_def sb_repeat_group_def split_def comp_def)
  show "if list_all (\<lambda>r. 0 < res_transactions r) rs
       then list_all (\<lambda>x. sb_avg_latency x \<noteq> NaN \<and> sb_avg_latency x \<noteq> PosInf) (sb_repeat_table drivers rs) else True"
  proof (cases "list_all (\<lambda>r. 0 < res_transactions r) rs")
    case True
    have "0 < sum_list (map res_transactions (snd g))" if "g \<in> set (group_by res_thds rs)" for g
      using group_by_nonempty [OF that] True by (intro sum_list_pos) (auto simp: list_all_iff)
    then show ?thesis
      by (fastforce simp: list_all_iff sb_repeat_table_def sb_repeat_rows_def sb_round_def sb_repeat_group_def pd_divide_def pd_round_def split_def)
  qed simp
qed

end
