(* ===== verification/XB_Components.thy ===== *)
theory XB_Components
  imports XB_Columnstore XB_Tools XB_Provisioning
begin

text \<open>
  The component classes put into the phases of provisioning: what \<open>klass_instance_configure\<close>,
  \<open>klass_instance_install\<close> and \<open>klass_instance_clean\<close> (\<^verbatim>\<open>xbench/common.py\<close>) do with a class, its nodes
  and its parameters, for the classes of the driver, of the databases, of the proxies and of the metrics server. The classes of other
  theories (Xpand, the managed databases) are a parameter here.

  The properties of provisioning are stated for any component classes that leave the cluster files alone; the ones of
  this theory do when ssh, the database drivers and the command-line tools do.
\<close>

section \<open>What the libraries leave alone\<close>

definition node_env_keeps :: "('w \<Rightarrow> bool) \<Rightarrow> 'w node_env \<Rightarrow> bool" where
  "node_env_keeps I N \<longleftrightarrow> remote_keeps I (ssh N) \<and> (\<forall>m w. I w \<longrightarrow> I (put_metrics N m w))
     \<and> (\<forall>f. io_keeps I (read_file N f)) \<and> (\<forall>k. set (task_order N k) \<subseteq> {..<k})"

definition sql_keeps :: "('w \<Rightarrow> bool) \<Rightarrow> 'w sql_lib \<Rightarrow> bool" where
  "sql_keeps I L \<longleftrightarrow> (\<forall>p. io_keeps I (lib_connect L p)) \<and> (\<forall>q. io_keeps I (lib_execute L q)) \<and> io_keeps I (lib_fetchone L)
     \<and> io_keeps I (lib_fetchall L) \<and> (\<forall>w. I w \<longrightarrow> I (set_cursor L w)) \<and> (\<forall>d w. I w \<longrightarrow> I (sleep (sql_clock L) d w))"

definition db_env_keeps :: "('w \<Rightarrow> bool) \<Rightarrow> 'w db_env \<Rightarrow> bool" where
  "db_env_keeps I E \<longleftrightarrow> node_env_keeps I (de_nodes E) \<and> sql_keeps I (de_sql E) \<and> (\<forall>s. io_keeps I (de_temp_file E s))"

named_theorems env_keeps

lemma env_keepsD [env_keeps]:
  "node_env_keeps I N \<Longrightarrow> remote_keeps I (ssh N)"
  "db_env_keeps I E \<Longrightarrow> node_env_keeps I (de_nodes E)"
  "db_env_keeps I E \<Longrightarrow> sql_keeps I (de_sql E)"
  "db_env_keeps I E \<Longrightarrow> io_keeps I (de_temp_file E s)"
  by (simp_all add: node_env_keeps_def db_env_keeps_def)

lemma node_keeps [env_keeps]:
  assumes "node_env_keeps I N"
  shows "io_keeps I (node_run N n c t s ig u)" and "io_keeps I (node_exec N n cmd s ig)"
    and "io_keeps I (node_register_metric_target N n sv p)" and "io_keeps I (node_deregister_metric_target N n sv p)"
    and "io_keeps I (scp_file N n l r)" and "io_keeps I (send_file N n l r x)" and "io_keeps I (backend_run N n cmd u)"
proof -
  have r: "remote_keeps I (ssh N)" and p: "\<And>m w. I w \<Longrightarrow> I (put_metrics N m w)" using assms by (auto simp: node_env_keeps_def)
  show run: "io_keeps I (node_run N n c t s ig u)" for c t s ig u
    unfolding node_run_def node_unsafe_run_def using r by (intro io_inv_intros ssh_run_keeps) (auto simp: remote_keeps_def)
  show "io_keeps I (backend_run N n cmd u)" unfolding backend_run_def by (intro io_inv_intros run)
  show "io_keeps I (node_exec N n cmd s ig)" by (rule node_exec_keeps [OF r])
  show "io_keeps I (node_register_metric_target N n sv p)" "io_keeps I (node_deregister_metric_target N n sv p)"
    unfolding node_register_metric_target_def node_deregister_metric_target_def
    using p by (auto intro!: io_inv_intros io_keeps_modify)
  show "io_keeps I (scp_file N n l r)" "io_keeps I (send_file N n l r x)"
    unfolding scp_file_def send_file_def using r assms
    by (auto simp: node_env_keeps_def intro!: io_inv_intros send_files_keeps node_exec_keeps split: option.split)
qed

lemma gather_in_order_keeps:
  "\<forall>t \<in> set tasks. io_keeps I t \<Longrightarrow> set is \<subseteq> {..<length tasks} \<Longrightarrow> io_keeps I (gather_in_order is tasks r)"
proof (induction "is" arbitrary: r)
  case Nil
  then show ?case by (simp add: io_keeps_def)
next
  case (Cons i "is")
  then have t: "io_keeps I (tasks ! i)" and rest: "io_keeps I (gather_in_order is tasks r)" for r by auto
  show ?case
  proof (rule io_keepsI)
    fix w assume "I w"
    then have "I (snd ((tasks ! i) w))" using io_keepsD [OF t] by blast
    then show "I (snd (gather_in_order (i # is) tasks r w))"
      using io_keepsD [OF rest] by (auto split: prod.splits sum.splits)
  qed
qed

lemma gather_keeps: "\<forall>t \<in> set tasks. io_keeps I t \<Longrightarrow> set (order (length tasks)) \<subseteq> {..<length tasks} \<Longrightarrow> io_keeps I (gather order tasks)"
  unfolding gather_def by (intro io_inv_intros gather_in_order_keeps)

lemma run_on_all_nodes_keeps [env_keeps]:
  assumes "node_env_keeps I N"
  shows "io_keeps I (run_on_all_nodes N percent m cmd t s args ig)"
  unfolding run_on_all_nodes_def pssh_run_def run_clients_def using assms
  by (auto simp: node_env_keeps_def remote_keeps_def intro!: io_inv_intros gather_keeps run_client_keeps)

lemma scp_to_all_nodes_keeps [env_keeps]:
  assumes "node_env_keeps I N"
  shows "io_keeps I (scp_to_all_nodes N m l r x)"
proof -
  have s: "io_map cls (\<lambda>cl. scp_send (ssh N) cl l r x) = io_return (map (\<lambda>cl. scp_to (ssh N) (hostname cl) l r x) cls)" for cls
    by (induction cls) (auto simp: fun_eq_iff io_return_def io_bind_def scp_send_coroutine)
  have "io_keeps I (pssh_send_files (ssh N) (task_order N) cls l r x)" for cls
    unfolding pssh_send_files_def s using assms
    by (auto simp: node_env_keeps_def remote_keeps_def intro!: io_inv_intros gather_keeps)
  then show ?thesis unfolding scp_to_all_nodes_def by (intro io_inv_intros)
qed

lemma with_cursor_keeps: "io_keeps I m \<Longrightarrow> io_keeps I (with_cursor L m)"
  by (simp add: io_keeps_def with_cursor_def)

lemma read_only_keeps: "io_keeps I (\<lambda>w. (f w, w))"
  by (simp add: io_keeps_def)

lemma sql_client_keeps [env_keeps]:
  assumes "sql_keeps I L"
  shows "io_keeps I (mysql_connect L p)" and "io_keeps I (mysql_select_one_row L q)" and "io_keeps I (mysql_execute L q)"
    and "io_keeps I (mysql_print_db_version L)" and "io_keeps I (pgsql_connect L p)" and "io_keeps I (pgsql_select_one_row L q)"
    and "io_keeps I (pgsql_execute L q)" and "io_keeps I (pgsql_print_db_version L)"
    and "io_keeps I (mysql_db_connect L p)" and "io_keeps I (pgsql_db_connect L p)"
proof -
  note k = assms [unfolded sql_keeps_def]
  have f1: "io_keeps I (fetch_one L q)" and e1: "io_keeps I (execute_once L q)" for q
    unfolding fetch_one_def execute_once_def using k by (auto intro!: with_cursor_keeps read_only_keeps io_inv_intros)
  show m: "io_keeps I (mysql_connect L p)" "io_keeps I (pgsql_connect L p)" for p
    unfolding mysql_connect_def pgsql_connect_def using k by (auto intro!: io_inv_intros io_keeps_modify)
  show o: "io_keeps I (mysql_select_one_row L q)" "io_keeps I (pgsql_select_one_row L q)" for q
    unfolding mysql_select_one_row_def pgsql_select_one_row_def io_catch_def using k by (auto intro!: io_inv_intros f1)
  show "io_keeps I (mysql_execute L q)" "io_keeps I (pgsql_execute L q)"
    unfolding mysql_execute_def pgsql_execute_def io_catch_def using k by (auto intro!: io_inv_intros e1)
  show "io_keeps I (mysql_print_db_version L)" "io_keeps I (pgsql_print_db_version L)"
    unfolding mysql_print_db_version_def pgsql_print_db_version_def by (intro io_inv_intros o)+
  show "io_keeps I (mysql_db_connect L p)" "io_keeps I (pgsql_db_connect L p)"
    unfolding mysql_db_connect_def pgsql_db_connect_def io_catch_def by (intro io_inv_intros m)+
qed

lemma template_render_keeps [env_keeps]: "io_keeps I (template_render r j d f a)"
  unfolding template_render_def io_catch_def by (intro io_inv_intros)


section \<open>Components\<close>

text \<open>What the phases do with an object of a class. Only a proxy has \<open>post_install\<close>.\<close>

record 'w component =
  run_configure :: "('w, exn, unit) io"
  run_install :: "('w, exn, backend_target option) io"
  run_post_install :: "backend_target \<Rightarrow> ('w, exn, backend_target) io"
  run_clean :: "('w, exn, unit) io"
  run_start :: "('w, exn, unit) io"
  run_stop :: "('w, exn, unit) io"

definition component_keeps :: "('w \<Rightarrow> bool) \<Rightarrow> 'w component \<Rightarrow> bool" where
  "component_keeps I c \<longleftrightarrow> io_keeps I (run_configure c) \<and> io_keeps I (run_install c) \<and> (\<forall>b. io_keeps I (run_post_install c b))
     \<and> io_keeps I (run_clean c) \<and> io_keeps I (run_start c) \<and> io_keeps I (run_stop c)"

definition missing :: "('w, exn, 'a) io" where "missing = io_raise PyAttributeError"

definition nothing :: "('w, exn, unit) io \<Rightarrow> ('w, exn, backend_target option) io" where
  "nothing m = io_bind m (\<lambda>_. io_return None)"

definition target :: "('w, exn, db_backend) io \<Rightarrow> ('w, exn, backend_target option) io" where
  "target m = io_bind m (\<lambda>b. io_return (Some (bc_db (db_config b))))"

definition driver_component :: "'w node_env \<Rightarrow> 'w bench_ops \<Rightarrow> string list \<Rightarrow> node \<Rightarrow> yum \<Rightarrow> 'w component" where
  "driver_component N B benchmarks n y =
     \<lparr>run_configure = driver_configure N y n, run_install = nothing (driver_install N B n benchmarks), run_post_install = (\<lambda>_. missing),
      run_clean = driver_clean N y B n benchmarks, run_start = missing, run_stop = missing\<rparr>"

definition mariadb_component :: "mariadb_class \<Rightarrow> 'w db_env \<Rightarrow> db_backend \<Rightarrow> 'w component" where
  "mariadb_component k E b =
     \<lparr>run_configure = mariadb_configure E b, run_install = target (mariadb_install k E b), run_post_install = (\<lambda>_. missing),
      run_clean = mariadb_clean E b, run_start = mariadb_start E b, run_stop = mariadb_stop E b\<rparr>"

definition mysql_component :: "'w db_env \<Rightarrow> db_backend \<Rightarrow> 'w component" where
  "mysql_component E b =
     \<lparr>run_configure = mysql_configure E b, run_install = target (mysql_install E b), run_post_install = (\<lambda>_. missing),
      run_clean = mysql_clean E b, run_start = mysql_start E b, run_stop = mysql_stop E b\<rparr>"

definition postgres_component :: "'w db_env \<Rightarrow> db_backend \<Rightarrow> 'w component" where
  "postgres_component E b =
     \<lparr>run_configure = pg_configure E b, run_install = target (pg_install E b), run_post_install = (\<lambda>_. missing),
      run_clean = pg_clean E b, run_start = pg_service E b ''start'', run_stop = pg_service E b ''stop''\<rparr>"

definition columnstore_component :: "'w cs_env \<Rightarrow> columnstore \<Rightarrow> 'w component" where
  "columnstore_component S x =
     \<lparr>run_configure = columnstore_configure S x,
      run_install = io_bind (columnstore_install S x) (\<lambda>y. io_return (Some (bc_db (cs_config y)))), run_post_install = (\<lambda>_. missing),
      run_clean = columnstore_clean S x, run_start = columnstore_start S x, run_stop = columnstore_stop S x\<rparr>"

definition maxscale_component :: "'w proxy_env \<Rightarrow> maxscale \<Rightarrow> 'w component" where
  "maxscale_component P x =
     \<lparr>run_configure = maxscale_configure P x, run_install = nothing (maxscale_install P x), run_post_install = maxscale_post_install P x,
      run_clean = maxscale_clean P x, run_start = maxscale_start P x, run_stop = maxscale_stop P x\<rparr>"

text \<open>\<open>configure\<close> of Xm is empty.\<close>

definition xm_component :: "'w proxy_env \<Rightarrow> xm \<Rightarrow> 'w component" where
  "xm_component P x =
     \<lparr>run_configure = io_return (), run_install = nothing (xm_install P x), run_post_install = xm_post_install P x,
      run_clean = xm_clean P x, run_start = xm_start P x, run_stop = xm_stop P x\<rparr>"

definition xgres_component :: "'w proxy_env \<Rightarrow> xgres \<Rightarrow> 'w component" where
  "xgres_component P x =
     \<lparr>run_configure = xgres_configure P x, run_install = nothing (xgres_install P x), run_post_install = xgres_post_install P x,
      run_clean = xgres_clean P x, run_start = xgres_start P x, run_stop = xgres_stop P x\<rparr>"

text \<open>The set-up of S3: everything else of it is empty.\<close>

definition s3_component :: "'w cs_env \<Rightarrow> columnstore_s3 \<Rightarrow> 'w component" where
  "s3_component S b =
     \<lparr>run_configure = io_return (), run_install = io_return None, run_post_install = s3_post_install S b,
      run_clean = io_return (), run_start = io_return (), run_stop = io_return ()\<rparr>"

definition metrics_component :: "'w metrics_env \<Rightarrow> metrics_backend \<Rightarrow> 'w component" where
  "metrics_component M b =
     \<lparr>run_configure = metrics_configure M b, run_install = io_bind (metrics_install M b) (\<lambda>t. io_return (Some t)),
      run_post_install = (\<lambda>_. missing), run_clean = missing, run_start = missing, run_stop = missing\<rparr>"

section \<open>Construction\<close>

text \<open>
  A class that is not clustered gets one node, a clustered one the list of its nodes. \<open>ce_benchmarks\<close> is \<open>load_config\<close>
  of the driver; \<open>ce_other\<close> constructs the classes of the other theories.
\<close>

record 'w component_env =
  ce_db :: "'w db_env"
  ce_cs :: "'w cs_env"
  ce_proxy :: "'w proxy_env"
  ce_metrics :: "'w metrics_env"
  ce_bench :: "'w bench_ops"
  ce_benchmarks :: "string \<Rightarrow> exn + string list"
  ce_other :: "string \<Rightarrow> group_nodes \<Rightarrow> pydict \<Rightarrow> ('w, exn, 'w component) io"

definition the_node :: "group_nodes \<Rightarrow> exn + node" where
  "the_node g = (case g of One n \<Rightarrow> Inr n | Many _ \<Rightarrow> Inl PyAttributeError)"

definition the_nodes :: "group_nodes \<Rightarrow> exn + node list" where
  "the_nodes g = (case g of Many ns \<Rightarrow> Inr ns | One _ \<Rightarrow> Inl PyTypeError)"

definition with_object :: "exn + 'a \<Rightarrow> ('a \<Rightarrow> exn + 'b) \<Rightarrow> ('b \<Rightarrow> 'w component) \<Rightarrow> ('w, exn, 'w component) io" where
  "with_object nodes_of make_object comp_of =
     io_bind (io_lift nodes_of) (\<lambda>n. io_bind (io_lift (make_object n)) (\<lambda>b. io_return (comp_of b)))"

definition make_driver :: "'w component_env \<Rightarrow> node \<Rightarrow> exn + node \<times> yum \<times> string list" where
  "make_driver C n =
     (case PackageManager (os_type (vm n)) of Inl e \<Rightarrow> Inl e | Inr y \<Rightarrow>
     (case ce_benchmarks C (klass_config_label (vm n)) of Inl e \<Rightarrow> Inl e | Inr ks \<Rightarrow> Inr (n, y, ks)))"

definition make_component :: "'w component_env \<Rightarrow> string \<Rightarrow> group_nodes \<Rightarrow> pydict \<Rightarrow> ('w, exn, 'w component) io" where
  "make_component C name g kwargs =
     (let E = ce_db C; P = ce_proxy C; S = ce_cs C in
      if name = ''BaseDriver'' then with_object (the_node g) (make_driver C) (\<lambda>(n, y, ks). driver_component (de_nodes E) (ce_bench C) ks n y)
      else if name = ''MariaDBServer'' then with_object (the_node g) (\<lambda>n. MariaDB E n kwargs) (mariadb_component MariaDBServer E)
      else if name = ''MariaDBEnterprise'' then with_object (the_node g) (\<lambda>n. MariaDB E n kwargs) (mariadb_component MariaDBEnterprise E)
      else if name = ''MySQLServer'' then with_object (the_node g) (\<lambda>n. MySQLServer E n kwargs) (mysql_component E)
      else if name = ''PostgreSQLDB'' then with_object (the_node g) (\<lambda>n. PostgreSQLDB E n kwargs) (postgres_component E)
      else if name = ''ColumnStore'' then with_object (the_nodes g) (\<lambda>ns. ColumnStore S ns kwargs) (columnstore_component S)
      else if name = ''Maxscale'' then with_object (the_nodes g) (\<lambda>ns. Maxscale P ns kwargs) (maxscale_component P)
      else if name = ''Xm'' then with_object (the_nodes g) (\<lambda>ns. Xm P ns kwargs) (xm_component P)
      else if name = ''Xgres'' then with_object (the_node g) (\<lambda>n. Xgres P n kwargs) (xgres_component P)
      else if name = ''ColumnstoreS3Backend'' then with_object (the_node g) (\<lambda>n. Inr (ColumnstoreS3Backend S n)) (s3_component S)
      else if name = ''MetricsServerBackend'' then
        io_bind (io_lift (the_node g)) (\<lambda>n. io_bind (MetricsServerBackend (ce_metrics C) n) (\<lambda>b. io_return (metrics_component (ce_metrics C) b)))
      else ce_other C name g kwargs)"

definition proxy_names :: "string list" where "proxy_names = [''Maxscale'', ''Xm'', ''Xgres'', ''ColumnstoreS3Backend'']"

text \<open>
  The interface of provisioning: \<open>klass_instance_configure\<close>, \<open>klass_instance_install\<close> and \<open>post_install\<close> with
  the parameters of the command line, the others without. The driver and the metrics server are no backends.
\<close>

definition klass_instance_configure :: "'w component_env \<Rightarrow> pydict \<Rightarrow> component_klass \<Rightarrow> group_nodes \<Rightarrow> ('w, exn, unit) io" where
  "klass_instance_configure C extras k g = io_bind (make_component C (klass_name k) g extras) run_configure"

definition klass_instance_install :: "'w component_env \<Rightarrow> pydict \<Rightarrow> component_klass \<Rightarrow> group_nodes \<Rightarrow> ('w, exn, backend_target option) io" where
  "klass_instance_install C extras k g = io_bind (make_component C (klass_name k) g extras) run_install"

definition klass_instance_clean :: "'w component_env \<Rightarrow> component_klass \<Rightarrow> group_nodes \<Rightarrow> ('w, exn, unit) io" where
  "klass_instance_clean C k g = io_bind (make_component C (klass_name k) g []) run_clean"

definition component_ops :: "'w component_env \<Rightarrow> pydict \<Rightarrow> 'w klass_ops" where
  "component_ops C extras = \<lparr>
     ko_configure = klass_instance_configure C extras,
     ko_install = klass_instance_install C extras,
     ko_post_install = (\<lambda>k g b. io_bind (make_component C (klass_name k) g extras) (\<lambda>c. run_post_install c b)),
     ko_clean = klass_instance_clean C,
     ko_start = (\<lambda>k g. io_bind (make_component C (klass_name k) g []) run_start),
     ko_stop = (\<lambda>k g. io_bind (make_component C (klass_name k) g []) run_stop),
     ko_is_proxy = (\<lambda>k. klass_name k \<in> set proxy_names),
     ko_is_backend = (\<lambda>k. klass_name k \<notin> set (''BaseDriver'' # ''MetricsServerBackend'' # proxy_names))\<rparr>"


section \<open>Lemmas\<close>

declare io_catch_keeps [env_keeps]

lemma wrapped_keeps [env_keeps]:
  "io_keeps I missing" "io_keeps I m \<Longrightarrow> io_keeps I (nothing m)" "io_keeps I m' \<Longrightarrow> io_keeps I (target m')"
  unfolding missing_def nothing_def target_def by (intro io_inv_intros; assumption?)+

lemma prepare_storage_keeps [env_keeps]: "(\<And>c. io_keeps I (run c)) \<Longrightarrow> io_keeps I (prepare_storage run n d p)"
  unfolding prepare_storage_def by (cases "mdadm_command n") (auto intro!: io_inv_intros split: option.split)

lemma io_keeps_option [env_keeps]:
  "(x = None \<Longrightarrow> io_keeps I m) \<Longrightarrow> (\<And>y. io_keeps I (f y)) \<Longrightarrow> io_keeps I (case x of None \<Rightarrow> m | Some y \<Rightarrow> f y)"
  by (cases x) auto


lemma db_run_keeps [env_keeps]: "db_env_keeps I E \<Longrightarrow> io_keeps I (db_run E b c)"
  unfolding db_run_def by (intro env_keeps)

lemma db_configure_keeps [env_keeps]: "db_env_keeps I E \<Longrightarrow> io_keeps I (db_configure E b)"
  unfolding db_configure_def single_configure_def by (intro env_keeps)

lemma memory_mb_keeps [env_keeps]: "node_env_keeps I N \<Longrightarrow> io_keeps I (memory_mb N n)" "node_env_keeps I N \<Longrightarrow> io_keeps I (nproc N n)"
  unfolding memory_mb_def nproc_def by (intro io_inv_intros env_keeps; assumption)+

lemma write_server_config_keeps [env_keeps]: "db_env_keeps I E \<Longrightarrow> io_keeps I (write_server_config E b part pl t f)"
  unfolding write_server_config_def by (intro io_inv_intros env_keeps; assumption)

lemma exporter_keeps [env_keeps]:
  assumes "db_env_keeps I E"
  shows "io_keeps I (send_exporter E b name)" and "io_keeps I (register_exporter E b name)" and "io_keeps I (mysql_install_exporter E b service)"
proof -
  show s: "io_keeps I (send_exporter E b n)" for n
    unfolding send_exporter_def using assms by (intro io_inv_intros send_files_keeps env_keeps)
  show r: "io_keeps I (register_exporter E b n)" for n
    unfolding register_exporter_def using assms by (intro io_inv_intros env_keeps)
  show "io_keeps I (mysql_install_exporter E b service)"
    unfolding mysql_install_exporter_def using assms by (intro io_inv_intros s r env_keeps)
qed

lemma globals_keeps [env_keeps]: "sql_keeps I L \<Longrightarrow> io_keeps I (mysql_set_globals L show p g)"
  unfolding mysql_set_globals_def by (auto intro!: io_inv_intros env_keeps)

lemma after_install_keeps [env_keeps]:
  assumes "db_env_keeps I E" and "io_keeps I start"
  shows "io_keeps I (after_install E b start service)"
  unfolding after_install_def mysql_create_database_and_user_def using assms
  by (auto intro!: io_inv_intros env_keeps split: pyval.split list.split)

lemma mariadb_keeps:
  assumes "db_env_keeps I E"
  shows "component_keeps I (mariadb_component k E b)"
  unfolding component_keeps_def mariadb_component_def component.simps mariadb_configure_def mariadb_install_def mariadb_download_def server_download_def
    enterprise_download_def set_mariadb_config_def mariadb_copy_certs_def mariadb_clean_def server_clean_def mariadb_start_def mariadb_stop_def
  using assms by (auto intro!: io_inv_intros env_keeps split: mariadb_class.split pyval.split prod.split)

lemma mysql_keeps:
  assumes "db_env_keeps I E"
  shows "component_keeps I (mysql_component E b)"
  unfolding component_keeps_def mysql_component_def component.simps mysql_configure_def mysql_install_def mysql_download_def
    set_mysql_config_def mysql_clean_def server_clean_def mysql_start_def mysql_stop_def Let_def
  using assms by (auto intro!: io_inv_intros env_keeps split: pyval.split prod.split)

lemma pg_settings_keeps [env_keeps]: "db_env_keeps I E \<Longrightarrow> io_keeps I (pg_settings E b)"
  unfolding pg_settings_def pg_connections_def Let_def by (auto intro!: io_inv_intros env_keeps)

lemma pg_yum_run_keeps [env_keeps]: "db_env_keeps I E \<Longrightarrow> io_keeps I (pg_yum_run E b pm r)"
  unfolding pg_yum_run_def by (auto intro!: io_inv_intros env_keeps)

lemma finalize_keeps [env_keeps]: "db_env_keeps I E \<Longrightarrow> io_keeps I (finalize_postgresql_conf E b)"
  unfolding finalize_postgresql_conf_def by (auto intro!: io_inv_intros env_keeps)

lemma postgres_keeps:
  assumes "db_env_keeps I E"
  shows "component_keeps I (postgres_component E b)"
  unfolding component_keeps_def postgres_component_def component.simps pg_configure_def pg_install_def pg_clean_def pg_service_def
    install_repo_def package_installation_def setup_pgdata_def initdb_def pg_run_as_def allow_remote_connections_def
    pg_create_database_and_user_def install_and_run_exporter_def Let_def
  using assms by (auto intro!: io_inv_intros env_keeps)

definition bench_keeps :: "('w \<Rightarrow> bool) \<Rightarrow> 'w bench_ops \<Rightarrow> bool" where
  "bench_keeps I B \<longleftrightarrow> (\<forall>k n. io_keeps I (bo_configure B k n) \<and> io_keeps I (bo_install B k n) \<and> io_keeps I (bo_clean B k n))"

lemma driver_keeps:
  assumes "node_env_keeps I N" and "bench_keeps I B"
  shows "component_keeps I (driver_component N B ks n y)"
  unfolding component_keeps_def driver_component_def component.simps driver_configure_def driver_install_def driver_clean_def
    install_workload_prometheus_exporter_def uninstall_workload_prometheus_exporter_def clean_packages_def kill_xbench_procs_def clean_storage_def
  using assms by (auto simp: bench_keeps_def intro!: io_inv_intros env_keeps split: option.split)

subsection \<open>Proxies\<close>

lemma proxy_run_keeps [env_keeps]:
  "db_env_keeps I (px_env P) \<Longrightarrow> io_keeps I (px_all P m c t s)"
  "db_env_keeps I (px_env P) \<Longrightarrow> io_keeps I (px_do P m c s)"
  unfolding px_do_def px_all_def by (auto intro!: io_inv_intros env_keeps)

lemma maxscale_keeps:
  assumes "db_env_keeps I (px_env P)"
  shows "component_keeps I (maxscale_component P x)"
  unfolding component_keeps_def maxscale_component_def component.simps maxscale_configure_def maxscale_install_def maxscale_download_def
    maxscale_post_install_def set_maxscale_config_def maxscale_start_def maxscale_stop_def maxscale_clean_def Let_def
  using assms by (auto intro!: io_inv_intros env_keeps)

lemma xm_keeps:
  assumes "db_env_keeps I (px_env P)"
  shows "component_keeps I (xm_component P x)"
  unfolding component_keeps_def xm_component_def component.simps xm_install_def xm_post_install_def xm_start_def xm_stop_def xm_clean_def Let_def
  using assms by (auto intro!: io_inv_intros env_keeps)

lemma xgres_run_keeps [env_keeps]:
  assumes "db_env_keeps I (px_env P)"
  shows "io_keeps I (xg_root P x c)" and "io_keeps I (xg_user P x c)" and "io_keeps I (xg_postgres P x c)" and "io_keeps I (xg_quiet P x c)"
    and "io_keeps I (xg_psql P c)"
  unfolding xg_root_def xg_user_def xg_postgres_def xg_quiet_def xg_psql_def using assms
  by (auto intro!: io_inv_intros env_keeps)

lemma manage_packages_keeps [env_keeps]:
  assumes "db_env_keeps I (px_env P)"
  shows "io_keeps I (manage_packages P x a)"
  unfolding manage_packages_def manage_server_package_def os_version_def using assms
  by (auto intro!: io_inv_intros env_keeps split: prod.split)

lemma xgres_keeps:
  assumes "db_env_keeps I (px_env P)"
  shows "component_keeps I (xgres_component P x)"
  unfolding component_keeps_def xgres_component_def component.simps xgres_configure_def xgres_install_def xgres_post_install_def
    xgres_clean_def xgres_start_def xgres_stop_def create_pg_user_def make_project_directory_def setup_pg_bash_profile_def build_pg_def
    build_xgres_def xg_initdb_def start_pg_server_def allow_remote_pg_connections_def setup_benchmark_db_def create_extension_def
    connect_pg_to_xpand_def create_pg_db_user_def set_query_path_def add_custom_settings_def
  using assms by (auto intro!: io_inv_intros env_keeps)

subsection \<open>ColumnStore and the metrics server\<close>

definition cs_env_keeps :: "('w \<Rightarrow> bool) \<Rightarrow> 'w cs_env \<Rightarrow> bool" where
  "cs_env_keeps I S \<longleftrightarrow> db_env_keeps I (cs_db S) \<and> processes_keep I (aws_os (cs_aws S))"

lemma cs_env_keepsD [env_keeps]: "cs_env_keeps I S \<Longrightarrow> db_env_keeps I (cs_db S)"
  by (simp add: cs_env_keeps_def)

lemma get_aws_cli_keeps [env_keeps]:
  assumes "cs_env_keeps I S"
  shows "io_keeps I (get_aws_cli S)"
proof -
  have p: "processes_keep I (aws_os (cs_aws S))" using assms by (simp add: cs_env_keeps_def)
  have r: "io_keeps I (run_process (aws_os (cs_aws S)) c t h)" for c t h
    unfolding run_process_def using p by (intro drop_text_keeps run_process_keeps) (simp add: processes_keep_def)
  have v: "io_keeps I (aws_version (cs_aws S) A)" for A
    unfolding aws_version_def using p by (intro drop_text_keeps cli_run_keeps) (simp add: processes_keep_def)
  have "io_keeps I (get_default_cluster S)" by (simp add: io_keeps_def get_default_cluster_def)
  moreover have "io_keeps I (AwsCliObject (cs_aws S) n rc)" for n rc
    unfolding AwsCliObject_def aws_check_cli_version_def describe_availability_zones_def Let_def
    by (auto intro!: io_inv_intros r v p split: prod.split)
  ultimately show ?thesis unfolding get_aws_cli_def by (auto intro!: io_inv_intros split: list.split)
qed

lemma cs_run_keeps [env_keeps]:
  assumes "cs_env_keeps I S"
  shows "io_keeps I (cs_all S x c)" and "io_keeps I (cs_do S x c)" and "io_keeps I (cs_install_cmd S x c)" and "io_keeps I (cs_head S x c)"
proof -
  show "io_keeps I (cs_all S x c)" and d: "io_keeps I (cs_do S x c)" for c
    unfolding cs_do_def cs_all_def using assms by (auto intro!: io_inv_intros env_keeps)
  show "io_keeps I (cs_install_cmd S x c)" "io_keeps I (cs_head S x c)"
    unfolding cs_install_cmd_def cs_head_def using assms by (auto intro!: io_inv_intros d env_keeps)
qed

lemma component_keepsD:
  assumes "component_keeps I c"
  shows "io_keeps I (run_configure c)" and "io_keeps I (run_install c)" and "io_keeps I (run_post_install c b)"
    and "io_keeps I (run_clean c)" and "io_keeps I (run_start c)" and "io_keeps I (run_stop c)"
  using assms by (simp_all add: component_keeps_def)

lemma target_keepsD: "io_keeps I (target m) \<Longrightarrow> io_keeps I m"
  by (auto simp: io_keeps_def target_def io_bind_def io_return_def split: prod.splits sum.splits) (metis (no_types, lifting) old.sum.exhaust prod.exhaust_sel snd_conv)

lemma mariadb_operations_keep [env_keeps]:
  assumes "db_env_keeps I E"
  shows "io_keeps I (mariadb_configure E b)" and "io_keeps I (mariadb_install k E b)" and "io_keeps I (mariadb_clean E b)"
    and "io_keeps I (mariadb_start E b)" and "io_keeps I (mariadb_stop E b)"
  using component_keepsD [OF mariadb_keeps [OF assms, of k b]] target_keepsD by (simp_all add: mariadb_component_def)

lemma columnstore_keeps:
  assumes "cs_env_keeps I S"
  shows "component_keeps I (columnstore_component S x)"
  unfolding component_keeps_def columnstore_component_def component.simps columnstore_configure_def columnstore_install_def
    columnstore_clean_def columnstore_start_def columnstore_stop_def own_directories_def configure_replication_def write_server_ids_def
    setup_master_def setup_slaves_def cross_engine_def install_all_from_drone_artifacts_def get_aws_commands_def
    install_columnstore_from_local_def install_columnstore_from_link_in_env_def install_columnstore_from_es_repo_def Let_def
  using assms by (auto intro!: io_inv_intros env_keeps split: prod.split option.split)

lemma s3_keeps:
  assumes "cs_env_keeps I S"
  shows "component_keeps I (s3_component S b)"
proof -
  have "io_keeps I (get_default_cluster S)" by (simp add: io_keeps_def get_default_cluster_def)
  then show ?thesis
    unfolding component_keeps_def s3_component_def component.simps s3_post_install_def deploy_config_def s3_exec_def
      write_config_file_command_def get_storagemanager_config_def Let_def
    using assms by (auto intro!: io_inv_intros env_keeps)
qed

lemma metrics_keeps:
  assumes "db_env_keeps I (me_db M)"
  shows "component_keeps I (metrics_component M b)"
  unfolding component_keeps_def metrics_component_def component.simps metrics_configure_def metrics_install_def
    install_container_runtime_def create_container_network_def metrics_setup_storage_def create_grafana_directories_def
    create_prometheus_directories_def make_directories_def create_config_files_def set_directory_permissions_def start_prometheus_def
    start_grafana_def upload_dashboards_def mb_root_def Let_def
  using assms by (auto intro!: io_inv_intros env_keeps read_only_keeps split: prod.split)

lemma metrics_constructor_keeps [env_keeps]: "db_env_keeps I (me_db M) \<Longrightarrow> io_keeps I (MetricsServerBackend M n)"
  unfolding MetricsServerBackend_def os_name_def by (auto intro!: io_inv_intros env_keeps split: prod.split)

section \<open>The components together\<close>

text \<open>All libraries that the components use leave \<open>I\<close> alone, and so do the classes that are a parameter.\<close>

definition gives :: "('a \<Rightarrow> bool) \<Rightarrow> ('w, exn, 'a) io \<Rightarrow> bool" where
  "gives Q m \<longleftrightarrow> (\<forall>w x w'. m w = (Inr x, w') \<longrightarrow> Q x)"

definition environment_keeps :: "('w \<Rightarrow> bool) \<Rightarrow> 'w component_env \<Rightarrow> bool" where
  "environment_keeps I C \<longleftrightarrow> db_env_keeps I (ce_db C) \<and> cs_env_keeps I (ce_cs C) \<and> db_env_keeps I (px_env (ce_proxy C))
     \<and> db_env_keeps I (me_db (ce_metrics C)) \<and> bench_keeps I (ce_bench C)
     \<and> (\<forall>name g kw. io_keeps I (ce_other C name g kw) \<and> gives (component_keeps I) (ce_other C name g kw))"

lemma gives_bind: "(\<And>x. gives Q (f x)) \<Longrightarrow> gives Q (io_bind m f)"
  by (auto simp: gives_def io_bind_def split: prod.splits sum.splits)

lemma gives_return: "Q x \<Longrightarrow> gives Q (io_return x)"
  by (simp add: gives_def io_return_def)

lemma io_keeps_gives:
  assumes "io_keeps I m" and "gives Q m" and "\<And>x. Q x \<Longrightarrow> io_keeps I (f x)"
  shows "io_keeps I (io_bind m f)"
proof (rule io_keepsI)
  fix w assume w: "I w"
  obtain r v where m: "m w = (r, v)" by fastforce
  with io_keepsD [OF assms(1) w] have v: "I v" by simp
  show "I (snd (io_bind m f w))"
  proof (cases r)
    case (Inl e)
    with m v show ?thesis by (simp add: io_bind_def)
  next
    case (Inr x)
    with assms(2) m have "Q x" by (auto simp: gives_def)
    from io_keepsD [OF assms(3) [OF this] v] show ?thesis using m Inr by (simp add: io_bind_def)
  qed
qed

definition kept :: "('w \<Rightarrow> bool) \<Rightarrow> ('w, exn, 'w component) io \<Rightarrow> bool" where
  "kept I m \<longleftrightarrow> io_keeps I m \<and> gives (component_keeps I) m"

lemma kept_if: "kept I a \<Longrightarrow> kept I b \<Longrightarrow> kept I (if c then a else b)"
  by simp

lemma kept_object: "(\<And>b. component_keeps I (comp_of b)) \<Longrightarrow> kept I (with_object n mk comp_of)"
  unfolding with_object_def kept_def by (auto intro!: io_inv_intros gives_bind gives_return)

lemma make_component_kept:
  assumes "environment_keeps I C"
  shows "kept I (make_component C name g kw)"
proof -
  have m: "db_env_keeps I (me_db (ce_metrics C))" and p: "db_env_keeps I (px_env (ce_proxy C))"
    and c: "cs_env_keeps I (ce_cs C)" and d: "db_env_keeps I (ce_db C)" and b: "bench_keeps I (ce_bench C)"
    and o: "kept I (ce_other C n g k)" for n g k
    using assms by (auto simp: environment_keeps_def kept_def)
  have dr: "component_keeps I (case x of (n, y, ks) \<Rightarrow> driver_component (de_nodes (ce_db C)) (ce_bench C) ks n y)" for x
    using driver_keeps [OF env_keepsD(2) [OF d] b] by (simp split: prod.split)
  have me: "kept I (io_bind (io_lift (the_node g)) (\<lambda>n. io_bind (MetricsServerBackend (ce_metrics C) n) (\<lambda>b. io_return (metrics_component (ce_metrics C) b))))"
    using metrics_keeps [OF m] by (auto simp: kept_def intro!: io_inv_intros env_keeps m gives_bind gives_return)
  show ?thesis
    unfolding make_component_def Let_def
    by (intro kept_if kept_object dr mariadb_keeps [OF d] mysql_keeps [OF d] postgres_keeps [OF d] columnstore_keeps [OF c]
        maxscale_keeps [OF p] xm_keeps [OF p] xgres_keeps [OF p] s3_keeps [OF c] me o)
qed

lemma kept_bind: "kept I m \<Longrightarrow> (\<And>c. component_keeps I c \<Longrightarrow> io_keeps I (f c)) \<Longrightarrow> io_keeps I (io_bind m f)"
  unfolding kept_def by (blast intro: io_keeps_gives)

lemma component_ops_keep:
  assumes "environment_keeps I C"
  shows "klass_keeps I (component_ops C extras)"
  unfolding klass_keeps_def component_ops_def klass_ops.simps klass_instance_configure_def klass_instance_install_def klass_instance_clean_def
  by (intro allI conjI kept_bind make_component_kept [OF assms] component_keepsD)

lemma through_proxies_single:
  "filter (\<lambda>g. g_name g = parent) gs = [g] \<Longrightarrow> through_proxies X parent gs b =
     (if ko_is_proxy (klasses X) (g_klass g) then ko_post_install (klasses X) (g_klass g) (g_nodes g) b else io_return b)"
proof (induction gs)
  case (Cons h gs)
  have none: "filter (\<lambda>g. g_name g = parent) hs = [] \<Longrightarrow> through_proxies X parent hs = io_return" for hs
    by (induction hs) (auto simp: fun_eq_iff split: if_splits)
  have "io_bind m io_return = m" for m :: "('a xworld, exn, backend_target) io"
    by (auto simp: fun_eq_iff io_bind_def io_return_def split: prod.splits sum.splits)
  with Cons none [of gs] show ?case by (auto split: if_splits)
qed simp

lemma MultiNode_nodes: "MultiNode pem ns = Inr m \<Longrightarrow> nodes m = ns"
  by (auto simp: MultiNode_def split: sum.splits option.splits)

lemma Maxscale_nodes: "Maxscale P ns kw = Inr x \<Longrightarrow> nodes (mx_multi x) = ns"
  by (auto simp: Maxscale_def Let_def dest: MultiNode_nodes split: sum.splits)

lemma Xm_nodes: "Xm P ns kw = Inr x \<Longrightarrow> nodes (xm_multi x) = ns"
  by (auto simp: Xm_def dest: MultiNode_nodes split: sum.splits)

lemma with_object_result:
  assumes "with_object nodes_of mk comp_of w = (Inr c, w')"
  shows "\<exists>n x. nodes_of = Inr n \<and> mk n = Inr x \<and> c = comp_of x"
  using assms by (auto simp: with_object_def io_bind_def io_lift_def io_return_def split: sum.splits)

text \<open>What the drivers get in place of the target \<open>b\<close> behind a proxy: \<open>hosts_of\<close> replaces the hosts.\<close>

definition hosts_of :: "group_nodes \<Rightarrow> backend_target \<Rightarrow> exn + backend_target" where
  "hosts_of g b = (case the_nodes g of Inl e \<Rightarrow> Inl e | Inr ns \<Rightarrow>
     (case all_client_ips ns of Inl e \<Rightarrow> Inl e | Inr ips \<Rightarrow> Inr (dset b ''host'' (VStr (join '','' ips)))))"

definition proxied :: "string \<Rightarrow> group_nodes \<Rightarrow> backend_target \<Rightarrow> backend_target \<Rightarrow> bool" where
  "proxied name g b b' =
     (if name = ''Maxscale'' then hosts_of g b = Inr b'
      else if name = ''Xm'' then b' = b \<or> hosts_of g b = Inr b'
      else b' = b)"

lemma post_install_proxied:
  assumes "k \<in> set proxy_names" and "fst (io_bind (make_component C k g kw) (\<lambda>c. run_post_install c b) w) = Inr b'"
  shows "proxied k g b b'"
proof -
  obtain c v where c: "make_component C k g kw w = (Inr c, v)" and r': "fst (run_post_install c b v) = Inr b'"
    using assms(2) by (auto simp: io_bind_def split: prod.splits sum.splits)
  have mx: "proxied k g b b'" if "k = ''Maxscale''"
  proof -
    from with_object_result [OF c [unfolded make_component_def Let_def that, simplified]] obtain ns x where
      "the_nodes g = Inr ns" "Maxscale (ce_proxy C) ns kw = Inr x" "c = maxscale_component (ce_proxy C) x" by blast
    then show ?thesis using r' post_install_result(1) [where P = "ce_proxy C" and mx = x and b = b and w = v] that
      by (auto simp: maxscale_component_def proxied_def hosts_of_def Maxscale_nodes split: sum.splits)
  qed
  have xm: "proxied k g b b'" if "k = ''Xm''"
  proof -
    from with_object_result [OF c [unfolded make_component_def Let_def that, simplified]] obtain ns x where
      "the_nodes g = Inr ns" "Xm (ce_proxy C) ns kw = Inr x" "c = xm_component (ce_proxy C) x" by blast
    then show ?thesis using r' post_install_result(2) [where P = "ce_proxy C" and x = x and b = b and w = v] that
      by (auto simp: xm_component_def proxied_def hosts_of_def Xm_nodes split: sum.splits if_splits)
  qed
  have xg: "proxied k g b b'" if "k = ''Xgres''"
  proof -
    from with_object_result [OF c [unfolded make_component_def Let_def that, simplified]] obtain x where
      "c = xgres_component (ce_proxy C) x" by blast
    then show ?thesis using r' post_install_result(3) [where P = "ce_proxy C" and xg = x and b = b and w = v] that
      by (auto simp: xgres_component_def proxied_def split: sum.splits)
  qed
  have s3: "proxied k g b b'" if "k = ''ColumnstoreS3Backend''"
  proof -
    from with_object_result [OF c [unfolded make_component_def Let_def that, simplified]] obtain x where
      "c = s3_component (ce_cs C) x" by blast
    then show ?thesis using r' s3_post_install_target [where S = "ce_cs C" and b = x and t = b and w = v] that
      by (auto simp: s3_component_def proxied_def split: sum.splits)
  qed
  show ?thesis using assms(1) mx xm xg s3 by (auto simp: proxy_names_def)
qed

section \<open>Properties\<close>



subsection \<open>Witnesses\<close>

text \<open>Libraries that answer and leave the world as it is.\<close>

definition quiet_sql :: "'w sql_lib" where
  "quiet_sql = \<lparr>lib_connect = (\<lambda>p. io_return ()), lib_execute = (\<lambda>q. io_return ()), lib_fetchone = io_return (Some []),
     lib_fetchall = io_return [], rownumber = (\<lambda>w. 1), rowcount = (\<lambda>w. 1), has_cursor = (\<lambda>w. True), set_cursor = id,
     sql_clock = \<lparr>now = (\<lambda>w. 0), sleep = (\<lambda>d w. w)\<rparr>, sql_draw = id\<rparr>"

definition quiet_db :: "'r xworld db_env" where
  "quiet_db = demo_db_env quiet_sql demo_xnode_env"

definition demo_components :: "'r xworld component_env" where
  "demo_components = \<lparr>ce_db = quiet_db,
     ce_cs = \<lparr>cs_db = quiet_db, cs_aws = \<lparr>aws_os = \<lparr>popen = (\<lambda>c sh t w. (Exited [] [] 0, w)), shell_var = None, path_exists = (\<lambda>w f. True)\<rparr>,
         aws_json = (\<lambda>s. Inr (VList [])), aws_libs = demo_libs\<rparr>,
       cs_draw = id, cs_clusters = cluster_files, cs_cloud_yaml = Inr demo_config, cs_site = ''perf''\<rparr>,
     ce_proxy = \<lparr>px_env = quiet_db, px_config = (\<lambda>k v. Inr \<lparr>px_db = [], px_attrs = []\<rparr>), px_percent = (\<lambda>c a. Inr c)\<rparr>,
     ce_metrics = \<lparr>me_db = quiet_db, me_config = (\<lambda>v. Inr (''/data'', ''admin'', ''pw'')), me_dump = (\<lambda>v. []), me_listdir = (\<lambda>w d. Inr []), me_dash_dir = ''/dash''\<rparr>,
     ce_bench = \<lparr>bo_class = (\<lambda>k. Inr ()), bo_configure = (\<lambda>k n. io_return ()), bo_install = (\<lambda>k n. io_return ()), bo_clean = (\<lambda>k n. io_return ())\<rparr>,
     ce_benchmarks = (\<lambda>l. Inr [''benchmark.Sysbench'']), ce_other = (\<lambda>name g kw. io_raise PyValueError)\<rparr>"

lemma quiet_db_keeps: "db_env_keeps (files_are F) (quiet_db :: 'r xworld db_env)"
  by (auto simp: quiet_db_def quiet_sql_def demo_db_env_def db_env_keeps_def node_env_keeps_def sql_keeps_def demo_xnode_env_def remote_keeps_def
      files_are_def io_keeps_def io_return_def)

lemma demo_components_keep: "environment_keeps (files_are F) (demo_components :: 'r xworld component_env)"
  unfolding environment_keeps_def
  using quiet_db_keeps by (auto simp: demo_components_def cs_env_keeps_def bench_keeps_def gives_def processes_keep_def io_raise_def intro: io_keeps_return io_keeps_raise)

definition demo_real_xbench :: "(string list \<times> string list) xbench" where
  "demo_real_xbench = demo_xbench\<lparr>klasses := component_ops demo_components []\<rparr>"


definition demo_proxy_group :: node_group where
  "demo_proxy_group = \<lparr>g_klass = \<lparr>klass_name = ''Maxscale'', clustered = True\<rparr>, g_nodes = Many [demo_node], g_name = ''proxy'', g_env = ''env_0''\<rparr>"


end
