(* ===== verification/XB_Xpand.thy ===== *)
theory XB_Xpand
  imports XB_Backend XB_Process
begin

text \<open>
  The Xpand backend: \<^verbatim>\<open>backend/xpand/base_xpand_backend.py\<close> and \<^verbatim>\<open>backend/xpand/xpand.py\<close>.
  A cluster of database nodes is installed from a build, licensed, formed, given its zones, tested for
  its quorum, backed up and restored.

  Parameters are the nodes and the database client (as in the theories below), the download service,
  \<open>json.loads\<close> and \<open>dateutil\<close>'s \<open>parse\<close>, the wall clock, the random letters of a password and the
  formatting operator, and the tables that \<open>tabulate\<close> draws. The files of the local machine (\<open>cached\<close>,
  \<open>put_cached\<close>) are part of the world.
\<close>

section \<open>Configuration and environment\<close>

record xpand_config =
  xc_db :: backend_target
  xc_data_dir :: string
  branch :: string
  build :: string
  release :: "string option"
  license :: string
  globals :: pydict
  prometheus_port :: int
  enable_prometheus_exporter :: bool
  clxnode_mem_pct :: "rat option"
  space_allocation_pct :: "rat option"
  hugetlb :: "bool option"
  max_redo :: "int option"
  multi_page_alloc :: "int option"
  install_options :: "string option"
  clxnode_additional_args :: "string option"

text \<open>The answer of a download: its status, the chunks that arrive and what breaks it off, if anything.\<close>

record http_body =
  http_status :: int
  http_chunks :: "string list"
  http_break :: "exn option"

record 'w xpand_env =
  xnodes :: "'w node_env"
  xclient :: "'w sql_lib"
  json_loads :: "string \<Rightarrow> exn + pyval"
  parse_date :: "pyval \<Rightarrow> exn + rat"
  wall_clock :: "'w \<Rightarrow> rat"
  http_get :: "string \<Rightarrow> ('w, exn, http_body) io"
  cached :: "'w \<Rightarrow> string \<Rightarrow> string option"
  put_cached :: "string \<Rightarrow> string \<Rightarrow> 'w \<Rightarrow> 'w"
  random_letters :: "'w \<Rightarrow> string"
  percent :: "string \<Rightarrow> string \<Rightarrow> exn + string"
  show_value :: "pyval \<Rightarrow> string"
  tabulate_rows :: "pydict list \<Rightarrow> string"
  sql_accepted :: "string list"
  sql_roundrobin :: "string list \<Rightarrow> string"

text \<open>The object: its configuration, its nodes, the file to configure and the parameters of the client.\<close>

record xpand =
  xp_config :: xpand_config
  xp_multi :: multi_node
  conf_file :: string
  xp_params :: pydict

definition XPAND_GTM_TIMEOUT :: int where "XPAND_GTM_TIMEOUT = 30"
definition XPAND_LOCAL_CACHE_DIR :: string where "XPAND_LOCAL_CACHE_DIR = ''/tmp''"
definition CLXNODE :: string where "CLXNODE = ''http://files/pub/clxnode''"
definition XPAND_BASE :: string where "XPAND_BASE = ''/opt/clustrix''"
definition XPAND_BIN :: string where "XPAND_BIN = XPAND_BASE @ ''/bin''"
definition LICENSE_CUTOFF :: rat where "LICENSE_CUTOFF = 24"
definition MAX_REDO_LIMIT_PCT :: int where "MAX_REDO_LIMIT_PCT = 10"
definition QPC_LIMIT :: int where "QPC_LIMIT = 6"
definition STATEMENT_CUTOFF :: int where "STATEMENT_CUTOFF = 60"
definition XPAND_LONG_COMMAND_TIMEOUT :: int where "XPAND_LONG_COMMAND_TIMEOUT = 60 * 60 * 24"

section \<open>Commands on the nodes\<close>

definition on_all :: "'w xpand_env \<Rightarrow> xpand \<Rightarrow> string \<Rightarrow> ('w, exn, unit) io" where
  "on_all X b cmd = io_bind (run_on_all_nodes (xnodes X) (\<lambda>c (a :: unit). Inr c) (xp_multi b) (CmdStr cmd) 300 True None False)
     (\<lambda>_. io_return ())"

definition on_one :: "'w xpand_env \<Rightarrow> xpand \<Rightarrow> string \<Rightarrow> ('w, exn, string) io" where
  "on_one X b cmd = run_on_one_node (xnodes X) (xp_multi b) (CmdStr cmd) 300 True"

definition sql_on_one :: "'w xpand_env \<Rightarrow> xpand \<Rightarrow> string \<Rightarrow> ('w, exn, unit) io" where
  "sql_on_one X b stmts = io_seq (on_one X b (mysql_cli stmts)) (io_return ())"

definition xsleep :: "'w xpand_env \<Rightarrow> int \<Rightarrow> ('w, exn, unit) io" where
  "xsleep X d = io_modify (sleep (sql_clock (xclient X)) d)"

section \<open>Queries\<close>

definition xconnect :: "'w xpand_env \<Rightarrow> xpand \<Rightarrow> ('w, exn, unit) io" where
  "xconnect X b = mysql_db_connect (xclient X) (xp_params b)"

definition xexecute :: "'w xpand_env \<Rightarrow> string \<Rightarrow> ('w, exn, unit) io" where
  "xexecute X query = io_seq (mysql_execute (xclient X) query) (io_return ())"

definition xpand_print_non_default_variables :: "'w xpand_env \<Rightarrow> ('w, exn, unit) io" where
  "xpand_print_non_default_variables X =
     io_seq (mysql_select_all_rows (xclient X) (script_at 8
       [''SELECT name, value, default_value'',
        ''FROM system.global_variables'',
        ''JOIN system.global_variable_definitions USING (name)'',
        ''WHERE value != default_value'',
        lit ''AND name NOT IN (`cluster_id`, `cluster_name`, `clustrix_version`, `customer_name`, `format_version`,'',
        lit ''`global_variables_ignored_version`, `license`, `mysql_port`, `server_id`, `server_uuid`,'',
        lit ''`ssl_cert`, `ssl_key`, `view_strmaps_upgraded`)''])) (io_return ())"

definition xpand_print_db_size :: "'w xpand_env \<Rightarrow> string \<Rightarrow> ('w, exn, unit) io" where
  "xpand_print_db_size X database =
     io_bind (mysql_select_one_row (xclient X)
       (''select sum(bytes)/1000000000 as db_size from system.container_stats cs''
        @ '' join system.table_replicas tr on cs.replica = tr.replica where database''
        @ lit '' = `'' @ database @ lit ''`'')) (\<lambda>row.
     io_bind (io_lift (row_get row ''db_size'')) (\<lambda>_. io_return ()))"

definition analyze_all_tables :: "'w xpand_env \<Rightarrow> xpand \<Rightarrow> string \<Rightarrow> ('w, exn, unit) io" where
  "analyze_all_tables X b database =
     io_seq (xconnect X b)
    (io_bind (mysql_select_all_rows (xclient X)
       (''select rel.name as table_name FROM system.databases db JOIN''
        @ '' system.relations rel ON db.db = rel.db JOIN system.representations rep''
        @ lit '' ON rel.table = rep.relation where db.name = `'' @ database @ lit ''`'')) (\<lambda>rows.
     io_for rows (\<lambda>t. xexecute X (''analyze full table '' @ database @ ''.''
       @ show_value X (dget_default t ''table_name'' VNone)))))"

text \<open>
  \<open>wait_until_no_data\<close> polls every five seconds for ever; running out of fuel is \<open>None\<close>.
\<close>

fun wait_until_no_data :: "nat \<Rightarrow> 'w xpand_env \<Rightarrow> string \<Rightarrow> 'w \<Rightarrow> ((exn + unit) \<times> 'w) option" where
  "wait_until_no_data 0 X query w = None"
| "wait_until_no_data (Suc fuel) X query w =
     (case mysql_select_one_row (xclient X) query w of
        (Inl e, w') \<Rightarrow> Some (Inl e, w')
      | (Inr None, w') \<Rightarrow> Some (Inl PyTypeError, w')
      | (Inr (Some r), w') \<Rightarrow>
          if r = [] then Some (Inr (), w')
          else wait_until_no_data fuel X query (sleep (sql_clock (xclient X)) 5 w'))"

text \<open>A computation, the wait, a computation.\<close>

definition around_wait :: "('w, exn, unit) io \<Rightarrow> nat \<Rightarrow> 'w xpand_env \<Rightarrow> string \<Rightarrow> ('w, exn, unit) io \<Rightarrow> 'w \<Rightarrow>
    ((exn + unit) \<times> 'w) option" where
  "around_wait before fuel X query after w =
     (case before w of
        (Inl e, w') \<Rightarrow> Some (Inl e, w')
      | (Inr _, w') \<Rightarrow>
          (case wait_until_no_data fuel X query w' of
             None \<Rightarrow> None
           | Some (Inl e, w'') \<Rightarrow> Some (Inl e, w'')
           | Some (Inr _, w'') \<Rightarrow> Some (after w'')))"

section \<open>The licence\<close>

definition get_expiration_date_from_license :: "'w xpand_env \<Rightarrow> string \<Rightarrow> exn + rat" where
  "get_expiration_date_from_license X lic =
     (case json_loads X lic of
        Inl e \<Rightarrow> Inl e
      | Inr (VDict d) \<Rightarrow> parse_date X (dget_default d ''expiration'' VNone)
      | Inr _ \<Rightarrow> Inl PyAttributeError)"

text \<open>Dates are seconds; the difference is in hours.\<close>

definition check_license_expiration_date :: "'w xpand_env \<Rightarrow> xpand_config \<Rightarrow> ('w, exn, unit) io" where
  "check_license_expiration_date X c =
     io_bind (io_lift (get_expiration_date_from_license X (license c))) (\<lambda>expiration.
     io_bind (io_gets (wall_clock X)) (\<lambda>t.
       if (expiration - t) / 3600 \<le> LICENSE_CUTOFF then io_raise XpandException else io_return ()))"

text \<open>\<open>Xpand.__init__\<close>, given the configuration and the nodes of its base class.\<close>

definition Xpand :: "'w xpand_env \<Rightarrow> xpand_config \<Rightarrow> multi_node \<Rightarrow> ('w, exn, xpand) io" where
  "Xpand X c m =
     (let f = (if branch c = ''glassbutte'' then ''/etc/clustrix/clxnode.conf'' else ''/etc/xpand/xpdnode.conf'') in
      io_seq (check_license_expiration_date X c)
     (io_bind (io_lift (all_public_ips (nodes m))) (\<lambda>ips.
      let c' = c\<lparr>xc_db := dset (xc_db c) ''host'' (VStr (join '','' ips))\<rparr> in
      io_bind (io_lift (MySqlClient (sql_accepted X) (sql_roundrobin X) (xc_db c'))) (\<lambda>params.
        io_return \<lparr>xp_config = c', xp_multi = m, conf_file = f, xp_params = params\<rparr>))))"

section \<open>Builds\<close>

definition build_policy :: retry_policy where
  "build_policy = \<lparr>exceptions_to_check = [RequestsConnectionError], exception_to_raise = XpandException, max_delay = 300\<rparr>"

definition strip_newlines :: "string \<Rightarrow> string" where
  "strip_newlines s = rev (dropWhile (\<lambda>c. c = newline) (rev (dropWhile (\<lambda>c. c = newline) s)))"

definition last_build_once :: "'w xpand_env \<Rightarrow> xpand_config \<Rightarrow> ('w, exn, string) io" where
  "last_build_once X c =
     io_bind (http_get X (CLXNODE @ ''/'' @ branch c @ ''/LATEST.el7'')) (\<lambda>r.
       case http_break r of
         Some e \<Rightarrow> io_raise e
       | None \<Rightarrow> if http_status r = 200 then io_return (strip_newlines (concat (http_chunks r)))
                 else io_raise XpandException)"

definition get_last_build_file_name :: "'w xpand_env \<Rightarrow> xpand_config \<Rightarrow> ('w, exn, string) io" where
  "get_last_build_file_name X c =
     retry (sql_clock (xclient X)) build_policy (jitter_delays (sql_draw (xclient X)) 3 10 10) (last_build_once X c)"

text \<open>
  \<open>download_build\<close>: a file in the cache is taken as it is; otherwise the chunks are written into it as they
  arrive.
\<close>

definition download_build_once :: "'w xpand_env \<Rightarrow> xpand_config \<Rightarrow> string \<Rightarrow> ('w, exn, string) io" where
  "download_build_once X c build_file_name =
     (let local_cache_file = XPAND_LOCAL_CACHE_DIR @ ''/'' @ build_file_name in
      io_bind (io_gets (\<lambda>w. cached X w local_cache_file)) (\<lambda>there.
        if there \<noteq> None then io_return local_cache_file
        else
          io_bind (http_get X (CLXNODE @ ''/'' @ branch c @ ''/'' @ build_file_name)) (\<lambda>r.
            if http_status r \<noteq> 200 then io_raise XpandException
            else io_seq (io_modify (put_cached X local_cache_file (concat (http_chunks r))))
              (case http_break r of None \<Rightarrow> io_return local_cache_file | Some e \<Rightarrow> io_raise e))))"

definition download_build :: "'w xpand_env \<Rightarrow> xpand_config \<Rightarrow> string \<Rightarrow> ('w, exn, string) io" where
  "download_build X c build_file_name =
     retry (sql_clock (xclient X)) build_policy (jitter_delays (sql_draw (xclient X)) 3 10 10)
       (download_build_once X c build_file_name)"

definition build_name :: "'w xpand_env \<Rightarrow> xpand_config \<Rightarrow> ('w, exn, string) io" where
  "build_name X c =
     io_bind (if build c = ''latest'' then get_last_build_file_name X c
              else io_return (''xpand-'' @ branch c @ ''-'' @ build c @ ''.el7'')) (\<lambda>n.
       io_return (case release c of Some (x # xs) \<Rightarrow> ''xpand-'' @ (x # xs) @ ''.el7'' | _ \<Rightarrow> n))"

section \<open>Quorum, zones, tests\<close>

definition check_quorum :: "'w xpand_env \<Rightarrow> xpand \<Rightarrow> ('w, exn, unit) io" where
  "check_quorum X b =
     io_catch [MySqlClientException] CheckQuorumException
      (io_bind (mysql_select_all_rows (xclient X) (lit ''SELECT nid, status FROM system.membership where status = `quorum`'')) (\<lambda>rows.
         if length rows = length (nodes (xp_multi b)) then io_return ()
         else io_seq (xexecute X ''alter cluster reform'') (io_raise CheckQuorumException)))"

definition self_test_policy :: retry_policy where
  "self_test_policy = \<lparr>exceptions_to_check = [CheckQuorumException, MultiNodeException],
     exception_to_raise = XpandException, max_delay = 300\<rparr>"

text \<open>The \<open>except XpandException\<close> around the command never applies; it is kept as it is written.\<close>

definition xpand_self_test_once :: "'w xpand_env \<Rightarrow> xpand \<Rightarrow> ('w, exn, unit) io" where
  "xpand_self_test_once X b =
     io_seq (check_quorum X b)
    (io_seq (check_license_expiration_date X (xp_config b))
    (io_seq (xpand_print_non_default_variables X)
            (io_catch [XpandException] CheckQuorumException (on_all X b (XPAND_BIN @ ''/clx s'')))))"

definition xpand_self_test :: "'w xpand_env \<Rightarrow> xpand \<Rightarrow> ('w, exn, unit) io" where
  "xpand_self_test X b =
     retry (sql_clock (xclient X)) self_test_policy (jitter_delays (sql_draw (xclient X)) 5 15 15)
       (xpand_self_test_once X b)"

definition zone_unique_str :: "node \<Rightarrow> string" where
  "zone_unique_str n = env (vm n) @ zone (vm n)"

text \<open>The table of zones: a number for every new zone, from one on.\<close>

fun zone_table :: "node list \<Rightarrow> (string, nat) dict \<Rightarrow> nat \<Rightarrow> (string, nat) dict" where
  "zone_table [] zones xpand_zone_id = zones"
| "zone_table (n # ns) zones xpand_zone_id =
     (if dget zones (zone_unique_str n) = None
      then zone_table ns (dset zones (zone_unique_str n) xpand_zone_id) (Suc xpand_zone_id)
      else zone_table ns zones xpand_zone_id)"

definition xpand_zones :: "node list \<Rightarrow> (string, nat) dict" where
  "xpand_zones ns = zone_table ns [] 1"

definition get_zone_info :: "'w xpand_env \<Rightarrow> ('w, exn, pydict list) io" where
  "get_zone_info X = mysql_select_all_rows (xclient X) ''select nodeid, be_ip, zone from system.nodeinfo''"

fun nodeid_of :: "pydict list \<Rightarrow> string \<Rightarrow> exn + pyval" where
  "nodeid_of [] ip = Inl XpandException"
| "nodeid_of (n # zone_info) ip =
     (if dget n ''be_ip'' = Some (VStr ip) then Inr (dget_default n ''nodeid'' VNone) else nodeid_of zone_info ip)"

definition get_nodeid_by_ip :: "'w xpand_env \<Rightarrow> string \<Rightarrow> ('w, exn, pyval) io" where
  "get_nodeid_by_ip X ip = io_bind (get_zone_info X) (\<lambda>rows. io_lift (nodeid_of rows ip))"

definition private_iface :: "node \<Rightarrow> exn + string" where
  "private_iface n = (case network (vm n) of None \<Rightarrow> Inl PyAttributeError | Some v \<Rightarrow> Inr (get_private_iface v))"

definition set_zone_of :: "'w xpand_env \<Rightarrow> (string, nat) dict \<Rightarrow> node \<Rightarrow> ('w, exn, unit) io" where
  "set_zone_of X zones n =
     io_bind (io_lift (private_iface n)) (\<lambda>ip.
     io_bind (get_nodeid_by_ip X ip) (\<lambda>nodeid.
       xexecute X (''ALTER CLUSTER '' @ show_value X nodeid @ '' ZONE ''
         @ (case dget zones (zone_unique_str n) of None \<Rightarrow> ''None'' | Some z \<Rightarrow> str_nat z))))"

definition set_zones :: "'w xpand_env \<Rightarrow> xpand \<Rightarrow> ('w, exn, unit) io" where
  "set_zones X b =
     (let zones = xpand_zones (nodes (xp_multi b)) in
      if length zones > 1 then
        io_seq (io_for (nodes (xp_multi b)) (set_zone_of X zones))
       (io_seq (xexecute X ''alter cluster reform'') (io_seq (get_zone_info X) (io_return ())))
      else io_return ())"

text \<open>\<open>check_logs\<close>: the results of the nodes are a list, which has no \<open>items\<close>.\<close>

definition check_logs :: "'w xpand_env \<Rightarrow> xpand \<Rightarrow> ('w, exn, unit) io" where
  "check_logs X b = io_seq (on_all X b ''grep FATAL  /data/clustrix/log/clustrix.log || true'') (io_raise PyAttributeError)"

section \<open>Service and configuration\<close>

definition xpand_start :: "'w xpand_env \<Rightarrow> xpand \<Rightarrow> ('w, exn, unit) io" where
  "xpand_start X b = on_all X b (script_at 8 [''systemctl start clustrix'', ''systemctl start hugetlb''])"

definition xpand_stop :: "'w xpand_env \<Rightarrow> xpand \<Rightarrow> ('w, exn, unit) io" where
  "xpand_stop X b = on_all X b (script_at 8 [''systemctl stop clustrix || true'', ''systemctl stop hugetlb || true''])"

definition xpand_restart :: "'w xpand_env \<Rightarrow> xpand \<Rightarrow> ('w, exn, unit) io" where
  "xpand_restart X b = io_seq (xpand_stop X b) (xpand_start X b)"

definition stop_statd :: "'w xpand_env \<Rightarrow> xpand \<Rightarrow> ('w, exn, unit) io" where
  "stop_statd X b = on_all X b (join [newline]
     [XPAND_BIN @ ''/clx nanny stop_job statd'',
      ''        cat '' @ XPAND_BASE @ ''/etc/nanny.conf | grep -v stat > '' @ XPAND_BASE @ ''/etc/nanny.conf.new'',
      ''        mv '' @ XPAND_BASE @ ''/etc/nanny.conf.new '' @ XPAND_BASE @ ''/etc/nanny.conf'',
      ''        ''])"

definition start_prometheus_exporter :: "'w xpand_env \<Rightarrow> xpand \<Rightarrow> ('w, exn, unit) io" where
  "start_prometheus_exporter X b =
     io_when (enable_prometheus_exporter (xp_config b))
       (io_seq (on_all X b (script_at 12
          [lit ''echo ~add_job statp -c '' @ [CHR 0x5C, CHR 0x22] @ XPAND_BIN @ ''/statd.py -e --prometheus --prometheus-port ''
             @ str_int (prometheus_port (xp_config b)) @ [CHR 0x5C, CHR 0x22] @ lit ''~ >> '' @ XPAND_BASE @ ''/etc/nanny.conf'',
           ''systemctl restart clustrix'']))
         (xsleep X XPAND_GTM_TIMEOUT))"

definition xpand_set_globals :: "'w xpand_env \<Rightarrow> xpand \<Rightarrow> ('w, exn, unit) io" where
  "xpand_set_globals X b =
     io_seq (io_for (globals (xp_config b)) (\<lambda>(k, v). xexecute X (''set global '' @ k @ '' = '' @ show_value X v)))
       (if dget (globals (xp_config b)) ''hash_dist_min_slices'' \<noteq> None then io_return ()
        else
          io_bind (io_lift (head_node (nodes (xp_multi b)))) (\<lambda>h.
          io_bind (nproc (xnodes X) h) (\<lambda>np.
            xexecute X (''set global hash_dist_min_slices = ''
              @ str_int (np * int (num_nodes (xp_multi b)) - int (num_nodes (xp_multi b)))))))"

definition adjust_statd :: "'w xpand_env \<Rightarrow> xpand \<Rightarrow> ('w, exn, unit) io" where
  "adjust_statd X b =
     (let n = length (nodes (xp_multi b)) in
      sql_on_one X b (script_at 8
       [''alter table clustrix_statd.hotness_history slices = '' @ str_nat n @ '' replicas = 2 container = layered, primary key distribute = 5, index timestamp_2 distribute = 2, index timestamp distribute = 2;'',
        ''alter table clustrix_statd.qpc_current     slices = '' @ str_nat n @ '' replicas = 1 container = layered, primary key distribute = 1, index rank distribute = 2;'',
        ''alter table clustrix_statd.qpc_history     slices = '' @ str_nat n @ '' replicas = 2 container = layered, primary key distribute = 3, index timestamp distribute = 3, index is_rollup distribute = 3;'',
        ''alter table clustrix_statd.statd_config    replicas = ALLNODES container = layered;'',
        ''alter table clustrix_statd.statd_current   slices = '' @ str_nat (n * 4) @ ''  replicas = 1 container = layered, primary key distribute = 1;'',
        ''alter table clustrix_statd.statd_history   slices = '' @ str_nat (n * 4) @ ''  replicas = 2 container = layered, primary key distribute = 2, add index timestamp_cover (timestamp,id,value) distribute = 2, drop index timestamp;'',
        ''alter table clustrix_statd.statd_metadata  replicas = ALLNODES container = layered;'']))"

definition configure_multi_page_alloc :: "'w xpand_env \<Rightarrow> xpand \<Rightarrow> int \<Rightarrow> ('w, exn, unit) io" where
  "configure_multi_page_alloc X b page_size =
     on_all X b (''echo MULTIPAGE_ALLOC='' @ str_int page_size @ ''G >> '' @ conf_file b)"

definition configure_clnode_additional_args :: "'w xpand_env \<Rightarrow> xpand \<Rightarrow> string \<Rightarrow> ('w, exn, unit) io" where
  "configure_clnode_additional_args X b clxnode_args =
     on_all X b (lit ''echo CLXNODE_ADDITIONAL_ARGS=`'' @ clxnode_args @ lit ''` >> '' @ conf_file b)"

definition configure_hugetlb :: "'w xpand_env \<Rightarrow> xpand \<Rightarrow> bool \<Rightarrow> ('w, exn, unit) io" where
  "configure_hugetlb X b enable =
     on_all X b (script_at 12 [(if enable then lit ''sed -i `s/#HUGE_TLB_ENABLE/HUGE_TLB_ENABLE/` ''
        else lit ''sed -i `s/HUGE_TLB_ENABLE/#HUGE_TLB_ENABLE/` '') @ conf_file b])"

definition redo_fix :: string where
  "redo_fix = script_at 12 [lit ''sed -i ~s/FLAG_REDO=false && MAX_REDO='' @ [CHR 0x5C, CHR 0x22] @ ''128'' @ [CHR 0x5C, CHR 0x22]
     @ '' #MB/'' @ [CHR 0x5C] @ ''{ FLAG_REDO=false; MAX_REDO='' @ [CHR 0x5C, CHR 0x22] @ ''128'' @ [CHR 0x5C, CHR 0x22] @ ''; ''
     @ [CHR 0x5C] @ lit ''} #MB/g~ /opt/clustrix/bin/clxnode.sh'']"

definition configure_max_redo :: "'w xpand_env \<Rightarrow> xpand \<Rightarrow> int \<Rightarrow> ('w, exn, unit) io" where
  "configure_max_redo X b redo =
     io_seq (io_when (branch (xp_config b) = ''glassbutte'') (on_all X b redo_fix))
       (on_all X b (script_at 8 [lit ''sed -i `s/#MAX_REDO=128/MAX_REDO='' @ str_int redo @ lit ''/g` '' @ conf_file b]))"

section \<open>Configuration of the machines\<close>

definition xpand_configure :: "'w xpand_env \<Rightarrow> xpand \<Rightarrow> bool \<Rightarrow> ('w, exn, unit) io" where
  "xpand_configure X b to_parent =
     io_bind (io_lift (head_node (nodes (xp_multi b)))) (\<lambda>h.
       if storage (vm h) = None then io_raise PyAttributeError
       else
         io_seq (prepare_storage (on_all X b) h (xc_data_dir (xp_config b)) to_parent)
        (io_seq (on_all X b (script_at 8 [''systemctl start irqbalance'']))
        (io_seq (io_when (enable_prometheus_exporter (xp_config b))
                  (node_register_metric_target (xnodes X) h ''xpand'' (prometheus_port (xp_config b))))
                (io_when (os_type (vm h) = ''RHEL7'') (on_all X b (script_at 12
                  [''yum-config-manager --enable rhel-7-server-rhui-optional-rpms -y'', ''yum install libdwarf-tools -y'']))))))"

text \<open>The memory for the database, in MB, less the redo log.\<close>

definition clxnode_mem :: "int \<Rightarrow> rat \<Rightarrow> int option \<Rightarrow> exn + int" where
  "clxnode_mem total_mem pct redo =
     (let part_mem = round_down_to_even (of_int total_mem * pct) in
      case redo of
        None \<Rightarrow> Inr part_mem
      | Some r \<Rightarrow>
          if py_trunc (of_int (total_mem * MAX_REDO_LIMIT_PCT) / 100) < r then Inl XpandException
          else Inr (part_mem - r))"

text \<open>The storage to allocate, in GB, of the space that is free.\<close>

definition storage_allocate :: "int \<Rightarrow> rat \<Rightarrow> int" where
  "storage_allocate available_space_gb pct =
     (let storage_space_gb = py_trunc (of_int available_space_gb * pct) in
      if storage_space_gb < 15000 then storage_space_gb else 15000)"

definition df_command :: "string \<Rightarrow> string" where
  "df_command dir = script_at 12 [''df -B 1073741824  '' @ dir @ lit '' | tail -n +2 | awk ~{print '' @ [CHR 0x5C] @ lit ''$2}~'']"

text \<open>The options of the installer: those of the configuration, then memory and storage.\<close>

definition all_install_options :: "'w xpand_env \<Rightarrow> xpand \<Rightarrow> node \<Rightarrow> ('w, exn, string) io" where
  "all_install_options X b h =
     (let c = xp_config b; o0 = (case install_options c of None \<Rightarrow> [] | Some s \<Rightarrow> s) in
      io_bind (case clxnode_mem_pct c of
          Some p \<Rightarrow> if p = 0 then io_return o0 else
            io_bind (memory_mb (xnodes X) h) (\<lambda>total_mem.
            io_bind (io_lift (clxnode_mem total_mem p (max_redo c))) (\<lambda>part_mem.
              io_return (o0 @ '' --clxnode-mem='' @ str_int part_mem)))
        | None \<Rightarrow> io_return o0) (\<lambda>o1.
      case space_allocation_pct c of
          Some p \<Rightarrow> if p = 0 then io_return o1 else
            io_bind (on_one X b (df_command (xc_data_dir c))) (\<lambda>out.
            io_bind (io_lift (py_int out)) (\<lambda>gb.
              io_return (o1 @ '' --storage-allocate='' @ str_int (storage_allocate gb p))))
        | None \<Rightarrow> io_return o1))"

section \<open>Installation\<close>

definition install_cmd :: "string \<Rightarrow> string \<Rightarrow> string \<Rightarrow> string \<Rightarrow> string" where
  "install_cmd bname opts p usr = script_at 8
     [''tar xfj '' @ bname @ ''.tar.bz2'',
      ''ln -s '' @ bname @ '' xpand-object'',
      ''cd xpand-object'',
      ''./xpdnode_install.py --force '' @ opts @ '' --mysql-port='' @ p @ '' --cluster-addr=%s --management-user='' @ usr
        @ '' --skip-gui -y'']"

definition db_field :: "'w xpand_env \<Rightarrow> xpand \<Rightarrow> string \<Rightarrow> string" where
  "db_field X b k = (case dget_default (xc_db (xp_config b)) k VNone of VStr s \<Rightarrow> s | v \<Rightarrow> show_value X v)"

fun format_all :: "(string \<Rightarrow> string \<Rightarrow> exn + string) \<Rightarrow> string \<Rightarrow> string list \<Rightarrow> exn + string list" where
  "format_all f c [] = Inr []"
| "format_all f c (ip # ips) =
     (case f c ip of Inl e \<Rightarrow> Inl e | Inr x \<Rightarrow>
        (case format_all f c ips of Inl e \<Rightarrow> Inl e | Inr xs \<Rightarrow> Inr (x # xs)))"

definition user_statements :: "string \<Rightarrow> string \<Rightarrow> string \<Rightarrow> string" where
  "user_statements d u p = script_at 8
     [''create database if not exists '' @ d @ '';'',
      lit ''create user if not exists `'' @ u @ lit ''`@`%` identified by `'' @ p @ lit ''`;'',
      lit ''grant all privileges on *.* to `'' @ u @ lit ''`@`%` with grant option;'',
      ''flush privileges;'']"

text \<open>Licence, forming of the cluster, variables and test.\<close>

definition form_cluster :: "'w xpand_env \<Rightarrow> xpand \<Rightarrow> node \<Rightarrow> ('w, exn, unit) io" where
  "form_cluster X b h =
     io_catch [MySqlClientException] XpandException
      (io_seq (xconnect X b)
      (io_seq (xexecute X (lit ''set global license=`'' @ license (xp_config b) @ lit ''`''))
      (io_seq (if length (nodes (xp_multi b)) > 1 then
           io_bind (io_lift (all_private_ips (nodes (xp_multi b)))) (\<lambda>ips.
           io_bind (io_lift (private_iface h)) (\<lambda>head_ip.
             xexecute X (''ALTER CLUSTER ADD '' @ join '','' (map (\<lambda>ip. lit ''`'' @ ip @ lit ''`'') (filter (\<lambda>ip. ip \<noteq> head_ip) ips)))))
         else io_return ())
      (io_seq (xpand_set_globals X b) (xpand_self_test X b)))))"

definition set_passwordless_ssh :: "'w xpand_env \<Rightarrow> xpand \<Rightarrow> string \<Rightarrow> ('w, exn, unit) io" where
  "set_passwordless_ssh X b usr =
     io_seq (on_all X b (script_at 8
       [lit ''sed -i ~s/'' @ [CHR 0x5C] @ lit ''PasswordAuthentication no/PasswordAuthentication yes/g~ /etc/ssh/sshd_config'', ''systemctl restart sshd'']))
    (io_bind (io_gets (random_letters X)) (\<lambda>passwd.
     io_seq (on_all X b (lit ''echo ~'' @ passwd @ lit ''~ | sudo passwd '' @ usr @ '' --stdin''))
    (io_seq (io_bind (run_on_all_nodes (xnodes X) (\<lambda>c (a :: unit). Inr c) (xp_multi b)
         (CmdStr (''sudo -i -u '' @ usr @ lit ''  -S $SHELL -c `if [[ ! -f '' @ [CHR 0x7E] @ lit ''/.ssh/id_rsa ]] ; then echo ~Y~ | ssh-keygen -t rsa -f ''
            @ [CHR 0x7E] @ lit ''/.ssh/id_rsa -P ~~ ; fi`'')) 300 False None True) (\<lambda>_. io_return ()))
      (io_for (nodes (xp_multi b)) (\<lambda>n. io_for (nodes (xp_multi b)) (\<lambda>m.
         io_bind (io_lift (case network (vm m) of None \<Rightarrow> Inl PyAttributeError | Some v \<Rightarrow> Inr (get_client_iface v))) (\<lambda>ip.
         io_bind (node_run (xnodes X) n (CmdStr (''sshpass -p '' @ passwd @ lit '' ssh-copy-id -o ~StrictHostKeyChecking=no~ ''
           @ usr @ ''@'' @ ip)) 300 True True (Some usr)) (\<lambda>_. io_return ()))))))))"

definition xpand_install :: "'w xpand_env \<Rightarrow> xpand \<Rightarrow> ('w, exn, backend_target) io" where
  "xpand_install X b =
     (let c = xp_config b in
      io_bind (io_lift (head_node (nodes (xp_multi b)))) (\<lambda>h.
      io_bind (all_install_options X b h) (\<lambda>opts.
      io_bind (build_name X c) (\<lambda>bname.
      io_bind (download_build X c (bname @ ''.tar.bz2'')) (\<lambda>local_copy.
      io_seq (scp_to_all_nodes (xnodes X) (xp_multi b) local_copy (''./'' @ rev (takeWhile (\<lambda>ch. ch \<noteq> CHR ''/'') (rev local_copy))) False)
     (io_bind (io_lift (all_private_ips (nodes (xp_multi b)))) (\<lambda>ips.
      io_bind (io_lift (format_all (percent X) (install_cmd bname opts (db_field X b ''port'') (ssh_user (vm h))) ips)) (\<lambda>host_args.
      io_seq (io_bind (run_on_all_nodes (xnodes X) (\<lambda>cmd arg. Inr arg) (xp_multi b) (CmdStr ''%(cmd)s'') 600 True (Some host_args) False)
                (\<lambda>_. io_return ()))
     (io_seq (sql_on_one X b (user_statements (db_field X b ''database'') (db_field X b ''user'') (db_field X b ''password'')))
     (io_seq (form_cluster X b h)
     (io_seq (stop_statd X b)
     (io_seq (start_prometheus_exporter X b)
     (io_seq (case hugetlb c of None \<Rightarrow> io_return () | Some e \<Rightarrow> configure_hugetlb X b e)
     (io_seq (case max_redo c of None \<Rightarrow> io_return () | Some r \<Rightarrow> configure_max_redo X b r)
     (io_seq (case multi_page_alloc c of None \<Rightarrow> io_return () | Some p \<Rightarrow> configure_multi_page_alloc X b p)
     (io_seq (case clxnode_additional_args c of None \<Rightarrow> io_return () | Some s \<Rightarrow> configure_clnode_additional_args X b s)
     (io_seq (xpand_restart X b)
     (io_seq (xsleep X XPAND_GTM_TIMEOUT)
     (io_seq (xconnect X b)
     (io_seq (set_zones X b)
     (io_seq (xconnect X b)
     (io_seq (mysql_print_db_version (xclient X))
     (io_seq (set_passwordless_ssh X b ''xpand'')
     (io_bind (io_lift (all_client_ips (nodes (xp_multi b)))) (\<lambda>cips.
        io_return (bc_db (with_address (join '','' cips) Dialect_mysql Product_xpand
          \<lparr>bc_db = xc_db c, data_dir = VNone, bc_attrs = []\<rparr>)))))))))))))))))))))))))))"

section \<open>Removal\<close>

definition kill_backend_procs :: "'w xpand_env \<Rightarrow> xpand \<Rightarrow> ('w, exn, unit) io" where
  "kill_backend_procs X b =
     io_for (nodes (xp_multi b)) (\<lambda>n.
       io_bind (node_run (xnodes X) n (CmdStr (''lsof -w -Fp '' @ xc_data_dir (xp_config b))) 300 True False None) (\<lambda>pids.
       io_bind (node_run (xnodes X) n (CmdStr (kill_command pids)) 300 True False None)
         (\<lambda>_. io_return ())))"

definition xpand_clean :: "'w xpand_env \<Rightarrow> xpand \<Rightarrow> ('w, exn, unit) io" where
  "xpand_clean X b =
     io_seq (xpand_stop X b)
    (io_seq (kill_backend_procs X b)
            (on_all X b (script_at 8
       [''rm -rf /data/clustrix/*'', ''umount --force /data/clustrix'', ''rm -rf /opt/clustrix'', ''rm -rf /etc/clustrix'',
        ''rm -rf /etc/xpand'', ''rm -f xpand-object'',
        ''rpm -ev --nodeps $(rpm -qa | grep xpand) || true'',
        ''rpm -ev --nodeps $(rpm -qa | grep xpand-utils) || true'',
        ''rpm -ev --nodeps $(rpm -qa | grep xpand-common) || true'',
        ''rm -f /dev/shm/*'', ''echo 0 | sudo tee /proc/sys/vm/nr_hugepages''])))"

section \<open>Work around the workload\<close>

definition post_load_statements :: string where
  "post_load_statements = script_at 8
     [''set GLOBAL rebalancer_optional_tasks_enabled = True;'',
      lit ''CALL system.task_run(`rebalancer_gather`);'', lit ''CALL system.task_run(`rebalancer_redistribute`);'',
      ''CALL system.rebalancer_flush();'', [],
      lit ''CALL system.task_run(`rebalancer_gather`);'', lit ''CALL system.task_run(`rebalancer_split`);'',
      ''CALL system.rebalancer_flush();'', [],
      lit ''CALL system.task_run(`rebalancer_gather`);'', lit ''CALL system.task_run(`rebalancer_rebalance`);'',
      ''CALL system.rebalancer_flush();'', [],
      lit ''CALL system.task_run(`rebalancer_gather`);'', lit ''CALL system.task_run(`rebalancer_rebalance_distribution`);'',
      ''CALL system.rebalancer_flush();'', [],
      lit ''CALL system.task_run(`rebalancer_gather`);'', lit ''CALL system.task_run(`rebalancer_rerank`);'',
      ''CALL system.rebalancer_flush();'', [],
      lit ''CALL system.task_run(`rebalancer_gather`);'', lit ''CALL system.task_run(`rebalancer_rerank_distribution`);'',
      ''CALL system.rebalancer_flush();'']"

definition rebalancer_query :: string where
  "rebalancer_query = ''select * from system.rebalancer_activity_log WHERE finished IS NULL''"

definition post_data_load :: "nat \<Rightarrow> 'w xpand_env \<Rightarrow> xpand \<Rightarrow> 'w \<Rightarrow> ((exn + unit) \<times> 'w) option" where
  "post_data_load fuel X b =
     around_wait (io_seq (xconnect X b) (sql_on_one X b post_load_statements)) fuel X rebalancer_query
       (sql_on_one X b (script_at 8 [''set GLOBAL rebalancer_optional_tasks_enabled = False;'']))"

definition do_layer_merging :: "nat \<Rightarrow> 'w xpand_env \<Rightarrow> xpand \<Rightarrow> 'w \<Rightarrow> ((exn + unit) \<times> 'w) option" where
  "do_layer_merging fuel X b =
     around_wait (io_seq (xconnect X b) (sql_on_one X b (script_at 8
         [''set global layer_short_age_secs=60;'', ''set global layer_max_merge_per_device=10;'',
          ''set global layer_max_merge_scheduled_per_device=10;'', ''set global layer_max_top_layer_size_bytes=67108864;'',
          ''set global layer_copy_speed_bytes=10485760;'', ''set global layer_copy_speed_rows=2000000;'',
          ''set global layer_short_read=200;'']))) fuel X
       (''select * from system.layer_merges where finished is null and state !='' @ lit '' `Cancelled`'')
       (sql_on_one X b (script_at 8
         [''set global layer_short_age_secs=default;'', ''set global layer_max_merge_per_device=default;'',
          ''set global layer_max_merge_scheduled_per_device=default;'', ''set global layer_merge_always_full=default;'',
          ''set global layer_max_top_layer_size_bytes=default;'', ''set global layer_copy_speed_bytes=default;'',
          ''set global layer_copy_speed_rows=default;'', ''set global layer_short_read=default;'']))"

text \<open>
  The address of a backup: on an ftp server or in a bucket. (The values of the cloud's configuration
  are printed.)
\<close>

definition in_ftp :: "'w xpand_env \<Rightarrow> pyval \<Rightarrow> string \<Rightarrow> exn + string" where
  "in_ftp X cloud_args k = (case subscript cloud_args ''ftp_server'' of Inl e \<Rightarrow> Inl e | Inr f \<Rightarrow>
     (case subscript f k of Inl e \<Rightarrow> Inl e | Inr v \<Rightarrow> Inr (case v of VStr s \<Rightarrow> s | _ \<Rightarrow> show_value X v)))"

definition in_cloud :: "'w xpand_env \<Rightarrow> pyval \<Rightarrow> string \<Rightarrow> exn + string" where
  "in_cloud X cloud_args k = (case subscript cloud_args k of Inl e \<Rightarrow> Inl e | Inr v \<Rightarrow>
     Inr (case v of VStr s \<Rightarrow> s | _ \<Rightarrow> show_value X v))"

definition backup_address :: "'w xpand_env \<Rightarrow> pyval \<Rightarrow> string \<Rightarrow> string \<Rightarrow> exn + string" where
  "backup_address X cloud_args dest target =
     (if target = ''ftp'' then
        (case in_ftp X cloud_args ''hostname'' of Inl e \<Rightarrow> Inl e | Inr server_ip \<Rightarrow>
        (case in_ftp X cloud_args ''username'' of Inl e \<Rightarrow> Inl e | Inr user \<Rightarrow>
        (case in_ftp X cloud_args ''password'' of Inl e \<Rightarrow> Inl e | Inr passwd \<Rightarrow>
        (case in_ftp X cloud_args ''root_folder'' of Inl e \<Rightarrow> Inl e | Inr root_folder \<Rightarrow>
           Inr (''ftp://'' @ user @ '':'' @ passwd @ ''@'' @ server_ip @ ''/'' @ root_folder @ ''/'' @ dest)))))
      else if target = ''s3'' then
        (case (case subscript cloud_args ''s3'' of Inl e \<Rightarrow> Inl e | Inr s \<Rightarrow> in_cloud X s ''bucket'') of Inl e \<Rightarrow> Inl e | Inr bucket \<Rightarrow>
        (case in_cloud X cloud_args ''aws_access_key_id'' of Inl e \<Rightarrow> Inl e | Inr key_id \<Rightarrow>
        (case in_cloud X cloud_args ''aws_secret_access_key'' of Inl e \<Rightarrow> Inl e | Inr secret_key \<Rightarrow>
        (case in_cloud X cloud_args ''aws_region'' of Inl e \<Rightarrow> Inl e | Inr region \<Rightarrow>
           Inr (''s3://'' @ bucket @ ''/'' @ dest @ ''?access_key_id='' @ key_id @ ''&secret_access_key='' @ secret_key
             @ ''&region='' @ region)))))
      else Inl XpandException)"

definition long_sql :: "'w xpand_env \<Rightarrow> xpand \<Rightarrow> string \<Rightarrow> ('w, exn, unit) io" where
  "long_sql X b stmts = io_bind (run_on_one_node (xnodes X) (xp_multi b) (CmdStr (mysql_cli stmts)) XPAND_LONG_COMMAND_TIMEOUT True)
     (\<lambda>_. io_return ())"

definition head_nproc :: "'w xpand_env \<Rightarrow> xpand \<Rightarrow> ('w, exn, int) io" where
  "head_nproc X b = io_bind (io_lift (head_node (nodes (xp_multi b)))) (nproc (xnodes X))"

definition xpand_backup :: "'w xpand_env \<Rightarrow> xpand \<Rightarrow> string \<Rightarrow> string \<Rightarrow> pyval \<Rightarrow> string \<Rightarrow> ('w, exn, unit) io" where
  "xpand_backup X b database dest cloud_args target =
     io_bind (head_nproc X b) (\<lambda>np.
     io_seq (sql_on_one X b (''set global backup_backup_concurrency = '' @ str_int np))
    (io_bind (io_lift (backup_address X cloud_args dest target)) (\<lambda>url.
       long_sql X b (''backup '' @ database @ lit '' to `'' @ url @ lit ''`''))))"

text \<open>The database is dropped first; the statement is on a line of its own for the ftp server.\<close>

definition xpand_restore :: "'w xpand_env \<Rightarrow> xpand \<Rightarrow> string \<Rightarrow> string \<Rightarrow> pyval \<Rightarrow> string \<Rightarrow> ('w, exn, unit) io" where
  "xpand_restore X b database src cloud_args target =
     io_seq (sql_on_one X b (''drop database if exists '' @ database @ '';''))
    (io_bind (head_nproc X b) (\<lambda>np.
     io_seq (sql_on_one X b (''set global backup_restore_concurrency = '' @ str_int np))
    (io_bind (io_lift (backup_address X cloud_args src target)) (\<lambda>url.
       long_sql X b ((if target = ''ftp'' then [newline] @ replicate 12 (CHR '' '') else [])
         @ ''restore '' @ database @ lit '' from `'' @ url @ lit ''`'')))))"

definition get_logs :: "'w xpand_env \<Rightarrow> xpand \<Rightarrow> ('w, exn, string) io" where
  "get_logs X b = run_on_one_node (xnodes X) (xp_multi b)
     (CmdStr (XPAND_BIN @ ''/clx -i '' @ [CHR 0x7E] @ ''/.ssh/xbench.pem -s 24 logdump query'')) 300 False"

definition flush_qpc :: "'w xpand_env \<Rightarrow> xpand \<Rightarrow> ('w, exn, unit) io" where
  "flush_qpc X b = on_all X b (lit ''mysql system -e ~call qpc_flush()~ '')"

text \<open>\<open>pre_workload_run\<close>: the base class has nothing to do.\<close>

definition xpand_pre_workload_run :: "'w xpand_env \<Rightarrow> xpand \<Rightarrow> ('w, exn, unit) io" where
  "xpand_pre_workload_run X b = flush_qpc X b"

text \<open>The longest running statements and their plans are saved after the run.\<close>

definition qpc_query :: "string \<Rightarrow> string" where
  "qpc_query database = join [newline]
     ([[], ''        SELECT'', ''            statement,'',
       lit ''            left(replace(replace(replace(statement,`'',
       lit ''`,` `), `   `, ` `), `  `, ` `), '' @ str_int STATEMENT_CUTOFF @ '') as stmnt,'']
      @ map (\<lambda>l. replicate 12 (CHR '' '') @ l)
       [''sum(exec_count) as s_exec_count,'', ''avg(avg_latency_ms) as avg_lat_ms,'',
        ''sum(cpu_runtime_ns)/1000/1000 as s_cpu_runtime_ms,'', ''sum(cpu_waittime_ns)/1000/1000 as s_cpu_waittime_ms,'',
        ''sum(fc_waittime_ns)/1000/1000 as s_fc_waittime_ms,'', ''sum(bm_waittime_ns)/1000/1000 as s_bm_waittime_ms,'',
        ''sum(lockman_waittime_ms) as s_lockman_waittime_ms,'', ''sum(trxstate_waittime_ms) as s_trxstate_waittime_ms,'',
        ''sum(bm_perm_waittime_ms) as s_bm_perm_waittime_ms,'', ''sum(wal_perm_waittime_ms) as s_wal_perm_waittime_ms,'',
        ''sum(forwards) as s_fowards,'', ''sum(broadcasts) as s_broadcasts,'',
        ''sum(fragment_executions) as s_fragment_executions,'', ''sum(barrier_forwards) as s_barrier_forwards'']
      @ [''        FROM'', ''            system.qpc_queries'', ''        WHERE'', ''            flushed = 0'',
       lit ''            AND database = `'' @ database @ lit ''`'', ''        GROUP BY'', ''            stmnt'',
       ''        ORDER BY'', ''            avg_lat_ms desc LIMIT '' @ str_int QPC_LIMIT @ '';'', ''        ''])"

definition tab :: char where "tab = CHR 0x09"

definition qpc_header :: "pydict \<Rightarrow> string" where
  "qpc_header r = concat (map (\<lambda>k. k @ [tab]) (filter (\<lambda>k. k \<noteq> ''statement'') (dkeys r))) @ [newline]"

text \<open>The first value of a row, the statement, is left out of the table.\<close>

definition qpc_line :: "'w xpand_env \<Rightarrow> pydict \<Rightarrow> string" where
  "qpc_line X r = concat (map (\<lambda>v. show_value X v @ [tab]) (tl (dvalues r))) @ [newline]"

definition explain_text :: "string \<Rightarrow> string \<Rightarrow> string" where
  "explain_text statement explain =
     ''--------------'' @ [newline] @ ''statement = '' @ statement @ [newline] @ ''--------------'' @ [newline]
     @ explain @ [newline, newline, newline]"

definition explain_rows :: "'w xpand_env \<Rightarrow> string \<Rightarrow> ('w, exn, pydict list) io" where
  "explain_rows X statement =
     io_try (mysql_select_all_rows (xclient X) (''EXPLAIN '' @ statement))
       (\<lambda>e. isinstance_exn e MySqlClientException) (\<lambda>_. io_return [])"

definition qpc_row :: "'w xpand_env \<Rightarrow> pydict \<Rightarrow> ('w, exn, string \<times> string) io" where
  "qpc_row X r =
     (case dget r ''statement'' of
        None \<Rightarrow> io_raise PyKeyError
      | Some (VStr s) \<Rightarrow>
          io_bind (explain_rows X (squeeze s)) (\<lambda>rows.
            io_return (qpc_line X (dset r ''statement'' (VStr (squeeze s))), explain_text (squeeze s) (tabulate_rows X rows)))
      | Some _ \<Rightarrow> io_raise PyAttributeError)"

definition qpc_queries :: "'w xpand_env \<Rightarrow> xpand \<Rightarrow> string option \<Rightarrow> ('w, exn, unit) io" where
  "qpc_queries X b output_dir =
     io_seq (xconnect X b)
    (io_bind (mysql_select_all_rows (xclient X) (qpc_query (db_field X b ''database''))) (\<lambda>rows.
     io_bind (io_map rows (qpc_row X)) (\<lambda>texts.
       (let qpc_output = (case rows of [] \<Rightarrow> [] | r # _ \<Rightarrow> qpc_header r @ concat (map fst texts));
            explains_output = concat (map snd texts) in
        case output_dir of
          None \<Rightarrow> io_raise PyTypeError
        | Some d \<Rightarrow>
            io_seq (io_modify (put_cached X (path_join d ''qpc_queries.txt'') qpc_output))
              (io_modify (put_cached X (path_join d ''explain_queries.txt'') explains_output))))))"

definition xpand_post_workload_run :: "'w xpand_env \<Rightarrow> xpand \<Rightarrow> string option \<Rightarrow> ('w, exn, unit) io" where
  "xpand_post_workload_run X b output_dir = qpc_queries X b output_dir"

section \<open>Lemmas\<close>

interpretation xpand_test_delays: retry_delays "jitter_delays draw 5 15 15" for draw
  by (rule jitter_delays_ok) simp_all

text \<open>The two downloads and the self test raise one class of exceptions only.\<close>

interpretation last_build_runner: raises_class "\<lambda>(X, c). get_last_build_file_name X c" XpandException
  by unfold_locales (auto simp: get_last_build_file_name_def build_policy_def dest: sql_delays.raises_only)

interpretation download_runner: raises_class "\<lambda>(X, c, f). download_build X c f" XpandException
  by unfold_locales (auto simp: download_build_def build_policy_def dest: sql_delays.raises_only)

interpretation xpand_tester: raises_class "\<lambda>(X, b). xpand_self_test X b" XpandException
  by unfold_locales (auto simp: xpand_self_test_def self_test_policy_def dest: xpand_test_delays.raises_only)

definition zones_ok :: "nat \<Rightarrow> (string, nat) dict \<Rightarrow> bool" where
  "zones_ok k zs \<longleftrightarrow> dict_ok zs \<and> snd ` set zs = {1..<k} \<and> inj_on snd (set zs) \<and> 1 \<le> k"

lemma zones_ok_new:
  assumes "zones_ok k zs" and "s \<notin> fst ` set zs"
  shows "zones_ok (Suc k) (dset zs s k)"
proof -
  have new: "dset zs s k = zs @ [(s, k)]" by (rule dset_new [OF assms(2)])
  have d: "dict_ok (dset zs s k)" using assms(1) by (simp add: zones_ok_def)
  have r: "snd ` set zs = {1..<k}" and i: "inj_on snd (set zs)" and k: "1 \<le> k"
    using assms(1) by (simp_all only: zones_ok_def)
  have "snd ` set (zs @ [(s, k)]) = insert k (snd ` set zs)" by simp
  also have "\<dots> = insert k {1..<k}" by (simp only: r)
  also have "\<dots> = {1..<Suc k}" using k by auto
  finally have r': "snd ` set (zs @ [(s, k)]) = {1..<Suc k}" .
  have "k \<notin> snd ` set zs" unfolding r by simp
  then have "inj_on snd (set (zs @ [(s, k)]))" using i by (auto simp: inj_on_def)
  then show ?thesis using d r' k unfolding zones_ok_def new by simp
qed

lemma zone_table_inv: "zones_ok k zs \<Longrightarrow> \<exists>k'. zones_ok k' (zone_table ns zs k)"
proof (induction ns zs k rule: zone_table.induct)
  case (2 n ns zs k)
  then show ?case
    by (cases "dget zs (zone_unique_str n)") (simp_all add: zones_ok_new dget_None_iff)
qed auto

lemma zone_table_keys: "fst ` set (zone_table ns zs k) = fst ` set zs \<union> zone_unique_str ` set ns"
proof (induction ns zs k rule: zone_table.induct)
  case (2 n ns zs k)
  show ?case
  proof (cases "dget zs (zone_unique_str n)")
    case None
    then show ?thesis using 2(1) by simp
  next
    case (Some z)
    then have "zone_unique_str n \<in> fst ` set zs" using dget_None_iff by (metis option.distinct(1))
    then show ?thesis using 2(2) Some by auto
  qed
qed auto

lemma length_dict:
  assumes "zones_ok k zs"
  shows "length zs = k - 1"
proof -
  have i: "inj_on snd (set zs)" and r: "snd ` set zs = {1..<k}" using assms by (simp_all only: zones_ok_def)
  have "distinct zs" using assms by (simp add: zones_ok_def dict_ok_def distinct_map)
  then have "length zs = card (set zs)" by (simp add: distinct_card)
  also have "\<dots> = card (snd ` set zs)" using i by (simp add: card_image)
  finally show ?thesis by (simp add: r)
qed

section \<open>Properties\<close>

text \<open>
  C25. The zones of a cluster: every node has a zone, numbered from one to the number of zones, and two nodes
  share a zone exactly when their environment and zone names, written one after the other, are the
  same text. (So zone \<open>1a\<close> of environment \<open>e\<close> and zone \<open>a\<close> of \<open>e1\<close> are taken for one.)
\<close>

theorem xpand_zones_spec:
  assumes "n \<in> set ns" and "m \<in> set ns"
  shows "(case dget (xpand_zones ns) (zone_unique_str n) of None \<Rightarrow> False | Some z \<Rightarrow> 1 \<le> z \<and> z \<le> length (xpand_zones ns))
    \<and> (dget (xpand_zones ns) (zone_unique_str n) = dget (xpand_zones ns) (zone_unique_str m)
        \<longleftrightarrow> env (vm n) @ zone (vm n) = env (vm m) @ zone (vm m))
    \<and> length (xpand_zones ns) = card (zone_unique_str ` set ns)"
proof -
  let ?z = "xpand_zones ns"
  obtain k where k: "zones_ok k ?z"
    using zone_table_inv [of 1 "[]" ns] by (auto simp: xpand_zones_def zones_ok_def)
  then have z: "dict_ok ?z" "snd ` set ?z = {1..<k}" "inj_on snd (set ?z)" by (simp_all only: zones_ok_def)
  have f: "fst ` set ?z = zone_unique_str ` set ns" using zone_table_keys [of ns "[]" 1] by (simp add: xpand_zones_def)
  have len: "length ?z = k - 1" by (rule length_dict [OF k])
  have some: "\<exists>v. dget ?z (zone_unique_str a) = Some v \<and> (zone_unique_str a, v) \<in> set ?z" if "a \<in> set ns" for a
  proof -
    from that have "dget ?z (zone_unique_str a) \<noteq> None" using f by (auto simp: dget_None_iff)
    then show ?thesis using dget_ok_mem [OF z(1)] by auto
  qed
  obtain v where v: "dget ?z (zone_unique_str n) = Some v" "(zone_unique_str n, v) \<in> set ?z" using some [OF assms(1)] by blast
  obtain u where u: "dget ?z (zone_unique_str m) = Some u" "(zone_unique_str m, u) \<in> set ?z" using some [OF assms(2)] by blast
  have "v \<in> {1..<k}" using v(2) z(2) by force
  moreover have "v = u \<longleftrightarrow> zone_unique_str n = zone_unique_str m"
  proof
    assume "v = u"
    then have "snd (zone_unique_str n, v) = snd (zone_unique_str m, u)" by simp
    from inj_onD [OF z(3) this v(2) u(2)] show "zone_unique_str n = zone_unique_str m" by (rule Pair_inject)
  next
    assume "zone_unique_str n = zone_unique_str m"
    with v(1) u(1) show "v = u" by simp
  qed
  moreover have "length ?z = card (zone_unique_str ` set ns)"
    using z(1) f by (metis dict_ok_def distinct_card length_map set_map)
  moreover have "1 \<le> v \<and> v \<le> length ?z" using \<open>v \<in> {1..<k}\<close> len by auto
  ultimately show ?thesis using v(1) u(1) by (simp only: zone_unique_str_def option.case option.inject simp_thms)
qed

definition demo_zone_node :: "string \<Rightarrow> string \<Rightarrow> node" where
  "demo_zone_node e z = demo_node\<lparr>vm := demo_vm\<lparr>env := e, zone := z\<rparr>\<rparr>"

theorem xpand_zones_spec_witness:
  "dget (xpand_zones [demo_zone_node ''e'' ''1a'', demo_zone_node ''e1'' ''a'']) ''e1a''
     = dget (xpand_zones [demo_zone_node ''e'' ''1a'', demo_zone_node ''e1'' ''a'']) ''e1a''
   \<and> length (xpand_zones [demo_zone_node ''e'' ''1a'', demo_zone_node ''e1'' ''a'']) = 1"
  using xpand_zones_spec [of "demo_zone_node ''e'' ''1a''"
      "[demo_zone_node ''e'' ''1a'', demo_zone_node ''e1'' ''a'']" "demo_zone_node ''e1'' ''a''"]
  by (simp add: zone_unique_str_def demo_zone_node_def)

text \<open>
  The memory given to the database: the memory and the redo log together are the greatest even number of
  megabytes that is at most the configured part of the machine's memory, and the redo log is at
  most a tenth of it; with a larger redo log the installation is refused.
\<close>

theorem clxnode_mem_bounds:
  assumes "0 \<le> total_mem"
  shows "case clxnode_mem total_mem pct redo of
      Inl e \<Rightarrow> e = XpandException \<and> (case redo of None \<Rightarrow> False | Some r \<Rightarrow> total_mem < 10 * r)
    | Inr m \<Rightarrow> (let r = (case redo of None \<Rightarrow> 0 | Some r \<Rightarrow> r) in
        even (m + r) \<and> of_int (m + r) \<le> of_int total_mem * pct \<and> of_int total_mem * pct < of_int (m + r) + 2
        \<and> 10 * r \<le> total_mem)"
proof -
  have t: "py_trunc (of_int (total_mem * MAX_REDO_LIMIT_PCT) / 100) = total_mem div 10"
  proof -
    have "of_int (total_mem * MAX_REDO_LIMIT_PCT) / 100 = (of_int total_mem / of_int 10 :: rat)"
      by (simp add: MAX_REDO_LIMIT_PCT_def)
    also have "floor \<dots> = total_mem div 10" by (rule floor_divide_of_int_eq)
    finally show ?thesis using assms by (simp add: py_trunc_def MAX_REDO_LIMIT_PCT_def)
  qed
  have t': "py_trunc (of_int total_mem * of_int MAX_REDO_LIMIT_PCT / 100) = total_mem div 10" using t by simp
  have d: "total_mem div 10 < r \<longleftrightarrow> total_mem < 10 * r" for r by linarith
  show ?thesis
    using round_down_to_even_spec [of "of_int total_mem * pct"] assms
    by (auto simp: clxnode_mem_def Let_def t' d split: option.split)
qed

theorem clxnode_mem_bounds_witness:
  "clxnode_mem 1000 (1 / 2) (Some 100) = Inr 400 \<and> clxnode_mem 1000 (1 / 2) (Some 101) = Inl XpandException
   \<and> even (400 + 100 :: int)"
proof -
  have 1: "clxnode_mem 1000 (1 / 2) (Some 100) = Inr 400" "clxnode_mem 1000 (1 / 2) (Some 101) = Inl XpandException"
    by (simp_all add: clxnode_mem_def round_down_to_even_def py_trunc_def MAX_REDO_LIMIT_PCT_def)
  have "(0 :: int) \<le> 1000" by simp
  from clxnode_mem_bounds [OF this, where pct = "1 / 2" and redo = "Some 100"] show ?thesis
    unfolding 1 by (simp add: 1)
qed

text \<open>
  A download that breaks off leaves a part of the build behind: when the connection is lost in the
  middle of the first attempt, the second attempt finds the file in the cache, and \<open>download_build\<close>
  returns it, truncated as it is, as the build.
\<close>

theorem download_broken_build:
  assumes "cached X w (''/tmp/'' @ f) = None"
    and "http_get X (CLXNODE @ ''/'' @ branch c @ ''/'' @ f) w
      = (Inr \<lparr>http_status = 200, http_chunks = cs, http_break = Some RequestsConnectionError\<rparr>, w1)"
    and "whole_seconds (now (sql_clock (xclient X)) (put_cached X (''/tmp/'' @ f) (concat cs) w1)
      - now (sql_clock (xclient X)) w) \<le> 300"
    and "\<forall>d. cached X (sleep (sql_clock (xclient X)) d (put_cached X (''/tmp/'' @ f) (concat cs) w1)) (''/tmp/'' @ f)
      = Some (concat cs)"
  shows "case download_build X c f w of (r, w') \<Rightarrow>
    r = Inr (''/tmp/'' @ f) \<and> cached X w' (''/tmp/'' @ f) = Some (concat cs)"
proof -
  let ?ds = "jitter_delays (sql_draw (xclient X)) 3 10 10"
  have "length ?ds = 10" by (simp add: length_jitter_delays)
  then obtain d d' rest where ds: "?ds = d # d' # rest"
    by (cases ?ds; cases "tl ?ds") auto
  let ?w2 = "put_cached X (''/tmp/'' @ f) (concat cs) w1"
  have 1: "download_build_once X c f w = (Inl RequestsConnectionError, ?w2)"
    using assms(1,2) by (simp add: download_build_once_def XPAND_LOCAL_CACHE_DIR_def Let_def io_defs)
  have 2: "download_build_once X c f (sleep (sql_clock (xclient X)) d ?w2)
      = (Inr (''/tmp/'' @ f), sleep (sql_clock (xclient X)) d ?w2)"
    using assms(4) by (simp add: download_build_once_def XPAND_LOCAL_CACHE_DIR_def Let_def io_defs)
  have "download_build X c f w = (Inr (''/tmp/'' @ f), sleep (sql_clock (xclient X)) d ?w2)"
    unfolding download_build_def ds
    by (rule retry_second_success [OF 1 _ _ 2])
       (use assms(3) in \<open>simp_all add: build_policy_def isinstance_eval\<close>)
  then show ?thesis using assms(4) by simp
qed

text \<open>A world of file names for the witnesses, a download that breaks, a server with open activities.\<close>

definition demo_files_sql :: "string list sql_lib" where
  "demo_files_sql = \<lparr>
     lib_connect = (\<lambda>p w. (Inr (), w)), lib_execute = (\<lambda>q w. (Inr (), w)),
     lib_fetchone = (\<lambda>w. (Inr (Some (map (\<lambda>f. (f, VNone)) w)), w)), lib_fetchall = (\<lambda>w. (Inr [], w)),
     rownumber = (\<lambda>w. 1), rowcount = (\<lambda>w. 0), has_cursor = (\<lambda>w. True), set_cursor = (\<lambda>w. w),
     sql_clock = \<lparr>now = (\<lambda>w. 0), sleep = (\<lambda>d w. if d = 5 then take 2 (tl w) else w)\<rparr>, sql_draw = (\<lambda>i. 0)\<rparr>"

definition demo_xpand_env :: "string list xpand_env" where
  "demo_xpand_env = \<lparr>xnodes = demo_node_env, xclient = demo_files_sql, json_loads = (\<lambda>s. Inr VNone),
     parse_date = (\<lambda>v. Inr 0), wall_clock = (\<lambda>w. 0),
     http_get = (\<lambda>u w. (Inr \<lparr>http_status = 200, http_chunks = [''half''], http_break = Some RequestsConnectionError\<rparr>, w)),
     cached = (\<lambda>w f. if f \<in> set w then Some ''half'' else None), put_cached = (\<lambda>f c w. w @ [f]),
     random_letters = (\<lambda>w. []), percent = (\<lambda>s a. Inr s), show_value = (\<lambda>v. []), tabulate_rows = (\<lambda>r. []),
     sql_accepted = [], sql_roundrobin = hd\<rparr>"

definition demo_xpand_config :: xpand_config where
  "demo_xpand_config = \<lparr>xc_db = [], xc_data_dir = ''/data'', branch = ''main'', build = ''7'', release = None,
     license = [], globals = [], prometheus_port = 1, enable_prometheus_exporter = False, clxnode_mem_pct = None,
     space_allocation_pct = None, hugetlb = None, max_redo = None, multi_page_alloc = None, install_options = None,
     clxnode_additional_args = None\<rparr>"

lemma demo_xpand_simps [simp]:
  "xclient demo_xpand_env = demo_files_sql" "now (sql_clock demo_files_sql) w = 0"
  "sleep (sql_clock demo_files_sql) d w = (if d = 5 then take 2 (tl w) else w)"
  "cached demo_xpand_env w f = (if f \<in> set w then Some ''half'' else None)"
  "put_cached demo_xpand_env f c w = w @ [f]"
  by (simp_all add: demo_xpand_env_def demo_files_sql_def)

theorem download_broken_build_witness:
  "case download_build demo_xpand_env demo_xpand_config ''b'' [''x''] of
     (r, w') \<Rightarrow> r = Inr ''/tmp/b'' \<and> cached demo_xpand_env w' ''/tmp/b'' = Some ''half''"
  using download_broken_build [of demo_xpand_env "[''x'']" "''b''" demo_xpand_config "[''half'']" "[''x'']"]
  by (simp add: demo_xpand_env_def whole_seconds_def)

text \<open>
  Without a quorum the self test fails: when the nodes in the quorum are never as many as the nodes of
  the cluster, \<open>self_test\<close> raises \<open>XpandException\<close> whatever it does to reform the cluster.
\<close>

theorem xpand_self_test_needs_quorum:
  assumes "\<forall>w. case mysql_select_all_rows (xclient X) (lit ''SELECT nid, status FROM system.membership where status = `quorum`'') w of
      (Inl e, w') \<Rightarrow> e = MySqlClientException | (Inr rows, w') \<Rightarrow> length rows < length (nodes (xp_multi b))"
    and "\<forall>w. case mysql_execute (xclient X) ''alter cluster reform'' w of (r, w') \<Rightarrow> r = Inr 0 \<or> r = Inl MySqlClientException"
  shows "fst (xpand_self_test X b w) = Inl XpandException"
proof -
  have "\<exists>w'. check_quorum X b w = (Inl CheckQuorumException, w')" for w
    using assms(1) [rule_format, of w] assms(2) [rule_format]
    by (fastforce simp: check_quorum_def xexecute_def io_catch_def io_defs isinstance_eval
          split: prod.splits sum.splits)
  then have "\<exists>w'. xpand_self_test_once X b w = (Inl CheckQuorumException, w')" for w
    by (metis (no_types, lifting) xpand_self_test_once_def io_seq_def io_bind_def case_prod_conv old.sum.simps(5))
  from xpand_test_delays.retry_always_fails [OF this, where p = self_test_policy] show ?thesis
    by (simp add: xpand_self_test_def self_test_policy_def isinstance_eval)
qed

definition demo_xpand :: xpand where
  "demo_xpand = \<lparr>xp_config = demo_xpand_config, xp_multi = demo_unmanaged, conf_file = [], xp_params = []\<rparr>"

theorem xpand_self_test_needs_quorum_witness:
  "fst (xpand_self_test demo_xpand_env demo_xpand []) = Inl XpandException"
proof -
  have "mysql_select_all_rows demo_files_sql q w = (Inr [], w)" for q w
    unfolding mysql_select_all_rows_def
    by (rule sql_rows_delays.retry_success)
       (simp add: io_catch_def io_defs fetch_all_def with_cursor_def demo_files_sql_def)
  moreover have "mysql_execute demo_files_sql q w = (Inr 0, w)" for q w
    unfolding mysql_execute_def
    by (rule sql_execute_delays.retry_success)
       (simp add: io_catch_def io_defs execute_once_def with_cursor_def demo_files_sql_def)
  moreover have "0 < length (nodes demo_unmanaged)" by (simp add: demo_unmanaged_def)
  ultimately show ?thesis
    using xpand_self_test_needs_quorum [where X = demo_xpand_env and b = demo_xpand and w = "[]"] by (simp add: demo_xpand_def)
qed

lemma wait_until_no_data_ends:
  fixes D :: "'w \<Rightarrow> nat"
  assumes poll: "\<And>w r w'. mysql_select_one_row (xclient X) q w = (Inr (Some r), w') \<Longrightarrow>
      (D w = 0 \<longrightarrow> r = []) \<and> D w' \<le> D w"
    and step: "\<And>w. D (sleep (sql_clock (xclient X)) 5 w) \<le> D w - 1"
  shows "D w < n \<Longrightarrow> wait_until_no_data n X q w \<noteq> None"
proof (induction n arbitrary: w)
  case (Suc n)
  show ?case
  proof (cases "mysql_select_one_row (xclient X) q w")
    case (Pair r w')
    have "wait_until_no_data n X q (sleep (sql_clock (xclient X)) 5 w') \<noteq> None" if "r = Inr (Some a)" "a \<noteq> []" for a
    proof (rule Suc.IH)
      have "D w \<noteq> 0" "D w' \<le> D w" using poll [of w a w'] Pair that by auto
      with step [of w'] Suc.prems show "D (sleep (sql_clock (xclient X)) 5 w') < n" by linarith
    qed
    with Pair show ?thesis by (auto split: sum.splits option.splits)
  qed
qed simp

lemma around_wait_returns:
  assumes "\<And>w. wait_until_no_data n X q w \<noteq> None"
  shows "around_wait before n X q after w \<noteq> None"
proof (cases "before w")
  case (Pair r w')
  obtain s w'' where "wait_until_no_data n X q w' = Some (s, w'')" using assms [of w'] by auto
  with Pair show ?thesis by (cases r; cases s) (simp_all add: around_wait_def)
qed

text \<open>
  C26. Loading ends: when the rows of the activity log are the \<open>D w\<close> open activities and one of them at least
  is finished in every five seconds, \<open>post_data_load\<close> returns or raises within \<open>m + 1\<close> polls, for at
  most \<open>m\<close> activities.
\<close>

theorem post_data_load_ends:
  fixes D :: "'w \<Rightarrow> nat"
  assumes "\<forall>w. case mysql_select_one_row (xclient X) rebalancer_query w of
      (Inr (Some r), w') \<Rightarrow> (D w = 0 \<longrightarrow> r = []) \<and> D w' \<le> D w | _ \<Rightarrow> True"
    and "\<forall>w. D (sleep (sql_clock (xclient X)) 5 w) \<le> D w - 1" and "\<forall>w. D w \<le> m"
  shows "post_data_load (Suc m) X b w \<noteq> None"
proof -
  have "wait_until_no_data (Suc m) X rebalancer_query w' \<noteq> None" for w'
  proof (rule wait_until_no_data_ends [where D = D])
    show "D w' < Suc m" using assms(3) by (simp add: le_imp_less_Suc)
    show "D (sleep (sql_clock (xclient X)) 5 v) \<le> D v - 1" for v using assms(2) by blast
    fix v r v' assume "mysql_select_one_row (xclient X) rebalancer_query v = (Inr (Some r), v')"
    with assms(1) [rule_format, of v] show "(D v = 0 \<longrightarrow> r = []) \<and> D v' \<le> D v" by simp
  qed
  then show ?thesis unfolding post_data_load_def by (rule around_wait_returns)
qed

theorem post_data_load_ends_witness:
  "post_data_load (Suc 3) demo_xpand_env demo_xpand [''a'', ''b'', ''c''] \<noteq> None"
proof -
  have s: "mysql_select_one_row demo_files_sql q w = (Inr (Some (map (\<lambda>f. (f, VNone)) w)), w)" for q w
    unfolding mysql_select_one_row_def
    by (rule sql_delays.retry_success)
       (simp add: io_catch_def io_defs fetch_one_def with_cursor_def demo_files_sql_def)
  show ?thesis
    by (rule post_data_load_ends [where D = "\<lambda>w. min (length w) 3"]) (auto simp: s min_def)
qed

end
