(* ===== verification/XB_Workload.thy ===== *)
theory XB_Workload
  imports XB_Lifecycle
begin

text \<open>
  \<^verbatim>\<open>xbench/workload_running.py\<close> and \<^verbatim>\<open>lib/grafana.py\<close>: the workload command. A workload
  is configured from \<^verbatim>\<open>workload.yaml\<close>, run by a benchmark runner on the drivers of the cluster
  and recorded in an artifact directory; snapshots of the dashboards are made at the end.

  The files of the artifact directory are part of the world here. Parameters are the benchmark
  runners, the drivers, proxies and backends as the command uses them, the Grafana service, the
  clock and whether a file can be written.
\<close>

section \<open>The world of a run\<close>

record 'm site =
  artifacts :: "string \<rightharpoonup> string"
  hosts :: 'm

text \<open>The backend object: its class, the nodes it is given and the parameter \<open>bt\<close>.\<close>

datatype backend_nodes = AllBackends "node option list" | FirstBackend node

record backend =
  b_klass :: component_klass
  b_nodes :: backend_nodes
  b_bt :: pyval

text \<open>A runner is its class, the driver nodes and the keyword parameters.\<close>

record runner =
  rn_klass :: component_klass
  rn_nodes :: "node option list"
  rn_params :: pydict

record 'w workload_ops =
  runner_prepare :: "runner \<Rightarrow> ('w, exn, unit) io"
  runner_data_check :: "runner \<Rightarrow> ('w, exn, unit) io"
  runner_run :: "runner \<Rightarrow> ('w, exn, unit) io"
  runner_setup :: "runner \<Rightarrow> ('w, exn, unit) io"
  runner_scale_string :: "runner \<Rightarrow> ('w, exn, string) io"
  is_driver_klass :: "component_klass \<Rightarrow> bool"
  driver_test :: "component_klass \<Rightarrow> group_nodes \<Rightarrow> pyval \<Rightarrow> backend_target \<Rightarrow> ('w, exn, unit) io"
  driver_clean_database :: "component_klass \<Rightarrow> node \<Rightarrow> backend_target \<Rightarrow> ('w, exn, unit) io"
  proxy_test :: "component_klass \<Rightarrow> group_nodes \<Rightarrow> pyval \<Rightarrow> ('w, exn, unit) io"
  group_db_connect :: "component_klass \<Rightarrow> group_nodes \<Rightarrow> pyval \<Rightarrow> ('w, exn, unit) io"
  group_backend_test :: "component_klass \<Rightarrow> group_nodes \<Rightarrow> pyval \<Rightarrow> ('w, exn, unit) io"
  member_init :: "component_klass \<Rightarrow> group_nodes \<Rightarrow> pyval \<Rightarrow> ('w, exn, unit) io"
  backend_init :: "backend \<Rightarrow> ('w, exn, unit) io"
  backend_connect :: "backend \<Rightarrow> ('w, exn, unit) io"
  backend_print_db_size :: "backend \<Rightarrow> pyval \<Rightarrow> ('w, exn, unit) io"
  backend_backup :: "backend \<Rightarrow> pyval \<Rightarrow> string \<Rightarrow> pyval \<Rightarrow> string \<Rightarrow> ('w, exn, unit) io"
  backend_restore :: "backend \<Rightarrow> pyval \<Rightarrow> string \<Rightarrow> pyval \<Rightarrow> string \<Rightarrow> ('w, exn, unit) io"
  get_dashboard :: "pyval \<Rightarrow> string \<Rightarrow> ('w, exn, pyval) io"
  create_new_snapshot :: "pyval \<Rightarrow> pyval \<Rightarrow> string \<Rightarrow> ('w, exn, pyval) io"
  grafana_connect :: "pyval \<Rightarrow> pyval \<Rightarrow> ('w, exn, unit) io"

record 'm workload_env =
  xb :: "'m site xbench"
  ops :: "'m site xworld workload_ops"
  workload_yaml :: "exn + yaml_config"
  local_stamp :: "'m site xworld \<Rightarrow> string"
  utc_stamp :: "'m site xworld \<Rightarrow> string"
  iso_time :: "string \<Rightarrow> string"
  name_time :: "string \<Rightarrow> string"
  can_write :: "'m site xworld \<Rightarrow> string \<Rightarrow> bool"
  yaml_dump :: "pyval \<Rightarrow> string"

record workload_args =
  benchmark_name :: string
  workload_name :: string
  wl_artifact_dir :: string
  wl_extra :: pydict
  wl_tag :: "string option"

text \<open>The \<open>WorkloadRunning\<close> object.\<close>

record workload_running =
  wargs :: workload_args
  wcluster :: cluster
  workload_conf :: pydict
  all_backends :: "node option list"
  wbackend :: backend
  grafana_servers :: "(pyval \<times> pyval) list"

section \<open>Files of the artifact directory\<close>

definition write_file :: "'m workload_env \<Rightarrow> string \<Rightarrow> string \<Rightarrow> ('m site xworld, exn, unit) io" where
  "write_file E p s w =
     (if can_write E w p
      then (Inr (), w\<lparr>machines := (machines w)\<lparr>artifacts := (artifacts (machines w))(p \<mapsto> s)\<rparr>\<rparr>)
      else (Inl PyOSError, w))"

text \<open>\<open>mkdir\<close> makes a directory that is not there and leaves the files alone.\<close>

definition make_directory :: "'m workload_env \<Rightarrow> string \<Rightarrow> ('m site xworld, exn, unit) io" where
  "make_directory E p w = (if can_write E w p then (Inr (), w) else (Inl PyOSError, w))"

definition append_file :: "'m workload_env \<Rightarrow> string \<Rightarrow> string \<Rightarrow> ('m site xworld, exn, unit) io" where
  "append_file E p s w =
     write_file E p ((case artifacts (machines w) p of None \<Rightarrow> [] | Some t \<Rightarrow> t) @ s) w"

definition save_timestamp :: "'m workload_env \<Rightarrow> string \<Rightarrow> ('m site xworld, exn, string) io" where
  "save_timestamp E p = io_bind (io_gets (utc_stamp E)) (\<lambda>t. io_seq (write_file E p t) (io_return t))"

definition save_snapshot_urls :: "'m workload_env \<Rightarrow> string list \<Rightarrow> string \<Rightarrow> ('m site xworld, exn, unit) io" where
  "save_snapshot_urls E urls p = io_for urls (\<lambda>url. append_file E p (url @ [newline]))"

definition save_tag :: "'m workload_env \<Rightarrow> workload_args \<Rightarrow> string \<Rightarrow> ('m site xworld, exn, unit) io" where
  "save_tag E a p = write_file E p
     (case wl_tag a of Some (c # cs) \<Rightarrow> c # cs | _ \<Rightarrow> benchmark_name a @ ''_'' @ workload_name a)"

section \<open>Construction\<close>

text \<open>
  The configuration of the workload: the section of the benchmark has \<open>defaults\<close> and \<open>workloads\<close>;
  the parameters given on the command line under \<open>workload\<close> are put over it.
\<close>

definition load_workload_conf :: "exn + yaml_config \<Rightarrow> workload_args \<Rightarrow> exn + pydict" where
  "load_workload_conf wy a =
     (case wy of Inl e \<Rightarrow> Inl e | Inr y \<Rightarrow>
     (case get_key y (benchmark_name a) ''defaults'' False of Inl e \<Rightarrow> Inl e | Inr d \<Rightarrow>
     (case get_key (y\<lparr>defaults := d\<rparr>) (benchmark_name a) ''workloads'' True of Inl e \<Rightarrow> Inl e | Inr ws \<Rightarrow>
     (case as_pydict ws of Inl e \<Rightarrow> Inl e | Inr wd \<Rightarrow>
     (case get_key (y\<lparr>defaults := d, yaml_config_dict := wd\<rparr>) (workload_name a) [] True of
        Inl e \<Rightarrow> Inl e
      | Inr (VDict c) \<Rightarrow>
          (case dget_default (wl_extra a) ''workload'' (VDict []) of
             VDict x \<Rightarrow> Inr (dict_update c x) | _ \<Rightarrow> Inl PyTypeError)
      | Inr _ \<Rightarrow> Inl PyTypeError)))))"

definition bt_param :: "workload_args \<Rightarrow> pyval" where
  "bt_param a = dget_default (wl_extra a) ''bt'' (VDict [])"

text \<open>The metric server of an environment; a missing key means there is none.\<close>

definition grafana_of :: "'r xbench \<Rightarrow> environment \<Rightarrow> exn + (pyval \<times> pyval) option" where
  "grafana_of X e =
     (case (case load_cloud X (env_cloud e) of Inl x \<Rightarrow> Inl x | Inr cc \<Rightarrow>
           (case subscript cc (env_region e) of Inl x \<Rightarrow> Inl x | Inr rc \<Rightarrow>
           (case subscript rc ''metric_server'' of Inl x \<Rightarrow> Inl x | Inr h \<Rightarrow>
           (case subscript h ''sa_token'' of Inl x \<Rightarrow> Inl x | Inr t \<Rightarrow>
           (case subscript h ''hostname'' of Inl x \<Rightarrow> Inl x | Inr n \<Rightarrow> Inr (t, n)))))) of
        Inr g \<Rightarrow> Inr (Some g)
      | Inl x \<Rightarrow> if isinstance_exn x PyKeyError then Inr None else Inl x)"

text \<open>The connection made by the constructor of \<open>Grafana\<close> is inside the same \<open>try\<close>.\<close>

fun find_grafana :: "'m workload_env \<Rightarrow> environment list \<Rightarrow> ('m site xworld, exn, (pyval \<times> pyval) list) io" where
  "find_grafana E [] = io_return []"
| "find_grafana E (e # es) =
     io_bind (io_lift (grafana_of (xb E) e)) (\<lambda>g.
     io_bind (case g of None \<Rightarrow> io_return []
         | Some (t, h) \<Rightarrow> io_try (io_seq (grafana_connect (ops E) t h) (io_return [(t, h)]))
             (\<lambda>x. isinstance_exn x PyKeyError) (\<lambda>x. io_return [])) (\<lambda>gs.
     io_bind (find_grafana E es) (\<lambda>hs. io_return (gs @ hs))))"

definition make_backend :: "importer \<Rightarrow> node option list \<Rightarrow> pyval \<Rightarrow> exn + backend" where
  "make_backend imp bs b =
     (case bs of [] \<Rightarrow> Inl PyIndexError | None # _ \<Rightarrow> Inl PyAttributeError
      | Some n # _ \<Rightarrow>
          (case get_class_from_klass imp (klass (vm n)) of
             Inl e \<Rightarrow> Inl e
           | Inr k \<Rightarrow> Inr \<lparr>b_klass = k, b_nodes = (if clustered k then AllBackends bs else FirstBackend n), b_bt = b\<rparr>))"

definition WorkloadRunning :: "'m workload_env \<Rightarrow> workload_args \<Rightarrow> ('m site xworld, exn, workload_running) io" where
  "WorkloadRunning E a =
     io_bind (load_cluster (xb E)) (\<lambda>c.
     io_bind (io_lift (load_workload_conf (workload_yaml E) a)) (\<lambda>conf.
     io_bind (io_lift (as_pydict (bt_param a))) (\<lambda>b.
     let c' = c\<lparr>bt := XB_Machine.bt_update (bt c) b\<rparr> in
     io_bind (io_lift (get_backend_nodes (tree_lib (xb E)) c')) (\<lambda>bs.
     io_bind (io_lift (make_backend (import_klass (xb E)) bs (VDict b))) (\<lambda>bk.
     io_seq (backend_init (ops E) bk)
    (io_bind (find_grafana E (envs c')) (\<lambda>gs.
       io_return \<lparr>wargs = a, wcluster = c', workload_conf = conf, all_backends = bs, wbackend = bk,
         grafana_servers = gs\<rparr>)))))))"

section \<open>Running\<close>

text \<open>The parameters of a runner; \<open>VObj\<close> stands for the backend object.\<close>

definition get_all_params :: "workload_running \<Rightarrow> string \<Rightarrow> pydict" where
  "get_all_params r dir =
     dict_update (dict_update (dict_update (dict_update (dict_update (workload_conf r) (bt (wcluster r)))
       [(''artifact_dir'', VStr dir)]) [(''workload_name'', VStr (workload_name (wargs r)))])
       [(''backend'', VObj ''backend'')]) (wl_extra (wargs r))"

definition runner_class :: "'m workload_env \<Rightarrow> workload_running \<Rightarrow> exn + component_klass" where
  "runner_class E r =
     (case dget (workload_conf r) ''klass'' of
        Some (VStr k) \<Rightarrow> get_class_from_klass (import_klass (xb E)) k
      | _ \<Rightarrow> Inl PyAttributeError)"

definition make_runner :: "'m workload_env \<Rightarrow> workload_running \<Rightarrow> string \<Rightarrow> node option list \<Rightarrow> exn + runner" where
  "make_runner E r dir ns =
     (case runner_class E r of Inl e \<Rightarrow> Inl e
      | Inr k \<Rightarrow> Inr \<lparr>rn_klass = k, rn_nodes = ns, rn_params = get_all_params r dir\<rparr>)"

definition workload_self_test :: "'m workload_env \<Rightarrow> workload_running \<Rightarrow> ('m site xworld, exn, unit) io" where
  "workload_self_test E r =
     io_bind (io_lift (group_nodes_by_name (tree_lib (xb E)) (import_klass (xb E)) (wcluster r))) (\<lambda>gs.
     io_for (dvalues gs) (\<lambda>g.
       io_seq (member_init (ops E) (g_klass g) (g_nodes g) (bt_param (wargs r)))
        (if is_driver_klass (ops E) (g_klass g) then
           driver_test (ops E) (g_klass g) (g_nodes g) (bt_param (wargs r)) (bt (wcluster r))
         else if ko_is_proxy (klasses (xb E)) (g_klass g) then
           proxy_test (ops E) (g_klass g) (g_nodes g) (bt_param (wargs r))
         else if ko_is_backend (klasses (xb E)) (g_klass g) then
           io_seq (group_db_connect (ops E) (g_klass g) (g_nodes g) (bt_param (wargs r)))
                  (group_backend_test (ops E) (g_klass g) (g_nodes g) (bt_param (wargs r)))
         else io_return ())))"

definition first_node :: "node option list \<Rightarrow> exn + node" where
  "first_node ns = (case ns of [] \<Rightarrow> Inl PyIndexError | None # _ \<Rightarrow> Inl PyAttributeError | Some n # _ \<Rightarrow> Inr n)"

definition database_of :: "workload_running \<Rightarrow> pyval" where
  "database_of r = dget_default (bt (wcluster r)) ''database'' VNone"

definition prepare :: "'m workload_env \<Rightarrow> workload_running \<Rightarrow> ('m site xworld, exn, unit) io" where
  "prepare E r =
     io_bind (io_lift (get_all_driver_nodes (tree_lib (xb E)) (wcluster r))) (\<lambda>ns.
     io_bind (io_lift (first_node ns)) (\<lambda>n.
     io_bind (io_lift (get_klass (import_klass (xb E)) n)) (\<lambda>k.
     io_seq (driver_clean_database (ops E) k n (bt (wcluster r)))
    (io_bind (io_lift (make_runner E r (wl_artifact_dir (wargs r)) ns)) (\<lambda>rn.
     io_seq (runner_prepare (ops E) rn)
    (io_seq (runner_data_check (ops E) rn)
    (io_seq (backend_connect (ops E) (wbackend r))
            (backend_print_db_size (ops E) (wbackend r) (database_of r)))))))))"

text \<open>The directory of a run, for the time stamp \<open>t\<close>.\<close>

definition run_directory :: "workload_running \<Rightarrow> string \<Rightarrow> string" where
  "run_directory r t =
     wl_artifact_dir (wargs r) @ ''/'' @ cluster_name (wcluster r) @ ''/'' @ t @ ''_'' @ benchmark_name (wargs r)
     @ (case wl_tag (wargs r) of Some (c # cs) \<Rightarrow> ''_'' @ c # cs | _ \<Rightarrow> [])"

section \<open>Snapshots\<close>

definition product_dashboards :: "(string, string list) dict" where
  "product_dashboards =
     [(''xpand'', [''xpandstats'', ''nodeexporter'']),
      (''mariadb'', [''mysqlexporterquickstartanddashboard'', ''mysqlinnodbmetrics'', ''nodeexporter'']),
      (''mysql'', [''mysqlexporterquickstartanddashboard'', ''mysqlinnodbmetrics'', ''nodeexporter'']),
      (''aurora-mysql'', [''nodeexporter'']), (''aurora-postgres'', [''nodeexporter'']),
      (''postgres'', [''postgresqldatabase'', ''nodeexporter'']), (''xgres'', [''nodeexporter''])]"

text \<open>One variable of a dashboard; \<open>options\<close> holds the object set as \<open>current\<close>.\<close>

definition update_variable :: "string \<Rightarrow> string \<Rightarrow> pyval \<Rightarrow> exn + pyval" where
  "update_variable var_name var_value v =
     (case subscript v ''name'' of
        Inl e \<Rightarrow> Inl e
      | Inr n \<Rightarrow>
          if n \<noteq> VStr var_name then Inr v
          else
            (let current = VDict [(''selected'', VBool True), (''text'', VStr var_value), (''value'', VStr var_value)] in
             case v of
               VDict d \<Rightarrow> Inr (VDict (dset (dset (dset (dset d ''current'' current) ''options'' (VList [current]))
                            ''type'' (VStr ''custom'')) ''query'' (VStr var_value)))
             | _ \<Rightarrow> Inl PyTypeError))"

fun update_variables :: "string \<Rightarrow> string \<Rightarrow> pyval list \<Rightarrow> exn + pyval list" where
  "update_variables n x [] = Inr []"
| "update_variables n x (v # vs) =
     (case update_variable n x v of Inl e \<Rightarrow> Inl e
      | Inr v' \<Rightarrow> (case update_variables n x vs of Inl e \<Rightarrow> Inl e | Inr vs' \<Rightarrow> Inr (v' # vs')))"

definition update_var_template :: "pyval \<Rightarrow> string \<Rightarrow> string \<Rightarrow> exn + pyval" where
  "update_var_template dashboard var_name var_value =
     (case subscript dashboard ''templating'' of Inl e \<Rightarrow> Inl e | Inr t \<Rightarrow>
     (case subscript t ''list'' of Inl e \<Rightarrow> Inl e | Inr l \<Rightarrow>
     (case (dashboard, t, l) of
        (VDict dd, VDict td, VList vs) \<Rightarrow>
          (case update_variables var_name var_value vs of
             Inl e \<Rightarrow> Inl e
           | Inr vs' \<Rightarrow> Inr (VDict (dset dd ''templating'' (VDict (dset td ''list'' (VList vs'))))))
      | (_, _, VStr []) \<Rightarrow> Inr dashboard
      | (_, _, VDict []) \<Rightarrow> Inr dashboard
      | _ \<Rightarrow> Inl PyTypeError)))"

definition with_time :: "string \<Rightarrow> string \<Rightarrow> pyval \<Rightarrow> exn + pyval" where
  "with_time iso_from iso_to dashboard =
     (case dashboard of
        VDict d \<Rightarrow> Inr (VDict (dset (dset d ''time''
            (VDict [(''from'', VStr iso_from), (''raw'', VDict [(''from'', VStr iso_from), (''to'', VStr iso_to)]),
               (''to'', VStr iso_to)])) ''refresh'' (VStr [])))
      | _ \<Rightarrow> Inl PyTypeError)"

text \<open>One snapshot of a dashboard, and its address seen from outside.\<close>

definition take_snapshot :: "'m workload_env \<Rightarrow> pyval \<Rightarrow> pyval \<Rightarrow> string \<Rightarrow> ('m site xworld, exn, string) io" where
  "take_snapshot E host dashboard snapshot_name =
     io_bind (create_new_snapshot (ops E) host dashboard snapshot_name) (\<lambda>s.
     io_bind (io_lift (subscript s ''url'')) (\<lambda>u.
       case u of
         VStr url \<Rightarrow> io_return (replace_all ''localhost:3000'' (name_of (xb E) host @ '':3000'') url)
       | _ \<Rightarrow> io_raise PyAttributeError))"

text \<open>The first node of each level of the tree.\<close>

definition first_names :: "anytree \<Rightarrow> cluster \<Rightarrow> exn + string list" where
  "first_names A c =
     (if [] \<in> set (level_order_group_cluster_members A c) then Inl PyIndexError
      else Inr (map (\<lambda>g. hd (split_on (CHR '','') (tname (hd g)))) (level_order_group_cluster_members A c)))"

fun node_snapshots :: "'m workload_env \<Rightarrow> pyval \<Rightarrow> cluster \<Rightarrow> string \<Rightarrow> pyval \<Rightarrow> string list \<Rightarrow>
    ('m site xworld, exn, string list) io" where
  "node_snapshots E host c period dashboard [] = io_return []"
| "node_snapshots E host c period dashboard (n # ns) =
     (case dget (members c) n of
        None \<Rightarrow> io_raise PyAttributeError
      | Some nd \<Rightarrow>
          if managed (vm nd) then
            io_bind (io_lift (update_var_template dashboard ''node'' n)) (\<lambda>d.
            io_bind (take_snapshot E host d (cluster_name c @ ''_nodeexporter_'' @ n @ ''_'' @ period)) (\<lambda>u.
            io_bind (node_snapshots E host c period d ns) (\<lambda>us. io_return (u # us))))
          else node_snapshots E host c period dashboard ns)"

definition dashboard_snapshots :: "'m workload_env \<Rightarrow> pyval \<Rightarrow> cluster \<Rightarrow> string \<Rightarrow> string \<Rightarrow> string \<Rightarrow>
    ('m site xworld, exn, string list) io" where
  "dashboard_snapshots E host c time_from time_to dashboard_name =
     (let period = name_time E time_from @ ''-'' @ name_time E time_to in
      io_bind (get_dashboard (ops E) host dashboard_name) (\<lambda>x.
      io_bind (io_lift (subscript x ''dashboard'')) (\<lambda>d0.
      io_bind (io_lift (with_time (iso_time E time_from) (iso_time E time_to) d0)) (\<lambda>d1.
      io_bind (io_lift (update_var_template d1 ''cluster'' (cluster_name c))) (\<lambda>d2.
        if dashboard_name = ''nodeexporter'' then
          io_bind (io_lift (first_names (tree_lib (xb E)) c)) (\<lambda>ns. node_snapshots E host c period d2 ns)
        else
          io_bind (io_lift (get_backend_nodes (tree_lib (xb E)) c)) (\<lambda>bs.
          io_bind (io_lift (first_node bs)) (\<lambda>n.
            if managed (vm n) then
              io_bind (io_lift (update_var_template d2 ''node'' (vm_name (vm n)))) (\<lambda>d3.
              io_bind (take_snapshot E host d3 (cluster_name c @ ''_'' @ dashboard_name @ ''_'' @ period)) (\<lambda>u.
                io_return [u]))
            else io_return [])))))))"

definition create_snapshot :: "'m workload_env \<Rightarrow> pyval \<Rightarrow> cluster \<Rightarrow> string \<Rightarrow> string \<Rightarrow>
    ('m site xworld, exn, string list) io" where
  "create_snapshot E host c time_from time_to =
     (case dget (bt c) ''product'' of
        Some (VStr p) \<Rightarrow>
          io_bind (io_map (case dget product_dashboards p of None \<Rightarrow> [] | Some ds \<Rightarrow> ds)
            (dashboard_snapshots E host c time_from time_to)) (\<lambda>uss. io_return (concat uss))
      | _ \<Rightarrow> io_return [])"

section \<open>The run, backup and restore\<close>

text \<open>
  \<open>run\<close> returns the directory of the run, which is also kept as the artifact directory of the
  object.
\<close>

definition run_in_directory :: "'m workload_env \<Rightarrow> workload_running \<Rightarrow> string \<Rightarrow> node option list \<Rightarrow>
    ('m site xworld, exn, string) io" where
  "run_in_directory E r dir ns =
     io_seq (make_directory E dir)
    (io_bind (io_lift (runner_class E r)) (\<lambda>k.
     io_bind (save_timestamp E (path_join dir ''start'')) (\<lambda>time_from.
     io_seq (save_tag E (wargs r) (path_join dir ''tag''))
    (io_seq (write_file E (path_join dir ''workload.yaml'') (yaml_dump E (VDict (workload_conf r))))
    (io_seq (runner_run (ops E) \<lparr>rn_klass = k, rn_nodes = ns, rn_params = get_all_params r dir\<rparr>)
    (io_bind (save_timestamp E (path_join dir ''stop'')) (\<lambda>time_to.
     io_seq (io_for (grafana_servers r) (\<lambda>(t, h).
       io_bind (create_snapshot E h (wcluster r) time_from time_to) (\<lambda>urls.
         save_snapshot_urls E urls (path_join dir ''snapshot_url''))))
      (io_return dir))))))))"

definition workload_run :: "'m workload_env \<Rightarrow> workload_running \<Rightarrow> ('m site xworld, exn, string) io" where
  "workload_run E r =
     io_catch [PyOSError, BenchmarkException] XbenchException
      (io_bind (io_lift (get_all_driver_nodes (tree_lib (xb E)) (wcluster r))) (\<lambda>ns.
       io_bind (io_gets (local_stamp E)) (\<lambda>t. run_in_directory E r (run_directory r t) ns)))"

fun cloud_args_of :: "'r xbench \<Rightarrow> string \<Rightarrow> environment list \<Rightarrow> pyval option \<Rightarrow> exn + pyval option" where
  "cloud_args_of X e [] acc = Inr acc"
| "cloud_args_of X e (v # vs) acc =
     (if env_name v = e then
        (case load_cloud X (env_cloud v) of Inl x \<Rightarrow> Inl x | Inr cc \<Rightarrow>
        (case subscript cc (env_region v) of Inl x \<Rightarrow> Inl x | Inr rc \<Rightarrow> cloud_args_of X e vs (Some rc)))
      else cloud_args_of X e vs acc)"

definition backend_cloud_args :: "'r xbench \<Rightarrow> workload_running \<Rightarrow> exn + pyval option" where
  "backend_cloud_args X r =
     (if envs (wcluster r) = [] then Inr None
      else case first_node (all_backends r) of
        Inl e \<Rightarrow> Inl e
      | Inr n \<Rightarrow> cloud_args_of X (env (vm n)) (envs (wcluster r)) None)"

definition backup_restore_dest :: "'m workload_env \<Rightarrow> workload_running \<Rightarrow> ('m site xworld, exn, string) io" where
  "backup_restore_dest E r =
     io_bind (io_lift (get_all_driver_nodes (tree_lib (xb E)) (wcluster r))) (\<lambda>ns.
     io_bind (io_lift (make_runner E r (wl_artifact_dir (wargs r)) ns)) (\<lambda>rn.
     io_bind (runner_scale_string (ops E) rn) (\<lambda>scale_string.
       io_return ((case get_backup_type (bt (wcluster r)) of None \<Rightarrow> ''None'' | Some b \<Rightarrow> b) @ ''/'' @ benchmark_name (wargs r) @ ''_''
         @ name_of (xb E) (dget_default (workload_conf r) ''bench'' VNone) @ ''_'' @ scale_string
         @ (case wl_tag (wargs r) of Some (c # cs) \<Rightarrow> ''_'' @ c # cs | _ \<Rightarrow> [])))))"

text \<open>Without an environment that has the backend, \<open>cloud_args\<close> is never bound.\<close>

definition backup :: "'m workload_env \<Rightarrow> workload_running \<Rightarrow> string \<Rightarrow> ('m site xworld, exn, unit) io" where
  "backup E r target =
     io_bind (io_lift (backend_cloud_args (xb E) r)) (\<lambda>ca.
     io_bind (backup_restore_dest E r) (\<lambda>dest.
       case ca of None \<Rightarrow> io_raise PyUnboundLocalError
       | Some cloud_args \<Rightarrow> backend_backup (ops E) (wbackend r) (database_of r) dest cloud_args target))"

definition restore :: "'m workload_env \<Rightarrow> workload_running \<Rightarrow> string \<Rightarrow> ('m site xworld, exn, unit) io" where
  "restore E r target =
     io_bind (io_lift (backend_cloud_args (xb E) r)) (\<lambda>ca.
     io_bind (backup_restore_dest E r) (\<lambda>dest.
     io_seq (case ca of None \<Rightarrow> io_raise PyUnboundLocalError
         | Some cloud_args \<Rightarrow> backend_restore (ops E) (wbackend r) (database_of r) dest cloud_args target)
    (io_bind (io_lift (get_all_driver_nodes (tree_lib (xb E)) (wcluster r))) (\<lambda>ns.
     io_bind (io_lift (make_runner E r (wl_artifact_dir (wargs r)) ns)) (\<lambda>rn.
       io_seq (runner_data_check (ops E) rn) (runner_setup (ops E) rn))))))"

section \<open>Lemmas\<close>

lemma path_join_inject:
  assumes "hd x \<noteq> CHR ''/''" and "hd y \<noteq> CHR ''/''" and "x \<noteq> []" and "y \<noteq> []"
  shows "path_join d x = path_join d y \<longleftrightarrow> x = y"
  using assms by (cases x; cases y) (auto simp: path_join_def startswith_simps)

text \<open>What a step leaves of the files at the paths \<open>P\<close>.\<close>

definition files_at :: "string set \<Rightarrow> (string \<rightharpoonup> string) \<Rightarrow> 'm site xworld \<Rightarrow> bool" where
  "files_at P A w \<longleftrightarrow> (\<forall>p\<in>P. artifacts (machines w) p = A p)"

lemma write_file_keeps: "p \<notin> P \<Longrightarrow> io_keeps (files_at P A) (write_file E p s)"
  by (auto simp: io_keeps_def files_at_def write_file_def)

lemma save_snapshot_urls_keeps: "p \<notin> P \<Longrightarrow> io_keeps (files_at P A) (save_snapshot_urls E urls p)"
  unfolding save_snapshot_urls_def
  by (intro io_keeps_for) (use write_file_keeps [of p P A E] in \<open>auto simp: append_file_def io_keeps_def\<close>)

text \<open>Nothing but \<open>run\<close> itself writes at the paths \<open>P\<close>.\<close>

definition leaves_alone :: "string set \<Rightarrow> 'm workload_env \<Rightarrow> bool" where
  "leaves_alone P E \<longleftrightarrow> (\<forall>A. (\<forall>rn. io_keeps (files_at P A) (runner_run (ops E) rn))
     \<and> (\<forall>h n. io_keeps (files_at P A) (get_dashboard (ops E) h n))
     \<and> (\<forall>h d n. io_keeps (files_at P A) (create_new_snapshot (ops E) h d n)))"

lemma take_snapshot_keeps: "leaves_alone P E \<Longrightarrow> io_keeps (files_at P A) (take_snapshot E h d n)"
  unfolding take_snapshot_def leaves_alone_def
  by (intro io_keeps_bind io_keeps_lift) (auto intro: io_keeps_return io_keeps_raise split: pyval.split)

lemma node_snapshots_keeps: "leaves_alone P E \<Longrightarrow> io_keeps (files_at P A) (node_snapshots E h c s d ns)"
  by (induction E h c s d ns rule: node_snapshots.induct)
     (auto intro!: io_keeps_bind io_keeps_lift io_keeps_return io_keeps_raise take_snapshot_keeps split: option.split)

lemma create_snapshot_keeps:
  assumes "leaves_alone P E"
  shows "io_keeps (files_at P A) (create_snapshot E h c t u)"
proof -
  have "io_keeps (files_at P A) (get_dashboard (ops E) h n)" for n
    using assms by (simp add: leaves_alone_def)
  then have "io_keeps (files_at P A) (dashboard_snapshots E h c t u n)" for n
    unfolding dashboard_snapshots_def Let_def using assms
    by (auto intro!: io_keeps_bind io_keeps_lift io_keeps_return node_snapshots_keeps take_snapshot_keeps)
  then show ?thesis
    unfolding create_snapshot_def
    by (auto intro!: io_keeps_bind io_keeps_map io_keeps_return split: option.split pyval.split)
qed

section \<open>Properties\<close>

text \<open>
  The configuration of a workload: a parameter has the value given on the command line under
  \<open>workload\<close>, else the value of the workload itself, else the default of the benchmark's section.
\<close>

theorem workload_conf_precedence:
  assumes "dget (yaml_config_dict y) (benchmark_name a) = Some (VDict sec)"
    and "dget sec ''defaults'' = Some (VDict d)" and "\<not> is_empty (VDict d)" and "d \<noteq> []"
    and "dget sec ''workloads'' = Some (VDict ws)" and "\<not> is_empty (VDict (dict_update d ws))" and "dict_ok ws"
    and "dget ws (workload_name a) = Some (VDict own_conf)" and "\<not> is_empty (VDict (dict_update d own_conf))"
    and "dict_ok own_conf" and "dget_default (wl_extra a) ''workload'' (VDict []) = VDict x" and "dict_ok x"
    and "benchmark_name a \<noteq> []" and "workload_name a \<noteq> []"
  shows "\<exists>conf. load_workload_conf (Inr y) a = Inr conf
    \<and> (\<forall>k. dget conf k = (case dget x k of Some v \<Rightarrow> Some v | None \<Rightarrow>
          (case dget own_conf k of Some v \<Rightarrow> Some v | None \<Rightarrow> dget d k)))"
proof -
  have t: "truthy (VDict d)" using assms(4) by simp
  have 1: "get_key y (benchmark_name a) ''defaults'' False = Inr (VDict d)"
    using assms(1,2,3,13) by (simp add: get_key_def select_key_def dget_default_def apply_defaults_def)
  have 2: "get_key (y\<lparr>defaults := VDict d\<rparr>) (benchmark_name a) ''workloads'' True = Inr (VDict (dict_update d ws))"
    using assms(1,5,6,13) apply_defaults_dict [OF t]
    by (simp add: get_key_def select_key_def dget_default_def)
  have "dget (dict_update d ws) (workload_name a) = Some (VDict own_conf)" using assms(7,8) by simp
  then have 3: "get_key (y\<lparr>defaults := VDict d, yaml_config_dict := dict_update d ws\<rparr>) (workload_name a) [] True
      = Inr (VDict (dict_update d own_conf))"
    using assms(9,14) apply_defaults_dict [OF t] by (simp add: get_key_def select_key_def dget_default_def)
  have "load_workload_conf (Inr y) a = Inr (dict_update (dict_update d own_conf) x)"
    using 1 2 3 assms(11) by (simp add: load_workload_conf_def as_pydict_def)
  moreover have "dget (dict_update (dict_update d own_conf) x) k = (case dget x k of Some v \<Rightarrow> Some v | None \<Rightarrow>
      (case dget own_conf k of Some v \<Rightarrow> Some v | None \<Rightarrow> dget d k))" for k
    using assms(10,12) by (simp split: option.splits)
  ultimately show ?thesis by blast
qed

definition demo_workload_yaml :: yaml_config where
  "demo_workload_yaml = \<lparr>yaml_config_dict = [(''sysbench'', VDict
       [(''defaults'', VDict [(''klass'', VStr ''benchmark.SysbenchRunner''), (''time'', VInt 60)]),
        (''workloads'', VDict [(''itest'', VDict [(''bench'', VStr ''oltp''), (''time'', VInt 10)])])])],
     defaults = VNone\<rparr>"

definition demo_workload_args :: workload_args where
  "demo_workload_args = \<lparr>benchmark_name = ''sysbench'', workload_name = ''itest'', wl_artifact_dir = ''/tmp'',
     wl_extra = [(''workload'', VDict [(''threads'', VInt 8)])], wl_tag = None\<rparr>"

theorem workload_conf_precedence_witness:
  "\<exists>conf. load_workload_conf (Inr demo_workload_yaml) demo_workload_args = Inr conf
     \<and> dget conf ''threads'' = Some (VInt 8) \<and> dget conf ''time'' = Some (VInt 10)
     \<and> dget conf ''klass'' = Some (VStr ''benchmark.SysbenchRunner'')"
proof -
  let ?d = "[(''klass'', VStr ''benchmark.SysbenchRunner''), (''time'', VInt 60)]"
  let ?o = "[(''bench'', VStr ''oltp''), (''time'', VInt 10)]"
  have "\<exists>conf. load_workload_conf (Inr demo_workload_yaml) demo_workload_args = Inr conf
      \<and> (\<forall>k. dget conf k = (case dget [(''threads'', VInt 8)] k of Some v \<Rightarrow> Some v | None \<Rightarrow>
            (case dget ?o k of Some v \<Rightarrow> Some v | None \<Rightarrow> dget ?d k)))"
    by (rule workload_conf_precedence [where ws = "[(''itest'', VDict ?o)]"
          and sec = "[(''defaults'', VDict ?d), (''workloads'', VDict [(''itest'', VDict ?o)])]"])
       (simp_all add: demo_workload_yaml_def demo_workload_args_def dget_default_def is_empty_def
         is_empty_simple_key_def)
  then show ?thesis by auto
qed

text \<open>The world in which the benchmark is started: the three files are written.\<close>

definition run_started :: "'m workload_env \<Rightarrow> workload_running \<Rightarrow> string \<Rightarrow> 'm site xworld \<Rightarrow> 'm site xworld" where
  "run_started E r dir w = snd (io_seq (save_timestamp E (path_join dir ''start''))
     (io_seq (save_tag E (wargs r) (path_join dir ''tag''))
             (write_file E (path_join dir ''workload.yaml'') (yaml_dump E (VDict (workload_conf r))))) w)"

lemma run_files_distinct:
  "path_join d ''start'' \<noteq> path_join d ''tag''" "path_join d ''start'' \<noteq> path_join d ''workload.yaml''"
  "path_join d ''start'' \<noteq> path_join d ''stop''" "path_join d ''tag'' \<noteq> path_join d ''workload.yaml''"
  "path_join d ''tag'' \<noteq> path_join d ''stop''" "path_join d ''workload.yaml'' \<noteq> path_join d ''stop''"
  "path_join d ''snapshot_url'' \<noteq> path_join d ''start''" "path_join d ''snapshot_url'' \<noteq> path_join d ''workload.yaml''"
  "path_join d ''snapshot_url'' \<noteq> path_join d ''stop''"
  by (simp_all add: path_join_inject)

lemma run_started_files:
  assumes "\<forall>w p. can_write E w p"
  shows "artifacts (machines (run_started E r d w)) = (artifacts (machines w))
    (path_join d ''start'' \<mapsto> utc_stamp E w,
     path_join d ''tag'' \<mapsto> (case wl_tag (wargs r) of Some (c # cs) \<Rightarrow> c # cs
       | _ \<Rightarrow> benchmark_name (wargs r) @ ''_'' @ workload_name (wargs r)),
     path_join d ''workload.yaml'' \<mapsto> yaml_dump E (VDict (workload_conf r)))"
  using assms by (simp add: run_started_def save_timestamp_def save_tag_def write_file_def io_defs)

text \<open>With every file writable, the run is the benchmark followed by the time stamp and the snapshots.\<close>

definition after_benchmark :: "'m workload_env \<Rightarrow> workload_running \<Rightarrow> string \<Rightarrow> string \<Rightarrow> ('m site xworld, exn, string) io" where
  "after_benchmark E r d time_from =
     io_bind (save_timestamp E (path_join d ''stop'')) (\<lambda>time_to.
     io_seq (io_for (grafana_servers r) (\<lambda>(t, h).
       io_bind (create_snapshot E h (wcluster r) time_from time_to) (\<lambda>urls.
         save_snapshot_urls E urls (path_join d ''snapshot_url'')))) (io_return d))"

lemma run_in_directory_split:
  assumes "\<forall>w p. can_write E w p" and "runner_class E r = Inr k"
  shows "run_in_directory E r d ns w =
    io_seq (runner_run (ops E) \<lparr>rn_klass = k, rn_nodes = ns, rn_params = get_all_params r d\<rparr>)
      (after_benchmark E r d (utc_stamp E w)) (run_started E r d w)"
  using assms
  by (simp add: run_in_directory_def after_benchmark_def run_started_def make_directory_def save_timestamp_def
      save_tag_def write_file_def io_seq_def io_bind_def io_lift_def io_gets_def io_return_def)

lemma after_benchmark_keeps:
  assumes "leaves_alone P E" and "path_join d ''stop'' \<notin> P" and "path_join d ''snapshot_url'' \<notin> P"
  shows "io_keeps (files_at P A) (after_benchmark E r d t)"
  unfolding after_benchmark_def save_timestamp_def
  by (intro io_keeps_bind io_keeps_seq io_keeps_gets io_keeps_return io_keeps_for write_file_keeps assms(2))
     (auto intro!: io_keeps_bind create_snapshot_keeps save_snapshot_urls_keeps assms)

lemma after_benchmark_stop:
  assumes "leaves_alone {path_join d ''stop''} E" and "\<forall>w p. can_write E w p"
  shows "artifacts (machines (snd (after_benchmark E r d t w))) (path_join d ''stop'') = Some (utc_stamp E w)"
proof -
  let ?P = "{path_join d ''stop''}" and ?A = "[path_join d ''stop'' \<mapsto> utc_stamp E w]"
  let ?s = "\<lambda>u. io_for (grafana_servers r) (\<lambda>(t', h).
       io_bind (create_snapshot E h (wcluster r) t u) (\<lambda>urls.
         save_snapshot_urls E urls (path_join d ''snapshot_url'')))"
  obtain v where v: "save_timestamp E (path_join d ''stop'') w = (Inr (utc_stamp E w), v)" and "files_at ?P ?A v"
    using assms(2) by (simp add: save_timestamp_def write_file_def io_defs files_at_def)
  moreover have "io_keeps (files_at ?P ?A) (io_seq (?s u) (io_return d))" for u
    by (intro io_keeps_seq io_keeps_return io_keeps_for)
       (auto intro!: io_keeps_bind create_snapshot_keeps save_snapshot_urls_keeps assms(1) simp: run_files_distinct)
  ultimately have "files_at ?P ?A (snd (io_seq (?s (utc_stamp E w)) (io_return d) v))" by (meson io_keepsD)
  with v show ?thesis by (simp add: after_benchmark_def io_bind_def files_at_def)
qed

text \<open>
  C17. The record of a run: whatever happens after the benchmark was started, the artifact directory has the
  start time and the configuration; and it has a stop time exactly when the benchmark returned.
\<close>

theorem workload_run_records:
  assumes "\<forall>w p. can_write E w p" and dir: "dir = run_directory r (local_stamp E w)"
    and "get_all_driver_nodes (tree_lib (xb E)) (wcluster r) = Inr ns" and k: "runner_class E r = Inr k"
    and "\<forall>P. P \<subseteq> {path_join dir ''start'', path_join dir ''workload.yaml'', path_join dir ''stop''} \<longrightarrow> leaves_alone P E"
    and "artifacts (machines w) (path_join dir ''stop'') = None" and "workload_run E r w = (res, w')"
  shows "artifacts (machines w') (path_join dir ''start'') = Some (utc_stamp E w)
    \<and> artifacts (machines w') (path_join dir ''workload.yaml'') = Some (yaml_dump E (VDict (workload_conf r)))
    \<and> (artifacts (machines w') (path_join dir ''stop'') \<noteq> None \<longleftrightarrow>
        (\<exists>v. runner_run (ops E) \<lparr>rn_klass = k, rn_nodes = ns, rn_params = get_all_params r dir\<rparr>
               (run_started E r dir w) = (Inr (), v)))"
proof -
  let ?run = "runner_run (ops E) \<lparr>rn_klass = k, rn_nodes = ns, rn_params = get_all_params r dir\<rparr>"
  let ?P = "{path_join dir ''start'', path_join dir ''workload.yaml''}" and ?Q = "{path_join dir ''stop''}"
  let ?v = "run_started E r dir w"
  have P: "leaves_alone ?P E" and Q: "leaves_alone ?Q E" using assms(5) by auto
  have w': "w' = snd (io_seq ?run (after_benchmark E r dir (utc_stamp E w)) ?v)"
    using assms(3,7) run_in_directory_split [OF assms(1) k, of dir ns w]
    by (auto simp: workload_run_def io_catch_def io_try_def io_bind_def io_lift_def io_gets_def io_raise_def
        dir split: sum.splits prod.splits if_splits)
  have "io_keeps (files_at ?P A) ?run" for A using P by (simp add: leaves_alone_def)
  then have "io_keeps (files_at ?P A) (io_seq ?run (after_benchmark E r dir (utc_stamp E w)))" for A
    by (intro io_keeps_seq after_benchmark_keeps P) (simp_all add: path_join_inject)
  from io_keepsD [OF this, of "artifacts (machines ?v)" ?v]
  have "files_at ?P (artifacts (machines ?v)) w'" unfolding w' by (simp add: files_at_def)
  moreover have "artifacts (machines w') (path_join dir ''stop'') \<noteq> None \<longleftrightarrow> (\<exists>u. ?run ?v = (Inr (), u))"
  proof (cases "?run ?v")
    case (Pair x u)
    have "io_keeps (files_at ?Q A) ?run" for A using Q by (simp add: leaves_alone_def)
    from io_keepsD [OF this, of "artifacts (machines ?v)" ?v]
    have "files_at ?Q (artifacts (machines ?v)) (snd (?run ?v))" by (simp add: files_at_def)
    then have none: "artifacts (machines u) (path_join dir ''stop'') = None"
      using assms(6) Pair by (simp add: files_at_def run_started_files [OF assms(1)] run_files_distinct [symmetric])
    show ?thesis
      using Pair none after_benchmark_stop [OF Q assms(1)]
      by (cases x) (simp_all add: w' io_seq_def io_bind_def)
  qed
  ultimately show ?thesis
    by (simp add: files_at_def run_started_files [OF assms(1)] run_files_distinct)
qed

text \<open>A bench for the witnesses: the runner of the drivers writes nothing.\<close>

definition demo_site_xbench :: "unit site xbench" where
  "demo_site_xbench = \<lparr>xb_cluster_name = ''perf'', impl_yaml = Inr demo_config, cloud_yaml = Inr demo_config,
     topo_yaml = Inr demo_config, dry_run = False, libs = demo_libs,
     storage_from_dict = (\<lambda>v. Inl PyTypeError), tree_lib = queue_tree, import_klass = demo_importer,
     make_cloud = (\<lambda>cl n rc. Inl CloudException), klasses = demo_klasses,
     node_envt = demo_xnode_env, pool = demo_schedule, rand = (\<lambda>i. i), home_path = ''/root''\<rparr>"

definition demo_workload_ops :: "unit site xworld workload_ops" where
  "demo_workload_ops = \<lparr>runner_prepare = (\<lambda>rn. io_return ()), runner_data_check = (\<lambda>rn. io_return ()),
     runner_run = (\<lambda>rn. io_raise SysbenchException), runner_setup = (\<lambda>rn. io_return ()),
     runner_scale_string = (\<lambda>rn. io_return ''1x''), is_driver_klass = (\<lambda>k. False),
     driver_test = (\<lambda>k g b t. io_return ()), driver_clean_database = (\<lambda>k n t. io_return ()),
     proxy_test = (\<lambda>k g b. io_return ()), group_db_connect = (\<lambda>k g b. io_return ()),
     group_backend_test = (\<lambda>k g b. io_return ()), member_init = (\<lambda>k g b. io_return ()),
     backend_init = (\<lambda>b. io_return ()), backend_connect = (\<lambda>b. io_return ()),
     backend_print_db_size = (\<lambda>b d. io_return ()), backend_backup = (\<lambda>b d f c t. io_return ()),
     backend_restore = (\<lambda>b d f c t. io_return ()), get_dashboard = (\<lambda>h n. io_raise PyKeyError),
     create_new_snapshot = (\<lambda>h d n. io_raise PyKeyError), grafana_connect = (\<lambda>t h. io_return ())\<rparr>"

definition demo_workload_env :: "unit workload_env" where
  "demo_workload_env = \<lparr>xb = demo_site_xbench, ops = demo_workload_ops, workload_yaml = Inr demo_workload_yaml,
     local_stamp = (\<lambda>w. ''2023_01_01_10_00''), utc_stamp = (\<lambda>w. ''2023-01-01 10:00:00''),
     iso_time = (\<lambda>t. t), name_time = (\<lambda>t. t), can_write = (\<lambda>w p. True), yaml_dump = (\<lambda>v. ''...'')\<rparr>"

definition demo_running :: workload_running where
  "demo_running = \<lparr>wargs = demo_workload_args, wcluster = demo_cluster,
     workload_conf = [(''klass'', VStr ''driver.Sysbench'')], all_backends = [],
     wbackend = \<lparr>b_klass = \<lparr>klass_name = ''driver.Sysbench'', clustered = False\<rparr>, b_nodes = AllBackends [], b_bt = VDict []\<rparr>,
     grafana_servers = []\<rparr>"

definition demo_site_world :: "unit site xworld" where
  "demo_site_world = \<lparr>cluster_files = [''perf'' \<mapsto> as_dict (py_str demo_libs) demo_saved], archive_files = Map.empty,
     metrics = \<lparr>has_ssh_client = False, targets = []\<rparr>, machines = \<lparr>artifacts = Map.empty, hosts = ()\<rparr>\<rparr>"

lemma demo_driver_nodes:
  "get_all_driver_nodes queue_tree demo_cluster = Inr [Some (demo_member ''driver-0'' ''driver'' ''driver.Sysbench'')]"
  using queue_tree.driver_nodes [of demo_cluster] by (simp add: demo_cluster_def)

theorem workload_run_records_witness:
  "\<exists>res w'. workload_run demo_workload_env demo_running demo_site_world = (res, w')
     \<and> artifacts (machines w') (path_join (run_directory demo_running ''2023_01_01_10_00'') ''start'') = Some ''2023-01-01 10:00:00''
     \<and> artifacts (machines w') (path_join (run_directory demo_running ''2023_01_01_10_00'') ''stop'') = None"
proof -
  obtain res w' where run: "workload_run demo_workload_env demo_running demo_site_world = (res, w')"
    by (cases "workload_run demo_workload_env demo_running demo_site_world")
  let ?d = "run_directory demo_running ''2023_01_01_10_00''"
  let ?n = "[Some (demo_member ''driver-0'' ''driver'' ''driver.Sysbench'')]"
  have d: "?d = run_directory demo_running (local_stamp demo_workload_env demo_site_world)"
    by (simp add: demo_workload_env_def)
  have 1: "\<forall>w p. can_write demo_workload_env w p" by (simp add: demo_workload_env_def)
  have 2: "get_all_driver_nodes (tree_lib (xb demo_workload_env)) (wcluster demo_running) = Inr ?n"
    by (simp add: demo_workload_env_def demo_site_xbench_def demo_running_def demo_driver_nodes)
  obtain k where k: "runner_class demo_workload_env demo_running = Inr k"
    by (simp add: runner_class_def demo_workload_env_def demo_site_xbench_def demo_running_def
        get_class_from_klass_def rsplit1_def demo_importer_def)
  have 3: "leaves_alone P demo_workload_env" for P
    by (simp add: leaves_alone_def demo_workload_env_def demo_workload_ops_def io_keeps_raise)
  have 4: "artifacts (machines demo_site_world) (path_join ?d ''stop'') = None" by (simp add: demo_site_world_def)
  from workload_run_records [OF 1 d 2 k _ 4 run] 3 run show ?thesis
    by (simp add: demo_workload_env_def demo_workload_ops_def io_raise_def)
qed

section \<open>What the workload command leaves alone\<close>

text \<open>Every operation of the runners, drivers, proxies, backends and of Grafana keeps \<open>I\<close>.\<close>

definition ops_keep :: "('w \<Rightarrow> bool) \<Rightarrow> 'w workload_ops \<Rightarrow> bool" where
  "ops_keep I P \<longleftrightarrow>
     (\<forall>rn. io_keeps I (runner_prepare P rn) \<and> io_keeps I (runner_data_check P rn) \<and> io_keeps I (runner_run P rn)
        \<and> io_keeps I (runner_setup P rn) \<and> io_keeps I (runner_scale_string P rn))
   \<and> (\<forall>k g b t n. io_keeps I (driver_test P k g b t) \<and> io_keeps I (driver_clean_database P k n t)
        \<and> io_keeps I (proxy_test P k g b) \<and> io_keeps I (group_db_connect P k g b)
        \<and> io_keeps I (group_backend_test P k g b) \<and> io_keeps I (member_init P k g b))
   \<and> (\<forall>bk d f c t. io_keeps I (backend_init P bk) \<and> io_keeps I (backend_connect P bk)
        \<and> io_keeps I (backend_print_db_size P bk d) \<and> io_keeps I (backend_backup P bk d f c t)
        \<and> io_keeps I (backend_restore P bk d f c t))
   \<and> (\<forall>h n d t. io_keeps I (get_dashboard P h n) \<and> io_keeps I (create_new_snapshot P h d n)
        \<and> io_keeps I (grafana_connect P t h))"

locale workload_frame =
  fixes I :: "'m site xworld \<Rightarrow> bool" and E :: "'m workload_env"
  assumes ops_kept: "ops_keep I (ops E)" and artifacts_free: "I w \<Longrightarrow> I (w\<lparr>machines := m\<rparr>)"
begin

lemma op_keeps:
  "io_keeps I (runner_prepare (ops E) rn)" "io_keeps I (runner_data_check (ops E) rn)"
  "io_keeps I (runner_run (ops E) rn)" "io_keeps I (runner_setup (ops E) rn)" "io_keeps I (runner_scale_string (ops E) rn)"
  "io_keeps I (driver_test (ops E) k g b t)" "io_keeps I (driver_clean_database (ops E) k n t)"
  "io_keeps I (proxy_test (ops E) k g b)" "io_keeps I (group_db_connect (ops E) k g b)"
  "io_keeps I (group_backend_test (ops E) k g b)" "io_keeps I (member_init (ops E) k g b)"
  "io_keeps I (backend_init (ops E) bk)" "io_keeps I (backend_connect (ops E) bk)"
  "io_keeps I (backend_print_db_size (ops E) bk d)" "io_keeps I (backend_backup (ops E) bk d f c u)"
  "io_keeps I (backend_restore (ops E) bk d f c u)"
  "io_keeps I (get_dashboard (ops E) h s)" "io_keeps I (create_new_snapshot (ops E) h d s)"
  "io_keeps I (grafana_connect (ops E) d h)"
  using ops_kept by (simp_all add: ops_keep_def)

lemma file_keeps:
  "io_keeps I (write_file E p s)" "io_keeps I (append_file E p s)" "io_keeps I (make_directory E p)"
  using artifacts_free by (simp_all add: io_keeps_def write_file_def append_file_def make_directory_def)

lemma stamp_keeps: "io_keeps I (save_timestamp E p)" "io_keeps I (save_tag E a p)" "io_keeps I (save_snapshot_urls E us p)"
  unfolding save_timestamp_def save_tag_def save_snapshot_urls_def
  by (intro io_inv_intros file_keeps)+

lemma find_grafana_frame: "io_keeps I (find_grafana E es)"
  by (induction es) (auto intro!: io_inv_intros op_keeps split: option.split prod.split)

lemma construct_frame: "io_keeps I (WorkloadRunning E a)"
  unfolding WorkloadRunning_def Let_def
  by (intro io_inv_intros load_cluster_keeps op_keeps find_grafana_frame)

lemma self_test_frame: "io_keeps I (workload_self_test E r)"
  unfolding workload_self_test_def by (intro io_inv_intros op_keeps)

lemma prepare_frame: "io_keeps I (prepare E r)"
  unfolding prepare_def by (intro io_inv_intros op_keeps)

lemma take_snapshot_frame: "io_keeps I (take_snapshot E h d n)"
  unfolding take_snapshot_def by (intro io_inv_intros op_keeps) (auto intro!: io_inv_intros split: pyval.split)

lemma node_snapshots_frame: "io_keeps I (node_snapshots E h c s d ns)"
  by (induction ns arbitrary: d) (auto intro!: io_inv_intros take_snapshot_frame split: option.split)

lemma create_snapshot_frame: "io_keeps I (create_snapshot E h c t u)"
proof -
  have "io_keeps I (dashboard_snapshots E h c t u n)" for n
    unfolding dashboard_snapshots_def Let_def
    by (intro io_inv_intros op_keeps node_snapshots_frame take_snapshot_frame)
  then show ?thesis
    unfolding create_snapshot_def by (auto intro!: io_inv_intros split: option.split pyval.split)
qed

lemma run_frame: "io_keeps I (workload_run E r)"
proof -
  have "io_keeps I (run_in_directory E r d ns)" for d ns
    unfolding run_in_directory_def
    by (intro io_inv_intros file_keeps stamp_keeps op_keeps)
       (auto intro!: io_inv_intros create_snapshot_frame stamp_keeps)
  then show ?thesis unfolding workload_run_def by (intro io_catch_keeps io_inv_intros)
qed

lemma dest_frame: "io_keeps I (backup_restore_dest E r)"
  unfolding backup_restore_dest_def by (intro io_inv_intros op_keeps)

lemma backup_frame: "io_keeps I (backup E r t)"
  unfolding backup_def by (intro io_inv_intros dest_frame) (auto intro!: io_inv_intros op_keeps split: option.split)

lemma restore_frame: "io_keeps I (restore E r t)"
  unfolding restore_def by (intro io_inv_intros dest_frame op_keeps) (auto intro!: io_inv_intros op_keeps split: option.split)

end

text \<open>
  Operations that act on the machines only (drivers, backends, the runners and their files) leave
  every cluster file and archive alone, so the whole command does.
\<close>

definition machine_ops :: "'m site workload_ops \<Rightarrow> 'm site xworld workload_ops" where
  "machine_ops P = \<lparr>
     runner_prepare = (\<lambda>rn. on_machines (runner_prepare P rn)),
     runner_data_check = (\<lambda>rn. on_machines (runner_data_check P rn)),
     runner_run = (\<lambda>rn. on_machines (runner_run P rn)),
     runner_setup = (\<lambda>rn. on_machines (runner_setup P rn)),
     runner_scale_string = (\<lambda>rn. on_machines (runner_scale_string P rn)),
     is_driver_klass = is_driver_klass P,
     driver_test = (\<lambda>k g b t. on_machines (driver_test P k g b t)),
     driver_clean_database = (\<lambda>k n t. on_machines (driver_clean_database P k n t)),
     proxy_test = (\<lambda>k g b. on_machines (proxy_test P k g b)),
     group_db_connect = (\<lambda>k g b. on_machines (group_db_connect P k g b)),
     group_backend_test = (\<lambda>k g b. on_machines (group_backend_test P k g b)),
     member_init = (\<lambda>k g b. on_machines (member_init P k g b)),
     backend_init = (\<lambda>b. on_machines (backend_init P b)),
     backend_connect = (\<lambda>b. on_machines (backend_connect P b)),
     backend_print_db_size = (\<lambda>b d. on_machines (backend_print_db_size P b d)),
     backend_backup = (\<lambda>b d f c t. on_machines (backend_backup P b d f c t)),
     backend_restore = (\<lambda>b d f c t. on_machines (backend_restore P b d f c t)),
     get_dashboard = (\<lambda>h n. on_machines (get_dashboard P h n)),
     create_new_snapshot = (\<lambda>h d n. on_machines (create_new_snapshot P h d n)),
     grafana_connect = (\<lambda>t h. on_machines (grafana_connect P t h))\<rparr>"

text \<open>The cluster files and the archive, as one invariant.\<close>

definition records_are :: "(string \<rightharpoonup> cluster_doc) \<Rightarrow> (string \<rightharpoonup> cluster_doc) \<Rightarrow> 'r xworld \<Rightarrow> bool" where
  "records_are F A w \<longleftrightarrow> cluster_files w = F \<and> archive_files w = A"

lemma on_machines_records: "io_keeps (records_are F A) (on_machines m)"
  by (rule on_machines_keeps) (simp add: records_are_def)

lemma machine_ops_keep: "ops_keep (records_are F A) (machine_ops P)"
  by (simp add: ops_keep_def machine_ops_def on_machines_records)

interpretation site_ops: workload_frame "records_are F A" "E\<lparr>ops := machine_ops P\<rparr>"
  for F A and E :: "'m workload_env" and P
  by unfold_locales (simp_all add: machine_ops_keep records_are_def)

end
