(* ===== verification/XB_Commands.thy ===== *)
theory XB_Commands
  imports XB_Lifecycle XB_Process
begin

text \<open>
  The short commands:
  \<^verbatim>\<open>xbench/xcommands.py\<close> (\<open>ls\<close>, \<open>ssh\<close>, \<open>sql\<close>, \<open>send\<close>, \<open>recv\<close>),
  \<^verbatim>\<open>xbench/scommands.py\<close> (security groups) and \<^verbatim>\<open>xbench/reporting.py\<close> (the report).
  The operating system is a parameter (\<open>os_shell\<close>). The terminal is left out, except for the lines of
  \<open>ls\<close>, which are its result.
\<close>

section \<open>External commands\<close>

definition get_member :: "cluster \<Rightarrow> string \<Rightarrow> exn + node" where
  "get_member c member = (case dget (members c) member of None \<Rightarrow> Inl XbenchException | Some n \<Rightarrow> Inr n)"

definition network_of :: "node \<Rightarrow> exn + virtual_network" where
  "network_of n = (case network (vm n) of None \<Rightarrow> Inl PyAttributeError | Some v \<Rightarrow> Inr v)"

text \<open>The lines that \<open>ls\<close> prints after the tree.\<close>

fun member_lines :: "(string \<times> node) list \<Rightarrow> exn + string list" where
  "member_lines [] = Inr []"
| "member_lines ((m, n) # ms) =
     (case network_of n of Inl e \<Rightarrow> Inl e | Inr v \<Rightarrow>
        map_sum id (\<lambda>ls. (m @ '':'' @ public_ip v @ '','' @ private_ip v) # ls) (member_lines ms))"

definition bt_field :: "'r xbench \<Rightarrow> cluster \<Rightarrow> string \<Rightarrow> string" where
  "bt_field X c k = name_of X (dget_default (bt c) k VNone)"

definition ls :: "'r xbench \<Rightarrow> cluster \<Rightarrow> exn + string list" where
  "ls X c = map_sum id (\<lambda>lines. (''state: '' @ state c) # lines @
     [join '':'' [''bt'', bt_field X c ''dialect'', bt_field X c ''user'', bt_field X c ''password'',
        bt_field X c ''host'', bt_field X c ''port'', bt_field X c ''database'']]) (member_lines (members c))"

text \<open>
  \<open>xCommands.run\<close>: the process is polled until it ends; there is no timeout. (A missing program is
  reported by the shell as an exit code; \<open>Timed_Out\<close> does not happen without a timeout.)
\<close>

definition xrun :: "'r xworld os_shell \<Rightarrow> string \<Rightarrow> ('r xworld, exn, unit) io" where
  "xrun S command w =
     (case popen S command True None w of
        (Exited out err code, w') \<Rightarrow> (if code \<noteq> 0 then Inl XbenchException else Inr (), w')
      | (No_Program, w') \<Rightarrow> (Inl PyFileNotFoundError, w')
      | (Timed_Out, w') \<Rightarrow> (Inl SubprocessTimeoutExpired, w'))"

definition ssh_command_line :: "node \<Rightarrow> virtual_network \<Rightarrow> string list \<Rightarrow> string" where
  "ssh_command_line n v ssh_command =
     (let base_ssh_command = ''ssh -o StrictHostKeyChecking=no -o LogLevel=ERROR  -i '' @ key_file (vm n) @ '' ''
            @ ssh_user (vm n) @ ''@'' @ public_ip v
      in if ssh_command \<noteq> [] then base_ssh_command @ '' -T '' @ join '' '' ssh_command else base_ssh_command)"

definition xssh :: "'r xworld os_shell \<Rightarrow> cluster \<Rightarrow> string \<Rightarrow> string list \<Rightarrow> ('r xworld, exn, unit) io" where
  "xssh S c member ssh_command =
     io_bind (io_lift (get_member c member)) (\<lambda>n.
     io_bind (io_lift (network_of n)) (\<lambda>v. xrun S (ssh_command_line n v ssh_command)))"

definition mysql_command_line :: "'r xbench \<Rightarrow> cluster \<Rightarrow> virtual_network \<Rightarrow> string list \<Rightarrow> string" where
  "mysql_command_line X c v sql_command =
     (let base_cmd = ''mariadb -A -u '' @ bt_field X c ''user'' @ '' --password='' @ bt_field X c ''password''
            @ '' --port '' @ bt_field X c ''port'' @ '' --host='' @ public_ip v @ '' --database='' @ bt_field X c ''database''
      in if sql_command \<noteq> [] then base_cmd @ '' -e '' @ [CHR 0x22] @ join '' '' sql_command @ [CHR 0x22] @ '' ''
         else base_cmd)"

definition pgsql_command_line :: "'r xbench \<Rightarrow> cluster \<Rightarrow> virtual_network \<Rightarrow> string list \<Rightarrow> string" where
  "pgsql_command_line X c v sql_command =
     (let base_cmd = ''PGPASSWORD='' @ bt_field X c ''password'' @ '' psql -U '' @ bt_field X c ''user'' @ '' -d ''
            @ bt_field X c ''database'' @ '' -h '' @ public_ip v @ '' -w''
      in if sql_command \<noteq> [] then ''echo '' @ [CHR 0x22] @ join '' '' sql_command @ [CHR 0x22] @ '' | '' @ base_cmd @ ''  ''
         else base_cmd)"

definition xsql :: "'r xworld os_shell \<Rightarrow> 'r xbench \<Rightarrow> cluster \<Rightarrow> string \<Rightarrow> string list \<Rightarrow> ('r xworld, exn, unit) io" where
  "xsql S X c member sql_command =
     io_bind (io_lift (get_member c member)) (\<lambda>n.
       if dget (bt c) ''dialect'' = Some (VStr ''mysql'') then
         io_bind (io_lift (network_of n)) (\<lambda>v. xrun S (mysql_command_line X c v sql_command))
       else if dget (bt c) ''dialect'' = Some (VStr ''pgsql'') then
         io_bind (io_lift (network_of n)) (\<lambda>v. xrun S (pgsql_command_line X c v sql_command))
       else io_raise XbenchException)"

definition send :: "'r xworld os_shell \<Rightarrow> cluster \<Rightarrow> string \<Rightarrow> string \<Rightarrow> string \<Rightarrow> ('r xworld, exn, unit) io" where
  "send S c member local_file remote_file =
     io_bind (io_gets (\<lambda>w. path_exists S w local_file)) (\<lambda>there.
       if \<not> there then io_raise XbenchException
       else
         io_bind (io_lift (get_member c member)) (\<lambda>n.
         io_bind (io_lift (network_of n)) (\<lambda>v.
           xrun S (''scp -r -o StrictHostKeyChecking=no -i '' @ key_file (vm n) @ '' '' @ local_file @ '' ''
             @ ssh_user (vm n) @ ''@'' @ public_ip v @ '':'' @ remote_file))))"

definition recv :: "'r xworld os_shell \<Rightarrow> cluster \<Rightarrow> string \<Rightarrow> string \<Rightarrow> string \<Rightarrow> ('r xworld, exn, unit) io" where
  "recv S c member remote_file local_file =
     io_bind (io_lift (get_member c member)) (\<lambda>n.
     io_bind (io_lift (network_of n)) (\<lambda>v.
       xrun S (''scp -r -o StrictHostKeyChecking=no -i '' @ key_file (vm n) @ '' '' @ ssh_user (vm n) @ ''@''
         @ public_ip v @ '':'' @ remote_file @ ''  '' @ local_file)))"

section \<open>Security\<close>

record 'w security_ops =
  list_security_access :: "cli_class \<Rightarrow> pydict \<Rightarrow> ('w, exn, security_record list) io"
  authorize_access :: "cli_class \<Rightarrow> pydict \<Rightarrow> security_record \<Rightarrow> ('w, exn, unit) io"
  revoke_access :: "cli_class \<Rightarrow> pydict \<Rightarrow> security_record \<Rightarrow> ('w, exn, unit) io"

definition SecurityPorts :: "(int \<times> int) list" where "SecurityPorts = [(0, 65535)]"

text \<open>The command-line tool of a region; \<open>None\<close> where the factory has no tool for the cloud.\<close>

definition SecurityCommands :: "'r xbench \<Rightarrow> string option \<Rightarrow> string option \<Rightarrow> exn + (cli_class option \<times> pydict)" where
  "SecurityCommands X cloud_opt region =
     (case (cloud_opt, region) of
        (Some cl, Some rg) \<Rightarrow>
          (case load_cloud X cl of Inl e \<Rightarrow> Inl e | Inr cc \<Rightarrow>
          (case as_pydict cc of Inl e \<Rightarrow> Inl e | Inr d \<Rightarrow>
          (case dget_default d rg VNone of
             VNone \<Rightarrow> Inl XbenchException
           | VDict rc \<Rightarrow> (case create_cli_from_str cl of Inl e \<Rightarrow> Inl e | Inr t \<Rightarrow> Inr (t, rc))
           | _ \<Rightarrow> Inl PyTypeError)))
      | _ \<Rightarrow> Inl XbenchException)"

definition with_cli :: "(cli_class option \<times> pydict) \<Rightarrow> (cli_class \<Rightarrow> pydict \<Rightarrow> ('w, exn, 'a) io) \<Rightarrow> ('w, exn, 'a) io" where
  "with_cli x f = (case x of (None, rc) \<Rightarrow> io_raise PyAttributeError | (Some t, rc) \<Rightarrow> f t rc)"

definition sec_list :: "'w security_ops \<Rightarrow> (cli_class option \<times> pydict) \<Rightarrow> ('w, exn, security_record list) io" where
  "sec_list K x = with_cli x (list_security_access K)"

definition addip :: "'w security_ops \<Rightarrow> (cli_class option \<times> pydict) \<Rightarrow> string \<Rightarrow> ('w, exn, unit) io" where
  "addip K x ip = io_for SecurityPorts (\<lambda>(p, q). 
     io_bind (io_lift (SecurityRecord (VInt p) (VInt q) (VStr ip) VNone default_desc)) (\<lambda>r. with_cli x (\<lambda>t rc. authorize_access K t rc r)))"

definition delip :: "'w security_ops \<Rightarrow> (cli_class option \<times> pydict) \<Rightarrow> string \<Rightarrow> ('w, exn, unit) io" where
  "delip K x ip = io_for SecurityPorts (\<lambda>(p, q). 
     io_bind (io_lift (SecurityRecord (VInt p) (VInt q) (VStr ip) VNone default_desc)) (\<lambda>r. with_cli x (\<lambda>t rc. revoke_access K t rc r)))"

section \<open>Reporting\<close>

definition PAPERMILL_TIMEOUT :: nat where "PAPERMILL_TIMEOUT = 300"
definition NOTEBOOK :: string where "NOTEBOOK = ''xbench.ipynb''"

text \<open>The directory may already be the one of a run of the cluster.\<close>

definition report_directory :: "string \<Rightarrow> string \<Rightarrow> string" where
  "report_directory cname artifact_dir =
     (if contains_str artifact_dir cname then artifact_dir else path_join artifact_dir cname)"

definition report_command :: "string \<Rightarrow> string \<Rightarrow> string option \<Rightarrow> string \<Rightarrow> string option \<Rightarrow> string" where
  "report_command dir bench yaml nb title =
     [newline] @ ''        papermill '' @ (case yaml of None \<Rightarrow> [] | Some y \<Rightarrow> ''-p yaml_config_file_name '' @ y)
     @ '' '' @ (case title of None \<Rightarrow> [] | Some t \<Rightarrow> ''-p title '' @ [CHR 0x27] @ t @ [CHR 0x27])
     @ '' -p search_path '' @ dir @ '' -p benchmark '' @ bench @ '' notebooks/'' @ NOTEBOOK @ '' ''
     @ path_join dir (nb @ ''.ipynb'') @ [newline] @ ''        ''"

definition run_report :: "'w os_shell \<Rightarrow> string \<Rightarrow> string \<Rightarrow> string \<Rightarrow> string option \<Rightarrow> string \<Rightarrow> string option \<Rightarrow>
    ('w, exn, unit) io" where
  "run_report S cname artifact_dir bench yaml nb title =
     io_catch [ProcessExecutionException] XbenchException
      (io_bind (run_process S (report_command (report_directory cname artifact_dir) bench yaml nb title)
        (Some PAPERMILL_TIMEOUT) True) (\<lambda>_. io_return ()))"

end
