(* ===== verification/XB_Main.thy ===== *)
theory XB_Main
  imports XB_Workload XB_Commands
begin

text \<open>
  \<^verbatim>\<open>bin/xb.py\<close>: the command line, and the constructor of \<^verbatim>\<open>xbench/xbench.py\<close>. The parsed
  arguments are a record (\<open>argparse\<close> is the standard library's); what the parser itself refuses, a
  cluster name or a step, is checked here as the parser does. The result of \<open>main\<close> is the exit status
  of the program; an exception that leaves \<open>main\<close> is an error result.
\<close>

section \<open>Arguments and environment\<close>

record xb_args =
  a_command :: string
  a_cluster :: string
  a_log_dir :: string
  a_dry_run :: bool
  a_topo :: string
  a_impl :: string
  a_step :: string
  a_force :: bool
  a_artifact_dir :: "string option"
  a_cloud :: "string option"
  a_region :: "string option"
  a_benchmark :: "string option"
  a_workload :: "string option"
  a_tag :: "string option"
  a_target :: string
  a_notebook_name :: string
  a_notebook_title :: "string option"
  a_yaml_config :: "string option"
  a_member :: string
  a_ssh_command :: "string list"
  a_sql_command :: "string list"
  a_local_file :: string
  a_remote_file :: string
  a_security_action :: string
  a_ip_address :: "string option"

text \<open>The rest of the world: the configuration of the tool, the services and the operating system.\<close>

record 'm tool =
  t_config :: "exn + pydict"
  t_wenv :: "'m workload_env"
  t_nuke :: "cli_class \<Rightarrow> 'm site xworld nuke_ops"
  t_security :: "'m site xworld security_ops"
  t_shell :: "'m site xworld os_shell"
  local_ip_addr :: "('m site xworld, exn, string) io"
  py_eval :: "string \<Rightarrow> exn + pyval"

text \<open>\<open>Xbench.__init__\<close>: the three directories and files must be configured.\<close>

definition Xbench :: "'m tool \<Rightarrow> string \<Rightarrow> bool \<Rightarrow> exn + 'm site xbench" where
  "Xbench T cname dry = catch [YamlConfigException, XbenchConfigException] XbenchException
     (case t_config T of Inl e \<Rightarrow> Inl e | Inr cfg \<Rightarrow>
     (case config_get_key cfg ''conf_dir'' of Inl e \<Rightarrow> Inl e | Inr _ \<Rightarrow>
     (case config_get_key cfg ''clusters_dir'' of Inl e \<Rightarrow> Inl e | Inr _ \<Rightarrow>
     (case config_get_key cfg ''vault_file'' of Inl e \<Rightarrow> Inl e | Inr _ \<Rightarrow>
        Inr ((xb (t_wenv T))\<lparr>xb_cluster_name := cname, dry_run := dry\<rparr>)))))"

definition artifact_dir_of :: "xb_args \<Rightarrow> string" where
  "artifact_dir_of a = (case a_artifact_dir a of Some (c # cs) \<Rightarrow> c # cs | _ \<Rightarrow> a_log_dir a)"

section \<open>The commands\<close>

definition provision_steps :: "'r xbench \<Rightarrow> env_components list \<Rightarrow> string \<Rightarrow> string \<Rightarrow> ('r xworld, exn, unit) io" where
  "provision_steps X ecs tp st =
     (if st = ''all'' then
        io_seq (configure X ecs tp) (io_seq (allocate X ecs) (io_seq (self_test X) (io_seq (XB_Provisioning.make X ecs) (install X ecs))))
      else if st = ''configure'' then configure X ecs tp
      else if st = ''allocate'' then allocate X ecs
      else if st = ''make'' then XB_Provisioning.make X ecs
      else if st = ''test'' then self_test X
      else if st = ''install'' then install X ecs
      else if st = ''clean'' then clean X ecs
      else io_return ())"

definition provision :: "'m tool \<Rightarrow> xb_args \<Rightarrow> pydict \<Rightarrow> ('m site xworld, exn, unit) io" where
  "provision T a extra =
     (if \<not> validate_name_rfc1035 (a_cluster a) then io_raise XbenchException
      else
        io_bind (io_lift (Xbench T (a_cluster a) (a_dry_run a))) (\<lambda>X.
        io_bind (io_lift (build_envs X extra (a_impl a))) (\<lambda>ecs.
        io_bind (io_gets (cluster_yaml_exists X)) (\<lambda>there.
          if there \<and> a_step a \<in> set [''all'', ''configure''] \<and> \<not> a_force a then io_raise XbenchException
          else provision_steps X ecs (a_topo a) (a_step a)))))"

definition opt_text :: "string option \<Rightarrow> string" where
  "opt_text s = (case s of None \<Rightarrow> ''None'' | Some t \<Rightarrow> t)"

definition workload_args_of :: "xb_args \<Rightarrow> pydict \<Rightarrow> workload_args" where
  "workload_args_of a extra = \<lparr>benchmark_name = opt_text (a_benchmark a), workload_name = opt_text (a_workload a),
     wl_artifact_dir = artifact_dir_of a, wl_extra = extra, wl_tag = a_tag a\<rparr>"

text \<open>The artifact directory is returned only when all steps are run.\<close>

definition workload :: "'m tool \<Rightarrow> xb_args \<Rightarrow> pydict \<Rightarrow> ('m site xworld, exn, string option) io" where
  "workload T a extra =
     io_bind (io_lift (Xbench T (a_cluster a) False)) (\<lambda>X.
     let E = (t_wenv T)\<lparr>xb := X\<rparr> in
     io_bind (WorkloadRunning E (workload_args_of a extra)) (\<lambda>r.
       if a_step a = ''all'' then
         io_seq (workload_self_test E r) (io_seq (prepare E r)
           (io_bind (workload_run E r) (\<lambda>dir. io_return (Some dir))))
       else if a_step a = ''test'' then io_seq (workload_self_test E r) (io_return None)
       else if a_step a = ''prepare'' then io_seq (prepare E r) (io_return None)
       else if a_step a = ''run'' then io_seq (workload_run E r) (io_return None)
       else if a_step a = ''backup'' then io_seq (backup E r (a_target a)) (io_return None)
       else if a_step a = ''restore'' then io_seq (restore E r (a_target a)) (io_return None)
       else io_return None))"

definition deprovision :: "'m tool \<Rightarrow> xb_args \<Rightarrow> pydict \<Rightarrow> ('m site xworld, exn, unit) io" where
  "deprovision T a extra =
     io_bind (io_lift (Xbench T (a_cluster a) (a_dry_run a))) (\<lambda>X.
     io_bind (DeProvisioning X (a_cloud a) (a_force a)) (\<lambda>co.
       case (co, a_cloud a) of
         (None, Some cl) \<Rightarrow> nuke X (t_nuke T) cl (a_region a)
       | (Some c, _) \<Rightarrow> deprovision_clean X c
       | (None, None) \<Rightarrow> io_raise PyAttributeError))"

definition security :: "'m tool \<Rightarrow> xb_args \<Rightarrow> pydict \<Rightarrow> ('m site xworld, exn, unit) io" where
  "security T a extra =
     io_bind (if a_cloud a = None \<or> a_region a = None then io_raise XbenchException
              else io_bind (io_lift (Xbench T ''not existing one'' False)) (\<lambda>X.
                io_lift (SecurityCommands X (a_cloud a) (a_region a)))) (\<lambda>s.
     io_bind (case a_ip_address a of None \<Rightarrow> local_ip_addr T | Some ip \<Rightarrow> io_return ip) (\<lambda>ip.
       if a_security_action a = ''list'' then io_seq (sec_list (t_security T) s) (io_return ())
       else if a_security_action a = ''addip'' then addip (t_security T) s ip
       else if a_security_action a = ''delip'' then delip (t_security T) s ip
       else io_return ()))"

definition reporting :: "'m tool \<Rightarrow> xb_args \<Rightarrow> pydict \<Rightarrow> ('m site xworld, exn, unit) io" where
  "reporting T a extra =
     io_bind (io_lift (Xbench T (a_cluster a) False)) (\<lambda>X.
       run_report (t_shell T) (a_cluster a) (artifact_dir_of a) (opt_text (a_benchmark a)) (a_yaml_config a)
         (a_notebook_name a) (a_notebook_title a))"

text \<open>The commands on a loaded cluster.\<close>

definition on_cluster :: "'m tool \<Rightarrow> xb_args \<Rightarrow> ('m site xbench \<Rightarrow> cluster \<Rightarrow> ('m site xworld, exn, unit) io) \<Rightarrow>
    ('m site xworld, exn, unit) io" where
  "on_cluster T a f = io_bind (io_lift (Xbench T (a_cluster a) False)) (\<lambda>X. io_bind (load_cluster X) (f X))"

definition ls_command :: "'m tool \<Rightarrow> xb_args \<Rightarrow> pydict \<Rightarrow> ('m site xworld, exn, unit) io" where
  "ls_command T a extra = on_cluster T a (\<lambda>X c. io_bind (io_lift (ls X c)) (\<lambda>lines. io_return ()))"

definition ssh_command :: "'m tool \<Rightarrow> xb_args \<Rightarrow> pydict \<Rightarrow> ('m site xworld, exn, unit) io" where
  "ssh_command T a extra = on_cluster T a (\<lambda>X c. xssh (t_shell T) c (a_member a) (a_ssh_command a))"

definition sql_command :: "'m tool \<Rightarrow> xb_args \<Rightarrow> pydict \<Rightarrow> ('m site xworld, exn, unit) io" where
  "sql_command T a extra = on_cluster T a (\<lambda>X c. xsql (t_shell T) X c (a_member a) (a_sql_command a))"

definition send_command :: "'m tool \<Rightarrow> xb_args \<Rightarrow> pydict \<Rightarrow> ('m site xworld, exn, unit) io" where
  "send_command T a extra = on_cluster T a (\<lambda>X c. send (t_shell T) c (a_member a) (a_local_file a) (a_remote_file a))"

definition recv_command :: "'m tool \<Rightarrow> xb_args \<Rightarrow> pydict \<Rightarrow> ('m site xworld, exn, unit) io" where
  "recv_command T a extra = on_cluster T a (\<lambda>X c. recv (t_shell T) c (a_member a) (a_remote_file a) (a_local_file a))"

definition stop_command :: "'m tool \<Rightarrow> xb_args \<Rightarrow> pydict \<Rightarrow> ('m site xworld, exn, unit) io" where
  "stop_command T a extra = on_cluster T a (\<lambda>X c. io_seq (start_stop_cluster X ''stop'' c) (io_return ()))"

definition start_command :: "'m tool \<Rightarrow> xb_args \<Rightarrow> pydict \<Rightarrow> ('m site xworld, exn, unit) io" where
  "start_command T a extra = on_cluster T a (\<lambda>X c. io_seq (start_stop_cluster X ''start'' c) (io_return ()))"

section \<open>The program\<close>

text \<open>The end-to-end command. The report is made in the directory the workload returned.\<close>

definition run_all :: "'m tool \<Rightarrow> xb_args \<Rightarrow> pydict \<Rightarrow> ('m site xworld, exn, unit) io" where
  "run_all T a0 extra =
     (let a = a0\<lparr>a_step := ''all''\<rparr> in
      io_seq (provision T a extra)
     (io_bind (workload T a extra) (\<lambda>artifact_dir.
      io_seq (deprovision T a extra) (reporting T (a\<lparr>a_artifact_dir := artifact_dir\<rparr>) extra))))"

text \<open>The handlers that the sub-commands and their short names select.\<close>

datatype xb_func = FProvision | FWorkload | FDeprovision | FSecurity | FReporting
  | FLs | FSsh | FSql | FSend | FRecv | FStop | FStart

definition func_of :: "string \<Rightarrow> xb_func option" where
  "func_of cmd = dget [(''provision'', FProvision), (''p'', FProvision), (''workload'', FWorkload), (''w'', FWorkload),
     (''deprovision'', FDeprovision), (''d'', FDeprovision), (''security'', FSecurity), (''s'', FSecurity),
     (''report'', FReporting), (''t'', FReporting), (''ls'', FLs), (''ssh'', FSsh), (''sql'', FSql),
     (''send'', FSend), (''recv'', FRecv), (''stop'', FStop), (''start'', FStart)] cmd"

definition call_func :: "xb_func \<Rightarrow> 'm tool \<Rightarrow> xb_args \<Rightarrow> pydict \<Rightarrow> ('m site xworld, exn, unit) io" where
  "call_func f T a extra =
     (case f of
        FProvision \<Rightarrow> provision T a extra
      | FWorkload \<Rightarrow> io_seq (workload T a extra) (io_return ())
      | FDeprovision \<Rightarrow> deprovision T a extra
      | FSecurity \<Rightarrow> security T a extra
      | FReporting \<Rightarrow> reporting T a extra
      | FLs \<Rightarrow> ls_command T a extra
      | FSsh \<Rightarrow> ssh_command T a extra
      | FSql \<Rightarrow> sql_command T a extra
      | FSend \<Rightarrow> send_command T a extra
      | FRecv \<Rightarrow> recv_command T a extra
      | FStop \<Rightarrow> stop_command T a extra
      | FStart \<Rightarrow> start_command T a extra)"

text \<open>
  What the parser accepts: a known command, a valid cluster name, a step of the command, and the
  required benchmark and workload. Anything else ends the program with status 2.
\<close>

definition name_rfc1035_type :: "string \<Rightarrow> exn + string" where
  "name_rfc1035_type s = (if \<not> validate_name_rfc1035 s then Inl ArgumentTypeError else Inr s)"

definition is_run :: "string \<Rightarrow> bool" where
  "is_run cmd \<longleftrightarrow> cmd \<in> set [''run'', ''r'']"

definition step_choices :: "string \<Rightarrow> string list option" where
  "step_choices cmd =
     (case func_of cmd of
        Some FProvision \<Rightarrow> Some [''configure'', ''allocate'', ''make'', ''test'', ''install'', ''clean'', ''all'']
      | Some FWorkload \<Rightarrow> Some [''test'', ''prepare'', ''run'', ''backup'', ''restore'', ''all'']
      | _ \<Rightarrow> None)"

definition parser_accepts :: "xb_args \<Rightarrow> bool" where
  "parser_accepts a \<longleftrightarrow> (func_of (a_command a) \<noteq> None \<or> is_run (a_command a))
     \<and> name_rfc1035_type (a_cluster a) = Inr (a_cluster a)
     \<and> (case step_choices (a_command a) of None \<Rightarrow> True | Some cs \<Rightarrow> a_step a \<in> set cs)
     \<and> (is_run (a_command a) \<or> func_of (a_command a) \<in> set [Some FWorkload, Some FReporting] \<longrightarrow> a_benchmark a \<noteq> None)
     \<and> (is_run (a_command a) \<or> func_of (a_command a) = Some FWorkload \<longrightarrow> a_workload a \<noteq> None)"

definition truthy_opt :: "string option \<Rightarrow> bool" where
  "truthy_opt s = (case s of Some (c # cs) \<Rightarrow> True | _ \<Rightarrow> False)"

text \<open>The body of the \<open>try\<close> statement; \<open>exit(1)\<close> is not caught there.\<close>

definition dispatch :: "'m tool \<Rightarrow> xb_args \<Rightarrow> pydict \<Rightarrow> ('m site xworld, exn, nat) io" where
  "dispatch T a extra =
     (if func_of (a_command a) = Some FDeprovision \<and> a_force a \<and> \<not> (truthy_opt (a_cloud a) \<and> truthy_opt (a_region a))
      then io_return 1
      else if is_run (a_command a) then
        (if a_benchmark a = None \<or> a_workload a = None then io_return 1
         else io_seq (run_all T a extra) (io_return 0))
      else
        (case func_of (a_command a) of
           None \<Rightarrow> io_raise PyAttributeError
         | Some f \<Rightarrow> io_seq (call_func f T a extra) (io_return 0)))"

definition main :: "'m tool \<Rightarrow> xb_args \<Rightarrow> string list \<Rightarrow> ('m site xworld, exn, nat) io" where
  "main T a unknown =
     (if \<not> parser_accepts a then io_return 2
      else
        io_bind (io_lift (parse_unknown (py_eval T) unknown)) (\<lambda>extra.
        io_seq (make_directory (t_wenv T) (a_log_dir a @ ''/'' @ a_cluster a))
          (io_try (dispatch T a extra)
            (\<lambda>e. isinstance_any e [XbenchException, CloudException, PyKeyboardInterrupt, PyException])
            (\<lambda>e. io_return 1))))"

section \<open>Lemmas\<close>

text \<open>What a component promises about the cluster files it does not own.\<close>

definition tool_private :: "'m tool \<Rightarrow> bool" where
  "tool_private T \<longleftrightarrow> files_private (xb (t_wenv T))
     \<and> (\<forall>F A. outside_keeps (records_are F A) (xb (t_wenv T)))
     \<and> (\<forall>F A. ops_keep (records_are F A) (ops (t_wenv T)))
     \<and> (\<forall>F A cmd sh t w. records_are F A w \<longrightarrow> records_are F A (snd (popen (t_shell T) cmd sh t w)))"

lemma Xbench_result:
  assumes "Xbench T n dry = Inr X"
  shows "X = (xb (t_wenv T))\<lparr>xb_cluster_name := n, dry_run := dry\<rparr>"
  using assms by (auto simp: Xbench_def catch_def split: sum.splits)

lemma files_private_Xbench: "tool_private T \<Longrightarrow> Xbench T n dry = Inr X \<Longrightarrow> files_private X"
  by (drule Xbench_result) (simp add: tool_private_def files_private_def)

lemma outside_keeps_Xbench: "tool_private T \<Longrightarrow> Xbench T n dry = Inr X \<Longrightarrow> outside_keeps (records_are F A) X"
  by (drule Xbench_result) (simp add: tool_private_def outside_keeps_def)

lemma io_lift_keeps: "(\<And>x. r = Inr x \<Longrightarrow> io_keeps I (f x)) \<Longrightarrow> io_keeps I (io_bind (io_lift r) f)"
  by (rule io_bind_lift_keeps)

text \<open>The workload command changes no cluster file and no archive, however it ends.\<close>

lemma workload_keeps:
  assumes "tool_private T"
  shows "io_keeps (records_are F A) (workload T a extra)"
proof -
  have f: "workload_frame (records_are F A) ((t_wenv T)\<lparr>xb := X\<rparr>)" for X
    using assms by unfold_locales (simp_all add: tool_private_def records_are_def)
  show ?thesis
    unfolding workload_def Let_def
    by (intro io_bind_lift_keeps io_inv_intros)
       (rule workload_frame.construct_frame workload_frame.self_test_frame workload_frame.prepare_frame
         workload_frame.run_frame workload_frame.backup_frame workload_frame.restore_frame, rule f)+
qed

text \<open>A step that leaves the cluster files alone keeps everything that depends on them only.\<close>

lemma files_are_lift:
  fixes m :: "('r xworld, exn, 'a) io"
  assumes "\<And>F. io_keeps (files_are F) m"
  shows "io_keeps (\<lambda>w. P (cluster_files w)) m"
proof (rule io_keepsI)
  fix w :: "'r xworld" assume "P (cluster_files w)"
  with io_keepsD [OF assms, of "cluster_files w" w] show "P (cluster_files (snd (m w)))" by (simp add: files_are_def)
qed

text \<open>The file of the cluster has the cluster's name.\<close>

definition named :: "string \<Rightarrow> (string \<rightharpoonup> cluster_doc) \<Rightarrow> bool" where
  "named n F \<longleftrightarrow> (\<exists>d. F n = Some d \<and> doc_cluster_name d = n)"

lemma load_members_name: "load_members L ms c = Inr c' \<Longrightarrow> cluster_name c' = cluster_name c \<and> state c' = state c"
  by (induction L ms c rule: load_members.induct) (auto simp: add_member_def split: sum.splits)

lemma map_sum_Inr: "map_sum f g x = Inr y \<longleftrightarrow> (\<exists>z. x = Inr z \<and> y = g z)"
  by (cases x) auto

lemma load_cluster_doc:
  assumes "load_cluster X w = (Inr c, w')"
  shows "w' = w \<and> (\<exists>d. cluster_files w (xb_cluster_name X) = Some d \<and> cluster_name c = doc_cluster_name d \<and> state c = doc_state d)"
  using assms by (auto simp: load_cluster_def catch_def load_from_config_def map_sum_Inr dest!: load_members_name
      split: option.splits sum.splits)

lemma configure_named:
  assumes "configure X ecs tp w = (Inr (), w')"
  shows "named (xb_cluster_name X) (cluster_files w')"
  using assms unfolding configure_def Let_def
  by (auto dest!: io_seq_Inr io_bind_Inr simp: save_cluster_def io_modify_def named_def as_dict_def
      build_tree_from_dict_def Cluster_def)

lemma allocate_envs_named:
  assumes "files_private X"
  shows "cluster_name c = n \<Longrightarrow> named n (cluster_files w) \<Longrightarrow>
    named n (cluster_files (snd (allocate_envs X ecs pc (False, c) w)))"
proof (induction ecs arbitrary: pc c w)
  case (Cons ec ecs)
  obtain r v where r: "allocate_env X ec pc (False, c) w = (r, v)" by (cases "allocate_env X ec pc (False, c) w")
  show ?case
  proof (cases r)
    case (Inl e)
    with allocate_env_outcome [OF assms r] Cons.prems r show ?thesis
      by (auto simp: io_bind_def named_def as_dict_def)
  next
    case (Inr p)
    obtain f c' where p: "p = (f, c')" by (cases p)
    with allocate_env_outcome [OF assms r] Inr have f: "\<not> f" "cluster_name c' = cluster_name c"
      "cluster_files v = (cluster_files w)(cluster_name c \<mapsto> as_dict (py_str (libs X)) c')" by auto
    then have "named n (cluster_files v)" using Cons.prems by (simp add: named_def as_dict_def)
    then have "named n (cluster_files (snd (allocate_envs X ecs (env_cloud (ec_env ec) # pc) (False, c') v)))"
      using Cons.IH [of c' v] Cons.prems(1) f(2) by blast
    with f(1) r Inr p show ?thesis by (simp add: io_bind_def)
  qed
qed (simp add: io_return_def)

lemma allocate_named:
  assumes "files_private X" and "allocate X ecs w = (Inr (), w')" and "named (xb_cluster_name X) (cluster_files w)"
  shows "named (xb_cluster_name X) (cluster_files w')"
proof -
  from assms(2) obtain c v where c: "load_cluster X w = (Inr c, v)"
    and run: "io_catch [CloudException, NodeException] XbenchException (allocate_envs X ecs [] (False, c)) v = (Inr (), w')"
    unfolding allocate_def by (auto dest!: io_bind_Inr)
  from load_cluster_doc [OF c] assms(3) have v: "v = w" "cluster_name c = xb_cluster_name X"
    by (auto simp: named_def)
  from run have "snd (allocate_envs X ecs [] (False, c) v) = w'"
    by (auto simp: io_catch_def io_try_def io_raise_def split: prod.splits sum.splits if_splits)
  with allocate_envs_named [OF assms(1) v(2), of w ecs "[]"] assms(3) v(1) show ?thesis by simp
qed

text \<open>All steps of provisioning: when they return, the cluster's file says that it is ready.\<close>

lemma provision_all_ready:
  assumes "files_private X" and "provision_steps X ecs tp ''all'' w = (Inr (), w')"
  shows "\<exists>d. cluster_files w' (xb_cluster_name X) = Some d \<and> doc_cluster_name d = xb_cluster_name X
    \<and> doc_state d = state_value Ready"
proof -
  have keep: "io_keeps (files_are F) (XB_Provisioning.make X ecs)" "io_keeps (files_are F) (self_test X)" for F
    using make_self_test_keep [OF assms(1)] by blast+
  from assms(2) obtain v1 v2 v3 v4 where 1: "configure X ecs tp w = (Inr (), v1)" and 2: "allocate X ecs v1 = (Inr (), v2)"
    and 3: "self_test X v2 = (Inr (), v3)" and 4: "XB_Provisioning.make X ecs v3 = (Inr (), v4)" and 5: "install X ecs v4 = (Inr (), w')"
    unfolding provision_steps_def by (auto dest!: io_seq_Inr)
  have "named (xb_cluster_name X) (cluster_files v2)"
    using allocate_named [OF assms(1) 2] configure_named [OF 1] .
  moreover have "cluster_files v4 = cluster_files v2"
    using io_keepsD [OF keep(2), of "cluster_files v2" v2] io_keepsD [OF keep(1), of "cluster_files v2" v3] 3 4
    by (simp add: files_are_def)
  ultimately have nm: "named (xb_cluster_name X) (cluster_files v4)" by simp
  from install_outcome [OF assms(1) 5] obtain c b where c: "fst (load_cluster X v4) = Inr c"
    and w': "cluster_files w' = (cluster_files v4)(cluster_name c \<mapsto> as_dict (py_str (libs X)) (c\<lparr>bt := b, state := state_value Ready\<rparr>))"
    by auto
  from c have "load_cluster X v4 = (Inr c, snd (load_cluster X v4))" by (simp add: prod_eq_iff)
  from load_cluster_doc [OF this] nm have "cluster_name c = xb_cluster_name X" by (auto simp: named_def)
  with w' show ?thesis by (auto simp: as_dict_def)
qed

lemma provision_result:
  assumes "tool_private T" and "provision T a extra w = (Inr (), w')" and "a_step a = ''all''"
  shows "\<exists>d. cluster_files w' (a_cluster a) = Some d \<and> doc_cluster_name d = a_cluster a \<and> doc_state d = state_value Ready"
proof -
  from assms(2) have "validate_name_rfc1035 (a_cluster a)" by (auto simp: provision_def io_raise_def split: if_splits)
  with assms(2,3) obtain X ecs where X: "Xbench T (a_cluster a) (a_dry_run a) = Inr X"
    and "provision_steps X ecs (a_topo a) ''all'' w = (Inr (), w')"
    by (auto dest!: io_bind_Inr simp: provision_def io_lift_def io_gets_def io_raise_def split: sum.splits if_splits)
  with provision_all_ready [OF files_private_Xbench [OF assms(1) X]] Xbench_result [OF X] show ?thesis by auto
qed

section \<open>Properties\<close>

text \<open>
  C4. A failed workload keeps the cluster: when the end-to-end command provisions the cluster and the workload
  then raises (anything but a \<open>SystemExit\<close>), the program ends with status 1 without de-provisioning:
  the cluster's file is still there and says that the cluster is ready.
\<close>

theorem run_keeps_failed_cluster:
  assumes "tool_private T" and "parser_accepts a" and "is_run (a_command a)"
    and "parse_unknown (py_eval T) unknown = Inr extra" and "can_write (t_wenv T) w (a_log_dir a @ ''/'' @ a_cluster a)"
    and "provision T (a\<lparr>a_step := ''all''\<rparr>) extra w = (Inr (), v)"
    and "workload T (a\<lparr>a_step := ''all''\<rparr>) extra v = (Inl e, w')" and "e \<noteq> PySystemExit"
  shows "main T a unknown w = (Inr 1, w')
    \<and> (\<exists>d. cluster_files w' (a_cluster a) = Some d \<and> doc_state d = state_value Ready)"
proof -
  have "a_benchmark a \<noteq> None" "a_workload a \<noteq> None" using assms(2,3) by (simp_all add: parser_accepts_def)
  moreover have "func_of (a_command a) \<noteq> Some FDeprovision" using assms(3) by (auto simp: is_run_def func_of_def)
  moreover have "run_all T a extra w = (Inl e, w')"
    using assms(6,7) by (simp add: run_all_def Let_def io_seq_def io_bind_def)
  ultimately have "dispatch T a extra w = (Inl e, w')"
    using assms(3) by (auto simp: dispatch_def io_seq_def io_bind_def)
  moreover have "e = PyKeyboardInterrupt \<or> isinstance_exn e PyException"
    using assms(8) by (auto simp: isinstance_Exception)
  then have "isinstance_any e [XbenchException, CloudException, PyKeyboardInterrupt, PyException]"
    by auto
  ultimately have "main T a unknown w = (Inr 1, w')"
    using assms(2,4,5) by (simp add: main_def io_seq_def io_bind_def io_lift_def make_directory_def io_try_def io_return_def)
  moreover obtain d where "cluster_files v (a_cluster a) = Some d" "doc_state d = state_value Ready"
    using provision_result [OF assms(1) assms(6)] by auto
  moreover have "cluster_files w' = cluster_files v"
    using io_keepsD [OF workload_keeps [OF assms(1)], of "cluster_files v" "archive_files v" v "a\<lparr>a_step := ''all''\<rparr>" extra] assms(7)
    by (simp add: records_are_def)
  ultimately show ?thesis by simp
qed


text \<open>A tool for the witnesses: one environment without components, and a topology without nodes.\<close>

definition demo_no_cloud :: "'w cloud_ops" where
  "demo_no_cloud = \<lparr>co_is_running = io_return False, co_launch_storage = (\<lambda>ss. io_return []),
     co_launch_instances = (\<lambda>ps. io_return (Some [])), co_terminate_instances = (\<lambda>ns. io_return ()),
     co_terminate_storage = (\<lambda>ss. io_return ()), co_start_instances = (\<lambda>ns. io_return []),
     co_stop_instances = (\<lambda>ns. io_return ()), co_is_persistent = False\<rparr>"

definition demo_tool_yaml :: yaml_config where
  "demo_tool_yaml = \<lparr>yaml_config_dict =
      [(''itest'', VDict [(''cloud'', VStr ''gcp''), (''region'', VStr ''r'')]),
       (''empty'', VStr ''no nodes''),
       (''providers'', VDict [(''gcp'', VDict [(''r'', VDict [(''key_file'', VStr ''k'')])])])],
     defaults = VNone\<rparr>"

definition demo_tool_xbench :: "unit site xbench" where
  "demo_tool_xbench = demo_site_xbench\<lparr>impl_yaml := Inr demo_tool_yaml, cloud_yaml := Inr demo_tool_yaml,
     topo_yaml := Inr demo_tool_yaml, make_cloud := (\<lambda>cl n rc. Inr demo_no_cloud)\<rparr>"

definition demo_tool :: "unit tool" where
  "demo_tool = \<lparr>t_config = Inr [(''conf_dir'', VStr ''c''), (''clusters_dir'', VStr ''d''), (''vault_file'', VStr ''v'')],
     t_wenv = demo_workload_env\<lparr>xb := demo_tool_xbench\<rparr>,
     t_nuke = (\<lambda>t. \<lparr>nk_instances = io_return [], nk_volumes = io_return [], nk_terminate = (\<lambda>is. io_return ()),
        nk_wait_terminated = (\<lambda>is. io_return ()), nk_delete_volumes = (\<lambda>vs. io_return ())\<rparr>),
     t_security = \<lparr>list_security_access = (\<lambda>t rc. io_return []), authorize_access = (\<lambda>t rc s. io_return ()),
        revoke_access = (\<lambda>t rc s. io_return ())\<rparr>,
     t_shell = \<lparr>popen = (\<lambda>c s t w. (Exited [] [] 0, w)), shell_var = Some ''/bin/sh'', path_exists = (\<lambda>w p. True)\<rparr>,
     local_ip_addr = io_return ''1.2.3.4'', py_eval = eval_none\<rparr>"

definition demo_xb_args :: xb_args where
  "demo_xb_args = \<lparr>a_command = ''run'', a_cluster = ''perf'', a_log_dir = ''/tmp'', a_dry_run = False,
     a_topo = ''empty'', a_impl = ''itest'', a_step = ''all'', a_force = True, a_artifact_dir = None,
     a_cloud = None, a_region = None, a_benchmark = Some ''sysbench'', a_workload = Some ''itest'', a_tag = None,
     a_target = ''ftp'', a_notebook_name = ''results'', a_notebook_title = None, a_yaml_config = None,
     a_member = [], a_ssh_command = [], a_sql_command = [], a_local_file = [], a_remote_file = [],
     a_security_action = ''list'', a_ip_address = None\<rparr>"

lemma demo_name_valid: "validate_name_rfc1035 ''perf''"
  by code_simp


text \<open>The end-to-end command on it, step by step: provisioning returns, and the workload finds no backend.\<close>

definition demo_perf :: "unit site xbench" where "demo_perf = demo_tool_xbench\<lparr>xb_cluster_name := ''perf'', dry_run := False\<rparr>"
lemma demo_perf_opens: "Xbench demo_tool ''perf'' False = Inr demo_perf"
  by (simp add: Xbench_def demo_tool_def catch_def config_get_key_def demo_perf_def)

definition demo_empty_env :: env_components where
  "demo_empty_env = \<lparr>ec_env = \<lparr>env_name = ''env_0'', env_cloud = ''gcp'', env_cloud_klass = [], env_region = ''r''\<rparr>,
     region_config = VDict [(''key_file'', VStr ''k'')], components = [], ec_shared_storage = []\<rparr>"

lemma demo_str_0: "str_nat 0 = ''0''" by code_simp

lemma demo_perf_envs: "build_envs demo_perf [] ''itest'' = Inr [demo_empty_env]"
  by (simp add: build_envs_def build_env_def demo_perf_def demo_tool_xbench_def demo_site_xbench_def load_impl_def load_cloud_def
   load_cloud_value_def catch_def get_key_def select_key_def demo_tool_yaml_def dget_default_def apply_defaults_def is_empty_def
   is_empty_simple_key_def as_pydict_def simple_dict_items_def get_by_value_def name_of_def demo_empty_env_def Let_def demo_str_0 del: str_nat.simps)

definition demo_configured :: cluster where
  "demo_configured = Cluster (\<lambda>i. i) ''perf'' ''empty''"


definition demo_store :: "cluster \<Rightarrow> unit site xworld \<Rightarrow> unit site xworld" where
  "demo_store c w = w\<lparr>cluster_files := (cluster_files w)(''perf'' \<mapsto> as_dict (py_str demo_libs) c)\<rparr>"

lemmas demo_perf_defs = demo_perf_def demo_tool_xbench_def demo_site_xbench_def

lemma demo_opens_cloud: "open_cloud demo_perf demo_empty_env = Inr demo_no_cloud"
  by (simp add: open_cloud_def demo_empty_env_def demo_perf_defs create_cloud_from_str_def from_string_def cloud_names_def)

lemma demo_configure: "configure demo_perf [demo_empty_env] ''empty'' w = (Inr (), demo_store demo_configured w)"
  by (simp add: configure_def demo_opens_cloud demo_no_cloud_def io_defs)
   (simp add: demo_perf_defs load_topo_def catch_def get_key_def select_key_def
    demo_tool_yaml_def dget_default_def apply_defaults_def is_empty_def is_empty_simple_key_def build_tree_from_dict_def Cluster_def level_order_cluster_members_def
    queue_tree_def bfs.simps save_cluster_def io_defs demo_configured_def Let_def demo_store_def)

lemma demo_loads: "members c = [] \<Longrightarrow> cluster_name c = ''perf'' \<Longrightarrow> load_cluster demo_perf (demo_store c w) =
     (Inr (c\<lparr>incarnation := None, bt := bt_as_dict (py_str demo_libs) (bt c)\<rparr>), demo_store c w)"
    by (cases c) (simp add: load_cluster_def demo_perf_defs catch_def demo_store_def load_from_config_def as_dict_def load_envs_to_dict
        demo_libs_def Cluster_def)

definition demo_allocated where "demo_allocated = demo_configured\<lparr>incarnation := None, bt := bt_as_dict (py_str demo_libs) (bt demo_configured), envs := [ec_env demo_empty_env]\<rparr>"

lemma demo_allocate: "allocate demo_perf [demo_empty_env] (demo_store demo_configured w) = (Inr (), demo_store demo_allocated w)"
proof -
  have m: "members demo_configured = []" "cluster_name demo_configured = ''perf''" by (simp_all add: demo_configured_def Cluster_def)
  show ?thesis
  unfolding allocate_def io_bind_def demo_loads [OF m]
  by (simp add: allocate_env_def launch_env_def demo_opens_cloud io_defs demo_no_cloud_def to_launch_def to_fake_def requested_def
     io_catch_def save_cluster_def demo_allocated_def demo_configured_def Cluster_def demo_store_def)
   (simp add: demo_perf_defs demo_empty_env_def)
qed
lemma demo_allocated_empty: "members demo_allocated = []" "cluster_name demo_allocated = ''perf''" "children (cluster_tree demo_allocated) = []"
  by (simp_all add: demo_allocated_def demo_configured_def Cluster_def)

lemma demo_self_test: "self_test demo_perf (demo_store demo_allocated w) = (Inr (), demo_store demo_allocated w)"
  unfolding self_test_def io_catch_def io_try_def io_bind_def demo_loads [OF demo_allocated_empty(1,2)]
  by (simp add: demo_allocated_empty io_defs dvalues_def)

definition demo_metrics where "demo_metrics w = w\<lparr>metrics := metrics_initialize None (metrics w)\<rparr>"

lemma demo_initialize: "initialize_metrics demo_empty_env w = (Inr (), demo_metrics w)"
  by (simp add: initialize_metrics_def demo_empty_env_def as_pydict_def io_defs dget_default_def demo_metrics_def)

lemma demo_pool: "run_parallel (pool demo_perf) [] w = (Inr (), w)" "run_parallel_returning (pool demo_perf) [] w = (Inr [], w)"
  by (simp_all add: run_parallel_def run_parallel_returning_def demo_perf_defs demo_schedule_def io_defs)

lemma demo_make: "XB_Provisioning.make demo_perf [demo_empty_env] (demo_store demo_allocated w) = (Inr (), demo_metrics (demo_store demo_allocated w))"
  unfolding XB_Provisioning.make_def io_catch_def io_try_def io_bind_def demo_loads [OF demo_allocated_empty(1,2)]
  by (simp add: demo_allocated_empty io_defs demo_initialize demo_pool dvalues_def)

lemma demo_metrics_store: "demo_metrics (demo_store c w) = demo_store c (demo_metrics w)" by (simp add: demo_metrics_def demo_store_def)

lemma demo_no_groups: "children (cluster_tree c) = [] \<Longrightarrow> group_nodes_by_name (tree_lib demo_perf) imp c = Inr []"
  by (cases "cluster_tree c") (simp add: group_nodes_by_name_def group_iterations_def level_order_group_cluster_members_def demo_perf_defs queue_tree_def bfs.simps)

definition demo_installed where "demo_installed = demo_allocated\<lparr>incarnation := None, bt := no_target, state := ''ready''\<rparr>"

lemma demo_install: "install demo_perf [demo_empty_env] (demo_store demo_allocated w) = (Inr (), demo_store demo_installed (demo_metrics w))"
  unfolding install_def io_catch_def io_try_def io_bind_def demo_loads [OF demo_allocated_empty(1,2)]
  by (simp add: demo_allocated_empty io_defs demo_initialize demo_pool install_components_def demo_no_groups groups_of_env_def save_cluster_def dvalues_def)
     (simp add: demo_store_def demo_perf_defs demo_allocated_empty demo_metrics_def demo_installed_def)

lemma demo_provision:
  "provision demo_tool demo_xb_args [] w = (Inr (), demo_store demo_installed (demo_metrics (demo_metrics w)))"
  using demo_name_valid
  by (simp add: provision_def demo_xb_args_def demo_perf_opens demo_perf_envs io_defs provision_steps_def demo_configure demo_allocate demo_self_test demo_make demo_metrics_store demo_install)

lemma demo_installed_empty: "members demo_installed = []" "cluster_name demo_installed = ''perf''" "children (cluster_tree demo_installed) = []"
  by (simp_all add: demo_installed_def demo_allocated_empty)

lemma demo_no_backends: "children (cluster_tree c) = [] \<Longrightarrow> get_backend_nodes (tree_lib demo_perf) c = Inl PyIndexError"
  by (cases "cluster_tree c") (simp add: get_backend_nodes_def level_order_group_cluster_members_def demo_perf_defs queue_tree_def bfs.simps)

lemma demo_workload_fails: "workload demo_tool demo_xb_args [] (demo_store demo_installed w) = (Inl PyIndexError, demo_store demo_installed w)"
proof -
  have y: "load_workload_conf (workload_yaml (t_wenv demo_tool)) (workload_args_of demo_xb_args []) \<noteq> Inl e" for e
    by (simp add: load_workload_conf_def demo_tool_def demo_workload_env_def demo_workload_yaml_def workload_args_of_def demo_xb_args_def
       opt_text_def get_key_def select_key_def dget_default_def apply_defaults_def is_empty_def is_empty_simple_key_def as_pydict_def save_dict_merge_def)
  then obtain conf where c: "load_workload_conf (workload_yaml (t_wenv demo_tool)) (workload_args_of demo_xb_args []) = Inr conf"
    by (cases "load_workload_conf (workload_yaml (t_wenv demo_tool)) (workload_args_of demo_xb_args [])") auto
  have a: "a_cluster demo_xb_args = ''perf''" "wl_extra (workload_args_of demo_xb_args []) = []"
     by (simp_all add: demo_xb_args_def workload_args_of_def)
  show ?thesis
  by (simp add: workload_def demo_perf_opens a WorkloadRunning_def io_bind_def io_lift_def Let_def demo_loads [OF demo_installed_empty(1,2)] c bt_param_def dget_default_def as_pydict_def demo_no_backends demo_installed_empty(3))
qed

lemma demo_tool_private: "tool_private demo_tool"
proof -
  have k: "klass_keeps I demo_klasses" for I :: "unit site xworld \<Rightarrow> bool"
    by (simp add: klass_keeps_def demo_klasses_def io_keeps_return)
  have c: "cloud_keeps I demo_no_cloud" for I :: "unit site xworld \<Rightarrow> bool"
    by (simp add: cloud_keeps_def demo_no_cloud_def io_keeps_return)
  have o: "ops_keep I demo_workload_ops" for I
    by (simp add: ops_keep_def demo_workload_ops_def io_keeps_return io_keeps_raise)
  have r: "remote_keeps I (ssh (demo_xnode_env :: unit site xworld node_env))" for I
    by (simp add: remote_keeps_def demo_xnode_env_def io_keeps_return)
  have f: "files_private demo_tool_xbench"
    using k c r by (auto simp: files_private_def demo_tool_xbench_def demo_site_xbench_def demo_schedule_valid demo_xnode_env_def files_are_def)
  have u: "outside_keeps (records_are F A) demo_tool_xbench" for F A
    using k c by (auto simp: outside_keeps_def demo_tool_xbench_def demo_site_xbench_def demo_schedule_valid records_are_def)
  show ?thesis
    using f u o by (simp add: tool_private_def demo_tool_def demo_workload_env_def)
qed

theorem run_keeps_failed_cluster_witness:
  "\<exists>w' d. main demo_tool demo_xb_args [] demo_site_world = (Inr 1, w')
     \<and> cluster_files w' ''perf'' = Some d \<and> doc_state d = ''ready''"
proof -
  have a: "demo_xb_args\<lparr>a_step := ''all''\<rparr> = demo_xb_args" "a_cluster demo_xb_args = ''perf''" by (simp_all add: demo_xb_args_def)
  have p: "parser_accepts demo_xb_args" "is_run (a_command demo_xb_args)"
    using demo_name_valid
    by (simp_all add: parser_accepts_def demo_xb_args_def func_of_def is_run_def name_rfc1035_type_def step_choices_def)
  have w: "can_write (t_wenv demo_tool) demo_site_world q" for q
    by (simp add: demo_tool_def demo_workload_env_def)
  have u: "parse_unknown (py_eval demo_tool) [] = Inr []" by (simp add: parse_unknown_def)
  from run_keeps_failed_cluster [OF demo_tool_private p u w, unfolded a, OF demo_provision demo_workload_fails] show ?thesis by auto
qed

end
