(* ===== verification/Spec2Isabelle.thy ===== *)
theory Spec2Isabelle
  imports XB_Prelude XB_Exceptions XB_Common XB_Retry XB_Params XB_Config XB_Machine XB_Ssh XB_Node XB_Cluster
    XB_Cloud XB_Provisioning XB_Lifecycle XB_Process XB_Sysbench XB_Sql XB_SkySql XB_SkySql2 XB_Colo XB_Aws XB_Gcp
    XB_Backend XB_Benchbase XB_Hammerdb XB_Databases XB_Managed XB_Proxies XB_Columnstore XB_Tools XB_SysTables XB_Components XB_Xpand XB_Workload XB_Commands XB_Main
begin

text \<open>
  XBENCH provisions a cluster of machines in one or more clouds, installs drivers, databases and
  proxies on it, runs benchmarks against it and takes everything down again. This library models the
  core of the program in HOL and proves what its parts promise.

  \<^bold>\<open>The program and its parts.\<close> \<^verbatim>\<open>bin/xb.py\<close> parses a command and calls one class of
  \<^verbatim>\<open>xbench/\<close>: \<open>Provisioning\<close>, \<open>WorkloadRunning\<close>, \<open>DeProvisioning\<close>, \<open>CloudCommands\<close>,
  \<open>xCommands\<close>, \<open>SecurityCommands\<close> or \<open>Reporting\<close>. They read the configuration
  (\<^verbatim>\<open>lib/yaml_config\<close>, \<^verbatim>\<open>lib/xbench_config.py\<close>), keep the cluster
  (\<^verbatim>\<open>compute/cluster.py\<close>) in a file, ask a cloud (\<^verbatim>\<open>cloud/\<close>) for machines and run the
  component classes (drivers, backends, proxies) on nodes (\<^verbatim>\<open>compute/node.py\<close>) over ssh, in
  parallel (\<^verbatim>\<open>compute/run_parallel.py\<close>) and with retries
  (\<^verbatim>\<open>common/retry_decorator.py\<close>).

  \<^bold>\<open>How it is modelled.\<close> A Python dictionary is an association list that keeps the order of
  insertion (\<open>dict\<close>); values read from YAML and JSON are \<open>pyval\<close>. An exception is a value of
  \<open>exn\<close>, with the class hierarchy of the program (\<open>isinstance_exn\<close>), so that every \<open>except\<close> clause
  is a test of the model. A method with effects is a function of type \<open>('w, exn, 'a) io\<close>: from a world
  to a result or an exception, and a world. Services and libraries that are not part of the repository
  (asyncssh, anytree, dacite, PyYAML, pymysql, psycopg2, requests, the clouds' tools, Grafana, the
  operating system) are parameters, as fields of the environment records; what a theorem needs of them
  is a hypothesis, discharged for a concrete instance in its witness. Logging is left out.

  \<^bold>\<open>The theories.\<close>

  \<^item> \<open>XB_Prelude\<close>: dictionaries with the interface \<open>dict_ops\<close>, strings, numbers, the \<open>io\<close>
    functions and the invariants they keep (\<open>io_keeps\<close>).

  \<^item> \<open>XB_Exceptions\<close>: the exception classes.

  \<^item> \<open>XB_Common\<close>: \<^verbatim>\<open>common/common.py\<close>. Names are checked against the RFC 1035 grammar (except
    for a trailing newline), and cleaned commands are normal forms.

  \<^item> \<open>XB_Retry\<close>: \<^verbatim>\<open>common/retry_decorator.py\<close>. The decorator returns the first success,
    raises only what it promises, and stops within the bounds of its delays; \<open>retry_delays\<close> is the
    interface, interpreted on the delays of every retried operation of the library.

  \<^item> \<open>XB_Params\<close>: \<^verbatim>\<open>xbench/common.py\<close>: merging of parameters, on values and on shared
    objects (a refinement where nothing is shared, a leak where something is), and the parser of extra
    command-line parameters with its round trip.

  \<^item> \<open>XB_Config\<close>: \<^verbatim>\<open>lib/yaml_config\<close>, \<^verbatim>\<open>lib/vault\<close>, \<^verbatim>\<open>lib/xbench_config.py\<close>.

  \<^item> \<open>XB_Machine\<close>: the data classes of \<^verbatim>\<open>cloud/\<close> and \<^verbatim>\<open>compute/\<close>, the package manager, the
    metrics server.

  \<^item> \<open>XB_Ssh\<close>: \<^verbatim>\<open>compute/ssh_client.py\<close> and \<^verbatim>\<open>compute/pssh_client.py\<close>; \<open>raises_class\<close> is
    the interface of an operation that raises one class of exceptions only.

  \<^item> \<open>XB_Node\<close>: \<^verbatim>\<open>compute/node.py\<close>, \<^verbatim>\<open>compute/multi_node.py\<close>.

  \<^item> \<open>XB_Cluster\<close>: \<^verbatim>\<open>compute/cluster.py\<close>. The laws of the tree library are the locale
    \<open>anytree_laws\<close>, interpreted on a breadth-first traversal with a queue; grouping of nodes, and a
    cluster survives its file.

  \<^item> \<open>XB_Cloud\<close>: \<^verbatim>\<open>cloud/abstract_cloud.py\<close>, the factories, \<^verbatim>\<open>compute/run_parallel.py\<close>.

  \<^item> \<open>XB_Provisioning\<close>, \<open>XB_Lifecycle\<close>: \<^verbatim>\<open>xbench/xbench.py\<close>, \<^verbatim>\<open>provisioning.py\<close>,
    \<^verbatim>\<open>deprovisioning.py\<close>, \<^verbatim>\<open>cloud_commands.py\<close>: what each phase leaves in the cluster
    file, however it ends.

  \<^item> \<open>XB_Sysbench\<close>: \<^verbatim>\<open>benchmark/sysbench/sysbench_runner.py\<close>, with a printer of reports that
    the parser inverts.

  \<^item> \<open>XB_Sql\<close>: \<^verbatim>\<open>lib/mysql_client\<close>, \<^verbatim>\<open>lib/pgsql_client\<close> and the two base backends.

  \<^item> \<open>XB_SkySql\<close>, \<open>XB_SkySql2\<close>: \<^verbatim>\<open>cloud/skysql/\<close>, both generations of the API.

  \<^item> \<open>XB_Process\<close>: \<^verbatim>\<open>compute/run_subprocess.py\<close> and the part of \<^verbatim>\<open>cloud/abstract_cli.py\<close>
    that runs the vendors' tools: every failure of a process is one exception.

  \<^item> \<open>XB_Colo\<close>, \<open>XB_Aws\<close>, \<open>XB_Gcp\<close>: \<^verbatim>\<open>cloud/colo/\<close>, \<^verbatim>\<open>cloud/aws/\<close> and
    \<^verbatim>\<open>cloud/gcp/\<close>. Each of the last two ends in a provider of \<open>XB_Cloud\<close>, and the cloud made of
    it leaves the cluster file alone, as the phases of provisioning ask.

  \<^item> \<open>XB_Backend\<close>: \<^verbatim>\<open>backend/base_backend.py\<close>, \<^verbatim>\<open>driver/base_driver.py\<close>.

  \<^item> \<open>XB_Databases\<close>: \<^verbatim>\<open>backend/mariadb/\<close>, \<^verbatim>\<open>mysql/\<close>, \<^verbatim>\<open>postgresql/\<close>,
    \<^verbatim>\<open>tidb/\<close> and \<^verbatim>\<open>externaldb/\<close>, with bounds of the memory they ask for.

  \<^item> \<open>XB_Managed\<close>: \<^verbatim>\<open>backend/aurora/\<close>, \<^verbatim>\<open>rds/\<close>, \<^verbatim>\<open>skysql/\<close> and
    \<^verbatim>\<open>alloydb/\<close>, and the providers \<^verbatim>\<open>cloud/aws/aws_aurora_*.py\<close> and \<^verbatim>\<open>aws_rds_*.py\<close>.

  \<^item> \<open>XB_Benchbase\<close>, \<open>XB_Hammerdb\<close>: \<^verbatim>\<open>benchmark/benchbase/\<close>, \<^verbatim>\<open>benchmark/hammerdb/\<close>:
    configuration, runs, the search for errors and the tables of results, against reference definitions.

  \<^item> \<open>XB_Proxies\<close>: \<^verbatim>\<open>proxy/maxscale/\<close>, \<^verbatim>\<open>proxy/xm/\<close> and \<^verbatim>\<open>proxy/xgres/\<close>: installation,
    configuration and the target that the drivers get.

  \<^item> \<open>XB_Columnstore\<close>: \<^verbatim>\<open>backend/columnstore/\<close>: installation, replication, the storage in S3,
    and the self test against a description of a healthy cluster.

  \<^item> \<open>XB_Tools\<close>: \<^verbatim>\<open>backend/metrics_server/\<close>, the installers of sysbench and locust, the file
    shares of GCP, and \<^verbatim>\<open>lib/xpand_monitor/memoize.py\<close>, whose differences are shown to add up.

  \<^item> \<open>XB_SysTables\<close>: the tables that the sysbench runner saves, against a description of their cells.

  \<^item> \<open>XB_Components\<close>: the component classes of the theories above as the operations that the phases of
    provisioning call (\<open>component_ops\<close>, with the helpers of \<^verbatim>\<open>xbench/common.py\<close>), what they leave alone,
    and so the promise of installation for the real classes; and the target that a proxy hands on.

  \<^item> \<open>XB_Xpand\<close>: \<^verbatim>\<open>backend/xpand/\<close>: installation, zones, quorum, builds, waits, backup and restore.

  \<^item> \<open>XB_Workload\<close>: \<^verbatim>\<open>xbench/workload_running.py\<close>, \<^verbatim>\<open>lib/grafana.py\<close>. The locale
    \<open>workload_frame\<close> says what the command leaves alone; it is interpreted on operations that act on the
    machines only.

  \<^item> \<open>XB_Commands\<close>: \<^verbatim>\<open>xbench/xcommands.py\<close>, \<^verbatim>\<open>scommands.py\<close>, \<^verbatim>\<open>reporting.py\<close>.

  \<^item> \<open>XB_Main\<close>: \<^verbatim>\<open>bin/xb.py\<close>: the handlers, the end-to-end command and the exit status, with
    the properties that span the phases.

  \<^bold>\<open>Bounds and fuel.\<close> Loops over lists, delays and counted polls are structural. The one loop of the
  model that the code does not bound is the wait for an InnoDB checkpoint (\<open>checkpoint_wait\<close>): it runs on
  fuel, running out is the result \<open>None\<close>, and the fuel \<open>7 * m + 15\<close> is shown to be enough for \<open>m\<close> dirty pages that
  never grow in number. The wait of Xpand for its
  rebalancer (\<open>wait_until_no_data\<close>) is of the same kind: \<open>m + 1\<close> polls are enough when the answer gets shorter with
  every poll. \<open>get_host_for_instance\<close> calls itself until a host suits; its fuel is the depth of the calls Python
  allows, and running out is Python's own error. The class hierarchy is searched to depth four, which is shown to be all of it.

  \<^bold>\<open>Not modelled.\<close> The phases of provisioning and the workload command are proved for any backend, driver, proxy and
  benchmark that keeps the interface stated as a record of operations. \<open>XB_Components\<close> instantiates it with the base
  driver, MariaDB, MySQL, PostgreSQL, ColumnStore and its S3 storage, the proxies and the metrics server; Xpand, TiDB, the
  managed databases and the benchmarks stay a parameter there (\<open>ce_other\<close>, \<open>ce_bench\<close>). The older shell ssh client, the older Xpand class of the release tracker, the clients of Slack,
  SQLite and MariaDB and the queries of the Xpand monitor are not called by the core. The terminal output, the log, the notebooks
  and the copies of configuration files in the artifact directory of provisioning have no effect on
  the rest of the program.
\<close>

end
